(* ===== verification/Prelude.thy ===== *)
theory Prelude
  imports Main "HOL-Library.Word" "HOL-Library.Char_ord" "HOL-Library.List_Lexorder"
begin

text \<open>
  Shared vocabulary of the development. It holds: the collections of rewrite rules the
  components fill; the error values of the program (the sentinels of \<open>pkg/sdk/errors.go\<close>
  and of the packages that declare their own, wrapping as \<open>fmt.Errorf("%w: ...")\<close> does it,
  and \<open>errors.Is\<close>); the result of a Go call that may return, fail or panic; and the
  functions of Go's \<open>strings\<close>, \<open>strconv\<close> and \<open>fmt\<close> packages the sources use, on byte
  strings, with the lemmas about them that several components need.
\<close>

named_theorems res_simps "unfolding rules of the result type"
named_theorems str_simps "facts about the string functions"

section \<open>Machine integers\<close>

type_synonym int64 = "64 word"
type_synonym int32 = "32 word"

lemma sint64_range: "- (2 ^ 63) \<le> sint (w :: int64)" "sint (w :: int64) < 2 ^ 63"
  using sint_range_size [of w] by (auto simp: word_size)

lemma sint_word_of_int64: "- (2 ^ 63) \<le> k \<Longrightarrow> k < 2 ^ 63 \<Longrightarrow> sint (word_of_int k :: int64) = k"
  by (simp add: sint_uint word_of_int_inverse signed_take_bit_int_eq_self_iff uint_word_of_int_eq
      signed_take_bit_take_bit)

lemma sint_add64:
  "- (2 ^ 63) \<le> sint a + sint b \<Longrightarrow> sint a + sint b < 2 ^ 63 \<Longrightarrow> sint (a + b :: int64) = sint a + sint b"
  using sint_word_of_int64 [of "sint a + sint b"] by (simp flip: wi_hom_add)

lemma sint_mul64:
  "- (2 ^ 63) \<le> sint a * sint b \<Longrightarrow> sint a * sint b < 2 ^ 63 \<Longrightarrow> sint (a * b :: int64) = sint a * sint b"
  using sint_word_of_int64 [of "sint a * sint b"] by (simp flip: wi_hom_mult)

section \<open>Errors and results\<close>

text \<open>
  Sentinels are constructors; \<open>Wrapped\<close> is an error built by \<open>fmt.Errorf\<close> with \<open>%w\<close> (the
  fixed part of the message is kept, interpolated values are not); \<open>Opaque\<close> is an error of
  another library or an ad hoc \<open>errors.New\<close>, compared by its text only.
\<close>

datatype err =
    ErrNotFound | ErrAlreadyExists | ErrInvalidInput | ErrUnauthorized | ErrForbidden
  | ErrConflict | ErrInternal
  | ErrTenantRequired | ErrTenantNotFound | ErrTenantSuspended
  | ErrCurrencyMismatch | ErrInvalidCurrency | ErrInvalidAmount | ErrUnitMismatch
  | ErrDivisionByZero
  | ErrInvalidServiceAccount | ErrInvalidAPIKey | ErrAPIKeyExpired | ErrAPIKeyRevoked
  | ErrIPNotAllowed
  | ErrEndpointNotFound | ErrEndpointInactive | ErrInvalidURL | ErrSecretTooShort
  | ErrModuleNotFound | ErrDuplicateModule | ErrInvalidManifest | ErrCircularDependency
  | ErrPathTraversal | ErrFileNotFound
  | ErrInvalidToken | ErrNoRows
  | Wrapped string err
  | Opaque string

text \<open>\<open>errors.Is\<close>: equality along the chain of wrapped errors.\<close>

fun errors_Is :: "err \<Rightarrow> err \<Rightarrow> bool" where
  "errors_Is (Wrapped m e) t = (Wrapped m e = t \<or> errors_Is e t)"
| "errors_Is e t = (e = t)"

lemma errors_Is_refl [simp]: "errors_Is e e"
  by (cases e) auto

text \<open>A Go call returns a value, returns a non-nil error, or panics.\<close>

datatype 'a res = Ret 'a | Fail err | Panic string

fun bind_res :: "'a res \<Rightarrow> ('a \<Rightarrow> 'b res) \<Rightarrow> 'b res" where
  "bind_res (Ret x) k = k x"
| "bind_res (Fail e) k = Fail e"
| "bind_res (Panic m) k = Panic m"

fun is_Ret :: "'a res \<Rightarrow> bool" where
  "is_Ret (Ret x) = True"
| "is_Ret _ = False"

lemma bind_res_Ret_iff [res_simps]:
  "bind_res m k = Ret y \<longleftrightarrow> (\<exists>x. m = Ret x \<and> k x = Ret y)"
  by (cases m) auto

lemma bind_res_Fail_iff [res_simps]:
  "bind_res m k = Fail e \<longleftrightarrow> m = Fail e \<or> (\<exists>x. m = Ret x \<and> k x = Fail e)"
  by (cases m) auto

lemma is_Ret_iff [res_simps]: "is_Ret m \<longleftrightarrow> (\<exists>x. m = Ret x)"
  by (cases m) auto

section \<open>Lists\<close>

lemma find_in_set: "find P xs = Some x \<Longrightarrow> x \<in> set xs \<and> P x"
  by (auto simp: find_Some_iff)

lemma find_append: "find P (xs @ ys) = (case find P xs of None \<Rightarrow> find P ys | Some x \<Rightarrow> Some x)"
  by (induction xs) auto

lemma distinct_map_inj: "distinct (map f xs) \<Longrightarrow> x \<in> set xs \<Longrightarrow> y \<in> set xs \<Longrightarrow> f x = f y \<Longrightarrow> x = y"
  by (auto simp: distinct_map inj_on_def)

lemma find_key_unique:
  assumes "distinct (map f xs)" and "x \<in> set xs"
  shows "find (\<lambda>y. f y = f x) xs = Some x"
proof (cases "find (\<lambda>y. f y = f x) xs")
  case None
  with assms(2) show ?thesis by (auto simp: find_None_iff)
next
  case (Some z)
  then have "z \<in> set xs" and "f z = f x" by (auto dest: find_in_set)
  with assms Some show ?thesis by (auto dest: distinct_map_inj)
qed

section \<open>Go maps of slices\<close>

text \<open>
  A Go map is the list of its entries, in the order in which a \<open>range\<close> visits them; the visit
  order of another \<open>range\<close> is any permutation. \<open>append_at\<close> is \<open>m[k] = append(m[k], v)\<close> and
  \<open>get_at\<close> is \<open>m[k]\<close>, nil when the key is missing.
\<close>

fun append_at :: "'k \<Rightarrow> 'v \<Rightarrow> ('k \<times> 'v list) list \<Rightarrow> ('k \<times> 'v list) list" where
  "append_at k v [] = [(k, [v])]"
| "append_at k v ((k', vs) # m) = (if k' = k then (k', vs @ [v]) # m else (k', vs) # append_at k v m)"

definition get_at :: "('k \<times> 'v list) list \<Rightarrow> 'k \<Rightarrow> 'v list" where
  "get_at m k = (case map_of m k of None \<Rightarrow> [] | Some vs \<Rightarrow> vs)"

lemma get_at_Nil [simp]: "get_at [] k = []"
  by (simp add: get_at_def)

lemma get_append_at [simp]: "get_at (append_at k v m) k' = (if k' = k then get_at m k @ [v] else get_at m k')"
  by (induction k v m rule: append_at.induct) (auto simp: get_at_def)

lemma keys_append_at [simp]: "fst ` set (append_at k v m) = insert k (fst ` set m)"
  by (induction k v m rule: append_at.induct) auto

lemma distinct_append_at: "distinct (map fst m) \<Longrightarrow> distinct (map fst (append_at k v m))"
proof (induction k v m rule: append_at.induct)
  case (2 k v k' vs m)
  then show ?case using keys_append_at [of k v m] by (auto simp: image_iff)
qed simp

lemma get_at_values: "v \<in> set (get_at m k) \<Longrightarrow> \<exists>vs. (k, vs) \<in> set m \<and> v \<in> set vs"
  by (cases "map_of m k") (auto simp: get_at_def dest: map_of_SomeD)

section \<open>Go strings\<close>

text \<open>
  A Go string is a sequence of bytes, here a \<open>char list\<close> (\<open>len\<close> is \<open>length\<close>). Case mapping
  and case-insensitive comparison are those of the ASCII letters: bytes outside ASCII are
  left as they are (the Unicode tables are not modelled). \<open>TrimSpace\<close> knows the UTF-8
  encodings of all code points with the Unicode white-space property.
\<close>

function trim_front :: "string list \<Rightarrow> string \<Rightarrow> string" where
  "trim_front ps s =
     (case find (\<lambda>p. p \<noteq> [] \<and> take (length p) s = p) ps of
        None \<Rightarrow> s
      | Some p \<Rightarrow> trim_front ps (drop (length p) s))"
  by pat_completeness auto
termination
proof (relation "measure (\<lambda>(ps, s). length s)")
  show "wf (measure (\<lambda>(ps :: string list, s :: string). length s))" by simp
next
  fix ps :: "string list" and s p
  assume "find (\<lambda>p. p \<noteq> [] \<and> take (length p) s = p) ps = Some p"
  then have "p \<noteq> []" and "take (length p) s = p"
    using find_in_set by fastforce+
  then show "((ps, drop (length p) s), (ps, s)) \<in> measure (\<lambda>(ps, s). length s)"
    by (cases s) auto
qed

declare trim_front.simps [simp del]

definition space_seqs :: "string list" where
  "space_seqs =
     [[CHR 0x20], [CHR 0x09], [CHR 0x0A], [CHR 0x0B], [CHR 0x0C], [CHR 0x0D],
      [CHR 0xC2, CHR 0x85], [CHR 0xC2, CHR 0xA0], [CHR 0xE1, CHR 0x9A, CHR 0x80],
      [CHR 0xE2, CHR 0x80, CHR 0x80], [CHR 0xE2, CHR 0x80, CHR 0x81],
      [CHR 0xE2, CHR 0x80, CHR 0x82], [CHR 0xE2, CHR 0x80, CHR 0x83],
      [CHR 0xE2, CHR 0x80, CHR 0x84], [CHR 0xE2, CHR 0x80, CHR 0x85],
      [CHR 0xE2, CHR 0x80, CHR 0x86], [CHR 0xE2, CHR 0x80, CHR 0x87],
      [CHR 0xE2, CHR 0x80, CHR 0x88], [CHR 0xE2, CHR 0x80, CHR 0x89],
      [CHR 0xE2, CHR 0x80, CHR 0x8A], [CHR 0xE2, CHR 0x80, CHR 0xA8],
      [CHR 0xE2, CHR 0x80, CHR 0xA9], [CHR 0xE2, CHR 0x80, CHR 0xAF],
      [CHR 0xE2, CHR 0x81, CHR 0x9F], [CHR 0xE3, CHR 0x80, CHR 0x80]]"

definition trim_left :: "string \<Rightarrow> string" where
  "trim_left s = trim_front space_seqs s"

definition trim_right :: "string \<Rightarrow> string" where
  "trim_right s = rev (trim_front (map rev space_seqs) (rev s))"

definition TrimSpace :: "string \<Rightarrow> string" where
  "TrimSpace s = trim_right (trim_left s)"

definition upper_char :: "char \<Rightarrow> char" where
  "upper_char c = (if CHR ''a'' \<le> c \<and> c \<le> CHR ''z'' then char_of (of_char c - (32::nat)) else c)"

definition lower_char :: "char \<Rightarrow> char" where
  "lower_char c = (if CHR ''A'' \<le> c \<and> c \<le> CHR ''Z'' then char_of (of_char c + (32::nat)) else c)"

definition ToUpper :: "string \<Rightarrow> string" where
  "ToUpper s = map upper_char s"

definition ToLower :: "string \<Rightarrow> string" where
  "ToLower s = map lower_char s"

definition EqualFold :: "string \<Rightarrow> string \<Rightarrow> bool" where
  "EqualFold s t \<longleftrightarrow> ToLower s = ToLower t"

definition HasPrefix :: "string \<Rightarrow> string \<Rightarrow> bool" where
  "HasPrefix s p \<longleftrightarrow> take (length p) s = p"

definition HasSuffix :: "string \<Rightarrow> string \<Rightarrow> bool" where
  "HasSuffix s p \<longleftrightarrow> HasPrefix (rev s) (rev p)"

definition CutSuffix :: "string \<Rightarrow> string \<Rightarrow> string option" where
  "CutSuffix s p = (if HasSuffix s p then Some (take (length s - length p) s) else None)"

text \<open>\<open>strings.Index\<close>: the first position at which the substring starts, if any.\<close>

fun Index :: "string \<Rightarrow> string \<Rightarrow> nat option" where
  "Index [] sub = (if sub = [] then Some 0 else None)"
| "Index (c # cs) sub = (if HasPrefix (c # cs) sub then Some 0 else map_option Suc (Index cs sub))"

definition Contains :: "string \<Rightarrow> string \<Rightarrow> bool" where
  "Contains s sub \<longleftrightarrow> Index s sub \<noteq> None"

text \<open>\<open>strings.ReplaceAll\<close> for a non-empty old string: left to right, no overlaps.\<close>

function ReplaceAll :: "string \<Rightarrow> string \<Rightarrow> string \<Rightarrow> string" where
  "ReplaceAll s old new =
     (if old = [] then s
      else case s of [] \<Rightarrow> []
      | c # cs \<Rightarrow> if HasPrefix s old then new @ ReplaceAll (drop (length old) s) old new
                  else c # ReplaceAll cs old new)"
  by pat_completeness auto
termination
  by (relation "measure (\<lambda>(s, old, new). length s)") (auto simp: HasPrefix_def)

declare ReplaceAll.simps [simp del]

text \<open>\<open>strings.SplitN(s, sep, 2)\<close> for a one-byte separator.\<close>

definition SplitN2 :: "char \<Rightarrow> string \<Rightarrow> string list" where
  "SplitN2 sep s =
     (if sep \<in> set s then [takeWhile (\<lambda>c. c \<noteq> sep) s, tl (dropWhile (\<lambda>c. c \<noteq> sep) s)] else [s])"

text \<open>\<open>strings.Split\<close> for a one-byte separator.\<close>

fun split_on :: "char \<Rightarrow> string \<Rightarrow> string list" where
  "split_on sep [] = [[]]"
| "split_on sep (c # cs) =
     (if c = sep then [] # split_on sep cs
      else case split_on sep cs of [] \<Rightarrow> [[c]] | w # ws \<Rightarrow> (c # w) # ws)"

subsection \<open>Facts about trimming and case mapping\<close>

lemma trim_front_suffix: "\<exists>n. trim_front ps s = drop n s"
proof (induction ps s rule: trim_front.induct)
  case (1 ps s)
  show ?case
  proof (cases "find (\<lambda>p. p \<noteq> [] \<and> take (length p) s = p) ps")
    case None
    then have "trim_front ps s = drop 0 s" by (simp add: trim_front.simps [of ps s])
    then show ?thesis ..
  next
    case (Some p)
    with "1.IH" obtain n where "trim_front ps (drop (length p) s) = drop n (drop (length p) s)"
      by blast
    with Some have "trim_front ps s = drop (n + length p) s"
      by (simp add: trim_front.simps [of ps s])
    then show ?thesis ..
  qed
qed

lemma trim_front_none:
  "find (\<lambda>p. p \<noteq> [] \<and> take (length p) (trim_front ps s) = p) ps = None"
proof (induction ps s rule: trim_front.induct)
  case (1 ps s)
  show ?case
  proof (cases "find (\<lambda>p. p \<noteq> [] \<and> take (length p) s = p) ps")
    case None
    then show ?thesis by (simp add: trim_front.simps [of ps s])
  next
    case (Some p)
    with "1.IH" show ?thesis by (simp add: trim_front.simps [of ps s])
  qed
qed

lemma trim_front_id:
  "find (\<lambda>p. p \<noteq> [] \<and> take (length p) s = p) ps = None \<Longrightarrow> trim_front ps s = s"
  by (subst trim_front.simps) simp

lemma trim_front_idem [simp]: "trim_front ps (trim_front ps s) = trim_front ps s"
  by (rule trim_front_id [OF trim_front_none])

lemma trim_front_Nil [simp]: "trim_front ps [] = []"
  using trim_front_suffix [of ps "[]"] by simp

lemma trim_front_set: "set (trim_front ps s) \<subseteq> set s"
  using trim_front_suffix [of ps s] set_drop_subset by fastforce

lemma trim_right_prefix: "\<exists>n. trim_right s = take n s"
proof -
  obtain n where "trim_front (map rev space_seqs) (rev s) = drop n (rev s)"
    using trim_front_suffix by blast
  then have "trim_right s = take (length s - n) s"
    by (simp add: trim_right_def drop_rev)
  then show ?thesis ..
qed

lemma trim_right_idem [simp]: "trim_right (trim_right s) = trim_right s"
  by (simp add: trim_right_def)

lemma trim_left_trim_right: "trim_left (trim_right (trim_left s)) = trim_right (trim_left s)"
proof -
  let ?t = "trim_left s"
  obtain n where n: "trim_right ?t = take n ?t" using trim_right_prefix by blast
  have none: "\<not> (p \<noteq> [] \<and> take (length p) ?t = p)" if "p \<in> set space_seqs" for p
    using trim_front_none [of space_seqs s] that by (auto simp: find_None_iff trim_left_def)
  have "\<not> (p \<noteq> [] \<and> take (length p) (take n ?t) = p)" if "p \<in> set space_seqs" for p
  proof
    assume p: "p \<noteq> [] \<and> take (length p) (take n ?t) = p"
    then have "length (take (length p) (take n ?t)) = length p" by metis
    then have "length p \<le> n" by simp
    with p have "take (length p) ?t = p" by (simp add: min_def)
    with p none that show False by blast
  qed
  then have "find (\<lambda>p. p \<noteq> [] \<and> take (length p) (take n ?t) = p) space_seqs = None"
    by (simp add: find_None_iff)
  from trim_front_id [OF this] n show ?thesis by (simp add: trim_left_def)
qed

lemma TrimSpace_idem [simp, str_simps]: "TrimSpace (TrimSpace s) = TrimSpace s"
  by (simp add: TrimSpace_def trim_left_trim_right)

lemma TrimSpace_Nil [simp, str_simps]: "TrimSpace [] = []"
  by (simp add: TrimSpace_def trim_left_def trim_right_def)

lemma TrimSpace_set: "set (TrimSpace s) \<subseteq> set s"
  using trim_front_set [of "map rev space_seqs" "rev (trim_left s)"] trim_front_set [of space_seqs s]
  by (auto simp: TrimSpace_def trim_left_def trim_right_def)

lemma upper_char_not_lower:
  "\<not> (CHR ''a'' \<le> upper_char c \<and> upper_char c \<le> CHR ''z'')"
  by (auto simp: upper_char_def less_eq_char_def split: if_splits)

lemma lower_char_not_upper:
  "\<not> (CHR ''A'' \<le> lower_char c \<and> lower_char c \<le> CHR ''Z'')"
  by (auto simp: lower_char_def less_eq_char_def split: if_splits)

lemma upper_char_idem [simp]: "upper_char (upper_char c) = upper_char c"
  using upper_char_not_lower [of c] by (auto simp: upper_char_def [of "upper_char c"])

lemma lower_char_idem [simp]: "lower_char (lower_char c) = lower_char c"
  using lower_char_not_upper [of c] by (auto simp: lower_char_def [of "lower_char c"])

lemma length_ToUpper [simp]: "length (ToUpper s) = length s"
  by (simp add: ToUpper_def)

lemma length_ToLower [simp]: "length (ToLower s) = length s"
  by (simp add: ToLower_def)

lemma ToUpper_idem [simp, str_simps]: "ToUpper (ToUpper s) = ToUpper s"
  by (simp add: ToUpper_def)

lemma ToLower_idem [simp, str_simps]: "ToLower (ToLower s) = ToLower s"
  by (simp add: ToLower_def)

lemma ToUpper_Trim_ToUpper [simp, str_simps]:
  "ToUpper (TrimSpace (ToUpper s)) = TrimSpace (ToUpper s)"
proof -
  have "upper_char c = c" if "c \<in> set (TrimSpace (ToUpper s))" for c
    using that TrimSpace_set [of "ToUpper s"] by (auto simp: ToUpper_def)
  then show ?thesis by (simp add: ToUpper_def map_idI)
qed

section \<open>Decimal and hexadecimal text\<close>

definition digit_char :: "nat \<Rightarrow> char" where
  "digit_char d = char_of (if d < 10 then 48 + d else 87 + d)"

fun base_string :: "nat \<Rightarrow> nat \<Rightarrow> string" where
  "base_string b n = (if b < 2 \<or> n < b then [digit_char n] else base_string b (n div b) @ [digit_char (n mod b)])"

declare base_string.simps [simp del]

definition dec_string :: "nat \<Rightarrow> string" where
  "dec_string n = base_string 10 n"

definition pad_zeros :: "nat \<Rightarrow> string \<Rightarrow> string" where
  "pad_zeros w s = replicate (w - length s) (CHR ''0'') @ s"

text \<open>\<open>fmt.Sprintf("%0<w>d", v)\<close>: the sign counts towards the width.\<close>

definition fmt_0d :: "nat \<Rightarrow> int \<Rightarrow> string" where
  "fmt_0d w v = (if v < 0 then ''-'' @ pad_zeros (w - 1) (dec_string (nat (- v)))
                 else pad_zeros w (dec_string (nat v)))"

definition fmt_d :: "int \<Rightarrow> string" where
  "fmt_d v = (if v < 0 then ''-'' @ dec_string (nat (- v)) else dec_string (nat v))"

definition dec_value :: "string \<Rightarrow> nat" where
  "dec_value s = foldl (\<lambda>a c. 10 * a + (of_char c - 48)) 0 s"

lemma dec_value_append: "dec_value (s @ [c]) = 10 * dec_value s + (of_char c - 48)"
  by (simp add: dec_value_def)

lemma digit_char_value [simp]: "d < 10 \<Longrightarrow> of_char (digit_char d) - (48 :: nat) = d"
  by (simp add: digit_char_def)

lemma dec_string_rec:
  "dec_string n = (if n < 10 then [digit_char n] else dec_string (n div 10) @ [digit_char (n mod 10)])"
  unfolding dec_string_def by (subst base_string.simps) simp

lemma dec_value_dec_string [simp]: "dec_value (dec_string n) = n"
proof (induction n rule: less_induct)
  case (less n)
  show ?case
  proof (cases "n < 10")
    case True
    then have "dec_string n = [digit_char n]" by (subst dec_string_rec) simp
    with True show ?thesis by (simp add: dec_value_def)
  next
    case False
    then have "dec_string n = dec_string (n div 10) @ [digit_char (n mod 10)]"
      by (subst dec_string_rec) simp
    with False less [of "n div 10"] show ?thesis by (simp add: dec_value_append)
  qed
qed

lemma dec_value_zeros: "dec_value (replicate k (CHR ''0'') @ s) = dec_value s"
proof -
  have "foldl (\<lambda>a c. 10 * a + (of_char c - 48)) (0 :: nat) (replicate k (CHR ''0'')) = 0"
    by (induction k) simp_all
  then show ?thesis by (simp add: dec_value_def)
qed

lemma dec_value_pad [simp]: "dec_value (pad_zeros w s) = dec_value s"
  by (simp add: pad_zeros_def dec_value_zeros)

lemma length_dec_string_mono: "n \<le> m \<Longrightarrow> length (dec_string n) \<le> length (dec_string m)"
proof (induction m arbitrary: n rule: less_induct)
  case (less m)
  show ?case
  proof (cases "n < 10")
    case True
    then show ?thesis by (subst dec_string_rec, subst (2) dec_string_rec) (simp add: Suc_leI)
  next
    case False
    with less.prems have "length (dec_string (n div 10)) \<le> length (dec_string (m div 10))"
      by (intro less.IH) (auto intro: div_le_mono)
    with False less.prems show ?thesis by (subst dec_string_rec, subst (2) dec_string_rec) simp
  qed
qed

lemma length_pad_zeros [simp]: "length (pad_zeros w s) = max w (length s)"
  by (simp add: pad_zeros_def)

lemma fmt_0d_inj: "0 \<le> v \<Longrightarrow> 0 \<le> v' \<Longrightarrow> fmt_0d w v = fmt_0d w v' \<Longrightarrow> v = v'"
  by (metis dec_value_dec_string dec_value_pad fmt_0d_def not_less nat_eq_iff2 nat_0_le)

lemma fmt_d_inj: "0 \<le> v \<Longrightarrow> 0 \<le> v' \<Longrightarrow> fmt_d v = fmt_d v' \<Longrightarrow> v = v'"
  by (metis dec_value_dec_string fmt_d_def not_less nat_eq_iff2 nat_0_le)

lemma length_fmt_mono:
  "0 \<le> v \<Longrightarrow> v \<le> v' \<Longrightarrow> length (fmt_0d w v) \<le> length (fmt_0d w v')"
  "0 \<le> v \<Longrightarrow> v \<le> v' \<Longrightarrow> length (fmt_d v) \<le> length (fmt_d v')"
  using length_dec_string_mono [of "nat v" "nat v'"]
  by (simp_all add: fmt_0d_def fmt_d_def nat_mono max.coboundedI2)

lemma dec_string_digits: "c \<in> set (dec_string n) \<Longrightarrow> CHR ''0'' \<le> c \<and> c \<le> CHR ''9''"
proof (induction n rule: less_induct)
  case (less n)
  have "CHR ''0'' \<le> digit_char k \<and> digit_char k \<le> CHR ''9''" if "k < 10" for k
    using that by (auto simp: digit_char_def less_eq_char_def)
  moreover have "CHR ''0'' \<le> c \<and> c \<le> CHR ''9''" if "c \<in> set (dec_string (n div 10))" "\<not> n < 10"
    using that by (intro less.IH) auto
  ultimately show ?case using less.prems by (subst (asm) dec_string_rec) (auto split: if_splits)
qed

lemma base_string_hex: "c \<in> set (base_string 16 n) \<Longrightarrow> CHR ''0'' \<le> c \<and> c \<le> CHR ''f''"
proof (induction n rule: less_induct)
  case (less n)
  have "CHR ''0'' \<le> digit_char k \<and> digit_char k \<le> CHR ''f''" if "k < 16" for k
    using that by (auto simp: digit_char_def less_eq_char_def)
  moreover have "CHR ''0'' \<le> c \<and> c \<le> CHR ''f''" if "c \<in> set (base_string 16 (n div 16))" "\<not> n < 16"
    using that less.IH [of "n div 16"] by simp
  ultimately show ?case using less.prems by (subst (asm) base_string.simps) (auto split: if_splits)
qed

section \<open>Splitting at a byte\<close>

lemma split_on_nonempty [simp]: "split_on sep s \<noteq> []"
  by (induction s) (auto split: list.splits)

lemma split_on_none: "sep \<notin> set s \<Longrightarrow> split_on sep s = [s]"
  by (induction s) auto

lemma split_on_append: "split_on sep (s @ sep # t) = split_on sep s @ split_on sep t"
  by (induction s) (auto split: list.splits)

lemma split_on_elems: "x \<in> set (split_on sep s) \<Longrightarrow> sep \<notin> set x"
  by (induction s arbitrary: x) (auto split: list.splits if_splits)

lemma split_on_cons: "c \<notin> set s \<Longrightarrow> split_on c (s @ c # t) = s # split_on c t"
  by (simp add: split_on_append split_on_none)

end
