(* ===== verification/Float64.thy ===== *)
theory Float64
  imports Complex_Main Prelude
begin

text \<open>
  Go's \<open>float64\<close>: IEEE 754 binary64 with rounding to nearest, ties to even. A finite value
  is a rational; \<open>NZero\<close> is the negative zero. Every arithmetic operation computes the exact
  rational result and rounds it once (\<open>rnd\<close>), as the standard requires, so that the model
  shows the rounding errors the program has. The lemmas give what the components rely on:
  representable values are not changed by rounding, the error of one rounding is at most
  half a unit in the last place, and rounding to an integer is monotone.
\<close>

section \<open>Rounding\<close>

definition pow2 :: "int \<Rightarrow> rat" where
  "pow2 e = (if 0 \<le> e then 2 ^ nat e else 1 / 2 ^ nat (- e))"

fun nlog2 :: "nat \<Rightarrow> nat" where
  "nlog2 n = (if n < 2 then 0 else Suc (nlog2 (n div 2)))"

declare nlog2.simps [simp del]

text \<open>The binary exponent of a positive rational: \<open>pow2 (ilog2 x) \<le> x < pow2 (ilog2 x + 1)\<close>.\<close>

definition ilog2 :: "rat \<Rightarrow> int" where
  "ilog2 x = (case quotient_of x of (p, q) \<Rightarrow>
     let k = int (nlog2 (nat p)) - int (nlog2 (nat q))
     in if pow2 k \<le> x then k else k - 1)"

definition round_half_even :: "rat \<Rightarrow> int" where
  "round_half_even x =
     (let f = \<lfloor>x\<rfloor>; d = x - of_int f
      in if d < 1 / 2 then f else if 1 / 2 < d then f + 1 else if even f then f else f + 1)"

text \<open>The exponent of the last place: 53 significant bits, never below \<open>2^-1074\<close>.\<close>

definition ulp_exp :: "rat \<Rightarrow> int" where
  "ulp_exp x = max (ilog2 \<bar>x\<bar> - 52) (- 1074)"

definition rnd :: "rat \<Rightarrow> rat" where
  "rnd x = (if x = 0 then 0
            else of_int (round_half_even (x / pow2 (ulp_exp x))) * pow2 (ulp_exp x))"

section \<open>Values and operations\<close>

datatype float64 = NaN | PInf | NInf | NZero | Fin rat

fun fval :: "float64 \<Rightarrow> rat" where
  "fval (Fin x) = x"
| "fval _ = 0"

fun fneg_bit :: "float64 \<Rightarrow> bool" where
  "fneg_bit NInf = True"
| "fneg_bit NZero = True"
| "fneg_bit (Fin x) = (x < 0)"
| "fneg_bit _ = False"

definition is_inf :: "float64 \<Rightarrow> bool" where
  "is_inf a \<longleftrightarrow> a = PInf \<or> a = NInf"

definition is_zero :: "float64 \<Rightarrow> bool" where
  "is_zero a \<longleftrightarrow> a = NZero \<or> a = Fin 0"

definition is_finite :: "float64 \<Rightarrow> bool" where
  "is_finite a \<longleftrightarrow> a \<noteq> NaN \<and> \<not> is_inf a"

definition mk_inf :: "bool \<Rightarrow> float64" where
  "mk_inf s = (if s then NInf else PInf)"

definition mk_zero :: "bool \<Rightarrow> float64" where
  "mk_zero s = (if s then NZero else Fin 0)"

definition round64 :: "bool \<Rightarrow> rat \<Rightarrow> float64" where
  "round64 s x =
     (let y = rnd x
      in if y = 0 then mk_zero s
         else if 2 ^ 1024 \<le> \<bar>y\<bar> then mk_inf (y < 0)
         else Fin y)"

fun f_neg :: "float64 \<Rightarrow> float64" where
  "f_neg NaN = NaN"
| "f_neg PInf = NInf"
| "f_neg NInf = PInf"
| "f_neg NZero = Fin 0"
| "f_neg (Fin x) = (if x = 0 then NZero else Fin (- x))"

definition f_abs :: "float64 \<Rightarrow> float64" where
  "f_abs a = (if fneg_bit a then f_neg a else a)"

definition f_add :: "float64 \<Rightarrow> float64 \<Rightarrow> float64" where
  "f_add a b =
     (if a = NaN \<or> b = NaN then NaN
      else if is_inf a then (if is_inf b \<and> a \<noteq> b then NaN else a)
      else if is_inf b then b
      else round64 (fneg_bit a \<and> fneg_bit b) (fval a + fval b))"

definition f_sub :: "float64 \<Rightarrow> float64 \<Rightarrow> float64" where
  "f_sub a b = f_add a (f_neg b)"

definition f_mul :: "float64 \<Rightarrow> float64 \<Rightarrow> float64" where
  "f_mul a b =
     (if a = NaN \<or> b = NaN then NaN
      else if is_inf a \<or> is_inf b
      then (if is_zero a \<or> is_zero b then NaN else mk_inf (fneg_bit a \<noteq> fneg_bit b))
      else round64 (fneg_bit a \<noteq> fneg_bit b) (fval a * fval b))"

definition f_div :: "float64 \<Rightarrow> float64 \<Rightarrow> float64" where
  "f_div a b =
     (if a = NaN \<or> b = NaN then NaN
      else if is_inf a then (if is_inf b then NaN else mk_inf (fneg_bit a \<noteq> fneg_bit b))
      else if is_inf b then mk_zero (fneg_bit a \<noteq> fneg_bit b)
      else if is_zero b
      then (if is_zero a then NaN else mk_inf (fneg_bit a \<noteq> fneg_bit b))
      else round64 (fneg_bit a \<noteq> fneg_bit b) (fval a / fval b))"

text \<open>Comparisons are false when an operand is not a number.\<close>

fun f_lt :: "float64 \<Rightarrow> float64 \<Rightarrow> bool" where
  "f_lt NaN b = False"
| "f_lt a NaN = False"
| "f_lt PInf b = False"
| "f_lt a NInf = False"
| "f_lt NInf b = True"
| "f_lt a PInf = True"
| "f_lt a b = (fval a < fval b)"

definition f_eq :: "float64 \<Rightarrow> float64 \<Rightarrow> bool" where
  "f_eq a b \<longleftrightarrow> a \<noteq> NaN \<and> b \<noteq> NaN \<and> (a = b \<or> is_zero a \<and> is_zero b)"

definition f_le :: "float64 \<Rightarrow> float64 \<Rightarrow> bool" where
  "f_le a b \<longleftrightarrow> f_lt a b \<or> f_eq a b"

text \<open>Conversions: \<open>float64(n)\<close> rounds, \<open>int64(f)\<close> truncates towards zero. The result for an
  operand outside the range of \<open>int64\<close> is left to the platform by the language
  specification: it is the parameter \<open>cvt\<close>.\<close>

definition f_of_int :: "int \<Rightarrow> float64" where
  "f_of_int n = round64 False (of_int n)"

definition rat_trunc :: "rat \<Rightarrow> int" where
  "rat_trunc x = (if 0 \<le> x then \<lfloor>x\<rfloor> else \<lceil>x\<rceil>)"

definition f_to_int64 :: "(float64 \<Rightarrow> int64) \<Rightarrow> float64 \<Rightarrow> int64" where
  "f_to_int64 cvt a =
     (if is_finite a \<and> - (2 ^ 63) \<le> rat_trunc (fval a) \<and> rat_trunc (fval a) < 2 ^ 63
      then word_of_int (rat_trunc (fval a)) else cvt a)"

section \<open>Powers of two and the binary exponent\<close>

lemma pow2_pos [simp]: "0 < pow2 e"
  by (simp add: pow2_def)

lemma pow2_nonzero [simp]: "pow2 e \<noteq> 0"
  by (simp add: pow2_def)

lemma pow2_ge0 [simp]: "0 \<le> pow2 e"
  by (simp add: pow2_def)

lemma pow2_not_neg [simp]: "\<not> pow2 e < 0"
  by (simp add: not_less)

lemma pow2_of_nat: "pow2 (int n) = 2 ^ n"
  by (simp add: pow2_def)

lemma pow2_powi: "pow2 e = 2 powi e"
  by (simp add: pow2_def power_int_def field_simps)

lemma pow2_add: "pow2 (a + b) = pow2 a * pow2 b"
  by (simp add: pow2_powi power_int_add)

lemma pow2_diff: "pow2 (a - b) = pow2 a / pow2 b"
  by (simp add: pow2_powi power_int_diff)

lemma pow2_strict: "a < b \<Longrightarrow> pow2 a < pow2 b"
  by (simp add: pow2_powi power_int_strict_increasing)

lemma pow2_less_iff [simp]: "pow2 a < pow2 b \<longleftrightarrow> a < b"
  by (metis not_less_iff_gr_or_eq pow2_strict)

lemma pow2_le_iff [simp]: "pow2 a \<le> pow2 b \<longleftrightarrow> a \<le> b"
  by (metis not_less pow2_less_iff)

lemma nlog2_bounds: "0 < n \<Longrightarrow> 2 ^ nlog2 n \<le> n \<and> n < 2 * 2 ^ nlog2 n"
proof (induction n rule: nlog2.induct)
  case (1 n)
  show ?case
  proof (cases "n < 2")
    case True
    with "1.prems" show ?thesis by (simp add: nlog2.simps [of n])
  next
    case False
    then have "0 < n div 2" by simp
    with "1.IH" False have ih: "2 ^ nlog2 (n div 2) \<le> n div 2" "n div 2 < 2 * 2 ^ nlog2 (n div 2)"
      by auto
    from ih(1) have "2 * 2 ^ nlog2 (n div 2) \<le> n" by linarith
    moreover from ih(2) have "n < 2 * (2 * 2 ^ nlog2 (n div 2))" by linarith
    ultimately show ?thesis using False by (simp add: nlog2.simps [of n])
  qed
qed

lemma nlog2_pow2: "0 < n \<Longrightarrow> pow2 (int (nlog2 n)) \<le> of_nat n \<and> of_nat n < pow2 (int (nlog2 n) + 1)"
proof -
  assume "0 < n"
  note b = nlog2_bounds [OF this]
  have "of_nat (2 ^ nlog2 n) \<le> (of_nat n :: rat)" using b by (simp only: of_nat_le_iff)
  moreover have "(of_nat n :: rat) < of_nat (2 * 2 ^ nlog2 n)" using b by (simp only: of_nat_less_iff)
  ultimately show ?thesis by (simp add: pow2_of_nat pow2_add [of _ 1] pow2_def [of 1])
qed

lemma ilog2_bounds:
  assumes "0 < x"
  shows "pow2 (ilog2 x) \<le> x" and "x < pow2 (ilog2 x + 1)"
proof -
  obtain p q where pq: "quotient_of x = (p, q)" by fastforce
  have q: "0 < q" using quotient_of_denom_pos [OF pq] .
  have x: "x = of_int p / of_int q" using quotient_of_div [OF pq] .
  have p: "0 < p" using assms x q by (simp add: zero_less_divide_iff)
  define a b where "a = int (nlog2 (nat p))" and "b = int (nlog2 (nat q))"
  have pa: "pow2 a \<le> of_int p" "of_int p < pow2 (a + 1)"
    using nlog2_pow2 [of "nat p"] p by (simp_all add: a_def)
  have qb: "pow2 b \<le> of_int q" "of_int q < pow2 (b + 1)"
    using nlog2_pow2 [of "nat q"] q by (simp_all add: b_def)
  have q0: "(0::rat) < of_int q" using q by simp
  have "x < pow2 (a + 1) / of_int q"
    unfolding x using pa(2) q0 by (rule divide_strict_right_mono)
  also have "\<dots> \<le> pow2 (a + 1) / pow2 b"
    using qb(1) by (intro divide_left_mono) (auto intro: mult_pos_pos q0)
  finally have up: "x < pow2 (a - b + 1)" by (simp add: pow2_diff pow2_add)
  have "pow2 (a - (b + 1)) = pow2 a / pow2 (b + 1)" by (rule pow2_diff)
  also have "\<dots> \<le> of_int p / pow2 (b + 1)"
    using pa(1) by (simp add: divide_right_mono less_imp_le)
  also have "\<dots> \<le> x"
    unfolding x using qb(2) p by (intro divide_left_mono) (auto intro: mult_pos_pos q0)
  finally have lo: "pow2 (a - b - 1) \<le> x" by (simp add: algebra_simps)
  have k: "ilog2 x = (if pow2 (a - b) \<le> x then a - b else a - b - 1)"
    by (simp add: ilog2_def pq a_def b_def Let_def)
  show "pow2 (ilog2 x) \<le> x" using lo by (simp add: k)
  show "x < pow2 (ilog2 x + 1)" using up by (auto simp: k)
qed

lemma ilog2_unique:
  assumes "pow2 k \<le> x" and "x < pow2 (k + 1)"
  shows "ilog2 x = k"
proof -
  have "0 < x" using assms(1) pow2_pos [of k] by linarith
  note b = ilog2_bounds [OF this]
  have "pow2 k < pow2 (ilog2 x + 1)" using assms(1) b(2) by linarith
  moreover have "pow2 (ilog2 x) < pow2 (k + 1)" using assms(2) b(1) by linarith
  ultimately show ?thesis by simp
qed

section \<open>Rounding lemmas\<close>

lemma round_half_even_of_int [simp]: "round_half_even (of_int n) = n"
  by (simp add: round_half_even_def)

lemma round_half_even_error: "\<bar>of_int (round_half_even x) - x\<bar> \<le> 1 / 2"
proof -
  have b: "of_int \<lfloor>x\<rfloor> \<le> x" "x < of_int \<lfloor>x\<rfloor> + 1" by linarith+
  show ?thesis
  proof (cases "x - of_int \<lfloor>x\<rfloor> < 1 / 2")
    case True
    then have r: "round_half_even x = \<lfloor>x\<rfloor>" by (simp add: round_half_even_def)
    from True b show ?thesis unfolding r by linarith
  next
    case False
    then have "round_half_even x = \<lfloor>x\<rfloor> + 1 \<or> x - of_int \<lfloor>x\<rfloor> = 1 / 2 \<and> round_half_even x = \<lfloor>x\<rfloor>"
      by (auto simp: round_half_even_def Let_def)
    with False b show ?thesis by (auto simp: abs_if)
  qed
qed

lemma round_half_even_mono: "x \<le> y \<Longrightarrow> round_half_even x \<le> round_half_even y"
proof -
  assume xy: "x \<le> y"
  then have f: "\<lfloor>x\<rfloor> \<le> \<lfloor>y\<rfloor>" by (rule floor_mono)
  show ?thesis
  proof (cases "\<lfloor>x\<rfloor> = \<lfloor>y\<rfloor>")
    case True
    with xy show ?thesis by (simp add: round_half_even_def Let_def)
  next
    case False
    with f have "\<lfloor>x\<rfloor> + 1 \<le> \<lfloor>y\<rfloor>" by simp
    moreover have "round_half_even x \<le> \<lfloor>x\<rfloor> + 1" "\<lfloor>y\<rfloor> \<le> round_half_even y"
      by (simp_all add: round_half_even_def Let_def)
    ultimately show ?thesis by linarith
  qed
qed

text \<open>A value with at most 53 significant bits above the subnormal limit is not changed.\<close>

lemma rnd_exact:
  assumes "\<bar>m\<bar> \<le> 2 ^ 53" and "- 1074 \<le> e"
  shows "rnd (of_int m * pow2 e) = of_int m * pow2 e"
proof (cases "m = 0")
  case True
  then show ?thesis by (simp add: rnd_def)
next
  case False
  let ?x = "of_int m * pow2 e"
  have x0: "0 < \<bar>?x\<bar>" using False by (simp add: abs_mult)
  have "\<bar>of_int m\<bar> \<le> (2 ^ 53 :: rat)"
    using assms(1) by (metis of_int_abs of_int_le_iff of_int_numeral of_int_power)
  then have "\<bar>?x\<bar> \<le> pow2 53 * pow2 e" by (simp add: abs_mult pow2_def [of 53])
  then have "\<bar>?x\<bar> \<le> pow2 (53 + e)" by (simp add: pow2_add)
  with ilog2_bounds(1) [OF x0] have "pow2 (ilog2 \<bar>?x\<bar>) \<le> pow2 (53 + e)" by linarith
  then have k: "ilog2 \<bar>?x\<bar> \<le> 53 + e" by simp
  show ?thesis
  proof (cases "ulp_exp ?x \<le> e")
    case True
    define n where "n = nat (e - ulp_exp ?x)"
    have e: "pow2 e = 2 ^ n * pow2 (ulp_exp ?x)"
      using True pow2_add [of "int n" "ulp_exp ?x"] by (simp add: n_def pow2_of_nat [symmetric])
    define u where "u = pow2 (ulp_exp ?x)"
    have u0: "u \<noteq> 0" by (simp add: u_def)
    have x: "?x = of_int (m * 2 ^ n) * u" by (simp add: e [folded u_def])
    then have "?x / u = of_int (m * 2 ^ n)" using u0 by (metis nonzero_mult_div_cancel_right)
    then have "rnd ?x = of_int (m * 2 ^ n) * u" if "?x \<noteq> 0"
      using that unfolding rnd_def u_def [symmetric] by (simp only: round_half_even_of_int if_False)
    then show ?thesis using x0 x by (metis abs_zero less_irrefl)
  next
    case False
    with k assms(2) have u: "ulp_exp ?x = e + 1" and l: "ilog2 \<bar>?x\<bar> = 53 + e"
      by (auto simp: ulp_exp_def)
    have "pow2 (53 + e) \<le> \<bar>?x\<bar>" using ilog2_bounds(1) [OF x0] l by simp
    with \<open>\<bar>?x\<bar> \<le> pow2 (53 + e)\<close> have ax: "\<bar>?x\<bar> = pow2 (53 + e)" by simp
    have "pow2 (53 + e) = pow2 52 * pow2 (e + 1)" by (simp flip: pow2_add)
    with ax have "?x = of_int (sgn m * 2 ^ 52) * pow2 (e + 1)"
      by (auto simp: abs_if sgn_if pow2_def [of 52] mult_less_0_iff split: if_splits)
    then have x: "?x = of_int (sgn m * 2 ^ 52) * pow2 (ulp_exp ?x)" using u by simp
    then have "?x / pow2 (ulp_exp ?x) = of_int (sgn m * 2 ^ 52)"
      by (metis nonzero_mult_div_cancel_right pow2_nonzero)
    then have "rnd ?x = of_int (sgn m * 2 ^ 52) * pow2 (ulp_exp ?x)" if "?x \<noteq> 0"
      using that unfolding rnd_def by (simp only: round_half_even_of_int if_False)
    then show ?thesis using x0 x by (metis abs_zero less_irrefl)
  qed
qed

lemma rnd_of_int: "\<bar>n\<bar> \<le> 2 ^ 53 \<Longrightarrow> rnd (of_int n) = of_int n"
  using rnd_exact [of n 0] by (simp add: pow2_def)

lemma rnd_zero [simp]: "rnd 0 = 0"
  by (simp add: rnd_def)

lemma rnd_error: "\<bar>rnd x - x\<bar> \<le> pow2 (ulp_exp x) / 2"
proof (cases "x = 0")
  case True
  then show ?thesis by (simp add: rnd_def)
next
  case False
  let ?u = "pow2 (ulp_exp x)"
  have "rnd x - x = (of_int (round_half_even (x / ?u)) - x / ?u) * ?u"
    using False by (simp add: rnd_def left_diff_distrib)
  then have "\<bar>rnd x - x\<bar> = \<bar>of_int (round_half_even (x / ?u)) - x / ?u\<bar> * ?u"
    by (simp add: abs_mult)
  also have "\<dots> \<le> 1 / 2 * ?u"
    using round_half_even_error by (rule mult_right_mono) simp
  finally show ?thesis by simp
qed

text \<open>The error of one rounding of a value below a power of two.\<close>

lemma rnd_error_below:
  assumes "\<bar>x\<bar> < pow2 k" and "- 1021 \<le> k"
  shows "\<bar>rnd x - x\<bar> \<le> pow2 (k - 54)"
proof (cases "x = 0")
  case True
  then show ?thesis by simp
next
  case False
  then have "pow2 (ilog2 \<bar>x\<bar>) \<le> \<bar>x\<bar>" by (intro ilog2_bounds) simp
  with assms(1) have "pow2 (ilog2 \<bar>x\<bar>) < pow2 k" by linarith
  then have "ulp_exp x \<le> k - 53" using assms(2) by (simp add: ulp_exp_def)
  then have "pow2 (ulp_exp x) \<le> pow2 (k - 53)" by simp
  moreover have "pow2 (k - 53) / 2 = pow2 (k - 54)"
    using pow2_diff [of "k - 53" 1] by (simp add: pow2_def [of 1])
  ultimately show ?thesis using rnd_error [of x] by linarith
qed

section \<open>Operations on finite operands\<close>

lemma fval_simps [simp]: "fval (mk_zero s) = 0" "is_finite (mk_zero s)" "is_finite (Fin x)"
  "is_finite NZero" "\<not> is_finite NaN" "\<not> is_finite PInf" "\<not> is_finite NInf"
  by (auto simp: mk_zero_def is_finite_def is_inf_def)

lemma round64_finite:
  assumes "\<bar>rnd x\<bar> < 2 ^ 1024"
  shows "is_finite (round64 s x)" and "fval (round64 s x) = rnd x"
  using assms unfolding round64_def Let_def by (auto simp: not_le [symmetric] simp del: power_numeral)

lemma f_add_finite: "is_finite a \<Longrightarrow> is_finite b \<Longrightarrow>
    f_add a b = round64 (fneg_bit a \<and> fneg_bit b) (fval a + fval b)"
  by (auto simp: f_add_def is_finite_def)

lemma f_mul_finite: "is_finite a \<Longrightarrow> is_finite b \<Longrightarrow>
    f_mul a b = round64 (fneg_bit a \<noteq> fneg_bit b) (fval a * fval b)"
  by (auto simp: f_mul_def is_finite_def)

lemma f_le_zero_finite: "is_finite a \<Longrightarrow> f_le (Fin 0) a \<longleftrightarrow> 0 \<le> fval a"
  by (cases a) (auto simp: f_le_def f_eq_def is_zero_def)

lemma f_of_int_exact: "\<bar>n\<bar> \<le> 2 ^ 53 \<Longrightarrow> f_of_int n = Fin (of_int n)"
proof -
  assume n: "\<bar>n\<bar> \<le> 2 ^ 53"
  then have "\<bar>of_int n\<bar> \<le> (2 ^ 53 :: rat)"
    by (metis of_int_abs of_int_le_iff of_int_numeral of_int_power)
  then have "\<not> 2 ^ 1024 \<le> \<bar>of_int n :: rat\<bar>"
    using power_strict_increasing [of 53 1024 "2::rat"] by linarith
  then show ?thesis
    unfolding f_of_int_def round64_def Let_def rnd_of_int [OF n] by (simp add: mk_zero_def)
qed

lemma f_to_int64_range:
  assumes "is_finite a" and "\<bar>fval a\<bar> < 2 ^ 62"
  shows "f_to_int64 cvt a = word_of_int (rat_trunc (fval a))"
proof -
  have "\<bar>rat_trunc (fval a)\<bar> \<le> 2 ^ 62"
    using assms(2) unfolding rat_trunc_def by (simp split: if_splits) linarith
  then have "- (2 ^ 63) \<le> rat_trunc (fval a)" "rat_trunc (fval a) < 2 ^ 63" by simp_all
  then show ?thesis using assms(1) by (simp only: f_to_int64_def simp_thms if_True)
qed

end
