(* ===== verification/Money.thy ===== *)
theory Money
  imports Float64 "HOL-Library.Signed_Division"
begin

text \<open>
  \<open>pkg/sdk/money.go\<close>: the value object of an amount in minor units with a currency code. The
  amount is Go's \<open>int64\<close>, so that sums and products wrap; \<open>MultiplyFloat\<close> goes through
  \<open>float64\<close> with the rounding of \<open>Float64\<close>.
\<close>

record Money =
  amount :: int64
  currency :: string

definition zeroMoneyVal :: Money where
  "zeroMoneyVal = \<lparr>amount = 0, currency = []\<rparr>"

definition NewMoney :: "int64 \<Rightarrow> string \<Rightarrow> Money res" where
  "NewMoney amt code =
     (let cur = TrimSpace (ToUpper code)
      in if length cur \<noteq> 3
         then Fail (Wrapped ''currency must be a 3-letter ISO code'' ErrInvalidCurrency)
         else Ret \<lparr>amount = amt, currency = cur\<rparr>)"

definition MustNewMoney :: "int64 \<Rightarrow> string \<Rightarrow> Money res" where
  "MustNewMoney amt code =
     (case NewMoney amt code of Ret m \<Rightarrow> Ret m | Fail e \<Rightarrow> Panic ''NewMoney'' | Panic p \<Rightarrow> Panic p)"

definition ZeroMoney :: "string \<Rightarrow> Money res" where
  "ZeroMoney code = MustNewMoney 0 code"

definition Money_IsZero :: "Money \<Rightarrow> bool" where
  "Money_IsZero m \<longleftrightarrow> amount m = 0"

definition Money_IsPositive :: "Money \<Rightarrow> bool" where
  "Money_IsPositive m \<longleftrightarrow> 0 <s amount m"

definition Money_IsNegative :: "Money \<Rightarrow> bool" where
  "Money_IsNegative m \<longleftrightarrow> amount m <s 0"

definition Money_Equals :: "Money \<Rightarrow> Money \<Rightarrow> bool" where
  "Money_Equals m other \<longleftrightarrow> amount m = amount other \<and> currency m = currency other"

definition Money_Add :: "Money \<Rightarrow> Money \<Rightarrow> Money res" where
  "Money_Add m other =
     (if currency m \<noteq> currency other then Fail (Wrapped ''cannot add'' ErrCurrencyMismatch)
      else Ret \<lparr>amount = amount m + amount other, currency = currency m\<rparr>)"

definition Money_Subtract :: "Money \<Rightarrow> Money \<Rightarrow> Money res" where
  "Money_Subtract m other =
     (if currency m \<noteq> currency other then Fail (Wrapped ''cannot subtract'' ErrCurrencyMismatch)
      else Ret \<lparr>amount = amount m - amount other, currency = currency m\<rparr>)"

definition Money_Multiply :: "Money \<Rightarrow> int64 \<Rightarrow> Money" where
  "Money_Multiply m factor = \<lparr>amount = amount m * factor, currency = currency m\<rparr>"

text \<open>The conversion \<open>int64(f)\<close> of an operand out of range is the parameter \<open>cvt\<close>.\<close>

definition Money_MultiplyFloat :: "(float64 \<Rightarrow> int64) \<Rightarrow> Money \<Rightarrow> float64 \<Rightarrow> Money" where
  "Money_MultiplyFloat cvt m factor =
     (let val = f_mul (f_of_int (sint (amount m))) factor;
          rounded = (if f_le (Fin 0) val then f_to_int64 cvt (f_add val (Fin (1 / 2)))
                     else f_to_int64 cvt (f_sub val (Fin (1 / 2))))
      in \<lparr>amount = rounded, currency = currency m\<rparr>)"

text \<open>Go's integer division truncates; the quotient of the least \<open>int64\<close> by -1 wraps.\<close>

definition Money_Divide :: "Money \<Rightarrow> int64 \<Rightarrow> Money res" where
  "Money_Divide m divisor =
     (if divisor = 0 then Fail ErrDivisionByZero
      else Ret \<lparr>amount = word_of_int (sint (amount m) sdiv sint divisor), currency = currency m\<rparr>)"

definition Money_String :: "Money \<Rightarrow> string" where
  "Money_String m = currency m @ '' '' @ fmt_d (sint (amount m))"

section \<open>Lemmas\<close>

text \<open>The values \<open>NewMoney\<close> can return.\<close>

definition money_wf :: "Money \<Rightarrow> bool" where
  "money_wf m \<longleftrightarrow> length (currency m) = 3 \<and> TrimSpace (ToUpper (currency m)) = currency m"

lemma NewMoney_Ret_iff:
  "NewMoney a c = Ret m \<longleftrightarrow>
     amount m = a \<and> currency m = TrimSpace (ToUpper c) \<and> length (currency m) = 3"
  by (auto simp: NewMoney_def Let_def)

lemma NewMoney_wf: "NewMoney a c = Ret m \<Longrightarrow> money_wf m"
  by (auto simp: NewMoney_Ret_iff money_wf_def)

lemma NewMoney_of_wf: "money_wf m \<Longrightarrow> NewMoney (amount m) (currency m) = Ret m"
  by (auto simp: NewMoney_Ret_iff money_wf_def)

lemma ZeroMoney_cases:
  "ZeroMoney c = (if length (TrimSpace (ToUpper c)) = 3
     then Ret \<lparr>amount = 0, currency = TrimSpace (ToUpper c)\<rparr> else Panic ''NewMoney'')"
  by (simp add: ZeroMoney_def MustNewMoney_def NewMoney_def Let_def)

lemma Money_Add_Ret_iff:
  "Money_Add m n = Ret s \<longleftrightarrow>
     currency m = currency n \<and> currency s = currency m \<and> amount s = amount m + amount n"
  by (auto simp: Money_Add_def)

text \<open>Both branches of \<open>MultiplyFloat\<close> round the product, shifted by half away from zero.\<close>

lemma MultiplyFloat_amount:
  assumes a: "\<bar>sint (amount m)\<bar> \<le> 2 ^ 53" and b: "\<bar>of_int (sint (amount m)) * f\<bar> < 2 ^ 40"
  defines "v \<equiv> rnd (of_int (sint (amount m)) * f)"
  shows "amount (Money_MultiplyFloat cvt m (Fin f)) =
    word_of_int (if 0 \<le> v then rat_trunc (rnd (v + 1 / 2)) else rat_trunc (rnd (v - 1 / 2)))"
    and "\<bar>v - of_int (sint (amount m)) * f\<bar> \<le> pow2 (- 14)"
proof -
  let ?p = "of_int (sint (amount m)) * f"
  have v: "\<bar>v - ?p\<bar> \<le> pow2 (- 14)"
    using rnd_error_below [of ?p 40] b by (simp add: v_def pow2_def [of 40])
  then show "\<bar>v - ?p\<bar> \<le> pow2 (- 14)" .
  have big: "(2 :: rat) ^ 62 < 2 ^ 1024" by (rule power_strict_increasing) auto
  have "pow2 (- 14) < 1" by (simp add: pow2_def)
  with v b have v41: "\<bar>v\<bar> < 2 ^ 40 + 1" by linarith
  let ?val = "f_mul (f_of_int (sint (amount m))) (Fin f)"
  obtain s where val: "?val = round64 s ?p"
    by (simp add: f_of_int_exact [OF a] f_mul_finite)
  have fin: "is_finite ?val" "fval ?val = v"
    using round64_finite [of ?p] v41 big unfolding val v_def by auto
  have sh: "\<bar>rnd (v + d)\<bar> < 2 ^ 62" if d: "\<bar>d\<bar> \<le> 1" for d
  proof -
    have "\<bar>rnd (v + d) - (v + d)\<bar> \<le> pow2 (- 13)"
      using rnd_error_below [of "v + d" 41] v41 d by (simp add: pow2_def [of 41])
    moreover have "pow2 (- 13) < 1" by (simp add: pow2_def)
    ultimately have "\<bar>rnd (v + d)\<bar> < 2 ^ 40 + 3" using v41 d by linarith
    then show ?thesis by simp
  qed
  have conv: "f_to_int64 cvt (f_add ?val (Fin d)) = word_of_int (rat_trunc (rnd (v + d)))"
    if d: "\<bar>d\<bar> \<le> 1" for d
  proof -
    have r: "f_add ?val (Fin d) = round64 (fneg_bit ?val \<and> fneg_bit (Fin d)) (v + d)"
      using f_add_finite [OF fin(1), of "Fin d"] fin(2) by simp
    show ?thesis unfolding r
      using round64_finite [of "v + d"] sh [OF d] big by (simp add: f_to_int64_range)
  qed
  have le: "f_le (Fin 0) ?val \<longleftrightarrow> 0 \<le> v" using f_le_zero_finite [OF fin(1)] fin(2) by simp
  show "amount (Money_MultiplyFloat cvt m (Fin f)) =
    word_of_int (if 0 \<le> v then rat_trunc (rnd (v + 1 / 2)) else rat_trunc (rnd (v - 1 / 2)))"
    using conv [of "1 / 2"] conv [of "- 1 / 2"]
    unfolding Money_MultiplyFloat_def Let_def le by (simp add: f_sub_def)
qed

lemma rat_trunc_pos: "0 \<le> x \<Longrightarrow> of_int (rat_trunc x) \<le> x \<and> x < of_int (rat_trunc x) + 1"
  by (simp add: rat_trunc_def) linarith

lemma rat_trunc_neg: "x \<le> 0 \<Longrightarrow> x \<le> of_int (rat_trunc x) \<and> of_int (rat_trunc x) < x + 1"
  by (simp add: rat_trunc_def) linarith

text \<open>The result of \<open>MultiplyFloat\<close> is within half a unit of the exact product, up to the
  rounding errors of the two floating-point operations.\<close>

lemma MultiplyFloat_near:
  assumes a: "\<bar>sint (amount m)\<bar> \<le> 2 ^ 53" and b: "\<bar>of_int (sint (amount m)) * f\<bar> < 2 ^ 40"
  shows "\<bar>of_int (sint (amount (Money_MultiplyFloat cvt m (Fin f)))) - of_int (sint (amount m)) * f\<bar>
         \<le> 1 / 2 + 1 / 2 ^ 12"
proof -
  define p where "p = of_int (sint (amount m)) * f"
  define v where "v = rnd p"
  define w where "w = (if 0 \<le> v then rnd (v + 1 / 2) else rnd (v - 1 / 2))"
  have p14: "pow2 (- 14) = 1 / 16384" "pow2 (- 13) = 1 / 8192" by (simp_all add: pow2_def)
  have p: "\<bar>p\<bar> < 1099511627776" using b by (simp add: p_def)
  have v: "\<bar>v - p\<bar> \<le> 1 / 16384" using MultiplyFloat_amount(2) [OF a b] by (simp only: p14 v_def p_def)
  have amt: "amount (Money_MultiplyFloat cvt m (Fin f)) = word_of_int (rat_trunc w)"
    using MultiplyFloat_amount(1) [OF a b, of cvt] unfolding p_def [symmetric] v_def [symmetric]
    by (simp add: w_def)
  have e: "\<bar>rnd (v + d) - (v + d)\<bar> \<le> 1 / 8192" if "\<bar>d\<bar> \<le> 1" for d
  proof -
    have "\<bar>v + d\<bar> < 2199023255552" using v p that by linarith
    then have "\<bar>v + d\<bar> < pow2 41" by (simp add: pow2_def)
    from rnd_error_below [OF this] show ?thesis using p14 by simp
  qed
  have near: "\<bar>of_int (rat_trunc w) - p\<bar> \<le> 1 / 2 + 1 / 4096"
  proof (cases "0 \<le> v")
    case True
    then have w: "\<bar>w - (v + 1 / 2)\<bar> \<le> 1 / 8192" using e [of "1 / 2"] by (simp add: w_def)
    then have "0 \<le> w" using True by linarith
    from rat_trunc_pos [OF this] w v show ?thesis by linarith
  next
    case False
    then have w: "\<bar>w - (v - 1 / 2)\<bar> \<le> 1 / 8192" using e [of "- 1 / 2"] by (simp add: w_def)
    then have "w \<le> 0" using False by linarith
    from rat_trunc_neg [OF this] w v show ?thesis by linarith
  qed
  have "\<bar>of_int (rat_trunc w)\<bar> < (1099511627777 :: rat)" using near p by linarith
  then have "\<bar>rat_trunc w\<bar> < 1099511627777" by linarith
  then have "sint (word_of_int (rat_trunc w) :: int64) = rat_trunc w"
    by (intro sint_word_of_int64) simp_all
  with amt near show ?thesis by (simp add: p_def)
qed

lemma MultiplyFloat_integral:
  assumes "\<bar>sint (amount m)\<bar> \<le> 2 ^ 53" and "\<bar>sint k\<bar> \<le> 2 ^ 53"
    and "\<bar>sint (amount m) * sint k\<bar> < 2 ^ 40"
  shows "Money_MultiplyFloat cvt m (f_of_int (sint k)) = Money_Multiply m k"
proof -
  let ?a = "sint (amount m)" and ?r = "sint (amount (Money_MultiplyFloat cvt m (Fin (of_int (sint k)))))"
  have "\<bar>of_int (?a * sint k)\<bar> < (2 ^ 40 :: rat)"
    using assms(3) by (metis of_int_abs of_int_less_iff of_int_numeral of_int_power)
  then have "\<bar>of_int ?a * of_int (sint k)\<bar> < (2 ^ 40 :: rat)" by (simp only: of_int_mult)
  from MultiplyFloat_near [OF assms(1) this, of cvt]
  have "\<bar>of_int ?r - of_int (?a * sint k)\<bar> \<le> (1 / 2 + 1 / 2 ^ 12 :: rat)" by (simp only: of_int_mult)
  also have "\<dots> < 1" by simp
  finally have "\<bar>?r - ?a * sint k\<bar> < 1" by linarith
  then have r: "?r = ?a * sint k" by linarith
  then have "amount (Money_MultiplyFloat cvt m (Fin (of_int (sint k)))) = amount m * k"
    using assms(3) unfolding word_eq_iff_signed [where 'a = int] by (simp add: sint_mul64)
  then show ?thesis
    by (simp add: f_of_int_exact [OF assms(2)] Money_Multiply_def)
      (simp add: Money_MultiplyFloat_def Let_def)
qed

section \<open>Properties\<close>

text \<open>\<open>Money.Add\<close> of two amounts of one currency always returns, keeps the currency, is the
  exact sum when that sum fits \<open>int64\<close>, and is undone by \<open>Subtract\<close> even when it wraps;
  amounts of different currencies are refused with \<open>ErrCurrencyMismatch\<close> by both.\<close>

theorem money_add_subtract:
  "if currency m = currency n
   then \<exists>s. Money_Add m n = Ret s \<and> currency s = currency m \<and> Money_Subtract s n = Ret m \<and>
        sint (amount s) = (sint (amount m) + sint (amount n) + 2 ^ 63) mod 2 ^ 64 - 2 ^ 63
   else (\<exists>e f. Money_Add m n = Fail e \<and> errors_Is e ErrCurrencyMismatch \<and>
             Money_Subtract m n = Fail f \<and> errors_Is f ErrCurrencyMismatch)"
proof (cases "currency m = currency n")
  case True
  let ?s = "\<lparr>amount = amount m + amount n, currency = currency m\<rparr>"
  have "sint (amount m + amount n) = (sint (amount m) + sint (amount n) + 2 ^ 63) mod 2 ^ 64 - 2 ^ 63"
    by (simp add: sint_word_ariths signed_take_bit_eq_take_bit_shift take_bit_eq_mod)
  then have "Money_Add m n = Ret ?s" "Money_Subtract ?s n = Ret m"
    "sint (amount ?s) = (sint (amount m) + sint (amount n) + 2 ^ 63) mod 2 ^ 64 - 2 ^ 63"
    using True by (auto simp: Money_Add_def Money_Subtract_def)
  with True show ?thesis by (metis Money.select_convs(2))
qed (simp add: Money_Add_def Money_Subtract_def)

text \<open>C37. \<open>Money.MultiplyFloat\<close> rounds to the nearest minor unit up to the error of its two
  floating-point operations: for an amount of at most \<open>2^53\<close>, any finite factor and a product
  below \<open>2^40\<close> the result is within \<open>1/2 + 1/4096\<close> of the exact product.\<close>

theorem money_multiply_float_near:
  assumes "\<bar>sint (amount m)\<bar> \<le> 2 ^ 53" and "\<bar>of_int (sint (amount m)) * f\<bar> < 2 ^ 40"
  shows "\<bar>of_int (sint (amount (Money_MultiplyFloat cvt m (Fin f)))) - of_int (sint (amount m)) * f\<bar>
         \<le> 1 / 2 + 1 / 2 ^ 12"
  using assms by (rule MultiplyFloat_near)

theorem money_multiply_float_near_witness:
  "\<bar>of_int (sint (amount (Money_MultiplyFloat (\<lambda>_. 0) \<lparr>amount = 1005, currency = ''USD''\<rparr> (Fin (11 / 100)))))
    - 1005 * (11 / 100)\<bar> \<le> (1 / 2 + 1 / 2 ^ 12 :: rat)"
  using money_multiply_float_near [of "\<lparr>amount = 1005, currency = ''USD''\<rparr>" "11 / 100" "\<lambda>_. 0"] by simp

text \<open>For an integral factor \<open>MultiplyFloat\<close> is \<open>Multiply\<close>, as long as amount and factor are
  at most \<open>2^53\<close> and the product is below \<open>2^40\<close>.\<close>

theorem money_multiply_float_integral:
  assumes "\<bar>sint (amount m)\<bar> \<le> 2 ^ 53" and "\<bar>sint k\<bar> \<le> 2 ^ 53"
    and "\<bar>sint (amount m) * sint k\<bar> < 2 ^ 40"
  shows "Money_MultiplyFloat cvt m (f_of_int (sint k)) = Money_Multiply m k"
  using assms by (rule MultiplyFloat_integral)

theorem money_multiply_float_integral_witness:
  "Money_MultiplyFloat (\<lambda>_. 0) \<lparr>amount = 1999, currency = ''EUR''\<rparr> (f_of_int 7)
    = \<lparr>amount = 13993, currency = ''EUR''\<rparr>"
  using money_multiply_float_integral [of "\<lparr>amount = 1999, currency = ''EUR''\<rparr>" 7 "\<lambda>_. 0"]
  by (simp add: Money_Multiply_def)

text \<open>\<open>MultiplyFloat\<close> does not always round to the nearest minor unit, although its comment
  says so: one unit times the largest \<open>float64\<close> below one half gives one unit, because the
  sum with \<open>0.5\<close> is itself rounded up to 1.\<close>

theorem money_multiply_float_not_nearest:
  "\<exists>m f. amount m = 1 \<and> 0 < f \<and> f < 1 / 2 \<and> rnd f = f \<and>
     (\<forall>cvt. amount (Money_MultiplyFloat cvt m (Fin f)) = 1)"
proof -
  let ?m = "\<lparr>amount = 1, currency = ''USD''\<rparr>" and ?f = "9007199254740991 / 18014398509481984 :: rat"
  have f: "rnd ?f = ?f" using rnd_exact [of 9007199254740991 "- 54"] by (simp add: pow2_def)
  let ?h = "18014398509481983 / 18014398509481984 :: rat"
  have "ilog2 ?h = - 1" by (rule ilog2_unique) (simp_all add: pow2_def)
  moreover have "\<lfloor>18014398509481983 / 2 :: rat\<rfloor> = 9007199254740991" by (simp add: floor_eq_iff)
  ultimately have half: "rnd ?h = 1" by (simp add: rnd_def ulp_exp_def pow2_def round_half_even_def Let_def)
  have "amount (Money_MultiplyFloat cvt ?m (Fin ?f)) = 1" for cvt
    using MultiplyFloat_amount(1) [of ?m ?f cvt] by (simp add: f half rat_trunc_def)
  moreover have "0 < ?f" "?f < 1 / 2" by simp_all
  ultimately show ?thesis using f by (metis Money.select_convs(1))
qed

end
