(* ===== verification/Quantity.thy ===== *)
theory Quantity
  imports Float64
begin

text \<open>
  \<open>pkg/sdk/quantity.go\<close>: a \<open>float64\<close> amount with a unit code. Comparisons use the tolerance
  \<open>1e-9\<close> (the \<open>float64\<close> nearest to it).
\<close>

record Quantity =
  qvalue :: float64
  unitCode :: string

definition eps :: float64 where
  "eps = Fin (rnd (1 / 10 ^ 9))"

definition NewQuantity :: "float64 \<Rightarrow> string \<Rightarrow> Quantity res" where
  "NewQuantity v c =
     (let code = TrimSpace (ToUpper c)
      in if code = [] then Fail (Wrapped ''unit code cannot be empty'' ErrInvalidInput)
         else Ret \<lparr>qvalue = v, unitCode = code\<rparr>)"

definition MustNewQuantity :: "float64 \<Rightarrow> string \<Rightarrow> Quantity res" where
  "MustNewQuantity v c =
     (case NewQuantity v c of Ret q \<Rightarrow> Ret q | Fail e \<Rightarrow> Panic ''NewQuantity'' | Panic p \<Rightarrow> Panic p)"

definition Quantity_IsZero :: "Quantity \<Rightarrow> bool" where
  "Quantity_IsZero q \<longleftrightarrow> f_lt (f_abs (qvalue q)) eps"

definition Quantity_IsPositive :: "Quantity \<Rightarrow> bool" where
  "Quantity_IsPositive q \<longleftrightarrow> f_lt eps (qvalue q)"

definition Quantity_IsNegative :: "Quantity \<Rightarrow> bool" where
  "Quantity_IsNegative q \<longleftrightarrow> f_lt (qvalue q) (f_neg eps)"

definition Quantity_Equals :: "Quantity \<Rightarrow> Quantity \<Rightarrow> bool" where
  "Quantity_Equals q r \<longleftrightarrow>
     (if unitCode q \<noteq> unitCode r then False else f_lt (f_abs (f_sub (qvalue q) (qvalue r))) eps)"

definition Quantity_Add :: "Quantity \<Rightarrow> Quantity \<Rightarrow> Quantity res" where
  "Quantity_Add q r =
     (if unitCode q \<noteq> unitCode r then Fail (Wrapped ''cannot add'' ErrUnitMismatch)
      else Ret \<lparr>qvalue = f_add (qvalue q) (qvalue r), unitCode = unitCode q\<rparr>)"

definition Quantity_Subtract :: "Quantity \<Rightarrow> Quantity \<Rightarrow> Quantity res" where
  "Quantity_Subtract q r =
     (if unitCode q \<noteq> unitCode r then Fail (Wrapped ''cannot subtract'' ErrUnitMismatch)
      else Ret \<lparr>qvalue = f_sub (qvalue q) (qvalue r), unitCode = unitCode q\<rparr>)"

definition Quantity_Multiply :: "Quantity \<Rightarrow> float64 \<Rightarrow> Quantity" where
  "Quantity_Multiply q factor = \<lparr>qvalue = f_mul (qvalue q) factor, unitCode = unitCode q\<rparr>"

definition Quantity_Divide :: "Quantity \<Rightarrow> float64 \<Rightarrow> Quantity res" where
  "Quantity_Divide q d =
     (if f_lt (f_abs d) eps then Fail ErrDivisionByZero
      else Ret \<lparr>qvalue = f_div (qvalue q) d, unitCode = unitCode q\<rparr>)"

section \<open>Lemmas\<close>

lemma eps_bounds: "0 < fval eps" "fval eps \<le> 1 / 10 ^ 9 + 1 / 10 ^ 12"
proof -
  have "\<bar>1 / 10 ^ 9\<bar> < pow2 (- 29)" by (simp add: pow2_def)
  from rnd_error_below [OF this] have "\<bar>rnd (1 / 10 ^ 9) - 1 / 10 ^ 9\<bar> \<le> pow2 (- 83)" by simp
  moreover have "pow2 (- 83) \<le> 1 / 10 ^ 12" by (simp add: pow2_def)
  moreover have "(1 :: rat) / 10 ^ 12 < 1 / 10 ^ 9" by simp
  ultimately show "0 < fval eps" "fval eps \<le> 1 / 10 ^ 9 + 1 / 10 ^ 12"
    unfolding eps_def fval.simps by linarith+
qed

lemma f_lt_Fin [simp]: "f_lt (Fin x) (Fin y) \<longleftrightarrow> x < y"
  by simp

text \<open>Of a finite quantity exactly one of zero (up to the tolerance), positive and negative
  holds, except at the two values \<open>\<plusminus>1e-9\<close> themselves, where none does.\<close>

lemma Quantity_sign_cases:
  assumes "qvalue q = Fin x"
  shows "Quantity_IsZero q \<longleftrightarrow> \<bar>x\<bar> < fval eps" and "Quantity_IsPositive q \<longleftrightarrow> fval eps < x"
    and "Quantity_IsNegative q \<longleftrightarrow> x < - fval eps"
proof -
  obtain y where y: "eps = Fin y" "0 < y" using eps_bounds(1) by (simp add: eps_def)
  show "Quantity_IsZero q \<longleftrightarrow> \<bar>x\<bar> < fval eps"
    unfolding Quantity_IsZero_def assms f_abs_def y(1) by auto
  show "Quantity_IsPositive q \<longleftrightarrow> fval eps < x" "Quantity_IsNegative q \<longleftrightarrow> x < - fval eps"
    unfolding Quantity_IsPositive_def Quantity_IsNegative_def assms y(1) using y(2) by auto
qed

end
