(* ===== verification/Workflow.thy ===== *)
theory Workflow
  imports Prelude
begin

text \<open>
  \<open>internal/core/domain/document/document.go\<close> and \<open>workflow.go\<close>: the statuses of a document and
  the table of permitted transitions. A status is a string of the source's type \<open>Status\<close>; the
  seven constants are named as there, any other text is a status with no entry in the table.
\<close>

type_synonym Status = string

definition StatusDraft :: Status where "StatusDraft = ''draft''"
definition StatusSubmitted :: Status where "StatusSubmitted = ''submitted''"
definition StatusApproved :: Status where "StatusApproved = ''approved''"
definition StatusPosted :: Status where "StatusPosted = ''posted''"
definition StatusCompleted :: Status where "StatusCompleted = ''completed''"
definition StatusCancelled :: Status where "StatusCancelled = ''cancelled''"
definition StatusRejected :: Status where "StatusRejected = ''rejected''"

lemmas status_defs = StatusDraft_def StatusSubmitted_def StatusApproved_def StatusPosted_def
  StatusCompleted_def StatusCancelled_def StatusRejected_def

definition validTransitions :: "(Status \<times> Status list) list" where
  "validTransitions =
     [(StatusDraft, [StatusSubmitted, StatusCancelled]),
      (StatusSubmitted, [StatusApproved, StatusRejected, StatusDraft]),
      (StatusApproved, [StatusPosted, StatusCancelled]),
      (StatusPosted, [StatusCompleted, StatusCancelled]),
      (StatusCompleted, []),
      (StatusCancelled, []),
      (StatusRejected, [])]"

definition IsValidTransition :: "Status \<Rightarrow> Status \<Rightarrow> bool" where
  "IsValidTransition from to =
     (case map_of validTransitions from of None \<Rightarrow> False | Some allowed \<Rightarrow> to \<in> set allowed)"

definition AllowedTransitions :: "Status \<Rightarrow> Status list" where
  "AllowedTransitions from = (case map_of validTransitions from of None \<Rightarrow> [] | Some allowed \<Rightarrow> allowed)"

definition ValidateTransition :: "Status \<Rightarrow> Status \<Rightarrow> unit res" where
  "ValidateTransition from to =
     (if from = to then Fail (Wrapped ''document is already in status'' ErrInvalidInput)
      else if \<not> IsValidTransition from to then Fail (Wrapped ''illegal state transition'' ErrInvalidInput)
      else Ret ())"

section \<open>The life cycle as a transition system\<close>

inductive steps :: "Status \<Rightarrow> Status list \<Rightarrow> Status \<Rightarrow> bool" where
  steps_Nil: "steps s [] s"
| steps_Cons: "ValidateTransition s t = Ret () \<Longrightarrow> steps t ts u \<Longrightarrow> steps s (t # ts) u"

inductive_cases steps_NilE: "steps s [] u"
inductive_cases steps_ConsE: "steps s (t # ts) u"

text \<open>Rank of a status: every move except the return for revision raises it.\<close>

definition rank :: "Status \<Rightarrow> nat" where
  "rank s = (if s = StatusDraft then 0 else if s = StatusSubmitted then 1
             else if s = StatusApproved then 2 else if s = StatusPosted then 3 else 4)"

definition terminal :: "Status \<Rightarrow> bool" where
  "terminal s \<longleftrightarrow> s = StatusCompleted \<or> s = StatusCancelled \<or> s = StatusRejected"

definition known_status :: "Status \<Rightarrow> bool" where
  "known_status s \<longleftrightarrow> s \<in> set (map fst validTransitions)"

lemma ValidateTransition_iff: "ValidateTransition s t = Ret () \<longleftrightarrow> t \<in> set (AllowedTransitions s)"
  by (auto simp: ValidateTransition_def IsValidTransition_def AllowedTransitions_def validTransitions_def
      status_defs split: if_splits)

lemma ValidateTransition_Fail_iff:
  "ValidateTransition s t = Ret () \<or> (\<exists>e. ValidateTransition s t = Fail e \<and> errors_Is e ErrInvalidInput)"
  by (simp add: ValidateTransition_def)

lemma allowed_known: "t \<in> set (AllowedTransitions s) \<Longrightarrow> known_status s \<and> known_status t"
  by (auto simp: AllowedTransitions_def validTransitions_def known_status_def split: if_splits)

lemma allowed_rank:
  "t \<in> set (AllowedTransitions s) \<Longrightarrow> rank s < rank t \<or> s = StatusSubmitted \<and> t = StatusDraft"
  by (auto simp: AllowedTransitions_def validTransitions_def rank_def status_defs split: if_splits)

lemma terminal_no_move: "terminal s \<Longrightarrow> AllowedTransitions s = []"
  by (auto simp: terminal_def AllowedTransitions_def validTransitions_def status_defs)

lemma nonterminal_moves: "known_status s \<Longrightarrow> \<not> terminal s \<Longrightarrow> AllowedTransitions s \<noteq> []"
  by (auto simp: known_status_def terminal_def AllowedTransitions_def validTransitions_def status_defs)

lemma steps_known: "steps s ts u \<Longrightarrow> known_status s \<Longrightarrow> known_status u"
  by (induction rule: steps.induct) (auto simp: ValidateTransition_iff dest: allowed_known)

lemma steps_append: "steps s ts u \<Longrightarrow> steps u us v \<Longrightarrow> steps s (ts @ us) v"
  by (induction rule: steps.induct) (auto intro: steps.intros)

text \<open>Every run from a status is bounded by its returns for revision.\<close>

lemma steps_bound: "steps s ts u \<Longrightarrow> length ts + rank s \<le> rank u + 2 * count_list ts StatusDraft"
proof (induction rule: steps.induct)
  case (steps_Cons s t ts u)
  from steps_Cons.hyps(1) have "rank s < rank t \<or> s = StatusSubmitted \<and> t = StatusDraft"
    using allowed_rank by (simp add: ValidateTransition_iff)
  then show ?case
  proof
    assume "rank s < rank t"
    with steps_Cons.IH show ?thesis by simp
  next
    assume "s = StatusSubmitted \<and> t = StatusDraft"
    with steps_Cons.IH show ?thesis by (simp add: rank_def status_defs)
  qed
qed simp

lemma steps_terminal_last:
  "steps s ts u \<Longrightarrow> i < length ts \<Longrightarrow> terminal (ts ! i) \<Longrightarrow> Suc i = length ts"
proof (induction arbitrary: i rule: steps.induct)
  case (steps_Cons s t ts u)
  show ?case
  proof (cases i)
    case 0
    with steps_Cons.prems have "terminal t" by simp
    with steps_Cons.hyps(2) have "ts = []"
      by (cases rule: steps.cases) (auto simp: ValidateTransition_iff terminal_no_move)
    with 0 show ?thesis by simp
  next
    case (Suc j)
    with steps_Cons show ?thesis by simp
  qed
qed simp

lemma reach_completed:
  assumes "known_status s" and "\<not> terminal s"
  shows "\<exists>ts. steps s ts StatusCompleted"
proof -
  have m: "ValidateTransition StatusDraft StatusSubmitted = Ret ()"
    "ValidateTransition StatusSubmitted StatusApproved = Ret ()"
    "ValidateTransition StatusApproved StatusPosted = Ret ()"
    "ValidateTransition StatusPosted StatusCompleted = Ret ()"
    by code_simp+
  have p: "steps StatusPosted [StatusCompleted] StatusCompleted" by (intro steps.intros m)
  then have a: "steps StatusApproved [StatusPosted, StatusCompleted] StatusCompleted"
    by (intro steps.intros m)
  then have u: "steps StatusSubmitted [StatusApproved, StatusPosted, StatusCompleted] StatusCompleted"
    by (intro steps.intros m)
  then have d: "steps StatusDraft [StatusSubmitted, StatusApproved, StatusPosted, StatusCompleted] StatusCompleted"
    by (intro steps.intros m)
  from assms have "s \<in> {StatusDraft, StatusSubmitted, StatusApproved, StatusPosted}"
    by (auto simp: known_status_def terminal_def validTransitions_def)
  with p a u d show ?thesis by blast
qed

section \<open>Properties\<close>

text \<open>C31. The life cycle of a document. Whatever sequence of transitions \<open>ValidateTransition\<close> lets
  through from \<open>draft\<close>: the status stays one of the seven known ones; the number of moves is at
  most 4 plus twice the number of returns for revision; a terminal status (completed,
  cancelled, rejected) is only ever the last one and allows nothing further; from every other
  status reached the document can still be completed.\<close>

theorem workflow_lifecycle:
  assumes "steps StatusDraft ts u"
  shows "known_status u \<and> length ts \<le> 4 + 2 * count_list ts StatusDraft \<and>
    list_all (\<lambda>s. \<not> terminal s) (butlast ts) \<and>
    (if terminal u then AllowedTransitions u = [] else \<exists>vs. steps u vs StatusCompleted)"
proof -
  have k: "known_status u"
    using steps_known [OF assms] by (simp add: known_status_def validTransitions_def)
  have "rank u \<le> 4" by (simp add: rank_def)
  with steps_bound [OF assms] have l: "length ts \<le> 4 + 2 * count_list ts StatusDraft" by linarith
  have t: "list_all (\<lambda>s. \<not> terminal s) (butlast ts)"
    unfolding list_all_length
  proof (intro allI impI notI)
    fix i assume "i < length (butlast ts)" "terminal (butlast ts ! i)"
    then have "i < length ts" "Suc i \<noteq> length ts" "terminal (ts ! i)" by (auto simp: nth_butlast)
    with steps_terminal_last [OF assms, of i] show False by blast
  qed
  show ?thesis using k l t terminal_no_move reach_completed by simp
qed

theorem workflow_lifecycle_witness:
  "known_status StatusCancelled \<and> AllowedTransitions StatusCancelled = [] \<and>
   length [StatusSubmitted, StatusDraft, StatusCancelled] \<le> 4 + 2 * 1"
proof -
  have m: "ValidateTransition StatusDraft StatusSubmitted = Ret ()"
    "ValidateTransition StatusSubmitted StatusDraft = Ret ()"
    "ValidateTransition StatusDraft StatusCancelled = Ret ()"
    by code_simp+
  have "steps StatusDraft [StatusSubmitted, StatusDraft, StatusCancelled] StatusCancelled"
    by (intro steps.intros m)
  from workflow_lifecycle [OF this] show ?thesis by (simp add: terminal_def status_defs)
qed

end
