(* ===== verification/SdkContext.thy ===== *)
theory SdkContext
  imports Prelude
begin

text \<open>
  \<open>pkg/sdk/id.go\<close>, \<open>tenant.go\<close> and \<open>auth_context.go\<close> (re-exported by
  \<open>internal/core/domain/shared\<close>): identifiers, the tenant and the authentication claims carried
  by the request context, and the permission check on it. A context is a record of the values
  the program stores in it; \<open>ctx_tx\<close> tells whether it carries a transaction
  (\<open>pkg/database/tx.go\<close>).
\<close>

section \<open>Identifiers\<close>

type_synonym ID = "128 word"

definition NilID :: ID where
  "NilID = 0"

text \<open>The canonical text of a UUID: 32 hexadecimal digits in groups of 8, 4, 4, 4 and 12.\<close>

definition ID_String :: "ID \<Rightarrow> string" where
  "ID_String i =
     (let h = pad_zeros 32 (base_string 16 (unat i))
      in take 8 h @ ''-'' @ take 4 (drop 8 h) @ ''-'' @ take 4 (drop 12 h) @ ''-'' @
         take 4 (drop 16 h) @ ''-'' @ drop 20 h)"

text \<open>Parsing is done by the \<open>uuid\<close> package, the parameter \<open>uuid_parse\<close>.\<close>

definition ParseID :: "(string \<Rightarrow> ID option) \<Rightarrow> string \<Rightarrow> ID res" where
  "ParseID uuid_parse s =
     (case uuid_parse s of
        None \<Rightarrow> Fail (Wrapped ''invalid UUID format'' ErrInvalidInput)
      | Some i \<Rightarrow> Ret i)"

definition MustParseID :: "(string \<Rightarrow> ID option) \<Rightarrow> string \<Rightarrow> ID res" where
  "MustParseID uuid_parse s =
     (case ParseID uuid_parse s of Ret i \<Rightarrow> Ret i | Fail e \<Rightarrow> Panic ''ParseID'' | Panic p \<Rightarrow> Panic p)"

text \<open>A nullable \<open>uuid\<close> column: the nil identifier is stored as \<open>NULL\<close>.\<close>

definition ToPgUUID :: "ID \<Rightarrow> ID option" where
  "ToPgUUID i = (if i = NilID then None else Some i)"

definition FromPgUUID :: "ID option \<Rightarrow> ID" where
  "FromPgUUID u = (case u of None \<Rightarrow> NilID | Some i \<Rightarrow> i)"

lemma FromPg_ToPg [simp]: "FromPgUUID (ToPgUUID i) = i"
  by (simp add: ToPgUUID_def FromPgUUID_def)

lemma ToPgUUID_Some_iff [simp]: "ToPgUUID i = Some j \<longleftrightarrow> i = j \<and> j \<noteq> NilID"
  by (auto simp: ToPgUUID_def)

lemma ToPgUUID_None_iff [simp]: "ToPgUUID i = None \<longleftrightarrow> i = NilID"
  by (simp add: ToPgUUID_def)

section \<open>Context\<close>

datatype ActorType = ActorTypeUser | ActorTypeAPIKey | ActorTypeSystem

record AuthClaims =
  ac_UserID :: ID
  ac_TenantID :: ID
  ac_Email :: string
  ac_Name :: string
  ac_Roles :: "string list"
  ac_Permissions :: "string list"
  ac_ActorType :: ActorType
  ac_ServiceAccountID :: "ID option"
  ac_APIKeyID :: "ID option"

record ctx =
  ctx_tenant :: "ID option"
  ctx_claims :: "AuthClaims option"
  ctx_tx :: bool

definition Background :: ctx where
  "Background = \<lparr>ctx_tenant = None, ctx_claims = None, ctx_tx = False\<rparr>"

definition WithTenantID :: "ctx \<Rightarrow> ID \<Rightarrow> ctx" where
  "WithTenantID c i = c\<lparr>ctx_tenant := Some i\<rparr>"

definition GetTenantID :: "ctx \<Rightarrow> ID option" where
  "GetTenantID c = (case ctx_tenant c of None \<Rightarrow> None | Some i \<Rightarrow> if i = NilID then None else Some i)"

definition RequireTenantID :: "ctx \<Rightarrow> ID res" where
  "RequireTenantID c = (case GetTenantID c of None \<Rightarrow> Fail ErrTenantRequired | Some i \<Rightarrow> Ret i)"

definition WithAuthClaims :: "ctx \<Rightarrow> AuthClaims \<Rightarrow> ctx" where
  "WithAuthClaims c claims = c\<lparr>ctx_claims := Some claims\<rparr>"

definition GetAuthClaims :: "ctx \<Rightarrow> AuthClaims option" where
  "GetAuthClaims c = ctx_claims c"

fun has_perm :: "string list \<Rightarrow> string \<Rightarrow> bool" where
  "has_perm [] code = False"
| "has_perm (p # ps) code = (if p = code \<or> p = ''*'' then True else has_perm ps code)"

definition HasPermission :: "ctx \<Rightarrow> string \<Rightarrow> bool" where
  "HasPermission c code =
     (case GetAuthClaims c of None \<Rightarrow> False | Some claims \<Rightarrow> has_perm (ac_Permissions claims) code)"

lemma has_perm_iff: "has_perm ps code \<longleftrightarrow> code \<in> set ps \<or> ''*'' \<in> set ps"
  by (induction ps) auto

lemma HasPermission_iff:
  "HasPermission c code \<longleftrightarrow>
     (\<exists>cl. GetAuthClaims c = Some cl \<and> (code \<in> set (ac_Permissions cl) \<or> ''*'' \<in> set (ac_Permissions cl)))"
  by (auto simp: HasPermission_def has_perm_iff split: option.splits)

lemma GetTenantID_Some_iff: "GetTenantID c = Some i \<longleftrightarrow> ctx_tenant c = Some i \<and> i \<noteq> NilID"
  by (auto simp: GetTenantID_def split: option.splits)

lemma RequireTenantID_Ret_iff [res_simps]:
  "RequireTenantID c = Ret i \<longleftrightarrow> ctx_tenant c = Some i \<and> i \<noteq> NilID"
  by (auto simp: RequireTenantID_def GetTenantID_def split: option.splits)

end
