(* ===== verification/GoTime.thy ===== *)
theory GoTime
  imports Prelude
begin

text \<open>
  The part of Go's \<open>time\<close> package the sources use. An instant is a number of nanoseconds since
  the Unix epoch together with the offset of its location in seconds (\<open>time.Time\<close> carries a
  location; \<open>UTC()\<close> sets offset 0). The civil date of an instant is computed by cycles of 400,
  100, 4 and 1 years, as the library does it; the lemmas show that year and day of the year
  determine the day.
\<close>

record gotime =
  ns :: int
  off :: int

type_synonym duration = int

definition Second :: duration where
  "Second = 10 ^ 9"

definition Microsecond :: duration where
  "Microsecond = 1000"

definition UTC :: "gotime \<Rightarrow> gotime" where
  "UTC t = t\<lparr>off := 0\<rparr>"

definition utc_of_ns :: "int \<Rightarrow> gotime" where
  "utc_of_ns n = \<lparr>ns = n, off = 0\<rparr>"

text \<open>\<open>Time.IsZero\<close>: the first instant of year 1, in any location.\<close>

definition zero_ns :: int where
  "zero_ns = - 62135596800 * 10 ^ 9"

definition IsZero_time :: "gotime \<Rightarrow> bool" where
  "IsZero_time t \<longleftrightarrow> ns t = zero_ns"

definition Time_Before :: "gotime \<Rightarrow> gotime \<Rightarrow> bool" where
  "Time_Before t u \<longleftrightarrow> ns t < ns u"

definition Time_After :: "gotime \<Rightarrow> gotime \<Rightarrow> bool" where
  "Time_After t u \<longleftrightarrow> ns u < ns t"

definition Time_Sub :: "gotime \<Rightarrow> gotime \<Rightarrow> duration" where
  "Time_Sub t u = ns t - ns u"

definition Time_Add :: "gotime \<Rightarrow> duration \<Rightarrow> gotime" where
  "Time_Add t d = t\<lparr>ns := ns t + d\<rparr>"

text \<open>A \<open>timestamptz\<close> column keeps microseconds: the driver drops the rest.\<close>

definition to_micro :: "gotime \<Rightarrow> int" where
  "to_micro t = ns t div Microsecond * Microsecond"

section \<open>Civil dates\<close>

text \<open>Days since the first of January of year 1, in the location of the instant.\<close>

definition abs_day :: "gotime \<Rightarrow> int" where
  "abs_day t = (ns t + off t * Second) div (86400 * Second) + 719162"

definition is_leap :: "int \<Rightarrow> bool" where
  "is_leap y \<longleftrightarrow> y mod 4 = 0 \<and> (y mod 100 \<noteq> 0 \<or> y mod 400 = 0)"

text \<open>Year and zero-based day of the year.\<close>

definition year_yday :: "int \<Rightarrow> int \<times> int" where
  "year_yday D =
     (let q = D div 146097; d = D mod 146097;
          a = min 3 (d div 36524); d1 = d - 36524 * a;
          b = d1 div 1461; d2 = d1 mod 1461;
          c = min 3 (d2 div 365)
      in (400 * q + 100 * a + 4 * b + c + 1, d2 - 365 * c))"

fun find_month :: "int list \<Rightarrow> int \<Rightarrow> int \<Rightarrow> int \<times> int" where
  "find_month [] m d = (m, d + 1)"
| "find_month (l # ls) m d = (if d < l then (m, d + 1) else find_month ls (m + 1) (d - l))"

definition month_lengths :: "int \<Rightarrow> int list" where
  "month_lengths y = [31, if is_leap y then 29 else 28, 31, 30, 31, 30, 31, 31, 30, 31, 30]"

definition Year :: "gotime \<Rightarrow> int" where
  "Year t = fst (year_yday (abs_day t))"

definition YearDay :: "gotime \<Rightarrow> int" where
  "YearDay t = snd (year_yday (abs_day t)) + 1"

definition Month :: "gotime \<Rightarrow> int" where
  "Month t = (case year_yday (abs_day t) of (y, d) \<Rightarrow> fst (find_month (month_lengths y) 1 d))"

definition Day :: "gotime \<Rightarrow> int" where
  "Day t = (case year_yday (abs_day t) of (y, d) \<Rightarrow> snd (find_month (month_lengths y) 1 d))"

text \<open>\<open>Time.Format\<close> for the layouts the sources use.\<close>

definition Format_2006 :: "gotime \<Rightarrow> string" where
  "Format_2006 t = (if Year t < 0 then ''-'' @ fmt_0d 4 (- Year t) else fmt_0d 4 (Year t))"

definition Format_06 :: "gotime \<Rightarrow> string" where
  "Format_06 t = fmt_0d 2 (max 0 (Year t) mod 100)"

definition Format_01 :: "gotime \<Rightarrow> string" where
  "Format_01 t = fmt_0d 2 (Month t)"

definition Format_02 :: "gotime \<Rightarrow> string" where
  "Format_02 t = fmt_0d 2 (Day t)"

definition Format_20060102 :: "gotime \<Rightarrow> string" where
  "Format_20060102 t = Format_2006 t @ Format_01 t @ Format_02 t"

section \<open>Lemmas\<close>

text \<open>Days before a year, by the Gregorian rule.\<close>

definition days_before_year :: "int \<Rightarrow> int" where
  "days_before_year y = 365 * (y - 1) + (y - 1) div 4 - (y - 1) div 100 + (y - 1) div 400"

lemma min_3_div:
  assumes "0 \<le> e" and "e \<le> 4 * m" and "(0::int) < m"
  shows "0 \<le> min 3 (e div m)" and "min 3 (e div m) \<le> 3" and "0 \<le> e - m * min 3 (e div m)"
    and "e - m * min 3 (e div m) \<le> m"
proof -
  define k r where "k = e div m" and "r = e mod m"
  have k: "e = m * k + r" "0 \<le> r" "r < m" "0 \<le> k"
    using assms by (simp_all add: k_def r_def pos_imp_zdiv_nonneg_iff)
  show "0 \<le> min 3 (e div m)" "min 3 (e div m) \<le> 3" using k by (simp_all add: k_def [symmetric])
  have m: "m * 3 \<le> m * k" if "3 \<le> k" using that assms(3) by simp
  show "0 \<le> e - m * min 3 (e div m)" "e - m * min 3 (e div m) \<le> m"
    using k assms(2) m unfolding k_def [symmetric] min_def by (cases "3 \<le> k"; simp; linarith)+
qed

lemma year_yday_correct:
  assumes "year_yday D = (y, d)"
  shows "days_before_year y + d = D" and "0 \<le> d" and "d < 366"
proof -
  define q e where "q = D div 146097" and "e = D mod 146097"
  define a where "a = min 3 (e div 36524)"
  define e1 where "e1 = e - 36524 * a"
  define b e2 where "b = e1 div 1461" and "e2 = e1 mod 1461"
  define c where "c = min 3 (e2 div 365)"
  have D: "D = 146097 * q + e" "0 \<le> e" "e < 146097" by (simp_all add: q_def e_def)
  have a: "0 \<le> a" "a \<le> 3" "0 \<le> e1" "e1 \<le> 36524"
    using min_3_div [of e 36524] D(2,3) unfolding a_def e1_def by simp_all
  have b1: "e1 = 1461 * b + e2" "0 \<le> e2" "e2 < 1461" by (simp_all add: b_def e2_def)
  then have b2: "0 \<le> b" "b < 25" using a(3,4) by linarith+
  note b = b1 b2
  have c: "0 \<le> c" "c \<le> 3" "0 \<le> e2 - 365 * c" "e2 - 365 * c < 366"
    using min_3_div [of e2 365] b1(2,3) unfolding c_def by simp_all
  have y: "y = 400 * q + 100 * a + 4 * b + c + 1" "d = e2 - 365 * c"
    using assms unfolding year_yday_def Let_def q_def e_def a_def e1_def b_def e2_def c_def
    by (simp_all only: prod.inject)
  have "(400 * q + 100 * a + 4 * b + c) div 4 = 100 * q + 25 * a + b"
    using c by (intro int_div_pos_eq [where r = c]) simp_all
  moreover have "(400 * q + 100 * a + 4 * b + c) div 100 = 4 * q + a"
    using b c by (intro int_div_pos_eq [where r = "4 * b + c"]) simp_all
  moreover have "(400 * q + 100 * a + 4 * b + c) div 400 = q"
    using a b c by (intro int_div_pos_eq [where r = "100 * a + 4 * b + c"]) simp_all
  ultimately show "days_before_year y + d = D"
    using D b by (simp add: days_before_year_def y e1_def)
  show "0 \<le> d" "d < 366" using c y by simp_all
qed

text \<open>Year and day of the year determine the day.\<close>

lemma Year_YearDay_inj:
  assumes "Year t = Year u" and "YearDay t = YearDay u"
  shows "abs_day t = abs_day u"
proof -
  have "year_yday (abs_day t) = year_yday (abs_day u)"
    using assms by (simp add: Year_def YearDay_def prod_eq_iff)
  then show ?thesis using year_yday_correct(1) by (metis surj_pair)
qed

lemma find_month_range:
  "m \<le> fst (find_month ls m d) \<and> fst (find_month ls m d) \<le> m + int (length ls)"
proof (induction ls arbitrary: m d)
  case (Cons l ls)
  from Cons.IH [of "m + 1" "d - l"] show ?case by (simp add: ac_simps)
qed simp

lemma Month_range: "1 \<le> Month t \<and> Month t \<le> 12"
proof -
  obtain y d where yd: "year_yday (abs_day t) = (y, d)" by fastforce
  have "length (month_lengths y) = 11" by (simp add: month_lengths_def)
  with find_month_range [of 1 "month_lengths y" d] yd show ?thesis by (simp add: Month_def)
qed

end
