(* ===== verification/Effects.thy ===== *)
theory Effects
  imports SdkContext GoTime Float64
begin

text \<open>
  The effects of the use cases: the database with its transactions (\<open>pkg/database/tx.go\<close>), fresh
  identifiers and the clock. A procedure takes the environment (what the outside world
  answers, by the number of the call) and the state of the world and returns a result and a
  new state. The database itself is a type parameter here; \<open>Tables\<close> gives it.

  A statement outside a transaction is applied at once. A transaction works on a copy that
  replaces the database at commit and is dropped when the callback fails or panics. The
  server may refuse any statement (connection lost, value too long for its column, missing
  referenced row) and may execute a statement whose reply is lost; an error inside a
  transaction makes the server refuse everything up to the rollback. Transactions of
  different sessions are serial.
\<close>

datatype fault = NoFault | Refused | ReplyLost

record env =
  fault_at :: "nat \<Rightarrow> fault"
  newid_at :: "nat \<Rightarrow> ID option"
  clock_at :: "nat \<Rightarrow> int"
  dbnow_at :: "nat \<Rightarrow> int"
  local_off :: "int \<Rightarrow> int"
  cvt_int64 :: "float64 \<Rightarrow> int64"

record 'db world =
  wdb :: 'db
  wtx :: "('db \<times> bool) option"
  tick :: nat

type_synonym ('db, 'a) proc = "env \<Rightarrow> 'db world \<Rightarrow> 'a res \<times> 'db world"

section \<open>Sequencing\<close>

definition ret :: "'a \<Rightarrow> ('db, 'a) proc" where
  "ret x = (\<lambda>e w. (Ret x, w))"

definition fail :: "err \<Rightarrow> ('db, 'a) proc" where
  "fail er = (\<lambda>e w. (Fail er, w))"

definition lift_res :: "'a res \<Rightarrow> ('db, 'a) proc" where
  "lift_res r = (\<lambda>e w. (r, w))"

definition bindP :: "('db, 'a) proc \<Rightarrow> ('a \<Rightarrow> ('db, 'b) proc) \<Rightarrow> ('db, 'b) proc" where
  "bindP m k = (\<lambda>e w. case m e w of
     (Ret x, w1) \<Rightarrow> k x e w1 | (Fail er, w1) \<Rightarrow> (Fail er, w1) | (Panic p, w1) \<Rightarrow> (Panic p, w1))"

text \<open>\<open>if cond { return err }\<close>\<close>

definition guard :: "bool \<Rightarrow> err \<Rightarrow> ('db, unit) proc" where
  "guard b er = (if b then ret () else fail er)"

text \<open>The error of a call kept as a value, \<open>x, err := f()\<close>, for code that looks at it.\<close>

definition tryP :: "('db, 'a) proc \<Rightarrow> ('db, 'a res) proc" where
  "tryP m = (\<lambda>e w. case m e w of
     (Panic p, w1) \<Rightarrow> (Panic p, w1) | (r, w1) \<Rightarrow> (Ret r, w1))"

definition wrap_err :: "string \<Rightarrow> ('db, 'a) proc \<Rightarrow> ('db, 'a) proc" where
  "wrap_err msg m = (\<lambda>e w. case m e w of (Fail er, w1) \<Rightarrow> (Fail (Wrapped msg er), w1) | r \<Rightarrow> r)"

text \<open>\<open>errors.Is(err, pgx.ErrNoRows)\<close> turned into \<open>ErrNotFound\<close>.\<close>

definition norows_notfound :: "('db, 'a) proc \<Rightarrow> ('db, 'a) proc" where
  "norows_notfound m = (\<lambda>e w. case m e w of
     (Fail er, w1) \<Rightarrow> (Fail (if errors_Is er ErrNoRows then ErrNotFound else er), w1) | r \<Rightarrow> r)"

text \<open>\<open>existing, err := get(); if err != nil && err != ErrNotFound { return err }; if existing != nil
  { return ErrAlreadyExists }\<close>\<close>

definition must_not_exist :: "string \<Rightarrow> ('db, 'a) proc \<Rightarrow> ('db, unit) proc" where
  "must_not_exist msg m =
     bindP (tryP m) (\<lambda>r. case r of
       Ret x \<Rightarrow> fail (Wrapped msg ErrAlreadyExists)
     | Fail er \<Rightarrow> if er = ErrNotFound then ret () else fail er
     | Panic p \<Rightarrow> lift_res (Panic p))"

fun mapP :: "('a \<Rightarrow> ('db, 'b) proc) \<Rightarrow> 'a list \<Rightarrow> ('db, 'b list) proc" where
  "mapP f [] = ret []"
| "mapP f (x # xs) = bindP (f x) (\<lambda>y. bindP (mapP f xs) (\<lambda>ys. ret (y # ys)))"

section \<open>Identifiers and clock\<close>

definition NewID :: "('db, ID) proc" where
  "NewID = (\<lambda>e w.
     ((case newid_at e (tick w) of None \<Rightarrow> Fail (Opaque ''uuid'') | Some i \<Rightarrow> Ret i),
      w\<lparr>tick := Suc (tick w)\<rparr>))"

definition Now :: "('db, gotime) proc" where
  "Now = (\<lambda>e w. (Ret (utc_of_ns (clock_at e (tick w))), w\<lparr>tick := Suc (tick w)\<rparr>))"

definition ask_env :: "(env \<Rightarrow> 'a) \<Rightarrow> ('db, 'a) proc" where
  "ask_env g = (\<lambda>e w. (Ret (g e), w))"

text \<open>The rows a statement returns, converted to values of the domain; times are read in the local zone.\<close>

definition read_with :: "((int \<Rightarrow> int) \<Rightarrow> 'r \<Rightarrow> 'a) \<Rightarrow> ('db, 'r) proc \<Rightarrow> ('db, 'a) proc" where
  "read_with conv m = bindP m (\<lambda>r. bindP (ask_env local_off) (\<lambda>lo. ret (conv lo r)))"

section \<open>Statements and transactions\<close>

text \<open>
  A statement is a function from the time of the server and the tables to a result and new
  tables. An error leaves the tables as they were.
\<close>

definition stmt :: "ctx \<Rightarrow> (int \<Rightarrow> 'db \<Rightarrow> 'a res \<times> 'db) \<Rightarrow> ('db, 'a) proc" where
  "stmt c f = (\<lambda>e w.
     let w1 = w\<lparr>tick := Suc (tick w)\<rparr>; t = dbnow_at e (tick w); lost = Fail (Opaque ''database'')
     in if ctx_tx c
        then (case wtx w of
            None \<Rightarrow> (Fail (Opaque ''tx is closed''), w1)
          | Some (d, aborted) \<Rightarrow>
              if aborted then (Fail (Opaque ''current transaction is aborted''), w1)
              else if fault_at e (tick w) \<noteq> NoFault then (lost, w1\<lparr>wtx := Some (d, True)\<rparr>)
              else (case f t d of
                  (Ret x, d1) \<Rightarrow> (Ret x, w1\<lparr>wtx := Some (d1, False)\<rparr>)
                | (r, d1) \<Rightarrow> (r, w1\<lparr>wtx := Some (d, r \<noteq> Fail ErrNoRows)\<rparr>)))
        else (case fault_at e (tick w) of
            Refused \<Rightarrow> (lost, w1)
          | ReplyLost \<Rightarrow> (case f t (wdb w) of
                (Ret x, d1) \<Rightarrow> (lost, w1\<lparr>wdb := d1\<rparr>) | (r, d1) \<Rightarrow> (lost, w1))
          | NoFault \<Rightarrow> (case f t (wdb w) of
                (Ret x, d1) \<Rightarrow> (Ret x, w1\<lparr>wdb := d1\<rparr>) | (r, d1) \<Rightarrow> (r, w1))))"

definition query :: "ctx \<Rightarrow> ('db \<Rightarrow> 'a res) \<Rightarrow> ('db, 'a) proc" where
  "query c g = stmt c (\<lambda>t d. (g d, d))"

text \<open>\<open>pool.Begin\<close>, the callback, and \<open>Commit\<close> or the deferred \<open>Rollback\<close>.\<close>

definition run_tx :: "('db, 'a) proc \<Rightarrow> ('db, 'a) proc" where
  "run_tx body = (\<lambda>e w.
     let w1 = w\<lparr>tick := Suc (tick w)\<rparr>; lost = Fail (Opaque ''database'')
     in if fault_at e (tick w) \<noteq> NoFault then (lost, w1)
        else (case body e (w1\<lparr>wtx := Some (wdb w, False)\<rparr>) of
            (Ret x, w2) \<Rightarrow>
              (let w3 = w2\<lparr>wtx := wtx w, tick := Suc (tick w2)\<rparr>
               in case wtx w2 of
                    Some (d, False) \<Rightarrow>
                      (case fault_at e (tick w2) of
                         NoFault \<Rightarrow> (Ret x, w3\<lparr>wdb := d\<rparr>)
                       | ReplyLost \<Rightarrow> (lost, w3\<lparr>wdb := d\<rparr>)
                       | Refused \<Rightarrow> (lost, w3))
                  | _ \<Rightarrow> (Fail (Opaque ''commit unexpectedly resulted in rollback''), w3))
          | (Fail er, w2) \<Rightarrow> (Fail er, w2\<lparr>wtx := wtx w\<rparr>)
          | (Panic p, w2) \<Rightarrow> (Panic p, w2\<lparr>wtx := wtx w\<rparr>)))"

definition WithTx :: "ctx \<Rightarrow> (ctx \<Rightarrow> ('db, 'a) proc) \<Rightarrow> ('db, 'a) proc" where
  "WithTx c fn = (if ctx_tx c then fn c else run_tx (fn (c\<lparr>ctx_tx := True\<rparr>)))"

text \<open>A repository that ignores the transaction of the context runs on the pool.\<close>

definition pool_ctx :: "ctx \<Rightarrow> ctx" where
  "pool_ctx c = c\<lparr>ctx_tx := False\<rparr>"

definition tx_ctx :: "ctx \<Rightarrow> ctx" where
  "tx_ctx c = c\<lparr>ctx_tx := True\<rparr>"

lemma ctx_tx_simps [simp]: "\<not> ctx_tx (pool_ctx c)" "ctx_tx (tx_ctx c)"
  by (simp_all add: pool_ctx_def tx_ctx_def)

section \<open>Evaluation\<close>

text \<open>
  Rules that run a procedure on a concrete world from the left: the continuation is looked at
  only when the result before it is known.
\<close>

definition afterP :: "'a res \<times> 'db world \<Rightarrow> ('a \<Rightarrow> ('db, 'b) proc) \<Rightarrow> env \<Rightarrow> 'b res \<times> 'db world" where
  "afterP r k e = (case r of
     (Ret x, w1) \<Rightarrow> k x e w1 | (Fail er, w1) \<Rightarrow> (Fail er, w1) | (Panic p, w1) \<Rightarrow> (Panic p, w1))"

lemma bindP_eval: "bindP m k e w = afterP (m e w) k e"
  by (simp add: bindP_def afterP_def)

lemma afterP_simps:
  "afterP (Ret x, w1) k e = k x e w1"
  "afterP (Fail er, w1) k e = (Fail er, w1)"
  "afterP (Panic p, w1) k e = (Panic p, w1)"
  by (simp_all add: afterP_def)

lemma afterP_cong: "r = r' \<Longrightarrow> afterP r k e = afterP r' k e"
  by simp

lemma bindP_cong: "w = w' \<Longrightarrow> bindP m k e w = bindP m k e w'"
  by simp

lemma Let_cong: "x = y \<Longrightarrow> Let x f = Let y f"
  by simp

lemmas proc_congs = afterP_cong bindP_cong Let_cong

lemmas proc_eval = bindP_eval afterP_simps ret_def fail_def lift_res_def guard_def tryP_def wrap_err_def
  norows_notfound_def NewID_def Now_def ask_env_def stmt_def query_def run_tx_def WithTx_def Let_def

section \<open>Computation rules\<close>

named_theorems proc_simps "evaluation of procedures"

lemma bindP_Ret_iff:
  "bindP m k e w = (Ret y, w') \<longleftrightarrow> (\<exists>x w1. m e w = (Ret x, w1) \<and> k x e w1 = (Ret y, w'))"
  by (auto simp: bindP_def split: prod.splits res.splits)

lemma bindP_not_Ret:
  "bindP m k e w = (r, w') \<Longrightarrow> \<not> is_Ret r \<Longrightarrow>
     (\<exists>r1. m e w = (r1, w') \<and> \<not> is_Ret r1) \<or> (\<exists>x w1. m e w = (Ret x, w1) \<and> k x e w1 = (r, w'))"
  by (auto simp: bindP_def split: prod.splits res.splits)

lemma bindP_ret [simp, proc_simps]: "bindP (ret x) k = k x"
  by (simp add: bindP_def ret_def)

lemma bindP_fail [simp, proc_simps]: "bindP (fail er) k = fail er"
  by (simp add: bindP_def fail_def)

lemma bindP_assoc: "bindP (bindP m k) h = bindP m (\<lambda>x. bindP (k x) h)"
  by (auto simp: bindP_def fun_eq_iff split: prod.splits res.splits)

lemma ret_Ret_iff [proc_simps]: "ret x e w = (Ret y, w') \<longleftrightarrow> y = x \<and> w' = w"
  by (auto simp: ret_def)

lemma fail_Ret [proc_simps]: "fail er e w = (Ret y, w') \<longleftrightarrow> False"
  by (simp add: fail_def)

lemma lift_res_Ret_iff [proc_simps]: "lift_res r e w = (Ret y, w') \<longleftrightarrow> r = Ret y \<and> w' = w"
  by (auto simp: lift_res_def)

lemma guard_Ret_iff [proc_simps]: "guard b er e w = (Ret u, w') \<longleftrightarrow> b \<and> w' = w"
  by (auto simp: guard_def ret_def fail_def)

lemma NewID_Ret_iff [proc_simps]:
  "NewID e w = (Ret i, w') \<longleftrightarrow> newid_at e (tick w) = Some i \<and> w' = w\<lparr>tick := Suc (tick w)\<rparr>"
  by (auto simp: NewID_def split: option.splits)

lemma Now_Ret_iff [proc_simps]:
  "Now e w = (Ret t, w') \<longleftrightarrow> t = utc_of_ns (clock_at e (tick w)) \<and> w' = w\<lparr>tick := Suc (tick w)\<rparr>"
  by (auto simp: Now_def)

lemma ask_env_Ret_iff [proc_simps]: "ask_env g e w = (Ret x, w') \<longleftrightarrow> x = g e \<and> w' = w"
  by (auto simp: ask_env_def)

lemma wrap_err_Ret_iff [proc_simps]: "wrap_err m p e w = (Ret x, w') \<longleftrightarrow> p e w = (Ret x, w')"
  by (auto simp: wrap_err_def split: prod.splits res.splits)

lemma norows_Ret_iff [proc_simps]: "norows_notfound p e w = (Ret x, w') \<longleftrightarrow> p e w = (Ret x, w')"
  by (auto simp: norows_notfound_def split: prod.splits res.splits)

lemma tryP_Ret_iff:
  "tryP m e w = (Ret r, w') \<longleftrightarrow> m e w = (r, w') \<and> (\<forall>p. r \<noteq> Panic p)"
  by (auto simp: tryP_def split: prod.splits res.splits)

text \<open>A statement that succeeds: outside a transaction it changes the database, inside the
  working copy.\<close>

lemma stmt_Ret_outside:
  "\<not> ctx_tx c \<Longrightarrow> stmt c f e w = (Ret x, w') \<longleftrightarrow>
     fault_at e (tick w) = NoFault \<and>
     (\<exists>d. f (dbnow_at e (tick w)) (wdb w) = (Ret x, d) \<and> w' = w\<lparr>tick := Suc (tick w), wdb := d\<rparr>)"
  by (auto simp: stmt_def Let_def split: prod.splits res.splits fault.splits)

lemma stmt_Ret_inside:
  "ctx_tx c \<Longrightarrow> stmt c f e w = (Ret x, w') \<longleftrightarrow>
     fault_at e (tick w) = NoFault \<and>
     (\<exists>d d1. wtx w = Some (d, False) \<and> f (dbnow_at e (tick w)) d = (Ret x, d1) \<and>
        w' = w\<lparr>tick := Suc (tick w), wtx := Some (d1, False)\<rparr>)"
  by (auto simp: stmt_def Let_def split: prod.splits res.splits fault.splits option.splits if_splits)

lemma query_Ret_outside:
  "\<not> ctx_tx c \<Longrightarrow> query c g e w = (Ret x, w') \<longleftrightarrow>
     fault_at e (tick w) = NoFault \<and> g (wdb w) = Ret x \<and> w' = w\<lparr>tick := Suc (tick w)\<rparr>"
  by (auto simp: query_def stmt_Ret_outside)

section \<open>Frame and transaction rules\<close>

text \<open>A procedure that leaves the committed database alone.\<close>

definition keeps_db :: "('db, 'a) proc \<Rightarrow> bool" where
  "keeps_db m \<longleftrightarrow> (\<forall>e w. wdb (snd (m e w)) = wdb w)"

lemma keepsD: "keeps_db m \<Longrightarrow> m e w = (r, w') \<Longrightarrow> wdb w' = wdb w"
  unfolding keeps_db_def by (metis snd_conv)

named_theorems keeps_intros "procedures that leave the committed database alone"

lemma keeps_ret [keeps_intros]: "keeps_db (ret x)" "keeps_db (fail er)" "keeps_db (lift_res r)"
  "keeps_db (guard b er)" "keeps_db NewID" "keeps_db Now" "keeps_db (ask_env g)"
  by (simp_all add: keeps_db_def ret_def fail_def lift_res_def guard_def NewID_def Now_def ask_env_def)

lemma keeps_bind [keeps_intros]: "keeps_db m \<Longrightarrow> (\<And>x. keeps_db (k x)) \<Longrightarrow> keeps_db (bindP m k)"
  unfolding keeps_db_def bindP_def by (auto split: prod.splits res.splits) (metis snd_conv)+

lemma keeps_wrap [keeps_intros]:
  "keeps_db m \<Longrightarrow> keeps_db (wrap_err s m)" "keeps_db m \<Longrightarrow> keeps_db (norows_notfound m)"
  "keeps_db m \<Longrightarrow> keeps_db (tryP m)"
  unfolding keeps_db_def wrap_err_def norows_notfound_def tryP_def
  by (auto split: prod.splits res.splits) (metis snd_conv)+

lemma keeps_mapP [keeps_intros]: "(\<And>x. keeps_db (f x)) \<Longrightarrow> keeps_db (mapP f xs)"
  by (induction xs) (auto intro!: keeps_intros)

lemma keeps_stmt_tx [keeps_intros]: "ctx_tx c \<Longrightarrow> keeps_db (stmt c f)"
  unfolding keeps_db_def stmt_def by (auto simp: Let_def split: prod.splits res.splits option.splits)

lemma keeps_query [keeps_intros]: "keeps_db (query c g)"
  unfolding keeps_db_def query_def stmt_def
  by (auto simp: Let_def split: prod.splits res.splits option.splits fault.splits)

lemma keeps_must_not_exist [keeps_intros]: "keeps_db m \<Longrightarrow> keeps_db (must_not_exist s m)"
  unfolding must_not_exist_def by (intro keeps_intros) (auto intro!: keeps_intros split: res.splits)

text \<open>Procedures outside a transaction, step by step: a part that keeps the database, and the single statement
  that may change it, even when its reply is lost.\<close>

lemma bind_keeps_cases:
  assumes "bindP m k e w = (r, w')" and "keeps_db m"
  obtains (stopped) "wdb w' = wdb w"
  | (continued) x w1 where "m e w = (Ret x, w1)" and "wdb w1 = wdb w" and "k x e w1 = (r, w')"
proof -
  obtain r1 w1 where m: "m e w = (r1, w1)" by fastforce
  have kd: "wdb w1 = wdb w" using assms(2) m unfolding keeps_db_def by (metis snd_conv)
  show thesis
  proof (cases r1)
    case (Ret x)
    with assms(1) m have "k x e w1 = (r, w')" by (simp add: bindP_def)
    with m kd Ret show thesis by (blast intro: continued)
  qed (use assms(1) m kd stopped in \<open>auto simp: bindP_def\<close>)
qed

lemma stmt_pool_cases:
  assumes "stmt (pool_ctx c) f e w = (r, w')"
  shows "wdb w' = wdb w \<or> (\<exists>x. f (dbnow_at e (tick w)) (wdb w) = (Ret x, wdb w'))"
  using assms by (auto simp: stmt_def Let_def split: fault.splits prod.splits res.splits)

lemma keeps_db_bind_stmt:
  assumes "bindP (stmt c f) k e w = (r, w')" and "\<And>x. keeps_db (k x)"
  obtains r1 w1 where "stmt c f e w = (r1, w1)" and "wdb w' = wdb w1"
proof -
  obtain r1 w1 where m: "stmt c f e w = (r1, w1)" by fastforce
  have "wdb w' = wdb w1"
    using assms(1) m assms(2) by (cases r1) (auto simp: bindP_def keeps_db_def, metis snd_conv)
  with m show thesis by (rule that)
qed

lemma read_with_stmt:
  assumes "read_with conv (stmt (pool_ctx c) f) e w = (r, w')"
  shows "wdb w' = wdb w \<or> (\<exists>t x. f t (wdb w) = (Ret x, wdb w'))"
proof -
  from keeps_db_bind_stmt [OF assms [unfolded read_with_def]]
  obtain r1 w1 where s: "stmt (pool_ctx c) f e w = (r1, w1)" and "wdb w' = wdb w1" by (metis keeps_bind keeps_ret(1,7))
  with stmt_pool_cases [OF s] show ?thesis by auto
qed

lemma read_with_Ret_iff:
  "read_with conv m e w = (Ret x, w') \<longleftrightarrow> (\<exists>r. m e w = (Ret r, w') \<and> x = conv (local_off e) r)"
  by (auto simp: read_with_def bindP_Ret_iff proc_simps)

lemma keeps_read_with [keeps_intros]: "keeps_db m \<Longrightarrow> keeps_db (read_with conv m)"
  unfolding read_with_def by (intro keeps_intros)

text \<open>A read with a server that answers.\<close>

lemma query_answers:
  "\<forall>n. fault_at e n = NoFault \<Longrightarrow> query (pool_ctx c) g e w = (g (wdb w), w\<lparr>tick := Suc (tick w)\<rparr>)"
  by (auto simp: query_def stmt_def Let_def split: res.splits)

lemma read_with_answers:
  "m e w = (Ret x, w') \<Longrightarrow> read_with conv m e w = (Ret (conv (local_off e) x), w')"
  by (simp add: read_with_Ret_iff)

lemma norows_answers: "m e w = (Ret x, w') \<Longrightarrow> norows_notfound m e w = (Ret x, w')"
  by (simp add: proc_simps)

text \<open>The outcome of a transaction whose body touches only its working copy: nothing at all, or
  the whole effect of a successful run of the body.\<close>

lemma run_tx_cases:
  assumes "run_tx body e w = (r, w')" and "keeps_db body"
  obtains (unchanged) "wdb w' = wdb w" and "\<not> is_Ret r"
  | (applied) x w2 d where
      "body e (w\<lparr>tick := Suc (tick w), wtx := Some (wdb w, False)\<rparr>) = (Ret x, w2)"
      and "wtx w2 = Some (d, False)" and "wdb w' = d"
      and "r = Ret x \<and> fault_at e (tick w2) = NoFault \<or>
           r = Fail (Opaque ''database'') \<and> fault_at e (tick w2) = ReplyLost"
proof -
  let ?w1 = "w\<lparr>tick := Suc (tick w), wtx := Some (wdb w, False)\<rparr>"
  obtain b w2 where b: "body e ?w1 = (b, w2)" by fastforce
  have k: "wdb w2 = wdb w" using assms(2) b by (metis keeps_db_def select_convs(1) snd_conv surjective update_convs(2,3))
  show thesis
    using assms(1) b k that unfolding run_tx_def Let_def
    by (auto split: if_splits res.splits option.splits prod.splits bool.splits fault.splits)
qed

lemma run_tx_Ret:
  assumes "run_tx body e w = (Ret x, w')"
  obtains w2 d where "body e (w\<lparr>tick := Suc (tick w), wtx := Some (wdb w, False)\<rparr>) = (Ret x, w2)"
    and "wtx w2 = Some (d, False)" and "wdb w' = d" and "wtx w' = wtx w" and "tick w' = Suc (tick w2)"
  using assms that unfolding run_tx_def Let_def
  by (auto split: if_splits res.splits option.splits prod.splits bool.splits fault.splits)

section \<open>Relations between the states before and after\<close>

text \<open>
  \<open>stays R m\<close>: whatever the outcome of \<open>m\<close>, errors and lost replies included, the database
  after is related by \<open>R\<close> to the one before, and so is the working copy of an open
  transaction. For a reflexive and transitive \<open>R\<close> (an invariant that is kept, a log that only
  grows) this follows from the single statements.
\<close>

definition stays :: "('db \<Rightarrow> 'db \<Rightarrow> bool) \<Rightarrow> ('db, 'a) proc \<Rightarrow> bool" where
  "stays R m \<longleftrightarrow> (\<forall>e w r w'. m e w = (r, w') \<longrightarrow> R (wdb w) (wdb w') \<and>
     (case wtx w of None \<Rightarrow> wtx w' = None
      | Some (d, b) \<Rightarrow> \<exists>d' b'. wtx w' = Some (d', b') \<and> R d d'))"

named_theorems stays_intros "procedures that stay within a relation"

lemma staysD: "stays R m \<Longrightarrow> m e w = (r, w') \<Longrightarrow> R (wdb w) (wdb w')"
  by (auto simp: stays_def)

locale db_order =
  fixes R :: "'db \<Rightarrow> 'db \<Rightarrow> bool"
  assumes R_refl: "R d d"
    and R_trans: "R d1 d2 \<Longrightarrow> R d2 d3 \<Longrightarrow> R d1 d3"
begin

lemma stays_pure [stays_intros]: "stays R (ret x)" "stays R (fail er)" "stays R (lift_res r)"
  "stays R (guard b er)" "stays R NewID" "stays R Now" "stays R (ask_env g)"
  by (auto simp: stays_def ret_def fail_def lift_res_def guard_def NewID_def Now_def ask_env_def
      R_refl split: option.splits if_splits)

lemma stays_bind_post:
  assumes m: "stays R m" and k: "\<And>e w x w'. m e w = (Ret x, w') \<Longrightarrow> stays R (k x)"
  shows "stays R (bindP m k)"
  unfolding stays_def
proof (intro allI impI)
  fix e w r w'
  assume b: "bindP m k e w = (r, w')"
  obtain r1 w1 where m1: "m e w = (r1, w1)" by fastforce
  have q1: "R (wdb w) (wdb w1) \<and> (case wtx w of None \<Rightarrow> wtx w1 = None
      | Some (d, b) \<Rightarrow> \<exists>d' b'. wtx w1 = Some (d', b') \<and> R d d')"
    using m m1 unfolding stays_def by blast
  show "R (wdb w) (wdb w') \<and> (case wtx w of None \<Rightarrow> wtx w' = None
      | Some (d, b) \<Rightarrow> \<exists>d' b'. wtx w' = Some (d', b') \<and> R d d')"
  proof (cases r1)
    case (Ret x)
    with b m1 have kx: "k x e w1 = (r, w')" by (simp add: bindP_def)
    have "stays R (k x)" using k m1 Ret by blast
    with kx have q2: "R (wdb w1) (wdb w') \<and> (case wtx w1 of None \<Rightarrow> wtx w' = None
        | Some (d, b) \<Rightarrow> \<exists>d' b'. wtx w' = Some (d', b') \<and> R d d')"
      unfolding stays_def by blast
    show ?thesis
      using q1 q2 R_trans by (cases "wtx w") (fastforce split: option.splits)+
  qed (use b m1 q1 in \<open>auto simp: bindP_def\<close>)
qed

lemma stays_bind [stays_intros]: "stays R m \<Longrightarrow> (\<And>x. stays R (k x)) \<Longrightarrow> stays R (bindP m k)"
  by (rule stays_bind_post)

lemma stays_bind_res: "(\<And>x. r = Ret x \<Longrightarrow> stays R (k x)) \<Longrightarrow> stays R (bindP (lift_res r) k)"
  by (rule stays_bind_post) (auto intro: stays_intros simp: proc_simps)

lemma stays_bind_guard: "(b \<Longrightarrow> stays R (k ())) \<Longrightarrow> stays R (bindP (guard b er) k)"
  by (rule stays_bind_post) (auto intro: stays_intros simp: proc_simps)

lemma stays_handlers [stays_intros]:
  "stays R m \<Longrightarrow> stays R (wrap_err s m)" "stays R m \<Longrightarrow> stays R (norows_notfound m)"
  "stays R m \<Longrightarrow> stays R (tryP m)"
  unfolding stays_def wrap_err_def norows_notfound_def tryP_def
  by (intro allI impI, auto split: prod.splits res.splits)+

lemma stays_must_not_exist [stays_intros]: "stays R m \<Longrightarrow> stays R (must_not_exist s m)"
  unfolding must_not_exist_def by (intro stays_intros) (auto intro!: stays_intros split: res.splits)

lemma stays_read_with [stays_intros]: "stays R m \<Longrightarrow> stays R (read_with conv m)"
  unfolding read_with_def by (intro stays_intros)

lemma stays_mapP [stays_intros]: "(\<And>x. stays R (f x)) \<Longrightarrow> stays R (mapP f xs)"
  by (induction xs) (auto intro!: stays_intros)

lemma stays_stmt:
  assumes "\<And>t d x d'. f t d = (Ret x, d') \<Longrightarrow> R d d'"
  shows "stays R (stmt c f)"
  unfolding stays_def stmt_def Let_def
  by (auto simp: R_refl split: prod.splits res.splits option.splits fault.splits if_splits dest: assms)

lemma stays_query [stays_intros]: "stays R (query c g)"
  unfolding query_def by (rule stays_stmt) (simp add: R_refl)

lemma stays_run_tx [stays_intros]:
  assumes "stays R body"
  shows "stays R (run_tx body)"
  unfolding stays_def
proof (intro allI impI)
  fix e w r w'
  assume b: "run_tx body e w = (r, w')"
  let ?w1 = "w\<lparr>tick := Suc (tick w), wtx := Some (wdb w, False)\<rparr>"
  obtain r1 w2 where m1: "body e ?w1 = (r1, w2)" by fastforce
  have q: "R (wdb w) (wdb w2)" "\<exists>d' b'. wtx w2 = Some (d', b') \<and> R (wdb w) d'"
    using assms m1 unfolding stays_def by fastforce+
  show "R (wdb w) (wdb w') \<and> (case wtx w of None \<Rightarrow> wtx w' = None
      | Some (d, b) \<Rightarrow> \<exists>d' b'. wtx w' = Some (d', b') \<and> R d d')"
    using b m1 q unfolding run_tx_def Let_def
    by (auto simp: R_refl split: if_splits res.splits option.splits prod.splits bool.splits fault.splits)
qed

lemma stays_WithTx [stays_intros]: "(\<And>c. stays R (fn c)) \<Longrightarrow> stays R (WithTx c fn)"
  by (auto simp: WithTx_def intro: stays_run_tx)

end

end
