(* ===== verification/Sequence.thy ===== *)
theory Sequence
  imports SdkContext GoTime
begin

text \<open>
  \<open>internal/core/domain/sequence/sequence.go\<close>: auto-numbering rules. The counter is an \<open>int64\<close>
  that wraps. The lemmas show when a counter is reset, that it grows otherwise, and that the
  text of a number determines the counter.
\<close>

type_synonym ResetPolicy = string

definition ResetNever :: ResetPolicy where "ResetNever = ''never''"
definition ResetYearly :: ResetPolicy where "ResetYearly = ''yearly''"
definition ResetMonthly :: ResetPolicy where "ResetMonthly = ''monthly''"
definition ResetDaily :: ResetPolicy where "ResetDaily = ''daily''"

lemmas reset_defs = ResetNever_def ResetYearly_def ResetMonthly_def ResetDaily_def

definition ResetPolicy_IsValid :: "ResetPolicy \<Rightarrow> bool" where
  "ResetPolicy_IsValid r \<longleftrightarrow> r = ResetNever \<or> r = ResetYearly \<or> r = ResetMonthly \<or> r = ResetDaily"

record Sequence =
  sq_ID :: ID
  sq_TenantID :: ID
  sq_Code :: string
  sq_Name :: string
  sq_EntityType :: string
  sq_SubType :: string
  sq_Prefix :: string
  sq_Suffix :: string
  sq_Template :: string
  sq_Padding :: int64
  sq_StartValue :: int64
  sq_IncrementBy :: int64
  sq_CurrentValue :: int64
  sq_ResetPolicy :: ResetPolicy
  sq_LastNumber :: string
  sq_LastResetAt :: "gotime option"
  sq_IsActive :: bool
  sq_CreatedAt :: gotime
  sq_UpdatedAt :: gotime

definition ShouldReset :: "Sequence \<Rightarrow> gotime \<Rightarrow> bool" where
  "ShouldReset s now =
     (if sq_ResetPolicy s = ResetNever \<or> sq_CurrentValue s = 0 then False
      else case sq_LastResetAt s of None \<Rightarrow> False
      | Some lst \<Rightarrow>
          if sq_ResetPolicy s = ResetYearly then Year now \<noteq> Year lst
          else if sq_ResetPolicy s = ResetMonthly then Year now \<noteq> Year lst \<or> Month now \<noteq> Month lst
          else if sq_ResetPolicy s = ResetDaily then Year now \<noteq> Year lst \<or> YearDay now \<noteq> YearDay lst
          else False)"

definition NextValue :: "Sequence \<Rightarrow> gotime \<Rightarrow> int64 \<times> bool" where
  "NextValue s now =
     (if ShouldReset s now then (sq_StartValue s, True)
      else if sq_CurrentValue s <s sq_StartValue s then (sq_StartValue s, False)
      else let increment = (if sq_IncrementBy s \<le>s 0 then 1 else sq_IncrementBy s)
           in (sq_CurrentValue s + increment, False))"

section \<open>Formatting\<close>

text \<open>\<open>seqPatternRegex\<close>: \<open>{SEQ}\<close> or \<open>{SEQ:N}\<close> with a non-empty run of digits. A match at the
  front gives the digits and the rest of the text.\<close>

definition is_digit :: "char \<Rightarrow> bool" where
  "is_digit c \<longleftrightarrow> CHR ''0'' \<le> c \<and> c \<le> CHR ''9''"

definition seq_match :: "string \<Rightarrow> (string \<times> string) option" where
  "seq_match s =
     (if HasPrefix s ''{SEQ}'' then Some ([], drop 5 s)
      else if HasPrefix s ''{SEQ:''
      then (let ds = takeWhile is_digit (drop 5 s); r = dropWhile is_digit (drop 5 s)
            in if ds \<noteq> [] \<and> HasPrefix r ''}'' then Some (ds, tl r) else None)
      else None)"

lemma seq_match_shorter: "seq_match s = Some (ds, r) \<Longrightarrow> length r < length s"
proof -
  assume m: "seq_match s = Some (ds, r)"
  have "length (dropWhile is_digit (drop 5 s)) \<le> length s - 5"
    using length_dropWhile_le [of is_digit "drop 5 s"] by simp
  with m show ?thesis
    by (cases s) (auto simp: seq_match_def HasPrefix_def Let_def split: if_splits)
qed

text \<open>\<open>ReplaceAllStringFunc\<close>: leftmost matches, from left to right.\<close>

function seq_subst :: "(string \<Rightarrow> string) \<Rightarrow> string \<Rightarrow> string" where
  "seq_subst f s =
     (case seq_match s of
        Some (ds, r) \<Rightarrow> f ds @ seq_subst f r
      | None \<Rightarrow> (case s of [] \<Rightarrow> [] | c # cs \<Rightarrow> c # seq_subst f cs))"
  by pat_completeness auto
termination
  by (relation "measure (\<lambda>(f, s). length s)") (auto dest: seq_match_shorter)

declare seq_subst.simps [simp del]

text \<open>\<open>strconv.Atoi\<close> on a run of digits.\<close>

definition Atoi :: "string \<Rightarrow> int option" where
  "Atoi ds = (if int (dec_value ds) < 2 ^ 63 then Some (int (dec_value ds)) else None)"

text \<open>\<open>fmt.Sprintf("%0<N>d", val)\<close>: the format parser gives up on a width whose digits before the
  last exceed a million.\<close>

definition sprintf_width :: "int \<Rightarrow> int64 \<Rightarrow> string" where
  "sprintf_width n val =
     (if n div 10 \<le> 1000000 then fmt_0d (nat n) (sint val)
      else ''%!(NOVERB)%!(EXTRA int64='' @ fmt_d (sint val) @ '')'')"

definition seq_padding :: "int64 \<Rightarrow> string \<Rightarrow> int" where
  "seq_padding defaultPadding ds =
     (let padding = (if defaultPadding \<le>s 0 then 4 else sint defaultPadding)
      in if ds \<noteq> [] then (case Atoi ds of Some n \<Rightarrow> if 0 < n then n else padding | None \<Rightarrow> padding)
         else padding)"

text \<open>The template with all tokens but the counter replaced. The extra tokens come in the order
  in which the map is iterated.\<close>

definition expand_template ::
    "string \<Rightarrow> string \<Rightarrow> string \<Rightarrow> gotime \<Rightarrow> (string \<times> string) list \<Rightarrow> string" where
  "expand_template template prefix suffix now extraTokens =
     (let t0 = (if template = [] then ''{PREFIX}/{YYYY}/{MM}/{SEQ:4}'' else template);
          t1 = ReplaceAll t0 ''{PREFIX}'' prefix;
          t2 = ReplaceAll t1 ''{SUFFIX}'' suffix;
          t3 = ReplaceAll t2 ''{YYYY}'' (Format_2006 now);
          t4 = ReplaceAll t3 ''{YY}'' (Format_06 now);
          t5 = ReplaceAll t4 ''{MM}'' (Format_01 now);
          t6 = ReplaceAll t5 ''{DD}'' (Format_02 now)
      in fold (\<lambda>(k, v) res. ReplaceAll res (''{'' @ k @ ''}'') v) extraTokens t6)"

definition FormatNumber ::
    "string \<Rightarrow> string \<Rightarrow> string \<Rightarrow> int64 \<Rightarrow> int64 \<Rightarrow> gotime \<Rightarrow> (string \<times> string) list \<Rightarrow> string" where
  "FormatNumber template prefix suffix val defaultPadding now extraTokens =
     seq_subst (\<lambda>ds. sprintf_width (seq_padding defaultPadding ds) val)
       (expand_template template prefix suffix now extraTokens)"

section \<open>Lemmas on the counter\<close>

lemma NextValue_cases:
  obtains (reset) "ShouldReset s now" "NextValue s now = (sq_StartValue s, True)"
  | (first) "\<not> ShouldReset s now" "sq_CurrentValue s <s sq_StartValue s"
      "NextValue s now = (sq_StartValue s, False)"
  | (inc) i where "\<not> ShouldReset s now" "\<not> sq_CurrentValue s <s sq_StartValue s" "1 \<le> sint i"
      "i = (if sq_IncrementBy s \<le>s 0 then 1 else sq_IncrementBy s)"
      "NextValue s now = (sq_CurrentValue s + i, False)"
proof -
  let ?i = "if sq_IncrementBy s \<le>s 0 then 1 else sq_IncrementBy s"
  have "1 \<le> sint ?i" by (auto simp: word_sle_eq)
  then show thesis using that unfolding NextValue_def Let_def by (auto split: if_splits)
qed

text \<open>Without a reset the counter grows, unless the sum leaves the range of \<open>int64\<close>.\<close>

lemma NextValue_grows:
  assumes "NextValue s now = (v, False)" and "sint (sq_CurrentValue s) + 2 ^ 31 \<le> 2 ^ 63"
    and "sint (sq_IncrementBy s) < 2 ^ 31"
  shows "sint (sq_CurrentValue s) < sint v"
proof (cases rule: NextValue_cases [of s now])
  case first
  with assms(1) show ?thesis by (simp add: word_sless_alt)
next
  case (inc i)
  have i: "sint i < 2 ^ 31" using assms(3) inc(4) by (simp split: if_splits)
  have b: "- (2 ^ 63) \<le> sint (sq_CurrentValue s)"
    using sint_ge [of "sq_CurrentValue s"] by simp
  have "sint (sq_CurrentValue s + i) = sint (sq_CurrentValue s) + sint i"
  proof -
    have "- (2 ^ 63) \<le> sint (sq_CurrentValue s) + sint i" "sint (sq_CurrentValue s) + sint i < 2 ^ 63"
      using b i inc(3) assms(2) by linarith+
    then show ?thesis by (rule sint_add64)
  qed
  with inc assms(1) show ?thesis by simp
qed (use assms in simp)

section \<open>Lemmas on the text\<close>

text \<open>Whether a text holds a counter token.\<close>

function has_seq :: "string \<Rightarrow> bool" where
  "has_seq s = (seq_match s \<noteq> None \<or> (case s of [] \<Rightarrow> False | c # cs \<Rightarrow> has_seq cs))"
  by pat_completeness auto
termination
  by (relation "measure length") auto

declare has_seq.simps [simp del]

lemma seq_subst_match: "seq_match s = Some (ds, r) \<Longrightarrow> seq_subst f s = f ds @ seq_subst f r"
  by (subst seq_subst.simps) simp

lemma seq_subst_Nil [simp]: "seq_subst f [] = []"
  by (subst seq_subst.simps) (simp add: seq_match_def HasPrefix_def)

lemma seq_subst_char: "seq_match (c # cs) = None \<Longrightarrow> seq_subst f (c # cs) = c # seq_subst f cs"
  by (subst seq_subst.simps) simp

lemma has_seq_Nil [simp]: "\<not> has_seq []"
  by (subst has_seq.simps) (simp add: seq_match_def HasPrefix_def)

lemma has_seq_char: "seq_match (c # cs) = None \<Longrightarrow> has_seq (c # cs) \<longleftrightarrow> has_seq cs"
  by (subst has_seq.simps) simp

lemma seq_subst_length:
  assumes "\<And>ds. length (f ds) \<le> length (g ds)"
  shows "length (seq_subst f s) \<le> length (seq_subst g s)"
proof (induction s rule: length_induct)
  case (1 s)
  show ?case
  proof (cases "seq_match s")
    case None
    with 1 show ?thesis by (cases s) (auto simp: seq_subst_char)
  next
    case (Some p)
    obtain ds r where p: "p = (ds, r)" by fastforce
    with Some 1 have "length (seq_subst f r) \<le> length (seq_subst g r)"
      by (auto dest: seq_match_shorter)
    with assms [of ds] Some p show ?thesis by (simp add: seq_subst_match)
  qed
qed

text \<open>Two renderings of one text that agree, one never longer than the other, agree on a token.\<close>

lemma seq_subst_agree:
  assumes len: "\<And>ds. length (f ds) \<le> length (g ds)"
  shows "seq_subst f s = seq_subst g s \<Longrightarrow> has_seq s \<Longrightarrow> \<exists>ds. f ds = g ds"
proof (induction s rule: length_induct)
  case (1 s)
  show ?case
  proof (cases "seq_match s")
    case None
    with 1 show ?thesis by (cases s) (auto simp: seq_subst_char has_seq_char)
  next
    case (Some p)
    obtain ds r where p: "p = (ds, r)" by fastforce
    have eq: "f ds @ seq_subst f r = g ds @ seq_subst g r"
      using "1.prems"(1) Some p by (simp add: seq_subst_match)
    then have "length (f ds) + length (seq_subst f r) = length (g ds) + length (seq_subst g r)"
      by (metis length_append)
    with len [of ds] seq_subst_length [of f g r, OF len] have "length (f ds) = length (g ds)" by linarith
    with eq show ?thesis by auto
  qed
qed

lemma sprintf_width_mono:
  "0 \<le> sint v \<Longrightarrow> sint v \<le> sint v' \<Longrightarrow> length (sprintf_width n v) \<le> length (sprintf_width n v')"
  by (simp add: sprintf_width_def length_fmt_mono)

lemma sprintf_width_inj:
  "0 \<le> sint v \<Longrightarrow> 0 \<le> sint v' \<Longrightarrow> sprintf_width n v = sprintf_width n v' \<Longrightarrow> sint v = sint v'"
  by (auto simp: sprintf_width_def split: if_splits dest: fmt_0d_inj fmt_d_inj)

text \<open>A number determines its counter when the expanded template holds a counter token.\<close>

lemma FormatNumber_inj:
  assumes "has_seq (expand_template t p s now xs)" and "0 \<le> sint v" and "0 \<le> sint v'"
    and "FormatNumber t p s v d now xs = FormatNumber t p s v' d now xs"
  shows "v = v'"
proof -
  have *: "x = y" if "0 \<le> sint x" "sint x \<le> sint y"
    "FormatNumber t p s x d now xs = FormatNumber t p s y d now xs" for x y
  proof -
    from seq_subst_agree [OF sprintf_width_mono [OF that(1,2)] that(3) [unfolded FormatNumber_def] assms(1)]
    obtain ds where "sprintf_width (seq_padding d ds) x = sprintf_width (seq_padding d ds) y" by blast
    with that have "sint x = sint y" by (intro sprintf_width_inj) auto
    then show ?thesis by (simp add: word_eq_iff_signed [where 'a = int])
  qed
  show ?thesis using * [of v v'] * [of v' v] assms by (cases "sint v \<le> sint v'") auto
qed

end
