(* ===== verification/Tables.thy ===== *)
theory Tables
  imports Effects Money Workflow Sequence
begin

text \<open>
  The tables of the database, after \<open>migrations/*.up.sql\<close>: one record per row type, a table is
  the list of its rows in the order of insertion, and the operations every statement of
  \<open>internal/core/repository/postgres/queries/*.sql\<close> is made of: insertion with \<open>NOT NULL\<close> and
  \<open>UNIQUE\<close> constraints, update of the rows that match, selection, sorting. Refusals for any
  other reason (missing referenced row, value too long) are faults of the environment. A
  \<open>timestamptz\<close> column holds nanoseconds since the epoch at microsecond precision, a \<open>jsonb\<close>
  column a JSON value.
\<close>

section \<open>JSON values and Go maps\<close>

datatype json = JNull | JBool bool | JNum rat | JStr string | JArr "json list" | JObj "(string \<times> json) list"

text \<open>A \<open>map[string]any\<close>, \<open>None\<close> the nil map.\<close>

type_synonym gomap = "(string \<times> json) list option"

definition json_of_map :: "gomap \<Rightarrow> json" where
  "json_of_map m = (case m of None \<Rightarrow> JNull | Some kvs \<Rightarrow> JObj kvs)"

text \<open>Decoding into \<open>any\<close> turns numbers into \<open>float64\<close>.\<close>

fun json_any :: "json \<Rightarrow> json" where
  "json_any (JNum x) = JNum (rnd x)"
| "json_any (JArr xs) = JArr (map json_any xs)"
| "json_any (JObj kvs) = JObj (map (\<lambda>(k, v). (k, json_any v)) kvs)"
| "json_any j = j"

definition map_of_json :: "json \<Rightarrow> gomap" where
  "map_of_json j = (case json_any j of JObj kvs \<Rightarrow> Some kvs | _ \<Rightarrow> None)"

text \<open>\<open>if x == nil { x = make(map[string]any) }\<close>\<close>

definition or_empty :: "gomap \<Rightarrow> gomap" where
  "or_empty m = (case m of None \<Rightarrow> Some [] | Some kvs \<Rightarrow> Some kvs)"

definition JInt :: "int \<Rightarrow> json" where
  "JInt n = JNum (of_int n)"

section \<open>Row operations\<close>

text \<open>\<open>column = $n\<close> for a \<open>uuid\<close> parameter: the nil identifier is \<open>NULL\<close> and equals nothing.\<close>

definition pg_eq :: "ID \<Rightarrow> ID \<Rightarrow> bool" where
  "pg_eq col i \<longleftrightarrow> i \<noteq> NilID \<and> col = i"

definition insert_row :: "('r \<Rightarrow> 'r \<Rightarrow> bool) \<Rightarrow> bool \<Rightarrow> 'r \<Rightarrow> 'r list \<Rightarrow> 'r res \<times> 'r list" where
  "insert_row clash nn r rs =
     (if \<not> nn then (Fail (Opaque ''not-null constraint''), rs)
      else if list_ex (clash r) rs then (Fail (Opaque ''unique constraint''), rs)
      else (Ret r, rs @ [r]))"

definition update_rows :: "('r \<Rightarrow> bool) \<Rightarrow> ('r \<Rightarrow> 'r) \<Rightarrow> 'r list \<Rightarrow> 'r list" where
  "update_rows p f rs = map (\<lambda>r. if p r then f r else r) rs"

text \<open>\<open>UPDATE ... RETURNING *\<close> read with \<open>:one\<close>.\<close>

definition update_returning :: "('r \<Rightarrow> bool) \<Rightarrow> ('r \<Rightarrow> 'r) \<Rightarrow> 'r list \<Rightarrow> 'r res \<times> 'r list" where
  "update_returning p f rs =
     (case find p rs of None \<Rightarrow> (Fail ErrNoRows, rs) | Some r \<Rightarrow> (Ret (f r), update_rows p f rs))"

definition select_one :: "('r \<Rightarrow> bool) \<Rightarrow> 'r list \<Rightarrow> 'r res" where
  "select_one p rs = (case find p rs of None \<Rightarrow> Fail ErrNoRows | Some r \<Rightarrow> Ret r)"

text \<open>\<open>LIMIT\<close> and \<open>OFFSET\<close> (a negative value is an error of the server).\<close>

definition limit_offset :: "int \<Rightarrow> int \<Rightarrow> 'r list \<Rightarrow> 'r list" where
  "limit_offset l k rs = take (nat l) (drop (nat k) rs)"

definition opt_match :: "'a option \<Rightarrow> 'a \<Rightarrow> bool" where
  "opt_match f x = (case f of None \<Rightarrow> True | Some y \<Rightarrow> x = y)"

definition str_of_ptr :: "string option \<Rightarrow> string" where
  "str_of_ptr s = (case s of None \<Rightarrow> [] | Some x \<Rightarrow> x)"

definition ptr_of_str :: "string \<Rightarrow> string option" where
  "ptr_of_str s = (if s = [] then None else Some s)"

definition id_of_ptr :: "ID option \<Rightarrow> ID option" where
  "id_of_ptr p = (case p of None \<Rightarrow> None | Some i \<Rightarrow> if i = NilID then None else Some i)"

text \<open>A \<open>timestamptz\<close> is read in the zone of the server process.\<close>

definition ts_local :: "(int \<Rightarrow> int) \<Rightarrow> int \<Rightarrow> gotime" where
  "ts_local lo n = \<lparr>ns = n, off = lo n\<rparr>"

section \<open>Numeric columns\<close>

datatype pgnumeric = PgNaN | PgNum rat

text \<open>\<open>floatToNumeric\<close> prints eight decimals; infinities do not parse and become \<open>NULL\<close>.\<close>

fun floatToNumeric :: "float64 \<Rightarrow> pgnumeric option" where
  "floatToNumeric NaN = Some PgNaN"
| "floatToNumeric (Fin x) = Some (PgNum (of_int (round_half_even (x * 10 ^ 8)) / 10 ^ 8))"
| "floatToNumeric NZero = Some (PgNum 0)"
| "floatToNumeric _ = None"

fun numericToFloat :: "pgnumeric \<Rightarrow> float64" where
  "numericToFloat PgNaN = NaN"
| "numericToFloat (PgNum x) = round64 False x"

text \<open>\<open>DECIMAL(18, s)\<close>: rounding half away from zero.\<close>

fun decimal :: "nat \<Rightarrow> pgnumeric \<Rightarrow> pgnumeric" where
  "decimal s PgNaN = PgNaN"
| "decimal s (PgNum x) =
     PgNum ((if x < 0 then - of_int \<lfloor>- x * 10 ^ s + 1 / 2\<rfloor> else of_int \<lfloor>x * 10 ^ s + 1 / 2\<rfloor>) / 10 ^ s)"

section \<open>Rows\<close>

record organization_row =
  or_id :: ID
  or_tenant_id :: ID
  or_parent_id :: "ID option"
  or_code :: string
  or_name :: string
  or_legal_name :: "string option"
  or_type :: string
  or_status :: string
  or_settings :: json
  or_created_at :: int
  or_updated_at :: int

record party_row =
  pr_id :: ID
  pr_tenant_id :: ID
  pr_type :: string
  pr_code :: "string option"
  pr_name :: string
  pr_legal_name :: "string option"
  pr_tax_id :: "string option"
  pr_status :: string
  pr_metadata :: json
  pr_created_at :: int
  pr_updated_at :: int

record party_role_row =
  prr_id :: ID
  prr_tenant_id :: ID
  prr_party_id :: ID
  prr_organization_id :: "ID option"
  prr_role_type :: string
  prr_status :: string
  prr_created_at :: int
  prr_updated_at :: int

record address_row =
  adr_id :: ID
  adr_tenant_id :: ID
  adr_type :: string
  adr_label :: "string option"
  adr_line1 :: string
  adr_line2 :: "string option"
  adr_city :: string
  adr_state :: "string option"
  adr_postal_code :: "string option"
  adr_country_code :: string
  adr_latitude :: "pgnumeric option"
  adr_longitude :: "pgnumeric option"
  adr_created_at :: int
  adr_updated_at :: int

text \<open>The links of addresses, to parties and to organizations.\<close>

record address_link_row =
  alr_tenant_id :: ID
  alr_owner_id :: ID
  alr_address_id :: ID
  alr_address_type :: string
  alr_is_primary :: bool
  alr_created_at :: int

record contact_row =
  ctr_id :: ID
  ctr_tenant_id :: ID
  ctr_party_id :: "ID option"
  ctr_organization_id :: "ID option"
  ctr_type :: string
  ctr_value :: string
  ctr_label :: "string option"
  ctr_is_primary :: bool
  ctr_verified_at :: "int option"
  ctr_created_at :: int
  ctr_updated_at :: int

record file_row =
  flr_id :: ID
  flr_tenant_id :: ID
  flr_storage_driver :: string
  flr_storage_path :: string
  flr_filename :: string
  flr_mime_type :: string
  flr_size_bytes :: int64
  flr_sha256_hash :: string
  flr_uploaded_by :: "ID option"
  flr_is_public :: bool
  flr_metadata :: json
  flr_created_at :: int
  flr_updated_at :: int

record attachment_row =
  atr_id :: ID
  atr_tenant_id :: ID
  atr_file_id :: ID
  atr_entity_type :: string
  atr_entity_id :: ID
  atr_purpose :: string
  atr_title :: string
  atr_sort_order :: int32
  atr_created_at :: int

record comment_row =
  cor_id :: ID
  cor_tenant_id :: ID
  cor_entity_type :: string
  cor_entity_id :: ID
  cor_author_id :: ID
  cor_type :: string
  cor_content :: string
  cor_mentions :: json
  cor_parent_id :: "ID option"
  cor_is_pinned :: bool
  cor_metadata :: json
  cor_created_at :: int
  cor_updated_at :: int

record notification_row =
  ntr_id :: ID
  ntr_tenant_id :: ID
  ntr_user_id :: ID
  ntr_actor_id :: "ID option"
  ntr_type :: string
  ntr_title :: string
  ntr_message :: string
  ntr_entity_type :: string
  ntr_entity_id :: "ID option"
  ntr_is_read :: bool
  ntr_read_at :: "int option"
  ntr_metadata :: json
  ntr_created_at :: int

record unit_row =
  ur_id :: ID
  ur_tenant_id :: ID
  ur_code :: string
  ur_name :: string
  ur_symbol :: string
  ur_category :: string
  ur_precision :: int32
  ur_status :: string
  ur_created_at :: int
  ur_updated_at :: int

record unit_conversion_row =
  nr_id :: ID
  nr_tenant_id :: ID
  nr_from_unit_id :: ID
  nr_to_unit_id :: ID
  nr_factor :: pgnumeric
  nr_created_at :: int
  nr_updated_at :: int

record product_row =
  pdr_id :: ID
  pdr_tenant_id :: ID
  pdr_type :: string
  pdr_sku :: "string option"
  pdr_barcode :: "string option"
  pdr_name :: string
  pdr_description :: "string option"
  pdr_unit_id :: ID
  pdr_status :: string
  pdr_metadata :: json
  pdr_created_at :: int
  pdr_updated_at :: int

record product_variant_row =
  pvr_id :: ID
  pvr_tenant_id :: ID
  pvr_product_id :: ID
  pvr_sku :: string
  pvr_name :: string
  pvr_attributes :: json
  pvr_status :: string
  pvr_created_at :: int
  pvr_updated_at :: int

record document_row =
  dr_id :: ID
  dr_tenant_id :: ID
  dr_organization_id :: ID
  dr_document_type :: string
  dr_document_number :: string
  dr_document_date :: int
  dr_party_id :: "ID option"
  dr_status :: string
  dr_total_amount :: int64
  dr_currency :: string
  dr_notes :: "string option"
  dr_metadata :: json
  dr_created_by :: "ID option"
  dr_created_at :: int
  dr_updated_at :: int

record document_line_row =
  lr_id :: ID
  lr_tenant_id :: ID
  lr_document_id :: ID
  lr_line_number :: int32
  lr_product_id :: "ID option"
  lr_description :: string
  lr_quantity :: pgnumeric
  lr_unit_id :: ID
  lr_unit_price :: int64
  lr_subtotal :: int64
  lr_metadata :: json
  lr_created_at :: int
  lr_updated_at :: int

record document_transition_row =
  tr_id :: ID
  tr_tenant_id :: ID
  tr_document_id :: ID
  tr_from_status :: string
  tr_to_status :: string
  tr_reason :: "string option"
  tr_actor_id :: "ID option"
  tr_created_at :: int

record outbox_row =
  xr_id :: ID
  xr_tenant_id :: ID
  xr_event_type :: string
  xr_aggregate_type :: string
  xr_aggregate_id :: ID
  xr_payload :: json
  xr_status :: string
  xr_retry_count :: int32
  xr_error_message :: "string option"
  xr_created_at :: int
  xr_published_at :: "int option"

record audit_row =
  ar_id :: ID
  ar_tenant_id :: ID
  ar_actor_id :: "ID option"
  ar_actor_type :: string
  ar_action :: string
  ar_entity_type :: string
  ar_entity_id :: ID
  ar_changes :: json
  ar_metadata :: json
  ar_created_at :: int

record sequence_row =
  sr_id :: ID
  sr_tenant_id :: ID
  sr_code :: string
  sr_name :: string
  sr_entity_type :: string
  sr_sub_type :: string
  sr_prefix :: string
  sr_suffix :: string
  sr_template :: string
  sr_padding :: int32
  sr_start_value :: int64
  sr_increment_by :: int32
  sr_current_value :: int64
  sr_reset_policy :: string
  sr_last_number :: "string option"
  sr_last_reset_at :: "int option"
  sr_is_active :: bool
  sr_created_at :: int
  sr_updated_at :: int

record webhook_endpoint_row =
  wr_id :: ID
  wr_tenant_id :: ID
  wr_name :: string
  wr_url :: string
  wr_secret :: string
  wr_is_active :: bool
  wr_created_at :: int
  wr_updated_at :: int

record webhook_delivery_row =
  vr_id :: ID
  vr_endpoint_id :: ID
  vr_outbox_event_id :: ID
  vr_event_type :: string
  vr_attempt :: int
  vr_status :: string
  vr_response_code :: "int option"
  vr_response_body :: "string option"
  vr_error_message :: "string option"
  vr_delivered_at :: "int option"
  vr_created_at :: int

record db =
  t_organizations :: "organization_row list"
  t_parties :: "party_row list"
  t_units :: "unit_row list"
  t_unit_conversions :: "unit_conversion_row list"
  t_products :: "product_row list"
  t_product_variants :: "product_variant_row list"
  t_documents :: "document_row list"
  t_document_lines :: "document_line_row list"
  t_document_transitions :: "document_transition_row list"
  t_outbox_events :: "outbox_row list"
  t_audit_logs :: "audit_row list"
  t_number_sequences :: "sequence_row list"
  t_webhook_endpoints :: "webhook_endpoint_row list"
  t_webhook_deliveries :: "webhook_delivery_row list"
  t_party_roles :: "party_role_row list"
  t_addresses :: "address_row list"
  t_party_addresses :: "address_link_row list"
  t_organization_addresses :: "address_link_row list"
  t_contacts :: "contact_row list"
  t_files :: "file_row list"
  t_entity_attachments :: "attachment_row list"
  t_comments :: "comment_row list"
  t_notifications :: "notification_row list"

definition empty_db :: db where
  "empty_db = \<lparr>t_organizations = [], t_parties = [], t_units = [], t_unit_conversions = [], t_products = [],
     t_product_variants = [], t_documents = [], t_document_lines = [], t_document_transitions = [],
     t_outbox_events = [], t_audit_logs = [], t_number_sequences = [], t_webhook_endpoints = [], t_webhook_deliveries = [],
     t_party_roles = [], t_addresses = [], t_party_addresses = [], t_organization_addresses = [], t_contacts = [],
     t_files = [], t_entity_attachments = [], t_comments = [], t_notifications = []\<rparr>"

lemma empty_db_simps [simp]:
  "t_organizations empty_db = []"
  "t_parties empty_db = []"
  "t_units empty_db = []"
  "t_unit_conversions empty_db = []"
  "t_products empty_db = []"
  "t_product_variants empty_db = []"
  "t_documents empty_db = []"
  "t_document_lines empty_db = []"
  "t_document_transitions empty_db = []"
  "t_outbox_events empty_db = []"
  "t_audit_logs empty_db = []"
  "t_number_sequences empty_db = []"
  "t_webhook_endpoints empty_db = []"
  "t_webhook_deliveries empty_db = []"
  "t_party_roles empty_db = []"
  "t_addresses empty_db = []"
  "t_party_addresses empty_db = []"
  "t_organization_addresses empty_db = []"
  "t_contacts empty_db = []"
  "t_files empty_db = []"
  "t_entity_attachments empty_db = []"
  "t_comments empty_db = []"
  "t_notifications empty_db = []"
  by (simp_all add: empty_db_def)

type_synonym 'a dbproc = "(db, 'a) proc"

text \<open>\<open>COALESCE($n, column)\<close>, for a column that is never null and for a nullable one.\<close>

definition coalesce :: "'a option \<Rightarrow> 'a \<Rightarrow> 'a" where
  "coalesce p x = (case p of None \<Rightarrow> x | Some y \<Rightarrow> y)"

definition coalesce_null :: "'a option \<Rightarrow> 'a option \<Rightarrow> 'a option" where
  "coalesce_null p x = (case p of None \<Rightarrow> x | Some y \<Rightarrow> Some y)"

section \<open>Laws of the row operations\<close>

lemma str_of_ptr_of_str [simp]: "str_of_ptr (ptr_of_str s) = s"
  by (simp add: str_of_ptr_def ptr_of_str_def)

lemma insert_row_Ret_iff:
  "insert_row clash b r rs = (Ret x, rs') \<longleftrightarrow> b \<and> \<not> list_ex (clash r) rs \<and> x = r \<and> rs' = rs @ [r]"
  by (auto simp: insert_row_def)

lemma select_one_Ret_iff: "select_one p rs = Ret r \<longleftrightarrow> find p rs = Some r"
  by (auto simp: select_one_def split: option.splits)

lemma select_one_in: "select_one p rs = Ret r \<Longrightarrow> r \<in> set rs \<and> p r"
  by (auto simp: select_one_Ret_iff dest: find_in_set)

lemma update_returning_Ret_iff:
  "update_returning p f rs = (Ret x, rs') \<longleftrightarrow>
     (\<exists>r. find p rs = Some r \<and> x = f r \<and> rs' = update_rows p f rs)"
  by (auto simp: update_returning_def split: option.splits)

text \<open>
  A table with a primary key: what the statements promise about keys. \<open>clash\<close> is the uniqueness
  constraint of the table, which contains that of the key.
\<close>

locale keyed_table =
  fixes key :: "'r \<Rightarrow> 'k"
    and clash :: "'r \<Rightarrow> 'r \<Rightarrow> bool"
  assumes key_clash: "key r = key s \<Longrightarrow> clash r s"
begin

lemma insert_distinct:
  assumes "insert_row clash b r rs = (Ret x, rs')" and "distinct (map key rs)"
  shows "distinct (map key rs')"
  using assms by (auto simp: insert_row_Ret_iff list_ex_iff dest: key_clash)

lemma insert_lookup:
  assumes "insert_row clash b r rs = (Ret x, rs')"
  shows "find (\<lambda>s. key s = key r) rs' = Some r"
proof -
  have "\<forall>s \<in> set rs. \<not> clash r s" and rs': "rs' = rs @ [r]"
    using assms by (auto simp: insert_row_Ret_iff list_ex_iff)
  then have "find (\<lambda>s. key s = key r) rs = None" by (auto simp: find_None_iff dest: key_clash [OF sym])
  then show ?thesis by (simp add: rs' find_append)
qed

lemma update_distinct:
  assumes "\<And>r. key (f r) = key r" and "distinct (map key rs)"
  shows "distinct (map key (update_rows p f rs))"
proof -
  have "map key (update_rows p f rs) = map key rs"
    using assms(1) by (simp add: update_rows_def)
  with assms(2) show ?thesis by simp
qed

lemma update_lookup:
  assumes "\<And>r. key (f r) = key r" and "distinct (map key rs)" and "r \<in> set rs"
  shows "find (\<lambda>s. key s = key r) (update_rows (\<lambda>s. key s = key r) f rs) = Some (f r)"
proof -
  have "f r \<in> set (update_rows (\<lambda>s. key s = key r) f rs)"
    using assms(3) by (auto simp: update_rows_def)
  from find_key_unique [OF update_distinct [OF assms(1,2)] this] show ?thesis using assms(1) by simp
qed

end

end
