(* ===== verification/OutboxAudit.thy ===== *)
theory OutboxAudit
  imports Tables
begin

text \<open>
  The transactional outbox (\<open>domain/event/event.go\<close>, \<open>repository/postgres/outbox_repo.go\<close>) and the
  audit log (\<open>domain/audit/audit.go\<close>, \<open>audit_repo.go\<close>, \<open>usecase/audit/audit_usecase.go\<close>). Rows with
  the same \<open>created_at\<close> are listed in the order of insertion (the server leaves it open).
\<close>

section \<open>Data\<close>

type_synonym OutboxStatus = string

definition OutboxStatusPending :: OutboxStatus where "OutboxStatusPending = ''pending''"
definition OutboxStatusPublished :: OutboxStatus where "OutboxStatusPublished = ''published''"
definition OutboxStatusFailed :: OutboxStatus where "OutboxStatusFailed = ''failed''"

lemmas outbox_status_defs = OutboxStatusPending_def OutboxStatusPublished_def OutboxStatusFailed_def

record BaseEvent =
  be_ID :: ID
  be_Tenant :: ID
  be_Type :: string
  be_AggType :: string
  be_AggID :: ID
  be_Data :: gomap
  be_Timestamp :: gotime

record OutboxEvent =
  oe_ID :: ID
  oe_TenantID :: ID
  oe_EventType :: string
  oe_AggregateType :: string
  oe_AggregateID :: ID
  oe_Payload :: gomap
  oe_Status :: OutboxStatus
  oe_RetryCount :: int32
  oe_ErrorMessage :: string
  oe_CreatedAt :: gotime
  oe_PublishedAt :: "gotime option"

definition NewBaseEvent :: "ID \<Rightarrow> string \<Rightarrow> string \<Rightarrow> ID \<Rightarrow> gomap \<Rightarrow> BaseEvent dbproc" where
  "NewBaseEvent tenantID eventType aggregateType aggregateID payload =
     bindP (tryP NewID) (\<lambda>r. bindP Now (\<lambda>now. ret
       \<lparr>be_ID = (case r of Ret i \<Rightarrow> i | _ \<Rightarrow> NilID), be_Tenant = tenantID, be_Type = eventType,
        be_AggType = aggregateType, be_AggID = aggregateID, be_Data = payload, be_Timestamp = now\<rparr>))"

definition ToEvent :: "OutboxEvent \<Rightarrow> BaseEvent" where
  "ToEvent ev = \<lparr>be_ID = oe_ID ev, be_Tenant = oe_TenantID ev, be_Type = oe_EventType ev,
     be_AggType = oe_AggregateType ev, be_AggID = oe_AggregateID ev, be_Data = oe_Payload ev,
     be_Timestamp = oe_CreatedAt ev\<rparr>"

record AuditLog =
  al_ID :: ID
  al_TenantID :: ID
  al_ActorID :: "ID option"
  al_ActorType :: string
  al_Action :: string
  al_EntityType :: string
  al_EntityID :: ID
  al_Changes :: gomap
  al_Metadata :: gomap
  al_CreatedAt :: gotime

record AuditFilter =
  af_EntityType :: "string option"
  af_EntityID :: "ID option"
  af_ActorID :: "ID option"
  af_Action :: "string option"
  af_Limit :: int32
  af_Offset :: int32

section \<open>Outbox repository\<close>

definition outbox_clash :: "outbox_row \<Rightarrow> outbox_row \<Rightarrow> bool" where
  "outbox_clash r s \<longleftrightarrow> xr_id r = xr_id s"

definition sql_CreateOutboxEvent :: "outbox_row \<Rightarrow> int \<Rightarrow> db \<Rightarrow> outbox_row res \<times> db" where
  "sql_CreateOutboxEvent r t d =
     (case insert_row outbox_clash
        (xr_id r \<noteq> NilID \<and> xr_tenant_id r \<noteq> NilID \<and> xr_aggregate_id r \<noteq> NilID) r (t_outbox_events d)
      of (x, rs) \<Rightarrow> (x, d\<lparr>t_outbox_events := rs\<rparr>))"

definition sql_FetchPendingOutboxEvents :: "int32 \<Rightarrow> int32 \<Rightarrow> db \<Rightarrow> outbox_row list" where
  "sql_FetchPendingOutboxEvents maxRetries limit d =
     take (nat (sint limit))
       (sort_key xr_created_at
         (filter (\<lambda>r. (xr_status r = ''pending'' \<or> xr_status r = ''failed'') \<and>
                      sint (xr_retry_count r) < sint maxRetries) (t_outbox_events d)))"

definition sql_MarkOutboxEventPublished :: "ID \<Rightarrow> int \<Rightarrow> int \<Rightarrow> db \<Rightarrow> unit res \<times> db" where
  "sql_MarkOutboxEventPublished i publishedAt t d =
     (Ret (), d\<lparr>t_outbox_events := update_rows (\<lambda>r. pg_eq (xr_id r) i)
        (\<lambda>r. r\<lparr>xr_status := ''published'', xr_published_at := Some publishedAt, xr_error_message := None\<rparr>)
        (t_outbox_events d)\<rparr>)"

definition sql_MarkOutboxEventFailed :: "ID \<Rightarrow> string option \<Rightarrow> int \<Rightarrow> db \<Rightarrow> unit res \<times> db" where
  "sql_MarkOutboxEventFailed i msg t d =
     (Ret (), d\<lparr>t_outbox_events := update_rows (\<lambda>r. pg_eq (xr_id r) i)
        (\<lambda>r. r\<lparr>xr_status := ''failed'', xr_retry_count := xr_retry_count r + 1, xr_error_message := msg\<rparr>)
        (t_outbox_events d)\<rparr>)"

definition outbox_row_of :: "OutboxEvent \<Rightarrow> outbox_row" where
  "outbox_row_of evt =
     \<lparr>xr_id = oe_ID evt, xr_tenant_id = oe_TenantID evt, xr_event_type = oe_EventType evt,
      xr_aggregate_type = oe_AggregateType evt, xr_aggregate_id = oe_AggregateID evt,
      xr_payload = json_of_map (oe_Payload evt),
      xr_status = (if oe_Status evt = [] then OutboxStatusPending else oe_Status evt),
      xr_retry_count = oe_RetryCount evt, xr_error_message = None,
      xr_created_at = to_micro (oe_CreatedAt evt), xr_published_at = None\<rparr>"

definition outbox_Create :: "ctx \<Rightarrow> OutboxEvent \<Rightarrow> OutboxEvent dbproc" where
  "outbox_Create c evt =
     bindP (stmt c (sql_CreateOutboxEvent (outbox_row_of evt))) (\<lambda>row.
     bindP (ask_env local_off) (\<lambda>lo.
     ret (evt\<lparr>oe_ID := xr_id row, oe_CreatedAt := ts_local lo (xr_created_at row)\<rparr>)))"

definition outbox_of_row :: "(int \<Rightarrow> int) \<Rightarrow> outbox_row \<Rightarrow> OutboxEvent" where
  "outbox_of_row lo r =
     \<lparr>oe_ID = xr_id r, oe_TenantID = xr_tenant_id r, oe_EventType = xr_event_type r,
      oe_AggregateType = xr_aggregate_type r, oe_AggregateID = xr_aggregate_id r,
      oe_Payload = map_of_json (xr_payload r), oe_Status = xr_status r, oe_RetryCount = xr_retry_count r,
      oe_ErrorMessage = str_of_ptr (xr_error_message r), oe_CreatedAt = ts_local lo (xr_created_at r),
      oe_PublishedAt = map_option (ts_local lo) (xr_published_at r)\<rparr>"

definition outbox_FetchPending :: "ctx \<Rightarrow> int32 \<Rightarrow> int32 \<Rightarrow> OutboxEvent list dbproc" where
  "outbox_FetchPending c maxRetries0 limit0 =
     (let limit = (if limit0 \<le>s 0 then 50 else limit0);
          maxRetries = (if maxRetries0 \<le>s 0 then 5 else maxRetries0)
      in bindP (query c (\<lambda>d. Ret (sql_FetchPendingOutboxEvents maxRetries limit d))) (\<lambda>rows.
         bindP (ask_env local_off) (\<lambda>lo. ret (map (outbox_of_row lo) rows))))"

definition outbox_MarkPublished :: "ctx \<Rightarrow> ID \<Rightarrow> gotime \<Rightarrow> unit dbproc" where
  "outbox_MarkPublished c i publishedAt = stmt c (sql_MarkOutboxEventPublished i (to_micro publishedAt))"

definition outbox_MarkFailed :: "ctx \<Rightarrow> ID \<Rightarrow> string \<Rightarrow> unit dbproc" where
  "outbox_MarkFailed c i errMsg = stmt c (sql_MarkOutboxEventFailed i (ptr_of_str errMsg))"

section \<open>Audit repository\<close>

definition audit_clash :: "audit_row \<Rightarrow> audit_row \<Rightarrow> bool" where
  "audit_clash r s \<longleftrightarrow> ar_id r = ar_id s"

definition sql_CreateAuditLog :: "audit_row \<Rightarrow> int \<Rightarrow> db \<Rightarrow> audit_row res \<times> db" where
  "sql_CreateAuditLog r t d =
     (case insert_row audit_clash
        (ar_id r \<noteq> NilID \<and> ar_tenant_id r \<noteq> NilID \<and> ar_entity_id r \<noteq> NilID) r (t_audit_logs d)
      of (x, rs) \<Rightarrow> (x, d\<lparr>t_audit_logs := rs\<rparr>))"

definition audit_row_of :: "AuditLog \<Rightarrow> audit_row" where
  "audit_row_of a =
     \<lparr>ar_id = al_ID a, ar_tenant_id = al_TenantID a, ar_actor_id = id_of_ptr (al_ActorID a),
      ar_actor_type = al_ActorType a, ar_action = al_Action a, ar_entity_type = al_EntityType a,
      ar_entity_id = al_EntityID a, ar_changes = json_of_map (al_Changes a),
      ar_metadata = json_of_map (al_Metadata a), ar_created_at = to_micro (al_CreatedAt a)\<rparr>"

definition audit_Create :: "ctx \<Rightarrow> AuditLog \<Rightarrow> AuditLog dbproc" where
  "audit_Create c a =
     bindP (stmt c (sql_CreateAuditLog (audit_row_of a))) (\<lambda>row.
     bindP (ask_env local_off) (\<lambda>lo.
     ret (a\<lparr>al_ID := ar_id row, al_CreatedAt := ts_local lo (ar_created_at row)\<rparr>)))"

definition audit_match ::
    "ID \<Rightarrow> string option \<Rightarrow> ID option \<Rightarrow> ID option \<Rightarrow> string option \<Rightarrow> audit_row \<Rightarrow> bool" where
  "audit_match tenantID entityType entityID actorID action r \<longleftrightarrow>
     pg_eq (ar_tenant_id r) tenantID \<and> opt_match entityType (ar_entity_type r) \<and>
     opt_match entityID (ar_entity_id r) \<and>
     (case actorID of None \<Rightarrow> True | Some i \<Rightarrow> ar_actor_id r = Some i) \<and> opt_match action (ar_action r)"

definition audit_of_row :: "(int \<Rightarrow> int) \<Rightarrow> audit_row \<Rightarrow> AuditLog" where
  "audit_of_row lo r =
     \<lparr>al_ID = ar_id r, al_TenantID = ar_tenant_id r, al_ActorID = ar_actor_id r,
      al_ActorType = ar_actor_type r, al_Action = ar_action r, al_EntityType = ar_entity_type r,
      al_EntityID = ar_entity_id r, al_Changes = map_of_json (ar_changes r),
      al_Metadata = map_of_json (ar_metadata r), al_CreatedAt = ts_local lo (ar_created_at r)\<rparr>"

definition audit_List :: "ctx \<Rightarrow> ID \<Rightarrow> AuditFilter \<Rightarrow> (AuditLog list \<times> int) dbproc" where
  "audit_List c tenantID f =
     (let limit = (if af_Limit f \<le>s 0 then 20 else sint (af_Limit f));
          offset = max (sint (af_Offset f)) 0;
          p = audit_match tenantID (af_EntityType f) (id_of_ptr (af_EntityID f)) (id_of_ptr (af_ActorID f))
                (af_Action f)
      in bindP (query c (\<lambda>d. Ret (int (length (filter p (t_audit_logs d)))))) (\<lambda>total.
         bindP (query c (\<lambda>d. Ret (limit_offset limit offset
           (sort_key (\<lambda>r. - ar_created_at r) (filter p (t_audit_logs d)))))) (\<lambda>rows.
         bindP (ask_env local_off) (\<lambda>lo. ret (map (audit_of_row lo) rows, total)))))"

section \<open>Audit use case\<close>

definition ActorTypeUser_str :: string where "ActorTypeUser_str = ''user''"
definition ActionCreate :: string where "ActionCreate = ''create''"
definition ActionTransition :: string where "ActionTransition = ''transition''"

record RecordAuditCommand =
  ra_ActorID :: "ID option"
  ra_ActorType :: string
  ra_Action :: string
  ra_EntityType :: string
  ra_EntityID :: ID
  ra_Changes :: gomap
  ra_Metadata :: gomap

definition audit_Record :: "ctx \<Rightarrow> RecordAuditCommand \<Rightarrow> AuditLog dbproc" where
  "audit_Record c cmd =
     bindP (lift_res (RequireTenantID c)) (\<lambda>tenantID.
     bindP NewID (\<lambda>i.
     bindP Now (\<lambda>now.
     audit_Create c
       \<lparr>al_ID = i, al_TenantID = tenantID, al_ActorID = ra_ActorID cmd,
        al_ActorType = (if ra_ActorType cmd = [] then ActorTypeUser_str else ra_ActorType cmd),
        al_Action = ra_Action cmd, al_EntityType = ra_EntityType cmd, al_EntityID = ra_EntityID cmd,
        al_Changes = ra_Changes cmd, al_Metadata = ra_Metadata cmd, al_CreatedAt = now\<rparr>)))"

text \<open>The page parameters of the list use cases: page, page size and offset, in \<open>int32\<close>.\<close>

definition page_params :: "int32 \<Rightarrow> int32 \<Rightarrow> int32 \<times> int32 \<times> int32" where
  "page_params page0 pageSize0 =
     (let page = (if page0 <s 1 then 1 else page0);
          pageSize = (if pageSize0 <s 1 \<or> 100 <s pageSize0 then 20 else pageSize0)
      in (page, pageSize, (page - 1) * pageSize))"

record 'a list_result =
  lres_Items :: "'a list"
  lres_Total :: int
  lres_Page :: int32
  lres_PageSize :: int32

definition audit_usecase_List ::
    "ctx \<Rightarrow> int32 \<Rightarrow> int32 \<Rightarrow> string option \<Rightarrow> ID option \<Rightarrow> ID option \<Rightarrow> string option \<Rightarrow>
     AuditLog list_result dbproc" where
  "audit_usecase_List c page0 pageSize0 entityType entityID actorID action =
     bindP (lift_res (RequireTenantID c)) (\<lambda>tenantID.
     case page_params page0 pageSize0 of (page, pageSize, offset) \<Rightarrow>
     bindP (audit_List c tenantID
       \<lparr>af_EntityType = entityType, af_EntityID = entityID, af_ActorID = actorID, af_Action = action,
        af_Limit = pageSize, af_Offset = offset\<rparr>) (\<lambda>(items, total).
     ret \<lparr>lres_Items = items, lres_Total = total, lres_Page = page, lres_PageSize = pageSize\<rparr>))"

section \<open>Lemmas\<close>

interpretation outbox_table: keyed_table xr_id outbox_clash
  by unfold_locales (simp add: outbox_clash_def)

interpretation audit_table: keyed_table ar_id audit_clash
  by unfold_locales (simp add: audit_clash_def)

lemma sql_CreateOutboxEvent_Ret_iff:
  "sql_CreateOutboxEvent r t d = (Ret x, d') \<longleftrightarrow>
     xr_id r \<noteq> NilID \<and> xr_tenant_id r \<noteq> NilID \<and> xr_aggregate_id r \<noteq> NilID \<and>
     xr_id r \<notin> xr_id ` set (t_outbox_events d) \<and> x = r \<and> d' = d\<lparr>t_outbox_events := t_outbox_events d @ [r]\<rparr>"
  by (auto simp: sql_CreateOutboxEvent_def insert_row_def outbox_clash_def list_ex_iff
      split: prod.splits if_splits)

lemma sql_CreateAuditLog_Ret_iff:
  "sql_CreateAuditLog r t d = (Ret x, d') \<longleftrightarrow>
     ar_id r \<noteq> NilID \<and> ar_tenant_id r \<noteq> NilID \<and> ar_entity_id r \<noteq> NilID \<and>
     ar_id r \<notin> ar_id ` set (t_audit_logs d) \<and> x = r \<and> d' = d\<lparr>t_audit_logs := t_audit_logs d @ [r]\<rparr>"
  by (auto simp: sql_CreateAuditLog_def insert_row_def audit_clash_def list_ex_iff
      split: prod.splits if_splits)

text \<open>The audit log only grows at its end.\<close>

definition audit_grows :: "db \<Rightarrow> db \<Rightarrow> bool" where
  "audit_grows d d' \<longleftrightarrow> take (length (t_audit_logs d)) (t_audit_logs d') = t_audit_logs d"

lemma audit_grows_iff: "audit_grows d d' \<longleftrightarrow> (\<exists>xs. t_audit_logs d' = t_audit_logs d @ xs)"
  unfolding audit_grows_def by (metis append_eq_conv_conj append_take_drop_id)

interpretation audit_log: db_order audit_grows
  by unfold_locales (auto simp: audit_grows_iff)

lemma audit_Create_grows [stays_intros]: "stays audit_grows (audit_Create c a)"
  unfolding audit_Create_def
  by (intro stays_intros audit_log.stays_stmt) (auto simp: sql_CreateAuditLog_Ret_iff audit_grows_iff)

lemma outbox_grows_audit [stays_intros]:
  "stays audit_grows (outbox_Create c ev)" "stays audit_grows (outbox_FetchPending c m l)"
  "stays audit_grows (outbox_MarkPublished c i t)" "stays audit_grows (outbox_MarkFailed c i msg)"
  unfolding outbox_Create_def outbox_FetchPending_def outbox_MarkPublished_def outbox_MarkFailed_def Let_def
  by (intro stays_intros audit_log.stays_stmt;
      auto simp: sql_CreateOutboxEvent_Ret_iff sql_MarkOutboxEventPublished_def sql_MarkOutboxEventFailed_def
        audit_grows_iff)+

text \<open>Pages of one size cut a list into consecutive pieces.\<close>

lemma pages_concat:
  "concat (map (\<lambda>i. limit_offset k (int i * k) xs) [0..<n]) = take (n * nat k) xs"
proof (induction n)
  case (Suc n)
  have "nat (int n * k) = n * nat k" by (simp add: nat_mult_distrib)
  with Suc show ?case by (simp add: limit_offset_def take_add [symmetric] ac_simps)
qed simp

end
