(* ===== verification/DocumentRepo.thy ===== *)
theory DocumentRepo
  imports OutboxAudit
begin

text \<open>
  \<open>internal/core/domain/document/document.go\<close> and
  \<open>internal/core/repository/postgres/document_repo.go\<close> with its statements
  (\<open>queries/documents.sql\<close>): documents, their lines and the log of their transitions.
\<close>

section \<open>Data\<close>

record DocumentLine =
  dl_ID :: ID
  dl_TenantID :: ID
  dl_DocumentID :: ID
  dl_LineNumber :: int32
  dl_ProductID :: "ID option"
  dl_ProductName :: string
  dl_Description :: string
  dl_Quantity :: float64
  dl_UnitID :: ID
  dl_UnitCode :: string
  dl_UnitPrice :: Money
  dl_Subtotal :: Money
  dl_Metadata :: gomap
  dl_CreatedAt :: gotime
  dl_UpdatedAt :: gotime

record DocumentTransition =
  dt_ID :: ID
  dt_TenantID :: ID
  dt_DocumentID :: ID
  dt_FromStatus :: Status
  dt_ToStatus :: Status
  dt_Reason :: string
  dt_ActorID :: "ID option"
  dt_CreatedAt :: gotime

record Document =
  doc_ID :: ID
  doc_TenantID :: ID
  doc_OrganizationID :: ID
  doc_OrganizationName :: string
  doc_DocumentType :: string
  doc_DocumentNumber :: string
  doc_DocumentDate :: gotime
  doc_PartyID :: "ID option"
  doc_PartyName :: string
  doc_Status :: Status
  doc_TotalAmount :: Money
  doc_Notes :: string
  doc_Metadata :: gomap
  doc_CreatedBy :: "ID option"
  doc_Lines :: "DocumentLine list"
  doc_Transitions :: "DocumentTransition list"
  doc_CreatedAt :: gotime
  doc_UpdatedAt :: gotime

record DocumentFilter =
  df_OrganizationID :: "ID option"
  df_DocumentType :: "string option"
  df_Status :: "Status option"
  df_Limit :: int32
  df_Offset :: int32

section \<open>Statements\<close>

definition document_clash :: "document_row \<Rightarrow> document_row \<Rightarrow> bool" where
  "document_clash r s \<longleftrightarrow> dr_id r = dr_id s \<or>
     dr_tenant_id r = dr_tenant_id s \<and> dr_document_type r = dr_document_type s \<and>
     dr_document_number r = dr_document_number s"

definition sql_CreateDocument :: "document_row \<Rightarrow> int \<Rightarrow> db \<Rightarrow> document_row res \<times> db" where
  "sql_CreateDocument r t d =
     (case insert_row document_clash (dr_id r \<noteq> NilID \<and> dr_tenant_id r \<noteq> NilID \<and> dr_organization_id r \<noteq> NilID)
        r (t_documents d)
      of (x, rs) \<Rightarrow> (x, d\<lparr>t_documents := rs\<rparr>))"

text \<open>\<open>JOIN organizations\<close> keeps the rows that have one; \<open>LEFT JOIN parties\<close> gives a name or \<open>NULL\<close>.\<close>

definition org_of :: "db \<Rightarrow> document_row \<Rightarrow> organization_row option" where
  "org_of d r = find (\<lambda>x. or_id x = dr_organization_id r) (t_organizations d)"

definition party_name_of :: "db \<Rightarrow> document_row \<Rightarrow> string option" where
  "party_name_of d r =
     (case dr_party_id r of None \<Rightarrow> None
      | Some i \<Rightarrow> map_option pr_name (find (\<lambda>p. pr_id p = i) (t_parties d)))"

type_synonym joined_row = "document_row \<times> string \<times> string option"

definition joined_documents :: "(document_row \<Rightarrow> bool) \<Rightarrow> db \<Rightarrow> joined_row list" where
  "joined_documents p d =
     List.map_filter (\<lambda>r. case org_of d r of None \<Rightarrow> None
                          | Some x \<Rightarrow> Some (r, or_name x, party_name_of d r))
       (filter p (t_documents d))"

definition sql_one :: "'a list \<Rightarrow> 'a res" where
  "sql_one xs = (case xs of [] \<Rightarrow> Fail ErrNoRows | x # _ \<Rightarrow> Ret x)"

definition sql_GetDocumentByID :: "ID \<Rightarrow> ID \<Rightarrow> db \<Rightarrow> joined_row res" where
  "sql_GetDocumentByID tenantID i d =
     sql_one (joined_documents (\<lambda>r. pg_eq (dr_tenant_id r) tenantID \<and> pg_eq (dr_id r) i) d)"

definition sql_GetDocumentByNumber :: "ID \<Rightarrow> string \<Rightarrow> string \<Rightarrow> db \<Rightarrow> joined_row res" where
  "sql_GetDocumentByNumber tenantID docType number d =
     sql_one (joined_documents (\<lambda>r. pg_eq (dr_tenant_id r) tenantID \<and> dr_document_type r = docType \<and>
       dr_document_number r = number) d)"

definition document_match :: "ID \<Rightarrow> ID option \<Rightarrow> string option \<Rightarrow> string option \<Rightarrow> document_row \<Rightarrow> bool" where
  "document_match tenantID orgID docType status r \<longleftrightarrow>
     pg_eq (dr_tenant_id r) tenantID \<and> opt_match orgID (dr_organization_id r) \<and>
     opt_match docType (dr_document_type r) \<and> opt_match status (dr_status r)"

definition sql_ListDocuments ::
    "ID \<Rightarrow> int \<Rightarrow> int \<Rightarrow> ID option \<Rightarrow> string option \<Rightarrow> string option \<Rightarrow> db \<Rightarrow> joined_row list" where
  "sql_ListDocuments tenantID limit offset orgID docType status d =
     limit_offset limit offset
       (sort_key (\<lambda>x. - dr_document_date (fst x)) (sort_key (\<lambda>x. - dr_created_at (fst x))
         (joined_documents (document_match tenantID orgID docType status) d)))"

definition sql_UpdateDocumentStatus :: "ID \<Rightarrow> ID \<Rightarrow> string \<Rightarrow> int \<Rightarrow> db \<Rightarrow> document_row res \<times> db" where
  "sql_UpdateDocumentStatus tenantID i status t d =
     (case update_returning (\<lambda>r. pg_eq (dr_tenant_id r) tenantID \<and> pg_eq (dr_id r) i)
        (\<lambda>r. r\<lparr>dr_status := status, dr_updated_at := t\<rparr>) (t_documents d)
      of (x, rs) \<Rightarrow> (x, d\<lparr>t_documents := rs\<rparr>))"

definition sql_UpdateDocumentTotal :: "ID \<Rightarrow> ID \<Rightarrow> int64 \<Rightarrow> string \<Rightarrow> int \<Rightarrow> db \<Rightarrow> document_row res \<times> db" where
  "sql_UpdateDocumentTotal tenantID i tot cur t d =
     (case update_returning (\<lambda>r. pg_eq (dr_tenant_id r) tenantID \<and> pg_eq (dr_id r) i)
        (\<lambda>r. r\<lparr>dr_total_amount := tot, dr_currency := cur, dr_updated_at := t\<rparr>) (t_documents d)
      of (x, rs) \<Rightarrow> (x, d\<lparr>t_documents := rs\<rparr>))"

definition line_clash :: "document_line_row \<Rightarrow> document_line_row \<Rightarrow> bool" where
  "line_clash r s \<longleftrightarrow> lr_id r = lr_id s \<or>
     lr_document_id r = lr_document_id s \<and> lr_line_number r = lr_line_number s"

definition sql_CreateDocumentLine :: "document_line_row option \<Rightarrow> int \<Rightarrow> db \<Rightarrow> document_line_row res \<times> db" where
  "sql_CreateDocumentLine r0 t d =
     (case r0 of None \<Rightarrow> (Fail (Opaque ''not-null constraint''), d)
      | Some r \<Rightarrow>
          (case insert_row line_clash
             (lr_id r \<noteq> NilID \<and> lr_tenant_id r \<noteq> NilID \<and> lr_document_id r \<noteq> NilID \<and> lr_unit_id r \<noteq> NilID)
             r (t_document_lines d)
           of (x, rs) \<Rightarrow> (x, d\<lparr>t_document_lines := rs\<rparr>)))"

definition sql_ListDocumentLines ::
    "ID \<Rightarrow> ID \<Rightarrow> db \<Rightarrow> (document_line_row \<times> string \<times> string option) list" where
  "sql_ListDocumentLines tenantID documentID d =
     sort_key (\<lambda>x. sint (lr_line_number (fst x)))
       (List.map_filter (\<lambda>r. case find (\<lambda>u. ur_id u = lr_unit_id r) (t_units d) of
            None \<Rightarrow> None
          | Some u \<Rightarrow> Some (r, ur_code u,
              (case lr_product_id r of None \<Rightarrow> None
               | Some i \<Rightarrow> map_option pdr_name (find (\<lambda>p. pdr_id p = i) (t_products d)))))
         (filter (\<lambda>r. pg_eq (lr_tenant_id r) tenantID \<and> pg_eq (lr_document_id r) documentID)
           (t_document_lines d)))"

definition transition_clash :: "document_transition_row \<Rightarrow> document_transition_row \<Rightarrow> bool" where
  "transition_clash r s \<longleftrightarrow> tr_id r = tr_id s"

definition sql_CreateDocumentTransition ::
    "document_transition_row \<Rightarrow> int \<Rightarrow> db \<Rightarrow> document_transition_row res \<times> db" where
  "sql_CreateDocumentTransition r t d =
     (case insert_row transition_clash (tr_id r \<noteq> NilID \<and> tr_tenant_id r \<noteq> NilID \<and> tr_document_id r \<noteq> NilID)
        r (t_document_transitions d)
      of (x, rs) \<Rightarrow> (x, d\<lparr>t_document_transitions := rs\<rparr>))"

definition sql_ListDocumentTransitions :: "ID \<Rightarrow> ID \<Rightarrow> db \<Rightarrow> document_transition_row list" where
  "sql_ListDocumentTransitions tenantID documentID d =
     sort_key tr_created_at
       (filter (\<lambda>r. pg_eq (tr_tenant_id r) tenantID \<and> pg_eq (tr_document_id r) documentID)
         (t_document_transitions d))"

section \<open>Repository\<close>

definition document_row_of :: "Document \<Rightarrow> document_row" where
  "document_row_of doc =
     \<lparr>dr_id = doc_ID doc, dr_tenant_id = doc_TenantID doc, dr_organization_id = doc_OrganizationID doc,
      dr_document_type = doc_DocumentType doc, dr_document_number = doc_DocumentNumber doc,
      dr_document_date = abs_day (doc_DocumentDate doc), dr_party_id = id_of_ptr (doc_PartyID doc),
      dr_status = doc_Status doc, dr_total_amount = amount (doc_TotalAmount doc),
      dr_currency = currency (doc_TotalAmount doc), dr_notes = ptr_of_str (doc_Notes doc),
      dr_metadata = json_of_map (doc_Metadata doc), dr_created_by = id_of_ptr (doc_CreatedBy doc),
      dr_created_at = to_micro (doc_CreatedAt doc), dr_updated_at = to_micro (doc_UpdatedAt doc)\<rparr>"

definition repo_CreateDocument :: "ctx \<Rightarrow> Document \<Rightarrow> Document dbproc" where
  "repo_CreateDocument c doc =
     bindP (stmt c (sql_CreateDocument (document_row_of doc))) (\<lambda>row.
     bindP (ask_env local_off) (\<lambda>lo.
     ret (doc\<lparr>doc_ID := dr_id row, doc_CreatedAt := ts_local lo (dr_created_at row),
              doc_UpdatedAt := ts_local lo (dr_updated_at row)\<rparr>)))"

definition date_time :: "int \<Rightarrow> gotime" where
  "date_time day = utc_of_ns ((day - 719162) * 86400 * Second)"

definition toDomainDocument :: "(int \<Rightarrow> int) \<Rightarrow> joined_row \<Rightarrow> Document res" where
  "toDomainDocument lo x =
     (case x of (row, orgName, partyName) \<Rightarrow>
      bind_res (MustNewMoney (dr_total_amount row) (dr_currency row)) (\<lambda>total. Ret
        \<lparr>doc_ID = dr_id row, doc_TenantID = dr_tenant_id row, doc_OrganizationID = dr_organization_id row,
         doc_OrganizationName = orgName, doc_DocumentType = dr_document_type row,
         doc_DocumentNumber = dr_document_number row, doc_DocumentDate = date_time (dr_document_date row),
         doc_PartyID = dr_party_id row, doc_PartyName = str_of_ptr partyName, doc_Status = dr_status row,
         doc_TotalAmount = total, doc_Notes = str_of_ptr (dr_notes row),
         doc_Metadata = map_of_json (dr_metadata row), doc_CreatedBy = dr_created_by row, doc_Lines = [],
         doc_Transitions = [], doc_CreatedAt = ts_local lo (dr_created_at row),
         doc_UpdatedAt = ts_local lo (dr_updated_at row)\<rparr>))"

text \<open>The currency of a stored line is read as \<open>IDR\<close>, whatever the currency of the document.\<close>

definition line_of_row ::
    "(int \<Rightarrow> int) \<Rightarrow> document_line_row \<times> string \<times> string option \<Rightarrow> DocumentLine res" where
  "line_of_row lo x =
     (case x of (row, code, productName) \<Rightarrow>
      bind_res (MustNewMoney (lr_unit_price row) ''IDR'') (\<lambda>price.
      bind_res (MustNewMoney (lr_subtotal row) ''IDR'') (\<lambda>sub. Ret
        \<lparr>dl_ID = lr_id row, dl_TenantID = lr_tenant_id row, dl_DocumentID = lr_document_id row,
         dl_LineNumber = lr_line_number row, dl_ProductID = lr_product_id row,
         dl_ProductName = str_of_ptr productName, dl_Description = lr_description row,
         dl_Quantity = numericToFloat (lr_quantity row), dl_UnitID = lr_unit_id row, dl_UnitCode = code,
         dl_UnitPrice = price, dl_Subtotal = sub, dl_Metadata = map_of_json (lr_metadata row),
         dl_CreatedAt = ts_local lo (lr_created_at row), dl_UpdatedAt = ts_local lo (lr_updated_at row)\<rparr>)))"

fun map_res :: "('a \<Rightarrow> 'b res) \<Rightarrow> 'a list \<Rightarrow> 'b list res" where
  "map_res f [] = Ret []"
| "map_res f (x # xs) = bind_res (f x) (\<lambda>y. bind_res (map_res f xs) (\<lambda>ys. Ret (y # ys)))"

definition repo_ListLines :: "ctx \<Rightarrow> ID \<Rightarrow> ID \<Rightarrow> DocumentLine list dbproc" where
  "repo_ListLines c tenantID documentID =
     bindP (query c (\<lambda>d. Ret (sql_ListDocumentLines tenantID documentID d))) (\<lambda>rows.
     bindP (ask_env local_off) (\<lambda>lo. lift_res (map_res (line_of_row lo) rows)))"

definition transition_of_row :: "(int \<Rightarrow> int) \<Rightarrow> document_transition_row \<Rightarrow> DocumentTransition" where
  "transition_of_row lo r =
     \<lparr>dt_ID = tr_id r, dt_TenantID = tr_tenant_id r, dt_DocumentID = tr_document_id r,
      dt_FromStatus = tr_from_status r, dt_ToStatus = tr_to_status r, dt_Reason = str_of_ptr (tr_reason r),
      dt_ActorID = tr_actor_id r, dt_CreatedAt = ts_local lo (tr_created_at r)\<rparr>"

definition repo_ListTransitions :: "ctx \<Rightarrow> ID \<Rightarrow> ID \<Rightarrow> DocumentTransition list dbproc" where
  "repo_ListTransitions c tenantID documentID =
     bindP (query c (\<lambda>d. Ret (sql_ListDocumentTransitions tenantID documentID d))) (\<lambda>rows.
     bindP (ask_env local_off) (\<lambda>lo. ret (map (transition_of_row lo) rows)))"

text \<open>The rest of \<open>GetDocumentByID\<close> and \<open>GetDocumentByNumber\<close> after the row has been read.\<close>

definition complete_document :: "ctx \<Rightarrow> ID \<Rightarrow> joined_row \<Rightarrow> Document dbproc" where
  "complete_document c tenantID row =
     bindP (ask_env local_off) (\<lambda>lo.
     bindP (lift_res (toDomainDocument lo row)) (\<lambda>doc.
     bindP (repo_ListLines c tenantID (doc_ID doc)) (\<lambda>lines.
     bindP (repo_ListTransitions c tenantID (doc_ID doc)) (\<lambda>transitions.
     ret (doc\<lparr>doc_Lines := lines, doc_Transitions := transitions\<rparr>)))))"

definition repo_GetDocumentByID :: "ctx \<Rightarrow> ID \<Rightarrow> ID \<Rightarrow> Document dbproc" where
  "repo_GetDocumentByID c tenantID i =
     bindP (norows_notfound (query c (sql_GetDocumentByID tenantID i))) (complete_document c tenantID)"

definition repo_GetDocumentByNumber :: "ctx \<Rightarrow> ID \<Rightarrow> string \<Rightarrow> string \<Rightarrow> Document dbproc" where
  "repo_GetDocumentByNumber c tenantID docType number =
     bindP (norows_notfound (query c (sql_GetDocumentByNumber tenantID docType number)))
       (complete_document c tenantID)"

definition repo_ListDocuments :: "ctx \<Rightarrow> ID \<Rightarrow> DocumentFilter \<Rightarrow> (Document list \<times> int) dbproc" where
  "repo_ListDocuments c tenantID f =
     (let limit = max (sint (df_Limit f)) 20; offset = max (sint (df_Offset f)) 0;
          orgID = id_of_ptr (df_OrganizationID f)
      in bindP (query c (\<lambda>d. Ret (int (length (filter
           (document_match tenantID orgID (df_DocumentType f) (df_Status f)) (t_documents d)))))) (\<lambda>total.
         bindP (query c (\<lambda>d. Ret (sql_ListDocuments tenantID limit offset orgID (df_DocumentType f)
           (df_Status f) d))) (\<lambda>rows.
         bindP (ask_env local_off) (\<lambda>lo.
         bindP (lift_res (map_res (toDomainDocument lo) rows)) (\<lambda>docs. ret (docs, total))))))"

definition repo_UpdateDocumentStatus :: "ctx \<Rightarrow> ID \<Rightarrow> ID \<Rightarrow> Status \<Rightarrow> unit dbproc" where
  "repo_UpdateDocumentStatus c tenantID i newStatus =
     bindP (stmt c (sql_UpdateDocumentStatus tenantID i newStatus)) (\<lambda>_. ret ())"

definition repo_UpdateDocumentTotal :: "ctx \<Rightarrow> ID \<Rightarrow> ID \<Rightarrow> Money \<Rightarrow> unit dbproc" where
  "repo_UpdateDocumentTotal c tenantID i tot =
     bindP (stmt c (sql_UpdateDocumentTotal tenantID i (amount tot) (currency tot))) (\<lambda>_. ret ())"

definition line_row_of :: "DocumentLine \<Rightarrow> document_line_row option" where
  "line_row_of l =
     (case floatToNumeric (dl_Quantity l) of None \<Rightarrow> None
      | Some q \<Rightarrow> Some
        \<lparr>lr_id = dl_ID l, lr_tenant_id = dl_TenantID l, lr_document_id = dl_DocumentID l,
         lr_line_number = dl_LineNumber l, lr_product_id = id_of_ptr (dl_ProductID l),
         lr_description = dl_Description l, lr_quantity = decimal 4 q, lr_unit_id = dl_UnitID l,
         lr_unit_price = amount (dl_UnitPrice l), lr_subtotal = amount (dl_Subtotal l),
         lr_metadata = json_of_map (dl_Metadata l), lr_created_at = to_micro (dl_CreatedAt l),
         lr_updated_at = to_micro (dl_UpdatedAt l)\<rparr>)"

definition repo_CreateLine :: "ctx \<Rightarrow> DocumentLine \<Rightarrow> DocumentLine dbproc" where
  "repo_CreateLine c l =
     bindP (stmt c (sql_CreateDocumentLine (line_row_of l))) (\<lambda>row.
     bindP (ask_env local_off) (\<lambda>lo.
     ret (l\<lparr>dl_ID := lr_id row, dl_CreatedAt := ts_local lo (lr_created_at row),
            dl_UpdatedAt := ts_local lo (lr_updated_at row)\<rparr>)))"

definition repo_CreateLines :: "ctx \<Rightarrow> DocumentLine list \<Rightarrow> DocumentLine list dbproc" where
  "repo_CreateLines c lines = mapP (repo_CreateLine c) lines"

definition transition_row_of :: "DocumentTransition \<Rightarrow> document_transition_row" where
  "transition_row_of t =
     \<lparr>tr_id = dt_ID t, tr_tenant_id = dt_TenantID t, tr_document_id = dt_DocumentID t,
      tr_from_status = dt_FromStatus t, tr_to_status = dt_ToStatus t, tr_reason = ptr_of_str (dt_Reason t),
      tr_actor_id = id_of_ptr (dt_ActorID t), tr_created_at = to_micro (dt_CreatedAt t)\<rparr>"

definition repo_RecordTransition :: "ctx \<Rightarrow> DocumentTransition \<Rightarrow> DocumentTransition dbproc" where
  "repo_RecordTransition c t =
     bindP (stmt c (sql_CreateDocumentTransition (transition_row_of t))) (\<lambda>row.
     bindP (ask_env local_off) (\<lambda>lo.
     ret (t\<lparr>dt_ID := tr_id row, dt_CreatedAt := ts_local lo (tr_created_at row)\<rparr>)))"

end
