(* ===== verification/SequenceUsecase.thy ===== *)
theory SequenceUsecase
  imports OutboxAudit
begin

text \<open>
  \<open>internal/core/repository/postgres/sequence_repo.go\<close> and
  \<open>internal/core/usecase/sequence/sequence_usecase.go\<close>. The repository never joins a transaction of
  the context: every call runs on the pool, and \<open>AcquireNextNumber\<close> opens its own transaction
  with a row lock. The lemmas show that acquisition moves the counter and returns its text,
  and that a failed acquisition can lose a number but never hand one out twice.
\<close>

section \<open>Repository\<close>

definition sequence_clash :: "sequence_row \<Rightarrow> sequence_row \<Rightarrow> bool" where
  "sequence_clash r s \<longleftrightarrow> sr_id r = sr_id s \<or>
     sr_tenant_id r = sr_tenant_id s \<and> sr_code r = sr_code s \<or>
     sr_tenant_id r = sr_tenant_id s \<and> sr_entity_type r = sr_entity_type s \<and> sr_sub_type r = sr_sub_type s"

definition sql_CreateSequence :: "sequence_row \<Rightarrow> int \<Rightarrow> db \<Rightarrow> sequence_row res \<times> db" where
  "sql_CreateSequence r t d =
     (case insert_row sequence_clash (sr_id r \<noteq> NilID \<and> sr_tenant_id r \<noteq> NilID) r (t_number_sequences d)
      of (x, rs) \<Rightarrow> (x, d\<lparr>t_number_sequences := rs\<rparr>))"

definition entity_match :: "ID \<Rightarrow> string \<Rightarrow> string \<Rightarrow> sequence_row \<Rightarrow> bool" where
  "entity_match tenantID entityType subType r \<longleftrightarrow>
     pg_eq (sr_tenant_id r) tenantID \<and> sr_entity_type r = entityType \<and> sr_sub_type r = subType \<and> sr_is_active r"

definition sql_UpdateSequence :: "sequence_row \<Rightarrow> int \<Rightarrow> db \<Rightarrow> sequence_row res \<times> db" where
  "sql_UpdateSequence u t d =
     (case update_returning (\<lambda>r. pg_eq (sr_tenant_id r) (sr_tenant_id u) \<and> pg_eq (sr_id r) (sr_id u))
        (\<lambda>r. r\<lparr>sr_name := sr_name u, sr_prefix := sr_prefix u, sr_suffix := sr_suffix u,
               sr_template := sr_template u, sr_padding := sr_padding u, sr_reset_policy := sr_reset_policy u,
               sr_is_active := sr_is_active u, sr_updated_at := sr_updated_at u\<rparr>) (t_number_sequences d)
      of (x, rs) \<Rightarrow> (x, d\<lparr>t_number_sequences := rs\<rparr>))"

definition sql_DeleteSequence :: "ID \<Rightarrow> ID \<Rightarrow> int \<Rightarrow> db \<Rightarrow> unit res \<times> db" where
  "sql_DeleteSequence tenantID i t d =
     (Ret (), d\<lparr>t_number_sequences :=
        filter (\<lambda>r. \<not> (pg_eq (sr_tenant_id r) tenantID \<and> pg_eq (sr_id r) i)) (t_number_sequences d)\<rparr>)"

definition sql_UpdateSequenceValue ::
    "ID \<Rightarrow> ID \<Rightarrow> int64 \<Rightarrow> string option \<Rightarrow> int option \<Rightarrow> int \<Rightarrow> int \<Rightarrow> db \<Rightarrow> unit res \<times> db" where
  "sql_UpdateSequenceValue tenantID i val lastNumber lastResetAt updatedAt t d =
     (Ret (), d\<lparr>t_number_sequences :=
        update_rows (\<lambda>r. pg_eq (sr_tenant_id r) tenantID \<and> pg_eq (sr_id r) i)
          (\<lambda>r. r\<lparr>sr_current_value := val, sr_last_number := lastNumber, sr_last_reset_at := lastResetAt,
                 sr_updated_at := updatedAt\<rparr>) (t_number_sequences d)\<rparr>)"

definition sequence_row_of :: "Sequence \<Rightarrow> sequence_row" where
  "sequence_row_of s =
     \<lparr>sr_id = sq_ID s, sr_tenant_id = sq_TenantID s, sr_code = sq_Code s, sr_name = sq_Name s,
      sr_entity_type = sq_EntityType s, sr_sub_type = sq_SubType s, sr_prefix = sq_Prefix s,
      sr_suffix = sq_Suffix s, sr_template = sq_Template s, sr_padding = ucast (sq_Padding s),
      sr_start_value = sq_StartValue s, sr_increment_by = ucast (sq_IncrementBy s),
      sr_current_value = sq_CurrentValue s, sr_reset_policy = sq_ResetPolicy s,
      sr_last_number = ptr_of_str (sq_LastNumber s), sr_last_reset_at = map_option to_micro (sq_LastResetAt s),
      sr_is_active = sq_IsActive s, sr_created_at = to_micro (sq_CreatedAt s),
      sr_updated_at = to_micro (sq_UpdatedAt s)\<rparr>"

definition toDomainSequence :: "(int \<Rightarrow> int) \<Rightarrow> sequence_row \<Rightarrow> Sequence" where
  "toDomainSequence lo r =
     \<lparr>sq_ID = sr_id r, sq_TenantID = sr_tenant_id r, sq_Code = sr_code r, sq_Name = sr_name r,
      sq_EntityType = sr_entity_type r, sq_SubType = sr_sub_type r, sq_Prefix = sr_prefix r,
      sq_Suffix = sr_suffix r, sq_Template = sr_template r, sq_Padding = scast (sr_padding r),
      sq_StartValue = sr_start_value r, sq_IncrementBy = scast (sr_increment_by r),
      sq_CurrentValue = sr_current_value r, sq_ResetPolicy = sr_reset_policy r,
      sq_LastNumber = str_of_ptr (sr_last_number r), sq_LastResetAt = map_option (ts_local lo) (sr_last_reset_at r),
      sq_IsActive = sr_is_active r, sq_CreatedAt = ts_local lo (sr_created_at r),
      sq_UpdatedAt = ts_local lo (sr_updated_at r)\<rparr>"

definition seq_Create :: "ctx \<Rightarrow> Sequence \<Rightarrow> Sequence dbproc" where
  "seq_Create c s =
     bindP (stmt (pool_ctx c) (sql_CreateSequence (sequence_row_of s))) (\<lambda>row.
     bindP (ask_env local_off) (\<lambda>lo.
     ret (s\<lparr>sq_ID := sr_id row, sq_CreatedAt := ts_local lo (sr_created_at row),
            sq_UpdatedAt := ts_local lo (sr_updated_at row)\<rparr>)))"

definition seq_get :: "ctx \<Rightarrow> (sequence_row \<Rightarrow> bool) \<Rightarrow> Sequence dbproc" where
  "seq_get c p =
     bindP (norows_notfound (query (pool_ctx c) (\<lambda>d. select_one p (t_number_sequences d)))) (\<lambda>row.
     bindP (ask_env local_off) (\<lambda>lo. ret (toDomainSequence lo row)))"

definition seq_GetByID :: "ctx \<Rightarrow> ID \<Rightarrow> ID \<Rightarrow> Sequence dbproc" where
  "seq_GetByID c tenantID i = seq_get c (\<lambda>r. pg_eq (sr_tenant_id r) tenantID \<and> pg_eq (sr_id r) i)"

definition seq_GetByCode :: "ctx \<Rightarrow> ID \<Rightarrow> string \<Rightarrow> Sequence dbproc" where
  "seq_GetByCode c tenantID code = seq_get c (\<lambda>r. pg_eq (sr_tenant_id r) tenantID \<and> sr_code r = code)"

definition seq_GetByEntity :: "ctx \<Rightarrow> ID \<Rightarrow> string \<Rightarrow> string \<Rightarrow> Sequence dbproc" where
  "seq_GetByEntity c tenantID entityType subType = seq_get c (entity_match tenantID entityType subType)"

definition seq_List :: "ctx \<Rightarrow> ID \<Rightarrow> Sequence list dbproc" where
  "seq_List c tenantID =
     bindP (query (pool_ctx c) (\<lambda>d. Ret (sort_key sr_entity_type (sort_key sr_sub_type (sort_key sr_code
       (filter (\<lambda>r. pg_eq (sr_tenant_id r) tenantID) (t_number_sequences d))))))) (\<lambda>rows.
     bindP (ask_env local_off) (\<lambda>lo. ret (map (toDomainSequence lo) rows)))"

definition seq_Update :: "ctx \<Rightarrow> Sequence \<Rightarrow> Sequence dbproc" where
  "seq_Update c s =
     bindP (norows_notfound (stmt (pool_ctx c) (sql_UpdateSequence (sequence_row_of s)))) (\<lambda>row.
     bindP (ask_env local_off) (\<lambda>lo. ret (s\<lparr>sq_UpdatedAt := ts_local lo (sr_updated_at row)\<rparr>)))"

definition seq_Delete :: "ctx \<Rightarrow> ID \<Rightarrow> ID \<Rightarrow> unit dbproc" where
  "seq_Delete c tenantID i = stmt (pool_ctx c) (sql_DeleteSequence tenantID i)"

text \<open>The body of the transaction of \<open>AcquireNextNumber\<close>: lock the row, compute, save.\<close>

definition acquire_body ::
    "ctx \<Rightarrow> ID \<Rightarrow> string \<Rightarrow> string \<Rightarrow> (string \<times> string) list \<Rightarrow> string dbproc" where
  "acquire_body tc tenantID entityType subType extraTokens =
     bindP (norows_notfound (query tc
       (\<lambda>d. select_one (entity_match tenantID entityType subType) (t_number_sequences d)))) (\<lambda>row.
     bindP (ask_env local_off) (\<lambda>lo.
     bindP Now (\<lambda>now.
     let seq = toDomainSequence lo row;
         (nextVal, wasReset) = NextValue seq now;
         formatted = FormatNumber (sq_Template seq) (sq_Prefix seq) (sq_Suffix seq) nextVal (sq_Padding seq)
           now extraTokens;
         lastReset = (if wasReset \<or> sq_LastResetAt seq = None then Some (to_micro now)
                      else sr_last_reset_at row)
     in bindP (stmt tc (sql_UpdateSequenceValue tenantID (sr_id row) nextVal (Some formatted)
           lastReset (to_micro now))) (\<lambda>_.
        ret formatted))))"

definition seq_AcquireNextNumber ::
    "ctx \<Rightarrow> ID \<Rightarrow> string \<Rightarrow> string \<Rightarrow> (string \<times> string) list \<Rightarrow> string dbproc" where
  "seq_AcquireNextNumber c tenantID entityType subType extraTokens =
     run_tx (acquire_body (tx_ctx c) tenantID entityType subType extraTokens)"

section \<open>Use case\<close>

record CreateSequenceCommand =
  cs_TenantID :: ID
  cs_Code :: string
  cs_Name :: string
  cs_EntityType :: string
  cs_SubType :: string
  cs_Prefix :: string
  cs_Suffix :: string
  cs_Template :: string
  cs_Padding :: int64
  cs_StartValue :: int64
  cs_IncrementBy :: int64
  cs_ResetPolicy :: string

record UpdateSequenceCommand =
  us_TenantID :: ID
  us_ID :: ID
  us_Name :: string
  us_Prefix :: string
  us_Suffix :: string
  us_Template :: string
  us_Padding :: int64
  us_ResetPolicy :: string
  us_IsActive :: bool

record AcquireNextCommand =
  an_TenantID :: ID
  an_EntityType :: string
  an_SubType :: string
  an_ExtraTokens :: "(string \<times> string) list"

definition CreateSequence :: "ctx \<Rightarrow> CreateSequenceCommand \<Rightarrow> Sequence dbproc" where
  "CreateSequence c cmd =
     bindP (guard (cs_TenantID cmd \<noteq> NilID) ErrTenantRequired) (\<lambda>_.
     let code = ToLower (TrimSpace (cs_Code cmd));
         name = TrimSpace (cs_Name cmd);
         entityType = ToLower (TrimSpace (cs_EntityType cmd));
         subType = ToLower (TrimSpace (cs_SubType cmd))
     in bindP (guard (\<not> (code = [] \<or> name = [] \<or> entityType = [] \<or> subType = []))
          (Wrapped ''code, name, entity_type, and sub_type are required'' ErrInvalidInput)) (\<lambda>_.
     bindP (guard (\<not> (cs_ResetPolicy cmd \<noteq> [] \<and> \<not> ResetPolicy_IsValid (cs_ResetPolicy cmd)))
          (Wrapped ''invalid reset_policy'' ErrInvalidInput)) (\<lambda>_.
     let resetPolicy = (if cs_ResetPolicy cmd = [] then ResetNever else cs_ResetPolicy cmd);
         padding = (if cs_Padding cmd \<le>s 0 then 4 else cs_Padding cmd);
         startValue = (if cs_StartValue cmd \<le>s 0 then 1 else cs_StartValue cmd);
         incrementBy = (if cs_IncrementBy cmd \<le>s 0 then 1 else cs_IncrementBy cmd);
         template = (if cs_Template cmd = [] then ''{PREFIX}/{YYYY}/{MM}/{SEQ:4}'' else cs_Template cmd)
     in bindP (must_not_exist ''sequence code already exists'' (seq_GetByCode c (cs_TenantID cmd) code)) (\<lambda>_.
     bindP (must_not_exist ''active sequence already exists''
       (seq_GetByEntity c (cs_TenantID cmd) entityType subType)) (\<lambda>_.
     bindP NewID (\<lambda>i.
     bindP Now (\<lambda>now.
     seq_Create c
       \<lparr>sq_ID = i, sq_TenantID = cs_TenantID cmd, sq_Code = code, sq_Name = name, sq_EntityType = entityType,
        sq_SubType = subType, sq_Prefix = cs_Prefix cmd, sq_Suffix = cs_Suffix cmd, sq_Template = template,
        sq_Padding = padding, sq_StartValue = startValue, sq_IncrementBy = incrementBy, sq_CurrentValue = 0,
        sq_ResetPolicy = resetPolicy, sq_LastNumber = [], sq_LastResetAt = None, sq_IsActive = True,
        sq_CreatedAt = now, sq_UpdatedAt = now\<rparr>)))))))"

definition GetSequence :: "ctx \<Rightarrow> ID \<Rightarrow> ID \<Rightarrow> Sequence dbproc" where
  "GetSequence c tenantID i =
     bindP (guard (tenantID \<noteq> NilID) ErrTenantRequired) (\<lambda>_. seq_GetByID c tenantID i)"

definition GetSequenceByEntity :: "ctx \<Rightarrow> ID \<Rightarrow> string \<Rightarrow> string \<Rightarrow> Sequence dbproc" where
  "GetSequenceByEntity c tenantID entityType subType =
     bindP (guard (tenantID \<noteq> NilID) ErrTenantRequired) (\<lambda>_.
     seq_GetByEntity c tenantID (ToLower entityType) (ToLower subType))"

definition ListSequences :: "ctx \<Rightarrow> ID \<Rightarrow> Sequence list dbproc" where
  "ListSequences c tenantID =
     bindP (guard (tenantID \<noteq> NilID) ErrTenantRequired) (\<lambda>_. seq_List c tenantID)"

definition UpdateSequence :: "ctx \<Rightarrow> UpdateSequenceCommand \<Rightarrow> Sequence dbproc" where
  "UpdateSequence c cmd =
     bindP (guard (us_TenantID cmd \<noteq> NilID) ErrTenantRequired) (\<lambda>_.
     bindP (seq_GetByID c (us_TenantID cmd) (us_ID cmd)) (\<lambda>s0.
     let s1 = s0\<lparr>sq_Name := (if us_Name cmd \<noteq> [] then TrimSpace (us_Name cmd) else sq_Name s0),
                 sq_Prefix := us_Prefix cmd, sq_Suffix := us_Suffix cmd,
                 sq_Template := (if us_Template cmd \<noteq> [] then us_Template cmd else sq_Template s0),
                 sq_Padding := (if 0 <s us_Padding cmd then us_Padding cmd else sq_Padding s0)\<rparr>
     in bindP (guard (\<not> (us_ResetPolicy cmd \<noteq> [] \<and> \<not> ResetPolicy_IsValid (us_ResetPolicy cmd)))
          (Wrapped ''invalid reset_policy'' ErrInvalidInput)) (\<lambda>_.
     bindP Now (\<lambda>now.
     seq_Update c (s1\<lparr>sq_ResetPolicy := (if us_ResetPolicy cmd \<noteq> [] then us_ResetPolicy cmd
                                          else sq_ResetPolicy s1),
                      sq_IsActive := us_IsActive cmd, sq_UpdatedAt := now\<rparr>)))))"

definition DeleteSequence :: "ctx \<Rightarrow> ID \<Rightarrow> ID \<Rightarrow> unit dbproc" where
  "DeleteSequence c tenantID i =
     bindP (guard (tenantID \<noteq> NilID) ErrTenantRequired) (\<lambda>_. seq_Delete c tenantID i)"

definition AcquireNextNumber :: "ctx \<Rightarrow> AcquireNextCommand \<Rightarrow> string dbproc" where
  "AcquireNextNumber c cmd =
     bindP (guard (an_TenantID cmd \<noteq> NilID) ErrTenantRequired) (\<lambda>_.
     seq_AcquireNextNumber c (an_TenantID cmd) (ToLower (TrimSpace (an_EntityType cmd)))
       (ToLower (TrimSpace (an_SubType cmd))) (an_ExtraTokens cmd))"

definition PreviewNextNumber :: "ctx \<Rightarrow> AcquireNextCommand \<Rightarrow> string dbproc" where
  "PreviewNextNumber c cmd =
     bindP (guard (an_TenantID cmd \<noteq> NilID) ErrTenantRequired) (\<lambda>_.
     bindP (seq_GetByEntity c (an_TenantID cmd) (ToLower (TrimSpace (an_EntityType cmd)))
       (ToLower (TrimSpace (an_SubType cmd)))) (\<lambda>seq.
     bindP Now (\<lambda>now.
     let (nextVal, _) = NextValue seq now
     in ret (FormatNumber (sq_Template seq) (sq_Prefix seq) (sq_Suffix seq) nextVal (sq_Padding seq) now
          (an_ExtraTokens cmd)))))"

section \<open>Lemmas\<close>

interpretation sequence_table: keyed_table sr_id sequence_clash
  by unfold_locales (simp add: sequence_clash_def)

text \<open>The effect of an acquisition on the row.\<close>

definition acquired :: "(int \<Rightarrow> int) \<Rightarrow> gotime \<Rightarrow> (string \<times> string) list \<Rightarrow> sequence_row \<Rightarrow> sequence_row" where
  "acquired lo now xs row =
     (let s = toDomainSequence lo row; (v, wasReset) = NextValue s now
      in row\<lparr>sr_current_value := v,
             sr_last_number := Some (FormatNumber (sr_template row) (sr_prefix row) (sr_suffix row) v
               (scast (sr_padding row)) now xs),
             sr_last_reset_at := (if wasReset \<or> sr_last_reset_at row = None then Some (to_micro now)
                                  else sr_last_reset_at row),
             sr_updated_at := to_micro now\<rparr>)"

lemma acquired_simps [simp]:
  "sr_id (acquired lo now xs r) = sr_id r" "sr_tenant_id (acquired lo now xs r) = sr_tenant_id r"
  "sr_entity_type (acquired lo now xs r) = sr_entity_type r" "sr_sub_type (acquired lo now xs r) = sr_sub_type r"
  "sr_is_active (acquired lo now xs r) = sr_is_active r" "sr_template (acquired lo now xs r) = sr_template r"
  "sr_prefix (acquired lo now xs r) = sr_prefix r" "sr_suffix (acquired lo now xs r) = sr_suffix r"
  "sr_padding (acquired lo now xs r) = sr_padding r" "sr_reset_policy (acquired lo now xs r) = sr_reset_policy r"
  "sr_increment_by (acquired lo now xs r) = sr_increment_by r" "sr_start_value (acquired lo now xs r) = sr_start_value r"
  "sr_current_value (acquired lo now xs r) = fst (NextValue (toDomainSequence lo r) now)"
  by (simp_all add: acquired_def Let_def split: prod.splits)

lemma toDomainSequence_simps [simp]:
  "sq_Template (toDomainSequence lo r) = sr_template r" "sq_Prefix (toDomainSequence lo r) = sr_prefix r"
  "sq_Suffix (toDomainSequence lo r) = sr_suffix r" "sq_Padding (toDomainSequence lo r) = scast (sr_padding r)"
  "sq_CurrentValue (toDomainSequence lo r) = sr_current_value r"
  "sq_IncrementBy (toDomainSequence lo r) = scast (sr_increment_by r)"
  "sq_StartValue (toDomainSequence lo r) = sr_start_value r"
  "sq_ResetPolicy (toDomainSequence lo r) = sr_reset_policy r"
  "sq_LastResetAt (toDomainSequence lo r) = map_option (ts_local lo) (sr_last_reset_at r)"
  by (simp_all add: toDomainSequence_def)

text \<open>What the constraints of the table keep: distinct identifiers, none of them nil.\<close>

definition sequences_wf :: "db \<Rightarrow> bool" where
  "sequences_wf d \<longleftrightarrow> distinct (map sr_id (t_number_sequences d)) \<and> NilID \<notin> sr_id ` set (t_number_sequences d)"

definition acquire_row :: "(int \<Rightarrow> int) \<Rightarrow> gotime \<Rightarrow> (string \<times> string) list \<Rightarrow> sequence_row \<Rightarrow> db \<Rightarrow> db" where
  "acquire_row lo now xs row d = d\<lparr>t_number_sequences :=
     map (\<lambda>r. if r = row then acquired lo now xs r else r) (t_number_sequences d)\<rparr>"

lemma acquire_body_Ret:
  assumes run: "acquire_body tc t et st xs e w = (Ret s, w')" and tc: "ctx_tx tc" and w: "wtx w = Some (d, False)"
    and wf: "sequences_wf d"
  obtains row where "select_one (entity_match t et st) (t_number_sequences d) = Ret row"
    and "wtx w' = Some (acquire_row (local_off e) (utc_of_ns (clock_at e (Suc (tick w)))) xs row d, False)"
    and "sr_last_number (acquired (local_off e) (utc_of_ns (clock_at e (Suc (tick w)))) xs row) = Some s"
    and "tick w' = Suc (Suc (Suc (tick w)))"
proof -
  define now where "now = utc_of_ns (clock_at e (Suc (tick w)))"
  define nv where "nv row = NextValue (toDomainSequence (local_off e) row) now" for row
  from run tc w obtain row where
    row: "select_one (entity_match t et st) (t_number_sequences d) = Ret row" and
    w1: "wtx w' = Some (snd (sql_UpdateSequenceValue t (sr_id row) (fst (nv row)) (Some s)
        (if snd (nv row) \<or> sr_last_reset_at row = None then Some (to_micro now) else sr_last_reset_at row)
        (to_micro now) 0 d), False)" and
    s: "s = FormatNumber (sr_template row) (sr_prefix row) (sr_suffix row) (fst (nv row))
        (scast (sr_padding row)) now xs" and tick: "tick w' = Suc (Suc (Suc (tick w)))"
    unfolding acquire_body_def Let_def case_prod_beta
    by (auto simp: bindP_Ret_iff proc_simps query_def stmt_Ret_inside sql_UpdateSequenceValue_def now_def nv_def)
  let ?n = "if snd (nv row) \<or> sr_last_reset_at row = None then Some (to_micro now) else sr_last_reset_at row"
  have acq: "acquired (local_off e) now xs row = row\<lparr>sr_current_value := fst (nv row), sr_last_number := Some s,
      sr_last_reset_at := ?n, sr_updated_at := to_micro now\<rparr>"
    using s by (simp add: acquired_def Let_def nv_def case_prod_beta)
  have in_d: "row \<in> set (t_number_sequences d)" and m: "entity_match t et st row"
    using select_one_in [OF row] by auto
  have nz: "sr_id row \<noteq> NilID" using wf in_d by (force simp: sequences_wf_def)
  have eq: "pg_eq (sr_tenant_id r) t \<and> pg_eq (sr_id r) (sr_id row) \<longleftrightarrow> r = row"
    if "r \<in> set (t_number_sequences d)" for r
    using distinct_map_inj [OF _ that in_d, of sr_id] m nz wf
    by (auto simp: pg_eq_def entity_match_def sequences_wf_def)
  have "snd (sql_UpdateSequenceValue t (sr_id row) (fst (nv row)) (Some s) ?n (to_micro now) 0 d)
      = acquire_row (local_off e) now xs row d"
    using eq acq by (simp add: sql_UpdateSequenceValue_def acquire_row_def update_rows_def)
  with w1 have w2: "wtx w' = Some (acquire_row (local_off e) now xs row d, False)" by simp
  have ln: "sr_last_number (acquired (local_off e) now xs row) = Some s" by (simp add: acq)
  show thesis by (rule that [OF row w2 [unfolded now_def] ln [unfolded now_def] tick])
qed

lemma acquire_body_keeps: "ctx_tx tc \<Longrightarrow> keeps_db (acquire_body tc t et st xs)"
  unfolding acquire_body_def Let_def case_prod_beta by (intro keeps_intros)

text \<open>The outcomes of an acquisition: nothing changed and no number returned, or the row found has
  moved to its next value and the number is returned, unless the reply was lost.\<close>

lemma acquire_cases:
  assumes run: "seq_AcquireNextNumber c t et st xs e w = (r, w')" and wf: "sequences_wf (wdb w)"
  obtains (unchanged) "wdb w' = wdb w" and "\<not> is_Ret r"
  | (moved) row now s where "select_one (entity_match t et st) (t_number_sequences (wdb w)) = Ret row"
      and "now = utc_of_ns (clock_at e (tick w + 2))"
      and "wdb w' = acquire_row (local_off e) now xs row (wdb w)"
      and "sr_last_number (acquired (local_off e) now xs row) = Some s"
      and "r = Ret s \<or> r = Fail (Opaque ''database'')"
proof -
  have k: "keeps_db (acquire_body (tx_ctx c) t et st xs)" by (rule acquire_body_keeps) simp
  show thesis
  proof (cases rule: run_tx_cases [OF run [unfolded seq_AcquireNextNumber_def] k])
    case 1
    then show thesis by (rule unchanged)
  next
    case (2 s w2 d)
    let ?w1 = "w\<lparr>tick := Suc (tick w), wtx := Some (wdb w, False)\<rparr>"
    have o: "ctx_tx (tx_ctx c)" "wtx ?w1 = Some (wdb w, False)" "tick ?w1 = Suc (tick w)" by simp_all
    obtain row where row: "select_one (entity_match t et st) (t_number_sequences (wdb w)) = Ret row"
      and w2: "wtx w2 = Some (acquire_row (local_off e) (utc_of_ns (clock_at e (Suc (tick ?w1)))) xs row (wdb w), False)"
      and s: "sr_last_number (acquired (local_off e) (utc_of_ns (clock_at e (Suc (tick ?w1)))) xs row) = Some s"
      by (rule acquire_body_Ret [OF 2(1) o(1,2) wf])
    have t: "Suc (tick ?w1) = tick w + 2" by simp
    have d: "wdb w' = acquire_row (local_off e) (utc_of_ns (clock_at e (tick w + 2))) xs row (wdb w)"
      using w2 2(2,3) unfolding t by simp
    have r: "r = Ret s \<or> r = Fail (Opaque ''database'')" using 2(4) by blast
    show thesis by (rule moved [OF row refl d s [unfolded t] r])
  qed
qed

section \<open>Runs of acquisitions\<close>

text \<open>Successive calls for one sequence, each with its own environment: clocks, refusals and lost
  replies are arbitrary.\<close>

fun acquire_runs :: "ctx \<Rightarrow> ID \<Rightarrow> string \<Rightarrow> string \<Rightarrow> (string \<times> string) list \<Rightarrow> env list \<Rightarrow> db world \<Rightarrow> string res list" where
  "acquire_runs c t et st xs [] w = []"
| "acquire_runs c t et st xs (e # es) w =
     (case seq_AcquireNextNumber c t et st xs e w of (r, w') \<Rightarrow> r # acquire_runs c t et st xs es w')"

text \<open>The texts of the numbers that were returned.\<close>

fun returned :: "'a res list \<Rightarrow> 'a list" where
  "returned [] = []"
| "returned (Ret x # rs) = x # returned rs"
| "returned (_ # rs) = returned rs"

lemma find_map_same: "(\<And>r. p (g r) = p r) \<Longrightarrow> find p (map g rs) = map_option g (find p rs)"
  by (induction rs) auto

lemma acquire_row_select:
  assumes "select_one (entity_match t et st) (t_number_sequences d) = Ret row"
  shows "select_one (entity_match t et st) (t_number_sequences (acquire_row lo now xs row d))
         = Ret (acquired lo now xs row)"
proof -
  let ?g = "\<lambda>r. if r = row then acquired lo now xs r else r"
  have "entity_match t et st (?g r) = entity_match t et st r" for r by (simp add: entity_match_def)
  then have "find (entity_match t et st) (map ?g (t_number_sequences d))
      = map_option ?g (find (entity_match t et st) (t_number_sequences d))"
    by (rule find_map_same)
  with assms show ?thesis by (simp add: acquire_row_def select_one_Ret_iff)
qed

lemma acquire_row_wf: "sequences_wf d \<Longrightarrow> sequences_wf (acquire_row lo now xs row d)"
proof -
  have "map sr_id (t_number_sequences (acquire_row lo now xs row d)) = map sr_id (t_number_sequences d)"
    by (simp add: acquire_row_def)
  moreover assume "sequences_wf d"
  ultimately show ?thesis unfolding sequences_wf_def by (metis set_map)
qed

text \<open>A row whose counter is not reset at any of the times \<open>T\<close>.\<close>

definition settled :: "(int \<Rightarrow> int) \<Rightarrow> gotime set \<Rightarrow> sequence_row \<Rightarrow> bool" where
  "settled lo T row \<longleftrightarrow> (\<forall>now \<in> T. \<not> ShouldReset (toDomainSequence lo row) now)"

text \<open>The periods of the reset policies.\<close>

definition same_period :: "ResetPolicy \<Rightarrow> gotime \<Rightarrow> gotime \<Rightarrow> bool" where
  "same_period p t u \<longleftrightarrow>
     (p = ResetYearly \<longrightarrow> Year t = Year u) \<and>
     (p = ResetMonthly \<longrightarrow> Year t = Year u \<and> Month t = Month u) \<and>
     (p = ResetDaily \<longrightarrow> Year t = Year u \<and> YearDay t = YearDay u)"

definition one_period :: "ResetPolicy \<Rightarrow> gotime set \<Rightarrow> bool" where
  "one_period p T \<longleftrightarrow> (\<forall>t \<in> T. \<forall>u \<in> T. off t = 0 \<and> same_period p t u)"

text \<open>A row as the program keeps it: positive start value, counter not negative, and a counter
  that has been used has a time of its last reset.\<close>

definition row_ok :: "sequence_row \<Rightarrow> bool" where
  "row_ok row \<longleftrightarrow> 0 < sint (sr_start_value row) \<and> 0 \<le> sint (sr_current_value row) \<and>
     (sr_current_value row = 0 \<longrightarrow> sr_last_reset_at row = None)"

lemma abs_day_micro: "off t = 0 \<Longrightarrow> abs_day (ts_local (\<lambda>_. 0) (to_micro t)) = abs_day t"
proof -
  assume "off t = 0"
  moreover have "ns t div 1000 * 1000 div (86400 * 10 ^ 9) = ns t div (86400 * 10 ^ 9)"
  proof -
    have "ns t div 1000 * 1000 div (86400 * 10 ^ 9) = ns t div 1000 * 1000 div 1000 div (86400 * 10 ^ 6)"
      by (subst zdiv_zmult2_eq [symmetric]) simp_all
    also have "\<dots> = ns t div 1000 div (86400 * 10 ^ 6)" by simp
    also have "\<dots> = ns t div (86400 * 10 ^ 9)" by (subst zdiv_zmult2_eq [symmetric]) simp_all
    finally show ?thesis .
  qed
  ultimately show ?thesis by (simp add: abs_day_def ts_local_def to_micro_def Microsecond_def Second_def)
qed

lemma same_day: "abs_day t = abs_day u \<Longrightarrow> Year t = Year u \<and> Month t = Month u \<and> YearDay t = YearDay u"
  by (simp add: Year_def Month_def YearDay_def)

lemma ShouldReset_iff:
  "ShouldReset s now \<longleftrightarrow> sq_ResetPolicy s \<noteq> ResetNever \<and> sq_CurrentValue s \<noteq> 0 \<and>
     (\<exists>l. sq_LastResetAt s = Some l \<and> \<not> same_period (sq_ResetPolicy s) now l)"
  by (auto simp: ShouldReset_def same_period_def reset_defs split: option.splits)

lemma same_period_micro:
  "off u = 0 \<Longrightarrow> same_period p t (ts_local (\<lambda>_. 0) (to_micro u)) = same_period p t u"
  using same_day [OF abs_day_micro [of u]] by (simp add: same_period_def)

lemma same_period_trans: "same_period p t u \<Longrightarrow> same_period p u v \<Longrightarrow> same_period p t v"
  by (simp add: same_period_def)

lemma sr_last_reset_acquired [simp]:
  "sr_last_reset_at (acquired lo now xs r) =
     (if snd (NextValue (toDomainSequence lo r) now) \<or> sr_last_reset_at r = None then Some (to_micro now)
      else sr_last_reset_at r)"
  by (simp add: acquired_def Let_def case_prod_beta)

lemma NextValue_snd: "snd (NextValue s now) = ShouldReset s now"
  by (simp add: NextValue_def Let_def)

text \<open>After an acquisition within a period no further reset happens within it.\<close>

lemma acquired_settled:
  assumes T: "one_period (sr_reset_policy row) T" and now: "now \<in> T" and ok: "row_ok row"
  shows "settled (\<lambda>_. 0) T (acquired (\<lambda>_. 0) now xs row)"
  unfolding settled_def
proof (intro ballI notI)
  fix u
  assume u: "u \<in> T" and r: "ShouldReset (toDomainSequence (\<lambda>_. 0) (acquired (\<lambda>_. 0) now xs row)) u"
  let ?p = "sr_reset_policy row" and ?s = "toDomainSequence (\<lambda>_. 0) row"
  from r obtain l where np: "?p \<noteq> ResetNever"
    and l: "sr_last_reset_at (acquired (\<lambda>_. 0) now xs row) = Some l" and d: "\<not> same_period ?p u (ts_local (\<lambda>_. 0) l)"
    by (auto simp: ShouldReset_iff simp del: sr_last_reset_acquired)
  have un: "same_period ?p u now" "off now = 0" using T u now by (auto simp: one_period_def)
  have "l \<noteq> to_micro now" using d un by (auto simp: same_period_micro)
  with l have "\<not> ShouldReset ?s now" and lr: "sr_last_reset_at row = Some l"
    by (auto simp: NextValue_snd split: if_splits)
  with np ok have "same_period ?p now (ts_local (\<lambda>_. 0) l)"
    by (auto simp: ShouldReset_iff row_ok_def)
  with un d same_period_trans show False by blast
qed

lemma settled_never: "sr_reset_policy row = ResetNever \<Longrightarrow> settled lo T row"
  by (simp add: settled_def ShouldReset_iff)

lemma sint_scast_32_64: "sint (scast (x :: int32) :: int64) = sint x"
proof -
  have "- (2 ^ 31) \<le> sint x" "sint x < 2 ^ 31" using sint_ge [of x] sint_lt [of x] by simp_all
  then have "- (2 ^ 63) \<le> sint x" "sint x < 2 ^ 63" by simp_all
  then show ?thesis unfolding scast_eq by (rule sint_word_of_int64)
qed

text \<open>One acquisition: the counter stays in range and positive, and grows when it is not reset.\<close>

lemma acquired_step:
  fixes row lo now xs
  assumes ok: "row_ok row"
    and b: "max (sint (sr_current_value row)) (sint (sr_start_value row)) + 2 ^ 31 < 2 ^ 63"
  defines "v \<equiv> sr_current_value (acquired lo now xs row)"
  shows "0 < sint v" and "\<not> ShouldReset (toDomainSequence lo row) now \<Longrightarrow> sint (sr_current_value row) < sint v"
    and "max (sint v) (sint (sr_start_value row))
         \<le> max (sint (sr_current_value row)) (sint (sr_start_value row)) + 2 ^ 31"
    and "row_ok (acquired lo now xs row)"
proof -
  let ?s = "toDomainSequence lo row"
  have "0 < sint v \<and> (\<not> ShouldReset ?s now \<longrightarrow> sint (sr_current_value row) < sint v) \<and>
    sint v \<le> max (sint (sr_current_value row)) (sint (sr_start_value row)) + 2 ^ 31"
  proof (cases rule: NextValue_cases [of ?s now])
    case reset
    then show ?thesis using ok by (simp add: v_def row_ok_def)
  next
    case first
    then show ?thesis using ok by (simp add: v_def row_ok_def word_sless_alt)
  next
    case (inc i)
    have i: "1 \<le> sint i" "sint i < 2 ^ 31"
      using inc(3,4) sint_lt [of "sr_increment_by row"] by (simp_all add: sint_scast_32_64 split: if_splits)
    have "sint (sr_current_value row + i) = sint (sr_current_value row) + sint i"
      using i b ok by (intro sint_add64) (simp_all add: row_ok_def)
    with inc i ok show ?thesis by (simp add: v_def row_ok_def)
  qed
  then show "0 < sint v" "\<not> ShouldReset ?s now \<Longrightarrow> sint (sr_current_value row) < sint v"
    "max (sint v) (sint (sr_start_value row))
      \<le> max (sint (sr_current_value row)) (sint (sr_start_value row)) + 2 ^ 31"
    and "row_ok (acquired lo now xs row)"
    using ok by (auto simp: row_ok_def v_def simp del: acquired_simps(13))
qed

text \<open>The text of a counter under a fixed expansion \<open>E\<close> of the template.\<close>

definition number_text :: "string \<Rightarrow> int64 \<Rightarrow> int64 \<Rightarrow> string" where
  "number_text E pad v = seq_subst (\<lambda>ds. sprintf_width (seq_padding pad ds) v) E"

lemma number_text_inj:
  assumes "has_seq E" and "0 \<le> sint v" and "sint v < sint v'"
  shows "number_text E pad v \<noteq> number_text E pad v'"
proof
  assume "number_text E pad v = number_text E pad v'"
  moreover have "length (sprintf_width (seq_padding pad ds) v) \<le> length (sprintf_width (seq_padding pad ds) v')" for ds
    using assms by (intro sprintf_width_mono) auto
  ultimately obtain ds where "sprintf_width (seq_padding pad ds) v = sprintf_width (seq_padding pad ds) v'"
    using seq_subst_agree [of "\<lambda>ds. sprintf_width (seq_padding pad ds) v"
      "\<lambda>ds. sprintf_width (seq_padding pad ds) v'" E] assms(1) by (auto simp: number_text_def)
  then show False using sprintf_width_inj [of v v'] assms by force
qed

text \<open>The environments of a run: their clocks stay within \<open>T\<close>, where the template expands to \<open>E\<close>,
  and either the counter is never reset or \<open>T\<close> is one period and the zone of the server is UTC.\<close>

definition run_ok :: "gotime set \<Rightarrow> string \<Rightarrow> (string \<times> string) list \<Rightarrow> sequence_row \<Rightarrow> env list \<Rightarrow> bool" where
  "run_ok T E xs row es \<longleftrightarrow> has_seq E \<and>
     (\<forall>e \<in> set es. \<forall>n. utc_of_ns (clock_at e n) \<in> T \<and>
        expand_template (sr_template row) (sr_prefix row) (sr_suffix row) (utc_of_ns (clock_at e n)) xs = E) \<and>
     (sr_reset_policy row = ResetNever \<or>
      one_period (sr_reset_policy row) T \<and> (\<forall>e \<in> set es. local_off e = (\<lambda>_. 0)))"

lemma run_ok_Cons: "run_ok T E xs row (e # es) \<Longrightarrow> run_ok T E xs row es"
  by (auto simp: run_ok_def)

lemma run_ok_acquired: "run_ok T E xs (acquired lo now ys row) es \<longleftrightarrow> run_ok T E xs row es"
  by (simp add: run_ok_def)

lemma run_ok_settles:
  assumes "run_ok T E xs row (e # es)" and "row_ok row" and "now = utc_of_ns (clock_at e n)" and "e' \<in> set es"
  shows "settled (local_off e') T (acquired (local_off e) now xs row)"
  using assms settled_never acquired_settled [of row T now xs] by (fastforce simp: run_ok_def)

lemma returned_not_Ret: "\<not> is_Ret r \<Longrightarrow> returned (r # rs) = returned rs"
  by (cases r) auto

lemma acquired_text:
  assumes "run_ok T E xs row (e # es)" and "now = utc_of_ns (clock_at e n)"
    and "sr_last_number (acquired (local_off e) now xs row) = Some s"
  shows "s = number_text E (scast (sr_padding row)) (sr_current_value (acquired (local_off e) now xs row))"
proof -
  have "expand_template (sr_template row) (sr_prefix row) (sr_suffix row) now xs = E"
    using assms(1,2) by (simp add: run_ok_def)
  with assms(3) show ?thesis
    by (simp add: acquired_def Let_def case_prod_beta FormatNumber_def number_text_def)
qed

text \<open>The state before a call: the row, the room left below the bound of \<open>int64\<close>.\<close>

definition at_row :: "ID \<Rightarrow> string \<Rightarrow> string \<Rightarrow> nat \<Rightarrow> db \<Rightarrow> sequence_row \<Rightarrow> bool" where
  "at_row t et st n d row \<longleftrightarrow> sequences_wf d \<and> row_ok row \<and>
     select_one (entity_match t et st) (t_number_sequences d) = Ret row \<and>
     max (sint (sr_current_value row)) (sint (sr_start_value row)) + int n * 2 ^ 31 < 2 ^ 63"

lemma at_row_bound:
  assumes "at_row t et st (Suc n) d row"
  shows "max (sint (sr_current_value row)) (sint (sr_start_value row)) + 2 ^ 31 < 2 ^ 63"
proof -
  have "max (sint (sr_current_value row)) (sint (sr_start_value row)) + (2 ^ 31 + int n * 2 ^ 31) < 2 ^ 63"
    using assms by (simp add: at_row_def algebra_simps)
  moreover have "0 \<le> int n * 2 ^ 31" by simp
  ultimately show ?thesis by linarith
qed

lemma at_row_acquired:
  assumes "at_row t et st (Suc n) d row"
  shows "at_row t et st n (acquire_row lo now xs row d) (acquired lo now xs row)"
proof -
  have b: "max (sint (sr_current_value row)) (sint (sr_start_value row)) + (2 ^ 31 + int n * 2 ^ 31) < 2 ^ 63"
    using assms by (simp add: at_row_def algebra_simps)
  note b1 = at_row_bound [OF assms]
  have ok: "row_ok row" using assms by (simp add: at_row_def)
  have "max (sint (sr_current_value (acquired lo now xs row))) (sint (sr_start_value row)) + int n * 2 ^ 31 < 2 ^ 63"
    using acquired_step(3) [OF ok b1, of lo now xs] b by linarith
  then show ?thesis
    using assms acquired_step(4) [OF ok b1, of lo now xs]
    by (simp add: at_row_def acquire_row_wf acquire_row_select del: acquired_simps(13))
qed

lemma at_row_less: "at_row t et st (Suc n) d row \<Longrightarrow> at_row t et st n d row"
  by (simp add: at_row_def algebra_simps)

lemma runs_settled:
  assumes "run_ok T E xs row es" and "at_row t et st (length es) (wdb w) row"
    and "\<And>e. e \<in> set es \<Longrightarrow> settled (local_off e) T row"
  shows "distinct (returned (acquire_runs c t et st xs es w)) \<and>
    (\<forall>s \<in> set (returned (acquire_runs c t et st xs es w)). \<exists>v.
       sint (sr_current_value row) < sint v \<and> s = number_text E (scast (sr_padding row)) v)"
  using assms
proof (induction es arbitrary: w row)
  case (Cons e es)
  note ro = Cons.prems(1) and at = Cons.prems(2) [simplified] and nr = Cons.prems(3)
  obtain r w' where rw: "seq_AcquireNextNumber c t et st xs e w = (r, w')" by fastforce
  have wf: "sequences_wf (wdb w)" and ok: "row_ok row"
    and sel: "select_one (entity_match t et st) (t_number_sequences (wdb w)) = Ret row"
    using at by (auto simp: at_row_def)
  show ?case
  proof (cases rule: acquire_cases [OF rw wf])
    case 1
    have "distinct (returned (acquire_runs c t et st xs es w')) \<and>
      (\<forall>s \<in> set (returned (acquire_runs c t et st xs es w')). \<exists>v.
         sint (sr_current_value row) < sint v \<and> s = number_text E (scast (sr_padding row)) v)"
      using 1 at run_ok_Cons [OF ro] nr by (intro Cons.IH) (auto intro: at_row_less)
    with 1(2) rw show ?thesis by (simp add: returned_not_Ret)
  next
    case (2 row1 now s)
    let ?row = "acquired (local_off e) now xs row"
    have row1: "row1 = row" using 2(1) sel by simp
    have now: "now = utc_of_ns (clock_at e (tick w + 2))" by (rule 2(2))
    have ih: "distinct (returned (acquire_runs c t et st xs es w')) \<and>
      (\<forall>s \<in> set (returned (acquire_runs c t et st xs es w')). \<exists>v.
         sint (sr_current_value ?row) < sint v \<and> s = number_text E (scast (sr_padding ?row)) v)"
    proof (rule Cons.IH)
      show "run_ok T E xs ?row es" using run_ok_Cons [OF ro] by (simp add: run_ok_acquired)
      show "at_row t et st (length es) (wdb w') ?row"
        using at_row_acquired [OF at] 2(3) row1 by simp
      show "\<And>e'. e' \<in> set es \<Longrightarrow> settled (local_off e') T ?row"
        by (rule run_ok_settles [OF ro ok now])
    qed
    have text1: "s = number_text E (scast (sr_padding row)) (sr_current_value ?row)"
      using acquired_text [OF ro now] 2(4) row1 by simp
    have "now \<in> T" using ro now by (simp add: run_ok_def)
    with nr have "\<not> ShouldReset (toDomainSequence (local_off e) row) now" by (simp add: settled_def)
    then have gr: "sint (sr_current_value row) < sint (sr_current_value ?row)" "0 < sint (sr_current_value ?row)"
      using acquired_step(1,2) [OF ok at_row_bound [OF at]] by (simp_all del: acquired_simps(13))
    have "has_seq E" using ro by (simp add: run_ok_def)
    then have new: "s \<notin> set (returned (acquire_runs c t et st xs es w'))"
      using ih text1 gr(2) number_text_inj [of E "sr_current_value ?row"] by (auto simp del: acquired_simps(13))
    have up: "\<exists>v. sint (sr_current_value row) < sint v \<and> u = number_text E (scast (sr_padding row)) v"
      if u: "u \<in> set (returned (acquire_runs c t et st xs es w'))" for u
    proof -
      obtain v where v: "sint (sr_current_value ?row) < sint v" "u = number_text E (scast (sr_padding ?row)) v"
        using bspec [OF conjunct2 [OF ih] u] by (elim exE conjE)
      have "u = number_text E (scast (sr_padding row)) v" using v(2) by simp
      with less_trans [OF gr(1) v(1)] show ?thesis by blast
    qed
    have own: "\<exists>v. sint (sr_current_value row) < sint v \<and> s = number_text E (scast (sr_padding row)) v"
      by (rule exI, rule conjI [OF gr(1) text1])
    show ?thesis using 2(5)
    proof
      assume "r = Ret s"
      then have "returned (acquire_runs c t et st xs (e # es) w) = s # returned (acquire_runs c t et st xs es w')"
        using rw by simp
      then show ?thesis using conjunct1 [OF ih] new up own by (simp only: list.set distinct.simps) blast
    next
      assume "r = Fail (Opaque ''database'')"
      then have "returned (acquire_runs c t et st xs (e # es) w) = returned (acquire_runs c t et st xs es w')"
        using rw by simp
      then show ?thesis using conjunct1 [OF ih] up by (simp only:) blast
    qed
  qed
qed simp

text \<open>Without the assumption on the first call: it may reset the counter, the later ones do not.\<close>

lemma runs_distinct:
  assumes "run_ok T E xs row es" and "at_row t et st (length es) (wdb w) row"
  shows "distinct (returned (acquire_runs c t et st xs es w))"
  using assms
proof (induction es arbitrary: w)
  case (Cons e es)
  note ro = Cons.prems(1) and at = Cons.prems(2) [simplified]
  obtain r w' where rw: "seq_AcquireNextNumber c t et st xs e w = (r, w')" by fastforce
  have wf: "sequences_wf (wdb w)" and ok: "row_ok row"
    and sel: "select_one (entity_match t et st) (t_number_sequences (wdb w)) = Ret row"
    using at by (auto simp: at_row_def)
  show ?case
  proof (cases rule: acquire_cases [OF rw wf])
    case 1
    have "distinct (returned (acquire_runs c t et st xs es w'))"
      using 1 at run_ok_Cons [OF ro] by (intro Cons.IH) (auto intro: at_row_less)
    with 1(2) rw show ?thesis by (simp add: returned_not_Ret)
  next
    case (2 row1 now s)
    let ?row = "acquired (local_off e) now xs row"
    have row1: "row1 = row" using 2(1) sel by simp
    have now: "now = utc_of_ns (clock_at e (tick w + 2))" by (rule 2(2))
    have at': "at_row t et st (length es) (wdb w') ?row"
      using at_row_acquired [OF at] 2(3) row1 by simp
    have rest: "distinct (returned (acquire_runs c t et st xs es w')) \<and>
      (\<forall>s \<in> set (returned (acquire_runs c t et st xs es w')). \<exists>v.
         sint (sr_current_value ?row) < sint v \<and> s = number_text E (scast (sr_padding ?row)) v)"
      using run_ok_Cons [OF ro] at' run_ok_settles [OF ro ok now]
      by (intro runs_settled) (simp_all add: run_ok_acquired)
    have text1: "s = number_text E (scast (sr_padding row)) (sr_current_value ?row)"
      using acquired_text [OF ro now] 2(4) row1 by simp
    have "0 < sint (sr_current_value ?row)" by (rule acquired_step(1) [OF ok at_row_bound [OF at]])
    moreover have "has_seq E" using ro by (simp add: run_ok_def)
    ultimately have "s \<notin> set (returned (acquire_runs c t et st xs es w'))"
      using rest text1 number_text_inj [of E "sr_current_value ?row"] by (auto simp del: acquired_simps(13))
    then show ?thesis using 2(5) rw rest by auto
  qed
qed simp

section \<open>Preview\<close>

lemma NextValue_preview:
  assumes "\<And>n. fault_at e n = NoFault" and "\<And>n. clock_at e n = T"
  shows "fst (seq_AcquireNextNumber c t et st xs e w) =
    (case select_one (entity_match t et st) (t_number_sequences (wdb w)) of
       Ret row \<Rightarrow> Ret (FormatNumber (sr_template row) (sr_prefix row) (sr_suffix row)
         (fst (NextValue (toDomainSequence (local_off e) row) (utc_of_ns T))) (scast (sr_padding row)) (utc_of_ns T) xs)
     | _ \<Rightarrow> Fail ErrNotFound)"
proof (cases "find (entity_match t et st) (t_number_sequences (wdb w))")
  case None
  then show ?thesis
    by (simp add: seq_AcquireNextNumber_def run_tx_def acquire_body_def Let_def assms bindP_def
        norows_notfound_def query_def stmt_def select_one_def)
next
  case (Some row)
  then show ?thesis
    by (simp add: seq_AcquireNextNumber_def run_tx_def acquire_body_def Let_def assms bindP_def
        norows_notfound_def query_def stmt_def select_one_def case_prod_beta ask_env_def Now_def ret_def
        sql_UpdateSequenceValue_def)
qed

section \<open>Examples\<close>

definition example_row :: sequence_row where
  "example_row = \<lparr>sr_id = 9, sr_tenant_id = 5, sr_code = ''inv'', sr_name = ''Invoice'', sr_entity_type = ''document'',
     sr_sub_type = ''invoice'', sr_prefix = ''INV'', sr_suffix = [], sr_template = [], sr_padding = 4,
     sr_start_value = 1, sr_increment_by = 1, sr_current_value = 41, sr_reset_policy = ''monthly'',
     sr_last_number = None, sr_last_reset_at = Some 1769882400000000000, sr_is_active = True,
     sr_created_at = 0, sr_updated_at = 0\<rparr>"

definition example_db :: db where
  "example_db = empty_db\<lparr>t_number_sequences := [example_row]\<rparr>"

text \<open>A server at 20:00 UTC on the last of January 2026, in the given zone.\<close>

definition example_env :: "int \<Rightarrow> env" where
  "example_env zone = \<lparr>fault_at = (\<lambda>_. NoFault), newid_at = (\<lambda>n. Some (of_nat (Suc n))),
     clock_at = (\<lambda>_. 1769889600000000000), dbnow_at = (\<lambda>_. 1769889600000000000), local_off = (\<lambda>_. zone),
     cvt_int64 = (\<lambda>_. 0)\<rparr>"

definition example_world :: "db world" where
  "example_world = \<lparr>wdb = example_db, wtx = None, tick = 0\<rparr>"

section \<open>Properties\<close>



text \<open>\<open>PreviewNextNumber\<close> shows what \<open>AcquireNextNumber\<close> would return: on the same state, with the
  same clock and a server that answers, both give the same text or the same error.\<close>

theorem preview_is_acquire:
  assumes "\<And>n. fault_at e n = NoFault" and "\<And>n. clock_at e n = T"
  shows "fst (PreviewNextNumber c cmd e w) = fst (AcquireNextNumber c cmd e w)"
proof (cases "an_TenantID cmd = NilID")
  case True
  then show ?thesis
    by (simp add: PreviewNextNumber_def AcquireNextNumber_def guard_def)
next
  case False
  then show ?thesis
    by (simp add: PreviewNextNumber_def AcquireNextNumber_def guard_def NextValue_preview [OF assms]
        seq_GetByEntity_def seq_get_def bindP_def norows_notfound_def query_def stmt_def select_one_def Let_def
        assms ask_env_def Now_def ret_def case_prod_beta split: option.split)
qed

theorem preview_is_acquire_witness:
  "fst (PreviewNextNumber Background \<lparr>an_TenantID = 5, an_EntityType = ''Document'', an_SubType = ''invoice'',
      an_ExtraTokens = []\<rparr> (example_env 0) example_world)
   = fst (AcquireNextNumber Background \<lparr>an_TenantID = 5, an_EntityType = ''Document'', an_SubType = ''invoice'',
      an_ExtraTokens = []\<rparr> (example_env 0) example_world)"
  by (rule preview_is_acquire [where T = 1769889600000000000]) (simp_all add: example_env_def)

text \<open>When the zone of the server is not UTC the policy compares the month of the current time in
  UTC with the month of the last reset in the local zone. At 20:00 UTC on the last of January a
  server seven hours ahead sees the reset it has just made as one of February: every call
  resets the counter again and the same number is handed out twice.\<close>

theorem sequence_duplicate_zone:
  "acquire_runs Background 5 ''document'' ''invoice'' [] [example_env 25200, example_env 25200] example_world
   = [Ret ''INV/2026/01/0001'', Ret ''INV/2026/01/0001'']"
  by code_simp

end
