(* ===== verification/DocumentUsecase.thy ===== *)
theory DocumentUsecase
  imports DocumentRepo SequenceUsecase
begin

text \<open>
  \<open>internal/core/usecase/document/document_usecase.go\<close>: creation of documents with their lines,
  reads, listing and the workflow transition, each write together with its outbox event and
  its audit record in one transaction.
\<close>

section \<open>Commands\<close>

record CreateDocumentLineInput =
  li_ProductID :: "ID option"
  li_Description :: string
  li_Quantity :: float64
  li_UnitID :: ID
  li_UnitPrice :: Money
  li_Metadata :: gomap

record CreateDocumentCommand =
  cd_OrganizationID :: ID
  cd_DocumentType :: string
  cd_DocumentNumber :: string
  cd_DocumentDate :: "gotime option"
  cd_PartyID :: "ID option"
  cd_Currency :: string
  cd_Notes :: string
  cd_Metadata :: gomap
  cd_Lines :: "CreateDocumentLineInput list"
  cd_CreatedBy :: "ID option"

record TransitionDocumentCommand =
  td_DocumentID :: ID
  td_TargetStatus :: Status
  td_Reason :: string
  td_ActorID :: "ID option"

text \<open>The collaborators that may be nil.\<close>

record doc_usecase =
  du_audit :: bool
  du_outbox :: bool
  du_seq :: bool

section \<open>CreateDocument\<close>

text \<open>The number: the given one, or the next of the sequence, or a default with the first group of
  the identifier. An error of the sequence is ignored.\<close>

definition default_number :: "ID \<Rightarrow> CreateDocumentCommand \<Rightarrow> string dbproc" where
  "default_number docID cmd =
     bindP Now (\<lambda>t. bindP (ask_env local_off) (\<lambda>lo.
     ret (ToUpper (cd_DocumentType cmd) @ ''-'' @ Format_20060102 (ts_local lo (ns t)) @ ''-'' @
          take 8 (ID_String docID))))"

definition document_number :: "doc_usecase \<Rightarrow> ctx \<Rightarrow> ID \<Rightarrow> ID \<Rightarrow> CreateDocumentCommand \<Rightarrow> string dbproc" where
  "document_number u c tenantID docID cmd =
     (let docNum = TrimSpace (cd_DocumentNumber cmd)
      in if docNum \<noteq> [] then ret docNum
         else bindP (if du_seq u
                     then tryP (AcquireNextNumber c \<lparr>an_TenantID = tenantID, an_EntityType = ''document'',
                            an_SubType = cd_DocumentType cmd, an_ExtraTokens = []\<rparr>)
                     else ret (Ret [])) (\<lambda>generated.
              case generated of
                Ret s \<Rightarrow> if s \<noteq> [] then ret s else default_number docID cmd
              | _ \<Rightarrow> default_number docID cmd))"

definition document_currency :: "CreateDocumentCommand \<Rightarrow> string" where
  "document_currency cmd =
     (let cur = TrimSpace (cd_Currency cmd)
      in if cur \<noteq> [] then cur
         else case cd_Lines cmd of
             l # _ \<Rightarrow> if currency (li_UnitPrice l) \<noteq> [] then currency (li_UnitPrice l) else ''IDR''
           | [] \<Rightarrow> ''IDR'')"

definition line_price :: "string \<Rightarrow> CreateDocumentLineInput \<Rightarrow> Money res" where
  "line_price cur l =
     (if currency (li_UnitPrice l) = [] then MustNewMoney (amount (li_UnitPrice l)) cur
      else if currency (li_UnitPrice l) \<noteq> cur
      then Fail (Wrapped ''line currency does not match document currency'' ErrInvalidInput)
      else Ret (li_UnitPrice l))"

text \<open>The loop over the lines: index, running total, lines built.\<close>

fun build_lines :: "ID \<Rightarrow> ID \<Rightarrow> string \<Rightarrow> gotime \<Rightarrow> nat \<Rightarrow> Money \<Rightarrow> CreateDocumentLineInput list \<Rightarrow>
    (Money \<times> DocumentLine list) dbproc" where
  "build_lines tenantID docID cur now i tot [] = ret (tot, [])"
| "build_lines tenantID docID cur now i tot (l # ls) =
     bindP (guard (\<not> f_le (li_Quantity l) (Fin 0))
       (Wrapped ''line quantity must be greater than zero'' ErrInvalidInput)) (\<lambda>_.
     bindP (guard (li_UnitID l \<noteq> NilID) (Wrapped ''line unit_id is required'' ErrInvalidInput)) (\<lambda>_.
     bindP (lift_res (line_price cur l)) (\<lambda>unitPrice.
     bindP (ask_env cvt_int64) (\<lambda>cvt.
     let subtotal = Money_MultiplyFloat cvt unitPrice (li_Quantity l)
     in bindP (wrap_err ''line'' (lift_res (Money_Add tot subtotal))) (\<lambda>newTotal.
     bindP NewID (\<lambda>lineID.
     let line = \<lparr>dl_ID = lineID, dl_TenantID = tenantID, dl_DocumentID = docID, dl_LineNumber = of_nat (i + 1),
           dl_ProductID = li_ProductID l, dl_ProductName = [], dl_Description = TrimSpace (li_Description l),
           dl_Quantity = li_Quantity l, dl_UnitID = li_UnitID l, dl_UnitCode = [], dl_UnitPrice = unitPrice,
           dl_Subtotal = subtotal, dl_Metadata = or_empty (li_Metadata l), dl_CreatedAt = now,
           dl_UpdatedAt = now\<rparr>
     in bindP (build_lines tenantID docID cur now (i + 1) newTotal ls) (\<lambda>(tot', lines).
     ret (tot', line # lines))))))))"

definition created_event :: "ID \<Rightarrow> gotime \<Rightarrow> Document \<Rightarrow> OutboxEvent" where
  "created_event outboxID now doc =
     \<lparr>oe_ID = outboxID, oe_TenantID = doc_TenantID doc, oe_EventType = ''document.created'',
      oe_AggregateType = ''document'', oe_AggregateID = doc_ID doc,
      oe_Payload = Some [(''document_id'', JStr (ID_String (doc_ID doc))),
        (''document_number'', JStr (doc_DocumentNumber doc)), (''document_type'', JStr (doc_DocumentType doc)),
        (''status'', JStr (doc_Status doc)), (''total_amount'', JInt (sint (amount (doc_TotalAmount doc)))),
        (''currency'', JStr (currency (doc_TotalAmount doc)))],
      oe_Status = OutboxStatusPending, oe_RetryCount = 0, oe_ErrorMessage = [], oe_CreatedAt = now,
      oe_PublishedAt = None\<rparr>"

definition created_audit :: "ID \<Rightarrow> gotime \<Rightarrow> ID option \<Rightarrow> Document \<Rightarrow> AuditLog" where
  "created_audit auditID now createdBy doc =
     \<lparr>al_ID = auditID, al_TenantID = doc_TenantID doc, al_ActorID = createdBy, al_ActorType = ActorTypeUser_str,
      al_Action = ActionCreate, al_EntityType = ''document'', al_EntityID = doc_ID doc,
      al_Changes = Some [(''document_number'', JStr (doc_DocumentNumber doc)),
        (''document_type'', JStr (doc_DocumentType doc)), (''status'', JStr (doc_Status doc)),
        (''total_amount'', JInt (sint (amount (doc_TotalAmount doc)))),
        (''currency'', JStr (currency (doc_TotalAmount doc)))],
      al_Metadata = None, al_CreatedAt = now\<rparr>"

text \<open>The body of the transaction.\<close>

definition create_body :: "doc_usecase \<Rightarrow> gotime \<Rightarrow> ID option \<Rightarrow> Document \<Rightarrow> ctx \<Rightarrow> Document dbproc" where
  "create_body u now createdBy doc tc =
     bindP (repo_CreateDocument tc doc) (\<lambda>doc1.
     bindP (repo_CreateLines tc (doc_Lines doc)) (\<lambda>lines.
     bindP (if du_outbox u
            then bindP NewID (\<lambda>outboxID. bindP (wrap_err ''outbox write'' (outbox_Create tc
              (created_event outboxID now doc))) (\<lambda>_. ret ()))
            else ret ()) (\<lambda>_.
     bindP (if du_audit u
            then bindP NewID (\<lambda>auditID. bindP (wrap_err ''audit write'' (audit_Create tc
              (created_audit auditID now createdBy doc))) (\<lambda>_. ret ()))
            else ret ()) (\<lambda>_.
     ret (doc1\<lparr>doc_Lines := lines\<rparr>)))))"

text \<open>Everything before the transaction: checks, number, lines and total. The result is the time and
  the document to store.\<close>

definition prepare_document :: "doc_usecase \<Rightarrow> ctx \<Rightarrow> CreateDocumentCommand \<Rightarrow> (gotime \<times> Document) dbproc" where
  "prepare_document u c cmd =
     bindP (lift_res (RequireTenantID c)) (\<lambda>tenantID.
     bindP (guard (cd_OrganizationID cmd \<noteq> NilID)
       (Wrapped ''organization_id is required'' ErrInvalidInput)) (\<lambda>_.
     bindP (guard (cd_DocumentType cmd \<noteq> []) (Wrapped ''document_type is required'' ErrInvalidInput)) (\<lambda>_.
     bindP NewID (\<lambda>docID.
     bindP (document_number u c tenantID docID cmd) (\<lambda>docNum.
     bindP (must_not_exist ''document number already exists''
       (repo_GetDocumentByNumber c tenantID (cd_DocumentType cmd) docNum)) (\<lambda>_.
     bindP Now (\<lambda>now.
     let docDate = (case cd_DocumentDate cmd of None \<Rightarrow> now | Some t \<Rightarrow> if IsZero_time t then now else UTC t);
         cur = document_currency cmd
     in bindP (lift_res (ZeroMoney cur)) (\<lambda>zero.
     bindP (build_lines tenantID docID cur now 0 zero (cd_Lines cmd)) (\<lambda>(tot, lines).
     ret (now,
       \<lparr>doc_ID = docID, doc_TenantID = tenantID, doc_OrganizationID = cd_OrganizationID cmd,
        doc_OrganizationName = [], doc_DocumentType = cd_DocumentType cmd, doc_DocumentNumber = docNum,
        doc_DocumentDate = docDate, doc_PartyID = cd_PartyID cmd, doc_PartyName = [],
        doc_Status = StatusDraft, doc_TotalAmount = tot, doc_Notes = TrimSpace (cd_Notes cmd),
        doc_Metadata = or_empty (cd_Metadata cmd), doc_CreatedBy = cd_CreatedBy cmd, doc_Lines = lines,
        doc_Transitions = [], doc_CreatedAt = now, doc_UpdatedAt = now\<rparr>))))))))))"

definition CreateDocument :: "doc_usecase \<Rightarrow> ctx \<Rightarrow> CreateDocumentCommand \<Rightarrow> Document dbproc" where
  "CreateDocument u c cmd =
     bindP (prepare_document u c cmd) (\<lambda>(now, doc). WithTx c (create_body u now (cd_CreatedBy cmd) doc))"

section \<open>Reads\<close>

definition GetDocumentByID :: "ctx \<Rightarrow> ID \<Rightarrow> Document dbproc" where
  "GetDocumentByID c i =
     bindP (lift_res (RequireTenantID c)) (\<lambda>tenantID. repo_GetDocumentByID c tenantID i)"

definition GetDocumentByNumber :: "ctx \<Rightarrow> string \<Rightarrow> string \<Rightarrow> Document dbproc" where
  "GetDocumentByNumber c docType number =
     bindP (lift_res (RequireTenantID c)) (\<lambda>tenantID.
     repo_GetDocumentByNumber c tenantID docType (TrimSpace number))"

definition ListDocuments ::
    "ctx \<Rightarrow> int32 \<Rightarrow> int32 \<Rightarrow> ID option \<Rightarrow> string option \<Rightarrow> Status option \<Rightarrow> Document list_result dbproc" where
  "ListDocuments c page0 pageSize0 orgID docType status =
     bindP (lift_res (RequireTenantID c)) (\<lambda>tenantID.
     case page_params page0 pageSize0 of (page, pageSize, offset) \<Rightarrow>
     bindP (repo_ListDocuments c tenantID
       \<lparr>df_OrganizationID = orgID, df_DocumentType = docType, df_Status = status, df_Limit = pageSize,
        df_Offset = offset\<rparr>) (\<lambda>(items, tot).
     ret \<lparr>lres_Items = items, lres_Total = tot, lres_Page = page, lres_PageSize = pageSize\<rparr>))"

section \<open>TransitionDocument\<close>

definition transitioned_event :: "ID \<Rightarrow> gotime \<Rightarrow> ID \<Rightarrow> Document \<Rightarrow> TransitionDocumentCommand \<Rightarrow> OutboxEvent" where
  "transitioned_event outboxID now tenantID doc cmd =
     \<lparr>oe_ID = outboxID, oe_TenantID = tenantID, oe_EventType = ''document.transitioned'',
      oe_AggregateType = ''document'', oe_AggregateID = td_DocumentID cmd,
      oe_Payload = Some [(''document_id'', JStr (ID_String (td_DocumentID cmd))),
        (''document_number'', JStr (doc_DocumentNumber doc)), (''document_type'', JStr (doc_DocumentType doc)),
        (''from_status'', JStr (doc_Status doc)), (''to_status'', JStr (td_TargetStatus cmd)),
        (''reason'', JStr (td_Reason cmd))],
      oe_Status = OutboxStatusPending, oe_RetryCount = 0, oe_ErrorMessage = [], oe_CreatedAt = now,
      oe_PublishedAt = None\<rparr>"

definition transitioned_audit :: "ID \<Rightarrow> gotime \<Rightarrow> ID \<Rightarrow> Document \<Rightarrow> TransitionDocumentCommand \<Rightarrow> AuditLog" where
  "transitioned_audit auditID now tenantID doc cmd =
     \<lparr>al_ID = auditID, al_TenantID = tenantID, al_ActorID = td_ActorID cmd, al_ActorType = ActorTypeUser_str,
      al_Action = ActionTransition, al_EntityType = ''document'', al_EntityID = td_DocumentID cmd,
      al_Changes = Some [(''from_status'', JStr (doc_Status doc)), (''to_status'', JStr (td_TargetStatus cmd)),
        (''reason'', JStr (td_Reason cmd))],
      al_Metadata = None, al_CreatedAt = now\<rparr>"

definition transition_body ::
    "doc_usecase \<Rightarrow> gotime \<Rightarrow> ID \<Rightarrow> ID \<Rightarrow> Document \<Rightarrow> TransitionDocumentCommand \<Rightarrow> ctx \<Rightarrow> unit dbproc" where
  "transition_body u now tenantID transID doc cmd tc =
     bindP (repo_UpdateDocumentStatus tc tenantID (td_DocumentID cmd) (td_TargetStatus cmd)) (\<lambda>_.
     bindP (repo_RecordTransition tc
       \<lparr>dt_ID = transID, dt_TenantID = tenantID, dt_DocumentID = td_DocumentID cmd,
        dt_FromStatus = doc_Status doc, dt_ToStatus = td_TargetStatus cmd,
        dt_Reason = TrimSpace (td_Reason cmd), dt_ActorID = td_ActorID cmd, dt_CreatedAt = now\<rparr>) (\<lambda>_.
     bindP (if du_outbox u
            then bindP NewID (\<lambda>outboxID. bindP (wrap_err ''outbox write'' (outbox_Create tc
              (transitioned_event outboxID now tenantID doc cmd))) (\<lambda>_. ret ()))
            else ret ()) (\<lambda>_.
     bindP (if du_audit u
            then bindP NewID (\<lambda>auditID. bindP (wrap_err ''audit write'' (audit_Create tc
              (transitioned_audit auditID now tenantID doc cmd))) (\<lambda>_. ret ()))
            else ret ()) (\<lambda>_.
     ret ()))))"

definition TransitionDocument :: "doc_usecase \<Rightarrow> ctx \<Rightarrow> TransitionDocumentCommand \<Rightarrow> Document dbproc" where
  "TransitionDocument u c cmd =
     bindP (lift_res (RequireTenantID c)) (\<lambda>tenantID.
     bindP (repo_GetDocumentByID c tenantID (td_DocumentID cmd)) (\<lambda>doc.
     bindP (lift_res (ValidateTransition (doc_Status doc) (td_TargetStatus cmd))) (\<lambda>_.
     bindP NewID (\<lambda>transID.
     bindP Now (\<lambda>now.
     bindP (WithTx c (transition_body u now tenantID transID doc cmd)) (\<lambda>_.
     repo_GetDocumentByID c tenantID (td_DocumentID cmd)))))))"

section \<open>Effect of the statements\<close>

interpretation document_table: keyed_table dr_id document_clash
  by unfold_locales (simp add: document_clash_def)

interpretation line_table: keyed_table lr_id line_clash
  by unfold_locales (simp add: line_clash_def)

interpretation transition_table: keyed_table tr_id transition_clash
  by unfold_locales (simp add: transition_clash_def)

lemma sql_CreateDocument_Ret_iff:
  "sql_CreateDocument r t d = (Ret x, d') \<longleftrightarrow>
     dr_id r \<noteq> NilID \<and> dr_tenant_id r \<noteq> NilID \<and> dr_organization_id r \<noteq> NilID \<and>
     \<not> list_ex (document_clash r) (t_documents d) \<and> x = r \<and> d' = d\<lparr>t_documents := t_documents d @ [r]\<rparr>"
  by (auto simp: sql_CreateDocument_def insert_row_def split: prod.splits if_splits)

lemma sql_CreateDocumentLine_Ret_iff:
  "sql_CreateDocumentLine r t d = (Ret x, d') \<longleftrightarrow>
     r = Some x \<and> lr_id x \<noteq> NilID \<and> lr_tenant_id x \<noteq> NilID \<and> lr_document_id x \<noteq> NilID \<and> lr_unit_id x \<noteq> NilID \<and>
     \<not> list_ex (line_clash x) (t_document_lines d) \<and> d' = d\<lparr>t_document_lines := t_document_lines d @ [x]\<rparr>"
  by (auto simp: sql_CreateDocumentLine_def insert_row_def split: prod.splits if_splits option.splits)

lemma sql_CreateDocumentTransition_Ret_iff:
  "sql_CreateDocumentTransition r t d = (Ret x, d') \<longleftrightarrow>
     tr_id r \<noteq> NilID \<and> tr_tenant_id r \<noteq> NilID \<and> tr_document_id r \<noteq> NilID \<and>
     \<not> list_ex (transition_clash r) (t_document_transitions d) \<and> x = r \<and>
     d' = d\<lparr>t_document_transitions := t_document_transitions d @ [r]\<rparr>"
  by (auto simp: sql_CreateDocumentTransition_def insert_row_def split: prod.splits if_splits)

lemma sql_UpdateDocumentStatus_Ret_iff:
  "sql_UpdateDocumentStatus tid i st t d = (Ret x, d') \<longleftrightarrow>
     (\<exists>r. find (\<lambda>r. pg_eq (dr_tenant_id r) tid \<and> pg_eq (dr_id r) i) (t_documents d) = Some r \<and>
       x = r\<lparr>dr_status := st, dr_updated_at := t\<rparr> \<and>
       d' = d\<lparr>t_documents := update_rows (\<lambda>r. pg_eq (dr_tenant_id r) tid \<and> pg_eq (dr_id r) i)
              (\<lambda>r. r\<lparr>dr_status := st, dr_updated_at := t\<rparr>) (t_documents d)\<rparr>)"
  by (auto simp: sql_UpdateDocumentStatus_def update_returning_def split: prod.splits option.splits)

lemma repo_CreateLine_Ret:
  assumes "repo_CreateLine tc l e w = (Ret l', w')" and "ctx_tx tc" and "wtx w = Some (d, False)"
  shows "\<exists>row. line_row_of l = Some row \<and>
    wtx w' = Some (d\<lparr>t_document_lines := t_document_lines d @ [row]\<rparr>, False) \<and> wdb w' = wdb w"
  using assms unfolding repo_CreateLine_def
  by (auto simp: bindP_Ret_iff proc_simps stmt_Ret_inside sql_CreateDocumentLine_Ret_iff)

text \<open>Inserting the lines appends their rows.\<close>

lemma repo_CreateLines_Ret:
  assumes "repo_CreateLines tc ls e w = (Ret ls', w')" and "ctx_tx tc" and "wtx w = Some (d, False)"
  shows "\<exists>rows. map line_row_of ls = map Some rows \<and>
    wtx w' = Some (d\<lparr>t_document_lines := t_document_lines d @ rows\<rparr>, False) \<and> wdb w' = wdb w"
  using assms unfolding repo_CreateLines_def
proof (induction ls arbitrary: ls' w d)
  case (Cons l ls)
  from Cons.prems(1) obtain l' w1 ls1 where
    1: "repo_CreateLine tc l e w = (Ret l', w1)" "mapP (repo_CreateLine tc) ls e w1 = (Ret ls1, w')"
    by (auto simp: bindP_Ret_iff proc_simps)
  from repo_CreateLine_Ret [OF 1(1) Cons.prems(2,3)] obtain row where
    2: "line_row_of l = Some row" "wtx w1 = Some (d\<lparr>t_document_lines := t_document_lines d @ [row]\<rparr>, False)"
      "wdb w1 = wdb w"
    by blast
  from Cons.IH [OF 1(2) Cons.prems(2) 2(2)] obtain rows where
    "map line_row_of ls = map Some rows"
    "wtx w' = Some (d\<lparr>t_document_lines := t_document_lines d @ row # rows\<rparr>, False)" "wdb w' = wdb w1"
    by auto
  with 2 show ?case by (intro exI [of _ "row # rows"]) simp
qed (simp add: proc_simps)

text \<open>The whole effect of a successful creation.\<close>

definition create_effect ::
    "doc_usecase \<Rightarrow> gotime \<Rightarrow> ID option \<Rightarrow> Document \<Rightarrow> document_line_row list \<Rightarrow> ID \<Rightarrow> ID \<Rightarrow> db \<Rightarrow> db" where
  "create_effect u now createdBy doc rows outboxID auditID d =
     d\<lparr>t_documents := t_documents d @ [document_row_of doc],
       t_document_lines := t_document_lines d @ rows,
       t_outbox_events := t_outbox_events d @
         (if du_outbox u then [outbox_row_of (created_event outboxID now doc)] else []),
       t_audit_logs := t_audit_logs d @
         (if du_audit u then [audit_row_of (created_audit auditID now createdBy doc)] else [])\<rparr>"

lemma repo_CreateDocument_Ret:
  assumes "repo_CreateDocument tc doc e w = (Ret doc', w')" and "ctx_tx tc" and "wtx w = Some (d, False)"
  shows "wtx w' = Some (d\<lparr>t_documents := t_documents d @ [document_row_of doc]\<rparr>, False)"
    and "\<not> list_ex (document_clash (document_row_of doc)) (t_documents d)"
    and "doc_ID doc \<noteq> NilID" and "doc_TenantID doc \<noteq> NilID" and "doc_OrganizationID doc \<noteq> NilID"
    and "doc' = doc\<lparr>doc_CreatedAt := doc_CreatedAt doc', doc_UpdatedAt := doc_UpdatedAt doc'\<rparr>"
  using assms unfolding repo_CreateDocument_def
  by (auto simp: bindP_Ret_iff proc_simps stmt_Ret_inside sql_CreateDocument_Ret_iff document_row_of_def)

lemma outbox_Create_Ret:
  assumes "outbox_Create tc ev e w = (Ret ev', w')" and "ctx_tx tc" and "wtx w = Some (d, False)"
  shows "wtx w' = Some (d\<lparr>t_outbox_events := t_outbox_events d @ [outbox_row_of ev]\<rparr>, False)"
  using assms unfolding outbox_Create_def
  by (auto simp: bindP_Ret_iff proc_simps stmt_Ret_inside sql_CreateOutboxEvent_Ret_iff)

lemma audit_Create_Ret:
  assumes "audit_Create tc a e w = (Ret a', w')" and "ctx_tx tc" and "wtx w = Some (d, False)"
  shows "wtx w' = Some (d\<lparr>t_audit_logs := t_audit_logs d @ [audit_row_of a]\<rparr>, False)"
  using assms unfolding audit_Create_def
  by (auto simp: bindP_Ret_iff proc_simps stmt_Ret_inside sql_CreateAuditLog_Ret_iff)

text \<open>The two optional records of a write, as both use cases append them.\<close>

lemma outbox_step_Ret:
  assumes "(if b then bindP NewID (\<lambda>i. bindP (wrap_err s (outbox_Create tc (f i))) (\<lambda>_. ret ())) else ret ()) e w
      = (Ret x, w')" and "ctx_tx tc" and "wtx w = Some (d, False)"
  shows "\<exists>i. wtx w' = Some (d\<lparr>t_outbox_events := t_outbox_events d @ (if b then [outbox_row_of (f i)] else [])\<rparr>, False)"
  using assms by (auto simp: bindP_Ret_iff proc_simps dest!: outbox_Create_Ret split: if_splits)

lemma audit_step_Ret:
  assumes "(if b then bindP NewID (\<lambda>i. bindP (wrap_err s (audit_Create tc (f i))) (\<lambda>_. ret ())) else ret ()) e w
      = (Ret x, w')" and "ctx_tx tc" and "wtx w = Some (d, False)"
  shows "\<exists>i. wtx w' = Some (d\<lparr>t_audit_logs := t_audit_logs d @ (if b then [audit_row_of (f i)] else [])\<rparr>, False)"
  using assms by (auto simp: bindP_Ret_iff proc_simps dest!: audit_Create_Ret split: if_splits)

lemma create_body_Ret:
  assumes "create_body u now cb doc tc e w = (Ret doc', w')" and tc: "ctx_tx tc" and w: "wtx w = Some (d, False)"
  obtains rows outboxID auditID where
    "wtx w' = Some (create_effect u now cb doc rows outboxID auditID d, False)"
    and "map line_row_of (doc_Lines doc) = map Some rows"
    and "\<not> list_ex (document_clash (document_row_of doc)) (t_documents d)"
    and "doc_ID doc \<noteq> NilID" and "doc_TenantID doc \<noteq> NilID"
    and "doc' = doc\<lparr>doc_CreatedAt := doc_CreatedAt doc', doc_UpdatedAt := doc_UpdatedAt doc', doc_Lines := doc_Lines doc'\<rparr>"
proof -
  from assms(1) obtain doc1 w1 lines w2 w3 x y where
    1: "repo_CreateDocument tc doc e w = (Ret doc1, w1)" and
    2: "repo_CreateLines tc (doc_Lines doc) e w1 = (Ret lines, w2)" and
    3: "(if du_outbox u then bindP NewID (\<lambda>i. bindP (wrap_err ''outbox write'' (outbox_Create tc
          (created_event i now doc))) (\<lambda>_. ret ())) else ret ()) e w2 = (Ret x, w3)" and
    4: "(if du_audit u then bindP NewID (\<lambda>i. bindP (wrap_err ''audit write'' (audit_Create tc
          (created_audit i now cb doc))) (\<lambda>_. ret ())) else ret ()) e w3 = (Ret y, w')" and
    doc': "doc' = doc1\<lparr>doc_Lines := lines\<rparr>"
    unfolding create_body_def bindP_Ret_iff by (auto simp: ret_def)
  note c1 = repo_CreateDocument_Ret [OF 1 tc w]
  from repo_CreateLines_Ret [OF 2 tc c1(1)] obtain rows where
    c2: "map line_row_of (doc_Lines doc) = map Some rows" and
    w2: "wtx w2 = Some (d\<lparr>t_documents := t_documents d @ [document_row_of doc],
      t_document_lines := t_document_lines d @ rows\<rparr>, False)" by auto
  from outbox_step_Ret [OF 3 tc w2] obtain oid where
    w3: "wtx w3 = Some (d\<lparr>t_documents := t_documents d @ [document_row_of doc],
      t_document_lines := t_document_lines d @ rows, t_outbox_events := t_outbox_events d @
        (if du_outbox u then [outbox_row_of (created_event oid now doc)] else [])\<rparr>, False)" by auto
  from audit_step_Ret [OF 4 tc w3] obtain aid where
    "wtx w' = Some (create_effect u now cb doc rows oid aid d, False)" by (auto simp: create_effect_def)
  with c1 c2 doc' show thesis by (intro that) auto
qed

section \<open>Relations kept by the use cases\<close>

text \<open>
  A relation between databases that every statement of the document and sequence repositories
  respects, for rows of the tenants \<open>who\<close>. What the use cases do then respects it whatever the
  faults: they are built from these statements.
\<close>

locale seq_order = db_order R for R :: "db \<Rightarrow> db \<Rightarrow> bool" +
  fixes who :: "ID \<Rightarrow> bool"
  assumes w_sequence_value: "who tid \<Longrightarrow> R d (snd (sql_UpdateSequenceValue tid i v lastn lastr upd t d))"
begin

lemma stays_if: "stays R m \<Longrightarrow> stays R n \<Longrightarrow> stays R (if b then m else n)"
  by simp

lemma stays_get_document:
  "stays R (repo_GetDocumentByID c tid i)" "stays R (repo_GetDocumentByNumber c tid dt n)"
  unfolding repo_GetDocumentByID_def repo_GetDocumentByNumber_def complete_document_def repo_ListLines_def
    repo_ListTransitions_def
  by (intro stays_intros)+

lemma stays_acquire: "who tid \<Longrightarrow> stays R (seq_AcquireNextNumber c tid et st xs)"
  unfolding seq_AcquireNextNumber_def acquire_body_def Let_def case_prod_beta
  by (intro stays_intros stays_stmt)
    (use w_sequence_value in \<open>metis snd_conv\<close>)

lemma stays_AcquireNextNumber: "who (an_TenantID cmd) \<Longrightarrow> stays R (AcquireNextNumber c cmd)"
  unfolding AcquireNextNumber_def by (intro stays_intros stays_acquire)

lemma stays_number: "who tid \<Longrightarrow> stays R (document_number u c tid i cmd)"
  unfolding document_number_def default_number_def Let_def
  by (auto intro!: stays_intros stays_AcquireNextNumber split: res.split)

lemma stays_build_lines: "stays R (build_lines tid i cur now n tot ls)"
proof (induction ls arbitrary: n tot)
  case (Cons l ls)
  show ?case unfolding build_lines.simps Let_def
    by (intro stays_bind stays_handlers stays_pure Cons.IH) (auto intro: stays_intros)
qed (simp add: stays_intros)

lemma stays_prepare:
  assumes "\<And>t. RequireTenantID c = Ret t \<Longrightarrow> who t"
  shows "stays R (prepare_document u c cmd)"
  unfolding prepare_document_def Let_def
  by (intro stays_bind_res, drule assms)
    (intro stays_bind stays_pure stays_number stays_must_not_exist stays_get_document stays_build_lines,
      auto intro: stays_intros)

end

section \<open>What is prepared\<close>

text \<open>A line built from its input.\<close>

definition line_ok ::
    "(float64 \<Rightarrow> int64) \<Rightarrow> ID \<Rightarrow> ID \<Rightarrow> string \<Rightarrow> CreateDocumentLineInput \<Rightarrow> DocumentLine \<Rightarrow> bool" where
  "line_ok cvt tid i cur l x \<longleftrightarrow>
     dl_TenantID x = tid \<and> dl_DocumentID x = i \<and> dl_UnitID x = li_UnitID l \<and> li_UnitID l \<noteq> NilID \<and>
     dl_Quantity x = li_Quantity l \<and> \<not> f_le (li_Quantity l) (Fin 0) \<and>
     dl_ProductID x = li_ProductID l \<and> amount (dl_UnitPrice x) = amount (li_UnitPrice l) \<and>
     currency (dl_UnitPrice x) = cur \<and> dl_Subtotal x = Money_MultiplyFloat cvt (dl_UnitPrice x) (li_Quantity l)"

lemma line_price_Ret:
  assumes "line_price cur l = Ret p"
  shows "amount p = amount (li_UnitPrice l)" and "currency p = cur \<or> currency p = TrimSpace (ToUpper cur)"
  using assms by (auto simp: line_price_def MustNewMoney_def NewMoney_def Let_def split: if_splits)

lemma currency_MultiplyFloat [simp]: "currency (Money_MultiplyFloat cvt m f) = currency m"
  by (simp add: Money_MultiplyFloat_def Let_def)

lemma build_lines_Ret:
  assumes "build_lines tid i cur now n tot ls e w = (Ret (tot', lines), w')"
  shows "list_all2 (line_ok (cvt_int64 e) tid i (currency tot)) ls lines \<and>
    map dl_LineNumber lines = map (\<lambda>k. of_nat (n + k + 1)) [0..<length ls] \<and>
    amount tot' = amount tot + sum_list (map (\<lambda>x. amount (dl_Subtotal x)) lines) \<and>
    currency tot' = currency tot"
  using assms
proof (induction ls arbitrary: n tot lines w)
  case (Cons l ls)
  from Cons.prems obtain price newTotal lineID w1 lines1 where
    q: "\<not> f_le (li_Quantity l) (Fin 0)" "li_UnitID l \<noteq> NilID" and p: "line_price cur l = Ret price" and
    t: "Money_Add tot (Money_MultiplyFloat (cvt_int64 e) price (li_Quantity l)) = Ret newTotal" and
    r: "build_lines tid i cur now (n + 1) newTotal ls e w1 = (Ret (tot', lines1), w')" and
    l: "lines = \<lparr>dl_ID = lineID, dl_TenantID = tid, dl_DocumentID = i, dl_LineNumber = of_nat (n + 1),
           dl_ProductID = li_ProductID l, dl_ProductName = [], dl_Description = TrimSpace (li_Description l),
           dl_Quantity = li_Quantity l, dl_UnitID = li_UnitID l, dl_UnitCode = [], dl_UnitPrice = price,
           dl_Subtotal = Money_MultiplyFloat (cvt_int64 e) price (li_Quantity l),
           dl_Metadata = or_empty (li_Metadata l), dl_CreatedAt = now, dl_UpdatedAt = now\<rparr> # lines1"
    unfolding build_lines.simps Let_def
    by (auto simp: bindP_Ret_iff proc_simps)
  from t have c: "currency price = currency tot" "currency newTotal = currency tot"
    "amount newTotal = amount tot + amount (Money_MultiplyFloat (cvt_int64 e) price (li_Quantity l))"
    by (auto simp: Money_Add_Ret_iff)
  have nums: "map (\<lambda>k. of_nat (n + k + 1)) [0..<length (l # ls)]
      = (of_nat (n + 1) :: int32) # map (\<lambda>k. of_nat (n + 1 + k + 1)) [0..<length ls]"
    by (simp add: upt_conv_Cons map_Suc_upt [symmetric] del: upt_Suc)
  show ?case
    using Cons.IH [OF r] q c line_price_Ret(1) [OF p] unfolding nums
    by (simp add: l line_ok_def add.assoc)
qed (simp add: proc_simps)

text \<open>The document of a successful preparation.\<close>

lemma prepare_Ret:
  assumes "prepare_document u c cmd e w = (Ret (now, doc), w')"
  shows "RequireTenantID c = Ret (doc_TenantID doc)" and "doc_Status doc = StatusDraft"
    and "list_all2 (line_ok (cvt_int64 e) (doc_TenantID doc) (doc_ID doc) (currency (doc_TotalAmount doc)))
           (cd_Lines cmd) (doc_Lines doc)"
    and "map dl_LineNumber (doc_Lines doc) = map (\<lambda>k. of_nat (k + 1)) [0..<length (cd_Lines cmd)]"
    and "amount (doc_TotalAmount doc) = sum_list (map (\<lambda>x. amount (dl_Subtotal x)) (doc_Lines doc))"
    and "length (currency (doc_TotalAmount doc)) = 3"
    and "doc_OrganizationID doc = cd_OrganizationID cmd" and "doc_DocumentType doc = cd_DocumentType cmd"
proof -
  from assms obtain docID zero w1 w2 where
    z: "ZeroMoney (document_currency cmd) = Ret zero" and
    b: "build_lines (doc_TenantID doc) docID (document_currency cmd) now 0 zero (cd_Lines cmd) e w1
        = (Ret (doc_TotalAmount doc, doc_Lines doc), w2)" and
    r: "RequireTenantID c = Ret (doc_TenantID doc)" "doc_Status doc = StatusDraft" "docID = doc_ID doc"
      "doc_OrganizationID doc = cd_OrganizationID cmd" "doc_DocumentType doc = cd_DocumentType cmd"
    unfolding prepare_document_def Let_def by (auto simp: bindP_Ret_iff proc_simps)
  note bl = build_lines_Ret [OF b]
  have z': "amount zero = 0" "length (currency zero) = 3"
    using z by (auto simp: ZeroMoney_cases split: if_splits)
  show "RequireTenantID c = Ret (doc_TenantID doc)" "doc_Status doc = StatusDraft"
    "doc_OrganizationID doc = cd_OrganizationID cmd" "doc_DocumentType doc = cd_DocumentType cmd"
    using r by auto
  show "list_all2 (line_ok (cvt_int64 e) (doc_TenantID doc) (doc_ID doc) (currency (doc_TotalAmount doc)))
      (cd_Lines cmd) (doc_Lines doc)"
    "map dl_LineNumber (doc_Lines doc) = map (\<lambda>k. of_nat (k + 1)) [0..<length (cd_Lines cmd)]"
    "amount (doc_TotalAmount doc) = sum_list (map (\<lambda>x. amount (dl_Subtotal x)) (doc_Lines doc))"
    "length (currency (doc_TotalAmount doc)) = 3"
    using bl z' r by auto
qed

section \<open>Relations kept by the writes\<close>

locale write_order = seq_order +
  assumes w_sequence_create: "who (sr_tenant_id r) \<Longrightarrow> sql_CreateSequence r t d = (Ret x, d') \<Longrightarrow> R d d'"
    and w_sequence_update: "who (sr_tenant_id r) \<Longrightarrow> sql_UpdateSequence r t d = (Ret x, d') \<Longrightarrow> R d d'"
    and w_sequence_delete: "who tid \<Longrightarrow> R d (snd (sql_DeleteSequence tid i t d))"
    and w_document: "who (dr_tenant_id dr) \<Longrightarrow> sql_CreateDocument dr t d = (Ret y, d') \<Longrightarrow> R d d'"
    and w_status: "who tid \<Longrightarrow> sql_UpdateDocumentStatus tid i st t d = (Ret y, d') \<Longrightarrow> R d d'"
    and w_line: "who (lr_tenant_id l) \<Longrightarrow> sql_CreateDocumentLine (Some l) t d = (Ret z, d') \<Longrightarrow> R d d'"
    and w_transition: "who (tr_tenant_id tr) \<Longrightarrow> sql_CreateDocumentTransition tr t d = (Ret q, d') \<Longrightarrow> R d d'"
    and w_outbox: "who (xr_tenant_id xr) \<Longrightarrow> sql_CreateOutboxEvent xr t d = (Ret p, d') \<Longrightarrow> R d d'"
    and w_audit: "who (ar_tenant_id ar) \<Longrightarrow> sql_CreateAuditLog ar t d = (Ret b, d') \<Longrightarrow> R d d'"
begin

lemma stays_create_lines:
  assumes "\<And>l. l \<in> set ls \<Longrightarrow> who (dl_TenantID l)"
  shows "stays R (repo_CreateLines c ls)"
  using assms unfolding repo_CreateLines_def
proof (induction ls)
  case (Cons l ls)
  have "stays R (repo_CreateLine c l)"
    unfolding repo_CreateLine_def
  proof (intro stays_intros stays_stmt)
    fix t d x d'
    assume x: "sql_CreateDocumentLine (line_row_of l) t d = (Ret x, d')"
    then have l: "line_row_of l = Some x" by (simp add: sql_CreateDocumentLine_Ret_iff)
    then have "lr_tenant_id x = dl_TenantID l" by (auto simp: line_row_of_def split: option.splits)
    with Cons.prems [of l] have "who (lr_tenant_id x)" by simp
    then show "R d d'" by (rule w_line) (rule x [unfolded l])
  qed
  with Cons show ?case by (auto intro!: stays_intros)
qed (simp add: stays_intros)

lemma stays_outbox: "who (oe_TenantID ev) \<Longrightarrow> stays R (outbox_Create c ev)"
  unfolding outbox_Create_def
  by (intro stays_intros stays_stmt) (force intro: w_outbox simp: outbox_row_of_def)

lemma stays_audit: "who (al_TenantID a) \<Longrightarrow> stays R (audit_Create c a)"
  unfolding audit_Create_def
  by (intro stays_intros stays_stmt) (force intro: w_audit simp: audit_row_of_def)

lemma stays_create_body:
  assumes "who (doc_TenantID doc)" and "\<And>l. l \<in> set (doc_Lines doc) \<Longrightarrow> who (dl_TenantID l)"
  shows "stays R (create_body u now cb doc tc)"
  unfolding create_body_def
proof (intro stays_bind stays_if stays_handlers stays_pure stays_create_lines)
  show "stays R (repo_CreateDocument tc doc)"
    unfolding repo_CreateDocument_def
    by (intro stays_intros stays_stmt) (use assms(1) in \<open>force intro: w_document simp: document_row_of_def\<close>)
qed (use assms in \<open>auto intro!: stays_outbox stays_audit simp: created_event_def created_audit_def\<close>)

text \<open>Creation and transition of documents stay within the relation, for the tenant of the context.\<close>

lemma stays_CreateDocument:
  assumes "\<And>t. RequireTenantID c = Ret t \<Longrightarrow> who t"
  shows "stays R (CreateDocument u c cmd)"
  unfolding CreateDocument_def
proof (rule stays_bind_post)
  show "stays R (prepare_document u c cmd)" by (rule stays_prepare [OF assms])
next
  fix e w x w'
  assume p: "prepare_document u c cmd e w = (Ret x, w')"
  obtain now doc where x: "x = (now, doc)" by fastforce
  note f = prepare_Ret [OF p [unfolded x]]
  have t: "who (doc_TenantID doc)" by (rule assms [OF f(1)])
  have "dl_TenantID l = doc_TenantID doc" if "l \<in> set (doc_Lines doc)" for l
    using f(3) that by (auto simp: list_all2_conv_all_nth in_set_conv_nth line_ok_def)
  with t show "stays R (case x of (now, doc) \<Rightarrow> WithTx c (create_body u now (cd_CreatedBy cmd) doc))"
    by (auto simp: x intro!: stays_WithTx stays_create_body)
qed

lemma stays_TransitionDocument:
  assumes "\<And>t. RequireTenantID c = Ret t \<Longrightarrow> who t"
  shows "stays R (TransitionDocument u c cmd)"
  unfolding TransitionDocument_def
proof (intro stays_bind_res, drule assms)
  fix tid
  assume t: "who tid"
  have status: "stays R (repo_UpdateDocumentStatus tc tid i st)" for tc i st
    unfolding repo_UpdateDocumentStatus_def by (intro stays_intros stays_stmt) (rule w_status [OF t])
  have trans: "stays R (repo_RecordTransition tc tr)" if "dt_TenantID tr = tid" for tc tr
    unfolding repo_RecordTransition_def
    by (intro stays_intros stays_stmt) (use t that in \<open>force intro: w_transition simp: transition_row_of_def\<close>)
  have "stays R (transition_body u now tid transID doc cmd tc)" for now transID doc tc
    unfolding transition_body_def
    by (intro stays_bind stays_if stays_handlers stays_pure status trans stays_outbox stays_audit)
      (use t in \<open>auto simp: transitioned_event_def transitioned_audit_def\<close>)
  then show "stays R (bindP (repo_GetDocumentByID c tid (td_DocumentID cmd)) (\<lambda>doc.
     bindP (lift_res (ValidateTransition (doc_Status doc) (td_TargetStatus cmd))) (\<lambda>_.
     bindP NewID (\<lambda>transID.
     bindP Now (\<lambda>now.
     bindP (WithTx c (transition_body u now tid transID doc cmd)) (\<lambda>_.
     repo_GetDocumentByID c tid (td_DocumentID cmd)))))))"
    by (intro stays_bind stays_pure stays_get_document stays_WithTx)
qed

end

end
