(* ===== verification/DocumentRuns.thy ===== *)
theory DocumentRuns
  imports DocumentUsecase
begin

text \<open>
  Lemmas on the document use cases over whole runs: what a call may change, the outcomes of
  creating and of moving a document, and the invariant of the stored documents, their totals
  and their histories under every sequence of calls.
\<close>

section \<open>Relations\<close>

text \<open>Only the table of the number sequences may differ.\<close>

definition seq_only :: "db \<Rightarrow> db \<Rightarrow> bool" where
  "seq_only d d' \<longleftrightarrow> d' = d\<lparr>t_number_sequences := t_number_sequences d'\<rparr>"

interpretation seq_frame: seq_order seq_only "\<lambda>_. True"
proof
  fix d1 d2 d3 assume "seq_only d1 d2" "seq_only d2 d3"
  then have "d3 = d1\<lparr>t_number_sequences := t_number_sequences d2, t_number_sequences := t_number_sequences d3\<rparr>"
    by (metis seq_only_def)
  then show "seq_only d1 d3" by (simp add: seq_only_def)
qed (simp_all add: seq_only_def sql_UpdateSequenceValue_def)

text \<open>The rows of all tenants but one are untouched, in every table.\<close>

definition tenant_frame :: "ID \<Rightarrow> db \<Rightarrow> db \<Rightarrow> bool" where
  "tenant_frame t d d' \<longleftrightarrow>
     t_organizations d' = t_organizations d \<and> t_parties d' = t_parties d \<and> t_units d' = t_units d \<and>
     t_unit_conversions d' = t_unit_conversions d \<and> t_products d' = t_products d \<and>
     t_product_variants d' = t_product_variants d \<and>
     filter (\<lambda>r. dr_tenant_id r \<noteq> t) (t_documents d') = filter (\<lambda>r. dr_tenant_id r \<noteq> t) (t_documents d) \<and>
     filter (\<lambda>r. lr_tenant_id r \<noteq> t) (t_document_lines d') = filter (\<lambda>r. lr_tenant_id r \<noteq> t) (t_document_lines d) \<and>
     filter (\<lambda>r. tr_tenant_id r \<noteq> t) (t_document_transitions d')
       = filter (\<lambda>r. tr_tenant_id r \<noteq> t) (t_document_transitions d) \<and>
     filter (\<lambda>r. xr_tenant_id r \<noteq> t) (t_outbox_events d') = filter (\<lambda>r. xr_tenant_id r \<noteq> t) (t_outbox_events d) \<and>
     filter (\<lambda>r. ar_tenant_id r \<noteq> t) (t_audit_logs d') = filter (\<lambda>r. ar_tenant_id r \<noteq> t) (t_audit_logs d) \<and>
     filter (\<lambda>r. sr_tenant_id r \<noteq> t) (t_number_sequences d')
       = filter (\<lambda>r. sr_tenant_id r \<noteq> t) (t_number_sequences d) \<and>
     t_webhook_endpoints d' = t_webhook_endpoints d \<and> t_webhook_deliveries d' = t_webhook_deliveries d \<and>
     t_party_roles d' = t_party_roles d \<and>
     t_addresses d' = t_addresses d \<and>
     t_party_addresses d' = t_party_addresses d \<and>
     t_organization_addresses d' = t_organization_addresses d \<and>
     t_contacts d' = t_contacts d \<and>
     t_files d' = t_files d \<and>
     t_entity_attachments d' = t_entity_attachments d \<and>
     t_comments d' = t_comments d \<and>
     t_notifications d' = t_notifications d"

lemma filter_update_rows:
  assumes "\<And>r. p r \<Longrightarrow> \<not> q r \<and> \<not> q (f r)"
  shows "filter q (update_rows p f rs) = filter q rs"
  using assms by (induction rs) (auto simp: update_rows_def)

interpretation tenant_rows: write_order "tenant_frame t" "\<lambda>x. x = t" for t
proof unfold_locales
  show "x = t \<Longrightarrow> tenant_frame t d (snd (sql_UpdateSequenceValue x i v lastn lastr upd tm d))"
    for x d i v lastn lastr upd tm
    by (auto simp: tenant_frame_def sql_UpdateSequenceValue_def pg_eq_def intro!: filter_update_rows)
  show "sr_tenant_id r = t \<Longrightarrow> sql_UpdateSequence r tm d = (Ret x, d') \<Longrightarrow> tenant_frame t d d'" for r tm d x d'
    by (auto simp: tenant_frame_def sql_UpdateSequence_def update_returning_def pg_eq_def
        intro!: filter_update_rows split: prod.splits option.splits)
  show "x = t \<Longrightarrow> tenant_frame t d (snd (sql_DeleteSequence x i tm d))" for x d i tm
    by (auto simp: tenant_frame_def sql_DeleteSequence_def pg_eq_def intro!: filter_cong)
  show "x = t \<Longrightarrow> sql_UpdateDocumentStatus x i st tm d = (Ret y, d') \<Longrightarrow> tenant_frame t d d'" for x i st tm d y d'
    by (auto simp: tenant_frame_def sql_UpdateDocumentStatus_Ret_iff pg_eq_def intro!: filter_update_rows)
qed (auto simp: tenant_frame_def sql_CreateSequence_def insert_row_def sql_CreateDocument_Ret_iff
    sql_CreateDocumentLine_Ret_iff sql_CreateDocumentTransition_Ret_iff sql_CreateOutboxEvent_Ret_iff
    sql_CreateAuditLog_Ret_iff split: prod.splits if_splits)

interpretation audit_rows: write_order audit_grows "\<lambda>_. True"
  by unfold_locales
    (auto simp: audit_grows_iff sql_UpdateSequenceValue_def sql_UpdateSequence_def sql_DeleteSequence_def
      update_returning_def sql_UpdateDocumentStatus_Ret_iff sql_CreateSequence_def insert_row_def
      sql_CreateDocument_Ret_iff sql_CreateDocumentLine_Ret_iff sql_CreateDocumentTransition_Ret_iff
      sql_CreateOutboxEvent_Ret_iff sql_CreateAuditLog_Ret_iff split: prod.splits if_splits option.splits)

section \<open>Atomicity of creation\<close>

lemma create_body_keeps: "ctx_tx tc \<Longrightarrow> keeps_db (create_body u now cb doc tc)"
  unfolding create_body_def repo_CreateDocument_def repo_CreateLines_def repo_CreateLine_def
    outbox_Create_def audit_Create_def
  by (auto intro!: keeps_intros)

lemma create_cases:
  assumes run: "CreateDocument u c cmd e w = (r, w')" and c: "\<not> ctx_tx c"
  obtains (unchanged) "seq_only (wdb w) (wdb w')" and "\<not> is_Ret r"
  | (all) d now doc rows outboxID auditID w1 where
      "seq_only (wdb w) d" and "prepare_document u c cmd e w = (Ret (now, doc), w1)"
      and "wdb w' = create_effect u now (cd_CreatedBy cmd) doc rows outboxID auditID d"
      and "map line_row_of (doc_Lines doc) = map Some rows"
      and "\<not> list_ex (document_clash (document_row_of doc)) (t_documents d)"
      and "doc_ID doc \<noteq> NilID" and "doc_TenantID doc \<noteq> NilID"
      and "(\<exists>t1 t2 ls. r = Ret (doc\<lparr>doc_CreatedAt := t1, doc_UpdatedAt := t2, doc_Lines := ls\<rparr>)) \<or>
           r = Fail (Opaque ''database'')"
proof -
  obtain p w1 where p: "prepare_document u c cmd e w = (p, w1)" by fastforce
  have s1: "seq_only (wdb w) (wdb w1)" by (rule staysD [OF seq_frame.stays_prepare p]) simp
  show thesis
  proof (cases p)
    case (Ret x)
    obtain now doc where x: "x = (now, doc)" by fastforce
    let ?tc = "c\<lparr>ctx_tx := True\<rparr>"
    have tc: "ctx_tx ?tc" by simp
    have tx: "run_tx (create_body u now (cd_CreatedBy cmd) doc ?tc) e w1 = (r, w')"
      using run p Ret x c by (simp add: CreateDocument_def bindP_def WithTx_def)
    show thesis
    proof (cases rule: run_tx_cases [OF tx create_body_keeps [OF tc]])
      case 1
      have "seq_only (wdb w) (wdb w')" using s1 1(1) by simp
      then show thesis using 1(2) by (rule unchanged)
    next
      case (2 doc' w2 d)
      have w0: "wtx (w1\<lparr>tick := Suc (tick w1), wtx := Some (wdb w1, False)\<rparr>) = Some (wdb w1, False)" by simp
      obtain rows oid aid where e:
        "wtx w2 = Some (create_effect u now (cd_CreatedBy cmd) doc rows oid aid (wdb w1), False)"
        "map line_row_of (doc_Lines doc) = map Some rows"
        "\<not> list_ex (document_clash (document_row_of doc)) (t_documents (wdb w1))"
        "doc_ID doc \<noteq> NilID" "doc_TenantID doc \<noteq> NilID"
        "doc' = doc\<lparr>doc_CreatedAt := doc_CreatedAt doc', doc_UpdatedAt := doc_UpdatedAt doc', doc_Lines := doc_Lines doc'\<rparr>"
        by (rule create_body_Ret [OF 2(1) tc w0])
      have d: "wdb w' = create_effect u now (cd_CreatedBy cmd) doc rows oid aid (wdb w1)" using e(1) 2(2,3) by simp
      have r: "(\<exists>t1 t2 ls. r = Ret (doc\<lparr>doc_CreatedAt := t1, doc_UpdatedAt := t2, doc_Lines := ls\<rparr>)) \<or>
           r = Fail (Opaque ''database'')"
        using 2(4) e(6) by blast
      show thesis by (rule all [OF s1 p [unfolded Ret x] d e(2-5) r])
    qed
  next
    case (Fail er)
    with run p have "w' = w1" and "\<not> is_Ret r" by (auto simp: CreateDocument_def bindP_def)
    with s1 show thesis by (auto intro: unchanged)
  next
    case (Panic m)
    with run p have "w' = w1" and "\<not> is_Ret r" by (auto simp: CreateDocument_def bindP_def)
    with s1 show thesis by (auto intro: unchanged)
  qed
qed

section \<open>Effect of a transition\<close>

definition transition_effect ::
    "doc_usecase \<Rightarrow> gotime \<Rightarrow> ID \<Rightarrow> ID \<Rightarrow> Document \<Rightarrow> TransitionDocumentCommand \<Rightarrow> int \<Rightarrow> ID \<Rightarrow> ID \<Rightarrow> db \<Rightarrow> db" where
  "transition_effect u now tenantID transID doc cmd t outboxID auditID d =
     d\<lparr>t_documents := update_rows (\<lambda>r. pg_eq (dr_tenant_id r) tenantID \<and> pg_eq (dr_id r) (td_DocumentID cmd))
         (\<lambda>r. r\<lparr>dr_status := td_TargetStatus cmd, dr_updated_at := t\<rparr>) (t_documents d),
       t_document_transitions := t_document_transitions d @
         [\<lparr>tr_id = transID, tr_tenant_id = tenantID, tr_document_id = td_DocumentID cmd,
           tr_from_status = doc_Status doc, tr_to_status = td_TargetStatus cmd,
           tr_reason = ptr_of_str (TrimSpace (td_Reason cmd)), tr_actor_id = id_of_ptr (td_ActorID cmd),
           tr_created_at = to_micro now\<rparr>],
       t_outbox_events := t_outbox_events d @
         (if du_outbox u then [outbox_row_of (transitioned_event outboxID now tenantID doc cmd)] else []),
       t_audit_logs := t_audit_logs d @
         (if du_audit u then [audit_row_of (transitioned_audit auditID now tenantID doc cmd)] else [])\<rparr>"

lemma transition_body_Ret:
  assumes "transition_body u now tid transID doc cmd tc e w = (Ret x, w')" and tc: "ctx_tx tc"
    and w: "wtx w = Some (d, False)"
  obtains t outboxID auditID where
    "wtx w' = Some (transition_effect u now tid transID doc cmd t outboxID auditID d, False)"
    and "\<exists>r. find (\<lambda>r. pg_eq (dr_tenant_id r) tid \<and> pg_eq (dr_id r) (td_DocumentID cmd)) (t_documents d) = Some r"
proof -
  from assms(1) obtain w1 w2 w3 a b y z where
    1: "repo_UpdateDocumentStatus tc tid (td_DocumentID cmd) (td_TargetStatus cmd) e w = (Ret a, w1)" and
    2: "repo_RecordTransition tc
       \<lparr>dt_ID = transID, dt_TenantID = tid, dt_DocumentID = td_DocumentID cmd,
        dt_FromStatus = doc_Status doc, dt_ToStatus = td_TargetStatus cmd,
        dt_Reason = TrimSpace (td_Reason cmd), dt_ActorID = td_ActorID cmd, dt_CreatedAt = now\<rparr> e w1 = (Ret b, w2)" and
    3: "(if du_outbox u then bindP NewID (\<lambda>i. bindP (wrap_err ''outbox write'' (outbox_Create tc
          (transitioned_event i now tid doc cmd))) (\<lambda>_. ret ())) else ret ()) e w2 = (Ret y, w3)" and
    4: "(if du_audit u then bindP NewID (\<lambda>i. bindP (wrap_err ''audit write'' (audit_Create tc
          (transitioned_audit i now tid doc cmd))) (\<lambda>_. ret ())) else ret ()) e w3 = (Ret z, w')"
    unfolding transition_body_def bindP_Ret_iff by (auto simp: ret_def)
  let ?t = "dbnow_at e (tick w)"
  let ?d1 = "d\<lparr>t_documents := update_rows (\<lambda>r. pg_eq (dr_tenant_id r) tid \<and> pg_eq (dr_id r) (td_DocumentID cmd))
         (\<lambda>r. r\<lparr>dr_status := td_TargetStatus cmd, dr_updated_at := ?t\<rparr>) (t_documents d)\<rparr>"
  have w1: "wtx w1 = Some (?d1, False)" and
    f: "\<exists>r. find (\<lambda>r. pg_eq (dr_tenant_id r) tid \<and> pg_eq (dr_id r) (td_DocumentID cmd)) (t_documents d) = Some r"
    using 1 tc w unfolding repo_UpdateDocumentStatus_def
    by (auto simp: bindP_Ret_iff proc_simps stmt_Ret_inside sql_UpdateDocumentStatus_Ret_iff)
  have w2: "wtx w2 = Some (?d1\<lparr>t_document_transitions := t_document_transitions d @
         [\<lparr>tr_id = transID, tr_tenant_id = tid, tr_document_id = td_DocumentID cmd,
           tr_from_status = doc_Status doc, tr_to_status = td_TargetStatus cmd,
           tr_reason = ptr_of_str (TrimSpace (td_Reason cmd)), tr_actor_id = id_of_ptr (td_ActorID cmd),
           tr_created_at = to_micro now\<rparr>]\<rparr>, False)"
    using 2 tc w1 unfolding repo_RecordTransition_def
    by (auto simp: bindP_Ret_iff proc_simps stmt_Ret_inside sql_CreateDocumentTransition_Ret_iff transition_row_of_def)
  from outbox_step_Ret [OF 3 tc w2] obtain oid where w3: "wtx w3 = Some (?d1\<lparr>t_document_transitions := t_document_transitions d @
         [\<lparr>tr_id = transID, tr_tenant_id = tid, tr_document_id = td_DocumentID cmd,
           tr_from_status = doc_Status doc, tr_to_status = td_TargetStatus cmd,
           tr_reason = ptr_of_str (TrimSpace (td_Reason cmd)), tr_actor_id = id_of_ptr (td_ActorID cmd),
           tr_created_at = to_micro now\<rparr>],
       t_outbox_events := t_outbox_events d @
         (if du_outbox u then [outbox_row_of (transitioned_event oid now tid doc cmd)] else [])\<rparr>, False)" by auto
  from audit_step_Ret [OF 4 tc w3] obtain aid where
    "wtx w' = Some (transition_effect u now tid transID doc cmd ?t oid aid d, False)"
    by (auto simp: transition_effect_def)
  then show thesis by (rule that [OF _ f])
qed

lemma transition_body_keeps: "ctx_tx tc \<Longrightarrow> keeps_db (transition_body u now tid transID doc cmd tc)"
  unfolding transition_body_def repo_UpdateDocumentStatus_def repo_RecordTransition_def outbox_Create_def
    audit_Create_def
  by (auto intro!: keeps_intros)

lemma get_document_keeps: "keeps_db (repo_GetDocumentByID c tid i)" "keeps_db (repo_GetDocumentByNumber c tid dt n)"
  unfolding repo_GetDocumentByID_def repo_GetDocumentByNumber_def complete_document_def repo_ListLines_def
    repo_ListTransitions_def
  by (intro keeps_intros)+

lemma joined_in:
  assumes "x \<in> set (joined_documents p d)"
  obtains row org where "row \<in> set (t_documents d)" and "p row" and "org_of d row = Some org"
    and "x = (row, or_name org, party_name_of d row)"
  using assms by (auto simp: joined_documents_def List.map_filter_def split: option.splits)

lemma toDomainDocument_Ret:
  assumes "toDomainDocument lo (row, x, y) = Ret doc"
  shows "doc_ID doc = dr_id row" "doc_TenantID doc = dr_tenant_id row" "doc_Status doc = dr_status row"
    "doc_DocumentNumber doc = dr_document_number row" "doc_OrganizationName doc = x"
  using assms by (auto simp: toDomainDocument_def res_simps)

text \<open>What a read outside a transaction returns is a row of the table, of the tenant asked for.\<close>

lemma get_document_Ret:
  assumes "repo_GetDocumentByID c tid i e w = (Ret doc, w1)" and "\<not> ctx_tx c"
  obtains row where "row \<in> set (t_documents (wdb w))" and "pg_eq (dr_tenant_id row) tid" and "pg_eq (dr_id row) i"
    and "doc_ID doc = i" and "doc_TenantID doc = tid" and "doc_Status doc = dr_status row"
proof -
  from assms obtain x doc0 where x: "sql_GetDocumentByID tid i (wdb w) = Ret x"
    and d: "toDomainDocument (local_off e) x = Ret doc0"
    and doc: "doc_ID doc = doc_ID doc0" "doc_TenantID doc = doc_TenantID doc0" "doc_Status doc = doc_Status doc0"
    unfolding repo_GetDocumentByID_def complete_document_def
    by (auto simp: bindP_Ret_iff proc_simps query_Ret_outside)
  from x have "x \<in> set (joined_documents (\<lambda>r. pg_eq (dr_tenant_id r) tid \<and> pg_eq (dr_id r) i) (wdb w))"
    by (auto simp: sql_GetDocumentByID_def sql_one_def split: list.splits)
  then obtain row org where "row \<in> set (t_documents (wdb w))" "pg_eq (dr_tenant_id row) tid \<and> pg_eq (dr_id row) i"
    "org_of (wdb w) row = Some org" "x = (row, or_name org, party_name_of (wdb w) row)"
    by (rule joined_in)
  with d doc show thesis
    by (intro that [of row]) (auto simp: pg_eq_def dest: toDomainDocument_Ret)
qed

lemma transition_cases:
  assumes run: "TransitionDocument u c cmd e w = (r, w')" and c: "\<not> ctx_tx c"
  obtains (unchanged) "wdb w' = wdb w" and "\<not> is_Ret r"
  | (moved) tid row transID now doc t outboxID auditID where
      "RequireTenantID c = Ret tid" and "row \<in> set (t_documents (wdb w))"
      and "pg_eq (dr_tenant_id row) tid" and "pg_eq (dr_id row) (td_DocumentID cmd)"
      and "doc_Status doc = dr_status row"
      and "ValidateTransition (dr_status row) (td_TargetStatus cmd) = Ret ()"
      and "wdb w' = transition_effect u now tid transID doc cmd t outboxID auditID (wdb w)"
proof (cases "RequireTenantID c")
  case (Ret tid)
  obtain g w1 where g: "repo_GetDocumentByID c tid (td_DocumentID cmd) e w = (g, w1)" by fastforce
  have k1: "wdb w1 = wdb w" by (rule keepsD [OF get_document_keeps(1) g])
  show thesis
  proof (cases "\<exists>doc. g = Ret doc \<and> ValidateTransition (doc_Status doc) (td_TargetStatus cmd) = Ret () \<and>
      (\<exists>i. newid_at e (tick w1) = Some i)")
    case False
    have "wdb w' = wdb w \<and> \<not> is_Ret r"
      using run Ret g k1 False unfolding TransitionDocument_def
      by (cases g) (auto simp: bindP_def lift_res_def NewID_def split: res.splits option.splits prod.splits)
    then show thesis by (auto intro: unchanged)
  next
    case True
    then obtain doc i where doc: "g = Ret doc" "ValidateTransition (doc_Status doc) (td_TargetStatus cmd) = Ret ()"
      "newid_at e (tick w1) = Some i" by blast
    let ?tc = "c\<lparr>ctx_tx := True\<rparr>" and ?w2 = "w1\<lparr>tick := Suc (Suc (tick w1))\<rparr>"
    let ?now = "utc_of_ns (clock_at e (Suc (tick w1)))"
    have tc: "ctx_tx ?tc" by simp
    obtain s w3 where tx: "run_tx (transition_body u ?now tid i doc cmd ?tc) e ?w2 = (s, w3)" by fastforce
    have fin: "w' = w3 \<and> \<not> is_Ret r \<and> \<not> is_Ret s \<or> is_Ret s \<and> wdb w' = wdb w3"
      using run Ret g doc tx c keepsD [OF get_document_keeps(1)] unfolding TransitionDocument_def
      by (cases s) (auto simp: bindP_def lift_res_def NewID_def Now_def WithTx_def)
    from g doc(1) c obtain row where row: "row \<in> set (t_documents (wdb w))" "pg_eq (dr_tenant_id row) tid"
      "pg_eq (dr_id row) (td_DocumentID cmd)" "doc_Status doc = dr_status row"
      by (metis get_document_Ret)
    show thesis
    proof (cases rule: run_tx_cases [OF tx transition_body_keeps [OF tc]])
      case 1
      with fin k1 show thesis by (auto intro: unchanged)
    next
      case (2 x w4 d)
      have w0: "wtx (?w2\<lparr>tick := Suc (tick ?w2), wtx := Some (wdb ?w2, False)\<rparr>) = Some (wdb w, False)" using k1 by simp
      obtain t oid aid where "wtx w4 = Some (transition_effect u ?now tid i doc cmd t oid aid (wdb w), False)"
        using transition_body_Ret [OF 2(1) tc w0] by blast
      with 2(2,3) fin have "wdb w' = transition_effect u ?now tid i doc cmd t oid aid (wdb w)" by auto
      with Ret row doc(2) show thesis by (intro moved [of tid row doc]) auto
    qed
  qed
next
  case (Fail er)
  with run have "wdb w' = wdb w" "\<not> is_Ret r" by (auto simp: TransitionDocument_def bindP_def lift_res_def)
  then show thesis by (rule unchanged)
next
  case (Panic m)
  with run have "wdb w' = wdb w" "\<not> is_Ret r" by (auto simp: TransitionDocument_def bindP_def lift_res_def)
  then show thesis by (rule unchanged)
qed

section \<open>The invariant of the document tables\<close>

definition history :: "db \<Rightarrow> ID \<Rightarrow> document_transition_row list" where
  "history d i = filter (\<lambda>t. tr_document_id t = i) (t_document_transitions d)"

definition lines_of :: "db \<Rightarrow> ID \<Rightarrow> document_line_row list" where
  "lines_of d i = filter (\<lambda>l. lr_document_id l = i) (t_document_lines d)"

text \<open>A log that leads from one status to another by permitted moves, each from where the last one
  ended.\<close>

fun path_ok :: "Status \<Rightarrow> document_transition_row list \<Rightarrow> Status \<Rightarrow> bool" where
  "path_ok s [] u = (s = u)"
| "path_ok s (t # ts) u =
     (tr_from_status t = s \<and> ValidateTransition s (tr_to_status t) = Ret () \<and> path_ok (tr_to_status t) ts u)"

definition doc_inv :: "db \<Rightarrow> bool" where
  "doc_inv d \<longleftrightarrow>
     distinct (map dr_id (t_documents d)) \<and>
     (\<forall>t \<in> set (t_document_transitions d). tr_document_id t \<in> dr_id ` set (t_documents d)) \<and>
     (\<forall>l \<in> set (t_document_lines d). lr_document_id l \<in> dr_id ` set (t_documents d)) \<and>
     (\<forall>r \<in> set (t_documents d).
        path_ok StatusDraft (history d (dr_id r)) (dr_status r) \<and>
        dr_total_amount r = sum_list (map lr_subtotal (lines_of d (dr_id r))))"

lemma path_ok_append:
  "path_ok s ts u \<Longrightarrow> tr_from_status t = u \<Longrightarrow> ValidateTransition u (tr_to_status t) = Ret () \<Longrightarrow>
     path_ok s (ts @ [t]) (tr_to_status t)"
  by (induction ts arbitrary: s) auto

lemma path_ok_steps: "path_ok s ts u \<Longrightarrow> steps s (map tr_to_status ts) u"
  by (induction ts arbitrary: s) (auto intro: steps.intros)

lemma line_row_of_Some:
  "line_row_of l = Some row \<Longrightarrow> lr_document_id row = dl_DocumentID l \<and> lr_subtotal row = amount (dl_Subtotal l)"
  by (auto simp: line_row_of_def split: option.splits)

lemma create_effect_inv:
  assumes inv: "doc_inv d" and prep: "prepare_document u c cmd e w = (Ret (now, doc), w1)"
    and rows: "map line_row_of (doc_Lines doc) = map Some rows"
    and fresh: "\<not> list_ex (document_clash (document_row_of doc)) (t_documents d)"
  shows "doc_inv (create_effect u now cb doc rows oid aid d)"
proof -
  let ?d = "create_effect u now cb doc rows oid aid d" and ?i = "doc_ID doc"
  have new: "?i \<notin> dr_id ` set (t_documents d)"
    using fresh by (auto simp: list_ex_iff document_clash_def document_row_of_def)
  note f = prepare_Ret [OF prep]
  have len: "length rows = length (doc_Lines doc)" using rows by (metis length_map)
  have row: "lr_document_id (rows ! k) = ?i \<and> lr_subtotal (rows ! k) = amount (dl_Subtotal (doc_Lines doc ! k))"
    if "k < length rows" for k
  proof -
    have "line_row_of (doc_Lines doc ! k) = Some (rows ! k)" using rows len that by (metis nth_map)
    moreover have "dl_DocumentID (doc_Lines doc ! k) = ?i"
      using f(3) that len by (auto simp: list_all2_conv_all_nth line_ok_def)
    ultimately show ?thesis by (simp add: line_row_of_Some)
  qed
  then have all: "\<forall>l \<in> set rows. lr_document_id l = ?i" by (auto simp: in_set_conv_nth)
  have "map lr_subtotal rows = map (\<lambda>x. amount (dl_Subtotal x)) (doc_Lines doc)"
    using row len by (auto intro: nth_equalityI)
  with f(5) have tot: "amount (doc_TotalAmount doc) = sum_list (map lr_subtotal rows)" by simp
  have old: "dr_id r \<noteq> ?i" if "r \<in> set (t_documents d)" for r using new that by (metis imageI)
  have no_l: "\<forall>l \<in> set (t_document_lines d). lr_document_id l \<noteq> ?i"
    and no_t: "\<forall>t \<in> set (t_document_transitions d). tr_document_id t \<noteq> ?i"
    using inv new unfolding doc_inv_def by metis+
  have l_new: "lines_of ?d ?i = rows"
    using no_l all by (simp add: lines_of_def create_effect_def filter_empty_conv filter_id_conv)
  have l_old: "lines_of ?d j = lines_of d j" if "j \<noteq> ?i" for j
    using all that by (auto simp: lines_of_def create_effect_def)
  have h: "history ?d j = history d j" for j by (simp add: history_def create_effect_def)
  have h_new: "history d ?i = []" using no_t by (simp add: history_def filter_empty_conv)
  have docs: "t_documents ?d = t_documents d @ [document_row_of doc]"
    "t_document_transitions ?d = t_document_transitions d" "t_document_lines ?d = t_document_lines d @ rows"
    by (simp_all add: create_effect_def)
  show ?thesis
    unfolding doc_inv_def docs h
    using inv new all f(2) tot l_new l_old old h_new by (auto simp: doc_inv_def document_row_of_def)
qed

lemma transition_effect_inv:
  assumes inv: "doc_inv d" and row: "row \<in> set (t_documents d)" "pg_eq (dr_tenant_id row) tid"
      "pg_eq (dr_id row) (td_DocumentID cmd)" "doc_Status doc = dr_status row"
    and val: "ValidateTransition (dr_status row) (td_TargetStatus cmd) = Ret ()"
  shows "doc_inv (transition_effect u now tid transID doc cmd t oid aid d)"
proof -
  let ?d = "transition_effect u now tid transID doc cmd t oid aid d"
  let ?f = "\<lambda>r. if r = row then r\<lparr>dr_status := td_TargetStatus cmd, dr_updated_at := t\<rparr> else r"
  have i: "td_DocumentID cmd = dr_id row" using row(3) by (simp add: pg_eq_def)
  have dist: "distinct (map dr_id (t_documents d))" using inv by (simp add: doc_inv_def)
  have "pg_eq (dr_tenant_id r) tid \<and> pg_eq (dr_id r) (td_DocumentID cmd) \<longleftrightarrow> r = row" if "r \<in> set (t_documents d)" for r
    using distinct_map_inj [OF dist that row(1)] row(2,3) by (auto simp: pg_eq_def)
  then have docs: "t_documents ?d = map ?f (t_documents d)"
    by (simp add: transition_effect_def update_rows_def)
  have ids: "map dr_id (t_documents ?d) = map dr_id (t_documents d)" by (simp add: docs)
  then have idset: "dr_id ` set (t_documents ?d) = dr_id ` set (t_documents d)" by (metis set_map)
  have ls: "t_document_lines ?d = t_document_lines d" "lines_of ?d j = lines_of d j" for j
    by (simp_all add: transition_effect_def lines_of_def)
  obtain tr where tr: "t_document_transitions ?d = t_document_transitions d @ [tr]" "tr_document_id tr = dr_id row"
    "tr_from_status tr = dr_status row" "tr_to_status tr = td_TargetStatus cmd"
    using row(4) i by (simp add: transition_effect_def)
  have h: "history ?d j = history d j @ (if j = dr_id row then [tr] else [])" for j
    using tr by (simp add: history_def)
  have "path_ok StatusDraft (history ?d (dr_id r)) (dr_status r) \<and>
      dr_total_amount r = sum_list (map lr_subtotal (lines_of ?d (dr_id r)))" if "r \<in> set (t_documents ?d)" for r
  proof -
    from that obtain r0 where r0: "r0 \<in> set (t_documents d)" "r = ?f r0" by (auto simp: docs)
    have p0: "path_ok StatusDraft (history d (dr_id r0)) (dr_status r0)"
      "dr_total_amount r0 = sum_list (map lr_subtotal (lines_of d (dr_id r0)))"
      using inv r0(1) by (auto simp: doc_inv_def)
    show ?thesis
    proof (cases "r0 = row")
      case True
      then show ?thesis using p0 r0(2) tr val path_ok_append [OF p0(1), of tr] by (simp add: h ls)
    next
      case False
      then have "dr_id r0 \<noteq> dr_id row" using distinct_map_inj [OF dist r0(1) row(1)] by blast
      with False p0 r0(2) show ?thesis by (simp add: h ls)
    qed
  qed
  then show ?thesis
    using inv row(1) unfolding doc_inv_def ids idset ls tr(1) by (auto simp: tr(2))
qed

section \<open>Reachable databases\<close>

text \<open>Any sequence of calls, successful or not, from empty document tables; everything else that
  happens in between leaves these tables alone.\<close>

inductive doc_run :: "db world \<Rightarrow> bool" where
  run_init: "t_documents (wdb w) = [] \<Longrightarrow> t_document_lines (wdb w) = [] \<Longrightarrow>
     t_document_transitions (wdb w) = [] \<Longrightarrow> doc_run w"
| run_create: "doc_run w \<Longrightarrow> CreateDocument u (pool_ctx c) cmd e w = (r, w') \<Longrightarrow> doc_run w'"
| run_transition: "doc_run w \<Longrightarrow> TransitionDocument u (pool_ctx c) tcmd e w = (r', w') \<Longrightarrow> doc_run w'"
| run_other: "doc_run w \<Longrightarrow> t_documents (wdb w') = t_documents (wdb w) \<Longrightarrow>
     t_document_lines (wdb w') = t_document_lines (wdb w) \<Longrightarrow>
     t_document_transitions (wdb w') = t_document_transitions (wdb w) \<Longrightarrow> doc_run w'"

lemma doc_inv_cong:
  "t_documents d' = t_documents d \<Longrightarrow> t_document_lines d' = t_document_lines d \<Longrightarrow>
   t_document_transitions d' = t_document_transitions d \<Longrightarrow> doc_inv d' = doc_inv d"
  by (simp add: doc_inv_def history_def lines_of_def)

lemma seq_only_tables:
  "seq_only d d' \<Longrightarrow> t_documents d' = t_documents d \<and> t_document_lines d' = t_document_lines d \<and>
     t_document_transitions d' = t_document_transitions d"
proof -
  assume "seq_only d d'"
  then have e: "d' = d\<lparr>t_number_sequences := t_number_sequences d'\<rparr>" by (simp add: seq_only_def)
  show ?thesis
    using arg_cong [OF e, of t_documents] arg_cong [OF e, of t_document_lines] arg_cong [OF e, of t_document_transitions]
    by simp
qed

lemma doc_run_inv: "doc_run w \<Longrightarrow> doc_inv (wdb w)"
proof (induction rule: doc_run.induct)
  case (run_init w)
  then show ?case by (simp add: doc_inv_def)
next
  case (run_create w u c cmd e r w')
  have c: "\<not> ctx_tx (pool_ctx c)" by simp
  show ?case
  proof (cases rule: create_cases [OF run_create.hyps(2) c])
    case 1
    with run_create.IH seq_only_tables [OF 1(1)] show ?thesis by (simp cong: doc_inv_cong)
  next
    case (2 d now doc rows oid aid w1)
    from seq_only_tables [OF 2(1)] have "doc_inv d" using run_create.IH by (simp cong: doc_inv_cong)
    from create_effect_inv [OF this 2(2,4,5)] 2(3) show ?thesis by simp
  qed
next
  case (run_transition w u c tcmd e r' w')
  have c: "\<not> ctx_tx (pool_ctx c)" by simp
  show ?case
  proof (cases rule: transition_cases [OF run_transition.hyps(2) c])
    case 1
    with run_transition.IH show ?thesis by simp
  next
    case (2 tid row transID now doc t oid aid)
    from transition_effect_inv [OF run_transition.IH 2(2-6)] 2(7) show ?thesis by simp
  qed
next
  case (run_other w w')
  then show ?case by (simp cong: doc_inv_cong)
qed

end
