(* ===== verification/DocumentProps.thy ===== *)
theory DocumentProps
  imports DocumentRuns
begin

text \<open>
  What the document use cases promise over whole runs: creation and transition are atomic,
  the log of every document is a walk through the workflow from \<open>draft\<close> to its current status, the
  total is the sum of the lines, the audit log only grows, and a tenant writes only its own
  rows. The examples at the start are the worlds in which the properties are exercised.
\<close>

section \<open>Examples\<close>

definition full_usecase :: doc_usecase where
  "full_usecase = \<lparr>du_audit = True, du_outbox = True, du_seq = True\<rparr>"

definition ex_org :: "ID \<Rightarrow> ID \<Rightarrow> string \<Rightarrow> organization_row" where
  "ex_org i t name = \<lparr>or_id = i, or_tenant_id = t, or_parent_id = None, or_code = ''hq'', or_name = name,
     or_legal_name = None, or_type = ''company'', or_status = ''active'', or_settings = JObj [],
     or_created_at = 0, or_updated_at = 0\<rparr>"

definition ex_world :: "db world" where
  "ex_world = \<lparr>wdb = example_db\<lparr>t_organizations := [ex_org 70 5 ''Acme'', ex_org 80 6 ''Rival secret holding''],
      t_units := [\<lparr>ur_id = 90, ur_tenant_id = 5, ur_code = ''PCS'', ur_name = ''Pieces'', ur_symbol = ''pcs'',
        ur_category = ''quantity'', ur_precision = 0, ur_status = ''active'', ur_created_at = 0, ur_updated_at = 0\<rparr>]\<rparr>, wtx = None, tick = 100\<rparr>"

definition ex_ctx :: "ID \<Rightarrow> ctx" where
  "ex_ctx t = WithTenantID Background t"

definition ex_line :: CreateDocumentLineInput where
  "ex_line = \<lparr>li_ProductID = None, li_Description = ''Bolts'', li_Quantity = Fin 3, li_UnitID = 90,
     li_UnitPrice = \<lparr>amount = 250, currency = ''USD''\<rparr>, li_Metadata = None\<rparr>"

definition ex_cmd :: "ID \<Rightarrow> string \<Rightarrow> CreateDocumentCommand" where
  "ex_cmd org num = \<lparr>cd_OrganizationID = org, cd_DocumentType = ''invoice'', cd_DocumentNumber = num,
     cd_DocumentDate = None, cd_PartyID = None, cd_Currency = ''USD'', cd_Notes = [], cd_Metadata = None,
     cd_Lines = [ex_line], cd_CreatedBy = None\<rparr>"

definition ex_created :: "Document res \<times> db world" where
  "ex_created = CreateDocument full_usecase (ex_ctx 5) (ex_cmd 70 ''X1'') (example_env 0) ex_world"

definition ex_doc_id :: "Document res \<times> db world \<Rightarrow> ID" where
  "ex_doc_id x = (case x of (Ret d, _) \<Rightarrow> doc_ID d | _ \<Rightarrow> NilID)"

definition ex_tcmd :: "ID \<Rightarrow> Status \<Rightarrow> TransitionDocumentCommand" where
  "ex_tcmd i st = \<lparr>td_DocumentID = i, td_TargetStatus = st, td_Reason = [], td_ActorID = None\<rparr>"

definition ex_moved :: "Document res \<times> db world" where
  "ex_moved = TransitionDocument full_usecase (ex_ctx 5) (ex_tcmd (ex_doc_id ex_created) StatusSubmitted)
     (example_env 0) (snd ex_created)"

lemma ex_ctx_pool: "ex_ctx t = pool_ctx (ex_ctx t)"
  by (simp add: ex_ctx_def pool_ctx_def WithTenantID_def Background_def)

lemma ex_run: "doc_run (snd ex_moved)"
proof -
  obtain r w where 1: "ex_created = (r, w)" by fastforce
  obtain r' w' where 2: "ex_moved = (r', w')" by fastforce
  have "doc_run ex_world" by (rule run_init) (simp_all add: ex_world_def example_db_def)
  from run_create [OF this] 1 have "doc_run w" using ex_ctx_pool unfolding ex_created_def by metis
  from run_transition [OF this] 1 2 have "doc_run w'" using ex_ctx_pool unfolding ex_moved_def by (metis snd_conv)
  then show ?thesis by (simp add: 2)
qed

lemmas ex_defs = ex_ctx_def ex_cmd_def ex_world_def ex_org_def ex_line_def ex_tcmd_def full_usecase_def
  example_db_def example_env_def WithTenantID_def GetTenantID_def Background_def RequireTenantID_def NilID_def

lemmas ex_steps = proc_eval CreateDocument_def prepare_document_def document_number_def must_not_exist_def
  repo_GetDocumentByNumber_def sql_GetDocumentByNumber_def joined_documents_def sql_one_def
  document_currency_def create_body_def repo_CreateDocument_def sql_CreateDocument_def document_row_of_def
  insert_row_def document_clash_def repo_CreateLines_def repo_CreateLine_def sql_CreateDocumentLine_def
  line_row_of_def line_clash_def outbox_Create_def sql_CreateOutboxEvent_def outbox_row_of_def
  outbox_clash_def audit_Create_def sql_CreateAuditLog_def audit_row_of_def audit_clash_def
  created_event_def created_audit_def line_price_def

lemmas ex_reads = proc_eval ex_defs TransitionDocument_def GetDocumentByID_def repo_GetDocumentByID_def
  sql_GetDocumentByID_def joined_documents_def sql_one_def org_of_def party_name_of_def pg_eq_def
  complete_document_def toDomainDocument_def repo_ListLines_def sql_ListDocumentLines_def line_of_row_def
  repo_ListTransitions_def sql_ListDocumentTransitions_def transition_body_def repo_UpdateDocumentStatus_def
  sql_UpdateDocumentStatus_def update_returning_def update_rows_def repo_RecordTransition_def
  sql_CreateDocumentTransition_def transition_row_of_def transition_clash_def insert_row_def
  outbox_Create_def sql_CreateOutboxEvent_def outbox_row_of_def outbox_clash_def audit_Create_def
  sql_CreateAuditLog_def audit_row_of_def audit_clash_def transitioned_event_def transitioned_audit_def
  map_filter_simps

lemma ex_trims:
  "TrimSpace ''X1'' = ''X1''" "TrimSpace ''USD'' = ''USD''" "TrimSpace ''IDR'' = ''IDR''"
  "TrimSpace ''Bolts'' = ''Bolts''"
  by code_simp+

lemma ex_money:
  "MustNewMoney a ''USD'' = Ret \<lparr>amount = a, currency = ''USD''\<rparr>"
  "MustNewMoney a ''IDR'' = Ret \<lparr>amount = a, currency = ''IDR''\<rparr>"
  "ZeroMoney ''USD'' = Ret \<lparr>amount = 0, currency = ''USD''\<rparr>"
  by (simp_all add: ZeroMoney_def MustNewMoney_def NewMoney_def ToUpper_def upper_char_def ex_trims)

lemma ex_product:
  "Money_MultiplyFloat (\<lambda>_. 0) \<lparr>amount = 250, currency = ''USD''\<rparr> (Fin 3) = \<lparr>amount = 750, currency = ''USD''\<rparr>"
  using MultiplyFloat_integral [of "\<lparr>amount = 250, currency = ''USD''\<rparr>" 3 "\<lambda>_. 0"]
  by (simp add: f_of_int_exact Money_Multiply_def)

lemma ex_positive: "\<not> f_le (Fin 3) (Fin 0)"
  by code_simp

lemma ex_quantity: "floatToNumeric (Fin 3) = Some (PgNum 3)" "decimal 4 (PgNum 3) = PgNum 3"
  by (simp_all add: round_half_even_def floor_eq_iff)

lemma ex_move: "ValidateTransition StatusDraft StatusSubmitted = Ret ()"
  by (simp add: ValidateTransition_iff AllowedTransitions_def validTransitions_def status_defs)

lemmas ex_eval = ex_steps ex_reads ex_trims ex_money ex_product ex_positive Money_Add_def ex_quantity ex_move or_empty_def id_of_ptr_def ptr_of_str_def
  json_of_map_def OutboxStatusPending_def ex_created_def ex_moved_def ex_doc_id_def

lemma ex_rows: "t_documents (wdb (snd ex_moved)) \<noteq> []"
  by (simp add: ex_eval del: floatToNumeric.simps decimal.simps cong: proc_congs)

section \<open>Properties\<close>

text \<open>C1. Creating a document is all or nothing. Whatever the server refuses and whichever reply is
  lost, a call of \<open>CreateDocument\<close> either leaves every table but the number sequences as it was
  and returns an error or panics, or has stored the document, all its lines, the outbox event
  and the audit record together; then it returns the document, or an error when only the reply
  to the commit was lost.\<close>

theorem create_document_atomic:
  "\<exists>r w'. CreateDocument u (pool_ctx c) cmd e w = (r, w') \<and>
     (seq_only (wdb w) (wdb w') \<and> \<not> is_Ret r \<or>
      (\<exists>d now doc rows outboxID auditID.
         seq_only (wdb w) d \<and>
         wdb w' = create_effect u now (cd_CreatedBy cmd) doc rows outboxID auditID d \<and>
         map line_row_of (doc_Lines doc) = map Some rows \<and> doc_Status doc = StatusDraft \<and>
         length rows = length (cd_Lines cmd) \<and>
         ((\<exists>t1 t2 ls. r = Ret (doc\<lparr>doc_CreatedAt := t1, doc_UpdatedAt := t2, doc_Lines := ls\<rparr>)) \<or>
          r = Fail (Opaque ''database''))))"
proof -
  obtain r w' where run: "CreateDocument u (pool_ctx c) cmd e w = (r, w')" by fastforce
  have c: "\<not> ctx_tx (pool_ctx c)" by simp
  show ?thesis
  proof (cases rule: create_cases [OF run c])
    case 1
    with run show ?thesis by blast
  next
    case (2 d now doc rows oid aid w1)
    have "length rows = length (cd_Lines cmd)"
      using prepare_Ret(3) [OF 2(2)] 2(4) by (metis length_map list_all2_lengthD)
    with 2 prepare_Ret(2) [OF 2(2)] run show ?thesis by blast
  qed
qed

text \<open>C2. A transition is all or nothing and follows the workflow. A call of \<open>TransitionDocument\<close>
  leaves the database as it was and returns an error, or it has found the document of the
  tenant in a status from which the target is permitted and has changed its status, appended
  the transition from that status to the target, the outbox event and the audit record.\<close>

theorem transition_document_atomic:
  "\<exists>r w'. TransitionDocument u (pool_ctx c) cmd e w = (r, w') \<and>
     (wdb w' = wdb w \<and> \<not> is_Ret r \<or>
      (\<exists>tid row transID now doc t outboxID auditID.
         RequireTenantID (pool_ctx c) = Ret tid \<and> row \<in> set (t_documents (wdb w)) \<and> dr_tenant_id row = tid \<and>
         dr_id row = td_DocumentID cmd \<and> doc_Status doc = dr_status row \<and>
         td_TargetStatus cmd \<in> set (AllowedTransitions (dr_status row)) \<and>
         wdb w' = transition_effect u now tid transID doc cmd t outboxID auditID (wdb w)))"
proof -
  obtain r w' where run: "TransitionDocument u (pool_ctx c) cmd e w = (r, w')" by fastforce
  have c: "\<not> ctx_tx (pool_ctx c)" by simp
  show ?thesis
  proof (cases rule: transition_cases [OF run c])
    case 1
    with run show ?thesis by blast
  next
    case (2 tid row transID now doc t oid aid)
    moreover have "dr_tenant_id row = tid" "dr_id row = td_DocumentID cmd" using 2(3,4) by (auto simp: pg_eq_def)
    ultimately show ?thesis using run unfolding ValidateTransition_iff by blast
  qed
qed

text \<open>C3. The history of every document. After any calls of \<open>CreateDocument\<close> and \<open>TransitionDocument\<close>,
  one after the other, with any faults, the logged transitions of a document lead from \<open>draft\<close>
  to its current status by permitted moves, each starting where the one before ended.\<close>

theorem document_history:
  assumes "doc_run w" and "row \<in> set (t_documents (wdb w))"
  shows "path_ok StatusDraft (history (wdb w) (dr_id row)) (dr_status row) \<and>
    steps StatusDraft (map tr_to_status (history (wdb w) (dr_id row))) (dr_status row)"
  using doc_run_inv [OF assms(1)] assms(2) path_ok_steps unfolding doc_inv_def by blast

theorem document_history_witness:
  "path_ok StatusDraft (history (wdb (snd ex_moved)) (dr_id (hd (t_documents (wdb (snd ex_moved))))))
     (dr_status (hd (t_documents (wdb (snd ex_moved)))))"
  using document_history [OF ex_run hd_in_set [OF ex_rows]] ..

text \<open>C12. The total of every stored document is the sum, modulo \<open>2^64\<close>, of the subtotals of its stored
  lines.\<close>

theorem document_total:
  assumes "doc_run w" and "row \<in> set (t_documents (wdb w))"
  shows "dr_total_amount row = sum_list (map lr_subtotal (lines_of (wdb w) (dr_id row)))"
  using doc_run_inv [OF assms(1)] assms(2) unfolding doc_inv_def by blast

theorem document_total_witness:
  "dr_total_amount (hd (t_documents (wdb (snd ex_moved))))
   = sum_list (map lr_subtotal (lines_of (wdb (snd ex_moved)) (dr_id (hd (t_documents (wdb (snd ex_moved)))))))"
  by (rule document_total [OF ex_run hd_in_set [OF ex_rows]])


text \<open>C4. Tenants are isolated in their writes: creating or moving a document under a tenant leaves the
  rows of every other tenant, in every table, exactly as they were, even when the call fails.\<close>

theorem document_tenant_isolation:
  assumes "RequireTenantID c = Ret t"
  shows "tenant_frame t (wdb w) (wdb (snd (CreateDocument u c cmd e w))) \<and>
    tenant_frame t (wdb w) (wdb (snd (TransitionDocument u c tcmd e w)))"
  using staysD [OF tenant_rows.stays_CreateDocument [of c t], of u cmd e w]
    staysD [OF tenant_rows.stays_TransitionDocument [of c t], of u tcmd e w] assms
  by (metis prod.collapse res.inject(1))

theorem document_tenant_isolation_witness:
  "tenant_frame 5 (wdb ex_world) (wdb (snd (CreateDocument full_usecase (ex_ctx 5) (ex_cmd 70 []) (example_env 0) ex_world)))"
  using document_tenant_isolation [of "ex_ctx 5" 5 ex_world full_usecase "ex_cmd 70 []" "example_env 0"]
  by (simp add: ex_ctx_def WithTenantID_def RequireTenantID_Ret_iff NilID_def)


text \<open>Lines are read back in \<open>IDR\<close> whatever the currency of the document: after a document in
  \<open>USD\<close> is stored, its total is read in \<open>USD\<close> and its lines in \<open>IDR\<close>.\<close>

theorem line_currency_lost:
  "(case fst (GetDocumentByID (ex_ctx 5) (ex_doc_id ex_created) (example_env 0) (snd ex_created)) of
      Ret d \<Rightarrow> doc_TotalAmount d = \<lparr>amount = 750, currency = ''USD''\<rparr> \<and>
        map dl_Subtotal (doc_Lines d) = [\<lparr>amount = 750, currency = ''IDR''\<rparr>]
    | _ \<Rightarrow> False)"
  by (simp add: ex_eval del: floatToNumeric.simps decimal.simps cong: proc_congs)

end
