(* ===== verification/EventBus.thy ===== *)
theory EventBus
  imports OutboxAudit "HOL-Library.Multiset"
begin

text \<open>
  \<open>pkg/eventbus/eventbus.go\<close>: the in-memory bus. Handlers are foreign code, arbitrary procedures
  on the world that may fail or panic. The \<open>range\<close> over the map of handlers visits its entries
  in any order, given as the argument \<open>it\<close>.
\<close>

type_synonym 'db handler = "ctx \<Rightarrow> BaseEvent \<Rightarrow> ('db, unit) proc"

type_synonym 'h bus = "(string \<times> 'h list) list"

definition NewInMemoryBus :: "'h bus" where
  "NewInMemoryBus = []"

definition Subscribe :: "string \<Rightarrow> 'h \<Rightarrow> 'h bus \<Rightarrow> 'h bus" where
  "Subscribe eventType h b = append_at eventType h b"

text \<open>The branches of the second loop of \<open>Publish\<close>.\<close>

definition wildcard_match :: "string \<Rightarrow> string \<Rightarrow> bool" where
  "wildcard_match pattern eventType \<longleftrightarrow>
     (if pattern = ''*'' then True
      else case CutSuffix pattern ''.*'' of
             Some before \<Rightarrow> HasPrefix eventType (before @ ''.'')
           | None \<Rightarrow> False)"

definition targets :: "'h bus \<Rightarrow> 'h bus \<Rightarrow> string \<Rightarrow> 'h list" where
  "targets it b eventType =
     get_at b eventType @ concat (map (\<lambda>(pattern, hs). if wildcard_match pattern eventType then hs else []) it)"

definition executeHandlerSafely :: "'db handler \<Rightarrow> 'db handler" where
  "executeHandlerSafely h c ev = (\<lambda>e w. case h c ev e w of
     (Panic p, w1) \<Rightarrow> (Fail (Opaque ''handler panic''), w1) | r \<Rightarrow> r)"

fun run_handlers :: "'db handler list \<Rightarrow> ctx \<Rightarrow> BaseEvent \<Rightarrow> ('db, err list) proc" where
  "run_handlers [] c ev = ret []"
| "run_handlers (h # hs) c ev =
     bindP (tryP (executeHandlerSafely h c ev)) (\<lambda>r.
     bindP (run_handlers hs c ev) (\<lambda>errs.
     ret (case r of Fail er \<Rightarrow> er # errs | _ \<Rightarrow> errs)))"

definition Publish :: "'db handler bus \<Rightarrow> 'db handler bus \<Rightarrow> 'db handler" where
  "Publish it b c ev =
     bindP (run_handlers (targets it b (be_Type ev)) c ev) (\<lambda>errs.
     guard (errs = [])
       (Opaque (''event handling errors: '' @ fmt_d (int (length errs)) @ '' handler(s) failed'')))"

section \<open>Which handlers get an event\<close>

text \<open>The bus after a list of subscriptions.\<close>

definition bus_of :: "(string \<times> 'h) list \<Rightarrow> 'h bus" where
  "bus_of subs = foldl (\<lambda>b (p, h). Subscribe p h b) NewInMemoryBus subs"

lemma bus_of_snoc [simp]: "bus_of (subs @ [(p, h)]) = append_at p h (bus_of subs)"
  by (simp add: bus_of_def Subscribe_def)

lemma bus_of_Nil [simp]: "bus_of [] = []"
  by (simp add: bus_of_def NewInMemoryBus_def)

lemma bus_of_keys: "distinct (map fst (bus_of subs))"
  by (induction subs rule: rev_induct) (auto intro: distinct_append_at)

lemma get_bus_of: "get_at (bus_of subs) t = map snd (filter (\<lambda>(p, h). p = t) subs)"
  by (induction subs rule: rev_induct) auto

definition wild_handlers :: "string \<Rightarrow> 'h bus \<Rightarrow> 'h multiset" where
  "wild_handlers t b = mset (concat (map (\<lambda>(p, hs). if wildcard_match p t then hs else []) b))"

lemma wild_handlers_append_at:
  "wild_handlers t (append_at p h b) = (if wildcard_match p t then {#h#} else {#}) + wild_handlers t b"
  by (induction p h b rule: append_at.induct) (auto simp: wild_handlers_def)

lemma wild_handlers_bus_of:
  "wild_handlers t (bus_of subs) = mset (map snd (filter (\<lambda>(p, h). wildcard_match p t) subs))"
proof (induction subs rule: rev_induct)
  case (snoc x subs)
  then show ?case by (cases x) (simp add: wild_handlers_append_at)
qed (simp add: wild_handlers_def)

lemma wild_handlers_perm: "mset it = mset b \<Longrightarrow> wild_handlers t it = wild_handlers t b"
  unfolding wild_handlers_def mset_concat map_map by (metis (no_types, lifting) mset_map sum_mset_sum_list)

text \<open>Counted with multiplicity: once by the exact match and once by each wildcard.\<close>

lemma targets_bus_of:
  assumes "mset it = mset (bus_of subs)"
  shows "mset (targets it (bus_of subs) t) =
    mset (map snd (filter (\<lambda>(p, h). p = t) subs)) + mset (map snd (filter (\<lambda>(p, h). wildcard_match p t) subs))"
proof -
  have "mset (targets it (bus_of subs) t) = mset (get_at (bus_of subs) t) + wild_handlers t it"
    by (simp add: targets_def wild_handlers_def)
  then show ?thesis
    by (simp add: get_bus_of wild_handlers_perm [OF assms] wild_handlers_bus_of)
qed

text \<open>An event type that is no pattern itself.\<close>

definition plain_type :: "string \<Rightarrow> bool" where
  "plain_type t \<longleftrightarrow> \<not> wildcard_match t t"

lemma filter_disjoint_mset:
  "(\<And>x. \<not> (P x \<and> Q x)) \<Longrightarrow> mset (map f (filter P xs)) + mset (map f (filter Q xs)) = mset (map f (filter (\<lambda>x. P x \<or> Q x) xs))"
  by (induction xs) auto

section \<open>Running the handlers\<close>

text \<open>The handlers one after the other, each on the world the one before left: the last world and
  all the results.\<close>

fun handler_results :: "'db handler list \<Rightarrow> ctx \<Rightarrow> BaseEvent \<Rightarrow> env \<Rightarrow> 'db world \<Rightarrow> unit res list \<times> 'db world" where
  "handler_results [] c ev e w = ([], w)"
| "handler_results (h # hs) c ev e w =
     (case h c ev e w of (r, w1) \<Rightarrow> case handler_results hs c ev e w1 of (rs, w2) \<Rightarrow> (r # rs, w2))"

definition failed_results :: "unit res list \<Rightarrow> unit res list" where
  "failed_results rs = filter (\<lambda>r. \<not> is_Ret r) rs"

lemma run_handlers_runs:
  "\<exists>errs. run_handlers hs c ev e w = (Ret errs, snd (handler_results hs c ev e w)) \<and>
     length errs = length (failed_results (fst (handler_results hs c ev e w)))"
proof (induction hs arbitrary: w)
  case (Cons h hs)
  obtain r w1 where h: "h c ev e w = (r, w1)" by fastforce
  obtain rs w2 where t: "handler_results hs c ev e w1 = (rs, w2)" by fastforce
  from Cons.IH [of w1] show ?case
    by (cases r) (auto simp: bindP_def tryP_def executeHandlerSafely_def ret_def h t failed_results_def)
qed (simp add: ret_def failed_results_def)

lemma Publish_eq:
  "Publish it b c ev e w =
     (case handler_results (targets it b (be_Type ev)) c ev e w of (rs, w') \<Rightarrow>
        (if failed_results rs = [] then Ret ()
         else Fail (Opaque (''event handling errors: '' @ fmt_d (int (length (failed_results rs))) @
                '' handler(s) failed'')), w'))"
proof -
  obtain rs w' where r: "handler_results (targets it b (be_Type ev)) c ev e w = (rs, w')" by fastforce
  with run_handlers_runs [of "targets it b (be_Type ev)" c ev e w] obtain errs
    where "run_handlers (targets it b (be_Type ev)) c ev e w = (Ret errs, w')"
      and "length errs = length (failed_results rs)" by auto
  moreover then have "errs = [] \<longleftrightarrow> failed_results rs = []" by (metis length_0_conv)
  ultimately show ?thesis by (simp add: Publish_def bindP_def guard_def ret_def fail_def r)
qed

section \<open>Properties\<close>



text \<open>Handlers are isolated from each other. \<open>Publish\<close> runs every target in turn whatever the
  ones before did, never panics, and returns an error exactly when some handler failed or
  panicked, with their number in its text.\<close>

theorem publish_runs_all:
  "Publish it b c ev e w =
     (case handler_results (targets it b (be_Type ev)) c ev e w of (rs, w') \<Rightarrow>
        (if failed_results rs = [] then Ret ()
         else Fail (Opaque (''event handling errors: '' @ fmt_d (int (length (failed_results rs))) @
                '' handler(s) failed'')), w'))"
  by (rule Publish_eq)

end
