(* ===== verification/IamTables.thy ===== *)
theory IamTables
  imports OutboxAudit
begin

text \<open>
  The tables of tenants, users, roles and machine accounts, after migrations 1, 8 and 13. No
  statement of the program touches them together with the tables of \<open>Tables\<close>, so they form a
  database record of their own. An insertion checks the foreign keys of the row; \<open>ON DELETE CASCADE\<close>
  is part of the deletion of the referenced row where the program deletes such rows (service
  accounts). The texts of constraint errors are not kept.
\<close>

record tenant_row =
  tn_id :: ID
  tn_code :: string
  tn_name :: string
  tn_status :: string
  tn_settings :: json
  tn_created_at :: int
  tn_updated_at :: int

record user_row =
  us_id :: ID
  us_email :: string
  us_password_hash :: string
  us_name :: string
  us_status :: string
  us_created_at :: int
  us_updated_at :: int

record tenant_user_row =
  tu_id :: ID
  tu_tenant_id :: ID
  tu_user_id :: ID
  tu_status :: string
  tu_joined_at :: int

record role_row =
  ro_id :: ID
  ro_tenant_id :: ID
  ro_code :: string
  ro_name :: string
  ro_description :: "string option"
  ro_is_system :: bool
  ro_created_at :: int
  ro_updated_at :: int

record permission_row =
  pm_id :: ID
  pm_code :: string
  pm_name :: string
  pm_category :: string
  pm_description :: "string option"

record role_permission_row =
  rp_role_id :: ID
  rp_permission_id :: ID

record user_role_row =
  ux_tenant_id :: ID
  ux_user_id :: ID
  ux_role_id :: ID

record service_account_row =
  sv_id :: ID
  sv_tenant_id :: ID
  sv_name :: string
  sv_description :: "string option"
  sv_role_id :: "ID option"
  sv_status :: string
  sv_created_at :: int
  sv_updated_at :: int

record api_key_row =
  ky_id :: ID
  ky_tenant_id :: ID
  ky_service_account_id :: ID
  ky_name :: string
  ky_key_prefix :: string
  ky_key_hash :: string
  ky_scopes :: json
  ky_ip_allowlist :: "json option"
  ky_status :: string
  ky_expires_at :: "int option"
  ky_last_used_at :: "int option"
  ky_last_used_ip :: "string option"
  ky_created_at :: int
  ky_revoked_at :: "int option"

record iam_db =
  t_tenants :: "tenant_row list"
  t_users :: "user_row list"
  t_tenant_users :: "tenant_user_row list"
  t_roles :: "role_row list"
  t_permissions :: "permission_row list"
  t_role_permissions :: "role_permission_row list"
  t_user_roles :: "user_role_row list"
  t_service_accounts :: "service_account_row list"
  t_api_keys :: "api_key_row list"

definition empty_iam :: iam_db where
  "empty_iam = \<lparr>t_tenants = [], t_users = [], t_tenant_users = [], t_roles = [], t_permissions = [],
     t_role_permissions = [], t_user_roles = [], t_service_accounts = [], t_api_keys = []\<rparr>"

definition has_tenant :: "iam_db \<Rightarrow> ID \<Rightarrow> bool" where
  "has_tenant d i \<longleftrightarrow> i \<noteq> NilID \<and> i \<in> tn_id ` set (t_tenants d)"

definition has_user :: "iam_db \<Rightarrow> ID \<Rightarrow> bool" where
  "has_user d i \<longleftrightarrow> i \<noteq> NilID \<and> i \<in> us_id ` set (t_users d)"

definition has_role :: "iam_db \<Rightarrow> ID \<Rightarrow> bool" where
  "has_role d i \<longleftrightarrow> i \<noteq> NilID \<and> i \<in> ro_id ` set (t_roles d)"

definition has_permission :: "iam_db \<Rightarrow> ID \<Rightarrow> bool" where
  "has_permission d i \<longleftrightarrow> i \<noteq> NilID \<and> i \<in> pm_id ` set (t_permissions d)"

definition has_account :: "iam_db \<Rightarrow> ID \<Rightarrow> bool" where
  "has_account d i \<longleftrightarrow> i \<noteq> NilID \<and> i \<in> sv_id ` set (t_service_accounts d)"

type_synonym 'a iamproc = "(iam_db, 'a) proc"

text \<open>A \<open>[]string\<close> in a \<open>jsonb\<close> column. Decoding leaves an element of another type empty.\<close>

definition json_of_strs :: "string list \<Rightarrow> json" where
  "json_of_strs ss = JArr (map JStr ss)"

definition strs_of_json :: "json \<Rightarrow> string list option" where
  "strs_of_json j = (case j of JArr xs \<Rightarrow> Some (map (\<lambda>x. case x of JStr s \<Rightarrow> s | _ \<Rightarrow> []) xs) | _ \<Rightarrow> None)"

lemma strs_of_json_of_strs [simp]: "strs_of_json (json_of_strs ss) = Some ss"
  by (simp add: strs_of_json_def json_of_strs_def comp_def)

end
