(* ===== verification/Registry.thy ===== *)
theory Registry
  imports EventBus IamTables "HOL-Library.List_Lexorder" "HOL-Library.Char_ord"
begin

text \<open>
  \<open>pkg/module/registry.go\<close>: registration of modules, the initialisation order by Kahn's
  algorithm, initialisation, permissions, event subscriptions and shutdown. A module is foreign
  code: its manifest is static, as its documentation says, and the results of its \<open>Init\<close> and
  \<open>Shutdown\<close> are given. A \<open>range\<close> over a map visits its entries in any order, which is an
  argument. Strings are ordered bytewise, as \<open>sort.Strings\<close> does.
\<close>

section \<open>Data\<close>

record Manifest =
  mf_Name :: string
  mf_Version :: string
  mf_Title :: string
  mf_DependsOn :: "string list"

record PermissionDefinition =
  pd_Code :: string
  pd_Name :: string
  pd_Category :: string
  pd_Description :: string

record 'db Module =
  mod_Manifest :: Manifest
  mod_Init :: "err option"
  mod_Permissions :: "PermissionDefinition list"
  mod_Subscriptions :: "(string \<times> 'db handler) list"
  mod_Shutdown :: "err option"

type_synonym 'db modules = "(string \<times> 'db Module) list"

record 'db Registry =
  reg_modules :: "'db modules"
  reg_order :: "'db Module list"

definition NewRegistry :: "'db Registry" where
  "NewRegistry = \<lparr>reg_modules = [], reg_order = []\<rparr>"

section \<open>Registration and lookup\<close>

definition Register :: "'db Module option \<Rightarrow> 'db Registry \<Rightarrow> unit res \<times> 'db Registry" where
  "Register m r =
     (case m of None \<Rightarrow> (Fail (Wrapped ''module cannot be nil'' ErrInvalidManifest), r)
      | Some md \<Rightarrow>
          let name = mf_Name (mod_Manifest md)
          in if name = [] then (Fail (Wrapped ''module name cannot be empty'' ErrInvalidManifest), r)
             else if map_of (reg_modules r) name \<noteq> None then (Fail (Wrapped name ErrDuplicateModule), r)
             else (Ret (), r\<lparr>reg_modules := reg_modules r @ [(name, md)]\<rparr>))"

definition Registry_Get :: "'db Registry \<Rightarrow> string \<Rightarrow> 'db Module option" where
  "Registry_Get r name = map_of (reg_modules r) name"

definition Registry_Count :: "'db Registry \<Rightarrow> nat" where
  "Registry_Count r = length (reg_modules r)"

definition Registry_List :: "'db Registry \<Rightarrow> Manifest list" where
  "Registry_List r =
     (if reg_order r \<noteq> [] then map mod_Manifest (reg_order r)
      else map (\<lambda>k. mod_Manifest (the (map_of (reg_modules r) k))) (sort (map fst (reg_modules r))))"

section \<open>Kahn's algorithm\<close>

definition deps_of :: "'db modules \<Rightarrow> string \<Rightarrow> string list" where
  "deps_of ms n = (case map_of ms n of None \<Rightarrow> [] | Some m \<Rightarrow> mf_DependsOn (mod_Manifest m))"

text \<open>The loop over the dependencies of one module, then the loop over the modules. The graph is the
  pair of \<open>dependents\<close> and \<open>inDegree\<close>.\<close>

type_synonym graph = "(string \<times> string list) list \<times> (string \<Rightarrow> int)"

fun add_deps :: "'db modules \<Rightarrow> string \<Rightarrow> string list \<Rightarrow> graph \<Rightarrow> graph res" where
  "add_deps ms name [] g = Ret g"
| "add_deps ms name (dep # ds) (dependents, inDegree) =
     (if map_of ms dep = None then Fail (Wrapped ''module depends on missing module'' ErrModuleNotFound)
      else add_deps ms name ds (append_at dep name dependents, inDegree(name := inDegree name + 1)))"

fun build_graph :: "'db modules \<Rightarrow> 'db modules \<Rightarrow> graph \<Rightarrow> graph res" where
  "build_graph ms [] g = Ret g"
| "build_graph ms ((name, m) # it) g =
     bind_res (add_deps ms name (mf_DependsOn (mod_Manifest m)) g) (build_graph ms it)"

fun release :: "string list \<Rightarrow> (string \<Rightarrow> int) \<Rightarrow> string list \<Rightarrow> (string \<Rightarrow> int) \<times> string list" where
  "release [] inDegree queue = (inDegree, queue)"
| "release (d # ds) inDegree queue =
     (let inDegree' = inDegree(d := inDegree d - 1)
      in release ds inDegree' (if inDegree' d = 0 then sort (queue @ [d]) else queue))"

text \<open>Every release takes one from the degree of a module of the graph, so the loop ends for every
  graph and every degrees.\<close>

definition degree_sum :: "(string \<times> string list) list \<Rightarrow> (string \<Rightarrow> int) \<Rightarrow> nat" where
  "degree_sum dependents inDegree = (\<Sum>n \<in> (\<Union>(_, ns) \<in> set dependents. set ns). nat (inDegree n))"

lemma degree_sum_release:
  assumes "release ds inDegree queue = (inDegree', queue')"
    and "set ds \<subseteq> (\<Union>(_, ns) \<in> set dependents. set ns)"
  shows "length queue' + degree_sum dependents inDegree' \<le> length queue + degree_sum dependents inDegree"
  using assms
proof (induction ds inDegree queue rule: release.induct)
  case (2 d ds inDegree queue)
  let ?N = "\<Union>(_, ns) \<in> set dependents. set ns" and ?g = "inDegree(d := inDegree d - 1)"
  have d: "d \<in> ?N" "finite ?N" using 2(3) by auto
  then have "degree_sum dependents ?g = nat (inDegree d - 1) + (\<Sum>n \<in> ?N - {d}. nat (inDegree n))"
    and "degree_sum dependents inDegree = nat (inDegree d) + (\<Sum>n \<in> ?N - {d}. nat (inDegree n))"
    by (simp_all add: degree_sum_def sum.remove)
  then have "length (if ?g d = 0 then sort (queue @ [d]) else queue) + degree_sum dependents ?g
      \<le> length queue + degree_sum dependents inDegree"
    by (auto simp: nat_diff_distrib)
  moreover have "release ds ?g (if ?g d = 0 then sort (queue @ [d]) else queue) = (inDegree', queue')"
    using 2(2) by (simp only: release.simps Let_def)
  then have "length queue' + degree_sum dependents inDegree'
      \<le> length (if ?g d = 0 then sort (queue @ [d]) else queue) + degree_sum dependents ?g"
    using 2(1) [OF refl] 2(3) by (metis insert_subset list.simps(15))
  ultimately show ?case by linarith
qed simp

function kahn :: "(string \<times> string list) list \<Rightarrow> (string \<Rightarrow> int) \<Rightarrow> string list \<Rightarrow> string list \<Rightarrow> string list" where
  "kahn dependents inDegree [] resolved = resolved"
| "kahn dependents inDegree (name # queue) resolved =
     (case release (get_at dependents name) inDegree queue of (inDegree', queue') \<Rightarrow>
      kahn dependents inDegree' queue' (resolved @ [name]))"
  by pat_completeness auto
termination
proof (relation "measure (\<lambda>(dependents, inDegree, queue, resolved). length queue + degree_sum dependents inDegree)")
  fix dependents :: "(string \<times> string list) list" and inDegree name queue resolved inDegree' queue'
  assume "(inDegree', queue') = release (get_at dependents name) inDegree queue"
  moreover have "set (get_at dependents name) \<subseteq> (\<Union>(_, ns) \<in> set dependents. set ns)"
    using get_at_values by fastforce
  ultimately show "((dependents, inDegree', queue', resolved @ [name]), dependents, inDegree, name # queue, resolved)
      \<in> measure (\<lambda>(dependents, inDegree, queue, resolved). length queue + degree_sum dependents inDegree)"
    using degree_sum_release [of "get_at dependents name" inDegree queue inDegree' queue' dependents] by simp
qed simp

text \<open>\<open>it\<close> and \<open>it2\<close> are the visit orders of the maps \<open>modules\<close> and \<open>inDegree\<close>.\<close>

definition resolveOrderLocked :: "'db modules \<Rightarrow> string list \<Rightarrow> 'db modules \<Rightarrow> 'db Module list res" where
  "resolveOrderLocked it it2 ms =
     bind_res (build_graph ms it ([], \<lambda>_. 0)) (\<lambda>(dependents, inDegree).
     let queue = sort (filter (\<lambda>n. inDegree n = 0) it2);
         resolved = map (\<lambda>n. the (map_of ms n)) (kahn dependents inDegree queue [])
     in if length resolved \<noteq> length ms then Fail (Wrapped ''resolved modules'' ErrCircularDependency)
        else Ret resolved)"

definition ResolveOrder :: "'db modules \<Rightarrow> string list \<Rightarrow> 'db Registry \<Rightarrow> 'db Module list res \<times> 'db Registry" where
  "ResolveOrder it it2 r =
     (case resolveOrderLocked it it2 (reg_modules r) of
        Ret order \<Rightarrow> (Ret order, r\<lparr>reg_order := order\<rparr>)
      | Fail er \<Rightarrow> (Fail er, r)
      | Panic p \<Rightarrow> (Panic p, r))"

section \<open>Initialisation, permissions, subscriptions, shutdown\<close>

text \<open>The loop of \<open>InitAll\<close>, with the names of the modules whose \<open>Init\<close> was called.\<close>

fun init_loop :: "'db Module list \<Rightarrow> unit res \<times> string list" where
  "init_loop [] = (Ret (), [])"
| "init_loop (m # ms) =
     (case mod_Init m of
        Some er \<Rightarrow> (Fail (Wrapped ''failed to initialize module'' er), [mf_Name (mod_Manifest m)])
      | None \<Rightarrow> (case init_loop ms of (r, called) \<Rightarrow> (r, mf_Name (mod_Manifest m) # called)))"

definition InitAll :: "'db modules \<Rightarrow> string list \<Rightarrow> 'db Registry \<Rightarrow> unit res \<times> string list \<times> 'db Registry" where
  "InitAll it it2 r =
     (case resolveOrderLocked it it2 (reg_modules r) of
        Fail er \<Rightarrow> (Fail er, [], r)
      | Panic p \<Rightarrow> (Panic p, [], r)
      | Ret order \<Rightarrow> (case init_loop order of (x, called) \<Rightarrow> (x, called, r\<lparr>reg_order := order\<rparr>)))"

definition sql_upsert_permission :: "ID \<Rightarrow> PermissionDefinition \<Rightarrow> int \<Rightarrow> iam_db \<Rightarrow> unit res \<times> iam_db" where
  "sql_upsert_permission i p t d =
     (let rows = t_permissions d
      in if list_ex (\<lambda>r. pm_code r = pd_Code p) rows
         then (Ret (), d\<lparr>t_permissions := update_rows (\<lambda>r. pm_code r = pd_Code p)
                 (\<lambda>r. r\<lparr>pm_name := pd_Name p, pm_category := pd_Category p, pm_description := Some (pd_Description p)\<rparr>) rows\<rparr>)
         else if list_ex (\<lambda>r. pm_id r = i) rows then (Fail (Opaque ''unique constraint''), d)
         else (Ret (), d\<lparr>t_permissions := rows @ [\<lparr>pm_id = i, pm_code = pd_Code p, pm_name = pd_Name p,
                 pm_category = pd_Category p, pm_description = Some (pd_Description p)\<rparr>]\<rparr>))"

definition register_permission :: "ctx \<Rightarrow> PermissionDefinition \<Rightarrow> unit iamproc" where
  "register_permission c p =
     bindP NewID (\<lambda>permID. wrap_err ''failed to register permission'' (stmt (pool_ctx c) (sql_upsert_permission permID p)))"

definition RegisterPermissions :: "bool \<Rightarrow> ctx \<Rightarrow> 'db Registry \<Rightarrow> unit iamproc" where
  "RegisterPermissions host_db c r =
     (if \<not> host_db then ret ()
      else bindP (mapP (\<lambda>m. bindP (mapP (register_permission c) (mod_Permissions m)) (\<lambda>_. ret ())) (reg_order r))
             (\<lambda>_. ret ()))"

definition BindSubscriptions :: "'db Registry \<Rightarrow> 'db handler bus option \<Rightarrow> 'db handler bus option" where
  "BindSubscriptions r bus =
     (case bus of None \<Rightarrow> None
      | Some b \<Rightarrow> Some (foldl (\<lambda>b m. foldl (\<lambda>b (pattern, h). Subscribe pattern h b) b (mod_Subscriptions m))
                     b (reg_order r)))"

text \<open>The loop runs from the end of the order; the errors are joined (nil when there are none).\<close>

fun shutdown_loop :: "'db Module list \<Rightarrow> err list \<times> string list" where
  "shutdown_loop [] = ([], [])"
| "shutdown_loop (m # ms) =
     (case shutdown_loop ms of (errs, called) \<Rightarrow>
        ((case mod_Shutdown m of None \<Rightarrow> errs | Some er \<Rightarrow> Wrapped ''module'' er # errs),
         mf_Name (mod_Manifest m) # called))"

definition ShutdownAll :: "'db Registry \<Rightarrow> err list \<times> string list" where
  "ShutdownAll r = shutdown_loop (rev (reg_order r))"

section \<open>The reference order\<close>

text \<open>Take the least module, in the order of names, whose dependencies are all there; as often as there
  are modules.\<close>

definition ready :: "'db modules \<Rightarrow> string list \<Rightarrow> string list" where
  "ready ms R = sort (filter (\<lambda>n. n \<notin> set R \<and> set (deps_of ms n) \<subseteq> set R) (map fst ms))"

primrec order_from :: "'db modules \<Rightarrow> nat \<Rightarrow> string list \<Rightarrow> string list" where
  "order_from ms 0 R = R"
| "order_from ms (Suc k) R = (case ready ms R of [] \<Rightarrow> R | n # _ \<Rightarrow> order_from ms k (R @ [n]))"

definition missing_deps :: "'db modules \<Rightarrow> bool" where
  "missing_deps ms \<longleftrightarrow> list_ex (\<lambda>(n, m). list_ex (\<lambda>d. map_of ms d = None) (mf_DependsOn (mod_Manifest m))) ms"

section \<open>The graph\<close>

lemma add_deps_eq:
  "add_deps ms name ds g =
     (if list_ex (\<lambda>d. map_of ms d = None) ds then Fail (Wrapped ''module depends on missing module'' ErrModuleNotFound)
      else Ret (foldl (\<lambda>D d. append_at d name D) (fst g) ds, (snd g)(name := snd g name + int (length ds))))"
proof (induction ds arbitrary: g)
  case Nil
  then show ?case by (cases g) (simp add: fun_upd_idem)
next
  case (Cons d ds)
  then show ?case by (cases g) (auto simp: fun_eq_iff)
qed

lemma get_foldl_append:
  "count (mset (get_at (foldl (\<lambda>D d. append_at d name D) D ds) d)) n
   = count (mset (get_at D d)) n + (if n = name then count_list ds d else 0)"
  by (induction ds arbitrary: D) auto

definition dep_count :: "'db modules \<Rightarrow> string \<Rightarrow> string \<Rightarrow> nat" where
  "dep_count it d n = sum_list (map (\<lambda>(n', m). if n = n' then count_list (mf_DependsOn (mod_Manifest m)) d else 0) it)"

definition dep_total :: "'db modules \<Rightarrow> string \<Rightarrow> nat" where
  "dep_total it n = sum_list (map (\<lambda>(n', m). if n = n' then length (mf_DependsOn (mod_Manifest m)) else 0) it)"

lemma build_graph_spec:
  "if list_ex (\<lambda>(n, m). list_ex (\<lambda>d. map_of ms d = None) (mf_DependsOn (mod_Manifest m))) it
   then build_graph ms it g = Fail (Wrapped ''module depends on missing module'' ErrModuleNotFound)
   else \<exists>D f. build_graph ms it g = Ret (D, f) \<and>
     (\<forall>d n. count (mset (get_at D d)) n = count (mset (get_at (fst g) d)) n + dep_count it d n) \<and>
     (\<forall>n. f n = snd g n + int (dep_total it n))"
proof (induction ms it g rule: build_graph.induct)
  case (1 ms g)
  then show ?case by (cases g) (simp add: dep_count_def dep_total_def)
next
  case (2 ms name m it g)
  let ?ds = "mf_DependsOn (mod_Manifest m)"
  let ?g = "(foldl (\<lambda>D d. append_at d name D) (fst g) ?ds, (snd g)(name := snd g name + int (length ?ds)))"
  show ?case
  proof (cases "list_ex (\<lambda>d. map_of ms d = None) ?ds")
    case False
    then have "build_graph ms ((name, m) # it) g = build_graph ms it ?g" by (simp add: add_deps_eq)
    with 2 [of ?g] False show ?thesis
      by (auto simp: dep_count_def dep_total_def get_foldl_append)
  qed (simp add: add_deps_eq)
qed

lemma dep_count_perm: "mset it = mset ms \<Longrightarrow> dep_count it d n = dep_count ms d n \<and> dep_total it n = dep_total ms n"
  by (simp add: dep_count_def dep_total_def sum_mset_sum_list [symmetric])

lemma dep_count_deps:
  "distinct (map fst ms) \<Longrightarrow> dep_count ms d n = count_list (deps_of ms n) d \<and> dep_total ms n = length (deps_of ms n)"
proof (induction ms)
  case (Cons x ms)
  obtain n' m where x: "x = (n', m)" by fastforce
  have "n' \<notin> fst ` set ms \<Longrightarrow> deps_of ms n' = []"
    by (simp add: deps_of_def map_of_eq_None_iff [THEN iffD2])
  with Cons show ?case by (auto simp: x dep_count_def dep_total_def deps_of_def)
qed (simp add: dep_count_def dep_total_def deps_of_def)

section \<open>The loop\<close>

lemma released_set:
  "{m \<in> set ds. 0 < g m \<and> g m \<le> int (count_list ds m)} = {m. 0 < g m \<and> g m \<le> int (count_list ds m)}"
proof -
  have "m \<in> set ds" if "0 < g m" "g m \<le> int (count_list ds m)" for m
    using that by (cases "m \<in> set ds") (simp_all add: count_notin)
  then show ?thesis by blast
qed

lemma release_spec:
  assumes "release ds deg q = (deg', q')" and "sorted q"
  shows "deg' m = deg m - int (count_list ds m)" and "sorted q'"
    and "mset q' = mset q + mset_set {m \<in> set ds. 0 < deg m \<and> deg m \<le> int (count_list ds m)}"
proof -
  from assms have "(\<forall>m. deg' m = deg m - int (count_list ds m)) \<and> sorted q' \<and>
    mset q' = mset q + mset_set {m \<in> set ds. 0 < deg m \<and> deg m \<le> int (count_list ds m)}"
  proof (induction ds deg q rule: release.induct)
    case (2 d ds deg q)
    let ?g = "deg(d := deg d - 1)" and ?q = "if (deg(d := deg d - 1)) d = 0 then sort (q @ [d]) else q"
    let ?S = "{m \<in> set ds. 0 < ?g m \<and> ?g m \<le> int (count_list ds m)}"
    have r: "release ds ?g ?q = (deg', q')" using 2(2) by (simp only: release.simps Let_def)
    have IH: "(\<forall>m. deg' m = ?g m - int (count_list ds m)) \<and> sorted q' \<and> mset q' = mset ?q + mset_set ?S"
      using 2(1) [OF refl r] 2(3) by simp
    have "{m \<in> set (d # ds). 0 < deg m \<and> deg m \<le> int (count_list (d # ds) m)}
        = (if deg d = 1 then insert d ?S else ?S)"
      unfolding released_set by (auto split: if_splits)
    then have "mset_set {m \<in> set (d # ds). 0 < deg m \<and> deg m \<le> int (count_list (d # ds) m)}
        = (if deg d = 1 then {#d#} else {#}) + mset_set ?S"
      by auto
    with IH show ?case by auto
  qed simp
  then show "deg' m = deg m - int (count_list ds m)" and "sorted q'"
    and "mset q' = mset q + mset_set {m \<in> set ds. 0 < deg m \<and> deg m \<le> int (count_list ds m)}"
    by auto
qed

lemma ready_mset:
  "distinct (map fst ms) \<Longrightarrow>
   mset (ready ms R) = mset_set {n \<in> fst ` set ms. n \<notin> set R \<and> set (deps_of ms n) \<subseteq> set R}"
  unfolding ready_def mset_sort
  by (subst mset_set_set [symmetric]) (auto intro: arg_cong [where f = mset_set])

definition open_deps :: "'db modules \<Rightarrow> string list \<Rightarrow> string \<Rightarrow> string list" where
  "open_deps ms R n = filter (\<lambda>d. d \<notin> set R) (deps_of ms n)"

lemma filter_out_one:
  "n \<notin> S \<Longrightarrow> length (filter (\<lambda>d. d \<notin> S) ds) = length (filter (\<lambda>d. d \<notin> insert n S) ds) + count_list ds n"
  by (induction ds) auto

lemma open_deps_snoc:
  "n \<notin> set R \<Longrightarrow> length (open_deps ms R m) = length (open_deps ms (R @ [n]) m) + count_list (deps_of ms m) n"
  using filter_out_one [of n "set R"] by (simp add: open_deps_def)

definition kahn_inv :: "'db modules \<Rightarrow> (string \<times> string list) list \<Rightarrow> (string \<Rightarrow> int) \<Rightarrow> string list \<Rightarrow> string list \<Rightarrow> bool" where
  "kahn_inv ms D deg q R \<longleftrightarrow>
     (\<forall>d n. count_list (get_at D d) n = count_list (deps_of ms n) d) \<and>
     (\<forall>n. deg n = int (length (open_deps ms R n))) \<and> q = ready ms R \<and>
     distinct R \<and> set R \<subseteq> fst ` set ms \<and> (\<forall>r \<in> set R. set (deps_of ms r) \<subseteq> set R)"

lemma open_deps_empty: "open_deps ms R n = [] \<longleftrightarrow> set (deps_of ms n) \<subseteq> set R"
  by (auto simp: open_deps_def filter_empty_conv)

lemma set_ready: "set (ready ms R) = {n \<in> fst ` set ms. n \<notin> set R \<and> set (deps_of ms n) \<subseteq> set R}"
  by (auto simp: ready_def)

lemma deps_of_keys: "d \<in> set (deps_of ms n) \<Longrightarrow> n \<in> fst ` set ms"
  by (cases "map_of ms n") (auto simp: deps_of_def dest!: map_of_SomeD intro: rev_image_eqI)

text \<open>The modules that become ready when \<open>n\<close> is taken.\<close>

lemma newly_ready:
  assumes "kahn_inv ms D deg (n # q) R"
  shows "{m \<in> set (get_at D n). 0 < deg m \<and> deg m \<le> int (count_list (get_at D n) m)}
    = {m \<in> fst ` set ms. m \<notin> set (R @ [n]) \<and> set (deps_of ms m) \<subseteq> set (R @ [n]) \<and> \<not> set (deps_of ms m) \<subseteq> set R}"
    (is "?A = ?B")
proof -
  from assms have D: "count_list (get_at D n) m = count_list (deps_of ms m) n" and deg: "deg m = int (length (open_deps ms R m))"
    and cl: "\<forall>r \<in> set R. set (deps_of ms r) \<subseteq> set R" and n: "n \<notin> set R" "set (deps_of ms n) \<subseteq> set R" for m
    using set_ready [of ms R] unfolding kahn_inv_def by (auto simp del: set_append) (metis (mono_tags, lifting) list.set_intros(1) mem_Collect_eq subsetD)+
  have "?A = {m. open_deps ms R m \<noteq> [] \<and> open_deps ms (R @ [n]) m = []}"
  proof (subst released_set, rule Collect_cong)
    fix m
    show "0 < deg m \<and> deg m \<le> int (count_list (get_at D n) m) \<longleftrightarrow> open_deps ms R m \<noteq> [] \<and> open_deps ms (R @ [n]) m = []"
      using open_deps_snoc [OF n(1), of ms m] 
      unfolding D deg length_0_conv [symmetric] by linarith
  qed
  also have "\<dots> = ?B"
  proof -
    have "m \<in> fst ` set ms \<and> m \<notin> set (R @ [n])" if "\<not> set (deps_of ms m) \<subseteq> set R" for m
      using that cl n(2) deps_of_keys [of _ ms m] by auto
    then show ?thesis unfolding open_deps_empty by blast
  qed
  finally show ?thesis .
qed

lemma kahn_step:
  assumes "kahn_inv ms D deg (n # q) R" and "distinct (map fst ms)" and "release (get_at D n) deg q = (deg', q')"
  shows "kahn_inv ms D deg' q' (R @ [n])"
proof -
  let ?S = "\<lambda>R. {m \<in> fst ` set ms. m \<notin> set R \<and> set (deps_of ms m) \<subseteq> set R}"
  have q: "n # q = ready ms R" using assms(1) by (simp add: kahn_inv_def)
  then have n: "n \<in> ?S R" using set_ready [of ms R] by (metis list.set_intros(1))
  have "sorted (n # q)" unfolding q by (simp add: ready_def)
  then have sq: "sorted q" by simp
  note rel = release_spec [OF assms(3) sq]
  have "deg' m = int (length (open_deps ms (R @ [n]) m))" for m
    using open_deps_snoc [of n R ms m] n assms(1) rel(1) by (simp add: kahn_inv_def)
  moreover have "q' = ready ms (R @ [n])"
  proof -
    let ?N = "{m \<in> fst ` set ms. m \<notin> set (R @ [n]) \<and> set (deps_of ms m) \<subseteq> set (R @ [n]) \<and> \<not> set (deps_of ms m) \<subseteq> set R}"
    have "add_mset n (mset q) = mset_set (?S R)" using ready_mset [OF assms(2), of R] q by (metis mset.simps(2))
    then have "mset q = mset_set (?S R) - {#n#}" by (metis add_mset_remove_trivial)
    then have mq: "mset q = mset_set (?S R - {n})" using n by (simp add: mset_set_Diff)
    have "?S (R @ [n]) = (?S R - {n}) \<union> ?N" using n by auto
    moreover have "(?S R - {n}) \<inter> ?N = {}" by auto
    ultimately have "mset_set (?S (R @ [n])) = mset_set (?S R - {n}) + mset_set ?N"
      by (simp add: mset_set_Union)
    then have "mset (ready ms (R @ [n])) = mset q'"
      using rel(3) ready_mset [OF assms(2), of "R @ [n]"] mq newly_ready [OF assms(1)] by simp
    then have "mset q' = mset (filter (\<lambda>m. m \<notin> set (R @ [n]) \<and> set (deps_of ms m) \<subseteq> set (R @ [n])) (map fst ms))"
      by (simp add: ready_def)
    from properties_for_sort [OF this rel(2)] show ?thesis by (simp add: ready_def)
  qed
  moreover have "distinct (R @ [n])" "set (R @ [n]) \<subseteq> fst ` set ms"
    "\<forall>r \<in> set (R @ [n]). set (deps_of ms r) \<subseteq> set (R @ [n])"
    using assms(1) n unfolding kahn_inv_def by auto
  ultimately show ?thesis using assms(1) unfolding kahn_inv_def by blast
qed

lemma kahn_reference:
  assumes "kahn_inv ms D deg q R" and "distinct (map fst ms)" and "length ms \<le> length R + k"
  shows "kahn D deg q R = order_from ms k R"
  using assms(1,3)
proof (induction k arbitrary: deg q R)
  case 0
  then have R: "distinct R" "set R \<subseteq> fst ` set ms" "q = ready ms R" by (simp_all add: kahn_inv_def)
  have "card (fst ` set ms) \<le> card (set R)"
    using 0(2) R(1) card_length [of "map fst ms"] by (simp add: distinct_card)
  then have "set R = fst ` set ms" using R(2) by (metis card_seteq finite_imageI finite_set)
  then have "set q = {}" using R(3) by (auto simp: set_ready)
  then show ?case by simp
next
  case (Suc k)
  show ?case
  proof (cases q)
    case Nil
    then show ?thesis using Suc(2) by (simp add: kahn_inv_def)
  next
    case (Cons n q1)
    obtain deg' q' where r: "release (get_at D n) deg q1 = (deg', q')" by fastforce
    have "ready ms R = n # q1" using Suc(2) Cons by (simp add: kahn_inv_def)
    moreover have "kahn_inv ms D deg' q' (R @ [n])" using kahn_step [OF _ assms(2) r] Suc(2) Cons by simp
    ultimately show ?thesis using Suc(1) [of deg' q' "R @ [n]"] Suc(3) Cons r by simp
  qed
qed

lemma missing_perm: "mset it = mset ms \<Longrightarrow>
  list_ex (\<lambda>(n, m). list_ex (\<lambda>d. map_of ms d = None) (mf_DependsOn (mod_Manifest m))) it = missing_deps ms"
  by (simp add: missing_deps_def list_ex_iff mset_eq_setD [of it ms])

lemma graph_inv:
  assumes "distinct (map fst ms)" and "mset it = mset ms" and "mset it2 = mset (map fst ms)" and "\<not> missing_deps ms"
  obtains D deg where "build_graph ms it ([], \<lambda>_. 0) = Ret (D, deg)"
    and "kahn_inv ms D deg (sort (filter (\<lambda>n. deg n = 0) it2)) []"
proof -
  obtain D deg where g: "build_graph ms it ([], \<lambda>_. 0) = Ret (D, deg)"
    and D: "count_list (get_at D d) n = count_list (deps_of ms n) d" and deg: "deg n = int (length (deps_of ms n))" for d n
    using build_graph_spec [of ms it "([], \<lambda>_. 0)"] assms(4) missing_perm [OF assms(2)] dep_count_perm [OF assms(2)]
      dep_count_deps [OF assms(1)]
    by (auto simp: count_mset)
  have "mset (filter (\<lambda>n. deg n = 0) it2) = mset (filter (\<lambda>n. deg n = 0) (map fst ms))"
    using assms(3) by (metis mset_filter)
  also have "filter (\<lambda>n. deg n = 0) (map fst ms) = filter (\<lambda>n. n \<notin> set [] \<and> set (deps_of ms n) \<subseteq> set []) (map fst ms)"
    by (simp add: deg)
  finally have "mset (sort (filter (\<lambda>n. deg n = 0) it2))
      = mset (filter (\<lambda>n. n \<notin> set [] \<and> set (deps_of ms n) \<subseteq> set []) (map fst ms))" by simp
  from properties_for_sort [OF this sorted_sort] have "sort (filter (\<lambda>n. deg n = 0) it2) = ready ms []"
    by (simp add: ready_def)
  with g D deg that show thesis by (simp add: kahn_inv_def open_deps_def)
qed

definition reference_order :: "'db modules \<Rightarrow> 'db Module list res" where
  "reference_order ms =
     (if missing_deps ms then Fail (Wrapped ''module depends on missing module'' ErrModuleNotFound)
      else let names = order_from ms (length ms) []
           in if length names \<noteq> length ms then Fail (Wrapped ''resolved modules'' ErrCircularDependency)
              else Ret (map (\<lambda>n. the (map_of ms n)) names))"

lemma resolve_reference:
  assumes "distinct (map fst ms)" and "mset it = mset ms" and "mset it2 = mset (map fst ms)"
  shows "resolveOrderLocked it it2 ms = reference_order ms"
proof (cases "missing_deps ms")
  case True
  then show ?thesis
    using build_graph_spec [of ms it "([], \<lambda>_. 0)"] missing_perm [OF assms(2)]
    by (simp add: resolveOrderLocked_def reference_order_def)
next
  case False
  with graph_inv [OF assms] obtain D deg where g: "build_graph ms it ([], \<lambda>_. 0) = Ret (D, deg)"
    and inv: "kahn_inv ms D deg (sort (filter (\<lambda>n. deg n = 0) it2)) []" by blast
  from kahn_reference [OF inv assms(1), of "length ms"] False show ?thesis
    by (simp add: resolveOrderLocked_def reference_order_def g Let_def)
qed

section \<open>Topological order\<close>

fun topo_from :: "'db modules \<Rightarrow> string set \<Rightarrow> string list \<Rightarrow> bool" where
  "topo_from ms S [] \<longleftrightarrow> True"
| "topo_from ms S (n # rest) \<longleftrightarrow> set (deps_of ms n) \<subseteq> S \<and> topo_from ms (insert n S) rest"

lemma topo_append: "topo_from ms S (xs @ ys) \<longleftrightarrow> topo_from ms S xs \<and> topo_from ms (S \<union> set xs) ys"
  by (induction xs arbitrary: S) auto

lemma ready_hd: "ready ms R = n # q \<Longrightarrow> n \<in> fst ` set ms \<and> n \<notin> set R \<and> set (deps_of ms n) \<subseteq> set R"
  using set_ready [of ms R] by (metis (mono_tags, lifting) list.set_intros(1) mem_Collect_eq)

lemma order_from_topo:
  "distinct R \<Longrightarrow> set R \<subseteq> fst ` set ms \<Longrightarrow> topo_from ms {} R \<Longrightarrow>
   distinct (order_from ms k R) \<and> set (order_from ms k R) \<subseteq> fst ` set ms \<and> topo_from ms {} (order_from ms k R)"
proof (induction k arbitrary: R)
  case (Suc k)
  show ?case
  proof (cases "ready ms R")
    case (Cons n q)
    then have "distinct (R @ [n])" "set (R @ [n]) \<subseteq> fst ` set ms" "topo_from ms {} (R @ [n])"
      using Suc.prems ready_hd [OF Cons] by (auto simp: topo_append)
    from Suc.IH [OF this] Cons show ?thesis by simp
  qed (use Suc.prems in simp)
qed simp

lemma order_from_stuck:
  "distinct R \<Longrightarrow> set R \<subseteq> fst ` set ms \<Longrightarrow> length ms \<le> length R + k \<Longrightarrow> ready ms (order_from ms k R) = []"
proof (induction k arbitrary: R)
  case 0
  then have "card (fst ` set ms) \<le> card (set R)"
    using card_length [of "map fst ms"] by (simp add: distinct_card)
  then have "set R = fst ` set ms" using 0(2) by (metis card_seteq finite_imageI finite_set)
  then have "set (ready ms R) = {}" by (auto simp: set_ready)
  then show ?case by simp
next
  case (Suc k)
  show ?case
  proof (cases "ready ms R")
    case (Cons n q)
    then have "distinct (R @ [n])" "set (R @ [n]) \<subseteq> fst ` set ms" "length ms \<le> length (R @ [n]) + k"
      using Suc.prems ready_hd [OF Cons] by auto
    from Suc.IH [OF this] Cons show ?thesis by simp
  qed simp
qed

definition dep_rel :: "'db modules \<Rightarrow> (string \<times> string) set" where
  "dep_rel ms = {(d, n). d \<in> set (deps_of ms n)}"

lemma finite_dep_rel: "finite (dep_rel ms)"
proof -
  have "dep_rel ms \<subseteq> (\<Union>n \<in> fst ` set ms. set (deps_of ms n) \<times> {n})"
    using deps_of_keys by (force simp: dep_rel_def)
  then show ?thesis by (rule finite_subset) auto
qed

lemma stuck_complete:
  assumes "ready ms R = []" and "\<not> missing_deps ms" and "acyclic (dep_rel ms)"
  shows "fst ` set ms \<subseteq> set R"
proof (rule ccontr)
  assume "\<not> fst ` set ms \<subseteq> set R"
  then obtain n where "n \<in> fst ` set ms - set R" by blast
  with finite_acyclic_wf [OF finite_dep_rel assms(3)] obtain x where x: "x \<in> fst ` set ms - set R"
    and m: "\<And>y. (y, x) \<in> dep_rel ms \<Longrightarrow> y \<notin> fst ` set ms - set R"
    by (metis wfE_min)
  have "set (deps_of ms x) \<subseteq> fst ` set ms"
  proof
    fix d assume d: "d \<in> set (deps_of ms x)"
    then obtain md where "map_of ms x = Some md" "d \<in> set (mf_DependsOn (mod_Manifest md))"
      by (cases "map_of ms x") (auto simp: deps_of_def)
    with assms(2) have "map_of ms d \<noteq> None"
      by (auto simp: missing_deps_def list_ex_iff dest!: map_of_SomeD)
    then show "d \<in> fst ` set ms" by (simp add: map_of_eq_None_iff)
  qed
  with m x have "x \<in> set (ready ms R)" by (auto simp: set_ready dep_rel_def)
  with assms(1) show False by simp
qed

lemma topo_position:
  "topo_from ms S R \<Longrightarrow> d \<in> set (deps_of ms n) \<Longrightarrow> d \<notin> S \<Longrightarrow> n \<in> set R \<Longrightarrow> distinct R \<Longrightarrow>
   length (takeWhile (\<lambda>x. x \<noteq> d) R) < length (takeWhile (\<lambda>x. x \<noteq> n) R)"
  by (induction R arbitrary: S) auto

lemma topo_acyclic:
  assumes "topo_from ms {} R" and "distinct R" and "fst ` set ms \<subseteq> set R"
  shows "acyclic (dep_rel ms)"
proof -
  have "dep_rel ms \<subseteq> measure (\<lambda>n. length (takeWhile (\<lambda>x. x \<noteq> n) R))"
    using topo_position [OF assms(1) _ _ _ assms(2)] assms(3) deps_of_keys by (fastforce simp: dep_rel_def)
  then have "wf (dep_rel ms)" using wf_subset wf_measure by blast
  then show ?thesis by (rule wf_acyclic)
qed

lemma reference_cases:
  assumes "distinct (map fst ms)"
  defines "names \<equiv> order_from ms (length ms) []"
  shows "missing_deps ms \<or> (if acyclic (dep_rel ms) then mset names = mset (map fst ms) else length names \<noteq> length ms)"
    and "topo_from ms {} names" and "distinct names"
proof -
  have t: "distinct names \<and> set names \<subseteq> fst ` set ms \<and> topo_from ms {} names"
    unfolding names_def by (rule order_from_topo) auto
  then show "topo_from ms {} names" and "distinct names" by auto
  have "ready ms names = []" unfolding names_def by (rule order_from_stuck) auto
  from stuck_complete [OF this] have "missing_deps ms \<or> \<not> acyclic (dep_rel ms) \<or> set names = fst ` set ms"
    using t by blast
  moreover have "set names = fst ` set ms \<Longrightarrow> mset names = mset (map fst ms)"
    using t assms(1) by (metis list.set_map set_eq_iff_mset_eq_distinct)
  moreover have "acyclic (dep_rel ms)" if l: "length names = length ms"
  proof (rule topo_acyclic)
    have "card (set names) = card (fst ` set ms)"
      using l t assms(1) by (metis distinct_card length_map list.set_map)
    then show "fst ` set ms \<subseteq> set names" using t by (metis card_subset_eq finite_imageI finite_set subset_refl)
  qed (use t in auto)
  ultimately show "missing_deps ms \<or> (if acyclic (dep_rel ms) then mset names = mset (map fst ms) else length names \<noteq> length ms)"
    by auto
qed

section \<open>The registry over its life\<close>

definition registered :: "'db Module option list \<Rightarrow> 'db Registry" where
  "registered xs = foldl (\<lambda>r m. snd (Register m r)) NewRegistry xs"

lemma registered_simps [simp]: "registered [] = NewRegistry" "registered (xs @ [x]) = snd (Register x (registered xs))"
  by (simp_all add: registered_def)

definition named :: "string \<Rightarrow> 'db Module \<Rightarrow> bool" where
  "named n m \<longleftrightarrow> mf_Name (mod_Manifest m) = n"

definition reg_inv :: "'db Registry \<Rightarrow> bool" where
  "reg_inv r \<longleftrightarrow> distinct (map fst (reg_modules r)) \<and> list_all (\<lambda>(n, m). n \<noteq> [] \<and> named n m) (reg_modules r)"

lemma Register_inv: "reg_inv r \<Longrightarrow> reg_inv (snd (Register m r))"
  by (auto simp: reg_inv_def Register_def Let_def named_def map_of_eq_None_iff split: option.splits)

lemma registered_inv: "reg_inv (registered xs)"
proof (induction xs rule: rev_induct)
  case Nil
  then show ?case by (simp add: reg_inv_def NewRegistry_def)
qed (simp add: Register_inv)

lemma registered_distinct: "distinct (map fst (reg_modules (registered xs)))"
  using registered_inv by (auto simp: reg_inv_def)

lemma registered_name: "n \<in> fst ` set (reg_modules (registered xs)) \<Longrightarrow>
    mf_Name (mod_Manifest (the (map_of (reg_modules (registered xs)) n))) = n"
  using registered_inv [of xs] map_of_SomeD
  by (cases "map_of (reg_modules (registered xs)) n")
    (fastforce simp: reg_inv_def list_all_iff named_def map_of_eq_None_iff)+

fun given_modules :: "'a option list \<Rightarrow> 'a list" where
  "given_modules [] = []"
| "given_modules (None # xs) = given_modules xs"
| "given_modules (Some m # xs) = m # given_modules xs"

lemma given_append [simp]: "given_modules (xs @ ys) = given_modules xs @ given_modules ys"
  by (induction xs rule: given_modules.induct) auto

lemma Get_Register:
  "Registry_Get (snd (Register x r)) n =
     (case x of Some m \<Rightarrow> if n \<noteq> [] \<and> named n m \<and> Registry_Get r n = None then Some m else Registry_Get r n
      | None \<Rightarrow> Registry_Get r n)"
  by (auto simp: Registry_Get_def Register_def Let_def named_def map_add_def split: option.split)

lemma init_loop_prefix:
  "init_loop order = (x, called) \<Longrightarrow>
   (\<exists>k. called = take k (map (\<lambda>m. mf_Name (mod_Manifest m)) order)) \<and>
   (x = Ret () \<longrightarrow> called = map (\<lambda>m. mf_Name (mod_Manifest m)) order)"
proof (induction order arbitrary: x called)
  case (Cons m ms)
  obtain r c where l: "init_loop ms = (r, c)" by fastforce
  let ?names = "map (\<lambda>m. mf_Name (mod_Manifest m))"
  show ?case
  proof (cases "mod_Init m")
    case None
    with Cons.prems l have c: "x = r" "called = mf_Name (mod_Manifest m) # c" by auto
    from Cons.IH [OF l] obtain k where "c = take k (?names ms)" by blast
    then have "called = take (Suc k) (?names (m # ms))" by (simp add: c)
    moreover have "x = Ret () \<longrightarrow> called = ?names (m # ms)" using Cons.IH [OF l] c by simp
    ultimately show ?thesis by blast
  next
    case (Some er)
    with Cons.prems have "x = Fail (Wrapped ''failed to initialize module'' er)" "called = take 1 (?names (m # ms))" by auto
    then show ?thesis by blast
  qed
qed simp

lemma shutdown_loop_called: "snd (shutdown_loop ms) = map (\<lambda>m. mf_Name (mod_Manifest m)) ms"
  by (induction ms) (auto split: prod.splits)

lemma topo_take: "topo_from ms S xs \<Longrightarrow> topo_from ms S (take k xs)"
  by (metis append_take_drop_id topo_append)

lemma resolve_outcome:
  assumes "mset it = mset (reg_modules (registered xs))" and "mset it2 = mset (map fst (reg_modules (registered xs)))"
  shows "case resolveOrderLocked it it2 (reg_modules (registered xs)) of
      Ret order \<Rightarrow> \<not> missing_deps (reg_modules (registered xs)) \<and> acyclic (dep_rel (reg_modules (registered xs))) \<and>
        mset (map (\<lambda>m. mf_Name (mod_Manifest m)) order) = mset (map fst (reg_modules (registered xs))) \<and>
        topo_from (reg_modules (registered xs)) {} (map (\<lambda>m. mf_Name (mod_Manifest m)) order)
    | Fail er \<Rightarrow> (if missing_deps (reg_modules (registered xs)) then errors_Is er ErrModuleNotFound
        else errors_Is er ErrCircularDependency \<and> \<not> acyclic (dep_rel (reg_modules (registered xs))))
    | Panic p \<Rightarrow> False"
proof -
  let ?ms = "reg_modules (registered xs)"
  let ?names = "order_from ?ms (length ?ms) []"
  note c = reference_cases [OF registered_distinct [of xs]]
  have "map (\<lambda>m. mf_Name (mod_Manifest m)) (map (\<lambda>n. the (map_of ?ms n)) ?names) = ?names"
    if "mset ?names = mset (map fst ?ms)"
    using mset_eq_setD [OF that] registered_name [of _ xs] by (auto intro!: map_idI)
  note names = this
  show ?thesis
  proof (cases "missing_deps ?ms \<or> length ?names \<noteq> length ?ms")
    case True
    moreover have "\<not> acyclic (dep_rel ?ms)" if "\<not> missing_deps ?ms"
      using c(1) True that by (metis length_map mset_eq_length)
    ultimately show ?thesis
      unfolding resolve_reference [OF registered_distinct assms] reference_order_def Let_def by auto
  next
    case False
    with c(1) have a: "acyclic (dep_rel ?ms)" and m: "mset ?names = mset (map fst ?ms)" by (auto split: if_splits)
    have "resolveOrderLocked it it2 ?ms = Ret (map (\<lambda>n. the (map_of ?ms n)) ?names)"
      unfolding resolve_reference [OF registered_distinct assms] using False by (simp add: reference_order_def Let_def)
    moreover have "\<not> missing_deps ?ms" using False by simp
    ultimately show ?thesis using a m c(2) names [OF m] by (simp only: res.case simp_thms)
  qed
qed

section \<open>Properties\<close>

text \<open>The first module registered under a name keeps it. After any sequence of \<open>Register\<close> calls the
  registry holds, under every non-empty name, the first module given with that name, and its
  count is the number of such names.\<close>

theorem register_first_wins:
  "Registry_Get (registered xs) n =
     (if n = [] then None else find (named n) (given_modules xs)) \<and>
   Registry_Count (registered xs) = card {n. Registry_Get (registered xs) n \<noteq> None}"
proof
  show "Registry_Get (registered xs) n = (if n = [] then None else find (named n) (given_modules xs))"
  proof (induction xs rule: rev_induct)
    case (snoc x xs)
    then show ?case by (cases x) (auto simp: Get_Register find_append split: option.split)
  qed (simp add: Registry_Get_def NewRegistry_def)
  have "{n. Registry_Get (registered xs) n \<noteq> None} = fst ` set (reg_modules (registered xs))"
    by (auto simp: Registry_Get_def map_of_eq_None_iff)
  then show "Registry_Count (registered xs) = card {n. Registry_Get (registered xs) n \<noteq> None}"
    using distinct_card [OF registered_distinct [of xs]] by (simp add: Registry_Count_def)
qed

text \<open>C25. The initialisation order is deterministic. In whatever order the maps are visited,
  \<open>ResolveOrder\<close> computes the order that always takes next the least module, by name, whose
  dependencies are all taken.\<close>

theorem resolve_order_reference:
  assumes "mset it = mset (reg_modules (registered xs))" and "mset it2 = mset (map fst (reg_modules (registered xs)))"
  shows "ResolveOrder it it2 (registered xs) =
    (case reference_order (reg_modules (registered xs)) of
       Ret order \<Rightarrow> (Ret order, (registered xs)\<lparr>reg_order := order\<rparr>)
     | Fail er \<Rightarrow> (Fail er, registered xs) | Panic p \<Rightarrow> (Panic p, registered xs))"
  unfolding ResolveOrder_def resolve_reference [OF registered_distinct assms] by (rule refl)

definition ex_module :: "string \<Rightarrow> string list \<Rightarrow> unit Module option" where
  "ex_module n deps = Some \<lparr>mod_Manifest = \<lparr>mf_Name = n, mf_Version = ''1.0.0'', mf_Title = n, mf_DependsOn = deps\<rparr>,
     mod_Init = None, mod_Permissions = [], mod_Subscriptions = [], mod_Shutdown = None\<rparr>"

definition ex_modules :: "unit Module option list" where
  "ex_modules = [ex_module ''sales'' [''inventory''], ex_module ''crm'' [], ex_module ''inventory'' []]"

lemma ex_reference:
  "map_option (map (\<lambda>m. mf_Name (mod_Manifest m)))
     (case reference_order (reg_modules (registered ex_modules)) of Ret order \<Rightarrow> Some order | _ \<Rightarrow> None)
   = Some [''crm'', ''inventory'', ''sales'']"
  by code_simp

theorem resolve_order_reference_witness:
  "map_option (map (\<lambda>m. mf_Name (mod_Manifest m)))
     (case fst (ResolveOrder (rev (reg_modules (registered ex_modules))) [''crm'', ''sales'', ''inventory'']
        (registered ex_modules)) of Ret order \<Rightarrow> Some order | _ \<Rightarrow> None)
   = Some [''crm'', ''inventory'', ''sales'']"
proof -
  have "map fst (reg_modules (registered ex_modules)) = [''sales'', ''crm'', ''inventory'']" by code_simp
  then have "ResolveOrder (rev (reg_modules (registered ex_modules))) [''crm'', ''sales'', ''inventory''] (registered ex_modules) =
    (case reference_order (reg_modules (registered ex_modules)) of
       Ret order \<Rightarrow> (Ret order, (registered ex_modules)\<lparr>reg_order := order\<rparr>)
     | Fail er \<Rightarrow> (Fail er, registered ex_modules) | Panic p \<Rightarrow> (Panic p, registered ex_modules))"
    by (intro resolve_order_reference) simp_all
  then show ?thesis using ex_reference by (auto split: res.splits)
qed

text \<open>C24. The order is topological and exists whenever one can. If a dependency is not registered the
  error is \<open>ErrModuleNotFound\<close>; otherwise the result is an order of all modules in which each comes
  after its dependencies exactly when there is no dependency cycle, and
  \<open>ErrCircularDependency\<close> when there is one.\<close>

theorem resolve_order_topological:
  assumes "mset it = mset (reg_modules (registered xs))" and "mset it2 = mset (map fst (reg_modules (registered xs)))"
  shows "case resolveOrderLocked it it2 (reg_modules (registered xs)) of
      Ret order \<Rightarrow> \<not> missing_deps (reg_modules (registered xs)) \<and> acyclic (dep_rel (reg_modules (registered xs))) \<and>
        mset (map (\<lambda>m. mf_Name (mod_Manifest m)) order) = mset (map fst (reg_modules (registered xs))) \<and>
        topo_from (reg_modules (registered xs)) {} (map (\<lambda>m. mf_Name (mod_Manifest m)) order)
    | Fail er \<Rightarrow> (if missing_deps (reg_modules (registered xs)) then errors_Is er ErrModuleNotFound
        else errors_Is er ErrCircularDependency \<and> \<not> acyclic (dep_rel (reg_modules (registered xs))))
    | Panic p \<Rightarrow> False"
  using assms by (rule resolve_outcome)

theorem resolve_order_topological_witness:
  "acyclic (dep_rel (reg_modules (registered ex_modules)))"
proof -
  have k: "map fst (reg_modules (registered ex_modules)) = [''sales'', ''crm'', ''inventory'']" by code_simp
  have "case resolveOrderLocked (reg_modules (registered ex_modules)) [''crm'', ''sales'', ''inventory'']
        (reg_modules (registered ex_modules)) of Ret _ \<Rightarrow> True | _ \<Rightarrow> False" by code_simp
  moreover note resolve_order_topological [of "reg_modules (registered ex_modules)" ex_modules "[''crm'', ''sales'', ''inventory'']"]
  ultimately show ?thesis by (simp add: k split: res.splits)
qed

text \<open>C26. Modules are started after their dependencies and stopped before them. \<open>InitAll\<close> calls \<open>Init\<close>
  in an order in which each module comes after its dependencies, also when it stops at a
  failure; when it succeeds it has called every module once, and \<open>ShutdownAll\<close> then calls
  \<open>Shutdown\<close> of all of them in the reverse order, whatever errors occur.\<close>

theorem init_shutdown_order:
  assumes "mset it = mset (reg_modules (registered xs))" and "mset it2 = mset (map fst (reg_modules (registered xs)))"
  shows "case InitAll it it2 (registered xs) of (x, called, r') \<Rightarrow>
    topo_from (reg_modules (registered xs)) {} called \<and>
    (x = Ret () \<longrightarrow> mset called = mset (map fst (reg_modules (registered xs))) \<and> snd (ShutdownAll r') = rev called)"
proof (cases "resolveOrderLocked it it2 (reg_modules (registered xs))")
  case (Ret order)
  let ?ms = "reg_modules (registered xs)"
  obtain x called where l: "init_loop order = (x, called)" by fastforce
  have t: "topo_from ?ms {} (map (\<lambda>m. mf_Name (mod_Manifest m)) order)"
    and p: "mset (map (\<lambda>m. mf_Name (mod_Manifest m)) order) = mset (map fst ?ms)"
    using resolve_outcome [OF assms] by (simp_all add: Ret)
  from init_loop_prefix [OF l] t have "topo_from ?ms {} called" using topo_take by blast
  with init_loop_prefix [OF l] p show ?thesis
    by (simp add: InitAll_def Ret l ShutdownAll_def shutdown_loop_called rev_map)
qed (simp_all add: InitAll_def)

theorem init_shutdown_order_witness:
  "topo_from (reg_modules (registered ex_modules)) {}
     (fst (snd (InitAll (reg_modules (registered ex_modules)) [''crm'', ''sales'', ''inventory''] (registered ex_modules))))"
proof -
  have k: "map fst (reg_modules (registered ex_modules)) = [''sales'', ''crm'', ''inventory'']" by code_simp
  show ?thesis
    using init_shutdown_order [of "reg_modules (registered ex_modules)" ex_modules "[''crm'', ''sales'', ''inventory'']"]
    by (simp add: k split: prod.splits)
qed

end
