(* ===== verification/Webhook.thy ===== *)
theory Webhook
  imports EventBus "HOL-Library.Sublist"
begin

text \<open>
  Webhooks: \<open>internal/core/domain/webhook/webhook.go\<close>, the repository
  \<open>internal/core/repository/postgres/webhook_repository.go\<close>, the use case
  \<open>internal/core/usecase/webhook\<close> and the dispatcher
  \<open>internal/core/worker/webhook_dispatcher.go\<close>. What the network, \<open>net/url\<close>, \<open>crypto/hmac\<close> and
  \<open>encoding/json\<close> answer is given by a record; the goroutines that the dispatcher starts are
  returned as jobs, each run on its own.
\<close>

section \<open>Data\<close>

record Endpoint =
  ep_ID :: ID
  ep_TenantID :: ID
  ep_Name :: string
  ep_URL :: string
  ep_Secret :: string
  ep_IsActive :: bool
  ep_CreatedAt :: gotime
  ep_UpdatedAt :: gotime

type_synonym DeliveryStatus = string

definition DeliveryStatusPending :: DeliveryStatus where "DeliveryStatusPending = ''pending''"
definition DeliveryStatusSuccess :: DeliveryStatus where "DeliveryStatusSuccess = ''success''"
definition DeliveryStatusFailed :: DeliveryStatus where "DeliveryStatusFailed = ''failed''"

lemmas delivery_status_defs = DeliveryStatusPending_def DeliveryStatusSuccess_def DeliveryStatusFailed_def

record Delivery =
  dv_ID :: ID
  dv_EndpointID :: ID
  dv_OutboxEventID :: ID
  dv_EventType :: string
  dv_Attempt :: int
  dv_Status :: DeliveryStatus
  dv_ResponseCode :: "int option"
  dv_ResponseBody :: "string option"
  dv_ErrorMessage :: "string option"
  dv_DeliveredAt :: "gotime option"
  dv_CreatedAt :: gotime

section \<open>Repository\<close>

definition endpoint_row_of :: "Endpoint \<Rightarrow> webhook_endpoint_row" where
  "endpoint_row_of ep =
     \<lparr>wr_id = ep_ID ep, wr_tenant_id = ep_TenantID ep, wr_name = ep_Name ep, wr_url = ep_URL ep,
      wr_secret = ep_Secret ep, wr_is_active = ep_IsActive ep, wr_created_at = to_micro (ep_CreatedAt ep),
      wr_updated_at = to_micro (ep_UpdatedAt ep)\<rparr>"

definition endpoint_of_row :: "(int \<Rightarrow> int) \<Rightarrow> webhook_endpoint_row \<Rightarrow> Endpoint" where
  "endpoint_of_row lo r =
     \<lparr>ep_ID = wr_id r, ep_TenantID = wr_tenant_id r, ep_Name = wr_name r, ep_URL = wr_url r,
      ep_Secret = wr_secret r, ep_IsActive = wr_is_active r, ep_CreatedAt = ts_local lo (wr_created_at r),
      ep_UpdatedAt = ts_local lo (wr_updated_at r)\<rparr>"

definition endpoint_clash :: "webhook_endpoint_row \<Rightarrow> webhook_endpoint_row \<Rightarrow> bool" where
  "endpoint_clash r s \<longleftrightarrow> wr_id r = wr_id s"

definition sql_insert_endpoint :: "webhook_endpoint_row \<Rightarrow> int \<Rightarrow> db \<Rightarrow> webhook_endpoint_row res \<times> db" where
  "sql_insert_endpoint r t d =
     (case insert_row endpoint_clash (wr_id r \<noteq> NilID \<and> wr_tenant_id r \<noteq> NilID) r (t_webhook_endpoints d)
      of (x, rs) \<Rightarrow> (x, d\<lparr>t_webhook_endpoints := rs\<rparr>))"

definition CreateEndpoint :: "ctx \<Rightarrow> Endpoint \<Rightarrow> unit dbproc" where
  "CreateEndpoint c ep = bindP (stmt (pool_ctx c) (sql_insert_endpoint (endpoint_row_of ep))) (\<lambda>_. ret ())"

definition own_endpoint :: "ID \<Rightarrow> ID \<Rightarrow> webhook_endpoint_row \<Rightarrow> bool" where
  "own_endpoint tenantID i r \<longleftrightarrow> pg_eq (wr_id r) i \<and> pg_eq (wr_tenant_id r) tenantID"

definition GetEndpointByID :: "ctx \<Rightarrow> ID \<Rightarrow> ID \<Rightarrow> Endpoint dbproc" where
  "GetEndpointByID c tenantID i =
     bindP (tryP (query (pool_ctx c) (\<lambda>d. select_one (own_endpoint tenantID i) (t_webhook_endpoints d)))) (\<lambda>r.
     bindP (ask_env local_off) (\<lambda>lo.
     case r of
       Ret row \<Rightarrow> ret (endpoint_of_row lo row)
     | Fail er \<Rightarrow> fail (if errors_Is er ErrNoRows then ErrEndpointNotFound else er)
     | Panic p \<Rightarrow> lift_res (Panic p)))"

definition repo_ListEndpoints :: "ctx \<Rightarrow> ID \<Rightarrow> Endpoint list dbproc" where
  "repo_ListEndpoints c tenantID =
     bindP (query (pool_ctx c) (\<lambda>d. Ret (sort_key (\<lambda>r. - wr_created_at r)
       (filter (\<lambda>r. pg_eq (wr_tenant_id r) tenantID) (t_webhook_endpoints d))))) (\<lambda>rows.
     bindP (ask_env local_off) (\<lambda>lo. ret (map (endpoint_of_row lo) rows)))"

definition sql_set_active :: "bool \<Rightarrow> int \<Rightarrow> ID \<Rightarrow> ID \<Rightarrow> int \<Rightarrow> db \<Rightarrow> nat res \<times> db" where
  "sql_set_active active now tenantID i t d =
     (Ret (length (filter (own_endpoint tenantID i) (t_webhook_endpoints d))),
      d\<lparr>t_webhook_endpoints := update_rows (own_endpoint tenantID i)
          (\<lambda>r. r\<lparr>wr_is_active := active, wr_updated_at := now\<rparr>) (t_webhook_endpoints d)\<rparr>)"

definition SetEndpointActive :: "ctx \<Rightarrow> ID \<Rightarrow> ID \<Rightarrow> bool \<Rightarrow> unit dbproc" where
  "SetEndpointActive c tenantID i active =
     bindP Now (\<lambda>now.
     bindP (stmt (pool_ctx c) (sql_set_active active (to_micro now) tenantID i)) (\<lambda>affected.
     guard (affected \<noteq> 0) ErrEndpointNotFound))"

text \<open>The deliveries of a deleted endpoint go with it (\<open>ON DELETE CASCADE\<close>).\<close>

definition sql_delete_endpoint :: "ID \<Rightarrow> ID \<Rightarrow> int \<Rightarrow> db \<Rightarrow> nat res \<times> db" where
  "sql_delete_endpoint tenantID i t d =
     (let gone = filter (own_endpoint tenantID i) (t_webhook_endpoints d)
      in (Ret (length gone),
          d\<lparr>t_webhook_endpoints := filter (\<lambda>r. \<not> own_endpoint tenantID i r) (t_webhook_endpoints d),
            t_webhook_deliveries := filter (\<lambda>v. vr_endpoint_id v \<notin> wr_id ` set gone) (t_webhook_deliveries d)\<rparr>))"

definition repo_DeleteEndpoint :: "ctx \<Rightarrow> ID \<Rightarrow> ID \<Rightarrow> unit dbproc" where
  "repo_DeleteEndpoint c tenantID i =
     bindP (stmt (pool_ctx c) (sql_delete_endpoint tenantID i)) (\<lambda>affected.
     guard (affected \<noteq> 0) ErrEndpointNotFound)"

definition ListActiveEndpointsByTenant :: "ctx \<Rightarrow> ID \<Rightarrow> Endpoint list dbproc" where
  "ListActiveEndpointsByTenant c tenantID =
     bindP (query (pool_ctx c) (\<lambda>d. Ret (sort_key wr_created_at
       (filter (\<lambda>r. pg_eq (wr_tenant_id r) tenantID \<and> wr_is_active r) (t_webhook_endpoints d))))) (\<lambda>rows.
     bindP (ask_env local_off) (\<lambda>lo. ret (map (endpoint_of_row lo) rows)))"

definition delivery_row_of :: "Delivery \<Rightarrow> webhook_delivery_row" where
  "delivery_row_of v =
     \<lparr>vr_id = dv_ID v, vr_endpoint_id = dv_EndpointID v, vr_outbox_event_id = dv_OutboxEventID v,
      vr_event_type = dv_EventType v, vr_attempt = dv_Attempt v, vr_status = dv_Status v,
      vr_response_code = dv_ResponseCode v, vr_response_body = dv_ResponseBody v,
      vr_error_message = dv_ErrorMessage v, vr_delivered_at = map_option to_micro (dv_DeliveredAt v),
      vr_created_at = to_micro (dv_CreatedAt v)\<rparr>"

definition delivery_clash :: "webhook_delivery_row \<Rightarrow> webhook_delivery_row \<Rightarrow> bool" where
  "delivery_clash r s \<longleftrightarrow> vr_id r = vr_id s"

text \<open>The endpoint must exist (foreign key) and the status be a known one (check).\<close>

definition sql_insert_delivery :: "webhook_delivery_row \<Rightarrow> int \<Rightarrow> db \<Rightarrow> webhook_delivery_row res \<times> db" where
  "sql_insert_delivery r t d =
     (if vr_endpoint_id r \<notin> wr_id ` set (t_webhook_endpoints d) then (Fail (Opaque ''foreign key constraint''), d)
      else if vr_status r \<notin> {''pending'', ''success'', ''failed''} then (Fail (Opaque ''check constraint''), d)
      else case insert_row delivery_clash
             (vr_id r \<noteq> NilID \<and> vr_endpoint_id r \<noteq> NilID \<and> vr_outbox_event_id r \<noteq> NilID) r (t_webhook_deliveries d)
           of (x, rs) \<Rightarrow> (x, d\<lparr>t_webhook_deliveries := rs\<rparr>))"

definition CreateDelivery :: "ctx \<Rightarrow> Delivery \<Rightarrow> unit dbproc" where
  "CreateDelivery c v = bindP (stmt (pool_ctx c) (sql_insert_delivery (delivery_row_of v))) (\<lambda>_. ret ())"

definition delivery_of_row :: "(int \<Rightarrow> int) \<Rightarrow> webhook_delivery_row \<Rightarrow> Delivery" where
  "delivery_of_row lo r =
     \<lparr>dv_ID = vr_id r, dv_EndpointID = vr_endpoint_id r, dv_OutboxEventID = vr_outbox_event_id r,
      dv_EventType = vr_event_type r, dv_Attempt = vr_attempt r, dv_Status = vr_status r,
      dv_ResponseCode = vr_response_code r, dv_ResponseBody = vr_response_body r,
      dv_ErrorMessage = vr_error_message r, dv_DeliveredAt = map_option (ts_local lo) (vr_delivered_at r),
      dv_CreatedAt = ts_local lo (vr_created_at r)\<rparr>"

definition ListDeliveriesByEndpoint :: "ctx \<Rightarrow> ID \<Rightarrow> ID \<Rightarrow> int \<Rightarrow> Delivery list dbproc" where
  "ListDeliveriesByEndpoint c tenantID endpointID limit0 =
     (let limit = (if limit0 \<le> 0 \<or> limit0 > 200 then 50 else limit0)
      in bindP (query (pool_ctx c) (\<lambda>d. Ret (take (nat limit) (sort_key (\<lambda>v. - vr_created_at v)
           (filter (\<lambda>v. pg_eq (vr_endpoint_id v) endpointID \<and>
              list_ex (\<lambda>r. wr_id r = vr_endpoint_id v \<and> pg_eq (wr_tenant_id r) tenantID) (t_webhook_endpoints d))
             (t_webhook_deliveries d)))))) (\<lambda>rows.
         bindP (ask_env local_off) (\<lambda>lo. ret (map (delivery_of_row lo) rows))))"

section \<open>Use case\<close>

text \<open>What \<open>url.Parse\<close> gives: an error, or the scheme and the host.\<close>

type_synonym url_parser = "string \<Rightarrow> (string \<times> string) option"

definition validateEndpointInput :: "url_parser \<Rightarrow> string \<Rightarrow> string \<Rightarrow> string \<Rightarrow> unit res" where
  "validateEndpointInput parse name rawURL0 secret =
     (if TrimSpace name = [] then Fail (Wrapped ''name is required'' ErrInvalidInput)
      else let rawURL = TrimSpace rawURL0
      in if rawURL = [] then Fail ErrInvalidURL
      else case parse rawURL of
          None \<Rightarrow> Fail ErrInvalidURL
        | Some (scheme, host) \<Rightarrow>
            if scheme \<noteq> ''http'' \<and> scheme \<noteq> ''https'' \<or> host = [] then Fail ErrInvalidURL
            else if length secret < 16 then Fail ErrSecretTooShort
            else Ret ())"

record RegisterEndpointInput =
  ri_TenantID :: ID
  ri_Name :: string
  ri_URL :: string
  ri_Secret :: string

definition RegisterEndpoint :: "url_parser \<Rightarrow> ctx \<Rightarrow> RegisterEndpointInput \<Rightarrow> Endpoint dbproc" where
  "RegisterEndpoint parse c inp =
     bindP (lift_res (validateEndpointInput parse (ri_Name inp) (ri_URL inp) (ri_Secret inp))) (\<lambda>_.
     bindP (wrap_err ''generate id'' NewID) (\<lambda>i.
     bindP Now (\<lambda>now.
     let ep = \<lparr>ep_ID = i, ep_TenantID = ri_TenantID inp, ep_Name = TrimSpace (ri_Name inp),
           ep_URL = TrimSpace (ri_URL inp), ep_Secret = ri_Secret inp, ep_IsActive = True,
           ep_CreatedAt = now, ep_UpdatedAt = now\<rparr>
     in bindP (wrap_err ''create webhook endpoint'' (CreateEndpoint c ep)) (\<lambda>_.
        ret (ep\<lparr>ep_Secret := []\<rparr>)))))"

definition ListEndpoints :: "ctx \<Rightarrow> ID \<Rightarrow> Endpoint list dbproc" where
  "ListEndpoints c tenantID =
     bindP (wrap_err ''list webhook endpoints'' (repo_ListEndpoints c tenantID)) (\<lambda>eps.
     ret (map (\<lambda>ep. ep\<lparr>ep_Secret := []\<rparr>) eps))"

definition DisableEndpoint :: "ctx \<Rightarrow> ID \<Rightarrow> ID \<Rightarrow> unit dbproc" where
  "DisableEndpoint c tenantID i = SetEndpointActive c tenantID i False"

definition EnableEndpoint :: "ctx \<Rightarrow> ID \<Rightarrow> ID \<Rightarrow> unit dbproc" where
  "EnableEndpoint c tenantID i = SetEndpointActive c tenantID i True"

definition DeleteEndpoint :: "ctx \<Rightarrow> ID \<Rightarrow> ID \<Rightarrow> unit dbproc" where
  "DeleteEndpoint c tenantID i = repo_DeleteEndpoint c tenantID i"

definition ListDeliveries :: "ctx \<Rightarrow> ID \<Rightarrow> ID \<Rightarrow> int \<Rightarrow> Delivery list dbproc" where
  "ListDeliveries c tenantID endpointID limit = ListDeliveriesByEndpoint c tenantID endpointID limit"

section \<open>Dispatcher\<close>

record WebhookPayload =
  wp_ID :: string
  wp_TenantID :: string
  wp_EventType :: string
  wp_AggregateType :: string
  wp_AggregateID :: string
  wp_Payload :: gomap
  wp_OccurredAt :: gotime

record http_request =
  rq_URL :: string
  rq_Headers :: "(string \<times> string) list"
  rq_Body :: string

text \<open>
  What is outside: whether a URL gives a request, the answer to a request at a moment (a status
  code and a body, or no answer), whether the context is cancelled while waiting before an
  attempt, the HMAC, and the JSON text of a payload (none when it cannot be encoded).
\<close>

record net =
  net_valid_url :: "string \<Rightarrow> bool"
  net_do :: "http_request \<Rightarrow> nat \<Rightarrow> (int \<times> string) option"
  net_cancelled :: "nat \<Rightarrow> bool"
  net_hmac :: "string \<Rightarrow> string \<Rightarrow> string"
  net_marshal :: "WebhookPayload \<Rightarrow> string option"

definition webhookMaxAttempts :: nat where
  "webhookMaxAttempts = 3"

definition webhookRetryDelays :: "duration list" where
  "webhookRetryDelays = [0, 1 * Second, 5 * Second]"

definition computeHMAC :: "net \<Rightarrow> string \<Rightarrow> string \<Rightarrow> string" where
  "computeHMAC nt secret body = net_hmac nt secret body"

definition webhook_request :: "net \<Rightarrow> string \<Rightarrow> string \<Rightarrow> ID \<Rightarrow> ID \<Rightarrow> string \<Rightarrow> http_request" where
  "webhook_request nt targetURL secret outboxEventID deliveryID body =
     \<lparr>rq_URL = targetURL,
      rq_Headers = [(''Content-Type'', ''application/json''),
        (''X-Mergiate-Signature'', ''sha256='' @ computeHMAC nt secret body),
        (''X-Mergiate-Delivery'', ID_String deliveryID), (''X-Mergiate-Event'', ID_String outboxEventID)],
      rq_Body = body\<rparr>"

text \<open>The status code, the body of the answer cut at 4096 bytes, and the error of \<open>post\<close>, with the
  request it has sent, if any.\<close>

definition post :: "net \<Rightarrow> string \<Rightarrow> string \<Rightarrow> ID \<Rightarrow> ID \<Rightarrow> string \<Rightarrow>
    (http_request option \<times> int \<times> string \<times> string option) dbproc" where
  "post nt targetURL secret outboxEventID deliveryID body = (\<lambda>e w.
     let req = webhook_request nt targetURL secret outboxEventID deliveryID body; w1 = w\<lparr>tick := Suc (tick w)\<rparr>
     in if \<not> net_valid_url nt targetURL then (Ret (None, 0, [], Some ''build request''), w1)
        else case net_do nt req (tick w) of
            None \<Rightarrow> (Ret (Some req, 0, [], Some ''http post''), w1)
          | Some (code, raw) \<Rightarrow> (Ret (Some req, code, take 4096 raw, None), w1))"

definition attempt_status :: "int \<Rightarrow> string option \<Rightarrow> DeliveryStatus" where
  "attempt_status code er =
     (if er \<noteq> None \<or> code < 200 \<or> code \<ge> 300 then DeliveryStatusFailed else DeliveryStatusSuccess)"

definition attempt_message :: "int \<Rightarrow> string option \<Rightarrow> string" where
  "attempt_message code er =
     (case er of Some m \<Rightarrow> m | None \<Rightarrow> ''HTTP '' @ fmt_d code @ '': %!s(<nil>)'')"

definition attempt_delivery :: "ID \<Rightarrow> gotime \<Rightarrow> ID \<Rightarrow> ID \<Rightarrow> nat \<Rightarrow> int \<Rightarrow> string \<Rightarrow> string option \<Rightarrow> Delivery" where
  "attempt_delivery deliveryID now epID outboxEventID attempt code respBody er =
     (let ok = attempt_status code er = DeliveryStatusSuccess
      in \<lparr>dv_ID = deliveryID, dv_EndpointID = epID, dv_OutboxEventID = outboxEventID, dv_EventType = [],
          dv_Attempt = int attempt, dv_Status = attempt_status code er,
          dv_ResponseCode = (if code \<noteq> 0 then Some code else None), dv_ResponseBody = ptr_of_str respBody,
          dv_ErrorMessage = (if ok then None else Some (attempt_message code er)),
          dv_DeliveredAt = (if ok then Some now else None), dv_CreatedAt = now\<rparr>)"

text \<open>The loop over the attempts, by the number of attempts left. The result lists the attempts made:
  their number, the request sent and the status.\<close>

type_synonym attempt = "nat \<times> http_request option \<times> DeliveryStatus"

fun deliver_loop :: "net \<Rightarrow> ctx \<Rightarrow> Endpoint \<Rightarrow> ID \<Rightarrow> string \<Rightarrow> nat \<Rightarrow> nat \<Rightarrow> attempt list dbproc" where
  "deliver_loop nt c ep evID body n 0 = ret []"
| "deliver_loop nt c ep evID body n (Suc left) =
     (if n > 1 \<and> net_cancelled nt n then ret []
      else bindP (tryP NewID) (\<lambda>i.
        let deliveryID = (case i of Ret x \<Rightarrow> x | _ \<Rightarrow> NilID)
        in bindP Now (\<lambda>now.
        bindP (post nt (ep_URL ep) (ep_Secret ep) evID deliveryID body) (\<lambda>(req, code, respBody, er).
        bindP (tryP (CreateDelivery c (attempt_delivery deliveryID now (ep_ID ep) evID n code respBody er))) (\<lambda>_.
        if attempt_status code er = DeliveryStatusSuccess then ret [(n, req, DeliveryStatusSuccess)]
        else bindP (deliver_loop nt c ep evID body (n + 1) left) (\<lambda>rest.
             ret ((n, req, DeliveryStatusFailed) # rest)))))))"

definition deliverWithRetry :: "net \<Rightarrow> ctx \<Rightarrow> Endpoint \<Rightarrow> ID \<Rightarrow> string \<Rightarrow> attempt list dbproc" where
  "deliverWithRetry nt c ep evID body = deliver_loop nt c ep evID body 1 webhookMaxAttempts"

text \<open>The goroutines started for an event: endpoint, event and body.\<close>

type_synonym job = "Endpoint \<times> ID \<times> string"

definition webhook_payload :: "BaseEvent \<Rightarrow> WebhookPayload" where
  "webhook_payload ev =
     \<lparr>wp_ID = ID_String (be_ID ev), wp_TenantID = ID_String (be_Tenant ev), wp_EventType = be_Type ev,
      wp_AggregateType = be_AggType ev, wp_AggregateID = ID_String (be_AggID ev), wp_Payload = be_Data ev,
      wp_OccurredAt = be_Timestamp ev\<rparr>"

definition dispatchEvent :: "net \<Rightarrow> ctx \<Rightarrow> BaseEvent \<Rightarrow> job list dbproc" where
  "dispatchEvent nt c ev =
     (if be_Tenant ev = NilID then ret []
      else bindP (tryP (ListActiveEndpointsByTenant c (be_Tenant ev))) (\<lambda>r.
        case r of
          Ret eps \<Rightarrow> (case net_marshal nt (webhook_payload ev) of
              None \<Rightarrow> ret []
            | Some body \<Rightarrow> ret (map (\<lambda>ep. (ep, be_ID ev, body)) eps))
        | _ \<Rightarrow> ret []))"

definition webhook_handler :: "net \<Rightarrow> db handler" where
  "webhook_handler nt c ev = bindP (dispatchEvent nt c ev) (\<lambda>_. ret ())"

definition WebhookDispatcher_Start :: "net \<Rightarrow> db handler bus \<Rightarrow> db handler bus" where
  "WebhookDispatcher_Start nt b = Subscribe ''*'' (webhook_handler nt) b"

section \<open>Lemmas\<close>

text \<open>A statement on the pool: refused, or applied with its reply received or lost.\<close>

lemma stmt_outcome_cases:
  assumes "stmt (pool_ctx c) f e w = (r, w')"
  obtains "wdb w' = wdb w" and "\<not> is_Ret r \<or> (\<exists>x. f (dbnow_at e (tick w)) (wdb w) = (Ret x, wdb w))"
  | x d where "f (dbnow_at e (tick w)) (wdb w) = (Ret x, d)" and "wdb w' = d" and "r = Ret x \<or> r = Fail (Opaque ''database'')"
  using assms unfolding stmt_def Let_def
  by (auto split: fault.splits res.splits prod.splits)

lemma sql_insert_delivery_Ret:
  "sql_insert_delivery r t d = (Ret x, d') \<Longrightarrow>
     vr_endpoint_id r \<in> wr_id ` set (t_webhook_endpoints d) \<and> x = r \<and>
     d' = d\<lparr>t_webhook_deliveries := t_webhook_deliveries d @ [r]\<rparr>"
  by (auto simp: sql_insert_delivery_def insert_row_def split: if_splits prod.splits)

lemma CreateDelivery_cases:
  assumes "tryP (CreateDelivery c v) e w = (r, w')"
  obtains x where "r = Ret x" and "wdb w' = wdb w \<or>
    wdb w' = (wdb w)\<lparr>t_webhook_deliveries := t_webhook_deliveries (wdb w) @ [delivery_row_of v]\<rparr> \<and>
    dv_EndpointID v \<in> wr_id ` set (t_webhook_endpoints (wdb w))"
proof -
  obtain r1 w1 where s: "stmt (pool_ctx c) (sql_insert_delivery (delivery_row_of v)) e w = (r1, w1)" by fastforce
  have np: "r1 \<noteq> Panic p" for p
    using s unfolding stmt_def Let_def
    by (auto simp: sql_insert_delivery_def insert_row_def split: fault.splits res.splits prod.splits if_splits)
  then have w: "w' = w1" "\<exists>x. r = Ret x"
    using assms s by (cases r1; auto simp: CreateDelivery_def tryP_def bindP_def ret_def)+
  from s show thesis
  proof (cases rule: stmt_outcome_cases)
    case 1
    with w that show thesis by blast
  next
    case (2 x d)
    with sql_insert_delivery_Ret [OF 2(1)] w that show thesis by (auto simp: delivery_row_of_def)
  qed
qed

lemma attempt_status_not: "attempt_status code er \<noteq> DeliveryStatusSuccess \<Longrightarrow> attempt_status code er = DeliveryStatusFailed"
  by (auto simp: attempt_status_def)

definition signed_for :: "net \<Rightarrow> Endpoint \<Rightarrow> string \<Rightarrow> http_request option \<Rightarrow> bool" where
  "signed_for nt ep body rq =
     (case rq of None \<Rightarrow> True
      | Some q \<Rightarrow> rq_URL q = ep_URL ep \<and> rq_Body q = body \<and>
          (''X-Mergiate-Signature'', ''sha256='' @ computeHMAC nt (ep_Secret ep) body) \<in> set (rq_Headers q))"

text \<open>The attempts made from the n-th on, and the rows logged for them.\<close>

definition attempts_from :: "net \<Rightarrow> Endpoint \<Rightarrow> string \<Rightarrow> nat \<Rightarrow> attempt list \<Rightarrow> bool" where
  "attempts_from nt ep body n atts \<longleftrightarrow>
     map fst atts = [n..<n + length atts] \<and> list_all (\<lambda>(_, rq, _). signed_for nt ep body rq) atts \<and>
     map (snd \<circ> snd) (butlast atts) = replicate (length atts - 1) DeliveryStatusFailed"

definition logged :: "Endpoint \<Rightarrow> ID \<Rightarrow> attempt list \<Rightarrow> webhook_delivery_row list \<Rightarrow> bool" where
  "logged ep evID atts rows \<longleftrightarrow>
     list_all (\<lambda>v. vr_endpoint_id v = ep_ID ep \<and> vr_outbox_event_id v = evID) rows \<and>
     subseq (map (\<lambda>v. (vr_attempt v, vr_status v)) rows) (map (\<lambda>(n, _, st). (int n, st)) atts)"

lemma attempts_Cons:
  "attempts_from nt ep body (Suc n) atts \<Longrightarrow> signed_for nt ep body rq \<Longrightarrow>
   attempts_from nt ep body n ((n, rq, DeliveryStatusFailed) # atts)"
  by (cases atts) (auto simp: attempts_from_def upt_conv_Cons simp del: upt_Suc)

lemma logged_Cons:
  assumes "logged ep evID atts rows"
    and "rs = [] \<or> rs = [v] \<and> vr_endpoint_id v = ep_ID ep \<and> vr_outbox_event_id v = evID \<and> vr_attempt v = int n \<and> vr_status v = st"
  shows "logged ep evID ((n, rq, st) # atts) (rs @ rows)"
  using assms by (auto simp: logged_def)

lemma post_Ret: "\<exists>req code body' er. post nt url secret evID i body e w = (Ret (req, code, body', er), w\<lparr>tick := Suc (tick w)\<rparr>) \<and>
    (req = None \<or> req = Some (webhook_request nt url secret evID i body))"
  by (auto simp: post_def Let_def split: option.splits)

lemma deliver_loop_spec:
  "\<exists>atts rows w'. deliver_loop nt c ep evID body n left e w = (Ret atts, w') \<and> length atts \<le> left \<and>
     attempts_from nt ep body n atts \<and> logged ep evID atts rows \<and>
     wdb w' = (wdb w)\<lparr>t_webhook_deliveries := t_webhook_deliveries (wdb w) @ rows\<rparr> \<and>
     (rows \<noteq> [] \<longrightarrow> ep_ID ep \<in> wr_id ` set (t_webhook_endpoints (wdb w)))"
proof (induction left arbitrary: n w)
  case 0
  show ?case by (rule exI [of _ "[]"], rule exI [of _ "[]"]) (simp add: ret_def attempts_from_def logged_def)
next
  case (Suc left)
  show ?case
  proof (cases "n > 1 \<and> net_cancelled nt n")
    case True
    then show ?thesis
      by (intro exI [of _ "[]"] exI [of _ w]) (simp add: ret_def attempts_from_def logged_def)
  next
    case False
    obtain i w1 where i: "tryP NewID e w = (Ret i, w1)" "wdb w1 = wdb w"
      by (cases "newid_at e (tick w)") (auto simp: tryP_def NewID_def)
    define delID where "delID = (case i of Ret x \<Rightarrow> x | _ \<Rightarrow> NilID)"
    obtain now w2 where t: "Now e w1 = (Ret now, w2)" "wdb w2 = wdb w" using i(2) by (simp add: Now_def)
    obtain req code rb er where p: "post nt (ep_URL ep) (ep_Secret ep) evID delID body e w2 = (Ret (req, code, rb, er), w2\<lparr>tick := Suc (tick w2)\<rparr>)"
      and sg: "signed_for nt ep body req"
      using post_Ret [of nt "ep_URL ep" "ep_Secret ep" evID delID body e w2]
      by (auto simp: signed_for_def webhook_request_def)
    let ?v = "attempt_delivery delID now (ep_ID ep) evID n code rb er"
    have v: "vr_endpoint_id (delivery_row_of ?v) = ep_ID ep" "vr_outbox_event_id (delivery_row_of ?v) = evID"
      "vr_attempt (delivery_row_of ?v) = int n" "vr_status (delivery_row_of ?v) = attempt_status code er"
      by (simp_all add: attempt_delivery_def delivery_row_of_def Let_def)
    obtain x w3 rows1 where l: "tryP (CreateDelivery c ?v) e (w2\<lparr>tick := Suc (tick w2)\<rparr>) = (Ret x, w3)"
      and w3: "wdb w3 = (wdb w)\<lparr>t_webhook_deliveries := t_webhook_deliveries (wdb w) @ rows1\<rparr>"
      and r1: "rows1 = [] \<or> rows1 = [delivery_row_of ?v] \<and> ep_ID ep \<in> wr_id ` set (t_webhook_endpoints (wdb w))"
    proof -
      obtain y w3 where y: "tryP (CreateDelivery c ?v) e (w2\<lparr>tick := Suc (tick w2)\<rparr>) = (y, w3)" by fastforce
      have id: "dv_EndpointID ?v = ep_ID ep" by (simp add: attempt_delivery_def Let_def)
      from CreateDelivery_cases [OF y] obtain x where x: "y = Ret x"
        and c: "wdb w3 = wdb w \<or> wdb w3 = (wdb w)\<lparr>t_webhook_deliveries := t_webhook_deliveries (wdb w) @ [delivery_row_of ?v]\<rparr> \<and>
          dv_EndpointID ?v \<in> wr_id ` set (t_webhook_endpoints (wdb w))" using t(2) by auto
      from c show thesis
      proof
        assume "wdb w3 = wdb w"
        then show thesis using that [of x w3 "[]"] y x by simp
      next
        assume "wdb w3 = (wdb w)\<lparr>t_webhook_deliveries := t_webhook_deliveries (wdb w) @ [delivery_row_of ?v]\<rparr> \<and>
          dv_EndpointID ?v \<in> wr_id ` set (t_webhook_endpoints (wdb w))"
        then show thesis using that [of x w3 "[delivery_row_of ?v]"] y x id by simp
      qed
    qed
    have run: "deliver_loop nt c ep evID body n (Suc left) e w =
        (if attempt_status code er = DeliveryStatusSuccess then ret [(n, req, DeliveryStatusSuccess)]
         else bindP (deliver_loop nt c ep evID body (n + 1) left) (\<lambda>rest. ret ((n, req, DeliveryStatusFailed) # rest))) e w3"
      using False p l unfolding delID_def by (auto simp: bindP_def i(1) t(1) Let_def)
    show ?thesis
    proof (cases "attempt_status code er = DeliveryStatusSuccess")
      case True
      have "logged ep evID ((n, req, DeliveryStatusSuccess) # []) (rows1 @ [])"
        by (rule logged_Cons) (use r1 v True in \<open>auto simp: logged_def\<close>)
      then show ?thesis
        using run True w3 r1 sg by (intro exI [of _ "[(n, req, DeliveryStatusSuccess)]"] exI [of _ rows1] exI [of _ w3])
          (auto simp: ret_def attempts_from_def)
    next
      case False
      obtain atts rows w' where IH: "deliver_loop nt c ep evID body (Suc n) left e w3 = (Ret atts, w')" "length atts \<le> left"
        "attempts_from nt ep body (Suc n) atts" "logged ep evID atts rows"
        "wdb w' = (wdb w3)\<lparr>t_webhook_deliveries := t_webhook_deliveries (wdb w3) @ rows\<rparr>"
        "rows \<noteq> [] \<longrightarrow> ep_ID ep \<in> wr_id ` set (t_webhook_endpoints (wdb w3))"
        using Suc.IH [of "Suc n" w3] by blast
      have "logged ep evID ((n, req, DeliveryStatusFailed) # atts) (rows1 @ rows)"
        by (rule logged_Cons [OF IH(4)]) (use r1 v attempt_status_not [OF False] in auto)
      then show ?thesis
        using run False IH w3 r1 attempts_Cons [OF IH(3) sg]
        by (intro exI [of _ "(n, req, DeliveryStatusFailed) # atts"] exI [of _ "rows1 @ rows"] exI [of _ w'])
          (auto simp: ret_def bindP_def)
    qed
  qed
qed

text \<open>Every logged delivery belongs to an endpoint.\<close>

definition deliveries_ok :: "db \<Rightarrow> bool" where
  "deliveries_ok d \<longleftrightarrow> (\<forall>v \<in> set (t_webhook_deliveries d). vr_endpoint_id v \<in> wr_id ` set (t_webhook_endpoints d))"

definition keeps_deliveries_ok :: "db \<Rightarrow> db \<Rightarrow> bool" where
  "keeps_deliveries_ok d d' \<longleftrightarrow> (deliveries_ok d \<longrightarrow> deliveries_ok d')"

interpretation delivery_refs: db_order keeps_deliveries_ok
  by unfold_locales (auto simp: keeps_deliveries_ok_def)

lemma sql_insert_endpoint_keeps: "sql_insert_endpoint r t d = (Ret x, d') \<Longrightarrow> keeps_deliveries_ok d d'"
  by (auto simp: keeps_deliveries_ok_def deliveries_ok_def sql_insert_endpoint_def insert_row_def
      split: if_splits prod.splits)

lemma sql_set_active_keeps: "sql_set_active b n tid i t d = (Ret x, d') \<Longrightarrow> keeps_deliveries_ok d d'"
proof -
  have "wr_id ` set (update_rows p (\<lambda>r. r\<lparr>wr_is_active := b, wr_updated_at := n\<rparr>) rs) = wr_id ` set rs"
    for p and rs :: "webhook_endpoint_row list"
    by (induction rs) (auto simp: update_rows_def)
  then show "sql_set_active b n tid i t d = (Ret x, d') \<Longrightarrow> keeps_deliveries_ok d d'"
    by (auto simp: keeps_deliveries_ok_def deliveries_ok_def sql_set_active_def)
qed

lemma sql_delete_endpoint_keeps: "sql_delete_endpoint tid i t d = (Ret x, d') \<Longrightarrow> keeps_deliveries_ok d d'"
  by (auto simp: keeps_deliveries_ok_def deliveries_ok_def sql_delete_endpoint_def Let_def image_iff) blast

lemma sql_insert_delivery_keeps: "sql_insert_delivery v t d = (Ret x, d') \<Longrightarrow> keeps_deliveries_ok d d'"
  by (auto simp: keeps_deliveries_ok_def deliveries_ok_def dest!: sql_insert_delivery_Ret)

lemma webhook_ops_keep [stays_intros]:
  "stays keeps_deliveries_ok (RegisterEndpoint parse c inp)"
  "stays keeps_deliveries_ok (SetEndpointActive c tid i b)"
  "stays keeps_deliveries_ok (repo_DeleteEndpoint c tid i)"
  "stays keeps_deliveries_ok (CreateDelivery c v)"
  unfolding RegisterEndpoint_def CreateEndpoint_def SetEndpointActive_def repo_DeleteEndpoint_def CreateDelivery_def Let_def
  by (intro stays_intros delivery_refs.stays_stmt; erule sql_insert_endpoint_keeps sql_set_active_keeps
      sql_delete_endpoint_keeps sql_insert_delivery_keeps)+

text \<open>Runs of the web service and the dispatcher, from empty tables. Any other part of the program leaves
  the two tables alone.\<close>

inductive webhook_run :: "db world \<Rightarrow> bool" where
  start: "t_webhook_endpoints (wdb w) = [] \<Longrightarrow> t_webhook_deliveries (wdb w) = [] \<Longrightarrow> webhook_run w"
| register: "webhook_run w \<Longrightarrow> RegisterEndpoint parse c inp e w = (r, w') \<Longrightarrow> webhook_run w'"
| set_active: "webhook_run w \<Longrightarrow> SetEndpointActive c tid i b e w = (r', w') \<Longrightarrow> webhook_run w'"
| delete: "webhook_run w \<Longrightarrow> DeleteEndpoint c tid i e w = (r', w') \<Longrightarrow> webhook_run w'"
| deliver: "webhook_run w \<Longrightarrow> deliverWithRetry nt c ep evID body e w = (atts, w') \<Longrightarrow> webhook_run w'"
| elsewhere: "webhook_run w \<Longrightarrow> t_webhook_endpoints (wdb w') = t_webhook_endpoints (wdb w) \<Longrightarrow>
    t_webhook_deliveries (wdb w') = t_webhook_deliveries (wdb w) \<Longrightarrow> webhook_run w'"

lemma deliver_loop_keeps: "deliver_loop nt c ep evID body n left e w = (atts, w') \<Longrightarrow> keeps_deliveries_ok (wdb w) (wdb w')"
  using deliver_loop_spec [of nt c ep evID body n left e w]
  by (auto simp: keeps_deliveries_ok_def deliveries_ok_def logged_def list_all_iff)

lemma webhook_run_ok: "webhook_run w \<Longrightarrow> deliveries_ok (wdb w)"
proof (induction rule: webhook_run.induct)
  case (register w parse c inp e r w')
  with staysD [OF webhook_ops_keep(1)] show ?case by (metis keeps_deliveries_ok_def)
next
  case (set_active w c tid i b e r' w')
  with staysD [OF webhook_ops_keep(2)] show ?case by (metis keeps_deliveries_ok_def)
next
  case (delete w c tid i e r' w')
  with staysD [OF webhook_ops_keep(3)] show ?case by (metis keeps_deliveries_ok_def DeleteEndpoint_def)
next
  case (deliver w nt c ep evID body e atts w')
  with deliver_loop_keeps show ?case unfolding deliverWithRetry_def keeps_deliveries_ok_def by blast
qed (auto simp: deliveries_ok_def)

lemma dispatchEvent_Ret:
  "\<exists>jobs w'. dispatchEvent nt c ev e w = (Ret jobs, w') \<and> wdb w' = wdb w \<and>
     fst ` set jobs \<subseteq> endpoint_of_row (local_off e) `
       {r \<in> set (t_webhook_endpoints (wdb w)). wr_tenant_id r = be_Tenant ev \<and> be_Tenant ev \<noteq> NilID \<and> wr_is_active r}"
  by (cases "net_marshal nt (webhook_payload ev)"; cases "fault_at e (tick w)")
    (auto simp: dispatchEvent_def ListActiveEndpointsByTenant_def tryP_def bindP_def query_def stmt_def Let_def
      ask_env_def ret_def pg_eq_def pool_ctx_def split: prod.splits)

lemma webhook_handler_Ret: "\<exists>w'. webhook_handler nt c ev e w = (Ret (), w')"
  using dispatchEvent_Ret [of nt c ev e w] by (auto simp: webhook_handler_def bindP_def ret_def)

section \<open>Properties\<close>

text \<open>C32. A webhook is tried at most three times and not after a success. Whatever the network and the
  database do, \<open>deliverWithRetry\<close> makes at most three attempts, numbered from one, all but the
  last failed; every request goes to the URL of the endpoint, signed with its secret; and the
  log only grows, by rows for this endpoint and event that record attempts made, in order.\<close>

theorem webhook_delivery_attempts:
  "\<exists>atts rows w'. deliverWithRetry nt c ep evID body e w = (Ret atts, w') \<and> length atts \<le> 3 \<and>
     attempts_from nt ep body 1 atts \<and> logged ep evID atts rows \<and>
     wdb w' = (wdb w)\<lparr>t_webhook_deliveries := t_webhook_deliveries (wdb w) @ rows\<rparr>"
  using deliver_loop_spec [of nt c ep evID body 1 3 e w] unfolding deliverWithRetry_def webhookMaxAttempts_def by blast

text \<open>C33. Events reach only endpoints of their tenant. \<open>dispatchEvent\<close> never fails and writes nothing;
  the deliveries it starts are for active endpoints of the tenant of the event, and for an
  event without tenant there are none.\<close>

theorem webhook_dispatch_tenant:
  "\<exists>jobs w'. dispatchEvent nt c ev e w = (Ret jobs, w') \<and> wdb w' = wdb w \<and>
     fst ` set jobs \<subseteq> endpoint_of_row (local_off e) `
       {r \<in> set (t_webhook_endpoints (wdb w)). wr_tenant_id r = be_Tenant ev \<and> be_Tenant ev \<noteq> NilID \<and> wr_is_active r}"
  by (rule dispatchEvent_Ret)

text \<open>Every logged delivery belongs to a registered endpoint, after any sequence of registrations,
  activations, deletions and deliveries, with any faults.\<close>

theorem webhook_deliveries_refer:
  assumes "webhook_run w" and "v \<in> set (t_webhook_deliveries (wdb w))"
  shows "\<exists>r \<in> set (t_webhook_endpoints (wdb w)). wr_id r = vr_endpoint_id v"
  using webhook_run_ok [OF assms(1)] assms(2) by (force simp: deliveries_ok_def)

definition ex_net :: net where
  "ex_net = \<lparr>net_valid_url = (\<lambda>_. True), net_do = (\<lambda>_ _. Some (500, ''busy'')), net_cancelled = (\<lambda>_. False),
     net_hmac = (\<lambda>_ _. ''00''), net_marshal = (\<lambda>_. Some ''{}'')\<rparr>"

definition ex_empty :: "db world" where
  "ex_empty = \<lparr>wdb = empty_db, wtx = None, tick = 0\<rparr>"

definition ex_server :: env where
  "ex_server = \<lparr>fault_at = (\<lambda>_. NoFault), newid_at = (\<lambda>n. Some (of_nat (Suc n))), clock_at = (\<lambda>_. 0),
     dbnow_at = (\<lambda>_. 0), local_off = (\<lambda>_. 0), cvt_int64 = (\<lambda>_. 0)\<rparr>"

definition ex_registered :: "Endpoint res \<times> db world" where
  "ex_registered = RegisterEndpoint (\<lambda>_. Some (''https'', ''crm.example'')) Background
     \<lparr>ri_TenantID = 5, ri_Name = ''crm'', ri_URL = ''https://crm.example/hook'', ri_Secret = ''0123456789abcdef''\<rparr>
     ex_server ex_empty"

definition ex_delivered :: "attempt list res \<times> db world" where
  "ex_delivered = deliverWithRetry ex_net Background
     \<lparr>ep_ID = 1, ep_TenantID = 5, ep_Name = ''crm'', ep_URL = ''https://crm.example/hook'',
      ep_Secret = ''0123456789abcdef'', ep_IsActive = True, ep_CreatedAt = utc_of_ns 0, ep_UpdatedAt = utc_of_ns 0\<rparr>
     77 ''{}'' ex_server (snd ex_registered)"

lemma ex_delivered_run: "webhook_run (snd ex_delivered)"
proof -
  obtain r w where 1: "ex_registered = (r, w)" by fastforce
  obtain a w' where 2: "ex_delivered = (a, w')" by fastforce
  have "webhook_run ex_empty" by (rule start) (simp_all add: ex_empty_def)
  from register [OF this] 1 have "webhook_run w" unfolding ex_registered_def by blast
  from deliver [OF this] 1 2 have "webhook_run w'" unfolding ex_delivered_def by (metis snd_conv)
  then show ?thesis by (simp add: 2)
qed

lemma ex_crm: "TrimSpace ''crm'' = ''crm''" "TrimSpace ''https://crm.example/hook'' = ''https://crm.example/hook''"
  by code_simp+

lemma ex_delivered_log: "map vr_attempt (t_webhook_deliveries (wdb (snd ex_delivered))) = [1, 2, 3]"
  by (simp add: ex_delivered_def ex_registered_def deliverWithRetry_def webhookMaxAttempts_def numeral_3_eq_3
      RegisterEndpoint_def validateEndpointInput_def ex_crm CreateEndpoint_def sql_insert_endpoint_def insert_row_def
      endpoint_row_of_def endpoint_clash_def post_def ex_net_def CreateDelivery_def sql_insert_delivery_def
      delivery_row_of_def delivery_clash_def attempt_delivery_def attempt_status_def delivery_status_defs
      ex_server_def ex_empty_def proc_eval pool_ctx_def Background_def NilID_def cong: proc_congs)

theorem webhook_deliveries_refer_witness:
  "\<exists>r \<in> set (t_webhook_endpoints (wdb (snd ex_delivered))).
     wr_id r = vr_endpoint_id (hd (t_webhook_deliveries (wdb (snd ex_delivered))))"
proof -
  have "hd (t_webhook_deliveries (wdb (snd ex_delivered))) \<in> set (t_webhook_deliveries (wdb (snd ex_delivered)))"
    using ex_delivered_log by (intro hd_in_set) auto
  from webhook_deliveries_refer [OF ex_delivered_run this] show ?thesis .
qed

end
