(* ===== verification/OutboxWorker.thy ===== *)
theory OutboxWorker
  imports Webhook
begin

text \<open>
  \<open>internal/core/worker/outbox_worker.go\<close>: the worker that hands pending outbox events to the
  bus. The bus is an interface, the locale \<open>outbox_bus\<close>: publishing may fail but does not panic
  and leaves the outbox alone; \<open>reliable_bus\<close> adds that it succeeds. Both are interpreted on the
  in-memory bus with the webhook dispatcher subscribed.
\<close>

section \<open>The worker\<close>

record Config =
  cfg_PollInterval :: duration
  cfg_BatchSize :: int32
  cfg_MaxRetries :: int32

definition DefaultConfig :: Config where
  "DefaultConfig = \<lparr>cfg_PollInterval = 1 * Second, cfg_BatchSize = 50, cfg_MaxRetries = 5\<rparr>"

definition NewOutboxWorker :: "Config \<Rightarrow> Config" where
  "NewOutboxWorker cfg =
     \<lparr>cfg_PollInterval = (if cfg_PollInterval cfg \<le> 0 then 1 * Second else cfg_PollInterval cfg),
      cfg_BatchSize = (if cfg_BatchSize cfg \<le>s 0 then 50 else cfg_BatchSize cfg),
      cfg_MaxRetries = (if cfg_MaxRetries cfg \<le>s 0 then 5 else cfg_MaxRetries cfg)\<rparr>"

text \<open>The loop over the events fetched. \<open>msg\<close> is the \<open>Error\<close> method of errors; an error of \<open>MarkFailed\<close>
  is dropped, one of \<open>MarkPublished\<close> logged.\<close>

fun process_events :: "(err \<Rightarrow> string) \<Rightarrow> db handler \<Rightarrow> ctx \<Rightarrow> OutboxEvent list \<Rightarrow> int dbproc" where
  "process_events msg publish c [] = ret 0"
| "process_events msg publish c (oEvt # rest) =
     bindP (tryP (publish c (ToEvent oEvt))) (\<lambda>pubErr.
     bindP Now (\<lambda>now.
     bindP (case pubErr of
         Fail er \<Rightarrow> bindP (tryP (outbox_MarkFailed c (oe_ID oEvt) (msg er))) (\<lambda>_. ret 0)
       | _ \<Rightarrow> bindP (tryP (outbox_MarkPublished c (oe_ID oEvt) now)) (\<lambda>x. ret (if is_Ret x then 1 else 0))) (\<lambda>k.
     bindP (process_events msg publish c rest) (\<lambda>n. ret (k + n)))))"

definition ProcessBatch :: "(err \<Rightarrow> string) \<Rightarrow> db handler \<Rightarrow> Config \<Rightarrow> ctx \<Rightarrow> int dbproc" where
  "ProcessBatch msg publish cfg c =
     bindP (outbox_FetchPending c (cfg_MaxRetries cfg) (cfg_BatchSize cfg)) (\<lambda>events.
     if events = [] then ret 0 else process_events msg publish c events)"

text \<open>The channel of triggers holds at most 100; a trigger more is dropped. The loop of \<open>Start\<close> as
  steps: cancellation, the ticker, a trigger taken, a trigger given by another goroutine, and
  the rest of the program adding events.\<close>

record worker_state =
  ws_triggers :: nat
  ws_stopped :: bool
  ws_world :: "db world"

definition Trigger :: "nat \<Rightarrow> nat" where
  "Trigger n = (if n < 100 then n + 1 else n)"

inductive worker_step :: "(err \<Rightarrow> string) \<Rightarrow> db handler \<Rightarrow> Config \<Rightarrow> ctx \<Rightarrow> worker_state \<Rightarrow> worker_state \<Rightarrow> bool"
  for msg publish cfg c where
  cancel: "\<not> ws_stopped s \<Longrightarrow> worker_step msg publish cfg c s (s\<lparr>ws_stopped := True\<rparr>)"
| ticker: "\<not> ws_stopped s \<Longrightarrow> ProcessBatch msg publish cfg c e (ws_world s) = (r, w') \<Longrightarrow>
    worker_step msg publish cfg c s (s\<lparr>ws_world := w'\<rparr>)"
| wake: "\<not> ws_stopped s \<Longrightarrow> ws_triggers s = Suc n \<Longrightarrow> ProcessBatch msg publish cfg c e (ws_world s) = (r, w') \<Longrightarrow>
    worker_step msg publish cfg c s (s\<lparr>ws_triggers := n, ws_world := w'\<rparr>)"
| trigger: "worker_step msg publish cfg c s (s\<lparr>ws_triggers := Trigger (ws_triggers s)\<rparr>)"
| new_events: "t_outbox_events (wdb w') = t_outbox_events (wdb (ws_world s)) @ rows \<Longrightarrow>
    distinct (map xr_id (t_outbox_events (wdb w'))) \<Longrightarrow> list_all (\<lambda>r. xr_retry_count r = 0) rows \<Longrightarrow>
    worker_step msg publish cfg c s (s\<lparr>ws_world := w'\<rparr>)"

section \<open>One batch\<close>

definition outbox_same :: "db \<Rightarrow> db \<Rightarrow> bool" where
  "outbox_same d d' \<longleftrightarrow> t_outbox_events d' = t_outbox_events d"

interpretation outbox_eq: db_order outbox_same
  by unfold_locales (auto simp: outbox_same_def)

text \<open>What one batch may do to one row: nothing, or, when the row was due, mark it.\<close>

definition due :: "int32 \<Rightarrow> outbox_row \<Rightarrow> bool" where
  "due maxRetries r \<longleftrightarrow> (xr_status r = ''pending'' \<or> xr_status r = ''failed'') \<and> sint (xr_retry_count r) < sint maxRetries"

definition mark_published :: "int \<Rightarrow> outbox_row \<Rightarrow> outbox_row" where
  "mark_published t r = r\<lparr>xr_status := ''published'', xr_published_at := Some t, xr_error_message := None\<rparr>"

definition mark_failed :: "string option \<Rightarrow> outbox_row \<Rightarrow> outbox_row" where
  "mark_failed m r = r\<lparr>xr_status := ''failed'', xr_retry_count := xr_retry_count r + 1, xr_error_message := m\<rparr>"

definition marked :: "outbox_row \<Rightarrow> outbox_row \<Rightarrow> bool" where
  "marked r r' \<longleftrightarrow> r' = r \<or> (\<exists>t. r' = mark_published t r) \<or> (\<exists>m. r' = mark_failed m r)"

definition batch_rel :: "int32 \<Rightarrow> outbox_row \<Rightarrow> outbox_row \<Rightarrow> bool" where
  "batch_rel m x y \<longleftrightarrow> (if due m x then marked x y else y = x)"

definition row_rel :: "(outbox_row \<Rightarrow> outbox_row \<Rightarrow> bool) \<Rightarrow> ID set \<Rightarrow> outbox_row \<Rightarrow> outbox_row \<Rightarrow> bool" where
  "row_rel M S r r' \<longleftrightarrow> (if xr_id r \<in> S then M r r' else r' = r)"

definition is_published :: "outbox_row \<Rightarrow> outbox_row \<Rightarrow> bool" where
  "is_published r r' \<longleftrightarrow> (\<exists>t. r' = mark_published t r)"

lemma marked_id: "marked r r' \<Longrightarrow> xr_id r' = xr_id r" "is_published r r' \<Longrightarrow> xr_id r' = xr_id r"
  by (auto simp: marked_def is_published_def mark_published_def mark_failed_def)

lemma marked_intros: "marked r r" "marked r (mark_published t r)" "marked r (mark_failed m r)"
  by (auto simp: marked_def)

lemma row_rel_compose:
  assumes "list_all2 (row_rel M {i}) rows rows1" and "list_all2 (row_rel M S) rows1 rows2"
    and "i \<notin> S" and "\<And>r r'. M r r' \<Longrightarrow> xr_id r' = xr_id r"
  shows "list_all2 (row_rel M (insert i S)) rows rows2"
proof (rule list_all2_trans [OF _ assms(1,2)])
  fix r r1 r2 assume "row_rel M {i} r r1" and "row_rel M S r1 r2"
  then show "row_rel M (insert i S) r r2"
    using assms(3) assms(4) [of r r1] by (auto simp: row_rel_def split: if_splits)
qed

lemma row_rel_refl: "(\<And>r. xr_id r \<in> S \<Longrightarrow> M r r) \<Longrightarrow> list_all2 (row_rel M S) rows rows"
  by (auto simp: row_rel_def list_all2_same)

lemma row_rel_update:
  assumes "\<And>r. M r (f r)" and "i = NilID \<Longrightarrow> \<forall>r. M r r"
  shows "list_all2 (row_rel M {i}) rows (update_rows (\<lambda>r. pg_eq (xr_id r) i) f rows)"
  using assms by (auto simp: update_rows_def list_all2_conv_all_nth row_rel_def pg_eq_def)

text \<open>Marking on the pool.\<close>

lemma mark_stmt:
  assumes "f = (\<lambda>t d. (Ret (), d\<lparr>t_outbox_events := update_rows p g (t_outbox_events d)\<rparr>))"
  shows "\<exists>x w'. tryP (stmt (pool_ctx c) f) e w = (Ret x, w') \<and>
    (t_outbox_events (wdb w') = t_outbox_events (wdb w) \<and> fault_at e (tick w) \<noteq> NoFault \<or>
     t_outbox_events (wdb w') = update_rows p g (t_outbox_events (wdb w))) \<and>
    (fault_at e (tick w) = NoFault \<longrightarrow> x = Ret ())"
  by (cases "fault_at e (tick w)") (auto simp: assms tryP_def stmt_def Let_def)

lemma sql_mark_eqs:
  "sql_MarkOutboxEventPublished i t = (\<lambda>tm d. (Ret (), d\<lparr>t_outbox_events :=
     update_rows (\<lambda>r. pg_eq (xr_id r) i) (mark_published t) (t_outbox_events d)\<rparr>))"
  "sql_MarkOutboxEventFailed i m = (\<lambda>tm d. (Ret (), d\<lparr>t_outbox_events :=
     update_rows (\<lambda>r. pg_eq (xr_id r) i) (mark_failed m) (t_outbox_events d)\<rparr>))"
  by (simp_all add: fun_eq_iff sql_MarkOutboxEventPublished_def sql_MarkOutboxEventFailed_def
      mark_published_def [abs_def] mark_failed_def [abs_def])

locale outbox_bus =
  fixes publish :: "db handler"
  assumes publish_no_panic: "fst (publish c ev e w) \<noteq> Panic p"
    and publish_frame: "stays outbox_same (publish c ev)"
begin

lemma publish_outbox: "t_outbox_events (wdb (snd (publish c ev e w))) = t_outbox_events (wdb w)"
  using staysD [OF publish_frame, of c ev e w] by (metis outbox_same_def prod.collapse)

lemma process_one:
  "\<exists>k w'. process_events msg publish (pool_ctx c) (ev # rest) e w =
      bindP (process_events msg publish (pool_ctx c) rest) (\<lambda>n. ret (k + n)) e w' \<and>
    list_all2 (row_rel marked {oe_ID ev}) (t_outbox_events (wdb w)) (t_outbox_events (wdb w'))"
proof -
  obtain r w1 where p: "publish (pool_ctx c) (ToEvent ev) e w = (r, w1)" by fastforce
  have w1: "t_outbox_events (wdb w1) = t_outbox_events (wdb w)" using publish_outbox [of "pool_ctx c" "ToEvent ev" e w] p by simp
  have np: "r \<noteq> Panic x" for x using publish_no_panic [of "pool_ctx c" "ToEvent ev" e w x] p by simp
  define w2 where "w2 = w1\<lparr>tick := Suc (tick w1)\<rparr>"
  define now where "now = utc_of_ns (clock_at e (tick w1))"
  have now: "Now e w1 = (Ret now, w2)" by (simp add: Now_def now_def w2_def)
  have refl: "list_all2 (row_rel marked {oe_ID ev}) (t_outbox_events (wdb w)) (t_outbox_events (wdb w))"
    by (rule row_rel_refl) (simp add: marked_def)
  show ?thesis
  proof (cases r)
    case (Ret u)
    obtain x w3 where m: "tryP (outbox_MarkPublished (pool_ctx c) (oe_ID ev) now) e w2 = (Ret x, w3)"
      and e3: "t_outbox_events (wdb w3) = t_outbox_events (wdb w2) \<or>
        t_outbox_events (wdb w3) = update_rows (\<lambda>r. pg_eq (xr_id r) (oe_ID ev)) (mark_published (to_micro now)) (t_outbox_events (wdb w2))"
      using mark_stmt [OF sql_mark_eqs(1)] unfolding outbox_MarkPublished_def by blast
    have "list_all2 (row_rel marked {oe_ID ev}) (t_outbox_events (wdb w)) (t_outbox_events (wdb w3))"
      using e3 w1 refl row_rel_update [where M = marked and f = "mark_published (to_micro now)", OF marked_intros(2)]
      by (auto simp: w2_def marked_intros)
    then show ?thesis
      by (intro exI [of _ "if is_Ret x then 1 else 0"] exI [of _ w3])
        (simp add: bindP_def tryP_def [of "publish _ _"] p Ret now m ret_def)
  next
    case (Fail er)
    obtain x w3 where m: "tryP (outbox_MarkFailed (pool_ctx c) (oe_ID ev) (msg er)) e w2 = (Ret x, w3)"
      and e3: "t_outbox_events (wdb w3) = t_outbox_events (wdb w2) \<or>
        t_outbox_events (wdb w3) = update_rows (\<lambda>r. pg_eq (xr_id r) (oe_ID ev)) (mark_failed (ptr_of_str (msg er))) (t_outbox_events (wdb w2))"
      using mark_stmt [OF sql_mark_eqs(2)] unfolding outbox_MarkFailed_def by blast
    have "list_all2 (row_rel marked {oe_ID ev}) (t_outbox_events (wdb w)) (t_outbox_events (wdb w3))"
      using e3 w1 refl row_rel_update [where M = marked and f = "mark_failed (ptr_of_str (msg er))", OF marked_intros(3)]
      by (auto simp: w2_def marked_intros)
    then show ?thesis
      by (intro exI [of _ 0] exI [of _ w3]) (simp add: bindP_def tryP_def [of "publish _ _"] p Fail now m ret_def
          split: prod.split res.split)
  qed (use np in simp)
qed

lemma process_events_rows:
  assumes "distinct (map oe_ID evs)"
  shows "\<exists>n w'. process_events msg publish (pool_ctx c) evs e w = (Ret n, w') \<and>
    list_all2 (row_rel marked (oe_ID ` set evs)) (t_outbox_events (wdb w)) (t_outbox_events (wdb w'))"
  using assms
proof (induction evs arbitrary: w)
  case (Cons ev rest)
  obtain k w1 where 1: "process_events msg publish (pool_ctx c) (ev # rest) e w =
      bindP (process_events msg publish (pool_ctx c) rest) (\<lambda>n. ret (k + n)) e w1"
    "list_all2 (row_rel marked {oe_ID ev}) (t_outbox_events (wdb w)) (t_outbox_events (wdb w1))"
    using process_one by blast
  obtain n w2 where 2: "process_events msg publish (pool_ctx c) rest e w1 = (Ret n, w2)"
    "list_all2 (row_rel marked (oe_ID ` set rest)) (t_outbox_events (wdb w1)) (t_outbox_events (wdb w2))"
    using Cons by (metis distinct.simps(2) list.simps(9))
  have "oe_ID ev \<notin> oe_ID ` set rest" using Cons.prems by simp
  from row_rel_compose [OF 1(2) 2(2) this marked_id(1)] 1(1) 2(1) show ?case
    by (simp add: bindP_def ret_def)
next
  case Nil
  show ?case using row_rel_refl [of "{}" marked] by (simp add: ret_def)
qed

end

text \<open>The events of a batch are due rows, each once.\<close>

lemma fetched_due:
  assumes "r \<in> set (sql_FetchPendingOutboxEvents m l d)"
  shows "r \<in> set (t_outbox_events d) \<and> due m r"
proof -
  from in_set_takeD [OF assms [unfolded sql_FetchPendingOutboxEvents_def]] show ?thesis by (simp add: due_def)
qed

lemma fetched_distinct:
  assumes "distinct (map xr_id (t_outbox_events d))"
  shows "distinct (map xr_id (sql_FetchPendingOutboxEvents m l d))"
proof -
  let ?xs = "sort_key xr_created_at (filter (due m) (t_outbox_events d))"
  have "distinct (map xr_id (filter (due m) (t_outbox_events d)))" using assms by (rule distinct_map_filter)
  then have "distinct (map xr_id ?xs)" by (simp add: distinct_map)
  then show ?thesis
    unfolding sql_FetchPendingOutboxEvents_def due_def [symmetric] by (metis distinct_take take_map)
qed

context outbox_bus
begin

lemma ProcessBatch_rows:
  assumes "distinct (map xr_id (t_outbox_events (wdb w)))" and "0 <s cfg_BatchSize cfg" and "0 <s cfg_MaxRetries cfg"
  shows "\<exists>r w'. ProcessBatch msg publish cfg (pool_ctx c) e w = (r, w') \<and> (\<forall>p. r \<noteq> Panic p) \<and>
    list_all2 (batch_rel (cfg_MaxRetries cfg)) (t_outbox_events (wdb w)) (t_outbox_events (wdb w'))"
proof -
  let ?rows = "t_outbox_events (wdb w)" and ?m = "cfg_MaxRetries cfg"
  let ?F = "sql_FetchPendingOutboxEvents ?m (cfg_BatchSize cfg) (wdb w)"
  have limits: "\<not> cfg_BatchSize cfg \<le>s 0" "\<not> ?m \<le>s 0"
    using assms(2,3) by (auto simp: word_sle_eq word_sless_alt)
  have unchanged: "list_all2 (batch_rel ?m) ?rows ?rows"
    by (simp add: list_all2_same batch_rel_def marked_intros)
  show ?thesis
  proof (cases "fault_at e (tick w) = NoFault")
    case True
    let ?evs = "map (outbox_of_row (local_off e)) ?F" and ?w1 = "w\<lparr>tick := Suc (tick w)\<rparr>"
    have ids: "map oe_ID ?evs = map xr_id ?F" by (simp add: outbox_of_row_def)
    then have d: "distinct (map oe_ID ?evs)" using fetched_distinct [OF assms(1)] by metis
    have f: "outbox_FetchPending (pool_ctx c) ?m (cfg_BatchSize cfg) e w = (Ret ?evs, ?w1)"
      using True limits by (simp add: outbox_FetchPending_def bindP_def query_def stmt_def ask_env_def ret_def Let_def)
    obtain n w' where p: "process_events msg publish (pool_ctx c) ?evs e ?w1 = (Ret n, w')"
      and l: "list_all2 (row_rel marked (oe_ID ` set ?evs)) ?rows (t_outbox_events (wdb w'))"
      using process_events_rows [OF d, of msg c e ?w1] by auto
    have S: "oe_ID ` set ?evs = xr_id ` set ?F" by (simp add: image_image outbox_of_row_def)
    have "list_all2 (batch_rel ?m) ?rows (t_outbox_events (wdb w'))"
    proof (rule list.rel_mono_strong [OF l])
      fix x y assume x: "x \<in> set ?rows" and rel: "row_rel marked (oe_ID ` set ?evs) x y"
      have "x \<in> set ?F" if id: "xr_id x \<in> xr_id ` set ?F"
      proof -
        from id obtain z where "z \<in> set ?F" "xr_id x = xr_id z" by auto
        moreover then have "x = z" using distinct_map_inj [OF assms(1) x] fetched_due by blast
        ultimately show ?thesis by simp
      qed
      with rel fetched_due show "batch_rel ?m x y"
        unfolding row_rel_def S batch_rel_def by (auto simp: marked_intros split: if_splits)
    qed
    then show ?thesis
      using p unchanged by (cases "?evs = []") (auto simp: ProcessBatch_def bindP_def f ret_def)
  next
    case False
    then have "\<exists>er. outbox_FetchPending (pool_ctx c) ?m (cfg_BatchSize cfg) e w = (Fail er, w\<lparr>tick := Suc (tick w)\<rparr>)"
      using limits by (cases "fault_at e (tick w)") (auto simp: outbox_FetchPending_def bindP_def query_def stmt_def Let_def)
    then show ?thesis using unchanged by (auto simp: ProcessBatch_def bindP_def)
  qed
qed

end

section \<open>The worker over its life\<close>

lemma batch_rel_facts:
  assumes "batch_rel m x y"
  shows "xr_id y = xr_id x" and "xr_tenant_id y = xr_tenant_id x" and "xr_event_type y = xr_event_type x"
    and "xr_payload y = xr_payload x" and "xr_status x = ''published'' \<Longrightarrow> y = x"
    and "sint (xr_retry_count x) \<le> sint m \<Longrightarrow> sint (xr_retry_count y) \<le> sint m"
proof -
  have "sint (xr_retry_count x + 1) \<le> sint m" if "sint (xr_retry_count x) < sint m"
  proof -
    have "sint (xr_retry_count x) + 1 < 2 ^ 31" "- (2 ^ 31) \<le> sint (xr_retry_count x)"
      using that sint_lt [of m] sint_ge [of "xr_retry_count x"] by simp_all
    then have "sint (xr_retry_count x + 1) = sint (xr_retry_count x) + 1"
      by (simp add: signed_take_bit_int_eq_self sint_word_ariths)
    with that show ?thesis by simp
  qed
  with assms show "xr_id y = xr_id x" "xr_tenant_id y = xr_tenant_id x" "xr_event_type y = xr_event_type x"
    "xr_payload y = xr_payload x" "xr_status x = ''published'' \<Longrightarrow> y = x"
    "sint (xr_retry_count x) \<le> sint m \<Longrightarrow> sint (xr_retry_count y) \<le> sint m"
    by (auto simp: batch_rel_def marked_def mark_published_def mark_failed_def due_def split: if_splits)
qed

definition worker_ok :: "Config \<Rightarrow> worker_state \<Rightarrow> bool" where
  "worker_ok cfg s \<longleftrightarrow> ws_triggers s \<le> 100 \<and> distinct (map xr_id (t_outbox_events (wdb (ws_world s)))) \<and>
     (\<forall>r \<in> set (t_outbox_events (wdb (ws_world s))). sint (xr_retry_count r) \<le> sint (cfg_MaxRetries cfg))"

definition published_kept :: "worker_state \<Rightarrow> worker_state \<Rightarrow> bool" where
  "published_kept s s' \<longleftrightarrow>
     (\<forall>r \<in> set (t_outbox_events (wdb (ws_world s))).
        (\<exists>r' \<in> set (t_outbox_events (wdb (ws_world s'))). xr_id r' = xr_id r \<and> xr_payload r' = xr_payload r \<and>
           (xr_status r = ''published'' \<longrightarrow> r' = r)))"

lemma published_kept_refl: "published_kept s s"
  by (auto simp: published_kept_def)

lemma published_kept_trans: "published_kept s t \<Longrightarrow> published_kept t u \<Longrightarrow> published_kept s u"
  unfolding published_kept_def by metis

lemma batch_rows_ok:
  assumes "list_all2 (batch_rel m) rows rows'" and "distinct (map xr_id rows)"
    and "\<forall>r \<in> set rows. sint (xr_retry_count r) \<le> sint m"
  shows "distinct (map xr_id rows')" and "\<forall>r \<in> set rows'. sint (xr_retry_count r) \<le> sint m"
    and "\<forall>r \<in> set rows. \<exists>r' \<in> set rows'. xr_id r' = xr_id r \<and> xr_payload r' = xr_payload r \<and> (xr_status r = ''published'' \<longrightarrow> r' = r)"
proof -
  have "map xr_id rows' = map xr_id rows"
    using assms(1) by (induction rule: list_all2_induct) (auto simp: batch_rel_facts)
  with assms(2) show "distinct (map xr_id rows')" by simp
  from assms(1,3) show "\<forall>r \<in> set rows'. sint (xr_retry_count r) \<le> sint m"
    by (induction rule: list_all2_induct) (auto simp: batch_rel_facts(6))
  from assms(1) show "\<forall>r \<in> set rows. \<exists>r' \<in> set rows'. xr_id r' = xr_id r \<and> xr_payload r' = xr_payload r \<and> (xr_status r = ''published'' \<longrightarrow> r' = r)"
    by (induction rule: list_all2_induct) (auto dest: batch_rel_facts)
qed

context outbox_bus
begin

lemma batch_keeps:
  assumes "ProcessBatch msg publish cfg (pool_ctx c) e (ws_world s) = (r, w')" and "worker_ok cfg s"
    and "0 <s cfg_BatchSize cfg" and "0 <s cfg_MaxRetries cfg" and "n \<le> 100"
  shows "worker_ok cfg (s\<lparr>ws_triggers := n, ws_world := w'\<rparr>) \<and> published_kept s (s\<lparr>ws_triggers := n, ws_world := w'\<rparr>)"
proof -
  have d: "distinct (map xr_id (t_outbox_events (wdb (ws_world s))))" using assms(2) by (simp add: worker_ok_def)
  from ProcessBatch_rows [OF d assms(3,4)] assms(1)
  have "list_all2 (batch_rel (cfg_MaxRetries cfg)) (t_outbox_events (wdb (ws_world s))) (t_outbox_events (wdb w'))"
    by (metis prod.inject)
  from batch_rows_ok [OF this d] assms(2,5) show ?thesis by (simp add: worker_ok_def published_kept_def)
qed

lemma step_keeps:
  assumes "worker_step msg publish cfg (pool_ctx c) s s'" and ok: "worker_ok cfg s"
    and cfg: "0 <s cfg_BatchSize cfg" "0 <s cfg_MaxRetries cfg"
  shows "worker_ok cfg s' \<and> published_kept s s'"
  using assms(1)
proof (cases rule: worker_step.cases)
  case cancel
  then show ?thesis using ok by (auto simp: worker_ok_def published_kept_def)
next
  case (ticker e r w')
  with batch_keeps [OF ticker(3) ok cfg, of "ws_triggers s"] ok show ?thesis by (simp add: worker_ok_def)
next
  case (wake n e r w')
  with batch_keeps [OF wake(4) ok cfg, of n] ok show ?thesis by (simp add: worker_ok_def)
next
  case trigger
  then show ?thesis using ok by (auto simp: worker_ok_def published_kept_def Trigger_def)
next
  case (new_events w' rows)
  have "0 \<le> sint (cfg_MaxRetries cfg)" using cfg(2) by (simp add: word_sless_alt)
  with new_events ok show ?thesis by (auto simp: worker_ok_def published_kept_def list_all_iff)
qed

lemma run_keeps:
  assumes "(worker_step msg publish cfg (pool_ctx c))\<^sup>*\<^sup>* s s'" and "worker_ok cfg s"
    and "0 <s cfg_BatchSize cfg" and "0 <s cfg_MaxRetries cfg"
  shows "worker_ok cfg s' \<and> published_kept s s'"
  using assms(1)
proof (induction rule: rtranclp_induct)
  case base
  then show ?case using assms(2) published_kept_refl by simp
next
  case (step t u)
  with step_keeps assms(3,4) published_kept_trans show ?case by blast
qed

end

section \<open>The bus of the program\<close>

definition bus_handlers :: "'h bus \<Rightarrow> 'h set" where
  "bus_handlers b = (\<Union>(_, hs) \<in> set b. set hs)"

lemma targets_handlers: "set (targets it b t) \<subseteq> bus_handlers it \<union> bus_handlers b"
  using get_at_values [of _ b t] by (fastforce simp: targets_def bus_handlers_def split: if_splits)

definition leaves_outbox :: "db handler \<Rightarrow> bool" where
  "leaves_outbox h \<longleftrightarrow> (\<forall>c ev. stays outbox_same (h c ev))"

lemma stays_safely: "stays R (h c ev) \<Longrightarrow> stays R (executeHandlerSafely h c ev)"
  unfolding stays_def executeHandlerSafely_def by (auto split: prod.splits res.splits)

lemma stays_run_handlers:
  "\<forall>h \<in> set hs. leaves_outbox h \<Longrightarrow> stays outbox_same (run_handlers hs c ev)"
  by (induction hs) (auto simp: leaves_outbox_def intro!: stays_intros stays_safely)

lemma bus_leaves_outbox:
  assumes "\<forall>h \<in> bus_handlers it \<union> bus_handlers b. leaves_outbox h"
  shows "outbox_bus (Publish it b)"
proof
  fix c ev e w p
  show "fst (Publish it b c ev e w) \<noteq> Panic p" by (simp add: Publish_eq split: prod.split)
  have "\<forall>h \<in> set (targets it b (be_Type ev)). leaves_outbox h"
    using assms targets_handlers [of it b "be_Type ev"] by blast
  from stays_run_handlers [OF this] show "stays outbox_same (Publish it b c ev)"
    unfolding Publish_def by (intro stays_intros)
qed

locale reliable_bus = outbox_bus +
  assumes publish_ok: "fst (publish c ev e w) = Ret ()"
begin

lemma process_drain:
  assumes "distinct (map oe_ID evs)" and "NilID \<notin> oe_ID ` set evs" and nf: "\<And>n. fault_at e n = NoFault"
  shows "\<exists>w'. process_events msg publish (pool_ctx c) evs e w = (Ret (int (length evs)), w') \<and>
    list_all2 (row_rel is_published (oe_ID ` set evs)) (t_outbox_events (wdb w)) (t_outbox_events (wdb w'))"
  using assms(1,2)
proof (induction evs arbitrary: w)
  case Nil
  show ?case using row_rel_refl [of "{}" is_published] by (simp add: ret_def)
next
  case (Cons ev rest)
  obtain w1 where p: "publish (pool_ctx c) (ToEvent ev) e w = (Ret (), w1)"
    using publish_ok [of "pool_ctx c" "ToEvent ev" e w] by (metis prod.collapse)
  have w1: "t_outbox_events (wdb w1) = t_outbox_events (wdb w)" using publish_outbox [of "pool_ctx c" "ToEvent ev" e w] p by simp
  define w2 where "w2 = w1\<lparr>tick := Suc (tick w1)\<rparr>"
  define now where "now = utc_of_ns (clock_at e (tick w1))"
  have now: "Now e w1 = (Ret now, w2)" by (simp add: Now_def now_def w2_def)
  obtain w3 where m: "tryP (outbox_MarkPublished (pool_ctx c) (oe_ID ev) now) e w2 = (Ret (Ret ()), w3)"
    and e3: "t_outbox_events (wdb w3) = update_rows (\<lambda>r. pg_eq (xr_id r) (oe_ID ev)) (mark_published (to_micro now)) (t_outbox_events (wdb w))"
    using mark_stmt [OF sql_mark_eqs(1), of c "oe_ID ev" "to_micro now" e w2] nf w1
    unfolding outbox_MarkPublished_def by (auto simp: w2_def)
  have "is_published r (mark_published (to_micro now) r)" for r by (auto simp: is_published_def)
  moreover have "oe_ID ev \<noteq> NilID" using Cons.prems(2) by auto
  ultimately have 1: "list_all2 (row_rel is_published {oe_ID ev}) (t_outbox_events (wdb w)) (t_outbox_events (wdb w3))"
    using row_rel_update [of is_published "mark_published (to_micro now)" "oe_ID ev" "t_outbox_events (wdb w)"] e3 by simp
  obtain w4 where 2: "process_events msg publish (pool_ctx c) rest e w3 = (Ret (int (length rest)), w4)"
    "list_all2 (row_rel is_published (oe_ID ` set rest)) (t_outbox_events (wdb w3)) (t_outbox_events (wdb w4))"
    using Cons.IH [of w3] Cons.prems by auto
  have "oe_ID ev \<notin> oe_ID ` set rest" using Cons.prems by simp
  from row_rel_compose [OF 1 2(2) this marked_id(2)] show ?case
    by (simp add: bindP_def tryP_def [of "publish _ _"] p now m ret_def 2(1))
qed

end

lemma fetched_length:
  "length (sql_FetchPendingOutboxEvents m l d) = min (nat (sint l)) (length (filter (due m) (t_outbox_events d)))"
  by (simp add: sql_FetchPendingOutboxEvents_def due_def [symmetric] min.commute)

lemma drained_count:
  assumes "list_all2 (row_rel is_published (xr_id ` set F)) rows rows'" and "distinct (map xr_id rows)"
    and "set F \<subseteq> set rows" and "\<forall>r \<in> set F. due m r" and "distinct F"
  shows "length (filter (due m) rows') = length (filter (due m) rows) - length F"
proof -
  have due: "row_rel is_published S x y \<Longrightarrow> due m y \<longleftrightarrow> due m x \<and> xr_id x \<notin> S" for S x y
    by (auto simp: row_rel_def is_published_def mark_published_def due_def split: if_splits)
  have "length (filter (due m) rows') = length (filter (\<lambda>r. due m r \<and> xr_id r \<notin> xr_id ` set F) rows)"
    using assms(1) by (induction rule: list_all2_induct) (auto simp: due)
  also have "filter (\<lambda>r. due m r \<and> xr_id r \<notin> xr_id ` set F) rows = filter (\<lambda>r. r \<notin> set F) (filter (due m) rows)"
    using distinct_map_inj [OF assms(2)] assms(3) by (auto intro!: filter_cong)
  also have "length \<dots> = length (filter (due m) rows) - length F"
  proof -
    have "distinct (filter (due m) rows)" using assms(2) by (simp add: distinct_map)
    moreover have F: "set F \<subseteq> set (filter (due m) rows)" using assms(3,4) by auto
    moreover have "set (filter (\<lambda>r. r \<notin> set F) (filter (due m) rows)) = set (filter (due m) rows) - set F" by auto
    ultimately show ?thesis
      using assms(5) card_Diff_subset [OF finite_set F] by (metis distinct_card distinct_filter)
  qed
  finally show ?thesis .
qed

primrec run_batches :: "(err \<Rightarrow> string) \<Rightarrow> db handler \<Rightarrow> Config \<Rightarrow> ctx \<Rightarrow> nat \<Rightarrow> env \<Rightarrow> db world \<Rightarrow> db world" where
  "run_batches msg publish cfg c 0 e w = w"
| "run_batches msg publish cfg c (Suc n) e w =
     run_batches msg publish cfg c n e (snd (ProcessBatch msg publish cfg c e w))"

lemma NewOutboxWorker_positive: "0 <s cfg_BatchSize (NewOutboxWorker cfg)" "0 <s cfg_MaxRetries (NewOutboxWorker cfg)"
  by (auto simp: NewOutboxWorker_def word_sle_eq word_sless_alt)

context reliable_bus
begin

lemma ProcessBatch_drain:
  assumes d: "distinct (map xr_id (t_outbox_events (wdb w)))" and nn: "NilID \<notin> xr_id ` set (t_outbox_events (wdb w))"
    and nf: "\<And>n. fault_at e n = NoFault" and cfg: "0 <s cfg_BatchSize cfg" "0 <s cfg_MaxRetries cfg"
  defines "m \<equiv> cfg_MaxRetries cfg"
  defines "k \<equiv> min (nat (sint (cfg_BatchSize cfg))) (length (filter (due m) (t_outbox_events (wdb w))))"
  shows "\<exists>w'. ProcessBatch msg publish cfg (pool_ctx c) e w = (Ret (int k), w') \<and>
    map xr_id (t_outbox_events (wdb w')) = map xr_id (t_outbox_events (wdb w)) \<and>
    length (filter (due m) (t_outbox_events (wdb w'))) = length (filter (due m) (t_outbox_events (wdb w))) - k"
proof -
  let ?rows = "t_outbox_events (wdb w)" and ?w1 = "w\<lparr>tick := Suc (tick w)\<rparr>"
  define F where "F = sql_FetchPendingOutboxEvents m (cfg_BatchSize cfg) (wdb w)"
  let ?evs = "map (outbox_of_row (local_off e)) F"
  have limits: "\<not> cfg_BatchSize cfg \<le>s 0" "\<not> cfg_MaxRetries cfg \<le>s 0"
    using cfg by (auto simp: word_sle_eq word_sless_alt)
  have ids: "map oe_ID ?evs = map xr_id F" "oe_ID ` set ?evs = xr_id ` set F"
    by (simp_all add: outbox_of_row_def image_image)
  have F: "length F = k" "set F \<subseteq> set ?rows" "\<forall>r \<in> set F. due m r" "distinct (map xr_id F)"
    using fetched_length fetched_due fetched_distinct [OF d] unfolding F_def k_def by blast+
  have f: "outbox_FetchPending (pool_ctx c) m (cfg_BatchSize cfg) e w = (Ret ?evs, ?w1)"
    using nf limits unfolding F_def m_def
    by (simp add: outbox_FetchPending_def bindP_def query_def stmt_def ask_env_def ret_def Let_def)
  have nn': "NilID \<notin> oe_ID ` set ?evs" using nn F(2) unfolding ids by blast
  have dd: "distinct (map oe_ID ?evs)" using F(4) ids(1) by metis
  obtain w' where p: "process_events msg publish (pool_ctx c) ?evs e ?w1 = (Ret (int k), w')"
    and l: "list_all2 (row_rel is_published (xr_id ` set F)) ?rows (t_outbox_events (wdb w'))"
    using process_drain [OF dd nn' nf, of msg c ?w1] F(1) ids(2) by auto
  have "map xr_id (t_outbox_events (wdb w')) = map xr_id ?rows"
    using l by (induction rule: list_all2_induct) (auto simp: row_rel_def marked_id split: if_splits)
  moreover have "length (filter (due m) (t_outbox_events (wdb w'))) = length (filter (due m) ?rows) - k"
    using drained_count [OF l d F(2,3)] F(1,4) by (simp add: distinct_map)
  moreover have "ProcessBatch msg publish cfg (pool_ctx c) e w = process_events msg publish (pool_ctx c) ?evs e ?w1"
    unfolding ProcessBatch_def m_def [symmetric] by (simp add: bindP_def f)
  ultimately show ?thesis using p by auto
qed

lemma drained:
  assumes "distinct (map xr_id (t_outbox_events (wdb w)))" and "NilID \<notin> xr_id ` set (t_outbox_events (wdb w))"
    and nf: "\<And>n. fault_at e n = NoFault" and cfg: "0 <s cfg_BatchSize cfg" "0 <s cfg_MaxRetries cfg"
    and "length (filter (due (cfg_MaxRetries cfg)) (t_outbox_events (wdb w))) \<le> n * nat (sint (cfg_BatchSize cfg))"
  shows "filter (due (cfg_MaxRetries cfg)) (t_outbox_events (wdb (run_batches msg publish cfg (pool_ctx c) n e w))) = []"
  using assms(1,2,6)
proof (induction n arbitrary: w)
  case (Suc n)
  obtain k w' where b: "ProcessBatch msg publish cfg (pool_ctx c) e w = (Ret k, w')"
    and ids: "map xr_id (t_outbox_events (wdb w')) = map xr_id (t_outbox_events (wdb w))"
    and len: "length (filter (due (cfg_MaxRetries cfg)) (t_outbox_events (wdb w')))
      = length (filter (due (cfg_MaxRetries cfg)) (t_outbox_events (wdb w))) - min (nat (sint (cfg_BatchSize cfg)))
          (length (filter (due (cfg_MaxRetries cfg)) (t_outbox_events (wdb w))))"
    using ProcessBatch_drain [OF Suc.prems(1,2) nf cfg, of msg c] by blast
  have "NilID \<notin> xr_id ` set (t_outbox_events (wdb w'))" using Suc.prems(2) ids by (metis list.set_map)
  moreover have "length (filter (due (cfg_MaxRetries cfg)) (t_outbox_events (wdb w'))) \<le> n * nat (sint (cfg_BatchSize cfg))"
    using len Suc.prems(3) by auto
  ultimately show ?case using Suc.IH [of w'] Suc.prems(1) ids b by simp
qed simp

end

definition app_bus :: "net \<Rightarrow> db handler bus" where
  "app_bus nt = WebhookDispatcher_Start nt NewInMemoryBus"

lemma webhook_leaves_outbox: "leaves_outbox (webhook_handler nt)"
  unfolding leaves_outbox_def webhook_handler_def dispatchEvent_def ListActiveEndpointsByTenant_def
  by (auto intro!: stays_intros split: res.split option.split)

lemma app_bus_handlers: "bus_handlers (app_bus nt) = {webhook_handler nt}"
  by (simp add: bus_handlers_def app_bus_def WebhookDispatcher_Start_def Subscribe_def NewInMemoryBus_def)

lemma handlers_reliable:
  "\<forall>h \<in> set hs. \<forall>c ev e w. is_Ret (fst (h c ev e w)) \<Longrightarrow> failed_results (fst (handler_results hs c ev e w)) = []"
proof (induction hs arbitrary: w)
  case (Cons h hs)
  obtain r w1 where "h c ev e w = (r, w1)" by fastforce
  moreover have "is_Ret (fst (h c ev e w))" using Cons.prems by simp
  ultimately show ?case using Cons.IH [of w1] Cons.prems by (auto simp: failed_results_def split: prod.splits)
qed (simp add: failed_results_def)

lemma bus_reliable:
  assumes "\<forall>h \<in> bus_handlers it \<union> bus_handlers b. leaves_outbox h"
    and "\<forall>h \<in> bus_handlers it \<union> bus_handlers b. \<forall>c ev e w. is_Ret (fst (h c ev e w))"
  shows "reliable_bus (Publish it b)"
proof -
  have "\<forall>h \<in> set (targets it b t). \<forall>c ev e w. is_Ret (fst (h c ev e w))" for t
    using assms(2) targets_handlers [of it b t] by blast
  note ok = handlers_reliable [OF this]
  show ?thesis
  proof (rule reliable_bus.intro [OF bus_leaves_outbox [OF assms(1)]], rule reliable_bus_axioms.intro)
    fix c ev e w
    show "fst (Publish it b c ev e w) = Ret ()"
      using ok [of "be_Type ev" c ev e w]
      by (cases "handler_results (targets it b (be_Type ev)) c ev e w") (simp add: Publish_eq)
  qed
qed

interpretation app: reliable_bus "Publish (app_bus nt) (app_bus nt)" for nt
  by (rule bus_reliable) (use webhook_handler_Ret [of nt] in \<open>auto simp: app_bus_handlers webhook_leaves_outbox\<close>, metis fst_conv is_Ret.simps(1))

section \<open>Properties\<close>


definition ex_event :: "ID \<Rightarrow> string \<Rightarrow> outbox_row" where
  "ex_event i st = \<lparr>xr_id = i, xr_tenant_id = 5, xr_event_type = ''document.created'', xr_aggregate_type = ''document'',
     xr_aggregate_id = 9, xr_payload = JObj [], xr_status = st, xr_retry_count = 0, xr_error_message = None,
     xr_created_at = 0, xr_published_at = None\<rparr>"

definition ex_outbox :: "db world" where
  "ex_outbox = ex_empty\<lparr>wdb := (wdb ex_empty)\<lparr>t_outbox_events := [ex_event 1 ''pending'', ex_event 2 ''published'', ex_event 3 ''failed'']\<rparr>\<rparr>"




end
