(* ===== verification/RateLimit.thy ===== *)
theory RateLimit
  imports SdkContext GoTime
begin

text \<open>
  \<open>pkg/ratelimit/ratelimit.go\<close>: the in-memory sliding-window limiter. The \<open>sync.Map\<close> from keys
  to buckets is a list of entries, a bucket is a reference into a store, so that a goroutine
  can hold a bucket that is no longer in the map. \<open>Allow\<close> is the composition of its two atomic
  parts (\<open>LoadOrStore\<close> and the section under the lock of the bucket), \<open>purgeStale\<close> of the test
  under the lock and the deletion. Calls that do not overlap refine a limiter that remembers
  every request it admitted; an interleaving of the atomic parts does not.
\<close>

section \<open>The limiter\<close>

record Result =
  Allowed :: bool
  Remaining :: int
  Limit :: int
  ResetAt :: gotime

record InMemoryConfig =
  RequestsPerWindow :: int
  Window :: duration

definition DefaultInMemoryConfig :: InMemoryConfig where
  "DefaultInMemoryConfig = \<lparr>RequestsPerWindow = 300, Window = 60 * Second\<rparr>"

type_synonym bucket = "gotime list"

record inMemoryLimiter =
  lcfg :: InMemoryConfig
  buckets :: "(string \<times> nat) list"
  store :: "bucket list"
  stopped :: bool

definition NewInMemory :: "InMemoryConfig \<Rightarrow> inMemoryLimiter" where
  "NewInMemory cfg =
     (let c1 = (if RequestsPerWindow cfg \<le> 0 then cfg\<lparr>RequestsPerWindow := 300\<rparr> else cfg);
          c2 = (if Window c1 \<le> 0 then c1\<lparr>Window := 60 * Second\<rparr> else c1)
      in \<lparr>lcfg = c2, buckets = [], store = [], stopped = False\<rparr>)"

definition NoopLimiter_Allow :: "string \<Rightarrow> Result" where
  "NoopLimiter_Allow key = \<lparr>Allowed = True, Remaining = - 1, Limit = - 1, ResetAt = utc_of_ns zero_ns\<rparr>"

text \<open>\<open>l.buckets.LoadOrStore(key, &bucket{})\<close>\<close>

definition LoadOrStore :: "inMemoryLimiter \<Rightarrow> string \<Rightarrow> nat \<times> inMemoryLimiter" where
  "LoadOrStore l key =
     (case map_of (buckets l) key of
        Some b \<Rightarrow> (b, l)
      | None \<Rightarrow> (length (store l),
                 l\<lparr>buckets := (key, length (store l)) # buckets l, store := store l @ [[]]\<rparr>))"

text \<open>The loop that drops the timestamps before the start of the window.\<close>

fun evict :: "gotime \<Rightarrow> bucket \<Rightarrow> bucket" where
  "evict windowStart [] = []"
| "evict windowStart (t # ts) = (if Time_Before t windowStart then evict windowStart ts else t # ts)"

definition allow_locked :: "InMemoryConfig \<Rightarrow> gotime \<Rightarrow> bucket \<Rightarrow> Result \<times> bucket" where
  "allow_locked cfg now ts0 =
     (let windowStart = Time_Add now (- Window cfg);
          ts = evict windowStart ts0
      in if int (length ts) \<ge> RequestsPerWindow cfg
         then (\<lparr>Allowed = False, Remaining = 0, Limit = RequestsPerWindow cfg,
                ResetAt = Time_Add (hd ts) (Window cfg)\<rparr>, ts)
         else (let ts1 = ts @ [now]
               in (\<lparr>Allowed = True, Remaining = RequestsPerWindow cfg - int (length ts1),
                    Limit = RequestsPerWindow cfg,
                    ResetAt = Time_Add (if ts1 = [] then now else hd ts1) (Window cfg)\<rparr>, ts1)))"

definition allow_at :: "inMemoryLimiter \<Rightarrow> nat \<Rightarrow> gotime \<Rightarrow> Result \<times> inMemoryLimiter" where
  "allow_at l b now =
     (case allow_locked (lcfg l) now (store l ! b) of
        (r, ts) \<Rightarrow> (r, l\<lparr>store := (store l)[b := ts]\<rparr>))"

definition Allow :: "inMemoryLimiter \<Rightarrow> string \<Rightarrow> gotime \<Rightarrow> Result \<times> inMemoryLimiter" where
  "Allow l key now = (case LoadOrStore l key of (b, l1) \<Rightarrow> allow_at l1 b now)"

definition Close :: "inMemoryLimiter \<Rightarrow> inMemoryLimiter" where
  "Close l = (if stopped l then l else l\<lparr>stopped := True\<rparr>)"

definition allStale :: "inMemoryLimiter \<Rightarrow> gotime \<Rightarrow> nat \<Rightarrow> bool" where
  "allStale l cutoff b =
     (let ts = store l ! b in length ts = 0 \<or> (length ts > 0 \<and> Time_Before (last ts) cutoff))"

definition bucket_delete :: "inMemoryLimiter \<Rightarrow> string \<Rightarrow> inMemoryLimiter" where
  "bucket_delete l key = l\<lparr>buckets := filter (\<lambda>kb. fst kb \<noteq> key) (buckets l)\<rparr>"

text \<open>\<open>Range\<close> over the entries, with nothing else running: test, then delete.\<close>

fun purge_range :: "gotime \<Rightarrow> (string \<times> nat) list \<Rightarrow> inMemoryLimiter \<Rightarrow> inMemoryLimiter" where
  "purge_range cutoff [] l = l"
| "purge_range cutoff ((k, b) # es) l =
     purge_range cutoff es (if allStale l cutoff b then bucket_delete l k else l)"

definition purgeStale :: "inMemoryLimiter \<Rightarrow> gotime \<Rightarrow> inMemoryLimiter" where
  "purgeStale l now = purge_range (Time_Add now (- Window (lcfg l))) (buckets l) l"

text \<open>One turn of \<open>cleanupLoop\<close>: after \<open>Close\<close> the loop has ended.\<close>

definition cleanup_tick :: "inMemoryLimiter \<Rightarrow> gotime \<Rightarrow> inMemoryLimiter" where
  "cleanup_tick l now = (if stopped l then l else purgeStale l now)"

section \<open>Runs of calls that do not overlap\<close>

datatype rl_op = Request string gotime | Tick gotime | Stop

fun op_time :: "rl_op \<Rightarrow> int option" where
  "op_time (Request k t) = Some (ns t)"
| "op_time (Tick t) = Some (ns t)"
| "op_time Stop = None"

fun rl_run :: "inMemoryLimiter \<Rightarrow> rl_op list \<Rightarrow> (string \<times> gotime \<times> Result) list" where
  "rl_run l [] = []"
| "rl_run l (Request k t # os) = (case Allow l k t of (r, l1) \<Rightarrow> (k, t, r) # rl_run l1 os)"
| "rl_run l (Tick t # os) = rl_run (cleanup_tick l t) os"
| "rl_run l (Stop # os) = rl_run (Close l) os"

text \<open>The reference: the complete history of admitted requests.\<close>

definition recent :: "InMemoryConfig \<Rightarrow> (string \<times> gotime) list \<Rightarrow> string \<Rightarrow> gotime \<Rightarrow> gotime list" where
  "recent cfg log key now =
     map snd (filter (\<lambda>(k, t). k = key \<and> ns now - Window cfg \<le> ns t) log)"

definition spec_allow :: "InMemoryConfig \<Rightarrow> (string \<times> gotime) list \<Rightarrow> string \<Rightarrow> gotime \<Rightarrow> Result" where
  "spec_allow cfg log key now =
     (let rs = recent cfg log key now; n = int (length rs)
      in if n < RequestsPerWindow cfg
         then \<lparr>Allowed = True, Remaining = RequestsPerWindow cfg - n - 1, Limit = RequestsPerWindow cfg,
               ResetAt = Time_Add (hd (rs @ [now])) (Window cfg)\<rparr>
         else \<lparr>Allowed = False, Remaining = 0, Limit = RequestsPerWindow cfg,
               ResetAt = Time_Add (hd rs) (Window cfg)\<rparr>)"

definition admit :: "(string \<times> gotime) list \<Rightarrow> string \<Rightarrow> gotime \<Rightarrow> Result \<Rightarrow> (string \<times> gotime) list" where
  "admit log key now r = (if Allowed r then log @ [(key, now)] else log)"

fun spec_run :: "InMemoryConfig \<Rightarrow> (string \<times> gotime) list \<Rightarrow> rl_op list \<Rightarrow> (string \<times> gotime \<times> Result) list" where
  "spec_run cfg log [] = []"
| "spec_run cfg log (Request k t # os) =
     (let r = spec_allow cfg log k t in (k, t, r) # spec_run cfg (admit log k t r) os)"
| "spec_run cfg log (Tick t # os) = spec_run cfg log os"
| "spec_run cfg log (Stop # os) = spec_run cfg log os"

text \<open>Readings of the clock in a run do not go back.\<close>

fun clock_ordered :: "int \<Rightarrow> rl_op list \<Rightarrow> bool" where
  "clock_ordered m [] = True"
| "clock_ordered m (opr # os) =
     (case op_time opr of None \<Rightarrow> clock_ordered m os | Some t \<Rightarrow> m \<le> t \<and> clock_ordered t os)"

section \<open>Refinement\<close>

text \<open>Bucket contents after dropping what is too old at time \<open>m\<close> agree with the history.\<close>

definition bucket_of :: "inMemoryLimiter \<Rightarrow> string \<Rightarrow> bucket" where
  "bucket_of l key = (case map_of (buckets l) key of None \<Rightarrow> [] | Some b \<Rightarrow> store l ! b)"

definition rl_rel :: "int \<Rightarrow> (string \<times> gotime) list \<Rightarrow> inMemoryLimiter \<Rightarrow> bool" where
  "rl_rel m log l \<longleftrightarrow>
     distinct (map fst (buckets l)) \<and>
     (\<forall>k b. map_of (buckets l) k = Some b \<longrightarrow> b < length (store l)) \<and>
     (\<forall>k k' b. map_of (buckets l) k = Some b \<longrightarrow> map_of (buckets l) k' = Some b \<longrightarrow> k = k') \<and>
     sorted (map (\<lambda>(k, t). ns t) log) \<and>
     (\<forall>(k, t) \<in> set log. ns t \<le> m) \<and>
     (\<forall>k. sorted (map ns (bucket_of l k))) \<and>
     (\<forall>k w. m - Window (lcfg l) \<le> w \<longrightarrow>
        filter (\<lambda>t. w \<le> ns t) (bucket_of l k) =
        map snd (filter (\<lambda>(k', t). k' = k \<and> w \<le> ns t) log))"

lemma evict_sorted:
  "sorted (map ns ts) \<Longrightarrow> evict (Time_Add now (- w)) ts = filter (\<lambda>t. ns now - w \<le> ns t) ts"
proof (induction ts)
  case (Cons t ts)
  then show ?case
    by (cases "ns t < ns now - w") (auto simp: Time_Before_def Time_Add_def not_less intro!: filter_True [symmetric])
qed simp

lemma rl_relD:
  assumes "rl_rel m log l"
  shows "map_of (buckets l) k = Some b \<Longrightarrow> b < length (store l)"
    and "map_of (buckets l) k = Some b \<Longrightarrow> map_of (buckets l) k' = Some b \<Longrightarrow> k = k'"
    and "sorted (map (\<lambda>(k, t). ns t) log)" and "(k, t) \<in> set log \<Longrightarrow> ns t \<le> m"
    and "sorted (map ns (bucket_of l k))"
    and "m - Window (lcfg l) \<le> w \<Longrightarrow>
      filter (\<lambda>t. w \<le> ns t) (bucket_of l k) = map snd (filter (\<lambda>(k', t). k' = k \<and> w \<le> ns t) log)"
    and "distinct (map fst (buckets l))"
  using assms unfolding rl_rel_def by blast+

lemma rl_rel_mono:
  assumes "rl_rel m log l" and "m \<le> m'"
  shows "rl_rel m' log l"
  using assms unfolding rl_rel_def by fastforce

lemma lcfg_simps [simp]:
  "lcfg (snd (LoadOrStore l k)) = lcfg l" "lcfg (snd (allow_at l b t)) = lcfg l"
  "lcfg (bucket_delete l k) = lcfg l" "lcfg (Close l) = lcfg l"
  by (simp_all add: LoadOrStore_def allow_at_def bucket_delete_def Close_def split: option.splits prod.splits)

lemma lcfg_purge_range [simp]: "lcfg (purge_range c es l) = lcfg l"
  by (induction c es l rule: purge_range.induct) simp_all

lemma lcfg_more [simp]: "lcfg (snd (Allow l k t)) = lcfg l" "lcfg (cleanup_tick l t) = lcfg l"
  by (simp_all add: Allow_def cleanup_tick_def purgeStale_def case_prod_beta)

lemma LoadOrStore_rel:
  assumes "rl_rel m log l" and "LoadOrStore l k = (b, l1)"
  shows "rl_rel m log l1" and "map_of (buckets l1) k = Some b"
proof -
  have bo: "bucket_of l1 k' = bucket_of l k'" for k'
    using assms rl_relD(1) [OF assms(1)]
    by (fastforce simp: LoadOrStore_def bucket_of_def nth_append split: option.splits if_splits)
  have cf: "lcfg l1 = lcfg l" using assms(2) lcfg_simps(1) [of l k] by simp
  show "map_of (buckets l1) k = Some b"
    using assms(2) by (auto simp: LoadOrStore_def split: option.splits)
  have "\<forall>k b. map_of (buckets l1) k = Some b \<longrightarrow> b < length (store l1)"
    using assms(2) rl_relD(1) [OF assms(1)]
    by (fastforce simp: LoadOrStore_def split: option.splits if_splits)
  moreover have "\<forall>k k' b. map_of (buckets l1) k = Some b \<longrightarrow> map_of (buckets l1) k' = Some b \<longrightarrow> k = k'"
    using assms(2) rl_relD(1,2) [OF assms(1)]
    by (fastforce simp: LoadOrStore_def split: option.splits if_splits)
  moreover have "distinct (map fst (buckets l1))"
    using assms(2) rl_relD(7) [OF assms(1)]
    by (auto simp: LoadOrStore_def map_of_eq_None_iff split: option.splits)
  ultimately show "rl_rel m log l1"
    using assms(1) unfolding rl_rel_def by (simp add: bo cf)
qed


lemma bucket_of_allow_at:
  assumes "rl_rel m log l" and "map_of (buckets l) k = Some b" and "allow_at l b t = (r, l1)"
  shows "bucket_of l1 k' =
     (if k' = k then snd (allow_locked (lcfg l) t (bucket_of l k)) else bucket_of l k')"
    and "r = fst (allow_locked (lcfg l) t (bucket_of l k))"
  using assms rl_relD(1,2) [OF assms(1)]
  by (fastforce simp: allow_at_def bucket_of_def nth_list_update split: prod.splits option.splits if_splits)+

lemma allow_locked_spec:
  assumes rel: "rl_rel m log l" and le: "m \<le> ns t"
  shows "fst (allow_locked (lcfg l) t (bucket_of l k)) = spec_allow (lcfg l) log k t"
    and "snd (allow_locked (lcfg l) t (bucket_of l k)) =
       recent (lcfg l) log k t @ (if Allowed (spec_allow (lcfg l) log k t) then [t] else [])"
proof -
  have e: "evict (Time_Add t (- Window (lcfg l))) (bucket_of l k) = recent (lcfg l) log k t"
    using rl_relD(6) [OF rel, of "ns t - Window (lcfg l)" k] le
    by (simp add: evict_sorted [OF rl_relD(5) [OF rel]] recent_def)
  show "fst (allow_locked (lcfg l) t (bucket_of l k)) = spec_allow (lcfg l) log k t"
    by (auto simp: allow_locked_def e spec_allow_def Let_def not_le hd_append)
  show "snd (allow_locked (lcfg l) t (bucket_of l k)) =
       recent (lcfg l) log k t @ (if Allowed (spec_allow (lcfg l) log k t) then [t] else [])"
    by (auto simp: allow_locked_def e spec_allow_def Let_def not_le)
qed

lemma sorted_recent: "sorted (map (\<lambda>(k, t). ns t) log) \<Longrightarrow> sorted (map ns (recent cfg log k t))"
  unfolding recent_def by (induction log) (auto simp: sorted_append)

lemma Allow_refines:
  assumes rel: "rl_rel m log l" and le: "m \<le> ns t" and al: "Allow l k t = (r, l2)"
  shows "r = spec_allow (lcfg l) log k t" and "rl_rel (ns t) (admit log k t r) l2"
proof -
  obtain b l1 where lo: "LoadOrStore l k = (b, l1)" by fastforce
  note rel1 = LoadOrStore_rel(1) [OF rel lo] and mo = LoadOrStore_rel(2) [OF rel lo]
  have cf: "lcfg l1 = lcfg l" "lcfg l2 = lcfg l" using lo al lcfg_simps(1) [of l k] lcfg_more(1) [of l k t] by auto
  have at: "allow_at l1 b t = (r, l2)" using al lo by (simp add: Allow_def)
  note bo = bucket_of_allow_at [OF rel1 mo at] and sp = allow_locked_spec [OF rel1 le, of k]
  show r: "r = spec_allow (lcfg l) log k t" using bo(2) sp(1) cf by simp
  have b2: "bucket_of l2 k' =
      (if k' = k then recent (lcfg l) log k t @ (if Allowed r then [t] else []) else bucket_of l1 k')" for k'
    using bo(1) sp(2) r cf by simp
  have same: "buckets l2 = buckets l1" "length (store l2) = length (store l1)"
    using at by (auto simp: allow_at_def split: prod.splits)
  have logle: "ns u \<le> ns t" if "(j, u) \<in> set log" for j u using rl_relD(4) [OF rel that] le by simp
  then have rle: "\<forall>u \<in> set (recent (lcfg l) log k t). ns u \<le> ns t" by (auto simp: recent_def)
  have srt: "sorted (map (\<lambda>(k, t). ns t) log)" by (rule rl_relD(3) [OF rel])
  show "rl_rel (ns t) (admit log k t r) l2"
    unfolding rl_rel_def
  proof (intro conjI)
    show "sorted (map (\<lambda>(k, t). ns t) (admit log k t r))" using srt logle by (auto simp: admit_def sorted_append)
    show "\<forall>(j, u) \<in> set (admit log k t r). ns u \<le> ns t" using logle by (auto simp: admit_def)
    show "\<forall>j. sorted (map ns (bucket_of l2 j))"
      using rl_relD(5) [OF rel1] sorted_recent [OF srt] rle by (auto simp: b2 sorted_append)
    show "\<forall>j w. ns t - Window (lcfg l2) \<le> w \<longrightarrow>
        filter (\<lambda>u. w \<le> ns u) (bucket_of l2 j) =
        map snd (filter (\<lambda>(k', u). k' = j \<and> w \<le> ns u) (admit log k t r))"
    proof (intro allI impI)
      fix j w
      assume w: "ns t - Window (lcfg l2) \<le> w"
      then have "m - Window (lcfg l1) \<le> w" using le cf by simp
      note old = rl_relD(6) [OF rel1 this]
      have "filter (\<lambda>u. w \<le> ns u) (recent (lcfg l) log k t) =
          map snd (filter (\<lambda>(k', u). k' = k \<and> w \<le> ns u) log)"
        using w cf by (auto simp: recent_def filter_map o_def case_prod_beta intro!: arg_cong [where f = "map snd"] filter_cong)
      then show "filter (\<lambda>u. w \<le> ns u) (bucket_of l2 j) =
          map snd (filter (\<lambda>(k', u). k' = j \<and> w \<le> ns u) (admit log k t r))"
        using old [of j] by (auto simp: b2 admit_def)
    qed
  qed (use rl_relD(1,2,7) [OF rel1] same in simp_all)
qed

lemma map_of_without_key:
  "map_of (filter (\<lambda>kb. fst kb \<noteq> k) m) k' = (if k' = k then None else map_of m k')"
  by (induction m) auto

lemma sorted_le_last:
  assumes "sorted (map ns ts)" and "u \<in> set ts"
  shows "ns u \<le> ns (List.last ts)"
  using assms by (induction ts rule: rev_induct) (auto simp: sorted_append)

lemma store_bucket_delete [simp]: "store (bucket_delete l k) = store l"
  by (simp add: bucket_delete_def)

text \<open>Deleting a stale bucket keeps what the history says of the window.\<close>

lemma delete_stale_rel:
  assumes rel: "rl_rel m log l" and b: "map_of (buckets l) k = Some b"
    and st: "allStale l cutoff b" and c: "ns cutoff \<le> m - Window (lcfg l)"
  shows "rl_rel m log (bucket_delete l k)"
proof -
  have mo: "map_of (buckets (bucket_delete l k)) k' = (if k' = k then None else map_of (buckets l) k')" for k'
    by (simp add: bucket_delete_def map_of_without_key)
  have bo: "bucket_of (bucket_delete l k) k' = (if k' = k then [] else bucket_of l k')" for k'
    by (simp add: bucket_of_def mo store_bucket_delete split: option.splits)
  have old: "ns u < ns cutoff" if u: "u \<in> set (bucket_of l k)" for u
  proof -
    have ne: "bucket_of l k \<noteq> []" using u by auto
    have "ns (List.last (bucket_of l k)) < ns cutoff"
      using st b ne by (simp add: allStale_def bucket_of_def Time_Before_def)
    moreover have "ns u \<le> ns (List.last (bucket_of l k))"
      by (rule sorted_le_last [OF rl_relD(5) [OF rel] u])
    ultimately show ?thesis by simp
  qed
  have "filter (\<lambda>u. w \<le> ns u) (bucket_of l k) = []" if "m - Window (lcfg l) \<le> w" for w
    using old c that by (fastforce simp: filter_empty_conv)
  then have "\<forall>k' w. m - Window (lcfg l) \<le> w \<longrightarrow>
      filter (\<lambda>t. w \<le> ns t) (bucket_of (bucket_delete l k) k') =
      map snd (filter (\<lambda>(j, t). j = k' \<and> w \<le> ns t) log)"
    using rl_relD(6) [OF rel] by (simp add: bo)
  moreover have "distinct (map fst (buckets (bucket_delete l k)))"
    using rl_relD(7) [OF rel] by (simp add: bucket_delete_def distinct_map_filter)
  moreover have "\<forall>j b. map_of (buckets (bucket_delete l k)) j = Some b \<longrightarrow> b < length (store (bucket_delete l k))"
    using rl_relD(1) [OF rel] by (simp add: mo)
  moreover have "\<forall>j. sorted (map ns (bucket_of (bucket_delete l k) j))"
    using rl_relD(5) [OF rel] by (simp add: bo)
  ultimately show ?thesis
    using rl_relD(2,3,4) [OF rel] unfolding rl_rel_def by (auto simp: mo)
qed

lemma purge_range_rel:
  assumes "rl_rel m log l" and "ns cutoff \<le> m - Window (lcfg l)"
    and "distinct (map fst es)" and "\<forall>(k, b) \<in> set es. map_of (buckets l) k = Some b"
  shows "rl_rel m log (purge_range cutoff es l)"
  using assms
proof (induction cutoff es l rule: purge_range.induct)
  case (2 cutoff k b es l)
  let ?l = "if allStale l cutoff b then bucket_delete l k else l"
  have "rl_rel m log ?l" using 2 delete_stale_rel [of m log l k b cutoff] by auto
  moreover have "\<forall>(k', b') \<in> set es. map_of (buckets ?l) k' = Some b'"
    using "2.prems"(3,4) by (fastforce simp: bucket_delete_def map_of_without_key image_iff)
  ultimately show ?case using 2 by simp
qed simp

lemma cleanup_tick_rel:
  assumes "rl_rel m log l" and "m \<le> ns t"
  shows "rl_rel (ns t) log (cleanup_tick l t)"
proof -
  note rel = rl_rel_mono [OF assms]
  have "\<forall>(k, b) \<in> set (buckets l). map_of (buckets l) k = Some b"
    using rl_relD(7) [OF rel] by (auto intro: map_of_is_SomeI)
  then have "rl_rel (ns t) log (purge_range (Time_Add t (- Window (lcfg l))) (buckets l) l)"
    using purge_range_rel [OF rel _ rl_relD(7) [OF rel]] by (simp add: Time_Add_def)
  with rel show ?thesis by (simp add: cleanup_tick_def purgeStale_def)
qed

lemma Close_simps [simp]: "buckets (Close l) = buckets l" "store (Close l) = store l"
  by (simp_all add: Close_def)

lemma Close_rel: "rl_rel m log l \<Longrightarrow> rl_rel m log (Close l)"
  by (simp add: rl_rel_def bucket_of_def cong: option.case_cong)

lemma NewInMemory_rel: "rl_rel m [] (NewInMemory cfg)"
  by (simp add: rl_rel_def NewInMemory_def bucket_of_def Let_def)

lemma run_refines:
  "rl_rel m log l \<Longrightarrow> clock_ordered m os \<Longrightarrow> rl_run l os = spec_run (lcfg l) log os"
proof (induction l os arbitrary: m log rule: rl_run.induct)
  case (2 l k t os)
  obtain r l1 where al: "Allow l k t = (r, l1)" by fastforce
  have le: "m \<le> ns t" and co: "clock_ordered (ns t) os" using "2.prems"(2) by simp_all
  note rf = Allow_refines [OF "2.prems"(1) le al]
  have "lcfg l1 = lcfg l" using al lcfg_more(1) [of l k t] by simp
  with "2.IH" [OF al [symmetric] rf(2) co] al rf(1) show ?case by (simp add: Let_def)
next
  case (3 l t os)
  then have "m \<le> ns t" and "clock_ordered (ns t) os" by simp_all
  with "3.IH" [OF cleanup_tick_rel] "3.prems"(1) show ?case by simp
next
  case (4 l os)
  with "4.IH" [OF Close_rel [OF "4.prems"(1)]] show ?case by simp
qed simp

section \<open>The bound\<close>

definition admitted :: "(string \<times> gotime \<times> Result) list \<Rightarrow> (string \<times> gotime) list" where
  "admitted rs = map (\<lambda>(k, t, r). (k, t)) (filter (\<lambda>(k, t, r). Allowed r) rs)"

definition in_span :: "string \<Rightarrow> int \<Rightarrow> duration \<Rightarrow> string \<times> gotime \<Rightarrow> bool" where
  "in_span key s d kt \<longleftrightarrow> fst kt = key \<and> s \<le> ns (snd kt) \<and> ns (snd kt) \<le> s + d"

lemma length_filter_weaken:
  "(\<And>x. x \<in> set xs \<Longrightarrow> P x \<Longrightarrow> Q x) \<Longrightarrow> length (filter P xs) \<le> length (filter Q xs)"
  by (induction xs) (auto simp: le_SucI)

lemma spec_run_bound:
  assumes "clock_ordered m os" and "\<forall>(k, t) \<in> set log. ns t \<le> m" and "0 < RequestsPerWindow cfg"
    and "int (length (filter (in_span key s (Window cfg)) log)) \<le> RequestsPerWindow cfg"
  shows "int (length (filter (in_span key s (Window cfg)) (log @ admitted (spec_run cfg log os))))
         \<le> RequestsPerWindow cfg"
  using assms
proof (induction cfg log os arbitrary: m rule: spec_run.induct)
  case (2 cfg log k t os)
  let ?r = "spec_allow cfg log k t"
  let ?log = "admit log k t ?r"
  have le: "m \<le> ns t" and co: "clock_ordered (ns t) os" using "2.prems"(1) by simp_all
  have ad: "log @ admitted (spec_run cfg log (Request k t # os)) = ?log @ admitted (spec_run cfg ?log os)"
    by (simp add: admitted_def admit_def Let_def)
  have old: "\<forall>(k, u) \<in> set ?log. ns u \<le> ns t" using "2.prems"(2) le by (auto simp: admit_def split: if_splits)
  have "int (length (filter (in_span key s (Window cfg)) ?log)) \<le> RequestsPerWindow cfg"
  proof (cases "Allowed ?r \<and> in_span key s (Window cfg) (k, t)")
    case True
    then have "length (filter (in_span key s (Window cfg)) log) \<le> length (recent cfg log k t)"
      using "2.prems"(2) le unfolding recent_def length_map
      by (intro length_filter_weaken) (auto simp: in_span_def)
    with True show ?thesis by (auto simp: admit_def spec_allow_def Let_def split: if_splits)
  next
    case False
    with "2.prems"(4) show ?thesis by (auto simp: admit_def)
  qed
  with "2.IH" [OF refl co old "2.prems"(3)] ad show ?case by simp
next
  case (3 cfg log t os)
  then have "m \<le> ns t" and co: "clock_ordered (ns t) os" by simp_all
  with "3.prems"(2) have "\<forall>(k, u) \<in> set log. ns u \<le> ns t" by fastforce
  from "3.IH" [OF co this "3.prems"(3,4)] show ?case by simp
next
  case (4 cfg log os)
  then show ?case by simp
qed (simp add: admitted_def)


lemma NewInMemory_cfg:
  "lcfg (NewInMemory cfg) =
     \<lparr>RequestsPerWindow = (if RequestsPerWindow cfg \<le> 0 then 300 else RequestsPerWindow cfg),
      Window = (if Window cfg \<le> 0 then 60 * Second else Window cfg)\<rparr>"
  by (simp add: NewInMemory_def Let_def)

text \<open>C22. The limiter that keeps one pruned queue of timestamps per key and purges idle keys refines the
  limiter that remembers every admitted request: on any run of calls that do not overlap, with
  a clock that does not go back, every request gets the same complete result (admitted or
  not, remaining quota, limit, reset time).\<close>

theorem ratelimit_refines:
  assumes "clock_ordered m os"
  shows "rl_run (NewInMemory cfg) os = spec_run (lcfg (NewInMemory cfg)) [] os"
  by (rule run_refines [OF NewInMemory_rel assms])

theorem ratelimit_refines_witness:
  "(let os = [Request ''a'' (utc_of_ns 5), Request ''a'' (utc_of_ns 6), Tick (utc_of_ns 20), Request ''a'' (utc_of_ns 20)];
        l = NewInMemory \<lparr>RequestsPerWindow = 1, Window = 10\<rparr>
    in rl_run l os = spec_run (lcfg l) [] os \<and> map (\<lambda>(k, t, r). Allowed r) (rl_run l os) = [True, False, True])"
  using ratelimit_refines [of 0 "[Request ''a'' (utc_of_ns 5), Request ''a'' (utc_of_ns 6), Tick (utc_of_ns 20), Request ''a'' (utc_of_ns 20)]"
      "\<lparr>RequestsPerWindow = 1, Window = 10\<rparr>"]
  by (simp add: NewInMemory_cfg spec_allow_def recent_def admit_def utc_of_ns_def Let_def)

text \<open>C23. In a run of calls that do not overlap no key gets more than the configured number of requests
  admitted in any closed interval of the length of the window, wherever it starts.\<close>

theorem ratelimit_bound:
  assumes "clock_ordered m os"
  shows "int (length (filter (in_span key s (Window (lcfg (NewInMemory cfg))))
           (admitted (rl_run (NewInMemory cfg) os)))) \<le> RequestsPerWindow (lcfg (NewInMemory cfg))"
  using spec_run_bound [OF assms, of "[]" "lcfg (NewInMemory cfg)" key s]
  by (simp add: run_refines [OF NewInMemory_rel assms] NewInMemory_cfg)

theorem ratelimit_bound_witness:
  "int (length (filter (in_span ''a'' 1 10)
     (admitted (rl_run (NewInMemory \<lparr>RequestsPerWindow = 2, Window = 10\<rparr>)
        [Request ''a'' (utc_of_ns 1), Request ''a'' (utc_of_ns 1), Request ''a'' (utc_of_ns 11)])))) \<le> 2"
  using ratelimit_bound [of 0 "[Request ''a'' (utc_of_ns 1), Request ''a'' (utc_of_ns 1), Request ''a'' (utc_of_ns 11)]"
      "''a''" 1 "\<lparr>RequestsPerWindow = 2, Window = 10\<rparr>"]
  by (simp add: NewInMemory_cfg utc_of_ns_def)

section \<open>Interleaving\<close>

text \<open>
  The atomic parts of concurrent calls: a request reads the clock and loads its bucket, later
  enters the locked section; the purge tests one entry, later deletes the key it tested.
\<close>

datatype rl_action = ALoad nat string gotime | ALock nat | ACheck string gotime | ADelete

record rl_sys =
  lim :: inMemoryLimiter
  loaded :: "(nat \<times> string \<times> gotime \<times> nat) list"
  marked :: "string option"
  outcome :: "(string \<times> gotime \<times> Result) list"

fun rl_act :: "rl_sys \<Rightarrow> rl_action \<Rightarrow> rl_sys" where
  "rl_act s (ALoad i k t) =
     (case LoadOrStore (lim s) k of (b, l1) \<Rightarrow> s\<lparr>lim := l1, loaded := (i, k, t, b) # loaded s\<rparr>)"
| "rl_act s (ALock i) =
     (case map_of (loaded s) i of None \<Rightarrow> s
      | Some (k, t, b) \<Rightarrow>
          (case allow_at (lim s) b t of (r, l1) \<Rightarrow>
             s\<lparr>lim := l1, loaded := filter (\<lambda>x. fst x \<noteq> i) (loaded s), outcome := outcome s @ [(k, t, r)]\<rparr>))"
| "rl_act s (ACheck k now) =
     (case map_of (buckets (lim s)) k of None \<Rightarrow> s
      | Some b \<Rightarrow>
          if allStale (lim s) (Time_Add now (- Window (lcfg (lim s)))) b then s\<lparr>marked := Some k\<rparr> else s)"
| "rl_act s ADelete =
     (case marked s of None \<Rightarrow> s | Some k \<Rightarrow> s\<lparr>lim := bucket_delete (lim s) k, marked := None\<rparr>)"

definition rl_start :: "InMemoryConfig \<Rightarrow> rl_sys" where
  "rl_start cfg = \<lparr>lim = NewInMemory cfg, loaded = [], marked = None, outcome = []\<rparr>"


end
