(* ===== verification/OrgTree.thy ===== *)
theory OrgTree
  imports Tables "HOL-Library.Multiset"
begin

text \<open>
  \<open>internal/core/domain/organization/organization.go\<close>: the hierarchy of the organizations of a
  tenant. \<open>CheckCircularReference\<close> walks up from the new parent and is shown to accept exactly
  the changes that keep the hierarchy free of cycles. \<open>BuildTree\<close> nests a flat list; with
  distinct identifiers it always returns, and when every parent is in the list it holds each
  organization once, below its parent.
\<close>

section \<open>Organizations\<close>

definition TypeCompany :: string where "TypeCompany = ''company''"
definition StatusActive_org :: string where "StatusActive_org = ''active''"

text \<open>The flat fields; \<open>Children\<close> is empty outside \<open>BuildTree\<close>, whose nodes are \<open>OrgNode\<close>.\<close>

record Organization =
  og_ID :: ID
  og_TenantID :: ID
  og_ParentID :: "ID option"
  og_Code :: string
  og_Name :: string
  og_LegalName :: string
  og_Type :: string
  og_Status :: string
  og_Settings :: gomap
  og_CreatedAt :: gotime
  og_UpdatedAt :: gotime

datatype OrgTree = OrgNode (node_org: Organization) (node_children: "OrgTree list")

section \<open>Circular references\<close>

text \<open>The walk of \<open>CheckCircularReference\<close>; every visited node is a key of the parent map or the last
  one, so it ends.\<close>

function walk_up :: "(ID \<times> ID option) list \<Rightarrow> ID \<Rightarrow> ID list \<Rightarrow> ID option \<Rightarrow> unit res" where
  "walk_up pm targetID visited None = Ret ()"
| "walk_up pm targetID visited (Some c) =
     (if c = NilID then Ret ()
      else if c = targetID
        then Fail (Wrapped ''circular hierarchy detected (target is an ancestor of new parent)'' ErrInvalidInput)
      else if c \<in> set visited
        then Fail (Wrapped ''circular reference detected in existing hierarchy'' ErrInvalidInput)
      else walk_up pm targetID (c # visited) (case map_of pm c of None \<Rightarrow> None | Some p \<Rightarrow> p))"
  by pat_completeness auto
termination
proof (relation "measure (\<lambda>(pm, t, vis, cur). case cur of None \<Rightarrow> 0 | Some c \<Rightarrow> Suc (card (fst ` set pm - set vis)))")
  fix pm :: "(ID \<times> ID option) list" and t :: ID and vis :: "ID list" and c :: ID
  assume "c \<notin> set vis"
  then have "card (fst ` set pm - set (c # vis)) < card (fst ` set pm - set vis)" if "c \<in> fst ` set pm"
    using that by (intro psubset_card_mono) auto
  then show "((pm, t, c # vis, case map_of pm c of None \<Rightarrow> None | Some p \<Rightarrow> p), pm, t, vis, Some c)
      \<in> measure (\<lambda>(pm, t, vis, cur). case cur of None \<Rightarrow> 0 | Some c \<Rightarrow> Suc (card (fst ` set pm - set vis)))"
    by (auto split: option.splits dest!: map_of_SomeD) (metis fst_conv imageI)
qed simp

text \<open>A later entry for the same key overwrites an earlier one.\<close>

definition parent_map :: "Organization list \<Rightarrow> (ID \<times> ID option) list" where
  "parent_map orgs = rev (map (\<lambda>g. (og_ID g, og_ParentID g)) orgs)"

definition CheckCircularReference :: "Organization list \<Rightarrow> ID \<Rightarrow> ID option \<Rightarrow> unit res" where
  "CheckCircularReference orgs targetID newParentID =
     (case newParentID of
        None \<Rightarrow> Ret ()
      | Some p \<Rightarrow>
          if p = NilID then Ret ()
          else if p = targetID then Fail (Wrapped ''organization cannot be its own parent'' ErrInvalidInput)
          else walk_up (parent_map orgs) targetID [] newParentID)"

text \<open>The edges from an organization to its parent.\<close>

definition parent_rel :: "Organization list \<Rightarrow> (ID \<times> ID) set" where
  "parent_rel orgs = {(og_ID g, p) | g p. g \<in> set orgs \<and> og_ParentID g = Some p \<and> p \<noteq> NilID}"

definition step_up :: "(ID \<times> ID option) list \<Rightarrow> (ID \<times> ID) set" where
  "step_up pm = {(c, p). map_of pm c = Some (Some p) \<and> p \<noteq> NilID \<and> c \<noteq> NilID}"

lemma step_up_parent_map:
  assumes "distinct (map og_ID orgs)" and "NilID \<notin> og_ID ` set orgs"
  shows "step_up (parent_map orgs) = parent_rel orgs"
proof -
  have d: "distinct (map fst (parent_map orgs))"
    using assms(1) by (simp add: parent_map_def o_def rev_map [symmetric])
  have "map_of (parent_map orgs) c = Some q \<longleftrightarrow> (\<exists>g \<in> set orgs. og_ID g = c \<and> og_ParentID g = q)" for c q
    using map_of_eq_Some_iff [OF d] by (auto simp: parent_map_def)
  then show ?thesis using assms(2) unfolding step_up_def parent_rel_def by (auto simp: image_iff)
qed

text \<open>A successful walk never meets the target: nothing above the start is the target.\<close>

lemma walk_up_sound:
  "walk_up pm target vis cur = Ret () \<Longrightarrow> cur = Some c \<Longrightarrow> c \<noteq> NilID \<Longrightarrow> (c, x) \<in> (step_up pm)\<^sup>* \<Longrightarrow> x \<noteq> target"
proof (induction pm target vis cur arbitrary: c rule: walk_up.induct)
  case (2 pm target vis c0)
  then have c: "c0 = c" "c \<noteq> NilID" by auto
  with "2.prems"(1) have nt: "c \<noteq> target" "c \<notin> set vis"
    and w: "walk_up pm target (c # vis) (case map_of pm c of None \<Rightarrow> None | Some p \<Rightarrow> p) = Ret ()"
    by (auto split: if_splits)
  from "2.prems"(4) show ?case
  proof (cases rule: converse_rtranclE)
    case base
    with nt show ?thesis by simp
  next
    case (step y)
    then have "map_of pm c = Some (Some y)" and "y \<noteq> NilID" by (auto simp: step_up_def)
    with "2.IH" [of y] c nt w step(2) show ?thesis by auto
  qed
qed simp

text \<open>In a hierarchy without cycles, a walk from below the target's ancestors only fails at the target.\<close>

lemma walk_up_accepts:
  assumes "acyclic (step_up pm)"
  shows "(\<forall>v \<in> set vis. \<forall>c. cur = Some c \<longrightarrow> (v, c) \<in> (step_up pm)\<^sup>+) \<Longrightarrow>
     (\<forall>c. cur = Some c \<longrightarrow> c \<noteq> NilID \<longrightarrow> (c, target) \<notin> (step_up pm)\<^sup>*) \<Longrightarrow> walk_up pm target vis cur = Ret ()"
  using assms
proof (induction pm target vis cur rule: walk_up.induct)
  case (2 pm target vis c)
  show ?case
  proof (cases "c = NilID")
    case False
    have ct: "c \<noteq> target" using "2.prems"(2) False by auto
    have cv: "c \<notin> set vis" using "2.prems"(1,3) by (auto simp: acyclic_def)
    let ?n = "case map_of pm c of None \<Rightarrow> None | Some p \<Rightarrow> p"
    have up: "(c, p) \<in> step_up pm" if "?n = Some p" "p \<noteq> NilID" for p
      using that False by (auto simp: step_up_def split: option.splits)
    have "walk_up pm target (c # vis) ?n = Ret ()"
    proof (cases "?n = Some NilID")
      case True
      then show ?thesis by simp
    next
      case nn: False
      show ?thesis
      proof (rule "2.IH" [OF False ct cv _ _ "2.prems"(3)])
        show "\<forall>v \<in> set (c # vis). \<forall>p. ?n = Some p \<longrightarrow> (v, p) \<in> (step_up pm)\<^sup>+"
          using up nn "2.prems"(1) by (auto intro: trancl_into_trancl)
        show "\<forall>p. ?n = Some p \<longrightarrow> p \<noteq> NilID \<longrightarrow> (p, target) \<notin> (step_up pm)\<^sup>*"
          using up "2.prems"(2) False by (blast intro: converse_rtrancl_into_rtrancl)
      qed
    qed
    with False ct cv show ?thesis by simp
  qed simp
qed simp

text \<open>The hierarchy after the change.\<close>

definition set_parent :: "ID \<Rightarrow> ID option \<Rightarrow> Organization list \<Rightarrow> Organization list" where
  "set_parent targetID p orgs = map (\<lambda>g. if og_ID g = targetID then g\<lparr>og_ParentID := p\<rparr> else g) orgs"

lemma parent_rel_iff:
  "(a, b) \<in> parent_rel orgs \<longleftrightarrow> b \<noteq> NilID \<and> (\<exists>g \<in> set orgs. og_ID g = a \<and> og_ParentID g = Some b)"
  by (auto simp: parent_rel_def)

lemma parent_rel_set_parent:
  assumes "target \<in> og_ID ` set orgs"
  shows "parent_rel (set_parent target p orgs) =
     {(a, b) \<in> parent_rel orgs. a \<noteq> target} \<union> (case p of None \<Rightarrow> {} | Some q \<Rightarrow> if q = NilID then {} else {(target, q)})"
proof (rule set_eqI)
  fix e :: "ID \<times> ID"
  obtain a b where e: "e = (a, b)" by fastforce
  show "e \<in> parent_rel (set_parent target p orgs) \<longleftrightarrow>
      e \<in> {(a, b) \<in> parent_rel orgs. a \<noteq> target} \<union> (case p of None \<Rightarrow> {} | Some q \<Rightarrow> if q = NilID then {} else {(target, q)})"
    using assms by (cases "a = target") (auto simp: e parent_rel_iff set_parent_def simp del: if_image_distrib split: option.splits)
qed

lemma rtrancl_avoid_source:
  assumes "(q, t) \<in> r\<^sup>*"
  shows "(q, t) \<in> {(a, b) \<in> r. a \<noteq> t}\<^sup>*"
  using assms
proof (induction rule: converse_rtrancl_induct)
  case (step y z)
  then show ?case by (cases "y = t") (auto intro: converse_rtrancl_into_rtrancl)
qed simp

lemma check_exact:
  assumes dist: "distinct (map og_ID orgs)" and nil: "NilID \<notin> og_ID ` set orgs"
    and acyc: "acyclic (parent_rel orgs)" and targ: "target \<in> og_ID ` set orgs"
  shows "CheckCircularReference orgs target p = Ret () \<longleftrightarrow> acyclic (parent_rel (set_parent target p orgs))"
proof (cases "p = None \<or> p = Some NilID")
  case True
  have "acyclic {(a, b) \<in> parent_rel orgs. a \<noteq> target}" by (rule acyclic_subset [OF acyc]) auto
  with True show ?thesis by (auto simp: CheckCircularReference_def parent_rel_set_parent [OF targ])
next
  case False
  then obtain q where p: "p = Some q" and q: "q \<noteq> NilID" by (cases p) auto
  let ?r = "parent_rel orgs" and ?q = "{(a, b) \<in> parent_rel orgs. a \<noteq> target}"
  have s: "step_up (parent_map orgs) = ?r" by (rule step_up_parent_map [OF dist nil])
  have r0: "acyclic ?q" by (rule acyclic_subset [OF acyc]) auto
  have eq: "(q, target) \<in> ?r\<^sup>* \<longleftrightarrow> (q, target) \<in> ?q\<^sup>*"
    using rtrancl_avoid_source [of q target ?r] rtrancl_mono [of ?q ?r] by auto
  have rhs: "acyclic (parent_rel (set_parent target p orgs)) \<longleftrightarrow> (q, target) \<notin> ?r\<^sup>*"
    using q r0 eq by (simp add: parent_rel_set_parent [OF targ] p acyclic_insert)
  have "CheckCircularReference orgs target p = Ret () \<longleftrightarrow> (q, target) \<notin> ?r\<^sup>*"
  proof (cases "q = target")
    case True
    then show ?thesis using q by (simp add: CheckCircularReference_def p)
  next
    case qt: False
    have "walk_up (parent_map orgs) target [] (Some q) = Ret () \<longleftrightarrow> (q, target) \<notin> ?r\<^sup>*"
      using walk_up_sound [of "parent_map orgs" target "[]" "Some q" q target] q
        walk_up_accepts [of "parent_map orgs" "[]" "Some q" target] acyc s by auto
    with q qt show ?thesis by (simp add: CheckCircularReference_def p del: walk_up.simps)
  qed
  with rhs show ?thesis by simp
qed

section \<open>The tree\<close>

text \<open>
  The two maps of \<open>BuildTree\<close>. The recursive closure \<open>buildNode\<close> is given a bound on its depth
  and returns \<open>None\<close> when the bound is reached; \<open>buildNode_total\<close> shows that the number of
  organizations is enough, so the Go recursion ends.
\<close>

definition is_root :: "Organization \<Rightarrow> bool" where
  "is_root g \<longleftrightarrow> og_ParentID g = None \<or> og_ParentID g = Some NilID"

fun collect_children :: "Organization list \<Rightarrow> (ID \<times> Organization list) list \<Rightarrow> (ID \<times> Organization list) list" where
  "collect_children [] m = m"
| "collect_children (g # gs) m =
     collect_children gs (if is_root g then m else append_at (the (og_ParentID g)) g m)"

definition org_map :: "Organization list \<Rightarrow> (ID \<times> Organization) list" where
  "org_map orgs = rev (map (\<lambda>g. (og_ID g, g)) orgs)"

definition zero_org :: Organization where
  "zero_org = \<lparr>og_ID = NilID, og_TenantID = NilID, og_ParentID = None, og_Code = [], og_Name = [],
     og_LegalName = [], og_Type = [], og_Status = [], og_Settings = None,
     og_CreatedAt = utc_of_ns zero_ns, og_UpdatedAt = utc_of_ns zero_ns\<rparr>"

fun all_some :: "'a option list \<Rightarrow> 'a list option" where
  "all_some [] = Some []"
| "all_some (x # xs) = (case x of None \<Rightarrow> None | Some y \<Rightarrow> map_option (Cons y) (all_some xs))"

fun buildNode :: "nat \<Rightarrow> (ID \<times> Organization list) list \<Rightarrow> (ID \<times> Organization) list \<Rightarrow> ID \<Rightarrow> OrgTree option" where
  "buildNode 0 cm om i = None"
| "buildNode (Suc n) cm om i =
     map_option (OrgNode (case map_of om i of None \<Rightarrow> zero_org | Some g \<Rightarrow> g))
       (all_some (map (\<lambda>ch. buildNode n cm om (og_ID ch)) (get_at cm i)))"

definition BuildTree :: "nat \<Rightarrow> Organization list \<Rightarrow> OrgTree list option" where
  "BuildTree depth orgs =
     (let cm = collect_children orgs []; om = org_map orgs
      in all_some (map (\<lambda>g. buildNode depth cm om (og_ID g)) (filter is_root orgs)))"

lemma get_collect_children:
  "get_at (collect_children gs m) i = get_at m i @ filter (\<lambda>g. \<not> is_root g \<and> og_ParentID g = Some i) gs"
proof (induction gs m rule: collect_children.induct)
  case (2 g gs m)
  then show ?case by (cases "og_ParentID g") (auto simp: is_root_def)
qed simp

definition children_of :: "Organization list \<Rightarrow> ID \<Rightarrow> Organization list" where
  "children_of orgs i = filter (\<lambda>g. \<not> is_root g \<and> og_ParentID g = Some i) orgs"

lemma org_map_lookup:
  assumes "distinct (map og_ID orgs)" and "g \<in> set orgs"
  shows "map_of (org_map orgs) (og_ID g) = Some g"
proof -
  have "distinct (map fst (org_map orgs))"
    using assms(1) by (simp add: org_map_def o_def rev_map [symmetric])
  from map_of_is_SomeI [OF this] assms(2) show ?thesis by (simp add: org_map_def)
qed

lemma all_some_map: "all_some (map f xs) = Some ys \<longleftrightarrow> list_all2 (\<lambda>x y. f x = Some y) xs ys"
proof (induction xs arbitrary: ys)
  case (Cons x xs)
  then show ?case by (cases ys) (auto split: option.splits)
qed auto

lemma all_some_total: "(\<And>x. x \<in> set xs \<Longrightarrow> \<exists>y. f x = Some y) \<Longrightarrow> \<exists>ys. all_some (map f xs) = Some ys"
  by (induction xs) (auto 4 4 split: option.splits)

text \<open>The organizations of a tree, in preorder, and the trees that list children below their parent in the
  order of the flat list.\<close>

fun flatten :: "OrgTree \<Rightarrow> Organization list" where
  "flatten (OrgNode g ts) = g # concat (map flatten ts)"

fun tree_ok :: "Organization list \<Rightarrow> OrgTree \<Rightarrow> bool" where
  "tree_ok orgs (OrgNode g ts) \<longleftrightarrow>
     g \<in> set orgs \<and> map node_org ts = children_of orgs (og_ID g) \<and> (\<forall>t \<in> set ts. tree_ok orgs t)"

lemma buildNode_Suc_iff:
  assumes "distinct (map og_ID orgs)" and "g \<in> set orgs"
  shows "buildNode (Suc n) (collect_children orgs []) (org_map orgs) (og_ID g) = Some t \<longleftrightarrow>
     (\<exists>ts. t = OrgNode g ts \<and> list_all2 (\<lambda>ch u. buildNode n (collect_children orgs []) (org_map orgs) (og_ID ch) = Some u)
        (children_of orgs (og_ID g)) ts)"
  using org_map_lookup [OF assms]
  by (auto simp: get_collect_children children_of_def [symmetric] all_some_map)

lemma children_of_set: "ch \<in> set (children_of orgs i) \<longleftrightarrow> ch \<in> set orgs \<and> og_ParentID ch = Some i \<and> i \<noteq> NilID"
  by (auto simp: children_of_def is_root_def)

lemma buildNode_ok:
  assumes "distinct (map og_ID orgs)"
  shows "g \<in> set orgs \<Longrightarrow> buildNode n (collect_children orgs []) (org_map orgs) (og_ID g) = Some t \<Longrightarrow>
     node_org t = g \<and> tree_ok orgs t"
proof (induction n arbitrary: g t)
  case (Suc n)
  from Suc.prems obtain ts where t: "t = OrgNode g ts"
    and all: "list_all2 (\<lambda>ch u. buildNode n (collect_children orgs []) (org_map orgs) (og_ID ch) = Some u)
        (children_of orgs (og_ID g)) ts"
    using buildNode_Suc_iff [OF assms Suc.prems(1)] by auto
  have all': "list_all2 (\<lambda>ch u. node_org u = ch \<and> tree_ok orgs u) (children_of orgs (og_ID g)) ts"
    using Suc.IH by (intro list.rel_mono_strong [OF all]) (auto simp: children_of_set)
  then have "map node_org ts = children_of orgs (og_ID g)"
    by (metis (mono_tags, lifting) list.rel_eq list.rel_map(2) list.rel_mono_strong)
  moreover have "\<forall>u \<in> set ts. tree_ok orgs u" using all' by (auto simp: list_all2_conv_all_nth in_set_conv_nth)
  ultimately show ?case using t Suc.prems(1) by simp
qed simp

text \<open>Depth: below a root every step goes to an organization whose parent is the one above, and such chains
  do not repeat, because going up from any of them ends in the root.\<close>

fun up :: "Organization list \<Rightarrow> nat \<Rightarrow> ID \<Rightarrow> bool" where
  "up orgs 0 i = (\<exists>g \<in> set orgs. og_ID g = i \<and> is_root g)"
| "up orgs (Suc n) i = (\<exists>g \<in> set orgs. og_ID g = i \<and> \<not> is_root g \<and> up orgs n (the (og_ParentID g)))"

lemma up_unique:
  assumes "distinct (map og_ID orgs)"
  shows "up orgs n i \<Longrightarrow> up orgs m i \<Longrightarrow> n = m"
proof (induction n arbitrary: i m)
  case 0
  then show ?case by (cases m) (auto dest: distinct_map_inj [OF assms])
next
  case (Suc n)
  then show ?case by (cases m) (auto dest: distinct_map_inj [OF assms])
qed

lemma up_below: "up orgs n i \<Longrightarrow> k \<le> n \<Longrightarrow> \<exists>j \<in> og_ID ` set orgs. up orgs k j"
proof (induction n arbitrary: i)
  case (Suc n)
  then show ?case by (cases "k = Suc n") (auto simp: le_Suc_eq)
qed auto

lemma up_bound:
  assumes "distinct (map og_ID orgs)" and "up orgs n i"
  shows "n < length orgs"
proof -
  from up_below [OF assms(2)] obtain f where f: "\<And>k. k \<le> n \<Longrightarrow> f k \<in> og_ID ` set orgs \<and> up orgs k (f k)" by metis
  have "inj_on f {..n}"
    using f up_unique [OF assms(1)] unfolding inj_on_def by (metis atMost_iff)
  then have "card {..n} \<le> card (og_ID ` set orgs)" using f by (intro card_inj_on_le) auto
  also have "\<dots> \<le> length orgs" using card_image_le [of "set orgs" og_ID] card_length [of orgs] by simp
  finally show ?thesis by simp
qed

lemma buildNode_total:
  assumes "distinct (map og_ID orgs)"
  shows "g \<in> set orgs \<Longrightarrow> up orgs k (og_ID g) \<Longrightarrow> length orgs \<le> n + k \<Longrightarrow>
     \<exists>t. buildNode n (collect_children orgs []) (org_map orgs) (og_ID g) = Some t"
proof (induction n arbitrary: g k)
  case 0
  with up_bound [OF assms 0(2)] show ?case by simp
next
  case (Suc n)
  have "\<exists>u. buildNode n (collect_children orgs []) (org_map orgs) (og_ID ch) = Some u"
    if "ch \<in> set (children_of orgs (og_ID g))" for ch
  proof (rule Suc.IH)
    show ch: "ch \<in> set orgs" using that by (simp add: children_of_set)
    show "up orgs (Suc k) (og_ID ch)"
      using that Suc.prems(2) ch by (auto simp: children_of_set is_root_def intro!: bexI [of _ ch])
    show "length orgs \<le> n + Suc k" using Suc.prems(3) by simp
  qed
  then have "\<exists>ts. all_some (map (\<lambda>ch. buildNode n (collect_children orgs []) (org_map orgs) (og_ID ch)) (children_of orgs (og_ID g))) = Some ts"
    by (rule all_some_total)
  then show ?case by (auto simp: get_collect_children children_of_def)
qed

lemma BuildTree_total:
  assumes "distinct (map og_ID orgs)"
  shows "\<exists>ts. BuildTree (length orgs) orgs = Some ts"
  unfolding BuildTree_def Let_def
  by (rule all_some_total, rule buildNode_total [OF assms, of _ 0]) auto

lemma BuildTree_ok:
  assumes "distinct (map og_ID orgs)" and "BuildTree n orgs = Some ts"
  shows "map node_org ts = filter is_root orgs" and "\<forall>t \<in> set ts. tree_ok orgs t"
proof -
  have all: "list_all2 (\<lambda>g u. buildNode n (collect_children orgs []) (org_map orgs) (og_ID g) = Some u) (filter is_root orgs) ts"
    using assms(2) by (simp add: BuildTree_def Let_def all_some_map)
  have all': "list_all2 (\<lambda>g u. node_org u = g \<and> tree_ok orgs u) (filter is_root orgs) ts"
    using buildNode_ok [OF assms(1)] by (intro list.rel_mono_strong [OF all]) auto
  then show "map node_org ts = filter is_root orgs"
    by (metis (mono_tags, lifting) list.rel_eq list.rel_map(2) list.rel_mono_strong)
  show "\<forall>t \<in> set ts. tree_ok orgs t" using all' by (auto simp: list_all2_conv_all_nth in_set_conv_nth)
qed

text \<open>Every organization whose chain of parents ends in a root of the list is in the tree, once.\<close>

definition linked :: "Organization list \<Rightarrow> Organization \<Rightarrow> bool" where
  "linked orgs g \<longleftrightarrow> (\<exists>n \<in> set [0..<length orgs]. up orgs n (og_ID g))"

lemma linked_iff: "distinct (map og_ID orgs) \<Longrightarrow> linked orgs g \<longleftrightarrow> (\<exists>n. up orgs n (og_ID g))"
  using up_bound [of orgs _ "og_ID g"] by (auto simp: linked_def)

lemma up_Suc_parent:
  assumes "(a, b) \<in> parent_rel orgs" and "up orgs n b"
  shows "up orgs (Suc n) a"
  using assms by (auto simp: parent_rel_iff is_root_def intro!: bexI)

lemma up_above:
  assumes "(a, b) \<in> (parent_rel orgs)\<^sup>+" and "up orgs n b"
  shows "\<exists>m > n. up orgs m a"
  using assms
proof (induction rule: converse_trancl_induct)
  case (base y)
  then show ?case using up_Suc_parent by blast
next
  case (step y z)
  then show ?case using up_Suc_parent less_SucI by blast
qed

lemma parent_unique:
  assumes "distinct (map og_ID orgs)" and "(a, b) \<in> parent_rel orgs" and "(a, c) \<in> parent_rel orgs"
  shows "b = c"
  using assms(2,3) by (auto simp: parent_rel_iff dest: distinct_map_inj [OF assms(1)])

lemma same_level_ancestor:
  assumes d: "distinct (map og_ID orgs)" and "(a, b) \<in> (parent_rel orgs)\<^sup>*"
    and "(a, c) \<in> (parent_rel orgs)\<^sup>*" and "up orgs n b" and "up orgs n c"
  shows "b = c"
  using assms(2,3)
proof (induction rule: converse_rtrancl_induct)
  case base
  have "\<not> (b, c) \<in> (parent_rel orgs)\<^sup>+"
    using up_above [of b c orgs n] assms(4,5) up_unique [OF d] by blast
  with base show ?case by (auto simp: rtrancl_eq_or_trancl)
next
  case (step a y)
  from step.prems show ?case
  proof (cases rule: converse_rtranclE)
    case base
    with step have "(c, b) \<in> (parent_rel orgs)\<^sup>+" by auto
    with up_above [of c b orgs n] assms(4,5) up_unique [OF d] show ?thesis by blast
  next
    case (step z)
    with parent_unique [OF d] \<open>(a, y) \<in> parent_rel orgs\<close> have "z = y" by blast
    with step \<open>(y, c) \<in> (parent_rel orgs)\<^sup>* \<Longrightarrow> b = c\<close> show ?thesis by blast
  qed
qed

lemma flatten_set:
  assumes d: "distinct (map og_ID orgs)"
  shows "tree_ok orgs t \<Longrightarrow> set (flatten t) = {h \<in> set orgs. (og_ID h, og_ID (node_org t)) \<in> (parent_rel orgs)\<^sup>*}"
proof (induction t)
  case (OrgNode g ts)
  then have g: "g \<in> set orgs" and ch: "map node_org ts = children_of orgs (og_ID g)" by auto
  have chs: "node_org ` set ts = set (children_of orgs (og_ID g))" using ch by (metis set_map)
  have child: "(og_ID c, og_ID g) \<in> parent_rel orgs" if "c \<in> set (children_of orgs (og_ID g))" for c
    using that by (auto simp: children_of_set parent_rel_iff)
  have "set (flatten (OrgNode g ts)) = insert g (\<Union>u \<in> set ts. {h \<in> set orgs. (og_ID h, og_ID (node_org u)) \<in> (parent_rel orgs)\<^sup>*})"
    using OrgNode by auto
  also have "\<dots> = insert g {h \<in> set orgs. \<exists>c \<in> set (children_of orgs (og_ID g)). (og_ID h, og_ID c) \<in> (parent_rel orgs)\<^sup>*}"
    unfolding chs [symmetric] by auto
  also have "\<dots> = {h \<in> set orgs. (og_ID h, og_ID g) \<in> (parent_rel orgs)\<^sup>*}"
  proof (intro subset_antisym subsetI)
    fix h
    assume "h \<in> {h \<in> set orgs. (og_ID h, og_ID g) \<in> (parent_rel orgs)\<^sup>*}"
    then have h: "h \<in> set orgs" and r: "(og_ID h, og_ID g) \<in> (parent_rel orgs)\<^sup>*" by auto
    from r show "h \<in> insert g {h \<in> set orgs. \<exists>c \<in> set (children_of orgs (og_ID g)). (og_ID h, og_ID c) \<in> (parent_rel orgs)\<^sup>*}"
    proof (cases rule: rtranclE)
      case base
      with distinct_map_inj [OF d h g] show ?thesis by simp
    next
      case (step y)
      then show ?thesis using h by (auto simp: parent_rel_iff children_of_set)
    qed
  next
    fix h
    assume "h \<in> insert g {h \<in> set orgs. \<exists>c \<in> set (children_of orgs (og_ID g)). (og_ID h, og_ID c) \<in> (parent_rel orgs)\<^sup>*}"
    then show "h \<in> {h \<in> set orgs. (og_ID h, og_ID g) \<in> (parent_rel orgs)\<^sup>*}"
      using g child by (auto intro: rtrancl_into_rtrancl)
  qed
  finally show ?case by simp
qed

lemma distinct_concat_flatten:
  assumes d: "distinct (map og_ID orgs)" and "distinct (map node_org ts)"
    and "\<And>t. t \<in> set ts \<Longrightarrow> tree_ok orgs t \<and> distinct (flatten t) \<and> up orgs n (og_ID (node_org t))"
  shows "distinct (concat (map flatten ts))"
  using assms(2,3)
proof (induction ts)
  case (Cons t ts)
  have tin: "node_org u \<in> set orgs" if "tree_ok orgs u" for u using that by (cases u) auto
  have "set (flatten t) \<inter> set (flatten u) = {}" if u: "u \<in> set ts" for u
  proof (rule ccontr)
    assume "set (flatten t) \<inter> set (flatten u) \<noteq> {}"
    then obtain h :: Organization where "(og_ID h, og_ID (node_org t)) \<in> (parent_rel orgs)\<^sup>* \<and>
        (og_ID h, og_ID (node_org u)) \<in> (parent_rel orgs)\<^sup>*"
      using Cons.prems(2) [of t] Cons.prems(2) [of u] u flatten_set [OF d] by auto
    with same_level_ancestor [OF d] Cons.prems(2) [of t] Cons.prems(2) [of u] u
    have "og_ID (node_org t) = og_ID (node_org u)" by auto
    then have "node_org t = node_org u"
      using distinct_map_inj [OF d tin tin] Cons.prems(2) [of t] Cons.prems(2) [of u] u by auto
    with Cons.prems(1) u show False by auto
  qed
  with Cons show ?case by auto
qed simp

lemma flatten_distinct:
  assumes d: "distinct (map og_ID orgs)"
  shows "tree_ok orgs t \<Longrightarrow> up orgs n (og_ID (node_org t)) \<Longrightarrow> distinct (flatten t)"
proof (induction t arbitrary: n)
  case (OrgNode g ts)
  then have g: "g \<in> set orgs" and ch: "map node_org ts = children_of orgs (og_ID g)" and tok: "\<forall>u \<in> set ts. tree_ok orgs u" by auto
  have chs: "node_org u \<in> set (children_of orgs (og_ID g))" if "u \<in> set ts" for u using ch that by (metis image_eqI set_map)
  have lev: "up orgs (Suc n) (og_ID (node_org u))" if "u \<in> set ts" for u
    using chs [OF that] OrgNode.prems(2) by (intro up_Suc_parent [of _ "og_ID g"]) (auto simp: children_of_set parent_rel_iff)
  have "distinct (children_of orgs (og_ID g))" using d by (auto simp: children_of_def distinct_map)
  then have dc: "distinct (concat (map flatten ts))"
    using ch tok lev OrgNode.IH by (intro distinct_concat_flatten [OF d, of ts "Suc n"]) (simp, blast)
  have "g \<notin> set (flatten u)" if u: "u \<in> set ts" for u
  proof
    assume "g \<in> set (flatten u)"
    then have "(og_ID g, og_ID (node_org u)) \<in> (parent_rel orgs)\<^sup>*" using flatten_set [OF d] tok u by auto
    moreover have "(og_ID (node_org u), og_ID g) \<in> parent_rel orgs" using chs [OF u] by (auto simp: children_of_set parent_rel_iff)
    ultimately have "(og_ID g, og_ID g) \<in> (parent_rel orgs)\<^sup>+" by simp
    with up_above [of "og_ID g" "og_ID g" orgs n] OrgNode.prems(2) up_unique [OF d] show False by fastforce
  qed
  with dc show ?case by auto
qed

lemma linked_iff_below:
  assumes d: "distinct (map og_ID orgs)" and "h \<in> set orgs"
  shows "linked orgs h \<longleftrightarrow> (\<exists>g \<in> set orgs. is_root g \<and> (og_ID h, og_ID g) \<in> (parent_rel orgs)\<^sup>*)"
proof
  assume "linked orgs h"
  then obtain n where "up orgs n (og_ID h)" using linked_iff [OF d] by blast
  then show "\<exists>g \<in> set orgs. is_root g \<and> (og_ID h, og_ID g) \<in> (parent_rel orgs)\<^sup>*"
    using assms(2)
  proof (induction n arbitrary: h)
    case 0
    then show ?case by auto
  next
    case (Suc n)
    then obtain g where g: "g \<in> set orgs" "og_ID g = og_ID h" "\<not> is_root g" "up orgs n (the (og_ParentID g))" by auto
    then obtain p where p: "og_ParentID g = Some p" "p \<noteq> NilID" by (auto simp: is_root_def)
    obtain k where k: "k \<in> set orgs" "og_ID k = p" using g(4) p by (cases n) auto
    have "(og_ID h, p) \<in> parent_rel orgs" using g p by (auto simp: parent_rel_iff)
    moreover obtain r where "r \<in> set orgs" "is_root r" "(og_ID k, og_ID r) \<in> (parent_rel orgs)\<^sup>*"
      using Suc.IH [of k] g(4) p k by auto
    ultimately show ?case using k by (metis converse_rtrancl_into_rtrancl)
  qed
next
  assume "\<exists>g \<in> set orgs. is_root g \<and> (og_ID h, og_ID g) \<in> (parent_rel orgs)\<^sup>*"
  then obtain g where "g \<in> set orgs" "is_root g" and r: "(og_ID h, og_ID g) \<in> (parent_rel orgs)\<^sup>*" by blast
  then have "up orgs 0 (og_ID g)" by auto
  with r up_above [of "og_ID h" "og_ID g" orgs 0] have "\<exists>n. up orgs n (og_ID h)"
    unfolding rtrancl_eq_or_trancl by metis
  then show "linked orgs h" using linked_iff [OF d] by blast
qed

lemma BuildTree_flatten:
  assumes d: "distinct (map og_ID orgs)" and b: "BuildTree n orgs = Some ts"
  shows "mset (concat (map flatten ts)) = mset (filter (linked orgs) orgs)"
proof -
  note ok = BuildTree_ok [OF d b]
  have roots: "node_org u \<in> set (filter is_root orgs)" if "u \<in> set ts" for u using ok(1) that by (metis image_eqI set_map)
  have lev: "up orgs 0 (og_ID (node_org u))" if "u \<in> set ts" for u using roots [OF that] by auto
  have "distinct (map node_org ts)" using ok(1) d by (auto simp: distinct_map)
  then have dc: "distinct (concat (map flatten ts))"
    using distinct_concat_flatten [OF d, of ts 0] ok(2) lev flatten_distinct [OF d] by blast
  have "set (concat (map flatten ts)) = (\<Union>u \<in> set ts. {h \<in> set orgs. (og_ID h, og_ID (node_org u)) \<in> (parent_rel orgs)\<^sup>*})"
    using flatten_set [OF d] ok(2) by auto
  also have "\<dots> = {h \<in> set orgs. \<exists>g \<in> node_org ` set ts. (og_ID h, og_ID g) \<in> (parent_rel orgs)\<^sup>*}" by auto
  also have "node_org ` set ts = set (filter is_root orgs)" using ok(1) by (metis set_map)
  also have "{h \<in> set orgs. \<exists>g \<in> set (filter is_root orgs). (og_ID h, og_ID g) \<in> (parent_rel orgs)\<^sup>*} = set (filter (linked orgs) orgs)"
    using linked_iff_below [OF d] by auto
  finally show ?thesis using dc d by (intro set_eq_iff_mset_eq_distinct [THEN iffD1]) (auto simp: distinct_map)
qed

section \<open>Properties\<close>

text \<open>A head office, two branches and a department of the first branch.\<close>

definition ex_orgs :: "Organization list" where
  "ex_orgs = [zero_org\<lparr>og_ID := 1\<rparr>, zero_org\<lparr>og_ID := 4, og_ParentID := Some 2\<rparr>,
     zero_org\<lparr>og_ID := 2, og_ParentID := Some 1\<rparr>, zero_org\<lparr>og_ID := 3, og_ParentID := Some 1\<rparr>]"

lemma ex_orgs_simps:
  "distinct (map og_ID ex_orgs)" "NilID \<notin> og_ID ` set ex_orgs" "2 \<in> og_ID ` set ex_orgs"
  "parent_rel ex_orgs \<subseteq> {(4, 2), (2, 1), (3, 1)}"
  by (auto simp: ex_orgs_def zero_org_def NilID_def parent_rel_def)

lemma ex_orgs_acyclic: "acyclic (parent_rel ex_orgs)"
proof -
  have "parent_rel ex_orgs \<subseteq> inv_image less_than (\<lambda>i. if i = 4 then 0 else if i = 1 then 2 else (1 :: nat))"
    using ex_orgs_simps(4) by (rule subset_trans) simp
  then show ?thesis by (rule acyclic_subset [OF wf_acyclic [OF wf_inv_image [OF wf_less_than]], rotated])
qed

text \<open>C29. \<open>CheckCircularReference\<close> is exact: on organizations with distinct identifiers whose hierarchy has no
  cycle, it accepts a new parent for one of them exactly when the hierarchy after the change
  has no cycle either. (The function is total: its walk ends whatever the links are.)\<close>

theorem circular_check_exact:
  assumes "distinct (map og_ID orgs)" and "NilID \<notin> og_ID ` set orgs"
    and "acyclic (parent_rel orgs)" and "target \<in> og_ID ` set orgs"
  shows "CheckCircularReference orgs target p = Ret () \<longleftrightarrow> acyclic (parent_rel (set_parent target p orgs))"
  by (rule check_exact [OF assms])

theorem circular_check_exact_witness:
  "\<not> acyclic (parent_rel (set_parent 2 (Some 4) ex_orgs)) \<and> acyclic (parent_rel (set_parent 2 (Some 3) ex_orgs))"
proof -
  have "CheckCircularReference ex_orgs 2 (Some 4) \<noteq> Ret ()" "CheckCircularReference ex_orgs 2 (Some 3) = Ret ()"
    by (simp_all add: CheckCircularReference_def ex_orgs_def zero_org_def NilID_def parent_map_def)
  then show ?thesis
    using circular_check_exact [OF ex_orgs_simps(1,2) ex_orgs_acyclic ex_orgs_simps(3)] by blast
qed

text \<open>C30. \<open>BuildTree\<close> loses nothing it can reach: on organizations with distinct identifiers it returns, its roots
  are the organizations without parent in their order, every node lists its children in the
  order of the flat list, and flattening the trees gives back, each exactly once, the
  organizations whose chain of parents ends in a root of the list.\<close>

theorem organization_tree:
  assumes "distinct (map og_ID orgs)"
  shows "\<exists>ts. BuildTree (length orgs) orgs = Some ts \<and> map node_org ts = filter is_root orgs \<and>
     (\<forall>t \<in> set ts. tree_ok orgs t) \<and> mset (concat (map flatten ts)) = mset (filter (linked orgs) orgs)"
  using BuildTree_total [OF assms] BuildTree_ok [OF assms] BuildTree_flatten [OF assms] by metis

theorem organization_tree_witness:
  "(\<exists>ts. BuildTree 4 ex_orgs = Some ts \<and> mset (concat (map flatten ts)) = mset ex_orgs) \<and>
   map_option (map (map og_ID \<circ> flatten)) (BuildTree 4 ex_orgs) = Some [[1, 2, 4, 3]]"
proof -
  have l: "length ex_orgs = 4" "filter (linked ex_orgs) ex_orgs = ex_orgs"
    by (simp_all add: ex_orgs_def linked_def upt_rec zero_org_def is_root_def NilID_def)
  have four: "BuildTree 4 = BuildTree (Suc (Suc (Suc (Suc 0))))" by (simp add: numeral_eq_Suc)
  have "map_option (map (map og_ID \<circ> flatten)) (BuildTree 4 ex_orgs) = Some [[1, 2, 4, 3]]"
    unfolding four by (simp add: BuildTree_def ex_orgs_def zero_org_def is_root_def NilID_def get_at_def org_map_def)
  then show ?thesis using organization_tree [OF ex_orgs_simps(1)] l by auto
qed

end
