(* ===== verification/Organization.thy ===== *)
theory Organization
  imports OrgTree
begin

text \<open>
  \<open>internal/core/usecase/organization/organization_usecase.go\<close> with its repository
  (\<open>organization_repo.go\<close>, \<open>sqlc/organizations.sql.go\<close>). All statements run on the pool. The
  invariant of the table: in every tenant the links from organizations to parents have no cycle,
  and every link leads to an organization. The foreign key of \<open>parent_id\<close> is part of the
  statements here, because the invariant needs it.
\<close>

section \<open>Statements\<close>

definition organization_clash :: "organization_row \<Rightarrow> organization_row \<Rightarrow> bool" where
  "organization_clash r s \<longleftrightarrow> or_id r = or_id s \<or> or_tenant_id r = or_tenant_id s \<and> or_code r = or_code s"

definition parent_exists :: "organization_row list \<Rightarrow> ID \<Rightarrow> ID option \<Rightarrow> bool" where
  "parent_exists rs self p \<longleftrightarrow> (case p of None \<Rightarrow> True | Some i \<Rightarrow> i = self \<or> list_ex (\<lambda>r. or_id r = i) rs)"

definition sql_CreateOrganization :: "organization_row \<Rightarrow> int \<Rightarrow> db \<Rightarrow> organization_row res \<times> db" where
  "sql_CreateOrganization r t d =
     (if parent_exists (t_organizations d) (or_id r) (or_parent_id r)
      then (case insert_row organization_clash (or_id r \<noteq> NilID \<and> or_tenant_id r \<noteq> NilID) r (t_organizations d)
            of (x, rs) \<Rightarrow> (x, d\<lparr>t_organizations := rs\<rparr>))
      else (Fail (Opaque ''foreign key constraint''), d))"

definition sql_GetOrganizationByCode :: "ID \<Rightarrow> string \<Rightarrow> db \<Rightarrow> organization_row res" where
  "sql_GetOrganizationByCode tenantID code d =
     select_one (\<lambda>r. pg_eq (or_tenant_id r) tenantID \<and> or_code r = code) (t_organizations d)"

definition own_organization :: "ID \<Rightarrow> ID \<Rightarrow> organization_row \<Rightarrow> bool" where
  "own_organization tenantID i r \<longleftrightarrow> pg_eq (or_tenant_id r) tenantID \<and> pg_eq (or_id r) i"

definition sql_GetOrganizationByID :: "ID \<Rightarrow> ID \<Rightarrow> db \<Rightarrow> organization_row res" where
  "sql_GetOrganizationByID tenantID i d = select_one (own_organization tenantID i) (t_organizations d)"

definition sql_ListOrganizationsByTenant :: "ID \<Rightarrow> db \<Rightarrow> organization_row list" where
  "sql_ListOrganizationsByTenant tenantID d =
     sort_key or_created_at (filter (\<lambda>r. pg_eq (or_tenant_id r) tenantID) (t_organizations d))"

definition sql_ListOrganizationChildren :: "ID \<Rightarrow> ID \<Rightarrow> db \<Rightarrow> organization_row list" where
  "sql_ListOrganizationChildren tenantID parentID d =
     sort_key or_name (filter (\<lambda>r. pg_eq (or_tenant_id r) tenantID \<and> parentID \<noteq> NilID \<and>
       or_parent_id r = Some parentID) (t_organizations d))"

record UpdateOrganizationParams =
  uo_TenantID :: ID
  uo_ID :: ID
  uo_ParentID :: "ID option"
  uo_Name :: "string option"
  uo_LegalName :: "string option"
  uo_Type :: "string option"
  uo_Status :: "string option"
  uo_Settings :: "json option"

definition organization_set :: "UpdateOrganizationParams \<Rightarrow> int \<Rightarrow> organization_row \<Rightarrow> organization_row" where
  "organization_set a t r =
     r\<lparr>or_parent_id := coalesce_null (uo_ParentID a) (or_parent_id r),
       or_name := coalesce (uo_Name a) (or_name r),
       or_legal_name := coalesce_null (uo_LegalName a) (or_legal_name r),
       or_type := coalesce (uo_Type a) (or_type r),
       or_status := coalesce (uo_Status a) (or_status r),
       or_settings := coalesce (uo_Settings a) (or_settings r),
       or_updated_at := t\<rparr>"

definition sql_UpdateOrganization :: "UpdateOrganizationParams \<Rightarrow> int \<Rightarrow> db \<Rightarrow> organization_row res \<times> db" where
  "sql_UpdateOrganization a t d =
     (if parent_exists (t_organizations d) (uo_ID a) (uo_ParentID a)
      then (case update_returning (own_organization (uo_TenantID a) (uo_ID a)) (organization_set a t) (t_organizations d)
            of (x, rs) \<Rightarrow> (x, d\<lparr>t_organizations := rs\<rparr>))
      else (Fail (Opaque ''foreign key constraint''), d))"

section \<open>Repository\<close>

definition toDomainOrganization :: "(int \<Rightarrow> int) \<Rightarrow> organization_row \<Rightarrow> Organization" where
  "toDomainOrganization lo row =
     \<lparr>og_ID = or_id row, og_TenantID = or_tenant_id row, og_ParentID = or_parent_id row, og_Code = or_code row,
      og_Name = or_name row, og_LegalName = str_of_ptr (or_legal_name row), og_Type = or_type row,
      og_Status = or_status row, og_Settings = or_empty (map_of_json (or_settings row)),
      og_CreatedAt = ts_local lo (or_created_at row), og_UpdatedAt = ts_local lo (or_updated_at row)\<rparr>"

definition read_org :: "organization_row dbproc \<Rightarrow> Organization dbproc" where
  "read_org m = bindP (norows_notfound m) (\<lambda>row. bindP (ask_env local_off) (\<lambda>lo. ret (toDomainOrganization lo row)))"

definition organization_row_of :: "Organization \<Rightarrow> organization_row" where
  "organization_row_of g =
     \<lparr>or_id = og_ID g, or_tenant_id = og_TenantID g, or_parent_id = id_of_ptr (og_ParentID g), or_code = og_Code g,
      or_name = og_Name g, or_legal_name = ptr_of_str (og_LegalName g), or_type = og_Type g, or_status = og_Status g,
      or_settings = json_of_map (og_Settings g), or_created_at = to_micro (og_CreatedAt g),
      or_updated_at = to_micro (og_UpdatedAt g)\<rparr>"

definition org_repo_Create :: "ctx \<Rightarrow> Organization \<Rightarrow> Organization dbproc" where
  "org_repo_Create c g =
     bindP (stmt (pool_ctx c) (sql_CreateOrganization (organization_row_of g))) (\<lambda>row.
     bindP (ask_env local_off) (\<lambda>lo. ret (toDomainOrganization lo row)))"

definition org_repo_GetByID :: "ctx \<Rightarrow> ID \<Rightarrow> ID \<Rightarrow> Organization dbproc" where
  "org_repo_GetByID c tenantID i = read_org (query (pool_ctx c) (sql_GetOrganizationByID tenantID i))"

definition org_repo_GetByCode :: "ctx \<Rightarrow> ID \<Rightarrow> string \<Rightarrow> Organization dbproc" where
  "org_repo_GetByCode c tenantID code = read_org (query (pool_ctx c) (sql_GetOrganizationByCode tenantID code))"

definition org_repo_ListByTenant :: "ctx \<Rightarrow> ID \<Rightarrow> Organization list dbproc" where
  "org_repo_ListByTenant c tenantID =
     bindP (query (pool_ctx c) (\<lambda>d. Ret (sql_ListOrganizationsByTenant tenantID d))) (\<lambda>rows.
     bindP (ask_env local_off) (\<lambda>lo. ret (map (toDomainOrganization lo) rows)))"

definition org_repo_ListChildren :: "ctx \<Rightarrow> ID \<Rightarrow> ID \<Rightarrow> Organization list dbproc" where
  "org_repo_ListChildren c tenantID parentID =
     bindP (query (pool_ctx c) (\<lambda>d. Ret (sql_ListOrganizationChildren tenantID parentID d))) (\<lambda>rows.
     bindP (ask_env local_off) (\<lambda>lo. ret (map (toDomainOrganization lo) rows)))"

definition update_params :: "Organization \<Rightarrow> UpdateOrganizationParams" where
  "update_params g =
     \<lparr>uo_TenantID = og_TenantID g, uo_ID = og_ID g, uo_ParentID = id_of_ptr (og_ParentID g), uo_Name = Some (og_Name g),
      uo_LegalName = ptr_of_str (og_LegalName g), uo_Type = Some (og_Type g), uo_Status = Some (og_Status g),
      uo_Settings = (case og_Settings g of None \<Rightarrow> None | Some kvs \<Rightarrow> Some (JObj kvs))\<rparr>"

definition org_repo_Update :: "ctx \<Rightarrow> Organization \<Rightarrow> Organization dbproc" where
  "org_repo_Update c g = read_org (stmt (pool_ctx c) (sql_UpdateOrganization (update_params g)))"

section \<open>Use case\<close>

record CreateCommand =
  cc_ParentID :: "ID option"
  cc_Code :: string
  cc_Name :: string
  cc_LegalName :: string
  cc_Type :: string
  cc_Settings :: gomap

record UpdateCommand =
  uc_ID :: ID
  uc_ParentID :: "ID option"
  uc_Name :: string
  uc_LegalName :: string
  uc_Type :: string
  uc_Status :: string
  uc_Settings :: gomap

definition verify_parent :: "ctx \<Rightarrow> ID \<Rightarrow> ID option \<Rightarrow> unit dbproc" where
  "verify_parent c tenantID parentID =
     (case id_of_ptr parentID of
        None \<Rightarrow> ret ()
      | Some p \<Rightarrow>
          bindP (wrap_err ''parent organization'' (org_repo_GetByID c tenantID p)) (\<lambda>parent.
          guard (og_Status parent = StatusActive_org) (Wrapped ''parent organization is not active'' ErrInvalidInput)))"

definition new_organization :: "ID \<Rightarrow> ID \<Rightarrow> CreateCommand \<Rightarrow> gotime \<Rightarrow> Organization" where
  "new_organization i tenantID cmd now =
     \<lparr>og_ID = i, og_TenantID = tenantID, og_ParentID = cc_ParentID cmd, og_Code = ToLower (TrimSpace (cc_Code cmd)),
      og_Name = TrimSpace (cc_Name cmd), og_LegalName = TrimSpace (cc_LegalName cmd),
      og_Type = (if cc_Type cmd = [] then TypeCompany else cc_Type cmd), og_Status = StatusActive_org,
      og_Settings = or_empty (cc_Settings cmd), og_CreatedAt = now, og_UpdatedAt = now\<rparr>"

definition org_Create :: "ctx \<Rightarrow> CreateCommand \<Rightarrow> Organization dbproc" where
  "org_Create c cmd =
     bindP (lift_res (RequireTenantID c)) (\<lambda>tenantID.
     let code = ToLower (TrimSpace (cc_Code cmd)); name = TrimSpace (cc_Name cmd)
     in bindP (guard (\<not> (code = [] \<or> name = [])) (Wrapped ''code and name are required'' ErrInvalidInput)) (\<lambda>_.
     bindP (must_not_exist ''organization code already exists for this tenant'' (org_repo_GetByCode c tenantID code)) (\<lambda>_.
     bindP (verify_parent c tenantID (cc_ParentID cmd)) (\<lambda>_.
     bindP NewID (\<lambda>i.
     bindP Now (\<lambda>now.
     org_repo_Create c (new_organization i tenantID cmd now)))))))"

definition org_GetByID :: "ctx \<Rightarrow> ID \<Rightarrow> Organization dbproc" where
  "org_GetByID c i = bindP (lift_res (RequireTenantID c)) (\<lambda>tenantID. org_repo_GetByID c tenantID i)"

definition org_GetByCode :: "ctx \<Rightarrow> string \<Rightarrow> Organization dbproc" where
  "org_GetByCode c code =
     bindP (lift_res (RequireTenantID c)) (\<lambda>tenantID. org_repo_GetByCode c tenantID (ToLower (TrimSpace code)))"

definition org_List :: "ctx \<Rightarrow> Organization list dbproc" where
  "org_List c = bindP (lift_res (RequireTenantID c)) (\<lambda>tenantID. org_repo_ListByTenant c tenantID)"

text \<open>The depth bound of \<open>BuildTree\<close> is the number of organizations; running out of it cannot be told from
  a result in Go, here it is a panic (stack overflow), which \<open>GetTree_returns\<close> excludes.\<close>

definition org_GetTree :: "ctx \<Rightarrow> OrgTree list dbproc" where
  "org_GetTree c =
     bindP (org_List c) (\<lambda>orgs.
     lift_res (case BuildTree (length orgs) orgs of None \<Rightarrow> Panic ''stack overflow'' | Some ts \<Rightarrow> Ret ts))"

definition change_parent :: "ctx \<Rightarrow> ID \<Rightarrow> UpdateCommand \<Rightarrow> Organization \<Rightarrow> Organization dbproc" where
  "change_parent c tenantID cmd g =
     (if uc_ParentID cmd \<noteq> None \<and> (og_ParentID g = None \<or> the (uc_ParentID cmd) \<noteq> the (og_ParentID g))
      then bindP (org_repo_ListByTenant c tenantID) (\<lambda>allOrgs.
           bindP (lift_res (CheckCircularReference allOrgs (og_ID g) (uc_ParentID cmd))) (\<lambda>_.
           ret (g\<lparr>og_ParentID := uc_ParentID cmd\<rparr>)))
      else ret g)"

definition apply_update :: "UpdateCommand \<Rightarrow> gotime \<Rightarrow> Organization \<Rightarrow> Organization" where
  "apply_update cmd now g =
     (let g1 = (if uc_Name cmd \<noteq> [] then g\<lparr>og_Name := TrimSpace (uc_Name cmd)\<rparr> else g);
          g2 = (if uc_LegalName cmd \<noteq> [] then g1\<lparr>og_LegalName := TrimSpace (uc_LegalName cmd)\<rparr> else g1);
          g3 = (if uc_Type cmd \<noteq> [] then g2\<lparr>og_Type := uc_Type cmd\<rparr> else g2);
          g4 = (if uc_Status cmd \<noteq> [] then g3\<lparr>og_Status := uc_Status cmd\<rparr> else g3);
          g5 = (if uc_Settings cmd \<noteq> None then g4\<lparr>og_Settings := uc_Settings cmd\<rparr> else g4)
      in g5\<lparr>og_UpdatedAt := now\<rparr>)"

definition org_Update :: "ctx \<Rightarrow> UpdateCommand \<Rightarrow> Organization dbproc" where
  "org_Update c cmd =
     bindP (lift_res (RequireTenantID c)) (\<lambda>tenantID.
     bindP (org_repo_GetByID c tenantID (uc_ID cmd)) (\<lambda>g.
     bindP (change_parent c tenantID cmd g) (\<lambda>g1.
     bindP Now (\<lambda>now.
     org_repo_Update c (apply_update cmd now g1)))))"

section \<open>The invariant of the table\<close>

definition tenant_links :: "ID \<Rightarrow> organization_row list \<Rightarrow> (ID \<times> ID) set" where
  "tenant_links tid rs = {(or_id r, p) | r p. r \<in> set rs \<and> or_tenant_id r = tid \<and> or_parent_id r = Some p}"

definition org_table_ok :: "organization_row list \<Rightarrow> bool" where
  "org_table_ok rs \<longleftrightarrow>
     distinct (map or_id rs) \<and> NilID \<notin> or_id ` set rs \<and>
     (\<forall>r \<in> set rs. \<forall>p. or_parent_id r = Some p \<longrightarrow> p \<in> or_id ` set rs) \<and>
     (\<forall>tid. acyclic (tenant_links tid rs))"

lemma tenant_links_iff:
  "(a, b) \<in> tenant_links tid rs \<longleftrightarrow> (\<exists>r \<in> set rs. or_id r = a \<and> or_tenant_id r = tid \<and> or_parent_id r = Some b)"
  by (auto simp: tenant_links_def)

lemma org_table_okD:
  assumes "org_table_ok rs"
  shows "distinct (map or_id rs)" and "NilID \<notin> or_id ` set rs"
    and "r \<in> set rs \<Longrightarrow> or_parent_id r = Some p \<Longrightarrow> p \<in> or_id ` set rs" and "acyclic (tenant_links tid rs)"
  using assms unfolding org_table_ok_def by blast+

lemma links_into: "org_table_ok rs \<Longrightarrow> (a, b) \<in> (tenant_links tid rs)\<^sup>+ \<Longrightarrow> b \<in> or_id ` set rs"
  by (erule tranclE) (auto simp: tenant_links_iff dest: org_table_okD(3))

lemma insert_keeps_ok:
  assumes ok: "org_table_ok rs" and new: "or_id r \<notin> or_id ` set rs" "or_id r \<noteq> NilID"
    and par: "\<And>p. or_parent_id r = Some p \<Longrightarrow> p \<in> or_id ` set rs"
  shows "org_table_ok (rs @ [r])"
proof -
  have links: "tenant_links tid (rs @ [r]) = tenant_links tid rs \<union>
      (if or_tenant_id r = tid then (case or_parent_id r of None \<Rightarrow> {} | Some p \<Rightarrow> {(or_id r, p)}) else {})" for tid
    by (auto simp: tenant_links_def split: option.splits)
  have "acyclic (tenant_links tid (rs @ [r]))" for tid
  proof (cases "or_parent_id r")
    case None
    then show ?thesis using org_table_okD(4) [OF ok] by (simp add: links)
  next
    case (Some p)
    have "p \<noteq> or_id r" using par [OF Some] new(1) by blast
    then have "(p, or_id r) \<notin> (tenant_links tid rs)\<^sup>*"
      using links_into [OF ok, of p "or_id r" tid] new(1) by (auto simp: rtrancl_eq_or_trancl)
    then show ?thesis using org_table_okD(4) [OF ok] by (simp add: links Some acyclic_insert)
  qed
  then show ?thesis
    using org_table_okD(1-3) [OF ok] new par unfolding org_table_ok_def by auto
qed

text \<open>The list a use case reads has the links of the tenant.\<close>

definition tenant_orgs :: "(int \<Rightarrow> int) \<Rightarrow> ID \<Rightarrow> db \<Rightarrow> Organization list" where
  "tenant_orgs lo tid d = map (toDomainOrganization lo) (sql_ListOrganizationsByTenant tid d)"

lemma toDomain_simps [simp]:
  "og_ID (toDomainOrganization lo r) = or_id r" "og_TenantID (toDomainOrganization lo r) = or_tenant_id r"
  "og_ParentID (toDomainOrganization lo r) = or_parent_id r"
  by (simp_all add: toDomainOrganization_def)

lemma set_tenant_orgs:
  "set (tenant_orgs lo tid d) = toDomainOrganization lo ` {r \<in> set (t_organizations d). pg_eq (or_tenant_id r) tid}"
  by (simp add: tenant_orgs_def sql_ListOrganizationsByTenant_def)

lemma distinct_tenant_orgs:
  assumes "distinct (map or_id (t_organizations d))"
  shows "distinct (map og_ID (tenant_orgs lo tid d))"
  using assms by (auto simp: tenant_orgs_def sql_ListOrganizationsByTenant_def distinct_map inj_on_def)

lemma parent_rel_tenant_orgs:
  assumes "org_table_ok (t_organizations d)" and "tid \<noteq> NilID"
  shows "parent_rel (tenant_orgs lo tid d) = tenant_links tid (t_organizations d)"
proof -
  have "p \<noteq> NilID" if "r \<in> set (t_organizations d)" "or_parent_id r = Some p" for r p
    using org_table_okD(2,3) [OF assms(1)] that by blast
  then have "(a, b) \<in> parent_rel (tenant_orgs lo tid d) \<longleftrightarrow> (a, b) \<in> tenant_links tid (t_organizations d)" for a b
    using assms(2) by (auto simp: parent_rel_iff set_tenant_orgs tenant_links_iff pg_eq_def)
  then show ?thesis by auto
qed

lemma update_keeps_ok:
  assumes ok: "org_table_ok (t_organizations d)" and tid: "tid \<noteq> NilID"
    and row: "r0 \<in> set (t_organizations d)" "own_organization tid i r0"
    and a: "uo_TenantID a = tid" "uo_ID a = i"
    and par: "\<And>p. uo_ParentID a = Some p \<Longrightarrow> p \<in> or_id ` set (t_organizations d)"
    and chk: "uo_ParentID a = None \<or> uo_ParentID a = or_parent_id r0 \<or>
      CheckCircularReference (tenant_orgs lo tid d) i (uo_ParentID a) = Ret ()"
  shows "org_table_ok (update_rows (own_organization tid i) (organization_set a t) (t_organizations d))"
    (is "org_table_ok ?rs'")
proof -
  let ?rs = "t_organizations d"
  let ?f = "\<lambda>r. if own_organization tid i r then organization_set a t r else r"
  have same [simp]: "or_id (?f r) = or_id r" "or_tenant_id (?f r) = or_tenant_id r" for r
    by (simp_all add: organization_set_def)
  have ids: "or_id ` set ?rs' = or_id ` set ?rs" "distinct (map or_id ?rs')"
    using org_table_okD(1) [OF ok] same(1) by (simp_all add: update_rows_def image_image o_def del: if_image_distrib)
  have only: "own_organization tid i r \<longleftrightarrow> r = r0" if "r \<in> set ?rs" for r
    using distinct_map_inj [OF org_table_okD(1) [OF ok] that row(1)] row by (auto simp: own_organization_def pg_eq_def)
  have new: "or_parent_id (?f r) = (if r = r0 then coalesce_null (uo_ParentID a) (or_parent_id r0) else or_parent_id r)"
    if "r \<in> set ?rs" for r using only [OF that] by (simp add: organization_set_def)
  have fk: "p \<in> or_id ` set ?rs" if "r \<in> set ?rs" "or_parent_id (?f r) = Some p" for r p
    using new [OF that(1)] that par org_table_okD(3) [OF ok] by (auto simp: coalesce_null_def split: if_splits option.splits)
  have links: "(x, y) \<in> tenant_links tid' ?rs' \<longleftrightarrow> (\<exists>r \<in> set ?rs. or_id r = x \<and> or_tenant_id r = tid' \<and> or_parent_id (?f r) = Some y)" for x y tid'
    unfolding tenant_links_iff update_rows_def by (auto simp del: if_image_distrib)
  have "acyclic (tenant_links tid' ?rs')" for tid'
  proof (cases "tid' = tid \<and> uo_ParentID a \<noteq> None \<and> uo_ParentID a \<noteq> or_parent_id r0")
    case False
    have "tenant_links tid' ?rs' = tenant_links tid' ?rs"
    proof (rule set_eqI)
      fix e :: "ID \<times> ID"
      obtain x y where e: "e = (x, y)" by fastforce
      have eqp: "or_parent_id (?f r) = or_parent_id r" if "r \<in> set ?rs" "or_tenant_id r = tid'" for r
        using new [OF that(1)] that(2) False row(2)
        by (cases "r = r0"; cases "uo_ParentID a") (simp_all add: coalesce_null_def own_organization_def pg_eq_def)
      show "e \<in> tenant_links tid' ?rs' \<longleftrightarrow> e \<in> tenant_links tid' ?rs"
        unfolding e links unfolding tenant_links_iff by (intro bex_cong conj_cong refl) (simp only: eqp)
    qed
    then show ?thesis using org_table_okD(4) [OF ok] by simp
  next
    case True
    then obtain p where p: "uo_ParentID a = Some p" by auto
    have c: "CheckCircularReference (tenant_orgs lo tid d) i (Some p) = Ret ()" using chk True p by auto
    have pn: "p \<noteq> NilID" using par [OF p] org_table_okD(2) [OF ok] by blast
    have i: "i = or_id r0" "or_tenant_id r0 = tid" using row(2) by (auto simp: own_organization_def pg_eq_def)
    have it: "i \<in> og_ID ` set (tenant_orgs lo tid d)"
      using row i tid by (auto simp: set_tenant_orgs image_image pg_eq_def intro!: image_eqI [of _ _ r0])
    have nil: "NilID \<notin> og_ID ` set (tenant_orgs lo tid d)"
      using org_table_okD(2) [OF ok] by (auto simp: set_tenant_orgs image_image)
    have "acyclic (parent_rel (set_parent i (Some p) (tenant_orgs lo tid d)))"
      using check_exact [OF distinct_tenant_orgs [OF org_table_okD(1) [OF ok]] nil _ it] c
        parent_rel_tenant_orgs [OF ok tid] org_table_okD(4) [OF ok] by simp
    moreover have "tenant_links tid' ?rs' \<subseteq> parent_rel (set_parent i (Some p) (tenant_orgs lo tid d))"
    proof
      fix e
      assume "e \<in> tenant_links tid' ?rs'"
      then obtain x y r where e: "e = (x, y)" and r: "r \<in> set ?rs" "or_id r = x" "or_tenant_id r = tid" "or_parent_id (?f r) = Some y"
        using True by (cases e) (auto simp: links)
      have "(r = r0 \<and> y = p) \<or> (r \<noteq> r0 \<and> or_parent_id r = Some y)"
        using new [OF r(1)] r(4) p by (auto simp: coalesce_null_def split: if_splits)
      moreover have "r \<noteq> r0 \<Longrightarrow> or_id r \<noteq> i" using only [OF r(1)] r(3) i tid org_table_okD(2) [OF ok] r(1)
        by (auto simp: own_organization_def pg_eq_def image_iff)
      ultimately show "e \<in> parent_rel (set_parent i (Some p) (tenant_orgs lo tid d))"
        unfolding e parent_rel_set_parent [OF it] parent_rel_tenant_orgs [OF ok tid]
        using r(1-3) pn i(1) by (auto simp: tenant_links_iff)
    qed
    ultimately show ?thesis by (rule acyclic_subset)
  qed
  then show ?thesis
    using ids fk org_table_okD(2) [OF ok] unfolding org_table_ok_def
    by (auto simp: update_rows_def image_image simp del: if_image_distrib)
qed

section \<open>What the use cases do to the table\<close>

lemma org_reads_keep [keeps_intros]:
  "keeps_db (org_repo_GetByID c t i)" "keeps_db (org_repo_GetByCode c t code)" "keeps_db (org_repo_ListByTenant c t)"
  "keeps_db (org_repo_ListChildren c t i)" "keeps_db (verify_parent c t p)" "keeps_db (change_parent c t cmd g)"
  unfolding org_repo_GetByID_def org_repo_GetByCode_def org_repo_ListByTenant_def org_repo_ListChildren_def
    verify_parent_def change_parent_def read_org_def
  by (intro keeps_intros | auto intro!: keeps_intros split: option.splits)+

lemma read_org_stmt:
  assumes "read_org (stmt (pool_ctx c) f) e w = (r, w')"
  shows "wdb w' = wdb w \<or> (\<exists>t x. f t (wdb w) = (Ret x, wdb w'))"
proof -
  obtain r1 w1 where s: "stmt (pool_ctx c) f e w = (r1, w1)" by fastforce
  have "wdb w' = wdb w1"
    using assms s unfolding read_org_def bindP_def norows_notfound_def ask_env_def ret_def
    by (auto split: res.splits prod.splits)
  with stmt_pool_cases [OF s] show ?thesis by auto
qed

lemma org_repo_Create_cases:
  assumes "org_repo_Create c g e w = (r, w')"
  shows "wdb w' = wdb w \<or> (\<exists>t x. sql_CreateOrganization (organization_row_of g) t (wdb w) = (Ret x, wdb w'))"
proof -
  from keeps_db_bind_stmt [OF assms [unfolded org_repo_Create_def]]
  obtain r1 w1 where s: "stmt (pool_ctx c) (sql_CreateOrganization (organization_row_of g)) e w = (r1, w1)"
    and "wdb w' = wdb w1" by (metis keeps_bind keeps_ret(1,7))
  with stmt_pool_cases [OF s] show ?thesis by auto
qed

lemma org_read_found:
  assumes "org_repo_GetByID c t i e w = (Ret g, w')"
  obtains row where "row \<in> set (t_organizations (wdb w))" "own_organization t i row"
    "g = toDomainOrganization (local_off e) row"
  using assms that unfolding org_repo_GetByID_def read_org_def
  by (auto simp: bindP_Ret_iff proc_simps query_Ret_outside sql_GetOrganizationByID_def dest!: select_one_in)

lemma verify_parent_Ret:
  assumes "verify_parent c t p e w = (Ret (), w')" and "id_of_ptr p = Some q"
  shows "q \<in> or_id ` set (t_organizations (wdb w))"
  using assms by (auto simp: verify_parent_def bindP_Ret_iff proc_simps own_organization_def pg_eq_def elim!: org_read_found)

lemma sql_CreateOrganization_Ret:
  assumes "sql_CreateOrganization r t d = (Ret x, d')"
  shows "t_organizations d' = t_organizations d @ [r]" "or_id r \<noteq> NilID" "or_id r \<notin> or_id ` set (t_organizations d)"
  using assms
  by (auto simp: sql_CreateOrganization_def insert_row_def organization_clash_def list_ex_iff split: if_splits)

lemma org_Create_keeps_ok:
  assumes ok: "org_table_ok (t_organizations (wdb w))" and run: "org_Create c cmd e w = (r, w')"
  shows "org_table_ok (t_organizations (wdb w'))"
proof -
  consider "wdb w' = wdb w"
    | tid w1 w2 i now w3 where "verify_parent c tid (cc_ParentID cmd) e w1 = (Ret (), w2)" "wdb w1 = wdb w"
        "wdb w3 = wdb w" "org_repo_Create c (new_organization i tid cmd now) e w3 = (r, w')"
    using run unfolding org_Create_def Let_def
    by (elim bind_keeps_cases) (auto intro: keeps_intros)
  then show ?thesis
  proof cases
    case (2 tid w1 w2 i now w3)
    let ?g = "new_organization i tid cmd now"
    let ?row = "organization_row_of ?g"
    from org_repo_Create_cases [OF 2(4)] 2(3) consider "wdb w' = wdb w"
      | t x where "sql_CreateOrganization ?row t (wdb w) = (Ret x, wdb w')" by auto
    then show ?thesis
    proof cases
      case (2 t x)
      then have rs': "t_organizations (wdb w') = t_organizations (wdb w) @ [?row]" "or_id ?row \<noteq> NilID"
        "or_id ?row \<notin> or_id ` set (t_organizations (wdb w))"
        using sql_CreateOrganization_Ret [OF 2] by auto
      have "p \<in> or_id ` set (t_organizations (wdb w))" if "or_parent_id ?row = Some p" for p
        using verify_parent_Ret [OF \<open>verify_parent c tid (cc_ParentID cmd) e w1 = (Ret (), w2)\<close>, of p]
          that \<open>wdb w1 = wdb w\<close> by (simp add: organization_row_of_def new_organization_def)
      with rs' insert_keeps_ok [OF ok] show ?thesis by simp
    qed (use ok in simp)
  qed (use ok in simp)
qed

lemma ListByTenant_Ret:
  assumes "org_repo_ListByTenant c t e w = (Ret orgs, w')"
  shows "orgs = tenant_orgs (local_off e) t (wdb w)"
  using assms by (auto simp: org_repo_ListByTenant_def bindP_Ret_iff proc_simps query_Ret_outside tenant_orgs_def)

lemma change_parent_Ret:
  assumes "change_parent c t cmd g e w = (Ret g1, w')"
  shows "og_ID g1 = og_ID g" "og_TenantID g1 = og_TenantID g"
    "og_ParentID g1 = og_ParentID g \<or>
     CheckCircularReference (tenant_orgs (local_off e) t (wdb w)) (og_ID g) (og_ParentID g1) = Ret ()"
  using assms by (auto simp: change_parent_def bindP_Ret_iff proc_simps split: if_splits dest!: ListByTenant_Ret)

lemma apply_update_simps [simp]:
  "og_ID (apply_update cmd now g) = og_ID g" "og_TenantID (apply_update cmd now g) = og_TenantID g"
  "og_ParentID (apply_update cmd now g) = og_ParentID g"
  by (simp_all add: apply_update_def Let_def)

lemma sql_UpdateOrganization_Ret:
  assumes "sql_UpdateOrganization a t d = (Ret x, d')"
  shows "t_organizations d' = update_rows (own_organization (uo_TenantID a) (uo_ID a)) (organization_set a t) (t_organizations d)"
    and "parent_exists (t_organizations d) (uo_ID a) (uo_ParentID a)"
  using assms by (auto simp: sql_UpdateOrganization_def update_returning_def split: if_splits option.splits)

lemma org_Update_keeps_ok:
  assumes ok: "org_table_ok (t_organizations (wdb w))" and run: "org_Update c cmd e w = (r, w')"
  shows "org_table_ok (t_organizations (wdb w'))"
proof -
  consider "wdb w' = wdb w"
    | tid g w1 w2 g1 w3 now w4 where "wdb w1 = wdb w" "wdb w2 = wdb w" "wdb w4 = wdb w"
        "org_repo_GetByID c tid (uc_ID cmd) e w1 = (Ret g, w2)" "change_parent c tid cmd g e w2 = (Ret g1, w3)"
        "org_repo_Update c (apply_update cmd now g1) e w4 = (r, w')"
    using run unfolding org_Update_def
    by (elim bind_keeps_cases) (auto intro: keeps_intros)
  then show ?thesis
  proof cases
    case (2 tid g w1 w2 g1 w3 now w4)
    let ?a = "update_params (apply_update cmd now g1)"
    from org_read_found [OF 2(4)] 2(1) obtain row where row: "row \<in> set (t_organizations (wdb w))"
      "own_organization tid (uc_ID cmd) row" "g = toDomainOrganization (local_off e) row" by auto
    note ch = change_parent_Ret [OF 2(5)]
    have tid: "tid \<noteq> NilID" and a: "uo_TenantID ?a = tid" "uo_ID ?a = uc_ID cmd" "uo_ParentID ?a = id_of_ptr (og_ParentID g1)"
      using row(2,3) ch by (auto simp: update_params_def own_organization_def pg_eq_def)
    from read_org_stmt [OF 2(6) [unfolded org_repo_Update_def]] 2(3) consider "wdb w' = wdb w"
      | t x where "sql_UpdateOrganization ?a t (wdb w) = (Ret x, wdb w')" by auto
    then show ?thesis
    proof cases
      case up: (2 t x)
      note u = sql_UpdateOrganization_Ret [OF up]
      have ids: "p \<in> or_id ` set (t_organizations (wdb w))" if "uo_ParentID ?a = Some p" for p
        using u(2) that row(1,2) a
        by (auto simp: parent_exists_def list_ex_iff own_organization_def pg_eq_def image_iff) metis
      have "uo_ParentID ?a = None \<or> uo_ParentID ?a = or_parent_id row \<or>
          CheckCircularReference (tenant_orgs (local_off e) tid (wdb w)) (uc_ID cmd) (uo_ParentID ?a) = Ret ()"
        using ch(3) row 2(2) a by (auto simp: id_of_ptr_def own_organization_def pg_eq_def split: option.splits if_splits)
      from update_keeps_ok [OF ok tid row(1,2) a(1,2) ids this] u(1) a show ?thesis by simp
    qed (use ok in simp)
  qed (use ok in simp)
qed

section \<open>Runs\<close>

text \<open>Use cases of one process after another, from an empty table; everything else leaves the table alone.\<close>

inductive org_run :: "db world \<Rightarrow> bool" where
  start: "t_organizations (wdb w) = [] \<Longrightarrow> org_run w"
| create: "org_run w \<Longrightarrow> org_Create c cmd e w = (r, w') \<Longrightarrow> org_run w'"
| update: "org_run w \<Longrightarrow> org_Update c ucmd e w = (r, w') \<Longrightarrow> org_run w'"
| elsewhere: "org_run w \<Longrightarrow> t_organizations (wdb w') = t_organizations (wdb w) \<Longrightarrow> org_run w'"

lemma org_run_ok: "org_run w \<Longrightarrow> org_table_ok (t_organizations (wdb w))"
proof (induction rule: org_run.induct)
  case (start w)
  then show ?case by (simp add: org_table_ok_def tenant_links_def acyclic_def)
qed (auto intro: org_Create_keeps_ok org_Update_keeps_ok)

lemma GetTree_returns:
  assumes "org_table_ok (t_organizations (wdb w))" and "org_GetTree c e w = (r, w')"
  shows "r \<noteq> Panic p"
proof -
  have d: "distinct (map og_ID (tenant_orgs lo tid (wdb w)))" for lo tid
    by (rule distinct_tenant_orgs [OF org_table_okD(1) [OF assms(1)]])
  have np: "\<not> org_List c e w = (Panic p, w1)" for w1
    by (auto simp: org_List_def org_repo_ListByTenant_def bindP_def lift_res_def query_def stmt_def Let_def ask_env_def ret_def
        RequireTenantID_def split: option.splits res.splits prod.splits fault.splits)
  obtain r1 w1 where l: "org_List c e w = (r1, w1)" by fastforce
  show ?thesis
  proof (cases r1)
    case (Ret orgs)
    then obtain tid where "orgs = tenant_orgs (local_off e) tid (wdb w)"
      using l by (auto simp: org_List_def bindP_Ret_iff proc_simps dest!: ListByTenant_Ret)
    then have "BuildTree (length orgs) orgs \<noteq> None" using BuildTree_total [OF d] by auto
    with assms(2) l Ret show ?thesis by (auto simp: org_GetTree_def bindP_def lift_res_def)
  qed (use assms(2) l np in \<open>auto simp: org_GetTree_def bindP_def\<close>)
qed

section \<open>Examples\<close>

text \<open>An organization of tenant 5 and one of tenant 6.\<close>

definition ex_org_row :: "ID \<Rightarrow> ID \<Rightarrow> string \<Rightarrow> organization_row" where
  "ex_org_row i t name = \<lparr>or_id = i, or_tenant_id = t, or_parent_id = None, or_code = name, or_name = name,
     or_legal_name = None, or_type = ''company'', or_status = ''active'', or_settings = JObj [], or_created_at = 0, or_updated_at = 0\<rparr>"

definition ex_org_world :: "organization_row list \<Rightarrow> db world" where
  "ex_org_world rs = \<lparr>wdb = empty_db\<lparr>t_organizations := rs\<rparr>, wtx = None, tick = 0\<rparr>"

definition ex_org_env :: env where
  "ex_org_env = \<lparr>fault_at = (\<lambda>_. NoFault), newid_at = (\<lambda>n. Some (of_nat (Suc n))), clock_at = (\<lambda>_. 0), dbnow_at = (\<lambda>_. 0),
     local_off = (\<lambda>_. 0), cvt_int64 = (\<lambda>_. 0)\<rparr>"

definition ex_adopt :: "ID \<Rightarrow> ID \<Rightarrow> UpdateCommand" where
  "ex_adopt i p = \<lparr>uc_ID = i, uc_ParentID = Some p, uc_Name = [], uc_LegalName = [], uc_Type = [], uc_Status = [], uc_Settings = None\<rparr>"

lemmas org_eval = proc_eval org_Update_def org_repo_GetByID_def read_org_def sql_GetOrganizationByID_def select_one_def
  own_organization_def pg_eq_def change_parent_def org_repo_ListByTenant_def sql_ListOrganizationsByTenant_def
  CheckCircularReference_def parent_map_def toDomainOrganization_def org_repo_Update_def sql_UpdateOrganization_def
  parent_exists_def update_returning_def update_rows_def update_params_def apply_update_def organization_set_def
  coalesce_def coalesce_null_def id_of_ptr_def str_of_ptr_def ptr_of_str_def or_empty_def map_of_json_def ts_local_def
  RequireTenantID_def GetTenantID_def NilID_def org_List_def org_GetTree_def

section \<open>Properties\<close>




end
