(* ===== verification/Units.thy ===== *)
theory Units
  imports Tables
begin

text \<open>
  \<open>internal/core/domain/product/unit.go\<close>: units of measure and the conversion of quantities by a
  breadth-first search over the conversion factors of the tenant, each usable in both
  directions. The search is total, finds a conversion exactly when the units are connected,
  and multiplies the factors of a path in floating point.
\<close>

section \<open>Units and conversions\<close>

record Unit =
  un_ID :: ID
  un_TenantID :: ID
  un_Code :: string
  un_Name :: string
  un_Symbol :: string
  un_Category :: string
  un_Precision :: int32
  un_Status :: string
  un_CreatedAt :: gotime
  un_UpdatedAt :: gotime

record UnitConversion =
  uv_ID :: ID
  uv_TenantID :: ID
  uv_FromUnitID :: ID
  uv_ToUnitID :: ID
  uv_Factor :: float64
  uv_FromCode :: string
  uv_ToCode :: string
  uv_CreatedAt :: gotime
  uv_UpdatedAt :: gotime

definition UnitStatusActive :: string where "UnitStatusActive = ''active''"

definition NormalizeCode :: "string \<Rightarrow> string" where
  "NormalizeCode code = ToUpper (TrimSpace code)"

type_synonym edge = "ID \<times> float64"

text \<open>\<open>math.Abs(c.Factor) < 1e-9\<close>\<close>

definition negligible :: "float64 \<Rightarrow> bool" where
  "negligible f = f_lt (f_abs f) (round64 False (1 / 10 ^ 9))"

fun build_adj :: "UnitConversion list \<Rightarrow> (ID \<times> edge list) list \<Rightarrow> (ID \<times> edge list) list" where
  "build_adj [] adj = adj"
| "build_adj (c # cs) adj =
     (if negligible (uv_Factor c) then build_adj cs adj
      else build_adj cs (append_at (uv_ToUnitID c) (uv_FromUnitID c, f_div (Fin 1) (uv_Factor c))
             (append_at (uv_FromUnitID c) (uv_ToUnitID c, uv_Factor c) adj)))"

text \<open>The loop over the edges of one node.\<close>

fun expand :: "float64 \<Rightarrow> edge list \<Rightarrow> edge list \<Rightarrow> ID list \<Rightarrow> edge list \<times> ID list" where
  "expand f [] queue visited = (queue, visited)"
| "expand f ((n, g) # es) queue visited =
     (if n \<in> set visited then expand f es queue visited
      else expand f es (queue @ [(n, f_mul f g)]) (n # visited))"

definition targets_of :: "(ID \<times> edge list) list \<Rightarrow> ID set" where
  "targets_of adj = (\<Union>(k, es) \<in> set adj. fst ` set es)"

lemma finite_targets [simp]: "finite (targets_of adj)"
  by (auto simp: targets_of_def)

lemma get_at_targets: "fst ` set (get_at adj n) \<subseteq> targets_of adj"
proof
  fix m
  assume "m \<in> fst ` set (get_at adj n)"
  then obtain g where "(m, g) \<in> set (get_at adj n)" by auto
  from get_at_values [OF this] obtain es where "(n, es) \<in> set adj" "(m, g) \<in> set es" by blast
  then show "m \<in> targets_of adj" unfolding targets_of_def by (force intro: rev_bexI)
qed

lemma expand_size:
  assumes "expand f es queue visited = (queue', visited')" and "fst ` set es \<subseteq> N" and "finite N"
  shows "card (N - set visited') + length queue' = card (N - set visited) + length queue"
  using assms
proof (induction f es queue visited rule: expand.induct)
  case (2 f n g es queue visited)
  show ?case
  proof (cases "n \<in> set visited")
    case False
    with "2.prems" have n: "n \<in> N - set visited" by simp
    have "card (N - set (n # visited)) = card (N - set visited - {n})" by (rule arg_cong [of _ _ card]) auto
    also have "\<dots> = card (N - set visited) - 1" using n "2.prems"(3) by simp
    finally have "Suc (card (N - set (n # visited))) = card (N - set visited)"
      using n "2.prems"(3) by (metis Suc_diff_1 card_gt_0_iff empty_iff finite_Diff)
    with 2 False show ?thesis by simp
  qed (use 2 in auto)
qed simp

function bfs :: "(ID \<times> edge list) list \<Rightarrow> ID \<Rightarrow> edge list \<Rightarrow> ID list \<Rightarrow> float64 res" where
  "bfs adj toID [] visited = Fail (Wrapped ''no conversion factor found between units'' ErrUnitMismatch)"
| "bfs adj toID ((n, f) # queue) visited =
     (if n = toID then Ret f
      else (case expand f (get_at adj n) queue visited of (queue1, visited1) \<Rightarrow> bfs adj toID queue1 visited1))"
  by pat_completeness auto
termination
proof (relation "measure (\<lambda>(adj, t, queue, visited). card (targets_of adj - set visited) + length queue)")
  fix adj :: "(ID \<times> edge list) list" and toID n :: ID and f queue visited queue1 visited1
  assume "n \<noteq> toID" and "(queue1, visited1) = expand f (get_at adj n) queue visited"
  then have "expand f (get_at adj n) queue visited = (queue1, visited1)" by simp
  from expand_size [OF this get_at_targets finite_targets]
  show "((adj, toID, queue1, visited1), adj, toID, (n, f) # queue, visited)
      \<in> measure (\<lambda>(adj, t, queue, visited). card (targets_of adj - set visited) + length queue)" by simp
qed simp

definition Convert :: "float64 \<Rightarrow> ID \<Rightarrow> ID \<Rightarrow> UnitConversion list \<Rightarrow> float64 res" where
  "Convert amt fromID toID conversions =
     (if fromID = toID then Ret amt
      else bind_res (bfs (build_adj conversions []) toID [(fromID, Fin 1)] [fromID]) (\<lambda>f. Ret (f_mul amt f)))"

section \<open>Connected units\<close>

text \<open>The factors of a path, multiplied from the left, and the edges in terms of the conversions.\<close>

definition conv_edges :: "UnitConversion list \<Rightarrow> (ID \<times> ID \<times> float64) set" where
  "conv_edges cs =
     {(uv_FromUnitID c, uv_ToUnitID c, uv_Factor c) | c. c \<in> set cs \<and> \<not> negligible (uv_Factor c)} \<union>
     {(uv_ToUnitID c, uv_FromUnitID c, f_div (Fin 1) (uv_Factor c)) | c. c \<in> set cs \<and> \<not> negligible (uv_Factor c)}"

inductive conv_path :: "UnitConversion list \<Rightarrow> ID \<Rightarrow> ID \<Rightarrow> float64 \<Rightarrow> bool" for cs where
  here: "conv_path cs a a (Fin 1)"
| there: "conv_path cs a b f \<Longrightarrow> (b, c, g) \<in> conv_edges cs \<Longrightarrow> conv_path cs a c (f_mul f g)"

lemma conv_edges_simps [simp]:
  "conv_edges [] = {}"
  "conv_edges (c # cs) =
     (if negligible (uv_Factor c) then conv_edges cs
      else insert (uv_FromUnitID c, uv_ToUnitID c, uv_Factor c)
             (insert (uv_ToUnitID c, uv_FromUnitID c, f_div (Fin 1) (uv_Factor c)) (conv_edges cs)))"
  unfolding conv_edges_def by auto

lemma build_adj_edges:
  "(m, g) \<in> set (get_at (build_adj cs adj) n) \<longleftrightarrow> (m, g) \<in> set (get_at adj n) \<or> (n, m, g) \<in> conv_edges cs"
  by (induction cs adj rule: build_adj.induct) (simp_all, blast)

lemma expand_visited: "set (snd (expand f es queue visited)) = set visited \<union> fst ` set es"
  by (induction f es queue visited rule: expand.induct) auto

lemma expand_queue:
  "\<exists>new. fst (expand f es queue visited) = queue @ new \<and>
     fst ` set new = fst ` set es - set visited \<and> (\<forall>(n, h) \<in> set new. \<exists>g. (n, g) \<in> set es \<and> h = f_mul f g)"
proof (induction f es queue visited rule: expand.induct)
  case (2 f n g es queue visited)
  show ?case
  proof (cases "n \<in> set visited")
    case True
    with 2(1) obtain new where "fst (expand f es queue visited) = queue @ new"
      "fst ` set new = fst ` set es - set visited" "\<forall>(n, h) \<in> set new. \<exists>g. (n, g) \<in> set es \<and> h = f_mul f g" by blast
    with True show ?thesis by (intro exI [of _ new]) auto
  next
    case False
    with 2(2) obtain new where "fst (expand f es (queue @ [(n, f_mul f g)]) (n # visited)) = (queue @ [(n, f_mul f g)]) @ new"
      "fst ` set new = fst ` set es - set (n # visited)" "\<forall>(n, h) \<in> set new. \<exists>g. (n, g) \<in> set es \<and> h = f_mul f g" by blast
    with False show ?thesis by (intro exI [of _ "(n, f_mul f g) # new"]) auto
  qed
qed simp

text \<open>The invariant of the search: every queued node is visited and reached by a path with its factor, every
  node that left the queue is not the goal and has all its neighbours visited.\<close>

definition bfs_inv :: "UnitConversion list \<Rightarrow> ID \<Rightarrow> ID \<Rightarrow> edge list \<Rightarrow> ID list \<Rightarrow> bool" where
  "bfs_inv cs fromID toID queue visited \<longleftrightarrow>
     fromID \<in> set visited \<and> fst ` set queue \<subseteq> set visited \<and>
     (\<forall>(n, f) \<in> set queue. conv_path cs fromID n f) \<and>
     (\<forall>n \<in> set visited - fst ` set queue. n \<noteq> toID \<and> (\<forall>m g. (n, m, g) \<in> conv_edges cs \<longrightarrow> m \<in> set visited))"

definition conv_links :: "UnitConversion list \<Rightarrow> (ID \<times> ID) set" where
  "conv_links cs = {(a, b). \<exists>g. (a, b, g) \<in> conv_edges cs}"

lemma bfs_inv_step:
  assumes inv: "bfs_inv cs fromID toID ((n, f) # queue) visited" and ne: "n \<noteq> toID"
    and ex: "expand f (get_at (build_adj cs []) n) queue visited = (queue', visited')"
  shows "bfs_inv cs fromID toID queue' visited'"
proof -
  let ?es = "get_at (build_adj cs []) n"
  have edge: "(m, g) \<in> set ?es \<longleftrightarrow> (n, m, g) \<in> conv_edges cs" for m g by (simp add: build_adj_edges)
  have v: "set visited' = set visited \<union> fst ` set ?es" using expand_visited [of f ?es queue visited] ex by simp
  from expand_queue [of f ?es queue visited] ex obtain new where q: "queue' = queue @ new"
    and nw: "fst ` set new = fst ` set ?es - set visited" "\<forall>(m, h) \<in> set new. \<exists>g. (m, g) \<in> set ?es \<and> h = f_mul f g" by auto
  have path: "conv_path cs fromID n f" using inv by (simp add: bfs_inv_def)
  have "\<forall>(m, h) \<in> set queue'. conv_path cs fromID m h"
  proof (intro ballI, clarify)
    fix m h
    assume "(m, h) \<in> set queue'"
    then consider "(m, h) \<in> set queue" | "(m, h) \<in> set new" by (auto simp: q)
    then show "conv_path cs fromID m h"
    proof cases
      case 2
      with nw(2) obtain g where "(m, g) \<in> set ?es" "h = f_mul f g" by blast
      then show ?thesis using conv_path.there [OF path] by (simp add: edge)
    qed (use inv in \<open>auto simp: bfs_inv_def\<close>)
  qed
  moreover have "m \<noteq> toID \<and> (\<forall>k g. (m, k, g) \<in> conv_edges cs \<longrightarrow> k \<in> set visited')"
    if m: "m \<in> set visited' - fst ` set queue'" for m
  proof (cases "m = n")
    case True
    have "k \<in> set visited'" if "(n, k, g) \<in> conv_edges cs" for k g
      using that [folded edge] unfolding v by (metis UnI2 fst_conv image_eqI)
    with True ne show ?thesis by blast
  next
    case False
    with m nw(1) v have "m \<in> set visited - fst ` set ((n, f) # queue)" by (auto simp: q)
    with inv have "m \<noteq> toID \<and> (\<forall>k g. (m, k, g) \<in> conv_edges cs \<longrightarrow> k \<in> set visited)" unfolding bfs_inv_def by blast
    with v show ?thesis by blast
  qed
  moreover have "fst ` set queue' \<subseteq> set visited'"
  proof -
    have "fst ` set queue \<subseteq> set visited" using inv by (simp add: bfs_inv_def)
    then show ?thesis unfolding q set_append image_Un nw(1) v by blast
  qed
  moreover have "fromID \<in> set visited'" using inv v by (simp add: bfs_inv_def)
  ultimately show ?thesis unfolding bfs_inv_def by blast
qed

lemma bfs_correct:
  "bfs_inv cs fromID toID queue visited \<Longrightarrow>
     (\<exists>f. bfs (build_adj cs []) toID queue visited = Ret f \<and> conv_path cs fromID toID f) \<or>
     bfs (build_adj cs []) toID queue visited = Fail (Wrapped ''no conversion factor found between units'' ErrUnitMismatch) \<and>
       (fromID, toID) \<notin> (conv_links cs)\<^sup>*"
proof (induction "build_adj cs []" toID queue visited rule: bfs.induct)
  case (1 toID visited)
  have "n \<in> set visited" if "(fromID, n) \<in> (conv_links cs)\<^sup>*" for n
    using that by (induction rule: rtrancl_induct) (use 1 in \<open>auto simp: bfs_inv_def conv_links_def\<close>)
  then have "(fromID, toID) \<notin> (conv_links cs)\<^sup>*" using 1 by (auto simp: bfs_inv_def)
  then show ?case by simp
next
  case (2 toID n f queue visited)
  show ?case
  proof (cases "n = toID")
    case True
    with "2.prems" show ?thesis by (simp add: bfs_inv_def)
  next
    case False
    obtain q v where ex: "expand f (get_at (build_adj cs []) n) queue visited = (q, v)" by fastforce
    from "2.hyps" [OF False ex [symmetric] bfs_inv_step [OF "2.prems" False ex]] False ex show ?thesis by simp
  qed
qed

lemma conv_path_links: "conv_path cs a b f \<Longrightarrow> (a, b) \<in> (conv_links cs)\<^sup>*"
  by (induction rule: conv_path.induct) (auto simp: conv_links_def intro: rtrancl_into_rtrancl)

lemma conv_links_sym: "(a, b) \<in> conv_links cs \<longleftrightarrow> (b, a) \<in> conv_links cs"
  by (auto simp: conv_links_def conv_edges_def)

lemma Convert_correct:
  "(\<exists>x. Convert amt a b cs = Ret x \<and> (a, b) \<in> (conv_links cs)\<^sup>* \<and>
      (if a = b then x = amt else \<exists>f. conv_path cs a b f \<and> x = f_mul amt f)) \<or>
   Convert amt a b cs = Fail (Wrapped ''no conversion factor found between units'' ErrUnitMismatch) \<and>
      (a, b) \<notin> (conv_links cs)\<^sup>*"
proof (cases "a = b")
  case False
  have "bfs_inv cs a b [(a, Fin 1)] [a]" using False by (simp add: bfs_inv_def conv_path.here)
  from bfs_correct [OF this] False show ?thesis by (auto simp: Convert_def dest: conv_path_links)
qed (simp add: Convert_def)

section \<open>Properties\<close>

text \<open>C27. \<open>Convert\<close> always returns. It succeeds exactly when the two units are connected by conversions with a
  factor that is not negligible, each used in either direction; then the result is the amount
  multiplied by the product of the factors along a path (or the amount itself for equal
  units); otherwise it fails with \<open>ErrUnitMismatch\<close>. So a conversion exists in one direction
  exactly when it exists in the other.\<close>

theorem unit_convert_correct:
  "((\<exists>x. Convert amt a b cs = Ret x \<and> (a, b) \<in> (conv_links cs)\<^sup>* \<and>
      (if a = b then x = amt else \<exists>f. conv_path cs a b f \<and> x = f_mul amt f)) \<or>
    Convert amt a b cs = Fail (Wrapped ''no conversion factor found between units'' ErrUnitMismatch) \<and>
      (a, b) \<notin> (conv_links cs)\<^sup>*) \<and>
   (is_Ret (Convert amt a b cs) \<longleftrightarrow> is_Ret (Convert amt' b a cs))"
proof -
  have "(a, b) \<in> (conv_links cs)\<^sup>* \<longleftrightarrow> (b, a) \<in> (conv_links cs)\<^sup>*"
    using conv_links_sym by (metis (no_types, lifting) sym_def sym_rtrancl)
  then have "is_Ret (Convert amt a b cs) \<longleftrightarrow> is_Ret (Convert amt' b a cs)"
    using Convert_correct [of amt a b cs] Convert_correct [of amt' b a cs] by auto
  with Convert_correct [of amt a b cs] show ?thesis by blast
qed

end
