(* ===== verification/Product.thy ===== *)
theory Product
  imports Units OutboxAudit
begin

text \<open>
  \<open>internal/core/usecase/product/product_usecase.go\<close> with its repository (\<open>product_repo.go\<close>,
  \<open>sqlc/products.sql.go\<close>): units, conversions, products and variants. All statements run on the
  pool.
\<close>

section \<open>Products\<close>

definition TypeGoods :: string where "TypeGoods = ''goods''"
definition StatusActive_product :: string where "StatusActive_product = ''active''"

record ProductVariant =
  pv_ID :: ID
  pv_TenantID :: ID
  pv_ProductID :: ID
  pv_SKU :: string
  pv_Name :: string
  pv_Attributes :: gomap
  pv_Status :: string
  pv_CreatedAt :: gotime
  pv_UpdatedAt :: gotime

record Product =
  pd_ID :: ID
  pd_TenantID :: ID
  pd_Type :: string
  pd_SKU :: string
  pd_Barcode :: string
  pd_Name :: string
  pd_Description :: string
  pd_UnitID :: ID
  pd_UnitCode :: string
  pd_UnitSymbol :: string
  pd_Status :: string
  pd_Metadata :: gomap
  pd_Variants :: "ProductVariant list"
  pd_CreatedAt :: gotime
  pd_UpdatedAt :: gotime

record ProductFilter =
  pf_Type :: "string option"
  pf_Status :: "string option"
  pf_Limit :: int32
  pf_Offset :: int32

section \<open>Statements\<close>

definition unit_clash :: "unit_row \<Rightarrow> unit_row \<Rightarrow> bool" where
  "unit_clash r s \<longleftrightarrow> ur_id r = ur_id s \<or> ur_tenant_id r = ur_tenant_id s \<and> ur_code r = ur_code s"

definition sql_CreateUnit :: "unit_row \<Rightarrow> int \<Rightarrow> db \<Rightarrow> unit_row res \<times> db" where
  "sql_CreateUnit r t d =
     (case insert_row unit_clash (ur_id r \<noteq> NilID \<and> ur_tenant_id r \<noteq> NilID) r (t_units d)
      of (x, rs) \<Rightarrow> (x, d\<lparr>t_units := rs\<rparr>))"

definition sql_GetUnitByID :: "ID \<Rightarrow> ID \<Rightarrow> db \<Rightarrow> unit_row res" where
  "sql_GetUnitByID tenantID i d = select_one (\<lambda>r. pg_eq (ur_tenant_id r) tenantID \<and> pg_eq (ur_id r) i) (t_units d)"

definition sql_GetUnitByCode :: "ID \<Rightarrow> string \<Rightarrow> db \<Rightarrow> unit_row res" where
  "sql_GetUnitByCode tenantID code d = select_one (\<lambda>r. pg_eq (ur_tenant_id r) tenantID \<and> ur_code r = code) (t_units d)"

definition sql_ListUnits :: "ID \<Rightarrow> db \<Rightarrow> unit_row list" where
  "sql_ListUnits tenantID d = sort_key ur_code (filter (\<lambda>r. pg_eq (ur_tenant_id r) tenantID) (t_units d))"

definition conversion_clash :: "unit_conversion_row \<Rightarrow> unit_conversion_row \<Rightarrow> bool" where
  "conversion_clash r s \<longleftrightarrow> nr_id r = nr_id s \<or>
     nr_tenant_id r = nr_tenant_id s \<and> nr_from_unit_id r = nr_from_unit_id s \<and> nr_to_unit_id r = nr_to_unit_id s"

definition sql_CreateUnitConversion :: "unit_conversion_row option \<Rightarrow> int \<Rightarrow> db \<Rightarrow> unit_conversion_row res \<times> db" where
  "sql_CreateUnitConversion ro t d =
     (case ro of None \<Rightarrow> (Fail (Opaque ''not-null constraint''), d)
      | Some r \<Rightarrow>
         (case insert_row conversion_clash (nr_id r \<noteq> NilID \<and> nr_tenant_id r \<noteq> NilID \<and> nr_from_unit_id r \<noteq> NilID \<and>
            nr_to_unit_id r \<noteq> NilID) r (t_unit_conversions d)
          of (x, rs) \<Rightarrow> (x, d\<lparr>t_unit_conversions := rs\<rparr>)))"

definition sql_GetUnitConversion :: "ID \<Rightarrow> ID \<Rightarrow> ID \<Rightarrow> db \<Rightarrow> unit_conversion_row res" where
  "sql_GetUnitConversion tenantID fromID toID d =
     select_one (\<lambda>r. pg_eq (nr_tenant_id r) tenantID \<and> pg_eq (nr_from_unit_id r) fromID \<and> pg_eq (nr_to_unit_id r) toID)
       (t_unit_conversions d)"

definition unit_of :: "db \<Rightarrow> ID \<Rightarrow> unit_row option" where
  "unit_of d i = find (\<lambda>u. ur_id u = i) (t_units d)"

definition sql_ListUnitConversions :: "ID \<Rightarrow> db \<Rightarrow> (unit_conversion_row \<times> string \<times> string) list" where
  "sql_ListUnitConversions tenantID d =
     List.map_filter (\<lambda>r. case (unit_of d (nr_from_unit_id r), unit_of d (nr_to_unit_id r)) of
         (Some u1, Some u2) \<Rightarrow> Some (r, ur_code u1, ur_code u2) | _ \<Rightarrow> None)
       (sort_key nr_created_at (filter (\<lambda>r. pg_eq (nr_tenant_id r) tenantID) (t_unit_conversions d)))"

definition product_clash :: "product_row \<Rightarrow> product_row \<Rightarrow> bool" where
  "product_clash r s \<longleftrightarrow> pdr_id r = pdr_id s \<or>
     pdr_tenant_id r = pdr_tenant_id s \<and> pdr_sku r \<noteq> None \<and> pdr_sku r = pdr_sku s"

definition sql_CreateProduct :: "product_row \<Rightarrow> int \<Rightarrow> db \<Rightarrow> product_row res \<times> db" where
  "sql_CreateProduct r t d =
     (case insert_row product_clash (pdr_id r \<noteq> NilID \<and> pdr_tenant_id r \<noteq> NilID \<and> pdr_unit_id r \<noteq> NilID) r (t_products d)
      of (x, rs) \<Rightarrow> (x, d\<lparr>t_products := rs\<rparr>))"

type_synonym joined_product = "product_row \<times> string \<times> string"

definition joined_products :: "(product_row \<Rightarrow> bool) \<Rightarrow> db \<Rightarrow> joined_product list" where
  "joined_products p d =
     List.map_filter (\<lambda>r. map_option (\<lambda>u. (r, ur_code u, ur_symbol u)) (unit_of d (pdr_unit_id r)))
       (filter p (t_products d))"

definition first_row :: "'a list \<Rightarrow> 'a res" where
  "first_row xs = (case xs of [] \<Rightarrow> Fail ErrNoRows | x # _ \<Rightarrow> Ret x)"

definition sql_GetProductByID :: "ID \<Rightarrow> ID \<Rightarrow> db \<Rightarrow> joined_product res" where
  "sql_GetProductByID tenantID i d =
     first_row (joined_products (\<lambda>r. pg_eq (pdr_tenant_id r) tenantID \<and> pg_eq (pdr_id r) i) d)"

definition sql_GetProductBySKU :: "ID \<Rightarrow> string \<Rightarrow> db \<Rightarrow> joined_product res" where
  "sql_GetProductBySKU tenantID sku d =
     first_row (joined_products (\<lambda>r. pg_eq (pdr_tenant_id r) tenantID \<and> pdr_sku r = Some sku) d)"

definition product_match :: "ID \<Rightarrow> string option \<Rightarrow> string option \<Rightarrow> product_row \<Rightarrow> bool" where
  "product_match tenantID typ status r \<longleftrightarrow>
     pg_eq (pdr_tenant_id r) tenantID \<and> opt_match typ (pdr_type r) \<and> opt_match status (pdr_status r)"

definition sql_CountProducts :: "ID \<Rightarrow> string option \<Rightarrow> string option \<Rightarrow> db \<Rightarrow> int" where
  "sql_CountProducts tenantID typ status d = int (length (filter (product_match tenantID typ status) (t_products d)))"

definition sql_ListProducts :: "ID \<Rightarrow> int \<Rightarrow> int \<Rightarrow> string option \<Rightarrow> string option \<Rightarrow> db \<Rightarrow> joined_product list" where
  "sql_ListProducts tenantID limit offset typ status d =
     limit_offset limit offset (sort_key (\<lambda>x. - pdr_created_at (fst x)) (joined_products (product_match tenantID typ status) d))"

record UpdateProductParams =
  up_TenantID :: ID
  up_ID :: ID
  up_Name :: "string option"
  up_Description :: "string option"
  up_Barcode :: "string option"
  up_Status :: "string option"
  up_Metadata :: "json option"

definition product_set :: "UpdateProductParams \<Rightarrow> int \<Rightarrow> product_row \<Rightarrow> product_row" where
  "product_set a t r =
     r\<lparr>pdr_name := coalesce (up_Name a) (pdr_name r), pdr_description := coalesce_null (up_Description a) (pdr_description r),
       pdr_barcode := coalesce_null (up_Barcode a) (pdr_barcode r), pdr_status := coalesce (up_Status a) (pdr_status r),
       pdr_metadata := coalesce (up_Metadata a) (pdr_metadata r), pdr_updated_at := t\<rparr>"

definition sql_UpdateProduct :: "UpdateProductParams \<Rightarrow> int \<Rightarrow> db \<Rightarrow> product_row res \<times> db" where
  "sql_UpdateProduct a t d =
     (case update_returning (\<lambda>r. pg_eq (pdr_tenant_id r) (up_TenantID a) \<and> pg_eq (pdr_id r) (up_ID a)) (product_set a t) (t_products d)
      of (x, rs) \<Rightarrow> (x, d\<lparr>t_products := rs\<rparr>))"

definition variant_clash :: "product_variant_row \<Rightarrow> product_variant_row \<Rightarrow> bool" where
  "variant_clash r s \<longleftrightarrow> pvr_id r = pvr_id s \<or> pvr_tenant_id r = pvr_tenant_id s \<and> pvr_sku r = pvr_sku s"

definition sql_CreateProductVariant :: "product_variant_row \<Rightarrow> int \<Rightarrow> db \<Rightarrow> product_variant_row res \<times> db" where
  "sql_CreateProductVariant r t d =
     (case insert_row variant_clash (pvr_id r \<noteq> NilID \<and> pvr_tenant_id r \<noteq> NilID \<and> pvr_product_id r \<noteq> NilID) r (t_product_variants d)
      of (x, rs) \<Rightarrow> (x, d\<lparr>t_product_variants := rs\<rparr>))"

definition sql_ListProductVariants :: "ID \<Rightarrow> ID \<Rightarrow> db \<Rightarrow> product_variant_row list" where
  "sql_ListProductVariants tenantID productID d =
     sort_key pvr_sku (filter (\<lambda>r. pg_eq (pvr_tenant_id r) tenantID \<and> pg_eq (pvr_product_id r) productID) (t_product_variants d))"

definition sql_DeleteProductVariant :: "ID \<Rightarrow> ID \<Rightarrow> int \<Rightarrow> db \<Rightarrow> unit res \<times> db" where
  "sql_DeleteProductVariant tenantID i t d =
     (Ret (), d\<lparr>t_product_variants := filter (\<lambda>r. \<not> (pg_eq (pvr_tenant_id r) tenantID \<and> pg_eq (pvr_id r) i)) (t_product_variants d)\<rparr>)"

section \<open>Repository\<close>

definition toDomainUnit :: "(int \<Rightarrow> int) \<Rightarrow> unit_row \<Rightarrow> Unit" where
  "toDomainUnit lo r =
     \<lparr>un_ID = ur_id r, un_TenantID = ur_tenant_id r, un_Code = ur_code r, un_Name = ur_name r, un_Symbol = ur_symbol r,
      un_Category = ur_category r, un_Precision = ur_precision r, un_Status = ur_status r,
      un_CreatedAt = ts_local lo (ur_created_at r), un_UpdatedAt = ts_local lo (ur_updated_at r)\<rparr>"

definition unit_row_of :: "Unit \<Rightarrow> unit_row" where
  "unit_row_of u =
     \<lparr>ur_id = un_ID u, ur_tenant_id = un_TenantID u, ur_code = un_Code u, ur_name = un_Name u, ur_symbol = un_Symbol u,
      ur_category = un_Category u, ur_precision = un_Precision u, ur_status = un_Status u,
      ur_created_at = to_micro (un_CreatedAt u), ur_updated_at = to_micro (un_UpdatedAt u)\<rparr>"

definition product_repo_CreateUnit :: "ctx \<Rightarrow> Unit \<Rightarrow> Unit dbproc" where
  "product_repo_CreateUnit c u = read_with toDomainUnit (stmt (pool_ctx c) (sql_CreateUnit (unit_row_of u)))"

definition product_repo_GetUnitByID :: "ctx \<Rightarrow> ID \<Rightarrow> ID \<Rightarrow> Unit dbproc" where
  "product_repo_GetUnitByID c tenantID i =
     read_with toDomainUnit (norows_notfound (query (pool_ctx c) (sql_GetUnitByID tenantID i)))"

definition product_repo_GetUnitByCode :: "ctx \<Rightarrow> ID \<Rightarrow> string \<Rightarrow> Unit dbproc" where
  "product_repo_GetUnitByCode c tenantID code =
     read_with toDomainUnit (norows_notfound (query (pool_ctx c) (sql_GetUnitByCode tenantID code)))"

definition product_repo_ListUnits :: "ctx \<Rightarrow> ID \<Rightarrow> Unit list dbproc" where
  "product_repo_ListUnits c tenantID =
     read_with (\<lambda>lo. map (toDomainUnit lo)) (query (pool_ctx c) (\<lambda>d. Ret (sql_ListUnits tenantID d)))"

definition conversion_row_of :: "UnitConversion \<Rightarrow> unit_conversion_row option" where
  "conversion_row_of v =
     map_option (\<lambda>q. \<lparr>nr_id = uv_ID v, nr_tenant_id = uv_TenantID v, nr_from_unit_id = uv_FromUnitID v,
        nr_to_unit_id = uv_ToUnitID v, nr_factor = decimal 8 q, nr_created_at = to_micro (uv_CreatedAt v),
        nr_updated_at = to_micro (uv_UpdatedAt v)\<rparr>) (floatToNumeric (uv_Factor v))"

definition product_repo_CreateConversion :: "ctx \<Rightarrow> UnitConversion \<Rightarrow> UnitConversion dbproc" where
  "product_repo_CreateConversion c v =
     read_with (\<lambda>lo row. v\<lparr>uv_ID := nr_id row, uv_Factor := numericToFloat (nr_factor row),
         uv_CreatedAt := ts_local lo (nr_created_at row), uv_UpdatedAt := ts_local lo (nr_updated_at row)\<rparr>)
       (stmt (pool_ctx c) (sql_CreateUnitConversion (conversion_row_of v)))"

definition toDomainConversion :: "(int \<Rightarrow> int) \<Rightarrow> unit_conversion_row \<times> string \<times> string \<Rightarrow> UnitConversion" where
  "toDomainConversion lo x = (case x of (row, fromCode, toCode) \<Rightarrow>
     \<lparr>uv_ID = nr_id row, uv_TenantID = nr_tenant_id row, uv_FromUnitID = nr_from_unit_id row, uv_ToUnitID = nr_to_unit_id row,
      uv_Factor = numericToFloat (nr_factor row), uv_FromCode = fromCode, uv_ToCode = toCode,
      uv_CreatedAt = ts_local lo (nr_created_at row), uv_UpdatedAt = ts_local lo (nr_updated_at row)\<rparr>)"

definition product_repo_GetConversion :: "ctx \<Rightarrow> ID \<Rightarrow> ID \<Rightarrow> ID \<Rightarrow> UnitConversion dbproc" where
  "product_repo_GetConversion c tenantID fromID toID =
     read_with (\<lambda>lo row. toDomainConversion lo (row, [], []))
       (norows_notfound (query (pool_ctx c) (sql_GetUnitConversion tenantID fromID toID)))"

definition product_repo_ListConversions :: "ctx \<Rightarrow> ID \<Rightarrow> UnitConversion list dbproc" where
  "product_repo_ListConversions c tenantID =
     read_with (\<lambda>lo. map (toDomainConversion lo)) (query (pool_ctx c) (\<lambda>d. Ret (sql_ListUnitConversions tenantID d)))"

definition product_row_of :: "Product \<Rightarrow> product_row" where
  "product_row_of p =
     \<lparr>pdr_id = pd_ID p, pdr_tenant_id = pd_TenantID p, pdr_type = pd_Type p, pdr_sku = ptr_of_str (pd_SKU p),
      pdr_barcode = ptr_of_str (pd_Barcode p), pdr_name = pd_Name p, pdr_description = ptr_of_str (pd_Description p),
      pdr_unit_id = pd_UnitID p, pdr_status = pd_Status p, pdr_metadata = json_of_map (pd_Metadata p),
      pdr_created_at = to_micro (pd_CreatedAt p), pdr_updated_at = to_micro (pd_UpdatedAt p)\<rparr>"

definition product_repo_CreateProduct :: "ctx \<Rightarrow> Product \<Rightarrow> Product dbproc" where
  "product_repo_CreateProduct c p =
     read_with (\<lambda>lo row. p\<lparr>pd_ID := pdr_id row, pd_CreatedAt := ts_local lo (pdr_created_at row),
         pd_UpdatedAt := ts_local lo (pdr_updated_at row)\<rparr>)
       (stmt (pool_ctx c) (sql_CreateProduct (product_row_of p)))"

definition toDomainProduct :: "(int \<Rightarrow> int) \<Rightarrow> joined_product \<Rightarrow> Product" where
  "toDomainProduct lo x = (case x of (row, unitCode, unitSymbol) \<Rightarrow>
     \<lparr>pd_ID = pdr_id row, pd_TenantID = pdr_tenant_id row, pd_Type = pdr_type row, pd_SKU = str_of_ptr (pdr_sku row),
      pd_Barcode = str_of_ptr (pdr_barcode row), pd_Name = pdr_name row, pd_Description = str_of_ptr (pdr_description row),
      pd_UnitID = pdr_unit_id row, pd_UnitCode = unitCode, pd_UnitSymbol = unitSymbol, pd_Status = pdr_status row,
      pd_Metadata = map_of_json (pdr_metadata row), pd_Variants = [], pd_CreatedAt = ts_local lo (pdr_created_at row),
      pd_UpdatedAt = ts_local lo (pdr_updated_at row)\<rparr>)"

definition toDomainVariant :: "(int \<Rightarrow> int) \<Rightarrow> product_variant_row \<Rightarrow> ProductVariant" where
  "toDomainVariant lo row =
     \<lparr>pv_ID = pvr_id row, pv_TenantID = pvr_tenant_id row, pv_ProductID = pvr_product_id row, pv_SKU = pvr_sku row,
      pv_Name = pvr_name row, pv_Attributes = map_of_json (pvr_attributes row), pv_Status = pvr_status row,
      pv_CreatedAt = ts_local lo (pvr_created_at row), pv_UpdatedAt = ts_local lo (pvr_updated_at row)\<rparr>"

definition product_repo_ListVariants :: "ctx \<Rightarrow> ID \<Rightarrow> ID \<Rightarrow> ProductVariant list dbproc" where
  "product_repo_ListVariants c tenantID productID =
     read_with (\<lambda>lo. map (toDomainVariant lo)) (query (pool_ctx c) (\<lambda>d. Ret (sql_ListProductVariants tenantID productID d)))"

definition product_repo_GetProductByID :: "ctx \<Rightarrow> ID \<Rightarrow> ID \<Rightarrow> Product dbproc" where
  "product_repo_GetProductByID c tenantID i =
     bindP (read_with toDomainProduct (norows_notfound (query (pool_ctx c) (sql_GetProductByID tenantID i)))) (\<lambda>p.
     bindP (product_repo_ListVariants c tenantID i) (\<lambda>vs. ret (p\<lparr>pd_Variants := vs\<rparr>)))"

definition product_repo_GetProductBySKU :: "ctx \<Rightarrow> ID \<Rightarrow> string \<Rightarrow> Product dbproc" where
  "product_repo_GetProductBySKU c tenantID sku =
     bindP (read_with toDomainProduct (norows_notfound (query (pool_ctx c) (sql_GetProductBySKU tenantID sku)))) (\<lambda>p.
     bindP (product_repo_ListVariants c tenantID (pd_ID p)) (\<lambda>vs. ret (p\<lparr>pd_Variants := vs\<rparr>)))"

definition product_repo_ListProducts :: "ctx \<Rightarrow> ID \<Rightarrow> ProductFilter \<Rightarrow> (Product list \<times> int) dbproc" where
  "product_repo_ListProducts c tenantID f =
     (let limit = max (sint (pf_Limit f)) 20; offset = max (sint (pf_Offset f)) 0
      in bindP (query (pool_ctx c) (\<lambda>d. Ret (sql_CountProducts tenantID (pf_Type f) (pf_Status f) d))) (\<lambda>tot.
         bindP (read_with (\<lambda>lo. map (toDomainProduct lo)) (query (pool_ctx c)
           (\<lambda>d. Ret (sql_ListProducts tenantID limit offset (pf_Type f) (pf_Status f) d)))) (\<lambda>ps.
         ret (ps, tot))))"

definition product_params :: "Product \<Rightarrow> UpdateProductParams" where
  "product_params p =
     \<lparr>up_TenantID = pd_TenantID p, up_ID = pd_ID p, up_Name = Some (pd_Name p), up_Description = ptr_of_str (pd_Description p),
      up_Barcode = ptr_of_str (pd_Barcode p), up_Status = Some (pd_Status p),
      up_Metadata = (case pd_Metadata p of None \<Rightarrow> None | Some kvs \<Rightarrow> Some (JObj kvs))\<rparr>"

definition product_repo_UpdateProduct :: "ctx \<Rightarrow> Product \<Rightarrow> Product dbproc" where
  "product_repo_UpdateProduct c p =
     read_with (\<lambda>lo row. p\<lparr>pd_UpdatedAt := ts_local lo (pdr_updated_at row)\<rparr>)
       (norows_notfound (stmt (pool_ctx c) (sql_UpdateProduct (product_params p))))"

definition variant_row_of :: "ProductVariant \<Rightarrow> product_variant_row" where
  "variant_row_of v =
     \<lparr>pvr_id = pv_ID v, pvr_tenant_id = pv_TenantID v, pvr_product_id = pv_ProductID v, pvr_sku = pv_SKU v,
      pvr_name = pv_Name v, pvr_attributes = json_of_map (pv_Attributes v), pvr_status = pv_Status v,
      pvr_created_at = to_micro (pv_CreatedAt v), pvr_updated_at = to_micro (pv_UpdatedAt v)\<rparr>"

definition product_repo_CreateVariant :: "ctx \<Rightarrow> ProductVariant \<Rightarrow> ProductVariant dbproc" where
  "product_repo_CreateVariant c v =
     read_with (\<lambda>lo row. v\<lparr>pv_ID := pvr_id row, pv_CreatedAt := ts_local lo (pvr_created_at row),
         pv_UpdatedAt := ts_local lo (pvr_updated_at row)\<rparr>)
       (stmt (pool_ctx c) (sql_CreateProductVariant (variant_row_of v)))"

definition product_repo_DeleteVariant :: "ctx \<Rightarrow> ID \<Rightarrow> ID \<Rightarrow> unit dbproc" where
  "product_repo_DeleteVariant c tenantID i = stmt (pool_ctx c) (sql_DeleteProductVariant tenantID i)"

section \<open>Use cases\<close>

record CreateUnitCommand =
  cu_Code :: string
  cu_Name :: string
  cu_Symbol :: string
  cu_Category :: string
  cu_Precision :: int32

record CreateConversionCommand =
  cv_FromUnitID :: ID
  cv_ToUnitID :: ID
  cv_Factor :: float64

record CreateProductCommand =
  cp_Type :: string
  cp_SKU :: string
  cp_Barcode :: string
  cp_Name :: string
  cp_Description :: string
  cp_UnitID :: ID
  cp_Metadata :: gomap

record UpdateProductCommand =
  upc_ID :: ID
  upc_Name :: string
  upc_Description :: string
  upc_Barcode :: string
  upc_Status :: string
  upc_Metadata :: gomap

record CreateVariantCommand =
  cvr_ProductID :: ID
  cvr_SKU :: string
  cvr_Name :: string
  cvr_Attributes :: gomap

definition CreateUnit :: "ctx \<Rightarrow> CreateUnitCommand \<Rightarrow> Unit dbproc" where
  "CreateUnit c cmd =
     bindP (lift_res (RequireTenantID c)) (\<lambda>tenantID.
     let code = NormalizeCode (cu_Code cmd); name = TrimSpace (cu_Name cmd); symbol = TrimSpace (cu_Symbol cmd);
         category = TrimSpace (cu_Category cmd)
     in bindP (guard (\<not> (code = [] \<or> name = [])) (Wrapped ''unit code and name are required'' ErrInvalidInput)) (\<lambda>_.
     bindP NewID (\<lambda>i.
     bindP Now (\<lambda>now.
     product_repo_CreateUnit c
       \<lparr>un_ID = i, un_TenantID = tenantID, un_Code = code, un_Name = name,
        un_Symbol = (if symbol = [] then ToLower code else symbol),
        un_Category = (if category = [] then ''quantity'' else category), un_Precision = cu_Precision cmd,
        un_Status = UnitStatusActive, un_CreatedAt = now, un_UpdatedAt = now\<rparr>))))"

definition GetUnitByID :: "ctx \<Rightarrow> ID \<Rightarrow> Unit dbproc" where
  "GetUnitByID c i = bindP (lift_res (RequireTenantID c)) (\<lambda>tenantID. product_repo_GetUnitByID c tenantID i)"

definition GetUnitByCode :: "ctx \<Rightarrow> string \<Rightarrow> Unit dbproc" where
  "GetUnitByCode c code =
     bindP (lift_res (RequireTenantID c)) (\<lambda>tenantID. product_repo_GetUnitByCode c tenantID (NormalizeCode code))"

definition ListUnits :: "ctx \<Rightarrow> Unit list dbproc" where
  "ListUnits c = bindP (lift_res (RequireTenantID c)) (\<lambda>tenantID. product_repo_ListUnits c tenantID)"

definition CreateConversion :: "ctx \<Rightarrow> CreateConversionCommand \<Rightarrow> UnitConversion dbproc" where
  "CreateConversion c cmd =
     bindP (lift_res (RequireTenantID c)) (\<lambda>tenantID.
     bindP (guard (cv_FromUnitID cmd \<noteq> cv_ToUnitID cmd) (Wrapped ''from and to units cannot be identical'' ErrInvalidInput)) (\<lambda>_.
     bindP (guard (\<not> f_le (cv_Factor cmd) (Fin 0)) (Wrapped ''conversion factor must be positive'' ErrInvalidInput)) (\<lambda>_.
     bindP (wrap_err ''from unit'' (product_repo_GetUnitByID c tenantID (cv_FromUnitID cmd))) (\<lambda>_.
     bindP (wrap_err ''to unit'' (product_repo_GetUnitByID c tenantID (cv_ToUnitID cmd))) (\<lambda>_.
     bindP NewID (\<lambda>i.
     bindP Now (\<lambda>now.
     product_repo_CreateConversion c
       \<lparr>uv_ID = i, uv_TenantID = tenantID, uv_FromUnitID = cv_FromUnitID cmd, uv_ToUnitID = cv_ToUnitID cmd,
        uv_Factor = cv_Factor cmd, uv_FromCode = [], uv_ToCode = [], uv_CreatedAt = now, uv_UpdatedAt = now\<rparr>)))))))"

definition ConvertQuantity :: "ctx \<Rightarrow> float64 \<Rightarrow> ID \<Rightarrow> ID \<Rightarrow> float64 dbproc" where
  "ConvertQuantity c amt fromID toID =
     bindP (lift_res (RequireTenantID c)) (\<lambda>tenantID.
     bindP (product_repo_ListConversions c tenantID) (\<lambda>conversions.
     lift_res (Convert amt fromID toID conversions)))"

definition new_product :: "ID \<Rightarrow> ID \<Rightarrow> CreateProductCommand \<Rightarrow> Unit \<Rightarrow> gotime \<Rightarrow> Product" where
  "new_product i tenantID cmd u now =
     \<lparr>pd_ID = i, pd_TenantID = tenantID, pd_Type = (if cp_Type cmd = [] then TypeGoods else cp_Type cmd),
      pd_SKU = TrimSpace (cp_SKU cmd), pd_Barcode = TrimSpace (cp_Barcode cmd), pd_Name = TrimSpace (cp_Name cmd),
      pd_Description = TrimSpace (cp_Description cmd), pd_UnitID = un_ID u, pd_UnitCode = un_Code u,
      pd_UnitSymbol = un_Symbol u, pd_Status = StatusActive_product, pd_Metadata = or_empty (cp_Metadata cmd),
      pd_Variants = [], pd_CreatedAt = now, pd_UpdatedAt = now\<rparr>"

definition check_sku :: "ctx \<Rightarrow> ID \<Rightarrow> string \<Rightarrow> unit dbproc" where
  "check_sku c tenantID sku =
     (if sku \<noteq> [] then must_not_exist ''product with SKU already exists'' (product_repo_GetProductBySKU c tenantID sku)
      else ret ())"

definition CreateProduct :: "ctx \<Rightarrow> CreateProductCommand \<Rightarrow> Product dbproc" where
  "CreateProduct c cmd =
     bindP (lift_res (RequireTenantID c)) (\<lambda>tenantID.
     bindP (guard (TrimSpace (cp_Name cmd) \<noteq> []) (Wrapped ''product name is required'' ErrInvalidInput)) (\<lambda>_.
     bindP (check_sku c tenantID (TrimSpace (cp_SKU cmd))) (\<lambda>_.
     bindP (wrap_err ''unit'' (product_repo_GetUnitByID c tenantID (cp_UnitID cmd))) (\<lambda>u.
     bindP NewID (\<lambda>i.
     bindP Now (\<lambda>now.
     product_repo_CreateProduct c (new_product i tenantID cmd u now)))))))"

definition GetProductByID :: "ctx \<Rightarrow> ID \<Rightarrow> Product dbproc" where
  "GetProductByID c i = bindP (lift_res (RequireTenantID c)) (\<lambda>tenantID. product_repo_GetProductByID c tenantID i)"

definition GetProductBySKU :: "ctx \<Rightarrow> string \<Rightarrow> Product dbproc" where
  "GetProductBySKU c sku =
     bindP (lift_res (RequireTenantID c)) (\<lambda>tenantID. product_repo_GetProductBySKU c tenantID (TrimSpace sku))"

definition ListProducts :: "ctx \<Rightarrow> int32 \<Rightarrow> int32 \<Rightarrow> string option \<Rightarrow> string option \<Rightarrow> Product list_result dbproc" where
  "ListProducts c page0 pageSize0 productType status =
     bindP (lift_res (RequireTenantID c)) (\<lambda>tenantID.
     case page_params page0 pageSize0 of (page, pageSize, offset) \<Rightarrow>
     bindP (product_repo_ListProducts c tenantID
       \<lparr>pf_Type = productType, pf_Status = status, pf_Limit = pageSize, pf_Offset = offset\<rparr>) (\<lambda>(items, tot).
     ret \<lparr>lres_Items = items, lres_Total = tot, lres_Page = page, lres_PageSize = pageSize\<rparr>))"

definition apply_product_update :: "UpdateProductCommand \<Rightarrow> Product \<Rightarrow> Product" where
  "apply_product_update cmd p =
     (let p1 = (if upc_Name cmd \<noteq> [] then p\<lparr>pd_Name := TrimSpace (upc_Name cmd)\<rparr> else p);
          p2 = (if upc_Description cmd \<noteq> [] then p1\<lparr>pd_Description := TrimSpace (upc_Description cmd)\<rparr> else p1);
          p3 = (if upc_Barcode cmd \<noteq> [] then p2\<lparr>pd_Barcode := TrimSpace (upc_Barcode cmd)\<rparr> else p2);
          p4 = (if upc_Status cmd \<noteq> [] then p3\<lparr>pd_Status := upc_Status cmd\<rparr> else p3)
      in if upc_Metadata cmd \<noteq> None then p4\<lparr>pd_Metadata := upc_Metadata cmd\<rparr> else p4)"

definition UpdateProduct :: "ctx \<Rightarrow> UpdateProductCommand \<Rightarrow> Product dbproc" where
  "UpdateProduct c cmd =
     bindP (lift_res (RequireTenantID c)) (\<lambda>tenantID.
     bindP (product_repo_GetProductByID c tenantID (upc_ID cmd)) (\<lambda>p.
     product_repo_UpdateProduct c (apply_product_update cmd p)))"

definition new_variant :: "ID \<Rightarrow> ID \<Rightarrow> CreateVariantCommand \<Rightarrow> gotime \<Rightarrow> ProductVariant" where
  "new_variant i tenantID cmd now =
     \<lparr>pv_ID = i, pv_TenantID = tenantID, pv_ProductID = cvr_ProductID cmd, pv_SKU = TrimSpace (cvr_SKU cmd),
      pv_Name = TrimSpace (cvr_Name cmd), pv_Attributes = or_empty (cvr_Attributes cmd), pv_Status = StatusActive_product,
      pv_CreatedAt = now, pv_UpdatedAt = now\<rparr>"

definition CreateVariant :: "ctx \<Rightarrow> CreateVariantCommand \<Rightarrow> ProductVariant dbproc" where
  "CreateVariant c cmd =
     bindP (lift_res (RequireTenantID c)) (\<lambda>tenantID.
     bindP (guard (\<not> (TrimSpace (cvr_SKU cmd) = [] \<or> TrimSpace (cvr_Name cmd) = []))
       (Wrapped ''variant sku and name are required'' ErrInvalidInput)) (\<lambda>_.
     bindP (wrap_err ''parent product'' (product_repo_GetProductByID c tenantID (cvr_ProductID cmd))) (\<lambda>_.
     bindP NewID (\<lambda>i.
     bindP Now (\<lambda>now.
     product_repo_CreateVariant c (new_variant i tenantID cmd now))))))"

definition ListVariants :: "ctx \<Rightarrow> ID \<Rightarrow> ProductVariant list dbproc" where
  "ListVariants c productID =
     bindP (lift_res (RequireTenantID c)) (\<lambda>tenantID. product_repo_ListVariants c tenantID productID)"

definition DeleteVariant :: "ctx \<Rightarrow> ID \<Rightarrow> unit dbproc" where
  "DeleteVariant c i = bindP (lift_res (RequireTenantID c)) (\<lambda>tenantID. product_repo_DeleteVariant c tenantID i)"

end
