(* ===== verification/ProductProps.thy ===== *)
theory ProductProps
  imports Product
begin

text \<open>
  The invariant of the product tables over runs of the use cases, the round trip of a created
  product, and the page size that the repository ignores.
\<close>

section \<open>Invariant\<close>

definition product_ok :: "db \<Rightarrow> bool" where
  "product_ok d \<longleftrightarrow>
     distinct (map ur_id (t_units d)) \<and> distinct (map pdr_id (t_products d)) \<and>
     (\<forall>p \<in> set (t_products d). \<forall>q \<in> set (t_products d). product_clash p q \<longrightarrow> p = q) \<and>
     (\<forall>p \<in> set (t_products d). \<exists>u \<in> set (t_units d). ur_id u = pdr_unit_id p \<and> ur_tenant_id u = pdr_tenant_id p) \<and>
     (\<forall>v \<in> set (t_product_variants d). \<exists>p \<in> set (t_products d).
        pdr_id p = pvr_product_id v \<and> pdr_tenant_id p = pvr_tenant_id v)"

definition keeps_product_ok :: "db \<Rightarrow> db \<Rightarrow> bool" where
  "keeps_product_ok d d' \<longleftrightarrow> (product_ok d \<longrightarrow> product_ok d')"

interpretation product_order: db_order keeps_product_ok
  by unfold_locales (auto simp: keeps_product_ok_def)

lemma product_okD:
  assumes "product_ok d"
  shows "distinct (map ur_id (t_units d))" and "distinct (map pdr_id (t_products d))"
    and "p \<in> set (t_products d) \<Longrightarrow> \<exists>u \<in> set (t_units d). ur_id u = pdr_unit_id p \<and> ur_tenant_id u = pdr_tenant_id p"
    and "v \<in> set (t_product_variants d) \<Longrightarrow> \<exists>p \<in> set (t_products d). pdr_id p = pvr_product_id v \<and> pdr_tenant_id p = pvr_tenant_id v"
  using assms unfolding product_ok_def by blast+

subsection \<open>Statements\<close>

lemma sql_CreateUnit_ok: "sql_CreateUnit r t d = (Ret x, d') \<Longrightarrow> keeps_product_ok d d'"
  by (auto simp: sql_CreateUnit_def insert_row_def unit_clash_def list_ex_iff keeps_product_ok_def product_ok_def split: if_splits)

lemma sql_CreateUnitConversion_ok: "sql_CreateUnitConversion ro t d = (Ret x, d') \<Longrightarrow> keeps_product_ok d d'"
  by (auto simp: sql_CreateUnitConversion_def insert_row_def keeps_product_ok_def product_ok_def split: if_splits option.splits)

lemma sql_DeleteProductVariant_ok: "sql_DeleteProductVariant tid i t d = (Ret x, d') \<Longrightarrow> keeps_product_ok d d'"
  by (auto simp: sql_DeleteProductVariant_def keeps_product_ok_def product_ok_def)

lemma product_set_simps [simp]:
  "pdr_id (product_set a t r) = pdr_id r" "pdr_tenant_id (product_set a t r) = pdr_tenant_id r"
  "pdr_sku (product_set a t r) = pdr_sku r" "pdr_unit_id (product_set a t r) = pdr_unit_id r"
  by (simp_all add: product_set_def)

lemma sql_UpdateProduct_ok:
  assumes "sql_UpdateProduct a t d = (Ret x, d')"
  shows "keeps_product_ok d d'"
proof -
  let ?f = "\<lambda>r. if pg_eq (pdr_tenant_id r) (up_TenantID a) \<and> pg_eq (pdr_id r) (up_ID a) then product_set a t r else r"
  have d': "d' = d\<lparr>t_products := map ?f (t_products d)\<rparr>"
    using assms by (auto simp: sql_UpdateProduct_def update_returning_def update_rows_def split: option.splits)
  have [simp]: "pdr_id (?f r) = pdr_id r" "pdr_tenant_id (?f r) = pdr_tenant_id r" "pdr_unit_id (?f r) = pdr_unit_id r"
    "pdr_sku (?f r) = pdr_sku r" for r by simp_all
  have cl: "product_clash (?f r) (?f s) \<longleftrightarrow> product_clash r s" for r s by (simp add: product_clash_def)
  have "map pdr_id (map ?f (t_products d)) = map pdr_id (t_products d)" by simp
  then show ?thesis
    unfolding keeps_product_ok_def product_ok_def d'
    by (auto simp: cl o_def simp del: if_image_distrib)
qed

lemma sql_CreateProduct_Ret:
  assumes "sql_CreateProduct r t d = (Ret x, d')"
  shows "x = r" "d' = d\<lparr>t_products := t_products d @ [r]\<rparr>" "\<forall>s \<in> set (t_products d). \<not> product_clash r s"
    "pdr_id r \<noteq> NilID" "pdr_tenant_id r \<noteq> NilID"
  using assms by (auto simp: sql_CreateProduct_def insert_row_def list_ex_iff split: if_splits)

lemma sql_CreateProduct_ok:
  assumes "sql_CreateProduct r t d = (Ret x, d')"
    and "u \<in> set (t_units d)" "ur_id u = pdr_unit_id r" "ur_tenant_id u = pdr_tenant_id r"
  shows "keeps_product_ok d d'"
proof -
  note c = sql_CreateProduct_Ret [OF assms(1)]
  have c3: "\<forall>s \<in> set (t_products d). \<not> product_clash s r" using c(3) unfolding product_clash_def by metis
  have "pdr_id r \<notin> pdr_id ` set (t_products d)" using c(3) by (auto simp: product_clash_def)
  then show ?thesis
    using c(3) c3 assms(2-4) unfolding keeps_product_ok_def product_ok_def c(2) by auto
qed

lemma sql_CreateProductVariant_ok:
  assumes "sql_CreateProductVariant r t d = (Ret x, d')"
    and "p \<in> set (t_products d)" "pdr_id p = pvr_product_id r" "pdr_tenant_id p = pvr_tenant_id r"
  shows "keeps_product_ok d d'"
  using assms by (auto simp: sql_CreateProductVariant_def insert_row_def keeps_product_ok_def product_ok_def split: if_splits)

subsection \<open>Use cases\<close>

lemma product_reads_keep [keeps_intros]:
  "keeps_db (product_repo_GetUnitByID c t i)" "keeps_db (product_repo_ListVariants c t i)"
  "keeps_db (product_repo_GetProductByID c t i)" "keeps_db (product_repo_GetProductBySKU c t sku)"
  "keeps_db (check_sku c t sku)"
  unfolding product_repo_GetUnitByID_def product_repo_ListVariants_def product_repo_GetProductByID_def
    product_repo_GetProductBySKU_def check_sku_def
  by (auto intro!: keeps_intros)

lemma product_reads_stay:
  "stays keeps_product_ok (product_repo_GetUnitByID c t i)" "stays keeps_product_ok (product_repo_ListVariants c t i)"
  "stays keeps_product_ok (product_repo_GetProductByID c t i)"
  unfolding product_repo_GetUnitByID_def product_repo_ListVariants_def product_repo_GetProductByID_def
  by (intro stays_intros)+

lemma product_writes_stay:
  "stays keeps_product_ok (CreateUnit c cu)" "stays keeps_product_ok (CreateConversion c cc)"
  "stays keeps_product_ok (UpdateProduct c up)" "stays keeps_product_ok (DeleteVariant c i)"
  unfolding CreateUnit_def CreateConversion_def UpdateProduct_def DeleteVariant_def Let_def product_repo_CreateUnit_def
    product_repo_CreateConversion_def product_repo_UpdateProduct_def product_repo_DeleteVariant_def
  by (intro stays_intros product_reads_stay product_order.stays_stmt;
      erule sql_CreateUnit_ok sql_CreateUnitConversion_ok sql_UpdateProduct_ok sql_DeleteProductVariant_ok)+

lemma GetUnit_found:
  assumes "product_repo_GetUnitByID c t i e w = (Ret u, w')"
  obtains ur where "ur \<in> set (t_units (wdb w))" "ur_tenant_id ur = t" "ur_id ur = i" "u = toDomainUnit (local_off e) ur"
  using assms that unfolding product_repo_GetUnitByID_def
  by (auto simp: read_with_Ret_iff proc_simps query_Ret_outside sql_GetUnitByID_def pg_eq_def dest!: select_one_in)

lemma GetProduct_found:
  assumes "product_repo_GetProductByID c t i e w = (Ret p, w')"
  obtains pr where "pr \<in> set (t_products (wdb w))" "pdr_tenant_id pr = t" "pdr_id pr = i"
proof -
  from assms obtain x where "sql_GetProductByID t i (wdb w) = Ret x"
    unfolding product_repo_GetProductByID_def by (auto simp: bindP_Ret_iff read_with_Ret_iff proc_simps query_Ret_outside)
  then have "joined_products (\<lambda>r. pg_eq (pdr_tenant_id r) t \<and> pg_eq (pdr_id r) i) (wdb w) \<noteq> []"
    by (auto simp: sql_GetProductByID_def first_row_def)
  then have "filter (\<lambda>r. pg_eq (pdr_tenant_id r) t \<and> pg_eq (pdr_id r) i) (t_products (wdb w)) \<noteq> []"
    by (auto simp: joined_products_def map_filter_simps)
  then show thesis using that by (auto simp: filter_empty_conv pg_eq_def)
qed

lemma CreateProduct_ok:
  assumes ok: "product_ok (wdb w)" and run: "CreateProduct c cmd e w = (r, w')"
  shows "product_ok (wdb w')"
proof -
  consider "wdb w' = wdb w"
    | tid w1 w2 u i now w3 where "product_repo_GetUnitByID c tid (cp_UnitID cmd) e w1 = (Ret u, w2)" "wdb w1 = wdb w"
        "wdb w3 = wdb w" "product_repo_CreateProduct c (new_product i tid cmd u now) e w3 = (r, w')"
    using run unfolding CreateProduct_def
    by (elim bind_keeps_cases) (auto intro: keeps_intros simp: wrap_err_Ret_iff)
  then show ?thesis
  proof cases
    case (2 tid w1 w2 u i now w3)
    let ?row = "product_row_of (new_product i tid cmd u now)"
    from GetUnit_found [OF 2(1)] 2(2) obtain ur where u: "ur \<in> set (t_units (wdb w))" "ur_tenant_id ur = tid"
      "ur_id ur = cp_UnitID cmd" "u = toDomainUnit (local_off e) ur" by auto
    have "ur_id ur = pdr_unit_id ?row" "ur_tenant_id ur = pdr_tenant_id ?row"
      using u by (simp_all add: product_row_of_def new_product_def toDomainUnit_def)
    with read_with_stmt [OF 2(4) [unfolded product_repo_CreateProduct_def]] 2(3) u(1) ok sql_CreateProduct_ok [of ?row]
    show ?thesis by (auto simp: keeps_product_ok_def)
  qed (use ok in simp)
qed

lemma CreateVariant_ok:
  assumes ok: "product_ok (wdb w)" and run: "CreateVariant c cmd e w = (r, w')"
  shows "product_ok (wdb w')"
proof -
  consider "wdb w' = wdb w"
    | tid w1 w2 p i now w3 where "product_repo_GetProductByID c tid (cvr_ProductID cmd) e w1 = (Ret p, w2)" "wdb w1 = wdb w"
        "wdb w3 = wdb w" "product_repo_CreateVariant c (new_variant i tid cmd now) e w3 = (r, w')"
    using run unfolding CreateVariant_def
    by (elim bind_keeps_cases) (auto intro: keeps_intros simp: wrap_err_Ret_iff)
  then show ?thesis
  proof cases
    case (2 tid w1 w2 p i now w3)
    let ?row = "variant_row_of (new_variant i tid cmd now)"
    from GetProduct_found [OF 2(1)] 2(2) obtain pr where p: "pr \<in> set (t_products (wdb w))" "pdr_tenant_id pr = tid"
      "pdr_id pr = cvr_ProductID cmd" by auto
    have "pdr_id pr = pvr_product_id ?row" "pdr_tenant_id pr = pvr_tenant_id ?row"
      using p by (simp_all add: variant_row_of_def new_variant_def)
    with read_with_stmt [OF 2(4) [unfolded product_repo_CreateVariant_def]] 2(3) p(1) ok sql_CreateProductVariant_ok [of ?row]
    show ?thesis by (auto simp: keeps_product_ok_def)
  qed (use ok in simp)
qed

inductive product_run :: "db world \<Rightarrow> bool" where
  start: "t_units (wdb w) = [] \<Longrightarrow> t_products (wdb w) = [] \<Longrightarrow> t_product_variants (wdb w) = [] \<Longrightarrow> product_run w"
| unit: "product_run w \<Longrightarrow> CreateUnit c cu e w = (ru, w') \<Longrightarrow> product_run w'"
| conversion: "product_run w \<Longrightarrow> CreateConversion c cc e w = (rc, w') \<Longrightarrow> product_run w'"
| product: "product_run w \<Longrightarrow> CreateProduct c cmd e w = (r, w') \<Longrightarrow> product_run w'"
| change: "product_run w \<Longrightarrow> UpdateProduct c up e w = (r, w') \<Longrightarrow> product_run w'"
| variant: "product_run w \<Longrightarrow> CreateVariant c vc e w = (rv, w') \<Longrightarrow> product_run w'"
| delete: "product_run w \<Longrightarrow> DeleteVariant c i e w = (rd, w') \<Longrightarrow> product_run w'"
| elsewhere: "product_run w \<Longrightarrow> t_units (wdb w') = t_units (wdb w) \<Longrightarrow> t_products (wdb w') = t_products (wdb w) \<Longrightarrow>
    t_product_variants (wdb w') = t_product_variants (wdb w) \<Longrightarrow> product_run w'"

lemma product_run_ok: "product_run w \<Longrightarrow> product_ok (wdb w)"
proof (induction rule: product_run.induct)
  case (unit w c cu e ru w')
  then show ?case using staysD [OF product_writes_stay(1)] by (metis keeps_product_ok_def)
next
  case (conversion w c cc e rc w')
  then show ?case using staysD [OF product_writes_stay(2)] by (metis keeps_product_ok_def)
next
  case (change w c up e r w')
  then show ?case using staysD [OF product_writes_stay(3)] by (metis keeps_product_ok_def)
next
  case (delete w c i e rd w')
  then show ?case using staysD [OF product_writes_stay(4)] by (metis keeps_product_ok_def)
next
  case (elsewhere w w')
  then show ?case by (simp add: product_ok_def)
next
  case (start w)
  then show ?case by (simp add: product_ok_def)
qed (auto intro: CreateProduct_ok CreateVariant_ok)

section \<open>Reading back a product\<close>

lemma find_unit:
  assumes "distinct (map ur_id (t_units d))" and "u \<in> set (t_units d)"
  shows "unit_of d (ur_id u) = Some u"
  unfolding unit_of_def by (rule find_key_unique [OF assms])

lemma CreateProduct_Ret:
  assumes "CreateProduct c cmd e w = (Ret p, w')"
  obtains tid ur i now where "RequireTenantID c = Ret tid" "ur \<in> set (t_units (wdb w))" "ur_tenant_id ur = tid"
    "\<exists>t. sql_CreateProduct (product_row_of (new_product i tid cmd (toDomainUnit (local_off e) ur) now)) t (wdb w)
       = (Ret (product_row_of (new_product i tid cmd (toDomainUnit (local_off e) ur) now)), wdb w')"
    "p = (new_product i tid cmd (toDomainUnit (local_off e) ur) now)
       \<lparr>pd_CreatedAt := ts_local (local_off e) (to_micro now), pd_UpdatedAt := ts_local (local_off e) (to_micro now)\<rparr>"
proof -
  from assms obtain tid w1 w2 u w3 i w4 now w5 where t: "RequireTenantID c = Ret tid"
    and a: "check_sku c tid (TrimSpace (cp_SKU cmd)) e w = (Ret (), w2)"
    and b: "product_repo_GetUnitByID c tid (cp_UnitID cmd) e w2 = (Ret u, w3)"
    and i: "NewID e w3 = (Ret i, w4)" and n: "Now e w4 = (Ret now, w5)"
    and cr: "product_repo_CreateProduct c (new_product i tid cmd u now) e w5 = (Ret p, w')"
    unfolding CreateProduct_def bindP_Ret_iff lift_res_Ret_iff guard_Ret_iff wrap_err_Ret_iff by auto
  have w: "wdb w2 = wdb w" "wdb w3 = wdb w" "wdb w4 = wdb w" "wdb w5 = wdb w"
    using keepsD [OF product_reads_keep(5) a] keepsD [OF product_reads_keep(1) b] keepsD [OF keeps_ret(5) i]
      keepsD [OF keeps_ret(6) n] by simp_all
  from GetUnit_found [OF b] w obtain ur where ur: "ur \<in> set (t_units (wdb w))" "ur_tenant_id ur = tid"
    "u = toDomainUnit (local_off e) ur" by auto
  from cr obtain row tt where row: "sql_CreateProduct (product_row_of (new_product i tid cmd u now)) tt (wdb w) = (Ret row, wdb w')"
    and p: "p = (new_product i tid cmd u now)\<lparr>pd_ID := pdr_id row, pd_CreatedAt := ts_local (local_off e) (pdr_created_at row),
         pd_UpdatedAt := ts_local (local_off e) (pdr_updated_at row)\<rparr>"
    unfolding product_repo_CreateProduct_def read_with_Ret_iff stmt_Ret_outside [OF ctx_tx_simps(1)] using w by auto
  have "row = product_row_of (new_product i tid cmd u now)" by (rule sql_CreateProduct_Ret(1) [OF row])
  then show thesis
    using that [OF t ur(1,2)] row p ur(3) by (auto simp: product_row_of_def new_product_def)
qed

lemma GetProduct_answers:
  assumes e: "\<forall>n. fault_at e n = NoFault" and t: "RequireTenantID c = Ret tid"
    and j: "joined_products (\<lambda>r. pg_eq (pdr_tenant_id r) tid \<and> pg_eq (pdr_id r) i) (wdb w) = [x]"
    and v: "sql_ListProductVariants tid i (wdb w) = vs"
  shows "fst (GetProductByID c i e w) = Ret ((toDomainProduct (local_off e) x)\<lparr>pd_Variants := map (toDomainVariant (local_off e)) vs\<rparr>)"
  using t j v
  by (simp add: GetProductByID_def product_repo_GetProductByID_def product_repo_ListVariants_def read_with_def
      bindP_eval afterP_simps lift_res_def norows_notfound_def query_answers [OF e] sql_GetProductByID_def first_row_def
      ask_env_def ret_def)

lemma created_product_readable:
  assumes ok: "product_ok (wdb w)" and cr: "CreateProduct c cmd e w = (Ret p, w')"
    and e: "\<forall>n. fault_at e' n = NoFault" "local_off e' = local_off e"
  shows "fst (GetProductByID c (pd_ID p) e' w') = Ret (p\<lparr>pd_Metadata := map_of_json (json_of_map (pd_Metadata p))\<rparr>)"
proof -
  from cr obtain tid ur i now where tid: "RequireTenantID c = Ret tid"
    and ur: "ur \<in> set (t_units (wdb w))" "ur_tenant_id ur = tid"
    and ex: "\<exists>t. sql_CreateProduct (product_row_of (new_product i tid cmd (toDomainUnit (local_off e) ur) now)) t (wdb w)
       = (Ret (product_row_of (new_product i tid cmd (toDomainUnit (local_off e) ur) now)), wdb w')"
    and p: "p = (new_product i tid cmd (toDomainUnit (local_off e) ur) now)
       \<lparr>pd_CreatedAt := ts_local (local_off e) (to_micro now), pd_UpdatedAt := ts_local (local_off e) (to_micro now)\<rparr>"
    by (rule CreateProduct_Ret)
  from ex obtain t where sq: "sql_CreateProduct (product_row_of (new_product i tid cmd (toDomainUnit (local_off e) ur) now)) t (wdb w)
       = (Ret (product_row_of (new_product i tid cmd (toDomainUnit (local_off e) ur) now)), wdb w')" ..
  define row where "row = product_row_of (new_product i tid cmd (toDomainUnit (local_off e) ur) now)"
  note c = sql_CreateProduct_Ret [OF sq, folded row_def]
  have row: "pdr_id row = i" "pdr_tenant_id row = tid" "pdr_unit_id row = ur_id ur" and pid: "pd_ID p = i"
    by (simp_all add: row_def product_row_of_def new_product_def toDomainUnit_def p)
  have new: "i \<notin> pdr_id ` set (t_products (wdb w))" using c(3) row(1) by (auto simp: product_clash_def)
  have nn: "i \<noteq> NilID" "tid \<noteq> NilID" using c(4,5) row by simp_all
  have "filter (\<lambda>r. pg_eq (pdr_tenant_id r) tid \<and> pg_eq (pdr_id r) i) (t_products (wdb w')) = [row]"
    using new nn row by (auto simp: c(2) pg_eq_def filter_empty_conv image_iff)
  moreover have "unit_of (wdb w') (ur_id ur) = Some ur"
    using find_unit [OF product_okD(1) [OF ok] ur(1)] by (simp add: unit_of_def c(2))
  ultimately have j: "joined_products (\<lambda>r. pg_eq (pdr_tenant_id r) tid \<and> pg_eq (pdr_id r) i) (wdb w') = [(row, ur_code ur, ur_symbol ur)]"
    by (simp add: joined_products_def map_filter_simps row)
  have "\<forall>v \<in> set (t_product_variants (wdb w)). pvr_product_id v \<noteq> i"
    using product_okD(4) [OF ok] new by (metis image_eqI)
  then have v: "sql_ListProductVariants tid i (wdb w') = []"
    by (auto simp: sql_ListProductVariants_def c(2) pg_eq_def filter_empty_conv)
  show ?thesis
    using GetProduct_answers [OF e(1) tid j v] e(2) ur
    by (simp add: pid toDomainProduct_def p row_def product_row_of_def new_product_def toDomainUnit_def)
qed

section \<open>Pages\<close>

definition all_products :: "ID \<Rightarrow> db \<Rightarrow> joined_product list" where
  "all_products tid d = sort_key (\<lambda>x. - pdr_created_at (fst x)) (joined_products (product_match tid None None) d)"

lemma ListProducts_answers:
  assumes e: "\<forall>n. fault_at e n = NoFault" and t: "RequireTenantID c = Ret tid"
    and s: "0 < sint s" "sint s < 20" and p: "p \<in> {1, 2}"
  shows "\<exists>l. fst (ListProducts c p s None None e w) = Ret l \<and> lres_PageSize l = s \<and>
     lres_Items l = map (toDomainProduct (local_off e)) (take 20 (drop (nat ((sint p - 1) * sint s)) (all_products tid (wdb w))))"
proof -
  have pp: "page_params p s = (p, s, (p - 1) * s)"
    using s p by (auto simp: page_params_def word_sless_alt)
  have "sint ((p - 1) * s) = (sint p - 1) * sint s" "0 \<le> (sint p - 1) * sint s" using p s by auto
  then show ?thesis
    using s
    by (simp add: ListProducts_def t pp product_repo_ListProducts_def read_with_def bindP_eval afterP_simps lift_res_def
        query_answers [OF e] ask_env_def ret_def sql_ListProducts_def limit_offset_def all_products_def max_def)
qed

section \<open>Properties\<close>

definition ex_env :: env where
  "ex_env = \<lparr>fault_at = (\<lambda>_. NoFault), newid_at = (\<lambda>n. Some (of_nat (Suc n))), clock_at = (\<lambda>_. 0), dbnow_at = (\<lambda>_. 0),
     local_off = (\<lambda>_. 0), cvt_int64 = (\<lambda>_. 0)\<rparr>"

definition ex_ctx :: ctx where
  "ex_ctx = WithTenantID Background 5"

definition ex_unit_world :: "db world" where
  "ex_unit_world = snd (CreateUnit ex_ctx \<lparr>cu_Code = ''PCS'', cu_Name = ''Pieces'', cu_Symbol = [], cu_Category = [], cu_Precision = 0\<rparr>
     ex_env \<lparr>wdb = empty_db, wtx = None, tick = 0\<rparr>)"

definition ex_product :: CreateProductCommand where
  "ex_product = \<lparr>cp_Type = [], cp_SKU = [], cp_Barcode = [], cp_Name = ''Bolt'', cp_Description = [], cp_UnitID = 1, cp_Metadata = None\<rparr>"

text \<open>C28. A created product can be read back. In every run of the product use cases, with any refusals and lost
  replies before, the product \<open>CreateProduct\<close> returned is what \<open>GetProductByID\<close> returns
  afterwards from a server that answers: the same identifier, unit, texts and times, no variants,
  and the metadata as they come back from JSON (numbers as \<open>float64\<close>).\<close>

theorem product_roundtrip:
  assumes "product_run w" and "CreateProduct c cmd e w = (Ret p, w')"
    and "\<forall>n. fault_at e' n = NoFault" and "local_off e' = local_off e"
  shows "fst (GetProductByID c (pd_ID p) e' w') = Ret (p\<lparr>pd_Metadata := map_of_json (json_of_map (pd_Metadata p))\<rparr>)"
  by (rule created_product_readable [OF product_run_ok [OF assms(1)] assms(2-4)])

lemmas ex_product_eval = ex_unit_world_def ex_env_def ex_ctx_def ex_product_def proc_eval CreateUnit_def CreateProduct_def
  product_repo_CreateUnit_def read_with_def sql_CreateUnit_def insert_row_def unit_row_of_def toDomainUnit_def check_sku_def
  product_repo_GetUnitByID_def sql_GetUnitByID_def select_one_def pg_eq_def product_repo_CreateProduct_def sql_CreateProduct_def
  product_row_of_def new_product_def RequireTenantID_def GetTenantID_def NilID_def WithTenantID_def Background_def pool_ctx_def
  NormalizeCode_def ts_local_def or_empty_def ptr_of_str_def

lemma ex_trim: "TrimSpace ''PCS'' = ''PCS''" "TrimSpace ''Pieces'' = ''Pieces''" "TrimSpace ''Bolt'' = ''Bolt''" "ToUpper ''PCS'' = ''PCS''"
  by code_simp+

lemma ex_product_created: "\<exists>p. fst (CreateProduct ex_ctx ex_product ex_env ex_unit_world) = Ret p \<and> pd_ID p = 5 \<and> pd_Name p = ''Bolt''"
  by (simp add: ex_product_eval ex_trim cong: proc_congs)

theorem product_roundtrip_witness:
  "\<exists>p. fst (CreateProduct ex_ctx ex_product ex_env ex_unit_world) = Ret p \<and> pd_Name p = ''Bolt'' \<and>
     fst (GetProductByID ex_ctx (pd_ID p) ex_env (snd (CreateProduct ex_ctx ex_product ex_env ex_unit_world)))
       = Ret (p\<lparr>pd_Metadata := map_of_json (json_of_map (pd_Metadata p))\<rparr>)"
proof -
  from ex_product_created obtain p where p: "fst (CreateProduct ex_ctx ex_product ex_env ex_unit_world) = Ret p" "pd_Name p = ''Bolt''" by blast
  have "product_run ex_unit_world" unfolding ex_unit_world_def
    by (rule product_run.unit [OF product_run.start prod.collapse [symmetric]]) simp_all
  moreover have "CreateProduct ex_ctx ex_product ex_env ex_unit_world = (Ret p, snd (CreateProduct ex_ctx ex_product ex_env ex_unit_world))"
    using p(1) by (metis prod.collapse)
  moreover have "\<forall>n. fault_at ex_env n = NoFault" by (simp add: ex_env_def)
  ultimately show ?thesis using product_roundtrip p by blast
qed

text \<open>\<open>ListProducts\<close> takes page sizes from 1 to 100, but the repository raises the limit of the query to at
  least 20 and not the offset: with a page size below 20 and more products than fit on a page,
  the first two pages have a product in common, although the result reports the requested size.\<close>

theorem product_pages_overlap:
  assumes "\<forall>n. fault_at e n = NoFault" and "RequireTenantID c = Ret tid"
    and "0 < sint s" and "sint s < 20" and "sint s < int (length (all_products tid (wdb w)))"
  shows "\<exists>l1 l2. fst (ListProducts c 1 s None None e w) = Ret l1 \<and> fst (ListProducts c 2 s None None e w) = Ret l2 \<and>
     lres_PageSize l1 = s \<and> set (lres_Items l1) \<inter> set (lres_Items l2) \<noteq> {}"
proof -
  let ?k = "nat (sint s)" and ?all = "all_products tid (wdb w)"
  from ListProducts_answers [OF assms(1-4), of 1 w] obtain l1 where l1: "fst (ListProducts c 1 s None None e w) = Ret l1"
    "lres_PageSize l1 = s" "lres_Items l1 = map (toDomainProduct (local_off e)) (take 20 ?all)" by auto
  from ListProducts_answers [OF assms(1-4), of 2 w] obtain l2 where l2: "fst (ListProducts c 2 s None None e w) = Ret l2"
    "lres_Items l2 = map (toDomainProduct (local_off e)) (take 20 (drop ?k ?all))" by auto
  have k: "?k < 20" "?k < length ?all" using assms(3-5) by auto
  have "?all ! ?k \<in> set (take 20 ?all)" using k by (auto simp: in_set_conv_nth intro!: exI [of _ ?k])
  moreover have "?all ! ?k \<in> set (take 20 (drop ?k ?all))" using k by (auto simp: in_set_conv_nth intro!: exI [of _ 0])
  ultimately show ?thesis using l1 l2 by auto
qed

definition ex_catalog :: "db world" where
  "ex_catalog = \<lparr>wdb = empty_db
     \<lparr>t_units := [\<lparr>ur_id = 1, ur_tenant_id = 5, ur_code = ''PCS'', ur_name = ''Pieces'', ur_symbol = ''pcs'', ur_category = ''quantity'',
        ur_precision = 0, ur_status = ''active'', ur_created_at = 0, ur_updated_at = 0\<rparr>],
      t_products := map (\<lambda>i. \<lparr>pdr_id = i, pdr_tenant_id = 5, pdr_type = ''goods'', pdr_sku = None, pdr_barcode = None, pdr_name = ''Bolt'',
        pdr_description = None, pdr_unit_id = 1, pdr_status = ''active'', pdr_metadata = JObj [], pdr_created_at = 0, pdr_updated_at = 0\<rparr>) [2, 3]\<rparr>,
     wtx = None, tick = 0\<rparr>"

theorem product_pages_overlap_witness:
  "\<exists>l1 l2. fst (ListProducts ex_ctx 1 1 None None ex_env ex_catalog) = Ret l1 \<and>
     fst (ListProducts ex_ctx 2 1 None None ex_env ex_catalog) = Ret l2 \<and>
     lres_PageSize l1 = 1 \<and> set (lres_Items l1) \<inter> set (lres_Items l2) \<noteq> {}"
proof -
  have "length (all_products 5 (wdb ex_catalog)) = 2"
    by (simp add: all_products_def joined_products_def product_match_def opt_match_def unit_of_def map_filter_simps pg_eq_def NilID_def ex_catalog_def)
  moreover have "RequireTenantID ex_ctx = Ret 5" by (simp add: ex_ctx_def WithTenantID_def Background_def RequireTenantID_def GetTenantID_def NilID_def)
  ultimately show ?thesis using product_pages_overlap [of ex_env ex_ctx 5 1 ex_catalog] by (simp add: ex_env_def)
qed

end
