(* ===== verification/Tenant.thy ===== *)
theory Tenant
  imports IamTables
begin

text \<open>
  Tenants: \<open>internal/core/domain/shared/tenant.go\<close>, the repository
  (\<open>tenant_repo.go\<close>, \<open>sqlc/tenants.sql.go\<close>) and the use case
  (\<open>internal/core/usecase/tenant/tenant_usecase.go\<close>).
\<close>

definition TenantStatusActive :: string where "TenantStatusActive = ''active''"

record Tenant =
  te_ID :: ID
  te_Code :: string
  te_Name :: string
  te_Status :: string
  te_Settings :: gomap
  te_CreatedAt :: gotime
  te_UpdatedAt :: gotime

definition Tenant_IsActive :: "Tenant \<Rightarrow> bool" where
  "Tenant_IsActive t \<longleftrightarrow> te_Status t = TenantStatusActive"

section \<open>Statements\<close>

definition tenant_clash :: "tenant_row \<Rightarrow> tenant_row \<Rightarrow> bool" where
  "tenant_clash r s \<longleftrightarrow> tn_id r = tn_id s \<or> tn_code r = tn_code s"

definition sql_CreateTenant :: "tenant_row \<Rightarrow> int \<Rightarrow> iam_db \<Rightarrow> tenant_row res \<times> iam_db" where
  "sql_CreateTenant r t d =
     (case insert_row tenant_clash (tn_id r \<noteq> NilID) r (t_tenants d) of (x, rs) \<Rightarrow> (x, d\<lparr>t_tenants := rs\<rparr>))"

definition sql_GetTenantByID :: "ID \<Rightarrow> iam_db \<Rightarrow> tenant_row res" where
  "sql_GetTenantByID i d = select_one (\<lambda>r. pg_eq (tn_id r) i) (t_tenants d)"

definition sql_GetTenantByCode :: "string \<Rightarrow> iam_db \<Rightarrow> tenant_row res" where
  "sql_GetTenantByCode code d = select_one (\<lambda>r. tn_code r = code) (t_tenants d)"

definition sql_CountTenants :: "iam_db \<Rightarrow> int" where
  "sql_CountTenants d = int (length (t_tenants d))"

definition sql_ListTenants :: "int \<Rightarrow> int \<Rightarrow> iam_db \<Rightarrow> tenant_row list" where
  "sql_ListTenants l k d = limit_offset l k (sort_key (\<lambda>r. - tn_created_at r) (t_tenants d))"

record UpdateTenantParams =
  ut_ID :: ID
  ut_Name :: "string option"
  ut_Status :: "string option"
  ut_Settings :: "json option"

definition sql_UpdateTenant :: "UpdateTenantParams \<Rightarrow> int \<Rightarrow> iam_db \<Rightarrow> tenant_row res \<times> iam_db" where
  "sql_UpdateTenant a t d =
     (case update_returning (\<lambda>r. pg_eq (tn_id r) (ut_ID a))
        (\<lambda>r. r\<lparr>tn_name := coalesce (ut_Name a) (tn_name r), tn_status := coalesce (ut_Status a) (tn_status r),
               tn_settings := coalesce (ut_Settings a) (tn_settings r), tn_updated_at := t\<rparr>) (t_tenants d)
      of (x, rs) \<Rightarrow> (x, d\<lparr>t_tenants := rs\<rparr>))"

section \<open>Repository\<close>

definition toDomainTenant :: "(int \<Rightarrow> int) \<Rightarrow> tenant_row \<Rightarrow> Tenant" where
  "toDomainTenant lo row =
     \<lparr>te_ID = tn_id row, te_Code = tn_code row, te_Name = tn_name row, te_Status = tn_status row,
      te_Settings = or_empty (map_of_json (tn_settings row)), te_CreatedAt = ts_local lo (tn_created_at row),
      te_UpdatedAt = ts_local lo (tn_updated_at row)\<rparr>"

definition tenant_row_of :: "Tenant \<Rightarrow> tenant_row" where
  "tenant_row_of t =
     \<lparr>tn_id = te_ID t, tn_code = te_Code t, tn_name = te_Name t, tn_status = te_Status t,
      tn_settings = json_of_map (te_Settings t), tn_created_at = to_micro (te_CreatedAt t),
      tn_updated_at = to_micro (te_UpdatedAt t)\<rparr>"

definition tenant_repo_Create :: "ctx \<Rightarrow> Tenant \<Rightarrow> Tenant iamproc" where
  "tenant_repo_Create c t = read_with toDomainTenant (stmt (pool_ctx c) (sql_CreateTenant (tenant_row_of t)))"

definition tenant_repo_GetByID :: "ctx \<Rightarrow> ID \<Rightarrow> Tenant iamproc" where
  "tenant_repo_GetByID c i = read_with toDomainTenant (norows_notfound (query (pool_ctx c) (sql_GetTenantByID i)))"

definition tenant_repo_GetByCode :: "ctx \<Rightarrow> string \<Rightarrow> Tenant iamproc" where
  "tenant_repo_GetByCode c code =
     read_with toDomainTenant (norows_notfound (query (pool_ctx c) (sql_GetTenantByCode code)))"

definition tenant_repo_List :: "ctx \<Rightarrow> int32 \<Rightarrow> int32 \<Rightarrow> (Tenant list \<times> int) iamproc" where
  "tenant_repo_List c limit offset =
     bindP (query (pool_ctx c) (\<lambda>d. Ret (sql_CountTenants d))) (\<lambda>tot.
     bindP (read_with (\<lambda>lo. map (toDomainTenant lo))
       (query (pool_ctx c) (\<lambda>d. if sint limit < 0 \<or> sint offset < 0 then Fail (Opaque ''negative limit'')
          else Ret (sql_ListTenants (sint limit) (sint offset) d)))) (\<lambda>tenants.
     ret (tenants, tot)))"

definition tenant_params :: "Tenant \<Rightarrow> UpdateTenantParams" where
  "tenant_params t =
     \<lparr>ut_ID = te_ID t, ut_Name = Some (te_Name t), ut_Status = Some (te_Status t),
      ut_Settings = (case te_Settings t of None \<Rightarrow> None | Some kvs \<Rightarrow> Some (JObj kvs))\<rparr>"

definition tenant_repo_Update :: "ctx \<Rightarrow> Tenant \<Rightarrow> Tenant iamproc" where
  "tenant_repo_Update c t =
     read_with toDomainTenant (norows_notfound (stmt (pool_ctx c) (sql_UpdateTenant (tenant_params t))))"

section \<open>Use case\<close>

record CreateTenantCommand =
  ct_Code :: string
  ct_Name :: string
  ct_Settings :: gomap

record UpdateTenantCommand =
  utc_ID :: ID
  utc_Name :: string
  utc_Status :: string
  utc_Settings :: gomap

definition CreateTenant :: "ctx \<Rightarrow> CreateTenantCommand \<Rightarrow> Tenant iamproc" where
  "CreateTenant c cmd =
     (let code = ToLower (TrimSpace (ct_Code cmd)); name = TrimSpace (ct_Name cmd)
      in bindP (guard (\<not> (code = [] \<or> name = [])) (Wrapped ''code and name are required'' ErrInvalidInput)) (\<lambda>_.
      bindP (must_not_exist ''tenant code already exists'' (tenant_repo_GetByCode c code)) (\<lambda>_.
      bindP NewID (\<lambda>i.
      bindP Now (\<lambda>now.
      tenant_repo_Create c
        \<lparr>te_ID = i, te_Code = code, te_Name = name, te_Status = TenantStatusActive,
         te_Settings = or_empty (ct_Settings cmd), te_CreatedAt = now, te_UpdatedAt = now\<rparr>)))))"

definition GetTenant :: "ctx \<Rightarrow> ID \<Rightarrow> Tenant iamproc" where
  "GetTenant c i = tenant_repo_GetByID c i"

definition GetTenantByCode :: "ctx \<Rightarrow> string \<Rightarrow> Tenant iamproc" where
  "GetTenantByCode c code0 =
     (let code = ToLower (TrimSpace code0)
      in bindP (guard (code \<noteq> []) (Wrapped ''code is required'' ErrInvalidInput)) (\<lambda>_. tenant_repo_GetByCode c code))"

definition ListTenants :: "ctx \<Rightarrow> int32 \<Rightarrow> int32 \<Rightarrow> Tenant list_result iamproc" where
  "ListTenants c page0 pageSize0 =
     (case page_params page0 pageSize0 of (page, pageSize, offset) \<Rightarrow>
      bindP (tenant_repo_List c pageSize offset) (\<lambda>(items, tot).
      ret \<lparr>lres_Items = items, lres_Total = tot, lres_Page = page, lres_PageSize = pageSize\<rparr>))"

definition apply_tenant_update :: "UpdateTenantCommand \<Rightarrow> gotime \<Rightarrow> Tenant \<Rightarrow> Tenant" where
  "apply_tenant_update cmd now t =
     (let t1 = (if utc_Name cmd \<noteq> [] then t\<lparr>te_Name := TrimSpace (utc_Name cmd)\<rparr> else t);
          t2 = (if utc_Status cmd \<noteq> [] then t1\<lparr>te_Status := utc_Status cmd\<rparr> else t1);
          t3 = (if utc_Settings cmd \<noteq> None then t2\<lparr>te_Settings := utc_Settings cmd\<rparr> else t2)
      in t3\<lparr>te_UpdatedAt := now\<rparr>)"

definition UpdateTenant :: "ctx \<Rightarrow> UpdateTenantCommand \<Rightarrow> Tenant iamproc" where
  "UpdateTenant c cmd =
     bindP (tenant_repo_GetByID c (utc_ID cmd)) (\<lambda>t.
     bindP Now (\<lambda>now.
     tenant_repo_Update c (apply_tenant_update cmd now t)))"

end
