(* ===== verification/Jwt.thy ===== *)
theory Jwt
  imports Effects
begin

text \<open>
  \<open>pkg/auth/jwt.go\<close> and \<open>password.go\<close>. Signing, parsing and bcrypt are third-party packages: the
  record \<open>crypto\<close> holds them as parameters. \<open>jwt_method\<close> is the family of the signing method named
  by the header of a token, \<open>None\<close> for a malformed token; \<open>jwt_verify\<close> checks the signature with a
  key and the registered times at an instant. What the program relies on is \<open>crypto_law\<close>: a token
  signed with a key has the compact form (a base64 JSON object first, no white space), is accepted
  with that key up to its expiry and yields the claims, and a hash accepts the password it was
  made from.
\<close>

record TokenClaims =
  tk_UserID :: ID
  tk_TenantID :: ID
  tk_Email :: string
  tk_Name :: string
  tk_Roles :: "string list"
  tk_Permissions :: "string list"
  tk_Subject :: string
  tk_Issuer :: string
  tk_IssuedAt :: int
  tk_ExpiresAt :: int

record crypto =
  jwt_sign :: "string \<Rightarrow> TokenClaims \<Rightarrow> string res"
  jwt_method :: "string \<Rightarrow> string option"
  jwt_verify :: "string \<Rightarrow> int \<Rightarrow> string \<Rightarrow> TokenClaims res"
  bcrypt_hash :: "nat \<Rightarrow> string \<Rightarrow> string res"
  bcrypt_compare :: "string \<Rightarrow> string \<Rightarrow> bool"

record tokenManager =
  tm_secretKey :: string
  tm_issuer :: string

definition NewTokenManager :: "string \<Rightarrow> string \<Rightarrow> tokenManager" where
  "NewTokenManager secretKey issuer =
     \<lparr>tm_secretKey = (if secretKey = [] then ''mergiate-default-insecure-secret-key-change-in-prod'' else secretKey),
      tm_issuer = (if issuer = [] then ''mergiate-core'' else issuer)\<rparr>"

text \<open>\<open>jwt.NewNumericDate\<close> keeps whole seconds.\<close>

definition numeric_date :: "gotime \<Rightarrow> int" where
  "numeric_date t = ns t div Second"

definition new_claims ::
    "tokenManager \<Rightarrow> gotime \<Rightarrow> ID \<Rightarrow> ID \<Rightarrow> string \<Rightarrow> string \<Rightarrow> string list \<Rightarrow> string list \<Rightarrow> duration \<Rightarrow> TokenClaims" where
  "new_claims m now userID tenantID email name roles permissions ttl =
     \<lparr>tk_UserID = userID, tk_TenantID = tenantID, tk_Email = email, tk_Name = name, tk_Roles = roles,
      tk_Permissions = permissions, tk_Subject = ID_String userID, tk_Issuer = tm_issuer m,
      tk_IssuedAt = numeric_date now, tk_ExpiresAt = numeric_date (Time_Add now ttl)\<rparr>"

definition GenerateToken ::
    "crypto \<Rightarrow> tokenManager \<Rightarrow> ID \<Rightarrow> ID \<Rightarrow> string \<Rightarrow> string \<Rightarrow> string list \<Rightarrow> string list \<Rightarrow> duration \<Rightarrow> ('db, string) proc" where
  "GenerateToken k m userID tenantID email name roles permissions ttl0 =
     (let ttl = (if ttl0 = 0 then 24 * 3600 * Second else ttl0)
      in bindP Now (\<lambda>now.
         lift_res (jwt_sign k (tm_secretKey m) (new_claims m now userID tenantID email name roles permissions ttl))))"

definition ValidateToken :: "crypto \<Rightarrow> tokenManager \<Rightarrow> string \<Rightarrow> ('db, TokenClaims) proc" where
  "ValidateToken k m tokenStr =
     bindP Now (\<lambda>now.
     case jwt_method k tokenStr of
       None \<Rightarrow> fail (Wrapped ''token is malformed'' ErrInvalidToken)
     | Some alg \<Rightarrow>
         if alg \<noteq> ''HMAC'' then fail (Wrapped ''unexpected signing method'' ErrInvalidToken)
         else (case jwt_verify k (tm_secretKey m) (ns now) tokenStr of
             Ret claims \<Rightarrow> ret claims
           | Fail er \<Rightarrow> fail (Wrapped ''token verification'' ErrInvalidToken)
           | Panic p \<Rightarrow> lift_res (Panic p)))"

definition HashPassword :: "crypto \<Rightarrow> string \<Rightarrow> ('db, string) proc" where
  "HashPassword k password =
     (\<lambda>e w. (bcrypt_hash k (tick w) password, w\<lparr>tick := Suc (tick w)\<rparr>))"

definition CheckPasswordHash :: "crypto \<Rightarrow> string \<Rightarrow> string \<Rightarrow> bool" where
  "CheckPasswordHash k password hash = bcrypt_compare k hash password"

definition crypto_law :: "crypto \<Rightarrow> bool" where
  "crypto_law k \<longleftrightarrow>
     (\<forall>key cl tok. jwt_sign k key cl = Ret tok \<longrightarrow>
        jwt_method k tok = Some ''HMAC'' \<and> HasPrefix tok ''eyJ'' \<and> TrimSpace tok = tok \<and>
        (\<forall>now. now < tk_ExpiresAt cl * Second \<longrightarrow> jwt_verify k key now tok = Ret cl)) \<and>
     (\<forall>n pw h. bcrypt_hash k n pw = Ret h \<longrightarrow> bcrypt_compare k h pw)"

lemma GenerateToken_Ret:
  assumes "GenerateToken k m u t em nm rs ps ttl e w = (Ret tok, w')"
  obtains cl where "jwt_sign k (tm_secretKey m) cl = Ret tok" "tk_UserID cl = u" "tk_TenantID cl = t" "tk_Email cl = em"
    "tk_Name cl = nm" "tk_Roles cl = rs" "tk_Permissions cl = ps" "wdb w' = wdb w"
    "tk_ExpiresAt cl = (clock_at e (tick w) + (if ttl = 0 then 24 * 3600 * Second else ttl)) div Second"
  using assms that
  by (auto simp: GenerateToken_def Let_def bindP_Ret_iff proc_simps new_claims_def numeric_date_def Time_Add_def utc_of_ns_def)

lemma keeps_jwt [keeps_intros]:
  "keeps_db (GenerateToken k m u t em nm rs ps ttl)" "keeps_db (ValidateToken k m tok)" "keeps_db (HashPassword k pw)"
  unfolding GenerateToken_def ValidateToken_def Let_def
  by (auto intro!: keeps_intros split: option.splits res.splits) (simp add: keeps_db_def HashPassword_def)

lemma ValidateToken_Ret:
  assumes "ValidateToken k m tok e w = (Ret cl, w')"
  shows "jwt_method k tok = Some ''HMAC''" "jwt_verify k (tm_secretKey m) (clock_at e (tick w)) tok = Ret cl"
    "w' = w\<lparr>tick := Suc (tick w)\<rparr>"
  using assms
  by (auto simp: ValidateToken_def bindP_Ret_iff proc_simps utc_of_ns_def split: option.splits res.splits if_splits)

end
