(* ===== verification/Identity.thy ===== *)
theory Identity
  imports Tenant Jwt
begin

text \<open>
  Users, memberships, roles and permissions: \<open>internal/core/domain/identity/user.go\<close> and
  \<open>role.go\<close>, the repository (\<open>identity_repo.go\<close>, \<open>sqlc/identity.sql.go\<close>) and the use case
  (\<open>internal/core/usecase/identity/identity_usecase.go\<close>). All statements run on the pool.
\<close>

section \<open>Domain\<close>

definition UserStatusActive :: string where "UserStatusActive = ''active''"
definition MembershipStatusActive :: string where "MembershipStatusActive = ''active''"

record User =
  u_ID :: ID
  u_Email :: string
  u_PasswordHash :: string
  u_Name :: string
  u_Status :: string
  u_CreatedAt :: gotime
  u_UpdatedAt :: gotime

record TenantUser =
  mb_ID :: ID
  mb_TenantID :: ID
  mb_UserID :: ID
  mb_Status :: string
  mb_JoinedAt :: gotime

record TenantMembership =
  tms_TenantID :: ID
  tms_TenantCode :: string
  tms_TenantName :: string
  tms_TenantStatus :: string
  tms_MembershipStatus :: string
  tms_JoinedAt :: gotime

record Permission =
  per_ID :: ID
  per_Code :: string
  per_Name :: string
  per_Category :: string
  per_Description :: string

record Role =
  rol_ID :: ID
  rol_TenantID :: ID
  rol_Code :: string
  rol_Name :: string
  rol_Description :: string
  rol_IsSystem :: bool
  rol_Permissions :: "Permission list"
  rol_CreatedAt :: gotime
  rol_UpdatedAt :: gotime

record TenantUserItem =
  tui_UserID :: ID
  tui_Email :: string
  tui_Name :: string
  tui_UserStatus :: string
  tui_MembershipStatus :: string
  tui_JoinedAt :: gotime
  tui_Roles :: "Role list"

section \<open>Statements\<close>

definition user_clash :: "user_row \<Rightarrow> user_row \<Rightarrow> bool" where
  "user_clash r s \<longleftrightarrow> us_id r = us_id s \<or> us_email r = us_email s"

definition sql_CreateUser :: "user_row \<Rightarrow> int \<Rightarrow> iam_db \<Rightarrow> user_row res \<times> iam_db" where
  "sql_CreateUser r t d =
     (case insert_row user_clash (us_id r \<noteq> NilID) r (t_users d) of (x, rs) \<Rightarrow> (x, d\<lparr>t_users := rs\<rparr>))"

definition sql_GetUserByEmail :: "string \<Rightarrow> iam_db \<Rightarrow> user_row res" where
  "sql_GetUserByEmail email d = select_one (\<lambda>r. us_email r = email) (t_users d)"

definition sql_GetUserByID :: "ID \<Rightarrow> iam_db \<Rightarrow> user_row res" where
  "sql_GetUserByID i d = select_one (\<lambda>r. pg_eq (us_id r) i) (t_users d)"

definition member_clash :: "tenant_user_row \<Rightarrow> tenant_user_row \<Rightarrow> bool" where
  "member_clash r s \<longleftrightarrow> tu_id r = tu_id s \<or> tu_tenant_id r = tu_tenant_id s \<and> tu_user_id r = tu_user_id s"

definition sql_AddTenantMember :: "tenant_user_row \<Rightarrow> int \<Rightarrow> iam_db \<Rightarrow> tenant_user_row res \<times> iam_db" where
  "sql_AddTenantMember r t d =
     (case insert_row member_clash (tu_id r \<noteq> NilID \<and> has_tenant d (tu_tenant_id r) \<and> has_user d (tu_user_id r)) r
        (t_tenant_users d) of (x, rs) \<Rightarrow> (x, d\<lparr>t_tenant_users := rs\<rparr>))"

definition sql_GetTenantMember :: "ID \<Rightarrow> ID \<Rightarrow> iam_db \<Rightarrow> tenant_user_row res" where
  "sql_GetTenantMember tenantID userID d =
     select_one (\<lambda>r. pg_eq (tu_tenant_id r) tenantID \<and> pg_eq (tu_user_id r) userID) (t_tenant_users d)"

definition sql_ListUserTenants :: "ID \<Rightarrow> iam_db \<Rightarrow> (tenant_row \<times> tenant_user_row) list" where
  "sql_ListUserTenants userID d =
     concat (map (\<lambda>tu. map (\<lambda>t. (t, tu)) (filter (\<lambda>t. tn_id t = tu_tenant_id tu) (t_tenants d)))
       (sort_key tu_joined_at (filter (\<lambda>tu. pg_eq (tu_user_id tu) userID) (t_tenant_users d))))"

definition sql_ListTenantUsers :: "ID \<Rightarrow> iam_db \<Rightarrow> (user_row \<times> tenant_user_row) list" where
  "sql_ListTenantUsers tenantID d =
     concat (map (\<lambda>tu. map (\<lambda>u. (u, tu)) (filter (\<lambda>u. us_id u = tu_user_id tu) (t_users d)))
       (sort_key tu_joined_at (filter (\<lambda>tu. pg_eq (tu_tenant_id tu) tenantID) (t_tenant_users d))))"

definition role_clash :: "role_row \<Rightarrow> role_row \<Rightarrow> bool" where
  "role_clash r s \<longleftrightarrow> ro_id r = ro_id s \<or> ro_tenant_id r = ro_tenant_id s \<and> ro_code r = ro_code s"

definition sql_CreateRole :: "role_row \<Rightarrow> int \<Rightarrow> iam_db \<Rightarrow> role_row res \<times> iam_db" where
  "sql_CreateRole r t d =
     (case insert_row role_clash (ro_id r \<noteq> NilID \<and> has_tenant d (ro_tenant_id r)) r (t_roles d)
      of (x, rs) \<Rightarrow> (x, d\<lparr>t_roles := rs\<rparr>))"

definition sql_GetRoleByID :: "ID \<Rightarrow> ID \<Rightarrow> iam_db \<Rightarrow> role_row res" where
  "sql_GetRoleByID tenantID i d = select_one (\<lambda>r. pg_eq (ro_tenant_id r) tenantID \<and> pg_eq (ro_id r) i) (t_roles d)"

definition sql_GetRoleByCode :: "ID \<Rightarrow> string \<Rightarrow> iam_db \<Rightarrow> role_row res" where
  "sql_GetRoleByCode tenantID code d = select_one (\<lambda>r. pg_eq (ro_tenant_id r) tenantID \<and> ro_code r = code) (t_roles d)"

definition sql_ListRoles :: "ID \<Rightarrow> iam_db \<Rightarrow> role_row list" where
  "sql_ListRoles tenantID d = sort_key ro_name (filter (\<lambda>r. pg_eq (ro_tenant_id r) tenantID) (t_roles d))"

definition sql_ListPermissions :: "iam_db \<Rightarrow> permission_row list" where
  "sql_ListPermissions d = sort_key pm_category (sort_key pm_code (t_permissions d))"

text \<open>\<open>ON CONFLICT DO NOTHING\<close>\<close>

definition sql_AssignPermissionToRole :: "role_permission_row \<Rightarrow> int \<Rightarrow> iam_db \<Rightarrow> unit res \<times> iam_db" where
  "sql_AssignPermissionToRole r t d =
     (if rp_role_id r = NilID \<or> rp_permission_id r = NilID then (Fail (Opaque ''not-null constraint''), d)
      else if r \<in> set (t_role_permissions d) then (Ret (), d)
      else if \<not> (has_role d (rp_role_id r) \<and> has_permission d (rp_permission_id r))
      then (Fail (Opaque ''foreign key constraint''), d)
      else (Ret (), d\<lparr>t_role_permissions := t_role_permissions d @ [r]\<rparr>))"

definition sql_ClearRolePermissions :: "ID \<Rightarrow> int \<Rightarrow> iam_db \<Rightarrow> unit res \<times> iam_db" where
  "sql_ClearRolePermissions roleID t d =
     (Ret (), d\<lparr>t_role_permissions := filter (\<lambda>r. \<not> pg_eq (rp_role_id r) roleID) (t_role_permissions d)\<rparr>)"

definition permissions_of_role :: "ID \<Rightarrow> iam_db \<Rightarrow> permission_row list" where
  "permissions_of_role roleID d =
     concat (map (\<lambda>rp. filter (\<lambda>p. pm_id p = rp_permission_id rp) (t_permissions d))
       (filter (\<lambda>rp. rp_role_id rp = roleID) (t_role_permissions d)))"

definition sql_ListRolePermissions :: "ID \<Rightarrow> iam_db \<Rightarrow> permission_row list" where
  "sql_ListRolePermissions roleID d =
     (if roleID = NilID then [] else sort_key pm_code (permissions_of_role roleID d))"

definition sql_AssignUserRole :: "user_role_row \<Rightarrow> int \<Rightarrow> iam_db \<Rightarrow> unit res \<times> iam_db" where
  "sql_AssignUserRole r t d =
     (if ux_tenant_id r = NilID \<or> ux_user_id r = NilID \<or> ux_role_id r = NilID
      then (Fail (Opaque ''not-null constraint''), d)
      else if r \<in> set (t_user_roles d) then (Ret (), d)
      else if \<not> (has_tenant d (ux_tenant_id r) \<and> has_user d (ux_user_id r) \<and> has_role d (ux_role_id r))
      then (Fail (Opaque ''foreign key constraint''), d)
      else (Ret (), d\<lparr>t_user_roles := t_user_roles d @ [r]\<rparr>))"

definition sql_RemoveUserRole :: "ID \<Rightarrow> ID \<Rightarrow> ID \<Rightarrow> int \<Rightarrow> iam_db \<Rightarrow> unit res \<times> iam_db" where
  "sql_RemoveUserRole tenantID userID roleID t d =
     (Ret (), d\<lparr>t_user_roles := filter (\<lambda>r. \<not> (pg_eq (ux_tenant_id r) tenantID \<and> pg_eq (ux_user_id r) userID \<and>
        pg_eq (ux_role_id r) roleID)) (t_user_roles d)\<rparr>)"

definition roles_of_user :: "ID \<Rightarrow> ID \<Rightarrow> iam_db \<Rightarrow> role_row list" where
  "roles_of_user tenantID userID d =
     concat (map (\<lambda>ur. filter (\<lambda>r. ro_id r = ux_role_id ur) (t_roles d))
       (filter (\<lambda>ur. pg_eq (ux_tenant_id ur) tenantID \<and> pg_eq (ux_user_id ur) userID) (t_user_roles d)))"

definition sql_ListUserRolesInTenant :: "ID \<Rightarrow> ID \<Rightarrow> iam_db \<Rightarrow> role_row list" where
  "sql_ListUserRolesInTenant tenantID userID d = sort_key ro_name (roles_of_user tenantID userID d)"

text \<open>The order of a \<open>SELECT DISTINCT\<close> is up to the server; here it is that of the last occurrences.\<close>

definition sql_ListUserPermissionsInTenant :: "ID \<Rightarrow> ID \<Rightarrow> iam_db \<Rightarrow> string list" where
  "sql_ListUserPermissionsInTenant tenantID userID d =
     remdups (concat (map (\<lambda>r. map pm_code (permissions_of_role (ro_id r) d)) (roles_of_user tenantID userID d)))"

section \<open>Repository\<close>

definition user_row_of :: "User \<Rightarrow> user_row" where
  "user_row_of u =
     \<lparr>us_id = u_ID u, us_email = u_Email u, us_password_hash = u_PasswordHash u, us_name = u_Name u,
      us_status = u_Status u, us_created_at = to_micro (u_CreatedAt u), us_updated_at = to_micro (u_UpdatedAt u)\<rparr>"

definition user_of_row :: "(int \<Rightarrow> int) \<Rightarrow> user_row \<Rightarrow> User" where
  "user_of_row lo r =
     \<lparr>u_ID = us_id r, u_Email = us_email r, u_PasswordHash = us_password_hash r, u_Name = us_name r,
      u_Status = us_status r, u_CreatedAt = ts_local lo (us_created_at r), u_UpdatedAt = ts_local lo (us_updated_at r)\<rparr>"

definition repo_CreateUser :: "ctx \<Rightarrow> User \<Rightarrow> User iamproc" where
  "repo_CreateUser c u =
     read_with (\<lambda>lo row. u\<lparr>u_ID := us_id row, u_CreatedAt := ts_local lo (us_created_at row),
                           u_UpdatedAt := ts_local lo (us_updated_at row)\<rparr>)
       (stmt (pool_ctx c) (sql_CreateUser (user_row_of u)))"

definition repo_GetUserByEmail :: "ctx \<Rightarrow> string \<Rightarrow> User iamproc" where
  "repo_GetUserByEmail c email =
     read_with user_of_row (norows_notfound (query (pool_ctx c) (sql_GetUserByEmail email)))"

definition repo_GetUserByID :: "ctx \<Rightarrow> ID \<Rightarrow> User iamproc" where
  "repo_GetUserByID c i = read_with user_of_row (norows_notfound (query (pool_ctx c) (sql_GetUserByID i)))"

definition member_row_of :: "TenantUser \<Rightarrow> tenant_user_row" where
  "member_row_of m =
     \<lparr>tu_id = mb_ID m, tu_tenant_id = mb_TenantID m, tu_user_id = mb_UserID m, tu_status = mb_Status m,
      tu_joined_at = to_micro (mb_JoinedAt m)\<rparr>"

definition member_of_row :: "(int \<Rightarrow> int) \<Rightarrow> tenant_user_row \<Rightarrow> TenantUser" where
  "member_of_row lo r =
     \<lparr>mb_ID = tu_id r, mb_TenantID = tu_tenant_id r, mb_UserID = tu_user_id r, mb_Status = tu_status r,
      mb_JoinedAt = ts_local lo (tu_joined_at r)\<rparr>"

definition repo_AddTenantMember :: "ctx \<Rightarrow> TenantUser \<Rightarrow> TenantUser iamproc" where
  "repo_AddTenantMember c m =
     read_with (\<lambda>lo row. m\<lparr>mb_ID := tu_id row, mb_JoinedAt := ts_local lo (tu_joined_at row)\<rparr>)
       (stmt (pool_ctx c) (sql_AddTenantMember (member_row_of m)))"

definition repo_GetTenantMember :: "ctx \<Rightarrow> ID \<Rightarrow> ID \<Rightarrow> TenantUser iamproc" where
  "repo_GetTenantMember c tenantID userID =
     read_with member_of_row (norows_notfound (query (pool_ctx c) (sql_GetTenantMember tenantID userID)))"

definition membership_of_row :: "(int \<Rightarrow> int) \<Rightarrow> tenant_row \<times> tenant_user_row \<Rightarrow> TenantMembership" where
  "membership_of_row lo = (\<lambda>(t, tu).
     \<lparr>tms_TenantID = tn_id t, tms_TenantCode = tn_code t, tms_TenantName = tn_name t, tms_TenantStatus = tn_status t,
      tms_MembershipStatus = tu_status tu, tms_JoinedAt = ts_local lo (tu_joined_at tu)\<rparr>)"

definition repo_ListUserTenants :: "ctx \<Rightarrow> ID \<Rightarrow> TenantMembership list iamproc" where
  "repo_ListUserTenants c userID =
     read_with (\<lambda>lo. map (membership_of_row lo)) (query (pool_ctx c) (\<lambda>d. Ret (sql_ListUserTenants userID d)))"

definition zero_time :: gotime where
  "zero_time = \<lparr>ns = zero_ns, off = 0\<rparr>"

definition user_role_of_row :: "ID \<Rightarrow> role_row \<Rightarrow> Role" where
  "user_role_of_row tenantID r =
     \<lparr>rol_ID = ro_id r, rol_TenantID = tenantID, rol_Code = ro_code r, rol_Name = ro_name r,
      rol_Description = str_of_ptr (ro_description r), rol_IsSystem = ro_is_system r, rol_Permissions = [],
      rol_CreatedAt = zero_time, rol_UpdatedAt = zero_time\<rparr>"

definition repo_ListUserRolesInTenant :: "ctx \<Rightarrow> ID \<Rightarrow> ID \<Rightarrow> Role list iamproc" where
  "repo_ListUserRolesInTenant c tenantID userID =
     bindP (query (pool_ctx c) (\<lambda>d. Ret (sql_ListUserRolesInTenant tenantID userID d)))
       (\<lambda>rows. ret (map (user_role_of_row tenantID) rows))"

text \<open>\<open>x, _ := f()\<close>: the zero value when the call fails.\<close>

definition or_else :: "('db, 'a) proc \<Rightarrow> 'a \<Rightarrow> ('db, 'a) proc" where
  "or_else m z = bindP (tryP m) (\<lambda>r. ret (case r of Ret x \<Rightarrow> x | _ \<Rightarrow> z))"

definition tenant_user_item :: "ctx \<Rightarrow> ID \<Rightarrow> user_row \<times> tenant_user_row \<Rightarrow> TenantUserItem iamproc" where
  "tenant_user_item c tenantID = (\<lambda>(u, tu).
     bindP (or_else (repo_ListUserRolesInTenant c tenantID (us_id u)) []) (\<lambda>roles.
     bindP (ask_env local_off) (\<lambda>lo.
     ret \<lparr>tui_UserID = us_id u, tui_Email = us_email u, tui_Name = us_name u, tui_UserStatus = us_status u,
          tui_MembershipStatus = tu_status tu, tui_JoinedAt = ts_local lo (tu_joined_at tu), tui_Roles = roles\<rparr>)))"

definition repo_ListTenantUsers :: "ctx \<Rightarrow> ID \<Rightarrow> TenantUserItem list iamproc" where
  "repo_ListTenantUsers c tenantID =
     bindP (query (pool_ctx c) (\<lambda>d. Ret (sql_ListTenantUsers tenantID d))) (mapP (tenant_user_item c tenantID))"

definition role_row_of :: "Role \<Rightarrow> role_row" where
  "role_row_of r =
     \<lparr>ro_id = rol_ID r, ro_tenant_id = rol_TenantID r, ro_code = rol_Code r, ro_name = rol_Name r,
      ro_description = ptr_of_str (rol_Description r), ro_is_system = rol_IsSystem r,
      ro_created_at = to_micro (rol_CreatedAt r), ro_updated_at = to_micro (rol_UpdatedAt r)\<rparr>"

definition role_of_row :: "Permission list \<Rightarrow> (int \<Rightarrow> int) \<Rightarrow> role_row \<Rightarrow> Role" where
  "role_of_row perms lo r =
     \<lparr>rol_ID = ro_id r, rol_TenantID = ro_tenant_id r, rol_Code = ro_code r, rol_Name = ro_name r,
      rol_Description = str_of_ptr (ro_description r), rol_IsSystem = ro_is_system r, rol_Permissions = perms,
      rol_CreatedAt = ts_local lo (ro_created_at r), rol_UpdatedAt = ts_local lo (ro_updated_at r)\<rparr>"

definition repo_CreateRole :: "ctx \<Rightarrow> Role \<Rightarrow> Role iamproc" where
  "repo_CreateRole c r =
     read_with (\<lambda>lo row. r\<lparr>rol_ID := ro_id row, rol_CreatedAt := ts_local lo (ro_created_at row),
                           rol_UpdatedAt := ts_local lo (ro_updated_at row)\<rparr>)
       (stmt (pool_ctx c) (sql_CreateRole (role_row_of r)))"

definition permission_of_row :: "permission_row \<Rightarrow> Permission" where
  "permission_of_row p =
     \<lparr>per_ID = pm_id p, per_Code = pm_code p, per_Name = pm_name p, per_Category = pm_category p,
      per_Description = str_of_ptr (pm_description p)\<rparr>"

definition repo_ListPermissions :: "ctx \<Rightarrow> Permission list iamproc" where
  "repo_ListPermissions c =
     bindP (query (pool_ctx c) (\<lambda>d. Ret (sql_ListPermissions d))) (\<lambda>rows. ret (map permission_of_row rows))"

definition repo_ListRolePermissions :: "ctx \<Rightarrow> ID \<Rightarrow> Permission list iamproc" where
  "repo_ListRolePermissions c roleID =
     bindP (query (pool_ctx c) (\<lambda>d. Ret (sql_ListRolePermissions roleID d))) (\<lambda>rows. ret (map permission_of_row rows))"

definition role_with_permissions :: "ctx \<Rightarrow> role_row \<Rightarrow> Role iamproc" where
  "role_with_permissions c row =
     bindP (or_else (repo_ListRolePermissions c (ro_id row)) []) (\<lambda>perms.
     bindP (ask_env local_off) (\<lambda>lo. ret (role_of_row perms lo row)))"

definition repo_GetRoleByID :: "ctx \<Rightarrow> ID \<Rightarrow> ID \<Rightarrow> Role iamproc" where
  "repo_GetRoleByID c tenantID i =
     bindP (norows_notfound (query (pool_ctx c) (sql_GetRoleByID tenantID i))) (role_with_permissions c)"

definition repo_GetRoleByCode :: "ctx \<Rightarrow> ID \<Rightarrow> string \<Rightarrow> Role iamproc" where
  "repo_GetRoleByCode c tenantID code =
     bindP (norows_notfound (query (pool_ctx c) (sql_GetRoleByCode tenantID code))) (role_with_permissions c)"

definition repo_ListRoles :: "ctx \<Rightarrow> ID \<Rightarrow> Role list iamproc" where
  "repo_ListRoles c tenantID =
     bindP (query (pool_ctx c) (\<lambda>d. Ret (sql_ListRoles tenantID d))) (mapP (role_with_permissions c))"

definition repo_AssignPermissionsToRole :: "ctx \<Rightarrow> ID \<Rightarrow> ID list \<Rightarrow> unit iamproc" where
  "repo_AssignPermissionsToRole c roleID permissionIDs =
     bindP (tryP (stmt (pool_ctx c) (sql_ClearRolePermissions roleID))) (\<lambda>_.
     bindP (mapP (\<lambda>pID. stmt (pool_ctx c) (sql_AssignPermissionToRole \<lparr>rp_role_id = roleID, rp_permission_id = pID\<rparr>))
       permissionIDs) (\<lambda>_. ret ()))"

definition repo_AssignUserRole :: "ctx \<Rightarrow> ID \<Rightarrow> ID \<Rightarrow> ID \<Rightarrow> unit iamproc" where
  "repo_AssignUserRole c tenantID userID roleID =
     stmt (pool_ctx c) (sql_AssignUserRole \<lparr>ux_tenant_id = tenantID, ux_user_id = userID, ux_role_id = roleID\<rparr>)"

definition repo_RemoveUserRole :: "ctx \<Rightarrow> ID \<Rightarrow> ID \<Rightarrow> ID \<Rightarrow> unit iamproc" where
  "repo_RemoveUserRole c tenantID userID roleID = stmt (pool_ctx c) (sql_RemoveUserRole tenantID userID roleID)"

definition repo_ListUserPermissionsInTenant :: "ctx \<Rightarrow> ID \<Rightarrow> ID \<Rightarrow> string list iamproc" where
  "repo_ListUserPermissionsInTenant c tenantID userID =
     query (pool_ctx c) (\<lambda>d. Ret (sql_ListUserPermissionsInTenant tenantID userID d))"

section \<open>Use case\<close>

record RegisterCommand =
  rg_Email :: string
  rg_Password :: string
  rg_Name :: string
  rg_TenantID :: "ID option"

record LoginCommand =
  lg_Email :: string
  lg_Password :: string
  lg_TenantID :: "ID option"

record LoginResult =
  lgr_User :: User
  lgr_Token :: string
  lgr_ExpiresIn :: int
  lgr_TenantID :: "ID option"
  lgr_Roles :: "string list"
  lgr_Permissions :: "string list"
  lgr_RequiresTenantSelection :: bool
  lgr_AvailableTenants :: "TenantMembership list"

text \<open>The collaborators of the use case; a nil tenant repository skips the check of the tenant.\<close>

record id_usecase =
  iu_crypto :: crypto
  iu_tokens :: tokenManager
  iu_ttl :: duration
  iu_tenantRepo :: bool

definition identity_NewUsecase :: "crypto \<Rightarrow> bool \<Rightarrow> tokenManager \<Rightarrow> duration \<Rightarrow> id_usecase" where
  "identity_NewUsecase k tenants tm ttl =
     \<lparr>iu_crypto = k, iu_tokens = tm, iu_ttl = (if ttl \<le> 0 then 24 * 3600 * Second else ttl), iu_tenantRepo = tenants\<rparr>"

definition check_tenant :: "id_usecase \<Rightarrow> ctx \<Rightarrow> ID \<Rightarrow> unit iamproc" where
  "check_tenant u c tenantID =
     (if iu_tenantRepo u
      then bindP (wrap_err ''invalid tenant'' (tenant_repo_GetByID c tenantID)) (\<lambda>tenant.
           guard (Tenant_IsActive tenant) ErrTenantSuspended)
      else ret ())"

definition join_tenant :: "id_usecase \<Rightarrow> ctx \<Rightarrow> ID \<Rightarrow> ID option \<Rightarrow> unit iamproc" where
  "join_tenant u c userID tenant =
     (case id_of_ptr tenant of
        None \<Rightarrow> ret ()
      | Some tenantID \<Rightarrow>
          bindP (check_tenant u c tenantID) (\<lambda>_.
          bindP (or_else NewID NilID) (\<lambda>memberID.
          bindP Now (\<lambda>now.
          bindP (tryP (repo_AddTenantMember c
            \<lparr>mb_ID = memberID, mb_TenantID = tenantID, mb_UserID = userID, mb_Status = MembershipStatusActive,
             mb_JoinedAt = now\<rparr>)) (\<lambda>_. ret ())))))"

definition user_Register :: "id_usecase \<Rightarrow> ctx \<Rightarrow> RegisterCommand \<Rightarrow> User iamproc" where
  "user_Register u c cmd =
     (let email = ToLower (TrimSpace (rg_Email cmd)); name = TrimSpace (rg_Name cmd)
      in bindP (guard (\<not> (email = [] \<or> \<not> Contains email ''@'')) (Wrapped ''valid email is required'' ErrInvalidInput)) (\<lambda>_.
      bindP (guard (name \<noteq> []) (Wrapped ''name is required'' ErrInvalidInput)) (\<lambda>_.
      bindP (guard (\<not> length (rg_Password cmd) < 8)
        (Wrapped ''password must be at least 8 characters'' ErrInvalidInput)) (\<lambda>_.
      bindP (must_not_exist ''user with email already exists'' (repo_GetUserByEmail c email)) (\<lambda>_.
      bindP (wrap_err ''failed to hash password'' (HashPassword (iu_crypto u) (rg_Password cmd))) (\<lambda>hashed.
      bindP NewID (\<lambda>i.
      bindP Now (\<lambda>now1.
      bindP Now (\<lambda>now2.
      bindP (repo_CreateUser c
        \<lparr>u_ID = i, u_Email = email, u_PasswordHash = hashed, u_Name = name, u_Status = UserStatusActive,
         u_CreatedAt = now1, u_UpdatedAt = now2\<rparr>) (\<lambda>user.
      bindP (join_tenant u c (u_ID user) (rg_TenantID cmd)) (\<lambda>_.
      ret user)))))))))))"

text \<open>\<open>Duration.Seconds\<close> of a positive duration, cut to an integer.\<close>

definition duration_seconds :: "duration \<Rightarrow> float64" where
  "duration_seconds d = f_add (f_of_int (d div Second)) (f_div (f_of_int (d mod Second)) (f_of_int Second))"

definition issueLoginResult :: "id_usecase \<Rightarrow> ctx \<Rightarrow> User \<Rightarrow> ID \<Rightarrow> LoginResult iamproc" where
  "issueLoginResult u c user tenantID =
     bindP (tryP (repo_GetTenantMember c tenantID (u_ID user))) (\<lambda>m.
     case m of
       Fail er \<Rightarrow> fail (if er = ErrNotFound then Wrapped ''user is not a member of tenant'' ErrForbidden else er)
     | Panic p \<Rightarrow> lift_res (Panic p)
     | Ret member \<Rightarrow>
         bindP (guard (mb_Status member = MembershipStatusActive) (Wrapped ''tenant membership is not active'' ErrForbidden)) (\<lambda>_.
         bindP (repo_ListUserRolesInTenant c tenantID (u_ID user)) (\<lambda>roles.
         let roleCodes = map rol_Code roles
         in bindP (repo_ListUserPermissionsInTenant c tenantID (u_ID user)) (\<lambda>permissions.
         bindP (wrap_err ''failed to generate auth token'' (GenerateToken (iu_crypto u) (iu_tokens u) (u_ID user) tenantID
           (u_Email user) (u_Name user) roleCodes permissions (iu_ttl u))) (\<lambda>token.
         bindP (ask_env cvt_int64) (\<lambda>cvt.
         ret \<lparr>lgr_User = user, lgr_Token = token, lgr_ExpiresIn = sint (f_to_int64 cvt (duration_seconds (iu_ttl u))),
              lgr_TenantID = Some tenantID, lgr_Roles = roleCodes, lgr_Permissions = permissions,
              lgr_RequiresTenantSelection = False, lgr_AvailableTenants = []\<rparr>))))))"

definition Login :: "id_usecase \<Rightarrow> ctx \<Rightarrow> LoginCommand \<Rightarrow> LoginResult iamproc" where
  "Login u c cmd =
     (let email = ToLower (TrimSpace (lg_Email cmd))
      in bindP (guard (\<not> (email = [] \<or> lg_Password cmd = [])) (Wrapped ''email and password are required'' ErrInvalidInput)) (\<lambda>_.
      bindP (tryP (repo_GetUserByEmail c email)) (\<lambda>r.
      case r of
        Fail er \<Rightarrow> fail (if er = ErrNotFound then Wrapped ''invalid credentials'' ErrUnauthorized else er)
      | Panic p \<Rightarrow> lift_res (Panic p)
      | Ret user \<Rightarrow>
          bindP (guard (u_Status user = UserStatusActive) (Wrapped ''user account is not active'' ErrUnauthorized)) (\<lambda>_.
          bindP (guard (CheckPasswordHash (iu_crypto u) (lg_Password cmd) (u_PasswordHash user))
            (Wrapped ''invalid credentials'' ErrUnauthorized)) (\<lambda>_.
          case id_of_ptr (lg_TenantID cmd) of
            Some tenantID \<Rightarrow> issueLoginResult u c user tenantID
          | None \<Rightarrow>
              bindP (repo_ListUserTenants c (u_ID user)) (\<lambda>tenants.
              if length tenants = 1 then issueLoginResult u c user (tms_TenantID (hd tenants))
              else ret \<lparr>lgr_User = user, lgr_Token = [], lgr_ExpiresIn = 0, lgr_TenantID = None, lgr_Roles = [],
                        lgr_Permissions = [], lgr_RequiresTenantSelection = True, lgr_AvailableTenants = tenants\<rparr>))))))"

definition SwitchTenant :: "id_usecase \<Rightarrow> ctx \<Rightarrow> ID \<Rightarrow> ID \<Rightarrow> LoginResult iamproc" where
  "SwitchTenant u c userID tenantID = bindP (repo_GetUserByID c userID) (\<lambda>user. issueLoginResult u c user tenantID)"

definition GetProfile :: "ctx \<Rightarrow> ID \<Rightarrow> (User \<times> TenantMembership list) iamproc" where
  "GetProfile c userID =
     bindP (repo_GetUserByID c userID) (\<lambda>user. bindP (repo_ListUserTenants c userID) (\<lambda>tenants. ret (user, tenants)))"

definition AddMember :: "ctx \<Rightarrow> ID \<Rightarrow> ID \<Rightarrow> ID list \<Rightarrow> TenantUser iamproc" where
  "AddMember c tenantID userID roleIDs =
     bindP (guard (\<not> (tenantID = NilID \<or> userID = NilID)) (Wrapped ''tenant_id and user_id are required'' ErrInvalidInput)) (\<lambda>_.
     bindP (repo_GetUserByID c userID) (\<lambda>_.
     bindP (must_not_exist ''user is already a member of this tenant'' (repo_GetTenantMember c tenantID userID)) (\<lambda>_.
     bindP NewID (\<lambda>memberID.
     bindP Now (\<lambda>now.
     bindP (repo_AddTenantMember c
       \<lparr>mb_ID = memberID, mb_TenantID = tenantID, mb_UserID = userID, mb_Status = MembershipStatusActive,
        mb_JoinedAt = now\<rparr>) (\<lambda>member.
     bindP (mapP (\<lambda>roleID. tryP (repo_AssignUserRole c tenantID userID roleID)) roleIDs) (\<lambda>_.
     ret member)))))))"

definition ListMembers :: "ctx \<Rightarrow> ID \<Rightarrow> TenantUserItem list iamproc" where
  "ListMembers c tenantID =
     bindP (guard (tenantID \<noteq> NilID) ErrTenantRequired) (\<lambda>_. repo_ListTenantUsers c tenantID)"

definition AssignMemberRoles :: "ctx \<Rightarrow> ID \<Rightarrow> ID \<Rightarrow> ID list \<Rightarrow> unit iamproc" where
  "AssignMemberRoles c tenantID userID roleIDs =
     bindP (guard (\<not> (tenantID = NilID \<or> userID = NilID)) (Wrapped ''tenant_id and user_id are required'' ErrInvalidInput)) (\<lambda>_.
     bindP (mapP (\<lambda>roleID. repo_AssignUserRole c tenantID userID roleID) roleIDs) (\<lambda>_. ret ()))"

definition RemoveMemberRole :: "ctx \<Rightarrow> ID \<Rightarrow> ID \<Rightarrow> ID \<Rightarrow> unit iamproc" where
  "RemoveMemberRole c tenantID userID roleID =
     bindP (guard (\<not> (tenantID = NilID \<or> userID = NilID \<or> roleID = NilID))
       (Wrapped ''tenant_id, user_id, and role_id are required'' ErrInvalidInput)) (\<lambda>_.
     repo_RemoveUserRole c tenantID userID roleID)"

record CreateRoleCommand =
  cr_TenantID :: ID
  cr_Code :: string
  cr_Name :: string
  cr_Description :: string
  cr_PermissionIDs :: "ID list"

definition CreateRole :: "ctx \<Rightarrow> CreateRoleCommand \<Rightarrow> Role iamproc" where
  "CreateRole c cmd =
     bindP (guard (cr_TenantID cmd \<noteq> NilID) ErrTenantRequired) (\<lambda>_.
     let code = ToLower (TrimSpace (cr_Code cmd)); name = TrimSpace (cr_Name cmd)
     in bindP (guard (\<not> (code = [] \<or> name = [])) (Wrapped ''code and name are required'' ErrInvalidInput)) (\<lambda>_.
     bindP (must_not_exist ''role code already exists in this tenant'' (repo_GetRoleByCode c (cr_TenantID cmd) code)) (\<lambda>_.
     bindP NewID (\<lambda>roleID.
     bindP Now (\<lambda>now1.
     bindP Now (\<lambda>now2.
     bindP (repo_CreateRole c
       \<lparr>rol_ID = roleID, rol_TenantID = cr_TenantID cmd, rol_Code = code, rol_Name = name,
        rol_Description = cr_Description cmd, rol_IsSystem = False, rol_Permissions = [], rol_CreatedAt = now1,
        rol_UpdatedAt = now2\<rparr>) (\<lambda>role.
     if cr_PermissionIDs cmd = [] then ret role
     else bindP (repo_AssignPermissionsToRole c (rol_ID role) (cr_PermissionIDs cmd)) (\<lambda>_.
          bindP (or_else (repo_ListRolePermissions c (rol_ID role)) []) (\<lambda>perms.
          ret (role\<lparr>rol_Permissions := perms\<rparr>))))))))))"

definition GetRole :: "ctx \<Rightarrow> ID \<Rightarrow> ID \<Rightarrow> Role iamproc" where
  "GetRole c tenantID roleID =
     bindP (guard (tenantID \<noteq> NilID) ErrTenantRequired) (\<lambda>_. repo_GetRoleByID c tenantID roleID)"

definition ListRoles :: "ctx \<Rightarrow> ID \<Rightarrow> Role list iamproc" where
  "ListRoles c tenantID = bindP (guard (tenantID \<noteq> NilID) ErrTenantRequired) (\<lambda>_. repo_ListRoles c tenantID)"

definition AssignRolePermissions :: "ctx \<Rightarrow> ID \<Rightarrow> ID \<Rightarrow> ID list \<Rightarrow> unit iamproc" where
  "AssignRolePermissions c tenantID roleID permissionIDs =
     bindP (guard (\<not> (tenantID = NilID \<or> roleID = NilID)) (Wrapped ''tenant_id and role_id are required'' ErrInvalidInput)) (\<lambda>_.
     bindP (repo_GetRoleByID c tenantID roleID) (\<lambda>_.
     repo_AssignPermissionsToRole c roleID permissionIDs))"

definition ListPermissions :: "ctx \<Rightarrow> Permission list iamproc" where
  "ListPermissions c = repo_ListPermissions c"

end
