(* ===== verification/NetIP.thy ===== *)
theory NetIP
  imports Prelude
begin

text \<open>
  The part of Go's \<open>net\<close> package behind \<open>ValidateIP\<close> of
  \<open>internal/core/domain/identity/service_account.go\<close>: \<open>SplitHostPort\<close>, \<open>ParseIP\<close>, \<open>ParseCIDR\<close> and
  \<open>IPNet.Contains\<close>. An address is its 16 bytes read as a number; the IPv4 addresses are those with
  the prefix \<open>::ffff:0:0/96\<close>, as in Go. Zones (\<open>%eth0\<close>) never parse. The theorem states the allowlist
  check on IPv4 texts: a client is let in by a range exactly when the leading bits agree.
\<close>

section \<open>Addresses\<close>

type_synonym ip = nat

definition v4_prefix :: nat where
  "v4_prefix = 0xffff * 2 ^ 32"

definition is_v4 :: "ip \<Rightarrow> bool" where
  "is_v4 a \<longleftrightarrow> a div 2 ^ 32 = 0xffff"

definition digit_val :: "char \<Rightarrow> nat option" where
  "digit_val c = (if CHR ''0'' \<le> c \<and> c \<le> CHR ''9'' then Some (of_char c - 48) else None)"

definition hex_val :: "char \<Rightarrow> nat option" where
  "hex_val c =
     (if CHR ''0'' \<le> c \<and> c \<le> CHR ''9'' then Some (of_char c - 48)
      else if CHR ''a'' \<le> c \<and> c \<le> CHR ''f'' then Some (of_char c - 87)
      else if CHR ''A'' \<le> c \<and> c \<le> CHR ''F'' then Some (of_char c - 55)
      else None)"

text \<open>One field of a dotted address: decimal digits without leading zeros, at most 255.\<close>

fun octet :: "nat \<Rightarrow> string \<Rightarrow> nat option" where
  "octet v [] = Some v"
| "octet v (c # cs) =
     (case digit_val c of None \<Rightarrow> None
      | Some x \<Rightarrow> if v * 10 + x > 255 then None else octet (v * 10 + x) cs)"

definition parse_octet :: "string \<Rightarrow> nat option" where
  "parse_octet s = (if s = [] \<or> (hd s = CHR ''0'' \<and> length s > 1) then None else octet 0 s)"

definition parseIPv4 :: "string \<Rightarrow> nat option" where
  "parseIPv4 s =
     (case map parse_octet (split_on (CHR ''.'') s) of
        [Some a, Some b, Some c, Some d] \<Rightarrow> Some (((a * 256 + b) * 256 + c) * 256 + d)
      | _ \<Rightarrow> None)"

text \<open>Up to four hexadecimal digits from the front: value, number of digits and rest.\<close>

fun hex_group :: "nat \<Rightarrow> nat \<Rightarrow> string \<Rightarrow> (nat \<times> nat \<times> string) option" where
  "hex_group v n [] = Some (v, n, [])"
| "hex_group v n (c # cs) =
     (case hex_val c of None \<Rightarrow> Some (v, n, c # cs)
      | Some x \<Rightarrow> if n > 3 then None else hex_group (v * 16 + x) (Suc n) cs)"

text \<open>The loop of \<open>parseIPv6\<close>: the 16-bit groups read so far and the position of the ellipsis; the counter is
  the number of groups that still fit.\<close>

fun groups6 :: "nat \<Rightarrow> nat list \<Rightarrow> nat option \<Rightarrow> string \<Rightarrow> (nat list \<times> nat option) option" where
  "groups6 0 gs el s = (if s = [] then Some (gs, el) else None)"
| "groups6 (Suc k) gs el s =
     (case hex_group 0 0 s of
        None \<Rightarrow> None
      | Some (v, n, rest) \<Rightarrow>
          if n = 0 then None
          else if rest \<noteq> [] \<and> hd rest = CHR ''.'' then
            (if (el = None \<and> length gs \<noteq> 6) \<or> length gs > 6 then None
             else (case parseIPv4 s of None \<Rightarrow> None | Some a \<Rightarrow> Some (gs @ [a div 65536, a mod 65536], el)))
          else (let gs' = gs @ [v] in
            case rest of [] \<Rightarrow> Some (gs', el)
            | c # rest1 \<Rightarrow>
                if c \<noteq> CHR '':'' \<or> rest1 = [] then None
                else if hd rest1 = CHR '':'' then
                  (if el \<noteq> None then None
                   else if tl rest1 = [] then Some (gs', Some (length gs')) else groups6 k gs' (Some (length gs')) (tl rest1))
                else groups6 k gs' el rest1))"

definition groups_value :: "nat list \<Rightarrow> nat" where
  "groups_value gs = foldl (\<lambda>a g. a * 65536 + g) 0 gs"

definition expand_groups :: "nat list \<times> nat option \<Rightarrow> ip option" where
  "expand_groups = (\<lambda>(gs, el).
     case el of
       None \<Rightarrow> if length gs = 8 then Some (groups_value gs) else None
     | Some i \<Rightarrow> if length gs < 8 then Some (groups_value (take i gs @ replicate (8 - length gs) 0 @ drop i gs)) else None)"

definition parseIPv6 :: "string \<Rightarrow> ip option" where
  "parseIPv6 s =
     (if take 2 s = ''::''
      then (if drop 2 s = [] then Some 0
            else (case groups6 8 [] (Some 0) (drop 2 s) of None \<Rightarrow> None | Some r \<Rightarrow> expand_groups r))
      else (case groups6 8 [] None s of None \<Rightarrow> None | Some r \<Rightarrow> expand_groups r))"

text \<open>\<open>netip.ParseAddr\<close>, with the number of bits of the address; the first separator decides.\<close>

definition ParseAddr :: "string \<Rightarrow> (ip \<times> nat) option" where
  "ParseAddr s =
     (if CHR ''%'' \<in> set s then None
      else (case find (\<lambda>c. c = CHR ''.'' \<or> c = CHR '':'') s of
          None \<Rightarrow> None
        | Some c \<Rightarrow> if c = CHR ''.'' then map_option (\<lambda>a. (v4_prefix + a, 32)) (parseIPv4 s)
                    else map_option (\<lambda>a. (a, 128)) (parseIPv6 s)))"

definition ParseIP :: "string \<Rightarrow> ip option" where
  "ParseIP s = map_option fst (ParseAddr s)"

section \<open>Networks\<close>

record IPNet =
  net_IP :: ip
  net_ones :: nat

text \<open>\<open>dtoi\<close> on the whole mask text.\<close>

fun dtoi :: "nat \<Rightarrow> string \<Rightarrow> nat option" where
  "dtoi v [] = Some v"
| "dtoi v (c # cs) =
     (case digit_val c of None \<Rightarrow> None
      | Some x \<Rightarrow> if v * 10 + x \<ge> 0xFFFFFF then None else dtoi (v * 10 + x) cs)"

text \<open>The number of leading bits is counted on 128 bits, so that an IPv4 range of \<open>n\<close> bits has \<open>96 + n\<close>.\<close>

definition ParseCIDR :: "string \<Rightarrow> IPNet option" where
  "ParseCIDR s =
     (case SplitN2 (CHR ''/'') s of
        [addr, m] \<Rightarrow>
          (case ParseAddr addr of None \<Rightarrow> None
           | Some (a, bits) \<Rightarrow>
               if m = [] then None
               else (case dtoi 0 m of None \<Rightarrow> None
                     | Some n \<Rightarrow> if n > bits then None
                         else let ones = n + (128 - bits)
                              in Some \<lparr>net_IP = a div 2 ^ (128 - ones) * 2 ^ (128 - ones), net_ones = ones\<rparr>))
      | _ \<Rightarrow> None)"

definition IPNet_Contains :: "IPNet \<Rightarrow> ip \<Rightarrow> bool" where
  "IPNet_Contains n a \<longleftrightarrow>
     is_v4 (net_IP n) = is_v4 a \<and> net_IP n div 2 ^ (128 - net_ones n) = a div 2 ^ (128 - net_ones n)"

text \<open>\<open>net.SplitHostPort\<close>, the host only.\<close>

definition SplitHostPort :: "string \<Rightarrow> string option" where
  "SplitHostPort s =
     (if CHR '':'' \<notin> set s then None
      else let i = length s - 1 - length (takeWhile (\<lambda>c. c \<noteq> CHR '':'') (rev s))
      in if hd s = CHR ''['' then
           (case Index s '']'' of
              None \<Rightarrow> None
            | Some close \<Rightarrow>
                if close + 1 \<noteq> i then None
                else if CHR ''['' \<in> set (drop 1 s) \<or> CHR '']'' \<in> set (drop (close + 1) s) then None
                else Some (drop 1 (take close s)))
         else if CHR '':'' \<in> set (take i s) \<or> CHR ''['' \<in> set s \<or> CHR '']'' \<in> set s then None
         else Some (take i s))"

section \<open>The allowlist\<close>

fun allowed_by :: "ip \<Rightarrow> string list \<Rightarrow> bool" where
  "allowed_by a [] = False"
| "allowed_by a (e0 # es) =
     (let entry = TrimSpace e0 in
      if entry = [] then allowed_by a es
      else if Contains entry ''/'' then
        (if (case ParseCIDR entry of None \<Rightarrow> False | Some n \<Rightarrow> IPNet_Contains n a) then True else allowed_by a es)
      else if ParseIP entry = Some a then True
      else allowed_by a es)"

definition ValidateIP :: "string \<Rightarrow> string list \<Rightarrow> bool" where
  "ValidateIP clientIP allowlist =
     (if allowlist = [] then True
      else let host = (case SplitHostPort clientIP of None \<Rightarrow> clientIP | Some h \<Rightarrow> h)
      in case ParseIP (TrimSpace host) of None \<Rightarrow> False | Some a \<Rightarrow> allowed_by a allowlist)"

section \<open>Dotted texts\<close>

definition v4_text :: "nat \<times> nat \<times> nat \<times> nat \<Rightarrow> string" where
  "v4_text = (\<lambda>(a, b, c, d). dec_string a @ ''.'' @ dec_string b @ ''.'' @ dec_string c @ ''.'' @ dec_string d)"

definition v4_num :: "nat \<times> nat \<times> nat \<times> nat \<Rightarrow> nat" where
  "v4_num = (\<lambda>(a, b, c, d). ((a * 256 + b) * 256 + c) * 256 + d)"

definition octets :: "nat \<times> nat \<times> nat \<times> nat \<Rightarrow> bool" where
  "octets = (\<lambda>(a, b, c, d). a < 256 \<and> b < 256 \<and> c < 256 \<and> d < 256)"

definition cidr_text :: "(nat \<times> nat \<times> nat \<times> nat) \<times> nat \<Rightarrow> string" where
  "cidr_text = (\<lambda>(q, n). v4_text q @ ''/'' @ dec_string n)"

text \<open>The bytes of such texts: digits, dots and slashes.\<close>

definition ip_char :: "char \<Rightarrow> bool" where
  "ip_char c \<longleftrightarrow> CHR ''.'' \<le> c \<and> c \<le> CHR ''9''"

lemma dec_string_no [simp]:
  "CHR ''.'' \<notin> set (dec_string n)" "CHR ''/'' \<notin> set (dec_string n)" "CHR '':'' \<notin> set (dec_string n)"
  "CHR ''%'' \<notin> set (dec_string n)" "CHR ''['' \<notin> set (dec_string n)" "CHR '']'' \<notin> set (dec_string n)"
  using dec_string_digits by (force simp: less_eq_char_def)+

lemma dec_string_no_lead: "dec_string n \<noteq> [] \<and> (hd (dec_string n) = CHR ''0'' \<longrightarrow> length (dec_string n) = 1)"
proof (induction n rule: less_induct)
  case (less n)
  show ?case
  proof (cases "n < 10")
    case False
    then have "n div 10 < n" "n div 10 \<noteq> 0" by auto
    with less [of "n div 10"] have "hd (dec_string (n div 10)) \<noteq> CHR ''0''"
      using dec_value_dec_string [of "n div 10"]
      by (cases "dec_string (n div 10)") (auto simp: dec_value_def)
    with False less [of "n div 10"] \<open>n div 10 < n\<close> show ?thesis by (subst dec_string_rec, subst (2) dec_string_rec, subst (3) dec_string_rec) simp
  qed (subst dec_string_rec, subst (2) dec_string_rec, subst (3) dec_string_rec, simp)
qed

text \<open>Digits read from the left, as the bounded readers do it.\<close>

definition read_from :: "nat \<Rightarrow> string \<Rightarrow> nat" where
  "read_from v s = foldl (\<lambda>a c. 10 * a + (of_char c - 48)) v s"

lemma read_from_ge: "v \<le> read_from v s"
proof (induction s arbitrary: v)
  case (Cons c s)
  have "v \<le> 10 * v + (of_char c - 48)" by simp
  also have "\<dots> \<le> read_from v (c # s)" using Cons by (simp add: read_from_def)
  finally show ?case .
qed (simp add: read_from_def)

lemma read_from_Cons: "read_from v (c # s) = read_from (v * 10 + (of_char c - 48)) s"
  by (simp add: read_from_def mult.commute)

lemma digit_val_digit: "CHR ''0'' \<le> c \<and> c \<le> CHR ''9'' \<Longrightarrow> digit_val c = Some (of_char c - 48)"
  by (simp add: digit_val_def)

lemma octet_reads:
  "\<forall>c \<in> set s. CHR ''0'' \<le> c \<and> c \<le> CHR ''9'' \<Longrightarrow> read_from v s \<le> 255 \<Longrightarrow> octet v s = Some (read_from v s)"
proof (induction s arbitrary: v)
  case (Cons c s)
  with read_from_ge [of "v * 10 + (of_char c - 48)" s] digit_val_digit [of c] show ?case
    by (simp add: read_from_Cons)
qed (simp add: read_from_def)

lemma dtoi_reads:
  "\<forall>c \<in> set s. CHR ''0'' \<le> c \<and> c \<le> CHR ''9'' \<Longrightarrow> read_from v s < 0xFFFFFF \<Longrightarrow> dtoi v s = Some (read_from v s)"
proof (induction s arbitrary: v)
  case (Cons c s)
  with read_from_ge [of "v * 10 + (of_char c - 48)" s] digit_val_digit [of c] show ?case
    by (simp add: read_from_Cons)
qed (simp add: read_from_def)

lemma read_from_dec [simp]: "read_from 0 (dec_string n) = n"
  using dec_value_dec_string [of n] by (simp add: read_from_def dec_value_def)

lemma parse_octet_dec: "k < 256 \<Longrightarrow> parse_octet (dec_string k) = Some k"
  using octet_reads [of "dec_string k" 0] dec_string_digits [of _ k] dec_string_no_lead [of k]
  by (auto simp: parse_octet_def)

lemma dtoi_dec: "k < 0xFFFFFF \<Longrightarrow> dtoi 0 (dec_string k) = Some k"
  using dtoi_reads [of "dec_string k" 0] dec_string_digits [of _ k] by auto

lemma parseIPv4_text: "octets q \<Longrightarrow> parseIPv4 (v4_text q) = Some (v4_num q)"
  by (cases q) (auto simp: parseIPv4_def v4_text_def octets_def v4_num_def split_on_cons split_on_none parse_octet_dec)

lemma v4_text_chars: "c \<in> set (v4_text q) \<Longrightarrow> CHR ''.'' \<le> c \<and> c \<le> CHR ''9'' \<and> c \<noteq> CHR ''/''"
  by (cases q) (auto simp: v4_text_def less_eq_char_def dest!: dec_string_digits)

lemma find_first: "find P (xs @ x # ys) = Some x" if "P x" "\<forall>y \<in> set xs. \<not> P y"
  using that by (induction xs) auto

lemma ParseAddr_text: "octets q \<Longrightarrow> ParseAddr (v4_text q) = Some (v4_prefix + v4_num q, 32)"
proof -
  assume q: "octets q"
  have "CHR ''%'' \<notin> set (v4_text q)" using v4_text_chars [of "CHR ''%''" q] by (auto simp: less_eq_char_def)
  moreover have "find (\<lambda>c. c = CHR ''.'' \<or> c = CHR '':'') (v4_text q) = Some (CHR ''.'')"
    by (cases q) (auto simp: v4_text_def intro!: find_first)
  ultimately show ?thesis using parseIPv4_text [OF q] by (simp add: ParseAddr_def)
qed

lemma takeWhile_until: "c \<notin> set s \<Longrightarrow> takeWhile (\<lambda>x. x \<noteq> c) (s @ c # t) = s"
  "c \<notin> set s \<Longrightarrow> dropWhile (\<lambda>x. x \<noteq> c) (s @ c # t) = c # t"
  by (induction s) auto

lemma Contains_char: "Contains s [c] \<longleftrightarrow> c \<in> set s"
  unfolding Contains_def by (induction s) (auto simp: HasPrefix_def)

text \<open>Texts of printable ASCII bytes have nothing to trim.\<close>

definition printable :: "char \<Rightarrow> bool" where
  "printable c \<longleftrightarrow> CHR 0x21 \<le> c \<and> c \<le> CHR 0x7E"

lemma space_seqs_unprintable:
  "p \<in> set space_seqs \<Longrightarrow> p \<noteq> [] \<and> \<not> printable (hd p) \<and> \<not> printable (last p)"
  by (auto simp: space_seqs_def printable_def less_eq_char_def)

lemma trim_front_printable:
  assumes "\<forall>c \<in> set s. printable c" and "\<And>p. p \<in> set ps \<Longrightarrow> p \<noteq> [] \<Longrightarrow> \<not> printable (hd p)"
  shows "trim_front ps s = s"
proof (rule trim_front_id)
  have "\<not> (p \<noteq> [] \<and> take (length p) s = p)" if "p \<in> set ps" for p
  proof
    assume p: "p \<noteq> [] \<and> take (length p) s = p"
    then have "hd p \<in> set s" by (metis hd_in_set in_set_takeD)
    with assms that p show False by blast
  qed
  then show "find (\<lambda>p. p \<noteq> [] \<and> take (length p) s = p) ps = None" by (auto simp: find_None_iff)
qed

lemma TrimSpace_printable: "\<forall>c \<in> set s. printable c \<Longrightarrow> TrimSpace s = s"
proof -
  assume s: "\<forall>c \<in> set s. printable c"
  have "trim_front space_seqs s = s"
    using s space_seqs_unprintable by (intro trim_front_printable) blast+
  moreover have "trim_front (map rev space_seqs) (rev s) = rev s"
    using s space_seqs_unprintable by (intro trim_front_printable) (auto simp: hd_rev)
  ultimately show ?thesis by (simp add: TrimSpace_def trim_left_def trim_right_def)
qed

lemma v4_text_printable: "\<forall>c \<in> set (v4_text q). printable c"
  using v4_text_chars [of _ q] by (force simp: printable_def less_eq_char_def)

lemma v4_text_no [simp]: "CHR ''/'' \<notin> set (v4_text q)" "CHR '':'' \<notin> set (v4_text q)"
  "CHR ''['' \<notin> set (v4_text q)" "CHR '']'' \<notin> set (v4_text q)"
  using v4_text_chars [of _ q] by (force simp: less_eq_char_def)+

lemma v4_text_nonempty: "v4_text q \<noteq> []"
  by (cases q) (simp add: v4_text_def)

lemma SplitHostPort_text:
  assumes "CHR '':'' \<notin> set p" "CHR ''['' \<notin> set p" "CHR '']'' \<notin> set p"
  shows "SplitHostPort (v4_text q @ '':'' @ p) = Some (v4_text q)"
proof -
  have "hd (v4_text q) \<noteq> CHR ''[''" using v4_text_no(3) v4_text_nonempty hd_in_set by metis
  then show ?thesis using assms v4_text_nonempty takeWhile_until(1) [of "CHR '':''" "rev p"]
    by (simp add: SplitHostPort_def Let_def)
qed

lemma cidr_text_props: "TrimSpace (cidr_text x) = cidr_text x" "cidr_text x \<noteq> []" "Contains (cidr_text x) ''/''"
proof -
  show "cidr_text x \<noteq> []" "Contains (cidr_text x) ''/''"
    by (cases x, simp add: cidr_text_def Contains_char)+
  show "TrimSpace (cidr_text x) = cidr_text x"
    using v4_text_printable [of "fst x"] dec_string_digits [of _ "snd x"]
    by (intro TrimSpace_printable) (fastforce simp: cidr_text_def printable_def less_eq_char_def split: prod.splits)
qed

lemma v4_num_bound: "octets q \<Longrightarrow> v4_num q < 2 ^ 32"
  by (cases q) (simp add: octets_def v4_num_def)

lemma ParseCIDR_text:
  assumes "octets q" "n \<le> 32"
  shows "ParseCIDR (cidr_text (q, n)) =
     Some \<lparr>net_IP = (v4_prefix + v4_num q) div 2 ^ (32 - n) * 2 ^ (32 - n), net_ones = n + 96\<rparr>"
  using assms dtoi_dec [of n] dec_string_no_lead [of n]
  by (simp add: ParseCIDR_def cidr_text_def SplitN2_def takeWhile_until ParseAddr_text Let_def)

text \<open>With at most 32 bits cleared, the network of an IPv4 range is an IPv4 address.\<close>

lemma v4_prefix_split: "k \<le> 32 \<Longrightarrow> v4_prefix = 2 ^ k * (0xffff * 2 ^ (32 - k))"
  by (simp add: v4_prefix_def flip: power_add)

lemma prefix_div: "k \<le> 32 \<Longrightarrow> (v4_prefix + a) div 2 ^ k = 0xffff * 2 ^ (32 - k) + a div 2 ^ k"
  unfolding v4_prefix_split by simp

lemma is_v4_masked:
  assumes "a < 2 ^ 32" "k \<le> 32"
  shows "is_v4 ((v4_prefix + a) div 2 ^ k * 2 ^ k)"
proof -
  have "a div 2 ^ k * 2 ^ k < 2 ^ 32" using assms(1) by (meson div_times_less_eq_dividend le_less_trans)
  moreover have "(v4_prefix + a) div 2 ^ k * 2 ^ k = 0xffff * 2 ^ 32 + a div 2 ^ k * 2 ^ k"
    using prefix_div [OF assms(2), of a] assms(2) by (simp add: add_mult_distrib mult.assoc flip: power_add)
  ultimately show ?thesis by (simp add: is_v4_def)
qed

lemma Contains_text:
  assumes "octets q" "n \<le> 32" "octets r"
  shows "IPNet_Contains (the (ParseCIDR (cidr_text (q, n)))) (v4_prefix + v4_num r) \<longleftrightarrow>
     v4_num q div 2 ^ (32 - n) = v4_num r div 2 ^ (32 - n)"
proof -
  have "is_v4 (v4_prefix + v4_num r)" using is_v4_masked [OF v4_num_bound [OF assms(3)], of 0] by simp
  with is_v4_masked [OF v4_num_bound [OF assms(1)], of "32 - n"] show ?thesis
    using prefix_div [of "32 - n"] by (simp add: ParseCIDR_text assms IPNet_Contains_def)
qed

lemma allowed_by_text:
  assumes "octets r" "\<forall>(q, n) \<in> set es. octets q \<and> n \<le> 32"
  shows "allowed_by (v4_prefix + v4_num r) (map cidr_text es) \<longleftrightarrow>
     (\<exists>(q, n) \<in> set es. v4_num q div 2 ^ (32 - n) = v4_num r div 2 ^ (32 - n))"
  using assms(2)
proof (induction es)
  case (Cons x es)
  obtain q n where x: "x = (q, n)" by (rule prod.exhaust)
  then have "octets q" "n \<le> 32" using Cons.prems by auto
  with Contains_text [OF this assms(1)] ParseCIDR_text [OF this] Cons x show ?case
    by (simp add: cidr_text_props)
qed simp

section \<open>The property\<close>



end
