(* ===== verification/ServiceAccount.thy ===== *)
theory ServiceAccount
  imports Identity NetIP
begin

text \<open>
  Service accounts and API keys: \<open>internal/core/domain/identity/service_account.go\<close>, the repository
  \<open>service_account_repo.go\<close> and the use case \<open>service_account_usecase.go\<close>. The hash of a key
  (SHA-256, hexadecimal) and the random bytes are the parameters \<open>sk_sha256\<close> and \<open>sk_rand\<close>. The
  usage of a key is recorded by a goroutine after the answer: \<open>ValidateAPIKey\<close> returns the update
  it starts next to the claims, and runs perform it at any later time.
\<close>

section \<open>Domain\<close>

definition ServiceAccountStatusActive :: string where "ServiceAccountStatusActive = ''active''"
definition APIKeyStatusActive :: string where "APIKeyStatusActive = ''active''"
definition APIKeyStatusRevoked :: string where "APIKeyStatusRevoked = ''revoked''"
definition APIKeyPrefix :: string where "APIKeyPrefix = ''mrg_live_''"

record ServiceAccount =
  sa_ID :: ID
  sa_TenantID :: ID
  sa_Name :: string
  sa_Description :: string
  sa_RoleID :: "ID option"
  sa_RoleCode :: string
  sa_RoleName :: string
  sa_Status :: string
  sa_CreatedAt :: gotime
  sa_UpdatedAt :: gotime

definition ServiceAccount_IsActive :: "ServiceAccount \<Rightarrow> bool" where
  "ServiceAccount_IsActive s \<longleftrightarrow> sa_Status s = ServiceAccountStatusActive"

record APIKey =
  ak_ID :: ID
  ak_TenantID :: ID
  ak_ServiceAccountID :: ID
  ak_Name :: string
  ak_KeyPrefix :: string
  ak_KeyHash :: string
  ak_Scopes :: "string list"
  ak_IPAllowlist :: "string list option"
  ak_Status :: string
  ak_ExpiresAt :: "gotime option"
  ak_LastUsedAt :: "gotime option"
  ak_LastUsedIP :: "string option"
  ak_CreatedAt :: gotime
  ak_RevokedAt :: "gotime option"

definition APIKey_expired :: "gotime \<Rightarrow> APIKey \<Rightarrow> bool" where
  "APIKey_expired now k = (case ak_ExpiresAt k of None \<Rightarrow> False | Some x \<Rightarrow> Time_After now x)"

definition APIKey_IsActive :: "gotime \<Rightarrow> APIKey \<Rightarrow> bool" where
  "APIKey_IsActive now k =
     (if ak_Status k \<noteq> APIKeyStatusActive then False else if APIKey_expired now k then False else True)"

record sa_deps =
  sk_sha256 :: "string \<Rightarrow> string"
  sk_rand :: "nat \<Rightarrow> string option"

definition hex_encode :: "string \<Rightarrow> string" where
  "hex_encode bs = concat (map (\<lambda>c. [digit_char (of_char c div 16), digit_char (of_char c mod 16)]) bs)"

definition HashAPIKey :: "sa_deps \<Rightarrow> string \<Rightarrow> string" where
  "HashAPIKey dp rawKey = sk_sha256 dp (TrimSpace rawKey)"

text \<open>Raw key, displayed prefix and hash, from 32 random bytes.\<close>

definition GenerateAPIKey :: "sa_deps \<Rightarrow> (string \<times> string \<times> string) iamproc" where
  "GenerateAPIKey dp = (\<lambda>e w.
     ((case sk_rand dp (tick w) of
         None \<Rightarrow> Fail (Wrapped ''failed to generate random bytes'' (Opaque ''rand''))
       | Some bs \<Rightarrow> let rawKey = APIKeyPrefix @ hex_encode bs
                    in Ret (rawKey, take (length APIKeyPrefix + 8) rawKey @ ''...'', HashAPIKey dp rawKey)),
      w\<lparr>tick := Suc (tick w)\<rparr>))"

section \<open>Repository\<close>

definition affected :: "string \<Rightarrow> int iamproc \<Rightarrow> unit iamproc" where
  "affected msg m = bindP (wrap_err msg m) (\<lambda>n. guard (n \<noteq> 0) ErrNotFound)"

definition account_clash :: "service_account_row \<Rightarrow> service_account_row \<Rightarrow> bool" where
  "account_clash r s \<longleftrightarrow> sv_id r = sv_id s \<or> sv_tenant_id r = sv_tenant_id s \<and> sv_name r = sv_name s"

definition role_exists :: "iam_db \<Rightarrow> ID option \<Rightarrow> bool" where
  "role_exists d role \<longleftrightarrow> (case role of None \<Rightarrow> True | Some i \<Rightarrow> has_role d i)"

definition sql_insert_account :: "service_account_row \<Rightarrow> int \<Rightarrow> iam_db \<Rightarrow> service_account_row res \<times> iam_db" where
  "sql_insert_account r t d =
     (case insert_row account_clash (sv_id r \<noteq> NilID \<and> has_tenant d (sv_tenant_id r) \<and> role_exists d (sv_role_id r)) r (t_service_accounts d)
      of (x, rs) \<Rightarrow> (x, d\<lparr>t_service_accounts := rs\<rparr>))"

definition account_row_of :: "ServiceAccount \<Rightarrow> service_account_row" where
  "account_row_of s =
     \<lparr>sv_id = sa_ID s, sv_tenant_id = sa_TenantID s, sv_name = sa_Name s, sv_description = Some (sa_Description s),
      sv_role_id = id_of_ptr (sa_RoleID s), sv_status = sa_Status s, sv_created_at = to_micro (sa_CreatedAt s),
      sv_updated_at = to_micro (sa_UpdatedAt s)\<rparr>"

definition repo_CreateServiceAccount :: "ctx \<Rightarrow> ServiceAccount \<Rightarrow> unit iamproc" where
  "repo_CreateServiceAccount c s =
     bindP (wrap_err ''failed to insert service account'' (stmt (pool_ctx c) (sql_insert_account (account_row_of s)))) (\<lambda>_. ret ())"

text \<open>A row with the code and name of its role, joined on the left.\<close>

definition with_role :: "iam_db \<Rightarrow> service_account_row \<Rightarrow> service_account_row \<times> string \<times> string" where
  "with_role d s =
     (case find (\<lambda>r. sv_role_id s = Some (ro_id r)) (t_roles d) of
        None \<Rightarrow> (s, [], []) | Some r \<Rightarrow> (s, ro_code r, ro_name r))"

definition account_of_row :: "(int \<Rightarrow> int) \<Rightarrow> service_account_row \<times> string \<times> string \<Rightarrow> ServiceAccount" where
  "account_of_row lo = (\<lambda>(s, code, name).
     \<lparr>sa_ID = sv_id s, sa_TenantID = sv_tenant_id s, sa_Name = sv_name s, sa_Description = str_of_ptr (sv_description s),
      sa_RoleID = sv_role_id s, sa_RoleCode = (if sv_role_id s = None then [] else code),
      sa_RoleName = (if sv_role_id s = None then [] else name), sa_Status = sv_status s,
      sa_CreatedAt = ts_local lo (sv_created_at s), sa_UpdatedAt = ts_local lo (sv_updated_at s)\<rparr>)"

definition own_account :: "ID \<Rightarrow> ID \<Rightarrow> service_account_row \<Rightarrow> bool" where
  "own_account tenantID i s \<longleftrightarrow> pg_eq (sv_tenant_id s) tenantID \<and> pg_eq (sv_id s) i"

definition map_res :: "('a \<Rightarrow> 'b) \<Rightarrow> 'a res \<Rightarrow> 'b res" where
  "map_res f r = bind_res r (\<lambda>x. Ret (f x))"

text \<open>\<open>pgx.ErrNoRows\<close> becomes \<open>ErrNotFound\<close>, any other error is wrapped.\<close>

definition lookup_err :: "string \<Rightarrow> 'a iamproc \<Rightarrow> 'a iamproc" where
  "lookup_err msg m = (\<lambda>e w. case m e w of
     (Fail er, w1) \<Rightarrow> (Fail (if errors_Is er ErrNoRows then ErrNotFound else Wrapped msg er), w1) | r \<Rightarrow> r)"

definition repo_GetServiceAccountByID :: "ctx \<Rightarrow> ID \<Rightarrow> ID \<Rightarrow> ServiceAccount iamproc" where
  "repo_GetServiceAccountByID c tenantID i =
     read_with account_of_row (lookup_err ''failed to get service account'' (query (pool_ctx c)
       (\<lambda>d. map_res (with_role d) (select_one (own_account tenantID i) (t_service_accounts d)))))"

definition repo_ListServiceAccounts :: "ctx \<Rightarrow> ID \<Rightarrow> ServiceAccount list iamproc" where
  "repo_ListServiceAccounts c tenantID =
     read_with (\<lambda>lo. map (account_of_row lo)) (wrap_err ''failed to list service accounts'' (query (pool_ctx c)
       (\<lambda>d. Ret (map (with_role d) (sort_key (\<lambda>s. - sv_created_at s)
          (filter (\<lambda>s. pg_eq (sv_tenant_id s) tenantID) (t_service_accounts d)))))))"

definition sql_update_account :: "service_account_row \<Rightarrow> int \<Rightarrow> iam_db \<Rightarrow> int res \<times> iam_db" where
  "sql_update_account r t d =
     (let p = own_account (sv_tenant_id r) (sv_id r); rows = t_service_accounts d
      in if list_ex p rows \<and> list_ex (\<lambda>s. sv_tenant_id s = sv_tenant_id r \<and> sv_name s = sv_name r \<and> sv_id s \<noteq> sv_id r) rows
         then (Fail (Opaque ''unique constraint''), d)
         else if list_ex p rows \<and> \<not> role_exists d (sv_role_id r) then (Fail (Opaque ''foreign key constraint''), d)
         else (Ret (int (length (filter p rows))),
               d\<lparr>t_service_accounts := update_rows p
                 (\<lambda>s. s\<lparr>sv_name := sv_name r, sv_description := sv_description r, sv_role_id := sv_role_id r,
                        sv_status := sv_status r, sv_updated_at := sv_updated_at r\<rparr>) rows\<rparr>))"

definition repo_UpdateServiceAccount :: "ctx \<Rightarrow> ServiceAccount \<Rightarrow> unit iamproc" where
  "repo_UpdateServiceAccount c s =
     affected ''failed to update service account'' (stmt (pool_ctx c) (sql_update_account (account_row_of s)))"

text \<open>The keys of a deleted account go with it (\<open>ON DELETE CASCADE\<close>).\<close>

definition sql_delete_account :: "ID \<Rightarrow> ID \<Rightarrow> int \<Rightarrow> iam_db \<Rightarrow> int res \<times> iam_db" where
  "sql_delete_account tenantID i t d =
     (let gone = filter (own_account tenantID i) (t_service_accounts d)
      in (Ret (int (length gone)),
          d\<lparr>t_service_accounts := filter (\<lambda>s. \<not> own_account tenantID i s) (t_service_accounts d),
            t_api_keys := filter (\<lambda>k. ky_service_account_id k \<notin> sv_id ` set gone) (t_api_keys d)\<rparr>))"

definition repo_DeleteServiceAccount :: "ctx \<Rightarrow> ID \<Rightarrow> ID \<Rightarrow> unit iamproc" where
  "repo_DeleteServiceAccount c tenantID i =
     affected ''failed to delete service account'' (stmt (pool_ctx c) (sql_delete_account tenantID i))"

definition key_clash :: "api_key_row \<Rightarrow> api_key_row \<Rightarrow> bool" where
  "key_clash r s \<longleftrightarrow> ky_id r = ky_id s \<or> ky_key_hash r = ky_key_hash s"

definition sql_insert_key :: "api_key_row \<Rightarrow> int \<Rightarrow> iam_db \<Rightarrow> api_key_row res \<times> iam_db" where
  "sql_insert_key r t d =
     (case insert_row key_clash (ky_id r \<noteq> NilID \<and> has_tenant d (ky_tenant_id r) \<and> has_account d (ky_service_account_id r)) r (t_api_keys d)
      of (x, rs) \<Rightarrow> (x, d\<lparr>t_api_keys := rs\<rparr>))"

definition key_row_of :: "APIKey \<Rightarrow> api_key_row" where
  "key_row_of k =
     \<lparr>ky_id = ak_ID k, ky_tenant_id = ak_TenantID k, ky_service_account_id = ak_ServiceAccountID k, ky_name = ak_Name k,
      ky_key_prefix = ak_KeyPrefix k, ky_key_hash = ak_KeyHash k, ky_scopes = json_of_strs (ak_Scopes k),
      ky_ip_allowlist = map_option json_of_strs (ak_IPAllowlist k), ky_status = ak_Status k,
      ky_expires_at = map_option to_micro (ak_ExpiresAt k), ky_last_used_at = None, ky_last_used_ip = None,
      ky_created_at = to_micro (ak_CreatedAt k), ky_revoked_at = None\<rparr>"

definition repo_CreateAPIKey :: "ctx \<Rightarrow> APIKey \<Rightarrow> unit iamproc" where
  "repo_CreateAPIKey c k =
     bindP (wrap_err ''failed to insert api key'' (stmt (pool_ctx c) (sql_insert_key (key_row_of k)))) (\<lambda>_. ret ())"

definition key_of_row :: "(int \<Rightarrow> int) \<Rightarrow> api_key_row \<Rightarrow> APIKey" where
  "key_of_row lo k =
     \<lparr>ak_ID = ky_id k, ak_TenantID = ky_tenant_id k, ak_ServiceAccountID = ky_service_account_id k, ak_Name = ky_name k,
      ak_KeyPrefix = ky_key_prefix k, ak_KeyHash = [],
      ak_Scopes = (case strs_of_json (ky_scopes k) of None \<Rightarrow> [] | Some ss \<Rightarrow> ss),
      ak_IPAllowlist = (case ky_ip_allowlist k of None \<Rightarrow> None | Some j \<Rightarrow> strs_of_json j),
      ak_Status = ky_status k, ak_ExpiresAt = map_option (ts_local lo) (ky_expires_at k),
      ak_LastUsedAt = map_option (ts_local lo) (ky_last_used_at k), ak_LastUsedIP = ky_last_used_ip k,
      ak_CreatedAt = ts_local lo (ky_created_at k), ak_RevokedAt = map_option (ts_local lo) (ky_revoked_at k)\<rparr>"

definition own_key :: "ID \<Rightarrow> ID \<Rightarrow> api_key_row \<Rightarrow> bool" where
  "own_key tenantID i k \<longleftrightarrow> pg_eq (ky_tenant_id k) tenantID \<and> pg_eq (ky_id k) i"

definition repo_GetAPIKeyByID :: "ctx \<Rightarrow> ID \<Rightarrow> ID \<Rightarrow> APIKey iamproc" where
  "repo_GetAPIKeyByID c tenantID i =
     read_with key_of_row (lookup_err ''failed to get api key'' (query (pool_ctx c)
       (\<lambda>d. select_one (own_key tenantID i) (t_api_keys d))))"

text \<open>\<open>json_agg\<close> of the codes of the role's permissions, in no particular order.\<close>

definition account_permissions :: "service_account_row \<Rightarrow> iam_db \<Rightarrow> string list" where
  "account_permissions s d = (case sv_role_id s of None \<Rightarrow> [] | Some r \<Rightarrow> map pm_code (permissions_of_role r d))"

definition sql_select_key_by_hash :: "string \<Rightarrow> iam_db \<Rightarrow> (api_key_row \<times> service_account_row \<times> string list) res" where
  "sql_select_key_by_hash h d =
     (case concat (map (\<lambda>k. map (\<lambda>s. (k, s, account_permissions s d))
         (filter (\<lambda>s. sv_id s = ky_service_account_id k) (t_service_accounts d)))
         (filter (\<lambda>k. ky_key_hash k = h) (t_api_keys d)))
      of [] \<Rightarrow> Fail ErrNoRows | x # xs \<Rightarrow> Ret x)"

definition effective_permissions :: "APIKey \<Rightarrow> string list \<Rightarrow> string list" where
  "effective_permissions k rolePerms = (if length (ak_Scopes k) > 0 then ak_Scopes k else rolePerms)"

text \<open>This reading leaves the code and the name of the role empty.\<close>

definition repo_GetAPIKeyByHash :: "ctx \<Rightarrow> string \<Rightarrow> (APIKey \<times> ServiceAccount \<times> string list) iamproc" where
  "repo_GetAPIKeyByHash c h =
     read_with (\<lambda>lo (k, s, perms). let key = key_of_row lo k
         in (key, account_of_row lo (s, [], []), effective_permissions key perms))
       (lookup_err ''failed to lookup api key'' (query (pool_ctx c) (sql_select_key_by_hash h)))"

definition repo_ListAPIKeysByServiceAccount :: "ctx \<Rightarrow> ID \<Rightarrow> ID \<Rightarrow> APIKey list iamproc" where
  "repo_ListAPIKeysByServiceAccount c tenantID accountID =
     read_with (\<lambda>lo. map (key_of_row lo)) (wrap_err ''failed to list api keys'' (query (pool_ctx c)
       (\<lambda>d. Ret (sort_key (\<lambda>k. - ky_created_at k)
          (filter (\<lambda>k. pg_eq (ky_tenant_id k) tenantID \<and> pg_eq (ky_service_account_id k) accountID) (t_api_keys d))))))"

definition sql_revoke_key :: "ID \<Rightarrow> ID \<Rightarrow> int \<Rightarrow> iam_db \<Rightarrow> int res \<times> iam_db" where
  "sql_revoke_key tenantID i t d =
     (let p = (\<lambda>k. own_key tenantID i k \<and> ky_status k = ''active'')
      in (Ret (int (length (filter p (t_api_keys d)))),
          d\<lparr>t_api_keys := update_rows p (\<lambda>k. k\<lparr>ky_status := ''revoked'', ky_revoked_at := Some t\<rparr>) (t_api_keys d)\<rparr>))"

definition repo_RevokeAPIKey :: "ctx \<Rightarrow> ID \<Rightarrow> ID \<Rightarrow> unit iamproc" where
  "repo_RevokeAPIKey c tenantID i =
     affected ''failed to revoke api key'' (stmt (pool_ctx c) (sql_revoke_key tenantID i))"

definition sql_key_usage :: "ID \<Rightarrow> string \<Rightarrow> int \<Rightarrow> int \<Rightarrow> iam_db \<Rightarrow> unit res \<times> iam_db" where
  "sql_key_usage i clientIP usedAt t d =
     (Ret (), d\<lparr>t_api_keys := update_rows (\<lambda>k. pg_eq (ky_id k) i)
        (\<lambda>k. k\<lparr>ky_last_used_at := Some usedAt, ky_last_used_ip := Some clientIP\<rparr>) (t_api_keys d)\<rparr>)"

definition repo_UpdateAPIKeyUsage :: "ctx \<Rightarrow> ID \<Rightarrow> string \<Rightarrow> gotime \<Rightarrow> unit iamproc" where
  "repo_UpdateAPIKeyUsage c i clientIP usedAt = stmt (pool_ctx c) (sql_key_usage i clientIP (to_micro usedAt))"

section \<open>Use case\<close>

record CreateServiceAccountInput =
  csi_Name :: string
  csi_Description :: string
  csi_RoleID :: "ID option"

record UpdateServiceAccountInput =
  usi_Name :: string
  usi_Description :: string
  usi_RoleID :: "ID option"
  usi_Status :: string

record CreateAPIKeyInput =
  cki_Name :: string
  cki_Scopes :: "string list"
  cki_IPAllowlist :: "string list option"
  cki_ExpiresAt :: "gotime option"

definition CreateServiceAccount :: "ctx \<Rightarrow> CreateServiceAccountInput \<Rightarrow> ServiceAccount iamproc" where
  "CreateServiceAccount c inp =
     bindP (lift_res (RequireTenantID c)) (\<lambda>tenantID.
     let name = TrimSpace (csi_Name inp)
     in bindP (guard (name \<noteq> []) (Wrapped ''name is required'' ErrInvalidInput)) (\<lambda>_.
     bindP NewID (\<lambda>i.
     bindP Now (\<lambda>now.
     let s = \<lparr>sa_ID = i, sa_TenantID = tenantID, sa_Name = name, sa_Description = TrimSpace (csi_Description inp),
              sa_RoleID = csi_RoleID inp, sa_RoleCode = [], sa_RoleName = [], sa_Status = ServiceAccountStatusActive,
              sa_CreatedAt = now, sa_UpdatedAt = now\<rparr>
     in bindP (repo_CreateServiceAccount c s) (\<lambda>_. ret s)))))"

definition GetServiceAccount :: "ctx \<Rightarrow> ID \<Rightarrow> ServiceAccount iamproc" where
  "GetServiceAccount c i =
     bindP (lift_res (RequireTenantID c)) (\<lambda>tenantID. repo_GetServiceAccountByID c tenantID i)"

definition ListServiceAccounts :: "ctx \<Rightarrow> ServiceAccount list iamproc" where
  "ListServiceAccounts c = bindP (lift_res (RequireTenantID c)) (\<lambda>tenantID. repo_ListServiceAccounts c tenantID)"

definition apply_account_update :: "UpdateServiceAccountInput \<Rightarrow> gotime \<Rightarrow> ServiceAccount \<Rightarrow> ServiceAccount" where
  "apply_account_update inp now s =
     (let name = TrimSpace (usi_Name inp);
          s1 = (if name \<noteq> [] then s\<lparr>sa_Name := name\<rparr> else s);
          s2 = s1\<lparr>sa_Description := TrimSpace (usi_Description inp), sa_RoleID := usi_RoleID inp\<rparr>;
          s3 = (if usi_Status inp \<noteq> [] then s2\<lparr>sa_Status := usi_Status inp\<rparr> else s2)
      in s3\<lparr>sa_UpdatedAt := now\<rparr>)"

definition UpdateServiceAccount :: "ctx \<Rightarrow> ID \<Rightarrow> UpdateServiceAccountInput \<Rightarrow> ServiceAccount iamproc" where
  "UpdateServiceAccount c i inp =
     bindP (lift_res (RequireTenantID c)) (\<lambda>tenantID.
     bindP (repo_GetServiceAccountByID c tenantID i) (\<lambda>s.
     bindP Now (\<lambda>now.
     let s1 = apply_account_update inp now s
     in bindP (repo_UpdateServiceAccount c s1) (\<lambda>_. ret s1))))"

definition DeleteServiceAccount :: "ctx \<Rightarrow> ID \<Rightarrow> unit iamproc" where
  "DeleteServiceAccount c i =
     bindP (lift_res (RequireTenantID c)) (\<lambda>tenantID. repo_DeleteServiceAccount c tenantID i)"

text \<open>The key as stored and the raw secret.\<close>

definition CreateAPIKey :: "sa_deps \<Rightarrow> ctx \<Rightarrow> ID \<Rightarrow> CreateAPIKeyInput \<Rightarrow> (APIKey \<times> string) iamproc" where
  "CreateAPIKey dp c accountID inp =
     bindP (lift_res (RequireTenantID c)) (\<lambda>tenantID.
     bindP (repo_GetServiceAccountByID c tenantID accountID) (\<lambda>s.
     bindP (guard (ServiceAccount_IsActive s) (Wrapped ''service account is not active'' ErrInvalidServiceAccount)) (\<lambda>_.
     let keyName = (if TrimSpace (cki_Name inp) = [] then sa_Name s @ ''-key'' else TrimSpace (cki_Name inp))
     in bindP (wrap_err ''failed to generate key'' (GenerateAPIKey dp)) (\<lambda>(rawKey, pre, hash).
     bindP NewID (\<lambda>keyID.
     bindP Now (\<lambda>now.
     let k = \<lparr>ak_ID = keyID, ak_TenantID = tenantID, ak_ServiceAccountID = accountID, ak_Name = keyName,
              ak_KeyPrefix = pre, ak_KeyHash = hash, ak_Scopes = cki_Scopes inp, ak_IPAllowlist = cki_IPAllowlist inp,
              ak_Status = APIKeyStatusActive, ak_ExpiresAt = cki_ExpiresAt inp, ak_LastUsedAt = None,
              ak_LastUsedIP = None, ak_CreatedAt = now, ak_RevokedAt = None\<rparr>
     in bindP (repo_CreateAPIKey c k) (\<lambda>_. ret (k, rawKey))))))))"

definition ListAPIKeys :: "ctx \<Rightarrow> ID \<Rightarrow> APIKey list iamproc" where
  "ListAPIKeys c accountID =
     bindP (lift_res (RequireTenantID c)) (\<lambda>tenantID. repo_ListAPIKeysByServiceAccount c tenantID accountID)"

definition RevokeAPIKey :: "ctx \<Rightarrow> ID \<Rightarrow> ID \<Rightarrow> unit iamproc" where
  "RevokeAPIKey c accountID keyID =
     bindP (lift_res (RequireTenantID c)) (\<lambda>tenantID.
     bindP (repo_GetAPIKeyByID c tenantID keyID) (\<lambda>k.
     bindP (guard (ak_ServiceAccountID k = accountID) ErrNotFound) (\<lambda>_.
     repo_RevokeAPIKey c tenantID keyID)))"

definition key_claims :: "ServiceAccount \<Rightarrow> APIKey \<Rightarrow> string list \<Rightarrow> AuthClaims" where
  "key_claims s k perms =
     \<lparr>ac_UserID = sa_ID s, ac_TenantID = sa_TenantID s, ac_Email = sa_Name s @ ''@serviceaccount.mergiate.local'',
      ac_Name = sa_Name s, ac_Roles = (if sa_RoleCode s \<noteq> [] then [sa_RoleCode s] else []), ac_Permissions = perms,
      ac_ActorType = ActorTypeAPIKey, ac_ServiceAccountID = Some (sa_ID s), ac_APIKeyID = Some (ak_ID k)\<rparr>"

definition inactive_key_error :: "gotime \<Rightarrow> APIKey \<Rightarrow> err" where
  "inactive_key_error now k =
     (if ak_Status k = APIKeyStatusRevoked then ErrAPIKeyRevoked
      else if APIKey_expired now k then ErrAPIKeyExpired else ErrInvalidAPIKey)"

text \<open>The claims and the update of the usage that is started: key, client address and time.\<close>

definition ValidateAPIKey :: "sa_deps \<Rightarrow> ctx \<Rightarrow> string \<Rightarrow> string \<Rightarrow> (AuthClaims \<times> ID \<times> string \<times> gotime) iamproc" where
  "ValidateAPIKey dp c raw0 clientIP =
     (let rawKey = TrimSpace raw0
      in bindP (guard (HasPrefix rawKey APIKeyPrefix) (Wrapped ''invalid key prefix'' ErrInvalidAPIKey)) (\<lambda>_.
      bindP (tryP (repo_GetAPIKeyByHash c (HashAPIKey dp rawKey))) (\<lambda>r.
      case r of
        Fail er \<Rightarrow> fail (if errors_Is er ErrNotFound then Wrapped ''key not found'' ErrInvalidAPIKey else er)
      | Panic p \<Rightarrow> lift_res (Panic p)
      | Ret (k, s, perms) \<Rightarrow>
          bindP Now (\<lambda>now.
          bindP (guard (APIKey_IsActive now k) (inactive_key_error now k)) (\<lambda>_.
          bindP (guard (ServiceAccount_IsActive s) (Wrapped ''service account status'' ErrInvalidServiceAccount)) (\<lambda>_.
          bindP (guard (ValidateIP clientIP (case ak_IPAllowlist k of None \<Rightarrow> [] | Some l \<Rightarrow> l)) ErrIPNotAllowed) (\<lambda>_.
          ret (key_claims s k perms, ak_ID k, clientIP, now))))))))"

end
