(* ===== verification/ServiceAccountProps.thy ===== *)
theory ServiceAccountProps
  imports ServiceAccount
begin

text \<open>
  What \<open>ValidateAPIKey\<close> accepts, in terms of the tables, and runs of the service account use cases:
  a revoked key is refused for good.
\<close>

section \<open>Accepted keys\<close>

definition key_scopes :: "api_key_row \<Rightarrow> string list" where
  "key_scopes k = (case strs_of_json (ky_scopes k) of None \<Rightarrow> [] | Some ss \<Rightarrow> ss)"

definition key_allowlist :: "api_key_row \<Rightarrow> string list" where
  "key_allowlist k = (case ky_ip_allowlist k of None \<Rightarrow> [] | Some j \<Rightarrow> (case strs_of_json j of None \<Rightarrow> [] | Some l \<Rightarrow> l))"

text \<open>The key belongs to an active account and is active, unexpired and allowed for the client; the claims speak for the
  account, with the scopes of the key or else the permissions of the role of the account.\<close>

definition key_grants :: "iam_db \<Rightarrow> int \<Rightarrow> string \<Rightarrow> string \<Rightarrow> AuthClaims \<Rightarrow> bool" where
  "key_grants d now h clientIP cl \<longleftrightarrow>
     (\<exists>k \<in> set (t_api_keys d). \<exists>s \<in> set (t_service_accounts d).
        ky_key_hash k = h \<and> sv_id s = ky_service_account_id k \<and>
        ky_status k = ''active'' \<and> (\<forall>x. ky_expires_at k = Some x \<longrightarrow> now \<le> x) \<and> sv_status s = ''active'' \<and>
        ValidateIP clientIP (key_allowlist k) \<and>
        ac_UserID cl = sv_id s \<and> ac_TenantID cl = sv_tenant_id s \<and> ac_ActorType cl = ActorTypeAPIKey \<and>
        ac_ServiceAccountID cl = Some (sv_id s) \<and> ac_APIKeyID cl = Some (ky_id k) \<and>
        ac_Permissions cl = (if key_scopes k = [] then account_permissions s d else key_scopes k))"

lemma lookup_err_Ret_iff [proc_simps]: "lookup_err msg m e w = (Ret x, w') \<longleftrightarrow> m e w = (Ret x, w')"
  by (auto simp: lookup_err_def split: prod.splits res.splits)

lemma keeps_lookup_err [keeps_intros]: "keeps_db m \<Longrightarrow> keeps_db (lookup_err msg m)"
  unfolding keeps_db_def lookup_err_def by (auto split: prod.splits res.splits) (metis snd_conv)+

lemma GetAPIKeyByHash_Ret:
  assumes "repo_GetAPIKeyByHash c h e w = (Ret (key, sa, perms), w')"
  obtains k s where "k \<in> set (t_api_keys (wdb w))" "s \<in> set (t_service_accounts (wdb w))" "ky_key_hash k = h"
    "sv_id s = ky_service_account_id k" "key = key_of_row (local_off e) k" "sa = account_of_row (local_off e) (s, [], [])"
    "perms = effective_permissions key (account_permissions s (wdb w))"
proof -
  obtain k s ps where x: "sql_select_key_by_hash h (wdb w) = Ret (k, s, ps)" "key = key_of_row (local_off e) k"
      "sa = account_of_row (local_off e) (s, [], [])" "perms = effective_permissions key ps"
    using assms by (auto simp: repo_GetAPIKeyByHash_def read_with_Ret_iff proc_simps query_Ret_outside Let_def)
  let ?rows = "concat (map (\<lambda>k. map (\<lambda>s. (k, s, account_permissions s (wdb w)))
         (filter (\<lambda>s. sv_id s = ky_service_account_id k) (t_service_accounts (wdb w))))
         (filter (\<lambda>k. ky_key_hash k = h) (t_api_keys (wdb w))))"
  have "(k, s, ps) \<in> set ?rows"
    using x(1) by (cases ?rows) (simp_all add: sql_select_key_by_hash_def)
  with x(2-4) that show thesis by auto
qed

lemma keeps_ValidateAPIKey [keeps_intros]: "keeps_db (ValidateAPIKey dp c raw ip)"
  unfolding ValidateAPIKey_def repo_GetAPIKeyByHash_def Let_def
  by (auto intro!: keeps_intros split: res.splits)

lemma ValidateAPIKey_Ret:
  assumes "ValidateAPIKey dp c raw ip e w = (Ret (cl, u), w')"
  shows "HasPrefix (TrimSpace raw) APIKeyPrefix"
    and "\<exists>n. key_grants (wdb w) (clock_at e n) (HashAPIKey dp raw) ip cl"
proof -
  obtain x w1 where g0: "repo_GetAPIKeyByHash c (HashAPIKey dp (TrimSpace raw)) e w = (x, w1)" by fastforce
  obtain key sa perms where g: "repo_GetAPIKeyByHash c (HashAPIKey dp (TrimSpace raw)) e w = (Ret (key, sa, perms), w1)"
    and act: "APIKey_IsActive (utc_of_ns (clock_at e (tick w1))) key" "ServiceAccount_IsActive sa"
      "ValidateIP ip (case ak_IPAllowlist key of None \<Rightarrow> [] | Some l \<Rightarrow> l)"
    and cl: "cl = key_claims sa key perms" and pre: "HasPrefix (TrimSpace raw) APIKeyPrefix"
    using assms g0 unfolding ValidateAPIKey_def Let_def
    by (cases x) (auto simp: bindP_Ret_iff proc_simps tryP_Ret_iff)
  show "HasPrefix (TrimSpace raw) APIKeyPrefix" by (rule pre)
  from GetAPIKeyByHash_Ret [OF g] obtain k s where ks: "k \<in> set (t_api_keys (wdb w))" "s \<in> set (t_service_accounts (wdb w))"
    "ky_key_hash k = HashAPIKey dp (TrimSpace raw)" "sv_id s = ky_service_account_id k" "key = key_of_row (local_off e) k"
    "sa = account_of_row (local_off e) (s, [], [])" "perms = effective_permissions key (account_permissions s (wdb w))"
    by metis
  have al: "(case ak_IPAllowlist key of None \<Rightarrow> [] | Some l \<Rightarrow> l) = key_allowlist k"
    by (simp add: ks(5) key_of_row_def key_allowlist_def split: option.splits)
  have "ky_status k = ''active''" "\<forall>x. ky_expires_at k = Some x \<longrightarrow> clock_at e (tick w1) \<le> x"
    using act(1) by (auto simp: ks(5) key_of_row_def APIKey_IsActive_def APIKey_expired_def APIKeyStatusActive_def
        Time_After_def ts_local_def utc_of_ns_def split: if_splits option.splits)
  moreover have "sv_status s = ''active''"
    using act(2) by (simp add: ks(6) account_of_row_def ServiceAccount_IsActive_def ServiceAccountStatusActive_def)
  moreover have "perms = (if key_scopes k = [] then account_permissions s (wdb w) else key_scopes k)"
    by (simp add: ks(7) ks(5) effective_permissions_def key_of_row_def key_scopes_def)
  ultimately have "key_grants (wdb w) (clock_at e (tick w1)) (HashAPIKey dp raw) ip cl"
    using ks(1-4) act(3) al unfolding key_grants_def
    by (intro bexI [OF _ ks(1)] bexI [OF _ ks(2)])
       (simp add: cl key_claims_def ks(5,6) key_of_row_def account_of_row_def HashAPIKey_def)
  then show "\<exists>n. key_grants (wdb w) (clock_at e n) (HashAPIKey dp raw) ip cl" by blast
qed

section \<open>Runs\<close>

text \<open>Identifiers and hashes of keys are unique, and every key whose hash is in \<open>H\<close> is revoked.\<close>

definition key_inv :: "string set \<Rightarrow> iam_db \<Rightarrow> bool" where
  "key_inv H d \<longleftrightarrow> distinct (map ky_id (t_api_keys d)) \<and> distinct (map ky_key_hash (t_api_keys d)) \<and>
     (\<forall>k \<in> set (t_api_keys d). ky_key_hash k \<in> H \<longrightarrow> ky_status k = ''revoked'')"

definition keeps_key_inv :: "string set \<Rightarrow> iam_db \<Rightarrow> iam_db \<Rightarrow> bool" where
  "keeps_key_inv H d d' \<longleftrightarrow> (key_inv H d \<longrightarrow> key_inv H d')"

interpretation key_order: db_order "keeps_key_inv H"
  by unfold_locales (auto simp: keeps_key_inv_def)

text \<open>
  Operations of one process after another, with any refusals and lost replies; every other change
  leaves the keys alone. No key issued in the run has a hash in \<open>H\<close>.
\<close>

inductive key_run :: "sa_deps \<Rightarrow> string set \<Rightarrow> iam_db world \<Rightarrow> iam_db world \<Rightarrow> bool" for dp H w where
  start: "key_run dp H w w"
| create_account: "key_run dp H w w1 \<Longrightarrow> CreateServiceAccount c csi e w1 = (r1, w2) \<Longrightarrow> key_run dp H w w2"
| update_account: "key_run dp H w w1 \<Longrightarrow> UpdateServiceAccount c i usi e w1 = (r1, w2) \<Longrightarrow> key_run dp H w w2"
| delete_account: "key_run dp H w w1 \<Longrightarrow> DeleteServiceAccount c i e w1 = (r2, w2) \<Longrightarrow> key_run dp H w w2"
| create_key: "key_run dp H w w1 \<Longrightarrow> CreateAPIKey dp c i inp e w1 = (r3, w2) \<Longrightarrow>
    \<forall>k \<in> set (t_api_keys (wdb w2)) - set (t_api_keys (wdb w1)). ky_key_hash k \<notin> H \<Longrightarrow> key_run dp H w w2"
| revoke_key: "key_run dp H w w1 \<Longrightarrow> RevokeAPIKey c i j e w1 = (r2, w2) \<Longrightarrow> key_run dp H w w2"
| usage: "key_run dp H w w1 \<Longrightarrow> repo_UpdateAPIKeyUsage c i ip t e w1 = (r2, w2) \<Longrightarrow> key_run dp H w w2"
| other: "key_run dp H w w1 \<Longrightarrow> t_api_keys (wdb w2) = t_api_keys (wdb w1) \<Longrightarrow> key_run dp H w w2"

lemma key_inv_same: "t_api_keys d' = t_api_keys d \<Longrightarrow> keeps_key_inv H d d'"
  by (simp add: keeps_key_inv_def key_inv_def)

lemma key_inv_update:
  assumes "\<And>k. ky_id (f k) = ky_id k" "\<And>k. ky_key_hash (f k) = ky_key_hash k"
    and "\<And>k. ky_status k = ''revoked'' \<Longrightarrow> ky_status (f k) = ''revoked''"
    and "t_api_keys d' = update_rows p f (t_api_keys d)"
  shows "keeps_key_inv H d d'"
proof -
  have "map ky_id (t_api_keys d') = map ky_id (t_api_keys d)" "map ky_key_hash (t_api_keys d') = map ky_key_hash (t_api_keys d)"
    using assms(1,2) by (simp_all add: assms(4) update_rows_def)
  moreover have "\<forall>k' \<in> set (t_api_keys d'). \<exists>k \<in> set (t_api_keys d). k' = (if p k then f k else k)"
    by (auto simp: assms(4) update_rows_def)
  ultimately show ?thesis using assms(2,3) unfolding keeps_key_inv_def key_inv_def by fastforce
qed

lemma key_inv_filter: "t_api_keys d' = filter p (t_api_keys d) \<Longrightarrow> keeps_key_inv H d d'"
  by (auto simp: keeps_key_inv_def key_inv_def distinct_map inj_on_def)

lemma sql_accounts_keep:
  "sql_insert_account r t d = (Ret x, d') \<Longrightarrow> keeps_key_inv H d d'"
  "sql_update_account r t d = (Ret n, d') \<Longrightarrow> keeps_key_inv H d d'"
  by (auto simp: sql_insert_account_def sql_update_account_def Let_def intro!: key_inv_same split: prod.splits if_splits)

lemma sql_delete_account_keeps: "sql_delete_account tid i t d = (Ret n, d') \<Longrightarrow> keeps_key_inv H d d'"
  by (auto simp: sql_delete_account_def Let_def intro!: key_inv_filter)

lemma sql_keys_keep:
  "sql_revoke_key tid i t d = (Ret n, d') \<Longrightarrow> keeps_key_inv H d d'"
  "sql_key_usage i ip u t d = (Ret y, d') \<Longrightarrow> keeps_key_inv H d d'"
  by (auto simp: sql_revoke_key_def sql_key_usage_def Let_def intro!: key_inv_update [rotated 3])

lemma stays_lookup_err: "stays (keeps_key_inv H) m \<Longrightarrow> stays (keeps_key_inv H) (lookup_err msg m)"
  unfolding stays_def lookup_err_def by (intro allI impI) (auto split: prod.splits res.splits)

lemma key_reads_stay:
  "stays (keeps_key_inv H) (repo_GetServiceAccountByID c t i)" "stays (keeps_key_inv H) (repo_GetAPIKeyByID c t i)"
  unfolding repo_GetServiceAccountByID_def repo_GetAPIKeyByID_def by (intro stays_intros stays_lookup_err)+

lemma key_ops_stay:
  "stays (keeps_key_inv H) (CreateServiceAccount c csi)" "stays (keeps_key_inv H) (UpdateServiceAccount c i usi)"
  "stays (keeps_key_inv H) (DeleteServiceAccount c i)" "stays (keeps_key_inv H) (RevokeAPIKey c i j)"
  "stays (keeps_key_inv H) (repo_UpdateAPIKeyUsage c i ip u)"
  unfolding CreateServiceAccount_def UpdateServiceAccount_def DeleteServiceAccount_def RevokeAPIKey_def Let_def affected_def
    repo_CreateServiceAccount_def repo_UpdateServiceAccount_def repo_DeleteServiceAccount_def repo_RevokeAPIKey_def
    repo_UpdateAPIKeyUsage_def
  by (intro stays_intros key_reads_stay key_order.stays_stmt; erule sql_accounts_keep sql_delete_account_keeps sql_keys_keep)+

lemma stays_GenerateAPIKey: "stays (keeps_key_inv H) (GenerateAPIKey dp)"
  by (auto simp: stays_def GenerateAPIKey_def key_order.R_refl split: option.splits)

text \<open>Creating a key: the unique constraints of the table.\<close>

lemma sql_insert_key_keep: "sql_insert_key r t d = (Ret x, d') \<Longrightarrow> keeps_key_inv {} d d'"
  by (auto simp: sql_insert_key_def insert_row_Ret_iff keeps_key_inv_def key_inv_def key_clash_def list_ex_iff
      split: prod.splits)

lemma CreateAPIKey_stay: "stays (keeps_key_inv {}) (CreateAPIKey dp c i inp)"
  unfolding CreateAPIKey_def Let_def repo_CreateAPIKey_def
  by (auto intro!: stays_intros key_reads_stay stays_GenerateAPIKey key_order.stays_stmt sql_insert_key_keep)

lemma key_inv_new:
  assumes "key_inv {} d'" "key_inv H d" "\<forall>k \<in> set (t_api_keys d') - set (t_api_keys d). ky_key_hash k \<notin> H"
  shows "key_inv H d'"
  using assms unfolding key_inv_def by blast

lemma key_run_inv: "key_run dp H w w' \<Longrightarrow> key_inv H (wdb w) \<Longrightarrow> key_inv H (wdb w')"
proof (induction rule: key_run.induct)
  case (create_key w1 c i inp e r w2)
  then have "key_inv {} (wdb w1)" by (auto simp: key_inv_def)
  then have "key_inv {} (wdb w2)"
    using staysD [OF CreateAPIKey_stay create_key(2)] by (simp add: keeps_key_inv_def)
  with create_key key_inv_new show ?case by blast
next
  case (other w1 w2)
  then show ?case using key_inv_same [of "wdb w2" "wdb w1" H] by (simp add: keeps_key_inv_def)
qed (auto dest!: staysD [OF key_ops_stay(1)] staysD [OF key_ops_stay(2)] staysD [OF key_ops_stay(3)]
     staysD [OF key_ops_stay(4)] staysD [OF key_ops_stay(5)] simp: keeps_key_inv_def)

lemma RevokeAPIKey_effect:
  assumes "RevokeAPIKey c i j e w = (Ret (), w')" "key_inv {} (wdb w)" "k \<in> set (t_api_keys (wdb w))" "ky_id k = j"
  shows "key_inv {ky_key_hash k} (wdb w')"
proof -
  have inv': "key_inv {} (wdb w')"
    using staysD [OF key_ops_stay(4) assms(1)] assms(2) by (simp add: keeps_key_inv_def)
  obtain t key w1 where g: "repo_GetAPIKeyByID c t j e w = (Ret key, w1)" and rv: "repo_RevokeAPIKey c t j e w1 = (Ret (), w')"
    using assms(1) by (auto simp: RevokeAPIKey_def bindP_Ret_iff proc_simps)
  have "keeps_db (repo_GetAPIKeyByID c t j)" unfolding repo_GetAPIKeyByID_def by (intro keeps_intros)
  from keepsD [OF this g] have w1: "wdb w1 = wdb w" .
  obtain n t0 d where st: "sql_revoke_key t j t0 (wdb w) = (Ret n, d)" "n \<noteq> 0" "wdb w' = d"
    using rv by (auto simp: repo_RevokeAPIKey_def affected_def bindP_Ret_iff proc_simps stmt_Ret_outside w1)
  let ?p = "\<lambda>k. own_key t j k \<and> ky_status k = ''active''"
  have keys: "t_api_keys (wdb w') = update_rows ?p (\<lambda>k. k\<lparr>ky_status := ''revoked'', ky_revoked_at := Some t0\<rparr>) (t_api_keys (wdb w))"
    and "filter ?p (t_api_keys (wdb w)) \<noteq> []"
    using st(2) arg_cong [OF st(1), of "\<lambda>x. t_api_keys (snd x)"] st(1) unfolding st(3)
    by (auto simp: sql_revoke_key_def Let_def)
  then obtain k' where k': "k' \<in> set (t_api_keys (wdb w))" "?p k'" by (auto simp: filter_empty_conv)
  have "k' = k"
    using k' assms(2-4) distinct_map_inj [of ky_id "t_api_keys (wdb w)" k' k] by (auto simp: key_inv_def own_key_def pg_eq_def)
  with k' have "?p k" by simp
  then have "\<forall>x \<in> set (t_api_keys (wdb w')). ky_key_hash x = ky_key_hash k \<longrightarrow> ky_status x = ''revoked''"
    using assms(2,3) distinct_map_inj [of ky_key_hash "t_api_keys (wdb w)" _ k] unfolding keys update_rows_def key_inv_def
    by auto
  with inv' show ?thesis by (simp add: key_inv_def)
qed

lemma revoked_not_granted: "key_inv {h} d \<Longrightarrow> \<not> key_grants d now h ip cl"
  by (auto simp: key_inv_def key_grants_def)

section \<open>The property\<close>

definition ex_sa_env :: env where
  "ex_sa_env = \<lparr>fault_at = (\<lambda>_. NoFault), newid_at = (\<lambda>n. Some (of_nat n + 7)), clock_at = (\<lambda>n. int n), dbnow_at = (\<lambda>n. int n),
     local_off = (\<lambda>_. 0), cvt_int64 = (\<lambda>_. 0)\<rparr>"

definition ex_sa_ctx :: ctx where
  "ex_sa_ctx = \<lparr>ctx_tenant = Some 5, ctx_claims = None, ctx_tx = False\<rparr>"

text \<open>An account of tenant 5 without keys, and hashing by reversal.\<close>

definition ex_sa_world :: "iam_db world" where
  "ex_sa_world = \<lparr>wdb = empty_iam\<lparr>t_tenants := [\<lparr>tn_id = 5, tn_code = ''acme'', tn_name = ''Acme'', tn_status = ''active'',
     tn_settings = JObj [], tn_created_at = 0, tn_updated_at = 0\<rparr>], t_service_accounts := [\<lparr>sv_id = 3, sv_tenant_id = 5, sv_name = ''bot'', sv_description = None,
     sv_role_id = None, sv_status = ''active'', sv_created_at = 0, sv_updated_at = 0\<rparr>]\<rparr>, wtx = None, tick = 0\<rparr>"

definition ex_sa_deps :: sa_deps where
  "ex_sa_deps = \<lparr>sk_sha256 = rev, sk_rand = (\<lambda>_. Some ''k'')\<rparr>"

definition ex_key_input :: CreateAPIKeyInput where
  "ex_key_input = \<lparr>cki_Name = ''ci'', cki_Scopes = [''document:read''], cki_IPAllowlist = None, cki_ExpiresAt = None\<rparr>"

definition ex_secret :: string where
  "ex_secret = APIKeyPrefix @ hex_encode ''k''"

lemmas ex_sa_eval = proc_eval CreateAPIKey_def RevokeAPIKey_def ex_sa_ctx_def ex_sa_deps_def ex_sa_world_def ex_key_input_def
  ex_sa_env_def empty_iam_def RequireTenantID_def GetTenantID_def NilID_def repo_GetServiceAccountByID_def read_with_def
  lookup_err_def pool_ctx_def select_one_def own_account_def pg_eq_def map_res_def with_role_def account_of_row_def
  ServiceAccount_IsActive_def ServiceAccountStatusActive_def GenerateAPIKey_def repo_CreateAPIKey_def sql_insert_key_def
  insert_row_def key_row_of_def has_tenant_def has_account_def HashAPIKey_def repo_GetAPIKeyByID_def own_key_def key_of_row_def repo_RevokeAPIKey_def
  affected_def sql_revoke_key_def update_rows_def ex_secret_def APIKeyStatusActive_def

lemma ex_key_revoked:
  obtains x w k w1 where "CreateAPIKey ex_sa_deps ex_sa_ctx 3 ex_key_input ex_sa_env ex_sa_world = (Ret x, w)"
    "k \<in> set (t_api_keys (wdb w))" "ky_id k = 9" "ky_key_hash k = HashAPIKey ex_sa_deps ex_secret"
    "RevokeAPIKey ex_sa_ctx 3 9 ex_sa_env w = (Ret (), w1)"
proof -
  have "\<exists>x w k w1. CreateAPIKey ex_sa_deps ex_sa_ctx 3 ex_key_input ex_sa_env ex_sa_world = (Ret x, w) \<and>
      k \<in> set (t_api_keys (wdb w)) \<and> ky_id k = 9 \<and> ky_key_hash k = HashAPIKey ex_sa_deps ex_secret \<and>
      RevokeAPIKey ex_sa_ctx 3 9 ex_sa_env w = (Ret (), w1)"
    by (simp add: ex_sa_eval cong: proc_congs)
  then show thesis using that by blast
qed

text \<open>C8. A revoked key is refused for good: after a successful \<open>RevokeAPIKey\<close>, in every later run of the service
  account use cases in which no new key happens to get the hash of the revoked one, \<open>ValidateAPIKey\<close> never accepts a
  secret with that hash, whatever the client address, the clock and the faults of the server.\<close>

theorem revoked_key_refused:
  assumes "t_api_keys (wdb w0) = []" and "key_run dp {} w0 w"
    and "RevokeAPIKey c accountID keyID e w = (Ret (), w1)" and "k \<in> set (t_api_keys (wdb w))" and "ky_id k = keyID"
    and "key_run dp {ky_key_hash k} w1 w2" and "HashAPIKey dp raw = ky_key_hash k"
  shows "\<not> is_Ret (fst (ValidateAPIKey dp c' raw clientIP e' w2))"
proof
  assume "is_Ret (fst (ValidateAPIKey dp c' raw clientIP e' w2))"
  then obtain cl u w3 where v: "ValidateAPIKey dp c' raw clientIP e' w2 = (Ret (cl, u), w3)"
    by (metis is_Ret_iff prod.exhaust_sel)
  have "key_inv {} (wdb w)" using key_run_inv [OF assms(2)] assms(1) by (simp add: key_inv_def)
  from RevokeAPIKey_effect [OF assms(3) this assms(4,5)] have "key_inv {ky_key_hash k} (wdb w2)"
    by (rule key_run_inv [OF assms(6)])
  with ValidateAPIKey_Ret(2) [OF v] revoked_not_granted assms(7) show False by metis
qed

theorem revoked_key_refused_witness:
  "\<exists>w1 w2. key_run ex_sa_deps {} ex_sa_world w1 \<and> RevokeAPIKey ex_sa_ctx 3 9 ex_sa_env w1 = (Ret (), w2) \<and>
     \<not> is_Ret (fst (ValidateAPIKey ex_sa_deps ex_sa_ctx ex_secret ''10.0.0.1:80'' ex_sa_env w2))"
proof -
  obtain x w k w1 where ex: "CreateAPIKey ex_sa_deps ex_sa_ctx 3 ex_key_input ex_sa_env ex_sa_world = (Ret x, w)"
    "k \<in> set (t_api_keys (wdb w))" "ky_id k = 9" "ky_key_hash k = HashAPIKey ex_sa_deps ex_secret"
    "RevokeAPIKey ex_sa_ctx 3 9 ex_sa_env w = (Ret (), w1)" by (rule ex_key_revoked)
  have r: "key_run ex_sa_deps {} ex_sa_world w" by (rule key_run.create_key [OF key_run.start ex(1)]) simp
  have "t_api_keys (wdb ex_sa_world) = []" by (simp add: ex_sa_world_def empty_iam_def)
  from revoked_key_refused [OF this r ex(5,2,3) key_run.start ex(4) [symmetric]] r ex(5) show ?thesis by blast
qed

end
