(* ===== verification/HttpAuth.thy ===== *)
theory HttpAuth
  imports ServiceAccountProps RateLimit
begin

text \<open>
  The way of a request to a handler: \<open>internal/core/delivery/http/middleware/auth.go\<close>,
  \<open>tenant.go\<close> and \<open>ratelimit.go\<close>, the error answers of \<open>pkg/response/response.go\<close>, and the
  authentication of the RPC interceptors (\<open>internal/core/delivery/rpc/interceptors/auth.go\<close>). A
  handler takes the request and its context and turns the state of the server into an answer and
  a new state. The state holds the database, the rate limiter, the headers already set on the
  answer and the updates of key usage that were started; handlers add to it what they need. An
  answer is its status, its error code and its data; the texts of messages and the encoding are not
  kept.
\<close>

section \<open>Requests and answers\<close>

record hreq =
  hq_header :: "string \<Rightarrow> string"
  hq_remote :: string
  hq_param :: "string \<Rightarrow> string"
  hq_query :: "string \<Rightarrow> string"
  hq_body :: string

record 'd response =
  rs_status :: int
  rs_code :: string
  rs_data :: "'d option"

record hstate =
  hs_world :: "iam_db world"
  hs_limiter :: inMemoryLimiter
  hs_headers :: "(string \<times> string) list"
  hs_started :: "(ID \<times> string \<times> gotime) list"

type_synonym ('d, 'z) handler = "hreq \<Rightarrow> ctx \<Rightarrow> env \<Rightarrow> 'z hstate_scheme \<Rightarrow> 'd response \<times> 'z hstate_scheme"

definition Err :: "int \<Rightarrow> string \<Rightarrow> 'd response" where
  "Err status code = \<lparr>rs_status = status, rs_code = code, rs_data = None\<rparr>"

definition JSON :: "int \<Rightarrow> 'd \<Rightarrow> 'd response" where
  "JSON status data = \<lparr>rs_status = status, rs_code = [], rs_data = Some data\<rparr>"

definition FromDomainError :: "err \<Rightarrow> 'd response" where
  "FromDomainError er =
     (if errors_Is er ErrNotFound then Err 404 ''NOT_FOUND''
      else if errors_Is er ErrAlreadyExists then Err 409 ''ALREADY_EXISTS''
      else if errors_Is er ErrInvalidInput \<or> errors_Is er ErrInvalidCurrency \<or> errors_Is er ErrInvalidAmount \<or>
              errors_Is er ErrUnitMismatch \<or> errors_Is er ErrCurrencyMismatch then Err 400 ''INVALID_INPUT''
      else if errors_Is er ErrTenantRequired then Err 400 ''TENANT_REQUIRED''
      else if errors_Is er ErrTenantSuspended then Err 403 ''TENANT_SUSPENDED''
      else if errors_Is er ErrUnauthorized then Err 401 ''UNAUTHORIZED''
      else if errors_Is er ErrForbidden then Err 403 ''FORBIDDEN''
      else Err 500 ''INTERNAL_ERROR'')"

text \<open>A call of the identity code from a handler. A panic is answered by the recovery middleware of the router.\<close>

definition call :: "'a iamproc \<Rightarrow> env \<Rightarrow> 'z hstate_scheme \<Rightarrow> ('a \<Rightarrow> 'z hstate_scheme \<Rightarrow> 'd response \<times> 'z hstate_scheme) \<Rightarrow>
    (err \<Rightarrow> 'd response) \<Rightarrow> 'd response \<times> 'z hstate_scheme" where
  "call m e s ok bad =
     (case m e (hs_world s) of
        (Ret x, w) \<Rightarrow> ok x (s\<lparr>hs_world := w\<rparr>)
      | (Fail er, w) \<Rightarrow> (bad er, s\<lparr>hs_world := w\<rparr>)
      | (Panic p, w) \<Rightarrow> (Err 500 [], s\<lparr>hs_world := w\<rparr>))"

section \<open>Authentication\<close>

record auth_deps =
  ad_crypto :: crypto
  ad_tokens :: tokenManager
  ad_keys :: "sa_deps option"

definition with_claims :: "ctx \<Rightarrow> AuthClaims \<Rightarrow> ctx" where
  "with_claims c claims =
     (let c1 = WithAuthClaims c claims
      in if ac_TenantID claims \<noteq> NilID then WithTenantID c1 (ac_TenantID claims) else c1)"

definition user_claims :: "TokenClaims \<Rightarrow> AuthClaims" where
  "user_claims t =
     \<lparr>ac_UserID = tk_UserID t, ac_TenantID = tk_TenantID t, ac_Email = tk_Email t, ac_Name = tk_Name t,
      ac_Roles = tk_Roles t, ac_Permissions = tk_Permissions t, ac_ActorType = ActorTypeUser,
      ac_ServiceAccountID = None, ac_APIKeyID = None\<rparr>"

definition key_scheme :: "string \<Rightarrow> string \<Rightarrow> bool" where
  "key_scheme scheme tokenStr \<longleftrightarrow>
     (EqualFold scheme ''Bearer'' \<or> EqualFold scheme ''ApiKey'') \<and> HasPrefix tokenStr APIKeyPrefix"

definition serve_key :: "sa_deps \<Rightarrow> string \<Rightarrow> ('d, 'z) handler \<Rightarrow> ('d, 'z) handler" where
  "serve_key dp raw next req c e s =
     call (ValidateAPIKey dp c raw (hq_remote req)) e s
       (\<lambda>(claims, used) s1. next req (with_claims c claims) e (s1\<lparr>hs_started := hs_started s1 @ [used]\<rparr>))
       (\<lambda>_. Err 401 ''INVALID_API_KEY'')"

definition AuthRequired :: "auth_deps \<Rightarrow> ('d, 'z) handler \<Rightarrow> ('d, 'z) handler" where
  "AuthRequired a next req c e s =
     (let apiKey = hq_header req ''X-API-Key''
      in if apiKey \<noteq> [] \<and> ad_keys a \<noteq> None then serve_key (the (ad_keys a)) apiKey next req c e s
      else let authHeader = hq_header req ''Authorization''
      in if authHeader = [] then (Err 401 ''UNAUTHORIZED'', s)
      else (case SplitN2 (CHR '' '') authHeader of
          [scheme, rest] \<Rightarrow>
            (let tokenStr = TrimSpace rest
             in if key_scheme scheme tokenStr \<and> ad_keys a \<noteq> None
                then serve_key (the (ad_keys a)) tokenStr next req c e s
                else if EqualFold scheme ''Bearer''
                then call (ValidateToken (ad_crypto a) (ad_tokens a) tokenStr) e s
                       (\<lambda>claims s1. next req (with_claims c (user_claims claims)) e s1)
                       (\<lambda>_. Err 401 ''INVALID_TOKEN'')
                else (Err 401 ''UNAUTHORIZED'', s))
        | _ \<Rightarrow> (Err 401 ''UNAUTHORIZED'', s)))"

text \<open>The optional form never refuses: what does not authenticate passes on without claims.\<close>

definition optional_key :: "sa_deps \<Rightarrow> string \<Rightarrow> hreq \<Rightarrow> ctx \<Rightarrow> env \<Rightarrow> 'z hstate_scheme \<Rightarrow> ctx \<times> 'z hstate_scheme" where
  "optional_key dp raw req c e s =
     (case ValidateAPIKey dp c raw (hq_remote req) e (hs_world s) of
        (Ret (claims, used), w) \<Rightarrow> (with_claims c claims, s\<lparr>hs_world := w, hs_started := hs_started s @ [used]\<rparr>)
      | (_, w) \<Rightarrow> (c, s\<lparr>hs_world := w\<rparr>))"

definition AuthOptional :: "auth_deps \<Rightarrow> ('d, 'z) handler \<Rightarrow> ('d, 'z) handler" where
  "AuthOptional a next req c e s =
     (let apiKey = hq_header req ''X-API-Key''; authHeader = hq_header req ''Authorization'';
          (c1, s1) =
            (if apiKey \<noteq> [] \<and> ad_keys a \<noteq> None then optional_key (the (ad_keys a)) apiKey req c e s
             else if authHeader \<noteq> []
             then (case SplitN2 (CHR '' '') authHeader of
                 [scheme, rest] \<Rightarrow>
                   (let tokenStr = TrimSpace rest
                    in if key_scheme scheme tokenStr \<and> ad_keys a \<noteq> None
                       then optional_key (the (ad_keys a)) tokenStr req c e s
                       else if EqualFold scheme ''Bearer''
                       then (case ValidateToken (ad_crypto a) (ad_tokens a) tokenStr e (hs_world s) of
                           (Ret claims, w) \<Rightarrow> (with_claims c (user_claims claims), s\<lparr>hs_world := w\<rparr>)
                         | (_, w) \<Rightarrow> (c, s\<lparr>hs_world := w\<rparr>))
                       else (c, s))
               | _ \<Rightarrow> (c, s))
             else (c, s))
      in next req c1 e s1)"

definition RequirePermission :: "string \<Rightarrow> ('d, 'z) handler \<Rightarrow> ('d, 'z) handler" where
  "RequirePermission code next req c e s =
     (if \<not> HasPermission c code then (Err 403 ''FORBIDDEN'', s) else next req c e s)"

fun any_permission :: "ctx \<Rightarrow> string list \<Rightarrow> bool" where
  "any_permission c [] = False"
| "any_permission c (p # ps) = (if HasPermission c p then True else any_permission c ps)"

definition RequireAnyPermission :: "string list \<Rightarrow> ('d, 'z) handler \<Rightarrow> ('d, 'z) handler" where
  "RequireAnyPermission ps next req c e s =
     (if any_permission c ps then next req c e s else (Err 403 ''FORBIDDEN'', s))"

section \<open>Tenant\<close>

definition HeaderTenantID :: string where "HeaderTenantID = ''X-Tenant-ID''"

definition TenantRequired :: "(string \<Rightarrow> ID option) \<Rightarrow> ('d, 'z) handler \<Rightarrow> ('d, 'z) handler" where
  "TenantRequired up next req c e s =
     (let headerRaw = hq_header req HeaderTenantID
      in case GetTenantID c of
        Some claimsTenantID \<Rightarrow>
          (if headerRaw \<noteq> [] \<and>
              (case ParseID up headerRaw of
                 Ret headerID \<Rightarrow> headerID \<noteq> NilID \<and> headerID \<noteq> claimsTenantID | _ \<Rightarrow> False)
           then (Err 403 ''TENANT_MISMATCH'', s)
           else next req c e s)
      | None \<Rightarrow>
          (if headerRaw = [] then (Err 400 ''TENANT_REQUIRED'', s)
           else (case ParseID up headerRaw of
               Ret tenantID \<Rightarrow> if tenantID = NilID then (Err 400 ''INVALID_TENANT_ID'', s)
                              else next req (WithTenantID c tenantID) e s
             | _ \<Rightarrow> (Err 400 ''INVALID_TENANT_ID'', s))))"

definition TenantOptional :: "(string \<Rightarrow> ID option) \<Rightarrow> ('d, 'z) handler \<Rightarrow> ('d, 'z) handler" where
  "TenantOptional up next req c e s =
     (let rawID = hq_header req HeaderTenantID
      in if rawID \<noteq> []
         then (case ParseID up rawID of
             Ret tenantID \<Rightarrow> next req (if tenantID \<noteq> NilID then WithTenantID c tenantID else c) e s
           | _ \<Rightarrow> next req c e s)
         else next req c e s)"

section \<open>Rate limit\<close>

definition rateLimitKey :: "hreq \<Rightarrow> ctx \<Rightarrow> string" where
  "rateLimitKey req c =
     (let ip = ''rl:ip:'' @ hq_remote req
      in case GetAuthClaims c of
        None \<Rightarrow> ip
      | Some claims \<Rightarrow>
          (if ac_ActorType claims = ActorTypeAPIKey \<and> ac_ServiceAccountID claims \<noteq> None
           then ''rl:sa:'' @ ID_String (the (ac_ServiceAccountID claims))
           else if ac_TenantID claims \<noteq> NilID then ''rl:tenant:'' @ ID_String (ac_TenantID claims)
           else ip))"

definition setRateLimitHeaders :: "Result \<Rightarrow> (string \<times> string) list \<Rightarrow> (string \<times> string) list" where
  "setRateLimitHeaders r hs =
     (if Limit r < 0 then hs
      else hs @ [(''X-RateLimit-Limit'', fmt_d (Limit r)), (''X-RateLimit-Remaining'', fmt_d (Remaining r))] @
           (if IsZero_time (ResetAt r) then [] else [(''X-RateLimit-Reset'', fmt_d (ns (ResetAt r) div Second))]))"

text \<open>\<open>int(d.Seconds())\<close>, towards zero, and at least one.\<close>

definition retry_after :: "gotime \<Rightarrow> gotime \<Rightarrow> int" where
  "retry_after reset now = max (if Time_Sub reset now < 0 then - (- Time_Sub reset now div Second) else Time_Sub reset now div Second) 1"

definition RateLimit :: "('d, 'z) handler \<Rightarrow> ('d, 'z) handler" where
  "RateLimit next req c e s =
     (let w = hs_world s; now = utc_of_ns (clock_at e (tick w)); w1 = w\<lparr>tick := Suc (tick w)\<rparr>;
          (res, l) = Allow (hs_limiter s) (rateLimitKey req c) now;
          s1 = s\<lparr>hs_world := w1, hs_limiter := l, hs_headers := setRateLimitHeaders res (hs_headers s)\<rparr>
      in if \<not> Allowed res
         then (let later = utc_of_ns (clock_at e (tick w1))
               in (Err 429 ''RATE_LIMIT_EXCEEDED'',
                   s1\<lparr>hs_world := w1\<lparr>tick := Suc (tick w1)\<rparr>,
                      hs_headers := hs_headers s1 @ [(''Retry-After'', fmt_d (retry_after (ResetAt res) later))]\<rparr>))
         else next req c e s1)"

section \<open>Routes\<close>

text \<open>The chain of \<open>NewRouter\<close> and the \<open>RegisterRoutes\<close> of the handlers: authentication, rate limit, tenant,
  permission, handler.\<close>

definition business_route :: "auth_deps \<Rightarrow> (string \<Rightarrow> ID option) \<Rightarrow> string \<Rightarrow> ('d, 'z) handler \<Rightarrow> ('d, 'z) handler" where
  "business_route a up perm h = AuthRequired a (RateLimit (TenantRequired up (RequirePermission perm h)))"

section \<open>RPC\<close>

definition Authenticate :: "auth_deps \<Rightarrow> ctx \<Rightarrow> string \<Rightarrow> string \<Rightarrow> (ctx \<times> (ID \<times> string \<times> gotime) option) iamproc" where
  "Authenticate a c authVal apiKeyVal =
     (let by_key = (\<lambda>dp raw. bindP (ValidateAPIKey dp c raw []) (\<lambda>(claims, used). ret (with_claims c claims, Some used)))
      in if apiKeyVal \<noteq> [] \<and> ad_keys a \<noteq> None then by_key (the (ad_keys a)) apiKeyVal
      else if authVal = [] then fail (Opaque ''missing authorization credentials'')
      else (case SplitN2 (CHR '' '') authVal of
          [scheme, rest] \<Rightarrow>
            (let tokenStr = TrimSpace rest
             in if key_scheme scheme tokenStr \<and> ad_keys a \<noteq> None then by_key (the (ad_keys a)) tokenStr
                else if EqualFold scheme ''Bearer''
                then bindP (ValidateToken (ad_crypto a) (ad_tokens a) tokenStr)
                       (\<lambda>claims. ret (with_claims c (user_claims claims), None))
                else fail (Opaque ''unsupported authorization scheme''))
        | _ \<Rightarrow> fail (Opaque ''malformed authorization token'')))"

definition default_public :: "string list" where
  "default_public = [''/mergiate.v1.PingService/Ping'', ''/grpc.health.v1.Health/Check'', ''/grpc.health.v1.Health/Watch'']"

definition NewAuthHandler_public :: "string list \<Rightarrow> string list" where
  "NewAuthHandler_public publicProcs = default_public @ publicProcs"

definition ConnectInterceptor :: "auth_deps \<Rightarrow> string list \<Rightarrow> (ctx \<Rightarrow> 'a iamproc) \<Rightarrow> string \<Rightarrow> hreq \<Rightarrow> ctx \<Rightarrow> 'a iamproc" where
  "ConnectInterceptor a public next proc req c =
     (if proc \<in> set public then next c
      else bindP (wrap_err ''unauthenticated'' (Authenticate a c (hq_header req ''Authorization'') (hq_header req ''X-API-Key'')))
             (\<lambda>(c1, used). next c1))"

text \<open>For gRPC the metadata takes the place of the headers; a missing value is the empty one.\<close>

definition GRPCUnaryInterceptor ::
    "auth_deps \<Rightarrow> string list \<Rightarrow> (ctx \<Rightarrow> 'a iamproc) \<Rightarrow> string \<Rightarrow> (string \<Rightarrow> string list) option \<Rightarrow> ctx \<Rightarrow> 'a iamproc" where
  "GRPCUnaryInterceptor a public next meth md c =
     (if meth \<in> set public then next c
      else (case md of
          None \<Rightarrow> fail (Opaque ''missing metadata'')
        | Some m \<Rightarrow>
            (let first = (\<lambda>k. case m k of [] \<Rightarrow> [] | v # vs \<Rightarrow> v)
             in bindP (wrap_err ''unauthenticated'' (Authenticate a c (first ''authorization'') (first ''x-api-key'')))
                  (\<lambda>(c1, used). next c1))))"

section \<open>What passes a chain of middleware\<close>

text \<open>
  A middleware answers itself, with one of the statuses \<open>S\<close>, or passes the request on with a context that
  \<open>P\<close> admits; what it does does not depend on the handler behind it and leaves the tables, and what the
  handlers added to the state, alone.
\<close>

definition untouched :: "'z hstate_scheme \<Rightarrow> 'z hstate_scheme \<Rightarrow> bool" where
  "untouched s s1 \<longleftrightarrow> wdb (hs_world s1) = wdb (hs_world s) \<and> hstate.more s1 = hstate.more s"

lemma untouched_refl: "untouched s s"
  by (simp add: untouched_def)

definition refuses :: "(('d, 'z) handler \<Rightarrow> ('d, 'z) handler) \<Rightarrow> int set \<Rightarrow> hreq \<Rightarrow> ctx \<Rightarrow> env \<Rightarrow> 'z hstate_scheme \<Rightarrow> bool" where
  "refuses M S req c e s \<longleftrightarrow>
     (\<exists>resp s1. (\<forall>h. M h req c e s = (resp, s1)) \<and> rs_status resp \<in> S \<and> untouched s s1)"

definition passes :: "(('d, 'z) handler \<Rightarrow> ('d, 'z) handler) \<Rightarrow> hreq \<Rightarrow> ctx \<Rightarrow> env \<Rightarrow> 'z hstate_scheme \<Rightarrow> ctx \<Rightarrow> bool" where
  "passes M req c e s c' \<longleftrightarrow>
     (\<exists>s1. (\<forall>h. M h req c e s = h req c' e s1) \<and> untouched s s1)"

type_synonym admission = "hreq \<Rightarrow> ctx \<Rightarrow> env \<Rightarrow> iam_db \<Rightarrow> ctx \<Rightarrow> bool"

definition then_adm :: "admission \<Rightarrow> admission \<Rightarrow> admission" where
  "then_adm P Q req c e d c' \<longleftrightarrow> (\<exists>c1. P req c e d c1 \<and> Q req c1 e d c')"

locale middleware =
  fixes M :: "('d, 'z) handler \<Rightarrow> ('d, 'z) handler" and S :: "int set" and P :: admission
  assumes gate: "refuses M S req c e s \<or> (\<exists>c'. passes M req c e s c' \<and> P req c e (wdb (hs_world s)) c')"

locale middleware_pair = outer: middleware M S P + inner: middleware N T Q
  for M :: "('d, 'z) handler \<Rightarrow> ('d, 'z) handler" and S :: "int set" and P :: admission
  and N :: "('d, 'z) handler \<Rightarrow> ('d, 'z) handler" and T :: "int set" and Q :: admission
begin

lemma pair_gate:
  "refuses (\<lambda>h. M (N h)) (S \<union> T) req c e s \<or>
   (\<exists>c'. passes (\<lambda>h. M (N h)) req c e s c' \<and> then_adm P Q req c e (wdb (hs_world s)) c')"
proof (cases "refuses M S req c e s")
  case True
  then show ?thesis unfolding refuses_def by blast
next
  case False
  then obtain c1 where "passes M req c e s c1" and p: "P req c e (wdb (hs_world s)) c1"
    using outer.gate [of req c e s] by blast
  then obtain s1 where s1: "\<And>h. M h req c e s = h req c1 e s1" and u: "untouched s s1"
    unfolding passes_def by blast
  have w: "wdb (hs_world s1) = wdb (hs_world s)" and "\<And>s2. untouched s1 s2 \<Longrightarrow> untouched s s2"
    using u by (auto simp: untouched_def)
  with inner.gate [of req c1 e s1] p show ?thesis
    unfolding refuses_def passes_def then_adm_def s1 w by blast
qed

end

sublocale middleware_pair \<subseteq> pair: middleware "\<lambda>h. M (N h)" "S \<union> T" "then_adm P Q"
  by unfold_locales (rule pair_gate)

text \<open>The credentials of a request: a key or a token, in one of the two headers.\<close>

definition bearer_token :: "hreq \<Rightarrow> string \<Rightarrow> string \<Rightarrow> bool" where
  "bearer_token req scheme tok \<longleftrightarrow>
     (\<exists>scheme' rest. hq_header req ''Authorization'' = scheme' @ '' '' @ rest \<and> EqualFold scheme' scheme \<and> tok = TrimSpace rest)"

definition key_presented :: "hreq \<Rightarrow> string \<Rightarrow> bool" where
  "key_presented req raw \<longleftrightarrow> hq_header req ''X-API-Key'' = raw \<or> bearer_token req ''Bearer'' raw \<or> bearer_token req ''ApiKey'' raw"

definition authentic :: "auth_deps \<Rightarrow> hreq \<Rightarrow> env \<Rightarrow> iam_db \<Rightarrow> AuthClaims \<Rightarrow> bool" where
  "authentic a req e d cl \<longleftrightarrow>
     (\<exists>dp raw n. ad_keys a = Some dp \<and> key_presented req raw \<and>
        key_grants d (clock_at e n) (HashAPIKey dp raw) (hq_remote req) cl) \<or>
     (\<exists>tok n tc. bearer_token req ''Bearer'' tok \<and> jwt_method (ad_crypto a) tok = Some ''HMAC'' \<and>
        jwt_verify (ad_crypto a) (tm_secretKey (ad_tokens a)) (clock_at e n) tok = Ret tc \<and> cl = user_claims tc)"

lemma SplitN2_pair: "SplitN2 sep s = [x, y] \<Longrightarrow> s = x @ [sep] @ y"
proof -
  assume a: "SplitN2 sep s = [x, y]"
  then have m: "sep \<in> set s" by (auto simp: SplitN2_def split: if_splits)
  with a have xy: "x = takeWhile (\<lambda>c. c \<noteq> sep) s" "y = tl (dropWhile (\<lambda>c. c \<noteq> sep) s)"
    by (auto simp: SplitN2_def)
  have "dropWhile (\<lambda>c. c \<noteq> sep) s \<noteq> []" using m by (auto simp: dropWhile_eq_Nil_conv)
  with hd_dropWhile [of "\<lambda>c. c \<noteq> sep" s] have "dropWhile (\<lambda>c. c \<noteq> sep) s = sep # y"
    by (cases "dropWhile (\<lambda>c. c \<noteq> sep) s") (auto simp: xy)
  then show ?thesis using takeWhile_dropWhile_id [of "\<lambda>c. c \<noteq> sep" s] by (simp add: xy)
qed

definition claims_adm :: "auth_deps \<Rightarrow> admission" where
  "claims_adm a req c e d c' \<longleftrightarrow> (\<exists>cl. authentic a req e d cl \<and> c' = with_claims c cl)"

lemma call_gate:
  assumes "keeps_db m" and "rs_status (bad er) \<in> S" "500 \<in> S" and "\<And>x. bad x = bad er"
    and "\<And>x w'. m e (hs_world s) = (Ret x, w') \<Longrightarrow> P (k x)"
    and "\<And>x s1. hs_world (g x s1) = hs_world s1" "\<And>x s1. hstate.more (g x s1) = hstate.more s1"
    and "\<And>h. M h req c e s = call m e s (\<lambda>x s1. h req (k x) e (g x s1)) bad"
  shows "refuses M S req c e s \<or> (\<exists>c'. passes M req c e s c' \<and> P c')"
proof -
  obtain r w' where r: "m e (hs_world s) = (r, w')" by fastforce
  from keepsD [OF assms(1) this] have w: "wdb w' = wdb (hs_world s)" .
  show ?thesis
  proof (cases r)
    case (Ret x)
    then have "passes M req c e s (k x)" "P (k x)"
      using assms(5) [of x w'] r w unfolding passes_def assms(8)
      by (auto intro!: exI [of _ "g x (s\<lparr>hs_world := w'\<rparr>)"] simp: call_def untouched_def assms(6,7))
    then show ?thesis by blast
  next
    case (Fail x)
    then show ?thesis using r w assms(2) assms(4) [of x] unfolding refuses_def assms(8) by (simp add: call_def untouched_def)
  next
    case (Panic x)
    then show ?thesis using r w assms(3) unfolding refuses_def assms(8) by (simp add: call_def Err_def untouched_def)
  qed
qed

lemma serve_key_gate:
  assumes "key_presented req raw" "ad_keys a = Some dp" "\<And>h. M h req c e s = serve_key dp raw h req c e s"
  shows "refuses M {401, 500} req c e s \<or> (\<exists>c'. passes M req c e s c' \<and> claims_adm a req c e (wdb (hs_world s)) c')"
proof (rule call_gate [where m = "ValidateAPIKey dp c raw (hq_remote req)" and k = "\<lambda>x. with_claims c (fst x)"
      and g = "\<lambda>x s1. s1\<lparr>hs_started := hs_started s1 @ [snd x]\<rparr>" and bad = "\<lambda>_. Err 401 ''INVALID_API_KEY''"])
  show "keeps_db (ValidateAPIKey dp c raw (hq_remote req))" by (rule keeps_ValidateAPIKey)
next
  fix x w' assume "ValidateAPIKey dp c raw (hq_remote req) e (hs_world s) = (Ret x, w')"
  then obtain n where "key_grants (wdb (hs_world s)) (clock_at e n) (HashAPIKey dp raw) (hq_remote req) (fst x)"
    using ValidateAPIKey_Ret(2) [of dp c raw "hq_remote req" e "hs_world s" "fst x" "snd x" w'] by auto
  then show "claims_adm a req c e (wdb (hs_world s)) (with_claims c (fst x))"
    using assms(1,2) unfolding claims_adm_def authentic_def by blast
qed (simp_all add: assms(3) serve_key_def case_prod_beta' Err_def)

lemma token_gate:
  assumes "bearer_token req ''Bearer'' tok"
    and "\<And>h. M h req c e s = call (ValidateToken (ad_crypto a) (ad_tokens a) tok) e s
           (\<lambda>claims s1. h req (with_claims c (user_claims claims)) e s1) (\<lambda>_. Err 401 ''INVALID_TOKEN'')"
  shows "refuses M {401, 500} req c e s \<or> (\<exists>c'. passes M req c e s c' \<and> claims_adm a req c e (wdb (hs_world s)) c')"
proof (rule call_gate [where m = "ValidateToken (ad_crypto a) (ad_tokens a) tok" and k = "\<lambda>x. with_claims c (user_claims x)"
      and g = "\<lambda>x s1. s1" and bad = "\<lambda>_. Err 401 ''INVALID_TOKEN''"])
  show "keeps_db (ValidateToken (ad_crypto a) (ad_tokens a) tok)" by (rule keeps_jwt)
next
  fix x w' assume "ValidateToken (ad_crypto a) (ad_tokens a) tok e (hs_world s) = (Ret x, w')"
  from ValidateToken_Ret(1,2) [OF this] assms(1)
  show "claims_adm a req c e (wdb (hs_world s)) (with_claims c (user_claims x))"
    unfolding claims_adm_def authentic_def by blast
qed (simp_all add: assms(2) Err_def)

lemma answer_gate: "(\<And>h. M h req c e s = (Err n code, s)) \<Longrightarrow> n \<in> S \<Longrightarrow> refuses M S req c e s"
  by (auto simp: refuses_def Err_def untouched_refl)

lemma hand_on: "(\<And>h. M h req c e s = h req c' e s) \<Longrightarrow> passes M req c e s c'"
  by (auto simp: passes_def untouched_refl)

lemma AuthRequired_gate:
  "refuses (AuthRequired a :: ('d, 'z) handler \<Rightarrow> _) {401, 500} req c e s \<or>
   (\<exists>c'. passes (AuthRequired a :: ('d, 'z) handler \<Rightarrow> _) req c e s c' \<and> claims_adm a req c e (wdb (hs_world s)) c')"
proof -
  let ?hdr = "hq_header req ''Authorization''"
  let ?key = "hq_header req ''X-API-Key''"
  consider (key) dp where "?key \<noteq> []" "ad_keys a = Some dp"
    | (none) "\<not> (?key \<noteq> [] \<and> ad_keys a \<noteq> None)" "?hdr = [] \<or> (\<forall>x y. SplitN2 (CHR '' '') ?hdr \<noteq> [x, y])"
    | (auth) x y where "\<not> (?key \<noteq> [] \<and> ad_keys a \<noteq> None)" "?hdr \<noteq> []" "SplitN2 (CHR '' '') ?hdr = [x, y]"
    by blast
  then show ?thesis
  proof cases
    case key
    then show ?thesis by (intro serve_key_gate [where raw = ?key and dp = dp]) (auto simp: key_presented_def AuthRequired_def Let_def)
  next
    case none
    then have "AuthRequired a h req c e s = (Err 401 ''UNAUTHORIZED'', s)" for h
      unfolding AuthRequired_def Let_def by (auto split: list.splits)
    then have "refuses (AuthRequired a) {401, 500} req c e s" by (rule answer_gate) simp
    then show ?thesis ..
  next
    case auth
    let ?t = "TrimSpace y"
    have b: "\<And>sc. EqualFold x sc \<Longrightarrow> bearer_token req sc ?t"
      using SplitN2_pair [OF auth(3)] unfolding bearer_token_def by auto
    consider (k) dp where "key_scheme x ?t" "ad_keys a = Some dp" | (t) "\<not> (key_scheme x ?t \<and> ad_keys a \<noteq> None)" "EqualFold x ''Bearer''"
      | (n) "\<not> (key_scheme x ?t \<and> ad_keys a \<noteq> None)" "\<not> EqualFold x ''Bearer''" by blast
    then show ?thesis
    proof cases
      case k
      show ?thesis
      proof (rule serve_key_gate [OF _ k(2)])
        show "key_presented req ?t" using k(1) b by (auto simp: key_presented_def key_scheme_def)
        show "AuthRequired a h req c e s = serve_key dp ?t h req c e s" for h
          using auth k unfolding AuthRequired_def Let_def by auto
      qed
    next
      case t
      show ?thesis
        by (rule token_gate [OF b [OF t(2)]]) (use auth t in \<open>auto simp: AuthRequired_def Let_def\<close>)
    next
      case n
      then have "AuthRequired a h req c e s = (Err 401 ''UNAUTHORIZED'', s)" for h
        using auth unfolding AuthRequired_def Let_def by auto
      then have "refuses (AuthRequired a) {401, 500} req c e s" by (rule answer_gate) simp
      then show ?thesis ..
    qed
  qed
qed

interpretation auth: middleware "AuthRequired a" "{401, 500}" "claims_adm a" for a
  by unfold_locales (rule AuthRequired_gate)

lemma RateLimit_gate: "refuses (RateLimit :: ('d, 'z) handler \<Rightarrow> _) {429} req c e s \<or> passes (RateLimit :: ('d, 'z) handler \<Rightarrow> _) req c e s c"
proof -
  obtain r l where "Allow (hs_limiter s) (rateLimitKey req c) (utc_of_ns (clock_at e (tick (hs_world s)))) = (r, l)"
    by fastforce
  then show ?thesis
    by (cases "Allowed r") (auto simp: RateLimit_def refuses_def passes_def Let_def Err_def untouched_def)
qed

interpretation limited: middleware RateLimit "{429}" "\<lambda>req c e d c'. c' = c"
  by unfold_locales (use RateLimit_gate in blast)

definition tenant_adm :: "(string \<Rightarrow> ID option) \<Rightarrow> admission" where
  "tenant_adm up req c e d c' \<longleftrightarrow>
     GetTenantID c \<noteq> None \<and> c' = c \<or>
     GetTenantID c = None \<and> (\<exists>t. up (hq_header req HeaderTenantID) = Some t \<and> t \<noteq> NilID \<and> c' = WithTenantID c t)"

lemma TenantRequired_gate:
  "refuses (TenantRequired up :: ('d, 'z) handler \<Rightarrow> _) {400, 403} req c e s \<or>
   (\<exists>c'. passes (TenantRequired up :: ('d, 'z) handler \<Rightarrow> _) req c e s c' \<and> tenant_adm up req c e (wdb (hs_world s)) c')"
proof -
  let ?hdr = "hq_header req HeaderTenantID"
  consider (mismatch) i j where "GetTenantID c = Some i" "?hdr \<noteq> []" "up ?hdr = Some j" "j \<noteq> NilID" "j \<noteq> i"
    | (claims) i where "GetTenantID c = Some i" "?hdr = [] \<or> up ?hdr = None \<or> up ?hdr = Some NilID \<or> up ?hdr = Some i"
    | (header) j where "GetTenantID c = None" "?hdr \<noteq> []" "up ?hdr = Some j" "j \<noteq> NilID"
    | (none) "GetTenantID c = None" "?hdr = [] \<or> up ?hdr = None \<or> up ?hdr = Some NilID"
    by (cases "GetTenantID c"; cases "up ?hdr") auto
  then show ?thesis
  proof cases
    case mismatch
    then have "refuses (TenantRequired up) {400, 403} req c e s"
      by (intro answer_gate [of _ _ _ _ _ 403 "''TENANT_MISMATCH''"]) (auto simp: TenantRequired_def ParseID_def Let_def)
    then show ?thesis ..
  next
    case claims
    then have "passes (TenantRequired up) req c e s c"
      by (intro hand_on) (auto simp: TenantRequired_def ParseID_def Let_def split: option.splits)
    with claims show ?thesis by (auto simp: tenant_adm_def)
  next
    case header
    then have "passes (TenantRequired up) req c e s (WithTenantID c j)"
      by (intro hand_on) (auto simp: TenantRequired_def ParseID_def Let_def)
    with header show ?thesis by (auto simp: tenant_adm_def)
  next
    case none
    then have "refuses (TenantRequired up) {400, 403} req c e s"
      by (intro answer_gate [of _ _ _ _ _ 400 "if ?hdr = [] then ''TENANT_REQUIRED'' else ''INVALID_TENANT_ID''"])
         (auto simp: TenantRequired_def ParseID_def Let_def split: option.splits)
    then show ?thesis ..
  qed
qed

interpretation tenant: middleware "TenantRequired up" "{400, 403}" "tenant_adm up" for up
  by unfold_locales (rule TenantRequired_gate)

lemma RequirePermission_gate:
  "refuses (RequirePermission p :: ('d, 'z) handler \<Rightarrow> _) {403} req c e s \<or> (\<exists>c'. passes (RequirePermission p :: ('d, 'z) handler \<Rightarrow> _) req c e s c' \<and> HasPermission c p \<and> c' = c)"
proof (cases "HasPermission c p")
  case True
  then have "passes (RequirePermission p) req c e s c" by (intro hand_on) (simp add: RequirePermission_def)
  with True show ?thesis by blast
next
  case False
  then have "refuses (RequirePermission p) {403} req c e s"
    by (intro answer_gate [of _ _ _ _ _ 403 "''FORBIDDEN''"]) (simp_all add: RequirePermission_def)
  then show ?thesis ..
qed

interpretation permission: middleware "RequirePermission p" "{403}" "\<lambda>req c e d c'. HasPermission c p \<and> c' = c" for p
  by unfold_locales (rule RequirePermission_gate)

lemma tenant_adm_claims:
  assumes "tenant_adm up req (with_claims Background cl) e d c'"
  shows "GetAuthClaims c' = Some cl \<and> \<not> ctx_tx c' \<and> (\<exists>t. RequireTenantID c' = Ret t \<and> t \<noteq> NilID \<and>
     (t = ac_TenantID cl \<or> ac_TenantID cl = NilID \<and> up (hq_header req HeaderTenantID) = Some t))"
  using assms
  by (cases "ac_TenantID cl = NilID")
     (auto simp: tenant_adm_def with_claims_def WithAuthClaims_def WithTenantID_def RequireTenantID_def GetAuthClaims_def
        GetTenantID_def Background_def)

text \<open>The chain of \<open>business_route\<close>, from the inside.\<close>

interpretation tp: middleware_pair "TenantRequired up" "{400, 403}" "tenant_adm up"
    "RequirePermission p" "{403}" "\<lambda>req c e d c'. HasPermission c p \<and> c' = c" for up p
  by unfold_locales

interpretation ltp: middleware_pair RateLimit "{429}" "\<lambda>req c e d c'. c' = c"
    "\<lambda>h. TenantRequired up (RequirePermission p h)" "{400, 403} \<union> {403}"
    "then_adm (tenant_adm up) (\<lambda>req c e d c'. HasPermission c p \<and> c' = c)" for up p
  by unfold_locales

interpretation altp: middleware_pair "AuthRequired a" "{401, 500}" "claims_adm a"
    "\<lambda>h. RateLimit (TenantRequired up (RequirePermission p h))" "{429} \<union> ({400, 403} \<union> {403})"
    "then_adm (\<lambda>req c e d c'. c' = c) (then_adm (tenant_adm up) (\<lambda>req c e d c'. HasPermission c p \<and> c' = c))" for a up p
  by unfold_locales

text \<open>A request reaches a handler with claims from its credentials, the permission and a tenant.\<close>

definition admitted_to :: "auth_deps \<Rightarrow> (string \<Rightarrow> ID option) \<Rightarrow> string \<Rightarrow> hreq \<Rightarrow> env \<Rightarrow> iam_db \<Rightarrow> ctx \<Rightarrow> ID \<Rightarrow> bool" where
  "admitted_to a up perm req e d c t \<longleftrightarrow>
     \<not> ctx_tx c \<and>
     (\<exists>cl. GetAuthClaims c = Some cl \<and> authentic a req e d cl \<and>
        (perm \<in> set (ac_Permissions cl) \<or> ''*'' \<in> set (ac_Permissions cl)) \<and>
        RequireTenantID c = Ret t \<and> t \<noteq> NilID \<and>
        (t = ac_TenantID cl \<or> ac_TenantID cl = NilID \<and> up (hq_header req HeaderTenantID) = Some t))"

lemma business_gate:
  "refuses (business_route a up perm :: ('d, 'z) handler \<Rightarrow> _) {400, 401, 403, 429, 500} req Background e s \<or>
   (\<exists>c' t. passes (business_route a up perm :: ('d, 'z) handler \<Rightarrow> _) req Background e s c' \<and>
      admitted_to a up perm req e (wdb (hs_world s)) c' t)"
  using altp.pair_gate [of a up perm req Background e s]
proof
  assume "refuses (\<lambda>h :: ('d, 'z) handler. AuthRequired a (RateLimit (TenantRequired up (RequirePermission perm h))))
     ({401, 500} \<union> ({429} \<union> ({400, 403} \<union> {403}))) req Background e s"
  then have "refuses (business_route a up perm :: ('d, 'z) handler \<Rightarrow> _) {400, 401, 403, 429, 500} req Background e s"
    unfolding refuses_def business_route_def by blast
  then show ?thesis ..
next
  assume "\<exists>c'. passes (\<lambda>h :: ('d, 'z) handler. AuthRequired a (RateLimit (TenantRequired up (RequirePermission perm h)))) req Background e s c' \<and>
     then_adm (claims_adm a) (then_adm (\<lambda>req c e d c'. c' = c)
       (then_adm (tenant_adm up) (\<lambda>req c e d c'. HasPermission c perm \<and> c' = c))) req Background e (wdb (hs_world s)) c'"
  then obtain c' cl s1 where s1: "\<forall>h :: ('d, 'z) handler. business_route a up perm h req Background e s = h req c' e s1"
      "untouched s s1"
    and au: "authentic a req e (wdb (hs_world s)) cl" and te: "tenant_adm up req (with_claims Background cl) e (wdb (hs_world s)) c'"
    and pe: "HasPermission c' perm"
    unfolding then_adm_def claims_adm_def passes_def business_route_def by blast
  from tenant_adm_claims [OF te] obtain t where cl: "GetAuthClaims c' = Some cl" and tx: "\<not> ctx_tx c'" and t: "RequireTenantID c' = Ret t" "t \<noteq> NilID"
      "t = ac_TenantID cl \<or> ac_TenantID cl = NilID \<and> up (hq_header req HeaderTenantID) = Some t"
    by blast
  have "perm \<in> set (ac_Permissions cl) \<or> ''*'' \<in> set (ac_Permissions cl)" using pe cl by (simp add: HasPermission_iff)
  with au cl tx t have "admitted_to a up perm req e (wdb (hs_world s)) c' t" unfolding admitted_to_def by blast
  moreover have "passes (business_route a up perm :: ('d, 'z) handler \<Rightarrow> _) req Background e s c'"
    using s1 unfolding passes_def by blast
  ultimately show ?thesis by blast
qed


end
