(* ===== verification/IdentityProps.thy ===== *)
theory IdentityProps
  imports Identity HttpAuth
begin

text \<open>
  What a login grants, in terms of the tables, and its round trip: the token of a login is
  accepted by the middleware and carries exactly the rights of the user in the tenant.
\<close>

section \<open>Rights of a user in a tenant\<close>

definition user_permissions :: "iam_db \<Rightarrow> ID \<Rightarrow> ID \<Rightarrow> string set" where
  "user_permissions d tenantID userID =
     {pm_code p | p rp r ur. ur \<in> set (t_user_roles d) \<and> ux_tenant_id ur = tenantID \<and> ux_user_id ur = userID \<and>
        r \<in> set (t_roles d) \<and> ro_id r = ux_role_id ur \<and> rp \<in> set (t_role_permissions d) \<and> rp_role_id rp = ro_id r \<and>
        p \<in> set (t_permissions d) \<and> pm_id p = rp_permission_id rp}"

definition active_member :: "iam_db \<Rightarrow> ID \<Rightarrow> ID \<Rightarrow> bool" where
  "active_member d tenantID userID \<longleftrightarrow>
     (\<exists>m \<in> set (t_tenant_users d). tu_tenant_id m = tenantID \<and> tu_user_id m = userID \<and> tu_status m = ''active'')"

lemma ListUserPermissions_set:
  "t \<noteq> NilID \<Longrightarrow> i \<noteq> NilID \<Longrightarrow> set (sql_ListUserPermissionsInTenant t i d) = user_permissions d t i"
  by (fastforce simp: sql_ListUserPermissionsInTenant_def user_permissions_def roles_of_user_def permissions_of_role_def pg_eq_def)

lemmas identity_reads = repo_GetTenantMember_def repo_ListUserRolesInTenant_def repo_ListUserPermissionsInTenant_def
  repo_GetUserByEmail_def repo_ListUserTenants_def

lemma keeps_identity_reads [keeps_intros]:
  "keeps_db (repo_GetTenantMember c t i)" "keeps_db (repo_ListUserRolesInTenant c t i)"
  "keeps_db (repo_ListUserPermissionsInTenant c t i)" "keeps_db (repo_GetUserByEmail c em)" "keeps_db (repo_ListUserTenants c i)"
  unfolding identity_reads by (intro keeps_intros)+

lemma GetTenantMember_Ret:
  assumes "repo_GetTenantMember c t i e w = (Ret m, w')"
  obtains row where "row \<in> set (t_tenant_users (wdb w))" "tu_tenant_id row = t" "tu_user_id row = i" "mb_Status m = tu_status row"
    "t \<noteq> NilID" "i \<noteq> NilID"
  using assms that
  by (auto simp: repo_GetTenantMember_def read_with_Ret_iff norows_Ret_iff query_Ret_outside sql_GetTenantMember_def pg_eq_def
      member_of_row_def dest!: select_one_in)

lemma issueLoginResult_Ret:
  assumes "issueLoginResult u c user t e w = (Ret r, w')"
  obtains cl n where "wdb w' = wdb w" "active_member (wdb w) t (u_ID user)" "lgr_TenantID r = Some t"
    "\<not> lgr_RequiresTenantSelection r" "jwt_sign (iu_crypto u) (tm_secretKey (iu_tokens u)) cl = Ret (lgr_Token r)"
    "tk_UserID cl = u_ID user" "tk_TenantID cl = t" "tk_Permissions cl = lgr_Permissions r"
    "set (lgr_Permissions r) = user_permissions (wdb w) t (u_ID user)" "t \<noteq> NilID"
    "tk_ExpiresAt cl = (clock_at e n + (if iu_ttl u = 0 then 24 * 3600 * Second else iu_ttl u)) div Second"
proof -
  obtain x w1 where g0: "repo_GetTenantMember c t (u_ID user) e w = (x, w1)" by fastforce
  obtain m where x: "x = Ret m"
    using assms g0 unfolding issueLoginResult_def by (cases x) (auto simp: bindP_Ret_iff proc_simps tryP_Ret_iff)
  with assms g0 obtain roles w2 perms w3 tok w4 where act: "mb_Status m = MembershipStatusActive"
    and rl: "repo_ListUserRolesInTenant c t (u_ID user) e w1 = (Ret roles, w2)"
    and pl: "repo_ListUserPermissionsInTenant c t (u_ID user) e w2 = (Ret perms, w3)"
    and tk: "GenerateToken (iu_crypto u) (iu_tokens u) (u_ID user) t (u_Email user) (u_Name user) (map rol_Code roles) perms
        (iu_ttl u) e w3 = (Ret tok, w4)"
    and r: "lgr_Token r = tok" "lgr_TenantID r = Some t" "\<not> lgr_RequiresTenantSelection r" "lgr_Permissions r = perms" "w' = w4"
    unfolding issueLoginResult_def Let_def by (auto simp: bindP_Ret_iff proc_simps tryP_Ret_iff)
  note g = g0 [unfolded x]
  have w: "wdb w1 = wdb w" "wdb w2 = wdb w1" "wdb w3 = wdb w2"
    using keepsD [OF keeps_identity_reads(1) g] keepsD [OF keeps_identity_reads(2) rl] keepsD [OF keeps_identity_reads(3) pl]
    by auto
  from GetTenantMember_Ret [OF g] obtain row where row: "row \<in> set (t_tenant_users (wdb w))" "tu_tenant_id row = t"
    "tu_user_id row = u_ID user" "mb_Status m = tu_status row" and nz: "t \<noteq> NilID" "u_ID user \<noteq> NilID" by metis
  have "perms = sql_ListUserPermissionsInTenant t (u_ID user) (wdb w)"
    using pl by (simp add: repo_ListUserPermissionsInTenant_def query_Ret_outside w)
  then have ps: "set perms = user_permissions (wdb w) t (u_ID user)" using ListUserPermissions_set [OF nz] by simp
  have am: "active_member (wdb w) t (u_ID user)"
    using row act by (auto simp: active_member_def MembershipStatusActive_def)
  from GenerateToken_Ret [OF tk] obtain cl where "jwt_sign (iu_crypto u) (tm_secretKey (iu_tokens u)) cl = Ret tok"
    "tk_UserID cl = u_ID user" "tk_TenantID cl = t" "tk_Permissions cl = perms" "wdb w4 = wdb w3"
    "tk_ExpiresAt cl = (clock_at e (tick w3) + (if iu_ttl u = 0 then 24 * 3600 * Second else iu_ttl u)) div Second" by metis
  with am ps nz w r show thesis by (intro that [of cl "tick w3"]) simp_all
qed

lemma Login_Ret:
  assumes "Login u c cmd e w = (Ret r, w')" "\<not> lgr_RequiresTenantSelection r"
  obtains us t w1 where "us \<in> set (t_users (wdb w))" "us_email us = ToLower (TrimSpace (lg_Email cmd))" "us_status us = ''active''"
    "bcrypt_compare (iu_crypto u) (us_password_hash us) (lg_Password cmd)" "wdb w1 = wdb w"
    "issueLoginResult u c (user_of_row (local_off e) us) t e w1 = (Ret r, w')"
proof -
  let ?em = "ToLower (TrimSpace (lg_Email cmd))"
  obtain x w1 where g0: "repo_GetUserByEmail c ?em e w = (x, w1)" by fastforce
  obtain user where x: "x = Ret user"
    using assms g0 unfolding Login_def Let_def by (cases x) (auto simp: bindP_Ret_iff proc_simps tryP_Ret_iff)
  from g0 obtain us where us: "us \<in> set (t_users (wdb w))" "us_email us = ?em" "user = user_of_row (local_off e) us"
    unfolding x by (auto simp: repo_GetUserByEmail_def read_with_Ret_iff norows_Ret_iff query_Ret_outside sql_GetUserByEmail_def
        dest!: select_one_in)
  have w1: "wdb w1 = wdb w" using keepsD [OF keeps_identity_reads(4) g0] .
  have ok: "u_Status user = UserStatusActive" "CheckPasswordHash (iu_crypto u) (lg_Password cmd) (u_PasswordHash user)"
    and rest: "(case id_of_ptr (lg_TenantID cmd) of Some t \<Rightarrow> issueLoginResult u c user t
      | None \<Rightarrow> bindP (repo_ListUserTenants c (u_ID user)) (\<lambda>tenants.
          if length tenants = 1 then issueLoginResult u c user (tms_TenantID (hd tenants))
          else ret \<lparr>lgr_User = user, lgr_Token = [], lgr_ExpiresIn = 0, lgr_TenantID = None, lgr_Roles = [],
                    lgr_Permissions = [], lgr_RequiresTenantSelection = True, lgr_AvailableTenants = tenants\<rparr>)) e w1 = (Ret r, w')"
    using assms(1) g0 unfolding Login_def Let_def x
    by (simp_all add: bindP_Ret_iff [of "guard b er" for b er] bindP_Ret_iff [of "tryP m" for m] guard_Ret_iff tryP_Ret_iff)
  have "\<exists>t w2. wdb w2 = wdb w \<and> issueLoginResult u c user t e w2 = (Ret r, w')"
  proof (cases "id_of_ptr (lg_TenantID cmd)")
    case None
    with rest obtain ts w2 where l: "repo_ListUserTenants c (u_ID user) e w1 = (Ret ts, w2)"
      and k: "(if length ts = 1 then issueLoginResult u c user (tms_TenantID (hd ts))
          else ret \<lparr>lgr_User = user, lgr_Token = [], lgr_ExpiresIn = 0, lgr_TenantID = None, lgr_Roles = [],
                    lgr_Permissions = [], lgr_RequiresTenantSelection = True, lgr_AvailableTenants = ts\<rparr>) e w2 = (Ret r, w')"
      by (auto simp: bindP_Ret_iff)
    have "length ts = 1" using k assms(2) by (cases "length ts = 1") (auto simp: ret_Ret_iff)
    with k keepsD [OF keeps_identity_reads(5) l] w1 show ?thesis by auto
  next
    case (Some t)
    with rest w1 show ?thesis by auto
  qed
  with us ok show thesis
    by (auto simp: user_of_row_def UserStatusActive_def CheckPasswordHash_def intro: that)
qed

section \<open>The middleware accepts the token\<close>

lemma AuthRequired_bearer:
  assumes "hq_header req ''Authorization'' = ''Bearer '' @ tok" "hq_header req ''X-API-Key'' = []"
    and "TrimSpace tok = tok" "\<not> HasPrefix tok APIKeyPrefix" "jwt_method (ad_crypto a) tok = Some ''HMAC''"
    and "jwt_verify (ad_crypto a) (tm_secretKey (ad_tokens a)) (clock_at e (tick (hs_world s))) tok = Ret cl"
  shows "AuthRequired a h req c e s = h req (with_claims c (user_claims cl)) e (s\<lparr>hs_world := (hs_world s)\<lparr>tick := Suc (tick (hs_world s))\<rparr>\<rparr>)"
proof -
  have "SplitN2 (CHR '' '') (''Bearer '' @ tok) = [''Bearer'', tok]" by (simp add: SplitN2_def)
  moreover have "ValidateToken (ad_crypto a) (ad_tokens a) tok e (hs_world s) = (Ret cl, (hs_world s)\<lparr>tick := Suc (tick (hs_world s))\<rparr>)"
    using assms(5,6) by (simp add: ValidateToken_def proc_eval Now_def utc_of_ns_def)
  moreover have "EqualFold ''Bearer'' ''Bearer''" by (simp add: EqualFold_def)
  ultimately show ?thesis
    using assms(1-4) by (simp add: AuthRequired_def Let_def key_scheme_def call_def)
qed

section \<open>An instance\<close>

text \<open>One user with one role in one tenant; the signing package knows one token and the stored hash is the password.\<close>

definition ex_token_claims :: TokenClaims where
  "ex_token_claims =
     \<lparr>tk_UserID = 4, tk_TenantID = 5, tk_Email = ''a@b'', tk_Name = ''Ann'', tk_Roles = [''clerk''],
      tk_Permissions = [''document:read''], tk_Subject = ID_String 4, tk_Issuer = ''mergiate-core'', tk_IssuedAt = 0,
      tk_ExpiresAt = 3600\<rparr>"

definition ex_crypto :: crypto where
  "ex_crypto =
     \<lparr>jwt_sign = (\<lambda>key cl. if key = ''k'' \<and> cl = ex_token_claims then Ret ''eyJ0'' else Fail (Opaque ''sign'')),
      jwt_method = (\<lambda>tok. if tok = ''eyJ0'' then Some ''HMAC'' else None),
      jwt_verify = (\<lambda>key now tok. if key = ''k'' \<and> tok = ''eyJ0'' \<and> now < 3600 * Second then Ret ex_token_claims
                                  else Fail (Opaque ''verify'')),
      bcrypt_hash = (\<lambda>n pw. Ret pw), bcrypt_compare = (\<lambda>h pw. h = pw)\<rparr>"

definition ex_id_usecase :: id_usecase where
  "ex_id_usecase = identity_NewUsecase ex_crypto True (NewTokenManager ''k'' []) (3600 * Second)"

definition ex_id_env :: env where
  "ex_id_env = \<lparr>fault_at = (\<lambda>_. NoFault), newid_at = (\<lambda>n. Some (of_nat n + 7)), clock_at = (\<lambda>n. 0), dbnow_at = (\<lambda>n. 0),
     local_off = (\<lambda>_. 0), cvt_int64 = (\<lambda>_. 0)\<rparr>"

definition ex_id_world :: "iam_db world" where
  "ex_id_world = \<lparr>wdb = empty_iam\<lparr>
     t_tenants := [\<lparr>tn_id = 5, tn_code = ''acme'', tn_name = ''Acme'', tn_status = ''active'', tn_settings = JObj [],
                    tn_created_at = 0, tn_updated_at = 0\<rparr>],
     t_users := [\<lparr>us_id = 4, us_email = ''a@b'', us_password_hash = ''secret12'', us_name = ''Ann'', us_status = ''active'',
                  us_created_at = 0, us_updated_at = 0\<rparr>],
     t_tenant_users := [\<lparr>tu_id = 1, tu_tenant_id = 5, tu_user_id = 4, tu_status = ''active'', tu_joined_at = 0\<rparr>],
     t_roles := [\<lparr>ro_id = 6, ro_tenant_id = 5, ro_code = ''clerk'', ro_name = ''Clerk'', ro_description = None,
                  ro_is_system = False, ro_created_at = 0, ro_updated_at = 0\<rparr>],
     t_permissions := [\<lparr>pm_id = 7, pm_code = ''document:read'', pm_name = ''Read'', pm_category = ''document'', pm_description = None\<rparr>],
     t_role_permissions := [\<lparr>rp_role_id = 6, rp_permission_id = 7\<rparr>],
     t_user_roles := [\<lparr>ux_tenant_id = 5, ux_user_id = 4, ux_role_id = 6\<rparr>]\<rparr>, wtx = None, tick = 0\<rparr>"

definition ex_login :: LoginCommand where
  "ex_login = \<lparr>lg_Email = ''a@b'', lg_Password = ''secret12'', lg_TenantID = None\<rparr>"

definition ex_auth_deps :: auth_deps where
  "ex_auth_deps = \<lparr>ad_crypto = ex_crypto, ad_tokens = NewTokenManager ''k'' [], ad_keys = None\<rparr>"

definition ex_auth_request :: hreq where
  "ex_auth_request = \<lparr>hq_header = (\<lambda>k. if k = ''Authorization'' then ''Bearer eyJ0'' else []), hq_remote = ''10.0.0.1:80'',
     hq_param = (\<lambda>_. []), hq_query = (\<lambda>_. []), hq_body = []\<rparr>"

lemma ex_texts: "TrimSpace ''eyJ0'' = ''eyJ0''" "ToLower (TrimSpace ''a@b'') = ''a@b''"
  by code_simp+

lemma ex_crypto_law: "crypto_law ex_crypto"
  by (auto simp: crypto_law_def ex_crypto_def ex_token_claims_def HasPrefix_def ex_texts split: if_splits)

lemmas ex_id_eval = proc_eval Login_def issueLoginResult_def ex_login_def ex_id_env_def ex_id_world_def empty_iam_def
  ex_id_usecase_def identity_NewUsecase_def NewTokenManager_def identity_reads read_with_def sql_GetUserByEmail_def
  sql_GetTenantMember_def sql_ListUserTenants_def sql_ListUserRolesInTenant_def sql_ListUserPermissionsInTenant_def
  roles_of_user_def permissions_of_role_def select_one_def pool_ctx_def pg_eq_def NilID_def user_of_row_def member_of_row_def
  membership_of_row_def user_role_of_row_def CheckPasswordHash_def UserStatusActive_def MembershipStatusActive_def
  GenerateToken_def new_claims_def numeric_date_def Time_Add_def utc_of_ns_def id_of_ptr_def

lemma ex_login_result:
  obtains r w' where "Login ex_id_usecase Background ex_login ex_id_env ex_id_world = (Ret r, w')"
    "\<not> lgr_RequiresTenantSelection r" "lgr_Token r = ''eyJ0''"
proof -
  have "\<exists>r w'. Login ex_id_usecase Background ex_login ex_id_env ex_id_world = (Ret r, w') \<and>
      \<not> lgr_RequiresTenantSelection r \<and> lgr_Token r = ''eyJ0''"
    by (simp add: ex_id_eval ex_crypto_def ex_token_claims_def ex_texts Second_def cong: proc_congs)
  then show thesis using that by blast
qed

section \<open>The property\<close>

text \<open>The request goes on to the handler, with the claims and after one reading of the clock.\<close>

definition admitted :: "auth_deps \<Rightarrow> hreq \<Rightarrow> ctx \<Rightarrow> env \<Rightarrow> hstate \<Rightarrow> AuthClaims \<Rightarrow> bool" where
  "admitted a req c e s cl \<longleftrightarrow>
     (\<forall>h :: (unit, unit) handler. AuthRequired a h req c e s =
        h req (with_claims c cl) e (s\<lparr>hs_world := (hs_world s)\<lparr>tick := Suc (tick (hs_world s))\<rparr>\<rparr>))"

text \<open>C9. A login grants what the tables say, and its token is worth exactly that: when \<open>Login\<close> answers
  with a token, the tables are unchanged, there is an active user with that e-mail whose stored hash
  accepts the password, and an active membership of that user in a tenant. Under the documented
  behaviour of the signing package, until the token expires, \<open>AuthRequired\<close> passes every request with
  that token on to the handler, with claims for that user and tenant whose permissions are those of
  the roles of the user there.
\<close>

theorem login_token_roundtrip:
  assumes "crypto_law (iu_crypto u)"
    and "Login u c cmd e w = (Ret r, w')" and "\<not> lgr_RequiresTenantSelection r"
    and "ad_crypto a = iu_crypto u" and "ad_tokens a = iu_tokens u" and "0 < iu_ttl u"
    and "hq_header req ''Authorization'' = ''Bearer '' @ lgr_Token r" and "hq_header req ''X-API-Key'' = []"
    and "\<forall>n. clock_at e' (tick (hs_world s)) + Second \<le> clock_at e n + iu_ttl u"
  shows "wdb w' = wdb w \<and>
    (\<exists>us \<in> set (t_users (wdb w)). \<exists>t cl.
       us_email us = ToLower (TrimSpace (lg_Email cmd)) \<and> us_status us = ''active'' \<and>
       bcrypt_compare (iu_crypto u) (us_password_hash us) (lg_Password cmd) \<and>
       active_member (wdb w) t (us_id us) \<and> lgr_TenantID r = Some t \<and>
       admitted a req c' e' s cl \<and>
       ac_UserID cl = us_id us \<and> ac_TenantID cl = t \<and> ac_ActorType cl = ActorTypeUser \<and>
       set (ac_Permissions cl) = user_permissions (wdb w) t (us_id us))"
proof -
  from Login_Ret [OF assms(2,3)] obtain us t w1 where us: "us \<in> set (t_users (wdb w))"
      "us_email us = ToLower (TrimSpace (lg_Email cmd))" "us_status us = ''active''"
      "bcrypt_compare (iu_crypto u) (us_password_hash us) (lg_Password cmd)" and w1: "wdb w1 = wdb w"
    and i: "issueLoginResult u c (user_of_row (local_off e) us) t e w1 = (Ret r, w')" by metis
  have uid: "u_ID (user_of_row (local_off e) us) = us_id us" by (simp add: user_of_row_def)
  from issueLoginResult_Ret [OF i] obtain cl n where cl: "wdb w' = wdb w" "active_member (wdb w) t (us_id us)"
    "lgr_TenantID r = Some t" "jwt_sign (iu_crypto u) (tm_secretKey (iu_tokens u)) cl = Ret (lgr_Token r)"
    "tk_UserID cl = us_id us" "tk_TenantID cl = t" "set (tk_Permissions cl) = user_permissions (wdb w) t (us_id us)"
    and ex: "tk_ExpiresAt cl = (clock_at e n + (if iu_ttl u = 0 then 24 * 3600 * Second else iu_ttl u)) div Second"
    unfolding uid w1 by metis
  have "clock_at e' (tick (hs_world s)) < tk_ExpiresAt cl * Second"
    using assms(6) spec [OF assms(9), of n] unfolding ex by (simp add: Second_def)
  with assms(1) cl(4) have law: "jwt_method (iu_crypto u) (lgr_Token r) = Some ''HMAC''" "TrimSpace (lgr_Token r) = lgr_Token r"
      "HasPrefix (lgr_Token r) ''eyJ''"
      "jwt_verify (iu_crypto u) (tm_secretKey (iu_tokens u)) (clock_at e' (tick (hs_world s))) (lgr_Token r) = Ret cl"
    unfolding crypto_law_def by blast+
  have "\<not> HasPrefix (lgr_Token r) APIKeyPrefix"
    using law(3) by (cases "lgr_Token r") (auto simp: HasPrefix_def APIKeyPrefix_def)
  then have au: "admitted a req c' e' s (user_claims cl)"
    unfolding admitted_def using law(1,4)
    by (intro allI AuthRequired_bearer [OF assms(7,8) law(2)]) (simp_all add: assms(4,5))
  have "ac_UserID (user_claims cl) = us_id us \<and> ac_TenantID (user_claims cl) = t \<and> ac_ActorType (user_claims cl) = ActorTypeUser \<and>
      set (ac_Permissions (user_claims cl)) = user_permissions (wdb w) t (us_id us)"
    by (simp add: user_claims_def cl)
  with us cl(1-3) au show ?thesis by blast
qed

theorem login_token_roundtrip_witness:
  "\<exists>r w'. Login ex_id_usecase Background ex_login ex_id_env ex_id_world = (Ret r, w') \<and> lgr_TenantID r = Some 5 \<and>
     (\<forall>s. \<exists>cl. admitted ex_auth_deps ex_auth_request Background ex_id_env s cl \<and> ac_UserID cl = 4 \<and>
        set (ac_Permissions cl) = user_permissions (wdb ex_id_world) 5 4)"
proof -
  obtain r w' where r: "Login ex_id_usecase Background ex_login ex_id_env ex_id_world = (Ret r, w')"
    "\<not> lgr_RequiresTenantSelection r" "lgr_Token r = ''eyJ0''" by (rule ex_login_result)
  have u: "iu_crypto ex_id_usecase = ex_crypto" "iu_tokens ex_id_usecase = NewTokenManager ''k'' []"
      "iu_ttl ex_id_usecase = 3600 * Second"
    by (simp_all add: ex_id_usecase_def identity_NewUsecase_def Second_def)
  have "\<exists>us \<in> set (t_users (wdb ex_id_world)). \<exists>t cl.
       us_email us = ToLower (TrimSpace (lg_Email ex_login)) \<and> us_status us = ''active'' \<and>
       bcrypt_compare (iu_crypto ex_id_usecase) (us_password_hash us) (lg_Password ex_login) \<and>
       active_member (wdb ex_id_world) t (us_id us) \<and> lgr_TenantID r = Some t \<and>
       admitted ex_auth_deps ex_auth_request Background ex_id_env s cl \<and>
       ac_UserID cl = us_id us \<and> ac_TenantID cl = t \<and> ac_ActorType cl = ActorTypeUser \<and>
       set (ac_Permissions cl) = user_permissions (wdb ex_id_world) t (us_id us)" for s
    by (rule conjunct2 [OF login_token_roundtrip [where u = ex_id_usecase and a = ex_auth_deps and s = s, OF _ r(1,2)]])
       (simp_all add: u ex_crypto_law r(3) ex_auth_deps_def ex_auth_request_def ex_id_env_def Second_def)
  moreover have "us_id us = 4" if "us \<in> set (t_users (wdb ex_id_world))" for us
    using that by (simp add: ex_id_world_def)
  moreover have "t = 5" if "active_member (wdb ex_id_world) t 4" for t
    using that by (simp add: ex_id_world_def active_member_def)
  ultimately have "lgr_TenantID r = Some 5 \<and> (\<exists>cl. admitted ex_auth_deps ex_auth_request Background ex_id_env s cl \<and>
        ac_UserID cl = 4 \<and> set (ac_Permissions cl) = user_permissions (wdb ex_id_world) 5 4)" for s
    by metis
  with r(1) show ?thesis by blast
qed

end
