(* ===== verification/CustomField.thy ===== *)
theory CustomField
  imports Tables "HOL-Library.AList"
begin

text \<open>
  Custom fields: the definitions and the validator of \<open>internal/core/domain/customfield\<close>, the
  repository (\<open>custom_field_repo.go\<close>, \<open>sqlc/custom_fields.sql.go\<close>) and the use case
  (\<open>internal/core/usecase/customfield/custom_field_usecase.go\<close>). No other part of the program
  touches the two tables, so they form a database record of their own. The matcher of the
  \<open>regexp\<close> package is the parameter \<open>re\<close>: the pattern and the text to the answer, \<open>None\<close> for a
  pattern that does not compile; nothing is assumed of it.
\<close>

section \<open>Values\<close>

text \<open>
  The dynamic types of \<open>any\<close> the code looks at. \<open>AFloat32\<close> holds the value of a \<open>float32\<close>, \<open>AInt\<close> an \<open>int\<close>,
  \<open>int64\<close> or \<open>int32\<close>.
\<close>

datatype any = ANil | ABool bool | AFloat float64 | AFloat32 float64 | AInt int | AStr string | AStrs "string list"
  | AArr "any list" | AObj "(string \<times> any) list"

text \<open>
  \<open>json.Marshal\<close>: not a number and the infinities are refused. The encoder writes the shortest decimal that
  reads back as the same float; the model writes the value of the float.
\<close>

definition json_of_float :: "float64 \<Rightarrow> json res" where
  "json_of_float f = (if is_finite f then Ret (JNum (fval f)) else Fail (Opaque ''json: unsupported value''))"

fun collect_res :: "'a res list \<Rightarrow> 'a list res" where
  "collect_res [] = Ret []"
| "collect_res (Ret x # rs) = bind_res (collect_res rs) (\<lambda>xs. Ret (x # xs))"
| "collect_res (Fail er # rs) = Fail er"
| "collect_res (Panic p # rs) = Panic p"

fun json_of_any :: "any \<Rightarrow> json res" where
  "json_of_any ANil = Ret JNull"
| "json_of_any (ABool b) = Ret (JBool b)"
| "json_of_any (AFloat f) = json_of_float f"
| "json_of_any (AFloat32 f) = json_of_float f"
| "json_of_any (AInt n) = Ret (JInt n)"
| "json_of_any (AStr s) = Ret (JStr s)"
| "json_of_any (AStrs ss) = Ret (JArr (map JStr ss))"
| "json_of_any (AArr xs) = bind_res (collect_res (map json_of_any xs)) (\<lambda>js. Ret (JArr js))"
| "json_of_any (AObj kvs) =
     bind_res (collect_res (map (\<lambda>(k, v). json_of_any v) kvs)) (\<lambda>js. Ret (JObj (zip (map fst kvs) js)))"

text \<open>\<open>json.Unmarshal\<close> into \<open>any\<close>.\<close>

fun any_of_json :: "json \<Rightarrow> any" where
  "any_of_json JNull = ANil"
| "any_of_json (JBool b) = ABool b"
| "any_of_json (JNum x) = AFloat (round64 False x)"
| "any_of_json (JStr s) = AStr s"
| "any_of_json (JArr xs) = AArr (map any_of_json xs)"
| "any_of_json (JObj kvs) = AObj (map (\<lambda>(k, v). (k, any_of_json v)) kvs)"

text \<open>A \<open>map[string]any\<close>, \<open>None\<close> the nil map.\<close>

type_synonym anymap = "(string \<times> any) list"

section \<open>Domain\<close>

definition DataTypeText :: string where "DataTypeText = ''text''"
definition DataTypeNumber :: string where "DataTypeNumber = ''number''"
definition DataTypeBoolean :: string where "DataTypeBoolean = ''boolean''"
definition DataTypeDate :: string where "DataTypeDate = ''date''"
definition DataTypeSelect :: string where "DataTypeSelect = ''select''"
definition DataTypeMultiSelect :: string where "DataTypeMultiSelect = ''multi_select''"
definition DataTypeJSON :: string where "DataTypeJSON = ''json''"

lemmas data_types = DataTypeText_def DataTypeNumber_def DataTypeBoolean_def DataTypeDate_def DataTypeSelect_def
  DataTypeMultiSelect_def DataTypeJSON_def

definition DataType_IsValid :: "string \<Rightarrow> bool" where
  "DataType_IsValid d \<longleftrightarrow> d \<in> {DataTypeText, DataTypeNumber, DataTypeBoolean, DataTypeDate, DataTypeSelect, DataTypeMultiSelect, DataTypeJSON}"

definition EntityType_IsValid :: "string \<Rightarrow> bool" where
  "EntityType_IsValid e \<longleftrightarrow> e \<in> {''party'', ''product'', ''document'', ''organization''}"

record ValidationRules =
  vl_Min :: "float64 option"
  vl_Max :: "float64 option"
  vl_Regex :: string

record Definition =
  df_ID :: ID
  df_TenantID :: ID
  df_EntityType :: string
  df_Code :: string
  df_Name :: string
  df_Description :: string
  df_DataType :: string
  df_Options :: "string list option"
  df_IsRequired :: bool
  df_DefaultValue :: any
  df_ValidationRules :: ValidationRules
  df_SortOrder :: int
  df_IsActive :: bool
  df_CreatedAt :: gotime
  df_UpdatedAt :: gotime

record EntityCustomFields =
  ef_ID :: ID
  ef_TenantID :: ID
  ef_EntityType :: string
  ef_EntityID :: ID
  ef_Values :: anymap
  ef_CreatedAt :: gotime
  ef_UpdatedAt :: gotime

section \<open>Validation\<close>

text \<open>\<open>time.Parse\<close> with the layout \<open>2006-01-02\<close>: four digits, two and two, a day of the month of the year.\<close>

definition DateOnly :: "string \<Rightarrow> bool" where
  "DateOnly s =
     (let y = take 4 s; m = take 2 (drop 5 s); d = drop 8 s;
          digits = list_all (\<lambda>c. CHR ''0'' \<le> c \<and> c \<le> CHR ''9'')
      in length s = 10 \<and> s ! 4 = CHR ''-'' \<and> s ! 7 = CHR ''-'' \<and> digits y \<and> digits m \<and> digits d \<and>
         1 \<le> dec_value m \<and> dec_value m \<le> 12 \<and> 1 \<le> dec_value d \<and>
         int (dec_value d) \<le> (month_lengths (int (dec_value y)) @ [31]) ! (dec_value m - 1))"

definition options_of :: "Definition \<Rightarrow> string list" where
  "options_of d = (case df_Options d of None \<Rightarrow> [] | Some os \<Rightarrow> os)"

definition containsOption :: "string list \<Rightarrow> string \<Rightarrow> bool" where
  "containsOption options target \<longleftrightarrow> target \<in> set options"

fun toFloat64 :: "any \<Rightarrow> float64 option" where
  "toFloat64 (AFloat v) = Some v"
| "toFloat64 (AFloat32 v) = Some v"
| "toFloat64 (AInt v) = Some (f_of_int v)"
| "toFloat64 _ = None"

fun check_options :: "string list \<Rightarrow> string list \<Rightarrow> bool" where
  "check_options options [] = True"
| "check_options options (s # ss) = (if \<not> containsOption options s then False else check_options options ss)"

text \<open>The loop over \<open>[]any\<close>.\<close>

fun string_items :: "string list \<Rightarrow> any list \<Rightarrow> string list option" where
  "string_items options [] = Some []"
| "string_items options (x # xs) =
     (case x of
        AStr s \<Rightarrow> if \<not> containsOption options s then None else map_option ((#) s) (string_items options xs)
      | _ \<Rightarrow> None)"

definition invalid :: "'a res" where
  "invalid = Fail (Wrapped ''field'' ErrInvalidInput)"

definition validateField :: "(string \<Rightarrow> string \<Rightarrow> bool option) \<Rightarrow> Definition \<Rightarrow> any \<Rightarrow> any res" where
  "validateField re def val =
     (let rules = df_ValidationRules def; options = options_of def; ty = df_DataType def
      in if ty = DataTypeText
         then (case val of
             AStr str \<Rightarrow> if vl_Regex rules \<noteq> [] \<and> re (vl_Regex rules) str \<noteq> Some True then invalid else Ret (AStr str)
           | _ \<Rightarrow> invalid)
         else if ty = DataTypeNumber
         then (case toFloat64 val of
             None \<Rightarrow> invalid
           | Some num \<Rightarrow>
               if (case vl_Min rules of None \<Rightarrow> False | Some m \<Rightarrow> f_lt num m) then invalid
               else if (case vl_Max rules of None \<Rightarrow> False | Some m \<Rightarrow> f_lt m num) then invalid
               else Ret (AFloat num))
         else if ty = DataTypeBoolean then (case val of ABool b \<Rightarrow> Ret (ABool b) | _ \<Rightarrow> invalid)
         else if ty = DataTypeDate
         then (case val of AStr str \<Rightarrow> if DateOnly str then Ret (AStr str) else invalid | _ \<Rightarrow> invalid)
         else if ty = DataTypeSelect
         then (case val of AStr str \<Rightarrow> if containsOption options str then Ret (AStr str) else invalid | _ \<Rightarrow> invalid)
         else if ty = DataTypeMultiSelect
         then (case val of
             AArr rawList \<Rightarrow> (case string_items options rawList of None \<Rightarrow> invalid | Some result \<Rightarrow> Ret (AStrs result))
           | AStrs strList \<Rightarrow> if check_options options strList then Ret (AStrs strList) else invalid
           | _ \<Rightarrow> invalid)
         else Ret val)"

text \<open>The loop of \<open>ValidateValues\<close>; a missing key reads as nil.\<close>

fun validate_loop :: "(string \<Rightarrow> string \<Rightarrow> bool option) \<Rightarrow> anymap \<Rightarrow> Definition list \<Rightarrow> anymap \<Rightarrow> anymap res" where
  "validate_loop re raw [] sanitized = Ret sanitized"
| "validate_loop re raw (def # defs) sanitized =
     (if \<not> df_IsActive def then validate_loop re raw defs sanitized
      else let val = (case map_of raw (df_Code def) of None \<Rightarrow> ANil | Some v \<Rightarrow> v)
      in if val = ANil
         then (if df_DefaultValue def \<noteq> ANil
               then validate_loop re raw defs (AList.update (df_Code def) (df_DefaultValue def) sanitized)
               else if df_IsRequired def then invalid
               else validate_loop re raw defs sanitized)
         else (case validateField re def val of
             Ret v \<Rightarrow> validate_loop re raw defs (AList.update (df_Code def) v sanitized)
           | Fail er \<Rightarrow> Fail er
           | Panic p \<Rightarrow> Panic p))"

definition ValidateValues :: "(string \<Rightarrow> string \<Rightarrow> bool option) \<Rightarrow> Definition list \<Rightarrow> anymap option \<Rightarrow> anymap res" where
  "ValidateValues re definitions rawValues =
     validate_loop re (case rawValues of None \<Rightarrow> [] | Some kvs \<Rightarrow> kvs) definitions []"

section \<open>Tables and statements\<close>

record custom_field_definition_row =
  cfr_id :: ID
  cfr_tenant_id :: ID
  cfr_entity_type :: string
  cfr_code :: string
  cfr_name :: string
  cfr_description :: "string option"
  cfr_data_type :: string
  cfr_options :: json
  cfr_is_required :: bool
  cfr_default_value :: "json option"
  cfr_validation_rules :: "json option"
  cfr_sort_order :: int
  cfr_is_active :: bool
  cfr_created_at :: int
  cfr_updated_at :: int

record entity_custom_field_row =
  ecr_id :: ID
  ecr_tenant_id :: ID
  ecr_entity_type :: string
  ecr_entity_id :: ID
  ecr_values :: json
  ecr_created_at :: int
  ecr_updated_at :: int

record field_db =
  t_custom_field_definitions :: "custom_field_definition_row list"
  t_entity_custom_fields :: "entity_custom_field_row list"

type_synonym 'a cfproc = "(field_db, 'a) proc"

definition definition_clash :: "custom_field_definition_row \<Rightarrow> custom_field_definition_row \<Rightarrow> bool" where
  "definition_clash r s \<longleftrightarrow> cfr_id r = cfr_id s \<or>
     cfr_tenant_id r = cfr_tenant_id s \<and> cfr_entity_type r = cfr_entity_type s \<and> cfr_code r = cfr_code s"

text \<open>The rules are \<open>NOT NULL\<close>.\<close>

definition sql_CreateCustomFieldDefinition ::
    "custom_field_definition_row \<Rightarrow> int \<Rightarrow> field_db \<Rightarrow> custom_field_definition_row res \<times> field_db" where
  "sql_CreateCustomFieldDefinition r t d =
     (case insert_row definition_clash (cfr_id r \<noteq> NilID \<and> cfr_tenant_id r \<noteq> NilID \<and> cfr_validation_rules r \<noteq> None) r
        (t_custom_field_definitions d) of (x, rs) \<Rightarrow> (x, d\<lparr>t_custom_field_definitions := rs\<rparr>))"

definition own_definition :: "ID \<Rightarrow> ID \<Rightarrow> custom_field_definition_row \<Rightarrow> bool" where
  "own_definition tenantID i r \<longleftrightarrow> pg_eq (cfr_tenant_id r) tenantID \<and> pg_eq (cfr_id r) i"

definition sql_DeleteCustomFieldDefinition :: "ID \<Rightarrow> ID \<Rightarrow> int \<Rightarrow> field_db \<Rightarrow> unit res \<times> field_db" where
  "sql_DeleteCustomFieldDefinition tenantID i t d =
     (Ret (), d\<lparr>t_custom_field_definitions := filter (\<lambda>r. \<not> own_definition tenantID i r) (t_custom_field_definitions d)\<rparr>)"

definition own_values :: "ID \<Rightarrow> string \<Rightarrow> ID \<Rightarrow> entity_custom_field_row \<Rightarrow> bool" where
  "own_values tenantID entityType entityID r \<longleftrightarrow>
     pg_eq (ecr_tenant_id r) tenantID \<and> ecr_entity_type r = entityType \<and> pg_eq (ecr_entity_id r) entityID"

definition sql_DeleteEntityCustomFields :: "ID \<Rightarrow> string \<Rightarrow> ID \<Rightarrow> int \<Rightarrow> field_db \<Rightarrow> unit res \<times> field_db" where
  "sql_DeleteEntityCustomFields tenantID entityType entityID t d =
     (Ret (), d\<lparr>t_entity_custom_fields := filter (\<lambda>r. \<not> own_values tenantID entityType entityID r) (t_entity_custom_fields d)\<rparr>)"

text \<open>
  The operator \<open>@>\<close> of \<open>jsonb\<close> below the top level: every key of the right object with a value that
  contains its value, every element of the right array in some element of the left one, equality
  of scalars.
\<close>

fun jsonb_contains :: "json \<Rightarrow> json \<Rightarrow> bool" where
  "jsonb_contains (JObj xs) (JObj ys) =
     list_all (\<lambda>(k, y). case map_of xs k of None \<Rightarrow> False | Some x \<Rightarrow> jsonb_contains x y) ys"
| "jsonb_contains (JArr xs) (JArr ys) = list_all (\<lambda>y. list_ex (\<lambda>x. jsonb_contains x y) xs) ys"
| "jsonb_contains (JObj xs) j = False"
| "jsonb_contains (JArr xs) j = False"
| "jsonb_contains j j' = (j = j')"

text \<open>The stored values are an object; an object contains only objects.\<close>

definition sql_FindEntitiesByCustomFieldMatch :: "ID \<Rightarrow> string \<Rightarrow> json \<Rightarrow> field_db \<Rightarrow> (ID \<times> json) list" where
  "sql_FindEntitiesByCustomFieldMatch tenantID entityType m d =
     map (\<lambda>r. (ecr_entity_id r, ecr_values r))
       (filter (\<lambda>r. pg_eq (ecr_tenant_id r) tenantID \<and> ecr_entity_type r = entityType \<and> jsonb_contains (ecr_values r) m)
         (t_entity_custom_fields d))"

definition sql_GetCustomFieldDefinitionByCode :: "ID \<Rightarrow> string \<Rightarrow> string \<Rightarrow> field_db \<Rightarrow> custom_field_definition_row res" where
  "sql_GetCustomFieldDefinitionByCode tenantID entityType code d =
     select_one (\<lambda>r. pg_eq (cfr_tenant_id r) tenantID \<and> cfr_entity_type r = entityType \<and> cfr_code r = code)
       (t_custom_field_definitions d)"

definition sql_GetCustomFieldDefinitionByID :: "ID \<Rightarrow> ID \<Rightarrow> field_db \<Rightarrow> custom_field_definition_row res" where
  "sql_GetCustomFieldDefinitionByID tenantID i d = select_one (own_definition tenantID i) (t_custom_field_definitions d)"

definition sql_GetEntityCustomFields :: "ID \<Rightarrow> string \<Rightarrow> ID \<Rightarrow> field_db \<Rightarrow> entity_custom_field_row res" where
  "sql_GetEntityCustomFields tenantID entityType entityID d =
     select_one (own_values tenantID entityType entityID) (t_entity_custom_fields d)"

definition sql_ListCustomFieldDefinitions :: "ID \<Rightarrow> string \<Rightarrow> field_db \<Rightarrow> custom_field_definition_row list" where
  "sql_ListCustomFieldDefinitions tenantID entityType d =
     sort_key cfr_sort_order (sort_key cfr_code
       (filter (\<lambda>r. pg_eq (cfr_tenant_id r) tenantID \<and> cfr_entity_type r = entityType) (t_custom_field_definitions d)))"

definition sql_ListActiveCustomFieldDefinitions :: "ID \<Rightarrow> string \<Rightarrow> field_db \<Rightarrow> custom_field_definition_row list" where
  "sql_ListActiveCustomFieldDefinitions tenantID entityType d =
     sort_key cfr_sort_order (sort_key cfr_code
       (filter (\<lambda>r. pg_eq (cfr_tenant_id r) tenantID \<and> cfr_entity_type r = entityType \<and> cfr_is_active r)
         (t_custom_field_definitions d)))"

definition sql_UpdateCustomFieldDefinition ::
    "custom_field_definition_row \<Rightarrow> int \<Rightarrow> field_db \<Rightarrow> custom_field_definition_row res \<times> field_db" where
  "sql_UpdateCustomFieldDefinition p t d =
     (let own = own_definition (cfr_tenant_id p) (cfr_id p)
      in if cfr_validation_rules p = None \<and> list_ex own (t_custom_field_definitions d)
         then (Fail (Opaque ''not-null constraint''), d)
         else (case update_returning own
             (\<lambda>r. r\<lparr>cfr_name := cfr_name p, cfr_description := cfr_description p, cfr_options := cfr_options p,
                    cfr_is_required := cfr_is_required p, cfr_default_value := cfr_default_value p,
                    cfr_validation_rules := cfr_validation_rules p, cfr_sort_order := cfr_sort_order p,
                    cfr_is_active := cfr_is_active p, cfr_updated_at := cfr_updated_at p\<rparr>)
             (t_custom_field_definitions d) of (x, rs) \<Rightarrow> (x, d\<lparr>t_custom_field_definitions := rs\<rparr>)))"

definition sql_UpsertEntityCustomFields :: "entity_custom_field_row \<Rightarrow> int \<Rightarrow> field_db \<Rightarrow> entity_custom_field_row res \<times> field_db" where
  "sql_UpsertEntityCustomFields r t d =
     (let own = own_values (ecr_tenant_id r) (ecr_entity_type r) (ecr_entity_id r); rows = t_entity_custom_fields d
      in if ecr_id r = NilID \<or> ecr_tenant_id r = NilID \<or> ecr_entity_id r = NilID then (Fail (Opaque ''not-null constraint''), d)
         else if list_ex own rows
         then (case update_returning own (\<lambda>x. x\<lparr>ecr_values := ecr_values r, ecr_updated_at := ecr_updated_at r\<rparr>) rows of
               (x, rs) \<Rightarrow> (x, d\<lparr>t_entity_custom_fields := rs\<rparr>))
         else (case insert_row (\<lambda>x y. ecr_id x = ecr_id y) True r rows of (x, rs) \<Rightarrow> (x, d\<lparr>t_entity_custom_fields := rs\<rparr>)))"

section \<open>Repository\<close>

text \<open>\<open>json.Marshal\<close> with the error dropped: a value that does not encode is written as \<open>NULL\<close>.\<close>

definition bytes_of :: "json res \<Rightarrow> json option" where
  "bytes_of r = (case r of Ret j \<Rightarrow> Some j | _ \<Rightarrow> None)"

definition json_of_options :: "string list option \<Rightarrow> json" where
  "json_of_options o1 = (case o1 of None \<Rightarrow> JNull | Some os \<Rightarrow> JArr (map JStr os))"

definition options_of_json :: "json \<Rightarrow> string list option" where
  "options_of_json j = (case j of JArr xs \<Rightarrow> Some (map (\<lambda>x. case x of JStr s \<Rightarrow> s | _ \<Rightarrow> []) xs) | _ \<Rightarrow> None)"

text \<open>\<open>omitempty\<close>: absent bounds and an empty pattern are left out.\<close>

definition float_entry :: "string \<Rightarrow> float64 option \<Rightarrow> (string \<times> json) list res" where
  "float_entry k v = (case v of None \<Rightarrow> Ret [] | Some f \<Rightarrow> bind_res (json_of_float f) (\<lambda>j. Ret [(k, j)]))"

definition json_of_rules :: "ValidationRules \<Rightarrow> json res" where
  "json_of_rules r =
     bind_res (float_entry ''min'' (vl_Min r)) (\<lambda>a.
     bind_res (float_entry ''max'' (vl_Max r)) (\<lambda>b.
     Ret (JObj (a @ b @ (if vl_Regex r = [] then [] else [(''regex'', JStr (vl_Regex r))])))))"

definition rules_of_json :: "json \<Rightarrow> ValidationRules" where
  "rules_of_json j =
     (let kvs = (case j of JObj kvs \<Rightarrow> kvs | _ \<Rightarrow> []);
          num = (\<lambda>k. case map_of kvs k of Some (JNum x) \<Rightarrow> Some (round64 False x) | _ \<Rightarrow> None)
      in \<lparr>vl_Min = num ''min'', vl_Max = num ''max'',
          vl_Regex = (case map_of kvs ''regex'' of Some (JStr s) \<Rightarrow> s | _ \<Rightarrow> [])\<rparr>)"

definition definition_row :: "Definition \<Rightarrow> custom_field_definition_row" where
  "definition_row def =
     \<lparr>cfr_id = df_ID def, cfr_tenant_id = df_TenantID def, cfr_entity_type = df_EntityType def, cfr_code = df_Code def,
      cfr_name = df_Name def, cfr_description = ptr_of_str (df_Description def), cfr_data_type = df_DataType def,
      cfr_options = json_of_options (df_Options def), cfr_is_required = df_IsRequired def,
      cfr_default_value = bytes_of (json_of_any (df_DefaultValue def)),
      cfr_validation_rules = bytes_of (json_of_rules (df_ValidationRules def)), cfr_sort_order = df_SortOrder def,
      cfr_is_active = df_IsActive def, cfr_created_at = to_micro (df_CreatedAt def), cfr_updated_at = to_micro (df_UpdatedAt def)\<rparr>"

definition toDomainDefinition :: "(int \<Rightarrow> int) \<Rightarrow> custom_field_definition_row \<Rightarrow> Definition" where
  "toDomainDefinition lo row =
     \<lparr>df_ID = cfr_id row, df_TenantID = cfr_tenant_id row, df_EntityType = cfr_entity_type row, df_Code = cfr_code row,
      df_Name = cfr_name row, df_Description = str_of_ptr (cfr_description row), df_DataType = cfr_data_type row,
      df_Options = options_of_json (cfr_options row), df_IsRequired = cfr_is_required row,
      df_DefaultValue = (case cfr_default_value row of None \<Rightarrow> ANil | Some j \<Rightarrow> any_of_json j),
      df_ValidationRules = (case cfr_validation_rules row of None \<Rightarrow> \<lparr>vl_Min = None, vl_Max = None, vl_Regex = []\<rparr>
                            | Some j \<Rightarrow> rules_of_json j),
      df_SortOrder = cfr_sort_order row, df_IsActive = cfr_is_active row,
      df_CreatedAt = ts_local lo (cfr_created_at row), df_UpdatedAt = ts_local lo (cfr_updated_at row)\<rparr>"

definition cf_repo_CreateDefinition :: "ctx \<Rightarrow> Definition \<Rightarrow> Definition cfproc" where
  "cf_repo_CreateDefinition c def =
     read_with (\<lambda>lo row. def\<lparr>df_ID := cfr_id row, df_CreatedAt := ts_local lo (cfr_created_at row),
                             df_UpdatedAt := ts_local lo (cfr_updated_at row)\<rparr>)
       (stmt (pool_ctx c) (sql_CreateCustomFieldDefinition (definition_row def)))"

definition cf_repo_GetDefinitionByID :: "ctx \<Rightarrow> ID \<Rightarrow> ID \<Rightarrow> Definition cfproc" where
  "cf_repo_GetDefinitionByID c tenantID i =
     read_with toDomainDefinition (norows_notfound (query (pool_ctx c) (sql_GetCustomFieldDefinitionByID tenantID i)))"

definition cf_repo_GetDefinitionByCode :: "ctx \<Rightarrow> ID \<Rightarrow> string \<Rightarrow> string \<Rightarrow> Definition cfproc" where
  "cf_repo_GetDefinitionByCode c tenantID entityType code =
     read_with toDomainDefinition
       (norows_notfound (query (pool_ctx c) (sql_GetCustomFieldDefinitionByCode tenantID entityType code)))"

definition cf_repo_ListDefinitions :: "ctx \<Rightarrow> ID \<Rightarrow> string \<Rightarrow> Definition list cfproc" where
  "cf_repo_ListDefinitions c tenantID entityType =
     read_with (\<lambda>lo. map (toDomainDefinition lo))
       (query (pool_ctx c) (\<lambda>d. Ret (sql_ListCustomFieldDefinitions tenantID entityType d)))"

definition cf_repo_ListActiveDefinitions :: "ctx \<Rightarrow> ID \<Rightarrow> string \<Rightarrow> Definition list cfproc" where
  "cf_repo_ListActiveDefinitions c tenantID entityType =
     read_with (\<lambda>lo. map (toDomainDefinition lo))
       (query (pool_ctx c) (\<lambda>d. Ret (sql_ListActiveCustomFieldDefinitions tenantID entityType d)))"

definition cf_repo_UpdateDefinition :: "ctx \<Rightarrow> Definition \<Rightarrow> Definition cfproc" where
  "cf_repo_UpdateDefinition c def =
     read_with (\<lambda>lo row. def\<lparr>df_UpdatedAt := ts_local lo (cfr_updated_at row)\<rparr>)
       (norows_notfound (stmt (pool_ctx c) (sql_UpdateCustomFieldDefinition (definition_row def))))"

definition cf_repo_DeleteDefinition :: "ctx \<Rightarrow> ID \<Rightarrow> ID \<Rightarrow> unit cfproc" where
  "cf_repo_DeleteDefinition c tenantID i = stmt (pool_ctx c) (sql_DeleteCustomFieldDefinition tenantID i)"

definition cf_repo_UpsertEntityValues :: "ctx \<Rightarrow> EntityCustomFields \<Rightarrow> EntityCustomFields cfproc" where
  "cf_repo_UpsertEntityValues c vals =
     bindP (lift_res (json_of_any (AObj (ef_Values vals)))) (\<lambda>valuesBytes.
     read_with (\<lambda>lo row. vals\<lparr>ef_ID := ecr_id row, ef_CreatedAt := ts_local lo (ecr_created_at row),
                              ef_UpdatedAt := ts_local lo (ecr_updated_at row)\<rparr>)
       (stmt (pool_ctx c) (sql_UpsertEntityCustomFields
         \<lparr>ecr_id = ef_ID vals, ecr_tenant_id = ef_TenantID vals, ecr_entity_type = ef_EntityType vals,
          ecr_entity_id = ef_EntityID vals, ecr_values = valuesBytes, ecr_created_at = to_micro (ef_CreatedAt vals),
          ecr_updated_at = to_micro (ef_UpdatedAt vals)\<rparr>)))"

definition entity_values_of_row :: "(int \<Rightarrow> int) \<Rightarrow> entity_custom_field_row \<Rightarrow> EntityCustomFields" where
  "entity_values_of_row lo row =
     \<lparr>ef_ID = ecr_id row, ef_TenantID = ecr_tenant_id row, ef_EntityType = ecr_entity_type row, ef_EntityID = ecr_entity_id row,
      ef_Values = (case any_of_json (ecr_values row) of AObj kvs \<Rightarrow> kvs | _ \<Rightarrow> []),
      ef_CreatedAt = ts_local lo (ecr_created_at row), ef_UpdatedAt = ts_local lo (ecr_updated_at row)\<rparr>"

definition cf_repo_GetEntityValues :: "ctx \<Rightarrow> ID \<Rightarrow> string \<Rightarrow> ID \<Rightarrow> EntityCustomFields cfproc" where
  "cf_repo_GetEntityValues c tenantID entityType entityID =
     read_with entity_values_of_row
       (norows_notfound (query (pool_ctx c) (sql_GetEntityCustomFields tenantID entityType entityID)))"

definition cf_repo_DeleteEntityValues :: "ctx \<Rightarrow> ID \<Rightarrow> string \<Rightarrow> ID \<Rightarrow> unit cfproc" where
  "cf_repo_DeleteEntityValues c tenantID entityType entityID =
     stmt (pool_ctx c) (sql_DeleteEntityCustomFields tenantID entityType entityID)"

definition cf_repo_FindEntitiesByMatch :: "ctx \<Rightarrow> ID \<Rightarrow> string \<Rightarrow> anymap option \<Rightarrow> ID list cfproc" where
  "cf_repo_FindEntitiesByMatch c tenantID entityType m =
     bindP (lift_res (json_of_any (case m of None \<Rightarrow> ANil | Some kvs \<Rightarrow> AObj kvs))) (\<lambda>matchBytes.
     bindP (query (pool_ctx c) (\<lambda>d. Ret (sql_FindEntitiesByCustomFieldMatch tenantID entityType matchBytes d))) (\<lambda>rows.
     ret (map fst rows)))"

section \<open>Use case\<close>

record CreateDefinitionCommand =
  cd_TenantID :: ID
  cd_EntityType :: string
  cd_Code :: string
  cd_Name :: string
  cd_Description :: string
  cd_DataType :: string
  cd_Options :: "string list option"
  cd_IsRequired :: bool
  cd_DefaultValue :: any
  cd_ValidationRules :: ValidationRules
  cd_SortOrder :: int

record UpdateDefinitionCommand =
  ud_TenantID :: ID
  ud_ID :: ID
  ud_Name :: string
  ud_Description :: string
  ud_Options :: "string list option"
  ud_IsRequired :: bool
  ud_DefaultValue :: any
  ud_ValidationRules :: ValidationRules
  ud_SortOrder :: int
  ud_IsActive :: bool

record SetEntityValuesCommand =
  sv_TenantID :: ID
  sv_EntityType :: string
  sv_EntityID :: ID
  sv_Values :: "anymap option"

definition entity_type_ok :: "string \<Rightarrow> unit cfproc" where
  "entity_type_ok ty = guard (EntityType_IsValid ty) (Wrapped ''invalid entity_type'' ErrInvalidInput)"

definition CreateDefinition :: "ctx \<Rightarrow> CreateDefinitionCommand \<Rightarrow> Definition cfproc" where
  "CreateDefinition c cmd =
     bindP (guard (cd_TenantID cmd \<noteq> NilID) ErrTenantRequired) (\<lambda>_.
     bindP (entity_type_ok (cd_EntityType cmd)) (\<lambda>_.
     bindP (guard (DataType_IsValid (cd_DataType cmd)) (Wrapped ''invalid data_type'' ErrInvalidInput)) (\<lambda>_.
     let code = ToLower (TrimSpace (cd_Code cmd)); name = TrimSpace (cd_Name cmd)
     in bindP (guard (\<not> (code = [] \<or> name = [])) (Wrapped ''code and name are required'' ErrInvalidInput)) (\<lambda>_.
     bindP (guard (\<not> ((cd_DataType cmd = DataTypeSelect \<or> cd_DataType cmd = DataTypeMultiSelect) \<and>
                     (case cd_Options cmd of None \<Rightarrow> True | Some os \<Rightarrow> os = [])))
       (Wrapped ''options list cannot be empty for select types'' ErrInvalidInput)) (\<lambda>_.
     bindP (must_not_exist ''custom field code already exists''
       (cf_repo_GetDefinitionByCode c (cd_TenantID cmd) (cd_EntityType cmd) code)) (\<lambda>_.
     bindP NewID (\<lambda>i.
     bindP Now (\<lambda>now.
     cf_repo_CreateDefinition c
       \<lparr>df_ID = i, df_TenantID = cd_TenantID cmd, df_EntityType = cd_EntityType cmd, df_Code = code, df_Name = name,
        df_Description = cd_Description cmd, df_DataType = cd_DataType cmd, df_Options = cd_Options cmd,
        df_IsRequired = cd_IsRequired cmd, df_DefaultValue = cd_DefaultValue cmd,
        df_ValidationRules = cd_ValidationRules cmd, df_SortOrder = cd_SortOrder cmd, df_IsActive = True,
        df_CreatedAt = now, df_UpdatedAt = now\<rparr>))))))))"

definition GetDefinition :: "ctx \<Rightarrow> ID \<Rightarrow> ID \<Rightarrow> Definition cfproc" where
  "GetDefinition c tenantID i =
     bindP (guard (tenantID \<noteq> NilID) ErrTenantRequired) (\<lambda>_. cf_repo_GetDefinitionByID c tenantID i)"

definition ListDefinitions :: "ctx \<Rightarrow> ID \<Rightarrow> string \<Rightarrow> Definition list cfproc" where
  "ListDefinitions c tenantID entityType =
     bindP (guard (tenantID \<noteq> NilID) ErrTenantRequired) (\<lambda>_.
     bindP (entity_type_ok entityType) (\<lambda>_. cf_repo_ListDefinitions c tenantID entityType))"

definition UpdateDefinition :: "ctx \<Rightarrow> UpdateDefinitionCommand \<Rightarrow> Definition cfproc" where
  "UpdateDefinition c cmd =
     bindP (guard (ud_TenantID cmd \<noteq> NilID) ErrTenantRequired) (\<lambda>_.
     bindP (cf_repo_GetDefinitionByID c (ud_TenantID cmd) (ud_ID cmd)) (\<lambda>def.
     bindP Now (\<lambda>now.
     cf_repo_UpdateDefinition c
       (def\<lparr>df_Name := (if ud_Name cmd \<noteq> [] then TrimSpace (ud_Name cmd) else df_Name def),
            df_Description := ud_Description cmd,
            df_Options := (case ud_Options cmd of None \<Rightarrow> df_Options def | Some os \<Rightarrow> if os = [] then df_Options def else Some os),
            df_IsRequired := ud_IsRequired cmd, df_DefaultValue := ud_DefaultValue cmd,
            df_ValidationRules := ud_ValidationRules cmd, df_SortOrder := ud_SortOrder cmd, df_IsActive := ud_IsActive cmd,
            df_UpdatedAt := now\<rparr>))))"

definition DeleteDefinition :: "ctx \<Rightarrow> ID \<Rightarrow> ID \<Rightarrow> unit cfproc" where
  "DeleteDefinition c tenantID i =
     bindP (guard (tenantID \<noteq> NilID) ErrTenantRequired) (\<lambda>_. cf_repo_DeleteDefinition c tenantID i)"

definition SetEntityValues ::
    "(string \<Rightarrow> string \<Rightarrow> bool option) \<Rightarrow> ctx \<Rightarrow> SetEntityValuesCommand \<Rightarrow> EntityCustomFields cfproc" where
  "SetEntityValues re c cmd =
     bindP (guard (sv_TenantID cmd \<noteq> NilID) ErrTenantRequired) (\<lambda>_.
     bindP (entity_type_ok (sv_EntityType cmd)) (\<lambda>_.
     bindP (guard (sv_EntityID cmd \<noteq> NilID) (Wrapped ''entity_id is required'' ErrInvalidInput)) (\<lambda>_.
     bindP (cf_repo_ListActiveDefinitions c (sv_TenantID cmd) (sv_EntityType cmd)) (\<lambda>defs.
     bindP (lift_res (ValidateValues re defs (sv_Values cmd))) (\<lambda>sanitizedValues.
     bindP NewID (\<lambda>i.
     bindP Now (\<lambda>now.
     cf_repo_UpsertEntityValues c
       \<lparr>ef_ID = i, ef_TenantID = sv_TenantID cmd, ef_EntityType = sv_EntityType cmd, ef_EntityID = sv_EntityID cmd,
        ef_Values = sanitizedValues, ef_CreatedAt = now, ef_UpdatedAt = now\<rparr>)))))))"

definition GetEntityValues :: "ctx \<Rightarrow> ID \<Rightarrow> string \<Rightarrow> ID \<Rightarrow> EntityCustomFields cfproc" where
  "GetEntityValues c tenantID entityType entityID =
     bindP (guard (tenantID \<noteq> NilID) ErrTenantRequired) (\<lambda>_.
     bindP (entity_type_ok entityType) (\<lambda>_.
     bindP (guard (entityID \<noteq> NilID) (Wrapped ''entity_id is required'' ErrInvalidInput)) (\<lambda>_.
     bindP (tryP (cf_repo_GetEntityValues c tenantID entityType entityID)) (\<lambda>r.
     case r of
       Fail er \<Rightarrow>
         (if er = ErrNotFound
          then ret \<lparr>ef_ID = NilID, ef_TenantID = tenantID, ef_EntityType = entityType, ef_EntityID = entityID, ef_Values = [],
                    ef_CreatedAt = \<lparr>ns = zero_ns, off = 0\<rparr>, ef_UpdatedAt = \<lparr>ns = zero_ns, off = 0\<rparr>\<rparr>
          else fail er)
     | _ \<Rightarrow> lift_res r))))"

definition FindEntitiesByMatch :: "ctx \<Rightarrow> ID \<Rightarrow> string \<Rightarrow> anymap option \<Rightarrow> ID list cfproc" where
  "FindEntitiesByMatch c tenantID entityType m =
     bindP (guard (tenantID \<noteq> NilID) ErrTenantRequired) (\<lambda>_.
     bindP (entity_type_ok entityType) (\<lambda>_. cf_repo_FindEntitiesByMatch c tenantID entityType m))"

end
