(* ===== verification/Party.thy ===== *)
theory Party
  imports OutboxAudit
begin

text \<open>
  Parties with their roles, addresses and contacts: \<open>internal/core/domain/party\<close>,
  \<open>internal/core/domain/contact\<close>, the repositories (\<open>party_repo.go\<close>, \<open>address_contact_repo.go\<close>,
  \<open>sqlc/parties.sql.go\<close>, \<open>sqlc/addresses_contacts.sql.go\<close>) and the use case
  (\<open>internal/core/usecase/party/party_usecase.go\<close>). All statements run on the pool. Foreign keys to
  parties, addresses and organizations are part of the insertions.
\<close>

section \<open>Domain\<close>

definition TypeOrganization_party :: string where "TypeOrganization_party = ''organization''"
definition StatusActive_party :: string where "StatusActive_party = ''active''"

record PartyRole =
  rl_ID :: ID
  rl_TenantID :: ID
  rl_PartyID :: ID
  rl_OrganizationID :: "ID option"
  rl_RoleType :: string
  rl_Status :: string
  rl_CreatedAt :: gotime
  rl_UpdatedAt :: gotime

record Party =
  py_ID :: ID
  py_TenantID :: ID
  py_Type :: string
  py_Code :: string
  py_Name :: string
  py_LegalName :: string
  py_TaxID :: string
  py_Status :: string
  py_Metadata :: gomap
  py_Roles :: "PartyRole list"
  py_CreatedAt :: gotime
  py_UpdatedAt :: gotime

fun has_role_loop :: "PartyRole list \<Rightarrow> string \<Rightarrow> bool" where
  "has_role_loop [] roleType = False"
| "has_role_loop (r # rs) roleType =
     (if rl_RoleType r = roleType \<and> rl_Status r = StatusActive_party then True else has_role_loop rs roleType)"

definition HasRole :: "Party \<Rightarrow> string \<Rightarrow> bool" where
  "HasRole p roleType = has_role_loop (py_Roles p) roleType"

record PartyFilter =
  yf_Type :: "string option"
  yf_RoleType :: "string option"
  yf_Limit :: int32
  yf_Offset :: int32

record Address =
  ad_ID :: ID
  ad_TenantID :: ID
  ad_Type :: string
  ad_Label :: string
  ad_Line1 :: string
  ad_Line2 :: string
  ad_City :: string
  ad_State :: string
  ad_PostalCode :: string
  ad_CountryCode :: string
  ad_Latitude :: "float64 option"
  ad_Longitude :: "float64 option"
  ad_IsPrimary :: bool
  ad_CreatedAt :: gotime
  ad_UpdatedAt :: gotime

record Contact =
  co_ID :: ID
  co_TenantID :: ID
  co_PartyID :: "ID option"
  co_OrganizationID :: "ID option"
  co_Type :: string
  co_Value :: string
  co_Label :: string
  co_IsPrimary :: bool
  co_VerifiedAt :: "gotime option"
  co_CreatedAt :: gotime
  co_UpdatedAt :: gotime

section \<open>Statements on parties and roles\<close>

text \<open>The code is unique in the tenant when there is one.\<close>

definition party_clash :: "party_row \<Rightarrow> party_row \<Rightarrow> bool" where
  "party_clash r s \<longleftrightarrow> pr_id r = pr_id s \<or> pr_code r \<noteq> None \<and> pr_tenant_id r = pr_tenant_id s \<and> pr_code r = pr_code s"

definition sql_CreateParty :: "party_row \<Rightarrow> int \<Rightarrow> db \<Rightarrow> party_row res \<times> db" where
  "sql_CreateParty r t d =
     (case insert_row party_clash (pr_id r \<noteq> NilID \<and> pr_tenant_id r \<noteq> NilID) r (t_parties d)
      of (x, rs) \<Rightarrow> (x, d\<lparr>t_parties := rs\<rparr>))"

definition own_party :: "ID \<Rightarrow> ID \<Rightarrow> party_row \<Rightarrow> bool" where
  "own_party tenantID i r \<longleftrightarrow> pg_eq (pr_tenant_id r) tenantID \<and> pg_eq (pr_id r) i"

definition sql_GetPartyByID :: "ID \<Rightarrow> ID \<Rightarrow> db \<Rightarrow> party_row res" where
  "sql_GetPartyByID tenantID i d = select_one (own_party tenantID i) (t_parties d)"

definition party_match :: "ID \<Rightarrow> string option \<Rightarrow> party_row \<Rightarrow> bool" where
  "party_match tenantID ty r \<longleftrightarrow> pg_eq (pr_tenant_id r) tenantID \<and> opt_match ty (pr_type r)"

definition sql_ListParties :: "ID \<Rightarrow> string option \<Rightarrow> int \<Rightarrow> int \<Rightarrow> db \<Rightarrow> party_row list" where
  "sql_ListParties tenantID ty l k d =
     limit_offset l k (sort_key (\<lambda>r. - pr_created_at r) (filter (party_match tenantID ty) (t_parties d)))"

definition sql_CountParties :: "ID \<Rightarrow> string option \<Rightarrow> db \<Rightarrow> int" where
  "sql_CountParties tenantID ty d = int (length (filter (party_match tenantID ty) (t_parties d)))"

text \<open>One row for every active role of the type.\<close>

definition role_match :: "string \<Rightarrow> party_row \<Rightarrow> party_role_row \<Rightarrow> bool" where
  "role_match roleType p r \<longleftrightarrow>
     prr_party_id r = pr_id p \<and> prr_tenant_id r = pr_tenant_id p \<and> prr_role_type r = roleType \<and> prr_status r = ''active''"

definition parties_by_role :: "ID \<Rightarrow> string \<Rightarrow> db \<Rightarrow> party_row list" where
  "parties_by_role tenantID roleType d =
     concat (map (\<lambda>p. map (\<lambda>_. p) (filter (role_match roleType p) (t_party_roles d)))
       (filter (\<lambda>p. pg_eq (pr_tenant_id p) tenantID) (t_parties d)))"

definition sql_ListPartiesByRole :: "ID \<Rightarrow> string \<Rightarrow> int \<Rightarrow> int \<Rightarrow> db \<Rightarrow> party_row list" where
  "sql_ListPartiesByRole tenantID roleType l k d =
     limit_offset l k (sort_key (\<lambda>r. - pr_created_at r) (parties_by_role tenantID roleType d))"

definition sql_CountPartiesByRole :: "ID \<Rightarrow> string \<Rightarrow> db \<Rightarrow> int" where
  "sql_CountPartiesByRole tenantID roleType d = int (length (remdups (map pr_id (parties_by_role tenantID roleType d))))"

record UpdatePartyParams =
  yp_TenantID :: ID
  yp_ID :: ID
  yp_Name :: "string option"
  yp_LegalName :: "string option"
  yp_TaxID :: "string option"
  yp_Status :: "string option"
  yp_Metadata :: "json option"

definition party_set :: "UpdatePartyParams \<Rightarrow> int \<Rightarrow> party_row \<Rightarrow> party_row" where
  "party_set a t r =
     r\<lparr>pr_name := coalesce (yp_Name a) (pr_name r), pr_legal_name := coalesce_null (yp_LegalName a) (pr_legal_name r),
       pr_tax_id := coalesce_null (yp_TaxID a) (pr_tax_id r), pr_status := coalesce (yp_Status a) (pr_status r),
       pr_metadata := coalesce (yp_Metadata a) (pr_metadata r), pr_updated_at := t\<rparr>"

definition sql_UpdateParty :: "UpdatePartyParams \<Rightarrow> int \<Rightarrow> db \<Rightarrow> party_row res \<times> db" where
  "sql_UpdateParty a t d =
     (case update_returning (own_party (yp_TenantID a) (yp_ID a)) (party_set a t) (t_parties d)
      of (x, rs) \<Rightarrow> (x, d\<lparr>t_parties := rs\<rparr>))"

definition has_party :: "db \<Rightarrow> ID \<Rightarrow> bool" where
  "has_party d i \<longleftrightarrow> i \<noteq> NilID \<and> i \<in> pr_id ` set (t_parties d)"

definition organization_exists :: "db \<Rightarrow> ID option \<Rightarrow> bool" where
  "organization_exists d o1 \<longleftrightarrow> (case o1 of None \<Rightarrow> True | Some i \<Rightarrow> i \<in> or_id ` set (t_organizations d))"

text \<open>The unique index reads a missing organization as the nil identifier.\<close>

definition role_row_clash :: "party_role_row \<Rightarrow> party_role_row \<Rightarrow> bool" where
  "role_row_clash r s \<longleftrightarrow> prr_id r = prr_id s \<or>
     prr_tenant_id r = prr_tenant_id s \<and> prr_party_id r = prr_party_id s \<and> prr_role_type r = prr_role_type s \<and>
     FromPgUUID (prr_organization_id r) = FromPgUUID (prr_organization_id s)"

definition sql_CreatePartyRole :: "party_role_row \<Rightarrow> int \<Rightarrow> db \<Rightarrow> party_role_row res \<times> db" where
  "sql_CreatePartyRole r t d =
     (case insert_row role_row_clash
        (prr_id r \<noteq> NilID \<and> prr_tenant_id r \<noteq> NilID \<and> has_party d (prr_party_id r) \<and> organization_exists d (prr_organization_id r))
        r (t_party_roles d) of (x, rs) \<Rightarrow> (x, d\<lparr>t_party_roles := rs\<rparr>))"

definition sql_ListRolesByPartyID :: "ID \<Rightarrow> ID \<Rightarrow> db \<Rightarrow> party_role_row list" where
  "sql_ListRolesByPartyID tenantID partyID d =
     sort_key prr_created_at (filter (\<lambda>r. pg_eq (prr_tenant_id r) tenantID \<and> pg_eq (prr_party_id r) partyID) (t_party_roles d))"

definition sql_DeletePartyRole :: "ID \<Rightarrow> ID \<Rightarrow> int \<Rightarrow> db \<Rightarrow> unit res \<times> db" where
  "sql_DeletePartyRole tenantID i t d =
     (Ret (), d\<lparr>t_party_roles := filter (\<lambda>r. \<not> (pg_eq (prr_tenant_id r) tenantID \<and> pg_eq (prr_id r) i)) (t_party_roles d)\<rparr>)"

section \<open>Statements on addresses and contacts\<close>

text \<open>\<open>DECIMAL(10, 8)\<close> and \<open>DECIMAL(11, 8)\<close>: eight decimals; a number out of range is refused by the server.\<close>

definition sql_CreateAddress :: "address_row \<Rightarrow> int \<Rightarrow> db \<Rightarrow> address_row res \<times> db" where
  "sql_CreateAddress r0 t d =
     (let r = r0\<lparr>adr_latitude := map_option (decimal 8) (adr_latitude r0), adr_longitude := map_option (decimal 8) (adr_longitude r0)\<rparr>
      in case insert_row (\<lambda>x y. adr_id x = adr_id y) (adr_id r \<noteq> NilID \<and> adr_tenant_id r \<noteq> NilID) r (t_addresses d)
         of (x, rs) \<Rightarrow> (x, d\<lparr>t_addresses := rs\<rparr>))"

definition sql_GetAddressByID :: "ID \<Rightarrow> ID \<Rightarrow> db \<Rightarrow> address_row res" where
  "sql_GetAddressByID tenantID i d = select_one (\<lambda>r. pg_eq (adr_tenant_id r) tenantID \<and> pg_eq (adr_id r) i) (t_addresses d)"

definition has_address :: "db \<Rightarrow> ID \<Rightarrow> bool" where
  "has_address d i \<longleftrightarrow> i \<noteq> NilID \<and> i \<in> adr_id ` set (t_addresses d)"

definition same_link :: "address_link_row \<Rightarrow> address_link_row \<Rightarrow> bool" where
  "same_link r s \<longleftrightarrow> alr_owner_id r = alr_owner_id s \<and> alr_address_id r = alr_address_id s \<and> alr_address_type r = alr_address_type s"

text \<open>\<open>ON CONFLICT (...) DO UPDATE SET is_primary = EXCLUDED.is_primary\<close>\<close>

definition link_rows :: "address_link_row \<Rightarrow> address_link_row list \<Rightarrow> address_link_row list" where
  "link_rows r rs =
     (if list_ex (same_link r) rs then update_rows (same_link r) (\<lambda>x. x\<lparr>alr_is_primary := alr_is_primary r\<rparr>) rs else rs @ [r])"

definition sql_LinkPartyAddress :: "address_link_row \<Rightarrow> int \<Rightarrow> db \<Rightarrow> unit res \<times> db" where
  "sql_LinkPartyAddress r t d =
     (if alr_tenant_id r \<noteq> NilID \<and> has_party d (alr_owner_id r) \<and> has_address d (alr_address_id r)
      then (Ret (), d\<lparr>t_party_addresses := link_rows r (t_party_addresses d)\<rparr>)
      else (Fail (Opaque ''foreign key constraint''), d))"

definition sql_LinkOrganizationAddress :: "address_link_row \<Rightarrow> int \<Rightarrow> db \<Rightarrow> unit res \<times> db" where
  "sql_LinkOrganizationAddress r t d =
     (if alr_tenant_id r \<noteq> NilID \<and> organization_exists d (Some (alr_owner_id r)) \<and> has_address d (alr_address_id r)
      then (Ret (), d\<lparr>t_organization_addresses := link_rows r (t_organization_addresses d)\<rparr>)
      else (Fail (Opaque ''foreign key constraint''), d))"

text \<open>\<open>ORDER BY is_primary DESC, created_at DESC\<close> over the join of the addresses with their links.\<close>

definition linked_addresses :: "ID \<Rightarrow> ID \<Rightarrow> address_link_row list \<Rightarrow> db \<Rightarrow> (address_row \<times> address_link_row) list" where
  "linked_addresses tenantID owner links d =
     sort_key (\<lambda>(a, l). \<not> alr_is_primary l) (sort_key (\<lambda>(a, l). - adr_created_at a)
       (concat (map (\<lambda>a. map (\<lambda>l. (a, l))
           (filter (\<lambda>l. alr_address_id l = adr_id a \<and> alr_tenant_id l = adr_tenant_id a \<and> pg_eq (alr_owner_id l) owner) links))
         (filter (\<lambda>a. pg_eq (adr_tenant_id a) tenantID) (t_addresses d)))))"

definition sql_ListPartyAddresses :: "ID \<Rightarrow> ID \<Rightarrow> db \<Rightarrow> (address_row \<times> address_link_row) list" where
  "sql_ListPartyAddresses tenantID partyID d = linked_addresses tenantID partyID (t_party_addresses d) d"

definition sql_ListOrganizationAddresses :: "ID \<Rightarrow> ID \<Rightarrow> db \<Rightarrow> (address_row \<times> address_link_row) list" where
  "sql_ListOrganizationAddresses tenantID orgID d = linked_addresses tenantID orgID (t_organization_addresses d) d"

text \<open>A contact has an owner (\<open>chk_contacts_owner\<close>).\<close>

definition sql_CreateContact :: "contact_row \<Rightarrow> int \<Rightarrow> db \<Rightarrow> contact_row res \<times> db" where
  "sql_CreateContact r t d =
     (case insert_row (\<lambda>x y. ctr_id x = ctr_id y)
        (ctr_id r \<noteq> NilID \<and> ctr_tenant_id r \<noteq> NilID \<and> (ctr_party_id r \<noteq> None \<or> ctr_organization_id r \<noteq> None) \<and>
         (case ctr_party_id r of None \<Rightarrow> True | Some i \<Rightarrow> has_party d i) \<and> organization_exists d (ctr_organization_id r))
        r (t_contacts d) of (x, rs) \<Rightarrow> (x, d\<lparr>t_contacts := rs\<rparr>))"

definition sorted_contacts :: "contact_row list \<Rightarrow> contact_row list" where
  "sorted_contacts rs = sort_key (\<lambda>r. \<not> ctr_is_primary r) (sort_key ctr_created_at rs)"

definition sql_ListPartyContacts :: "ID \<Rightarrow> ID \<Rightarrow> db \<Rightarrow> contact_row list" where
  "sql_ListPartyContacts tenantID partyID d =
     sorted_contacts (filter (\<lambda>r. pg_eq (ctr_tenant_id r) tenantID \<and> partyID \<noteq> NilID \<and> ctr_party_id r = Some partyID) (t_contacts d))"

definition sql_ListOrganizationContacts :: "ID \<Rightarrow> ID \<Rightarrow> db \<Rightarrow> contact_row list" where
  "sql_ListOrganizationContacts tenantID orgID d =
     sorted_contacts (filter (\<lambda>r. pg_eq (ctr_tenant_id r) tenantID \<and> orgID \<noteq> NilID \<and> ctr_organization_id r = Some orgID) (t_contacts d))"

definition sql_DeleteContact :: "ID \<Rightarrow> ID \<Rightarrow> int \<Rightarrow> db \<Rightarrow> unit res \<times> db" where
  "sql_DeleteContact tenantID i t d =
     (Ret (), d\<lparr>t_contacts := filter (\<lambda>r. \<not> (pg_eq (ctr_tenant_id r) tenantID \<and> pg_eq (ctr_id r) i)) (t_contacts d)\<rparr>)"

section \<open>Repository of parties\<close>

definition party_row_of :: "Party \<Rightarrow> party_row" where
  "party_row_of p =
     \<lparr>pr_id = py_ID p, pr_tenant_id = py_TenantID p, pr_type = py_Type p, pr_code = ptr_of_str (py_Code p), pr_name = py_Name p,
      pr_legal_name = ptr_of_str (py_LegalName p), pr_tax_id = ptr_of_str (py_TaxID p), pr_status = py_Status p,
      pr_metadata = json_of_map (py_Metadata p), pr_created_at = to_micro (py_CreatedAt p), pr_updated_at = to_micro (py_UpdatedAt p)\<rparr>"

definition toDomainParty :: "(int \<Rightarrow> int) \<Rightarrow> party_row \<Rightarrow> Party" where
  "toDomainParty lo row =
     \<lparr>py_ID = pr_id row, py_TenantID = pr_tenant_id row, py_Type = pr_type row, py_Code = str_of_ptr (pr_code row),
      py_Name = pr_name row, py_LegalName = str_of_ptr (pr_legal_name row), py_TaxID = str_of_ptr (pr_tax_id row),
      py_Status = pr_status row, py_Metadata = or_empty (map_of_json (pr_metadata row)), py_Roles = [],
      py_CreatedAt = ts_local lo (pr_created_at row), py_UpdatedAt = ts_local lo (pr_updated_at row)\<rparr>"

definition toDomainRole :: "(int \<Rightarrow> int) \<Rightarrow> party_role_row \<Rightarrow> PartyRole" where
  "toDomainRole lo row =
     \<lparr>rl_ID = prr_id row, rl_TenantID = prr_tenant_id row, rl_PartyID = prr_party_id row,
      rl_OrganizationID = prr_organization_id row, rl_RoleType = prr_role_type row, rl_Status = prr_status row,
      rl_CreatedAt = ts_local lo (prr_created_at row), rl_UpdatedAt = ts_local lo (prr_updated_at row)\<rparr>"

definition party_repo_Create :: "ctx \<Rightarrow> Party \<Rightarrow> Party dbproc" where
  "party_repo_Create c p = read_with toDomainParty (stmt (pool_ctx c) (sql_CreateParty (party_row_of p)))"

definition party_repo_ListRoles :: "ctx \<Rightarrow> ID \<Rightarrow> ID \<Rightarrow> PartyRole list dbproc" where
  "party_repo_ListRoles c tenantID partyID =
     read_with (\<lambda>lo. map (toDomainRole lo)) (query (pool_ctx c) (\<lambda>d. Ret (sql_ListRolesByPartyID tenantID partyID d)))"

definition party_repo_GetByID :: "ctx \<Rightarrow> ID \<Rightarrow> ID \<Rightarrow> Party dbproc" where
  "party_repo_GetByID c tenantID i =
     bindP (read_with toDomainParty (norows_notfound (query (pool_ctx c) (sql_GetPartyByID tenantID i)))) (\<lambda>p.
     bindP (party_repo_ListRoles c tenantID i) (\<lambda>roles. ret (p\<lparr>py_Roles := roles\<rparr>)))"

definition party_repo_List :: "ctx \<Rightarrow> ID \<Rightarrow> PartyFilter \<Rightarrow> (Party list \<times> int) dbproc" where
  "party_repo_List c tenantID f =
     (let l = max (sint (yf_Limit f)) 20; k = max (sint (yf_Offset f)) 0
      in case yf_RoleType f of
        Some roleType \<Rightarrow>
          bindP (query (pool_ctx c) (\<lambda>d. Ret (sql_CountPartiesByRole tenantID roleType d))) (\<lambda>n.
          bindP (read_with (\<lambda>lo. map (toDomainParty lo))
            (query (pool_ctx c) (\<lambda>d. Ret (sql_ListPartiesByRole tenantID roleType l k d)))) (\<lambda>ps. ret (ps, n)))
      | None \<Rightarrow>
          bindP (query (pool_ctx c) (\<lambda>d. Ret (sql_CountParties tenantID (yf_Type f) d))) (\<lambda>n.
          bindP (read_with (\<lambda>lo. map (toDomainParty lo))
            (query (pool_ctx c) (\<lambda>d. Ret (sql_ListParties tenantID (yf_Type f) l k d)))) (\<lambda>ps. ret (ps, n))))"

definition party_params :: "Party \<Rightarrow> UpdatePartyParams" where
  "party_params p =
     \<lparr>yp_TenantID = py_TenantID p, yp_ID = py_ID p, yp_Name = Some (py_Name p), yp_LegalName = ptr_of_str (py_LegalName p),
      yp_TaxID = ptr_of_str (py_TaxID p), yp_Status = Some (py_Status p),
      yp_Metadata = (case py_Metadata p of None \<Rightarrow> None | Some kvs \<Rightarrow> Some (JObj kvs))\<rparr>"

definition party_repo_Update :: "ctx \<Rightarrow> Party \<Rightarrow> Party dbproc" where
  "party_repo_Update c p =
     read_with toDomainParty (norows_notfound (stmt (pool_ctx c) (sql_UpdateParty (party_params p))))"

definition role_row_of_role :: "PartyRole \<Rightarrow> party_role_row" where
  "role_row_of_role r =
     \<lparr>prr_id = rl_ID r, prr_tenant_id = rl_TenantID r, prr_party_id = rl_PartyID r,
      prr_organization_id = id_of_ptr (rl_OrganizationID r), prr_role_type = rl_RoleType r, prr_status = rl_Status r,
      prr_created_at = to_micro (rl_CreatedAt r), prr_updated_at = to_micro (rl_UpdatedAt r)\<rparr>"

definition party_repo_AddRole :: "ctx \<Rightarrow> PartyRole \<Rightarrow> PartyRole dbproc" where
  "party_repo_AddRole c r = read_with toDomainRole (stmt (pool_ctx c) (sql_CreatePartyRole (role_row_of_role r)))"

definition party_repo_RemoveRole :: "ctx \<Rightarrow> ID \<Rightarrow> ID \<Rightarrow> unit dbproc" where
  "party_repo_RemoveRole c tenantID roleID = stmt (pool_ctx c) (sql_DeletePartyRole tenantID roleID)"

section \<open>Repository of addresses and contacts\<close>

definition float_numeric :: "float64 option \<Rightarrow> pgnumeric option" where
  "float_numeric f = (case f of None \<Rightarrow> None | Some x \<Rightarrow> floatToNumeric x)"

definition address_row_of :: "Address \<Rightarrow> address_row" where
  "address_row_of a =
     \<lparr>adr_id = ad_ID a, adr_tenant_id = ad_TenantID a, adr_type = ad_Type a, adr_label = ptr_of_str (ad_Label a),
      adr_line1 = ad_Line1 a, adr_line2 = ptr_of_str (ad_Line2 a), adr_city = ad_City a, adr_state = ptr_of_str (ad_State a),
      adr_postal_code = ptr_of_str (ad_PostalCode a), adr_country_code = ad_CountryCode a,
      adr_latitude = float_numeric (ad_Latitude a), adr_longitude = float_numeric (ad_Longitude a),
      adr_created_at = to_micro (ad_CreatedAt a), adr_updated_at = to_micro (ad_UpdatedAt a)\<rparr>"

definition toDomainAddress :: "(int \<Rightarrow> int) \<Rightarrow> address_row \<Rightarrow> Address" where
  "toDomainAddress lo row =
     \<lparr>ad_ID = adr_id row, ad_TenantID = adr_tenant_id row, ad_Type = adr_type row, ad_Label = str_of_ptr (adr_label row),
      ad_Line1 = adr_line1 row, ad_Line2 = str_of_ptr (adr_line2 row), ad_City = adr_city row,
      ad_State = str_of_ptr (adr_state row), ad_PostalCode = str_of_ptr (adr_postal_code row),
      ad_CountryCode = adr_country_code row, ad_Latitude = map_option numericToFloat (adr_latitude row),
      ad_Longitude = map_option numericToFloat (adr_longitude row), ad_IsPrimary = False,
      ad_CreatedAt = ts_local lo (adr_created_at row), ad_UpdatedAt = ts_local lo (adr_updated_at row)\<rparr>"

definition linked_address :: "(int \<Rightarrow> int) \<Rightarrow> address_row \<times> address_link_row \<Rightarrow> Address" where
  "linked_address lo = (\<lambda>(a, l). (toDomainAddress lo a)\<lparr>ad_IsPrimary := alr_is_primary l\<rparr>)"

definition contact_repo_CreateAddress :: "ctx \<Rightarrow> Address \<Rightarrow> Address dbproc" where
  "contact_repo_CreateAddress c a = read_with toDomainAddress (stmt (pool_ctx c) (sql_CreateAddress (address_row_of a)))"

definition contact_repo_GetAddressByID :: "ctx \<Rightarrow> ID \<Rightarrow> ID \<Rightarrow> Address dbproc" where
  "contact_repo_GetAddressByID c tenantID i =
     read_with toDomainAddress (norows_notfound (query (pool_ctx c) (sql_GetAddressByID tenantID i)))"

definition new_link :: "gotime \<Rightarrow> ID \<Rightarrow> ID \<Rightarrow> ID \<Rightarrow> string \<Rightarrow> bool \<Rightarrow> address_link_row" where
  "new_link now tenantID owner addressID addressType isPrimary =
     \<lparr>alr_tenant_id = tenantID, alr_owner_id = owner, alr_address_id = addressID, alr_address_type = addressType,
      alr_is_primary = isPrimary, alr_created_at = to_micro now\<rparr>"

definition contact_repo_LinkPartyAddress :: "ctx \<Rightarrow> ID \<Rightarrow> ID \<Rightarrow> ID \<Rightarrow> string \<Rightarrow> bool \<Rightarrow> unit dbproc" where
  "contact_repo_LinkPartyAddress c tenantID partyID addressID addressType isPrimary =
     bindP Now (\<lambda>now. stmt (pool_ctx c) (sql_LinkPartyAddress (new_link now tenantID partyID addressID addressType isPrimary)))"

definition contact_repo_LinkOrganizationAddress :: "ctx \<Rightarrow> ID \<Rightarrow> ID \<Rightarrow> ID \<Rightarrow> string \<Rightarrow> bool \<Rightarrow> unit dbproc" where
  "contact_repo_LinkOrganizationAddress c tenantID orgID addressID addressType isPrimary =
     bindP Now (\<lambda>now. stmt (pool_ctx c) (sql_LinkOrganizationAddress (new_link now tenantID orgID addressID addressType isPrimary)))"

definition contact_repo_ListPartyAddresses :: "ctx \<Rightarrow> ID \<Rightarrow> ID \<Rightarrow> Address list dbproc" where
  "contact_repo_ListPartyAddresses c tenantID partyID =
     read_with (\<lambda>lo. map (linked_address lo)) (query (pool_ctx c) (\<lambda>d. Ret (sql_ListPartyAddresses tenantID partyID d)))"

definition contact_repo_ListOrganizationAddresses :: "ctx \<Rightarrow> ID \<Rightarrow> ID \<Rightarrow> Address list dbproc" where
  "contact_repo_ListOrganizationAddresses c tenantID orgID =
     read_with (\<lambda>lo. map (linked_address lo)) (query (pool_ctx c) (\<lambda>d. Ret (sql_ListOrganizationAddresses tenantID orgID d)))"

definition contact_row_of :: "Contact \<Rightarrow> contact_row" where
  "contact_row_of x =
     \<lparr>ctr_id = co_ID x, ctr_tenant_id = co_TenantID x, ctr_party_id = id_of_ptr (co_PartyID x),
      ctr_organization_id = id_of_ptr (co_OrganizationID x), ctr_type = co_Type x, ctr_value = co_Value x,
      ctr_label = ptr_of_str (co_Label x), ctr_is_primary = co_IsPrimary x, ctr_verified_at = map_option to_micro (co_VerifiedAt x),
      ctr_created_at = to_micro (co_CreatedAt x), ctr_updated_at = to_micro (co_UpdatedAt x)\<rparr>"

definition toDomainContact :: "(int \<Rightarrow> int) \<Rightarrow> contact_row \<Rightarrow> Contact" where
  "toDomainContact lo row =
     \<lparr>co_ID = ctr_id row, co_TenantID = ctr_tenant_id row, co_PartyID = ctr_party_id row,
      co_OrganizationID = ctr_organization_id row, co_Type = ctr_type row, co_Value = ctr_value row,
      co_Label = str_of_ptr (ctr_label row), co_IsPrimary = ctr_is_primary row,
      co_VerifiedAt = map_option (ts_local lo) (ctr_verified_at row),
      co_CreatedAt = ts_local lo (ctr_created_at row), co_UpdatedAt = ts_local lo (ctr_updated_at row)\<rparr>"

definition contact_repo_CreateContact :: "ctx \<Rightarrow> Contact \<Rightarrow> Contact dbproc" where
  "contact_repo_CreateContact c x = read_with toDomainContact (stmt (pool_ctx c) (sql_CreateContact (contact_row_of x)))"

definition contact_repo_ListPartyContacts :: "ctx \<Rightarrow> ID \<Rightarrow> ID \<Rightarrow> Contact list dbproc" where
  "contact_repo_ListPartyContacts c tenantID partyID =
     read_with (\<lambda>lo. map (toDomainContact lo)) (query (pool_ctx c) (\<lambda>d. Ret (sql_ListPartyContacts tenantID partyID d)))"

definition contact_repo_ListOrganizationContacts :: "ctx \<Rightarrow> ID \<Rightarrow> ID \<Rightarrow> Contact list dbproc" where
  "contact_repo_ListOrganizationContacts c tenantID orgID =
     read_with (\<lambda>lo. map (toDomainContact lo)) (query (pool_ctx c) (\<lambda>d. Ret (sql_ListOrganizationContacts tenantID orgID d)))"

definition contact_repo_DeleteContact :: "ctx \<Rightarrow> ID \<Rightarrow> ID \<Rightarrow> unit dbproc" where
  "contact_repo_DeleteContact c tenantID i = stmt (pool_ctx c) (sql_DeleteContact tenantID i)"

section \<open>Use case\<close>

record CreatePartyCommand =
  cy_Type :: string
  cy_Code :: string
  cy_Name :: string
  cy_LegalName :: string
  cy_TaxID :: string
  cy_Metadata :: gomap
  cy_InitialRoles :: "string list"

record UpdatePartyCommand =
  uy_ID :: ID
  uy_Name :: string
  uy_LegalName :: string
  uy_TaxID :: string
  uy_Status :: string
  uy_Metadata :: gomap

record AddRoleCommand =
  ar_PartyID :: ID
  ar_OrganizationID :: "ID option"
  ar_RoleType :: string

record AddAddressCommand =
  aa_Type :: string
  aa_Label :: string
  aa_Line1 :: string
  aa_Line2 :: string
  aa_City :: string
  aa_State :: string
  aa_PostalCode :: string
  aa_CountryCode :: string
  aa_IsPrimary :: bool

record AddContactCommand =
  ak_Type :: string
  ak_Value :: string
  ak_Label :: string
  ak_IsPrimary :: bool

record PartyDetail =
  dt_Party :: Party
  dt_Addresses :: "Address list"
  dt_Contacts :: "Contact list"

definition new_role :: "ID \<Rightarrow> ID \<Rightarrow> ID \<Rightarrow> ID option \<Rightarrow> string \<Rightarrow> gotime \<Rightarrow> PartyRole" where
  "new_role i tenantID partyID orgID roleType now =
     \<lparr>rl_ID = i, rl_TenantID = tenantID, rl_PartyID = partyID, rl_OrganizationID = orgID, rl_RoleType = roleType,
      rl_Status = StatusActive_party, rl_CreatedAt = now, rl_UpdatedAt = now\<rparr>"

text \<open>The initial roles: a fresh identifier that could not be made is the nil one, and a role that is not stored is left out.\<close>

definition fresh_or_nil :: "ID dbproc" where
  "fresh_or_nil = bindP (tryP NewID) (\<lambda>r. ret (case r of Ret i \<Rightarrow> i | _ \<Rightarrow> NilID))"

fun add_initial_roles :: "ctx \<Rightarrow> ID \<Rightarrow> gotime \<Rightarrow> Party \<Rightarrow> string list \<Rightarrow> Party dbproc" where
  "add_initial_roles c tenantID now p [] = ret p"
| "add_initial_roles c tenantID now p (roleType # rest) =
     bindP fresh_or_nil (\<lambda>roleID.
     bindP (tryP (party_repo_AddRole c (new_role roleID tenantID (py_ID p) None roleType now))) (\<lambda>r.
     add_initial_roles c tenantID now (case r of Ret role \<Rightarrow> p\<lparr>py_Roles := py_Roles p @ [role]\<rparr> | _ \<Rightarrow> p) rest))"

definition new_party :: "ID \<Rightarrow> ID \<Rightarrow> CreatePartyCommand \<Rightarrow> gotime \<Rightarrow> Party" where
  "new_party i tenantID cmd now =
     \<lparr>py_ID = i, py_TenantID = tenantID, py_Type = (if cy_Type cmd = [] then TypeOrganization_party else cy_Type cmd),
      py_Code = TrimSpace (cy_Code cmd), py_Name = TrimSpace (cy_Name cmd), py_LegalName = TrimSpace (cy_LegalName cmd),
      py_TaxID = TrimSpace (cy_TaxID cmd), py_Status = StatusActive_party, py_Metadata = or_empty (cy_Metadata cmd),
      py_Roles = [], py_CreatedAt = now, py_UpdatedAt = now\<rparr>"

definition CreateParty :: "ctx \<Rightarrow> CreatePartyCommand \<Rightarrow> Party dbproc" where
  "CreateParty c cmd =
     bindP (lift_res (RequireTenantID c)) (\<lambda>tenantID.
     bindP (guard (TrimSpace (cy_Name cmd) \<noteq> []) (Wrapped ''party name is required'' ErrInvalidInput)) (\<lambda>_.
     bindP NewID (\<lambda>i.
     bindP Now (\<lambda>now.
     bindP (party_repo_Create c (new_party i tenantID cmd now)) (\<lambda>p.
     add_initial_roles c tenantID now p (cy_InitialRoles cmd))))))"

definition GetParty :: "ctx \<Rightarrow> ID \<Rightarrow> PartyDetail dbproc" where
  "GetParty c i =
     bindP (lift_res (RequireTenantID c)) (\<lambda>tenantID.
     bindP (party_repo_GetByID c tenantID i) (\<lambda>p.
     bindP (contact_repo_ListPartyAddresses c tenantID i) (\<lambda>addresses.
     bindP (contact_repo_ListPartyContacts c tenantID i) (\<lambda>contacts.
     ret \<lparr>dt_Party = p, dt_Addresses = addresses, dt_Contacts = contacts\<rparr>))))"

definition ListParties :: "ctx \<Rightarrow> int32 \<Rightarrow> int32 \<Rightarrow> string option \<Rightarrow> string option \<Rightarrow> Party list_result dbproc" where
  "ListParties c page0 pageSize0 partyType roleType =
     bindP (lift_res (RequireTenantID c)) (\<lambda>tenantID.
     case page_params page0 pageSize0 of (page, pageSize, offset) \<Rightarrow>
     bindP (party_repo_List c tenantID
       \<lparr>yf_Type = partyType, yf_RoleType = roleType, yf_Limit = pageSize, yf_Offset = offset\<rparr>) (\<lambda>(items, n).
     ret \<lparr>lres_Items = items, lres_Total = n, lres_Page = page, lres_PageSize = pageSize\<rparr>))"

definition apply_party_update :: "UpdatePartyCommand \<Rightarrow> gotime \<Rightarrow> Party \<Rightarrow> Party" where
  "apply_party_update cmd now p =
     p\<lparr>py_Name := (if uy_Name cmd \<noteq> [] then TrimSpace (uy_Name cmd) else py_Name p),
       py_LegalName := (if uy_LegalName cmd \<noteq> [] then TrimSpace (uy_LegalName cmd) else py_LegalName p),
       py_TaxID := (if uy_TaxID cmd \<noteq> [] then TrimSpace (uy_TaxID cmd) else py_TaxID p),
       py_Status := (if uy_Status cmd \<noteq> [] then uy_Status cmd else py_Status p),
       py_Metadata := (if uy_Metadata cmd \<noteq> None then uy_Metadata cmd else py_Metadata p),
       py_UpdatedAt := now\<rparr>"

definition UpdateParty :: "ctx \<Rightarrow> UpdatePartyCommand \<Rightarrow> Party dbproc" where
  "UpdateParty c cmd =
     bindP (lift_res (RequireTenantID c)) (\<lambda>tenantID.
     bindP (party_repo_GetByID c tenantID (uy_ID cmd)) (\<lambda>p.
     bindP Now (\<lambda>now.
     party_repo_Update c (apply_party_update cmd now p))))"

definition AddRole :: "ctx \<Rightarrow> AddRoleCommand \<Rightarrow> PartyRole dbproc" where
  "AddRole c cmd =
     bindP (lift_res (RequireTenantID c)) (\<lambda>tenantID.
     bindP (party_repo_GetByID c tenantID (ar_PartyID cmd)) (\<lambda>_.
     bindP NewID (\<lambda>roleID.
     bindP Now (\<lambda>now.
     party_repo_AddRole c (new_role roleID tenantID (ar_PartyID cmd) (ar_OrganizationID cmd) (ar_RoleType cmd) now)))))"

definition RemoveRole :: "ctx \<Rightarrow> ID \<Rightarrow> unit dbproc" where
  "RemoveRole c roleID = bindP (lift_res (RequireTenantID c)) (\<lambda>tenantID. party_repo_RemoveRole c tenantID roleID)"

definition new_address :: "ID \<Rightarrow> ID \<Rightarrow> AddAddressCommand \<Rightarrow> gotime \<Rightarrow> Address" where
  "new_address i tenantID cmd now =
     (let cc = ToUpper (TrimSpace (aa_CountryCode cmd))
      in \<lparr>ad_ID = i, ad_TenantID = tenantID, ad_Type = aa_Type cmd, ad_Label = aa_Label cmd, ad_Line1 = aa_Line1 cmd,
          ad_Line2 = aa_Line2 cmd, ad_City = aa_City cmd, ad_State = aa_State cmd, ad_PostalCode = aa_PostalCode cmd,
          ad_CountryCode = (if cc = [] then ''ID'' else cc), ad_Latitude = None, ad_Longitude = None, ad_IsPrimary = False,
          ad_CreatedAt = now, ad_UpdatedAt = now\<rparr>)"

definition AddAddress :: "ctx \<Rightarrow> ID \<Rightarrow> AddAddressCommand \<Rightarrow> Address dbproc" where
  "AddAddress c partyID cmd =
     bindP (lift_res (RequireTenantID c)) (\<lambda>tenantID.
     bindP (party_repo_GetByID c tenantID partyID) (\<lambda>_.
     bindP NewID (\<lambda>addrID.
     bindP Now (\<lambda>now.
     bindP (contact_repo_CreateAddress c (new_address addrID tenantID cmd now)) (\<lambda>addr.
     bindP (contact_repo_LinkPartyAddress c tenantID partyID (ad_ID addr) (aa_Type cmd) (aa_IsPrimary cmd)) (\<lambda>_.
     ret (addr\<lparr>ad_IsPrimary := aa_IsPrimary cmd\<rparr>)))))))"

definition new_contact :: "ID \<Rightarrow> ID \<Rightarrow> ID \<Rightarrow> AddContactCommand \<Rightarrow> gotime \<Rightarrow> Contact" where
  "new_contact i tenantID partyID cmd now =
     \<lparr>co_ID = i, co_TenantID = tenantID, co_PartyID = Some partyID, co_OrganizationID = None, co_Type = ak_Type cmd,
      co_Value = ak_Value cmd, co_Label = ak_Label cmd, co_IsPrimary = ak_IsPrimary cmd, co_VerifiedAt = None,
      co_CreatedAt = now, co_UpdatedAt = now\<rparr>"

definition AddContact :: "ctx \<Rightarrow> ID \<Rightarrow> AddContactCommand \<Rightarrow> Contact dbproc" where
  "AddContact c partyID cmd =
     bindP (lift_res (RequireTenantID c)) (\<lambda>tenantID.
     bindP (party_repo_GetByID c tenantID partyID) (\<lambda>_.
     bindP NewID (\<lambda>contactID.
     bindP Now (\<lambda>now.
     contact_repo_CreateContact c (new_contact contactID tenantID partyID cmd now)))))"

end
