(* ===== verification/PartyProps.thy ===== *)
theory PartyProps
  imports Party
begin

text \<open>
  Runs of the party use cases: what was added to a party stays readable, and a profile shows the
  rows of its party and tenant and nothing else.
\<close>

section \<open>Profiles\<close>

lemma sorted_contacts_set [simp]: "set (sorted_contacts rs) = set rs"
  by (simp add: sorted_contacts_def)

lemma linked_addresses_set:
  "set (linked_addresses t i links d) =
     {(a, l). a \<in> set (t_addresses d) \<and> l \<in> set links \<and> pg_eq (adr_tenant_id a) t \<and> alr_address_id l = adr_id a \<and>
        alr_tenant_id l = adr_tenant_id a \<and> pg_eq (alr_owner_id l) i}"
  by (auto simp: linked_addresses_def)

definition profile_of :: "(int \<Rightarrow> int) \<Rightarrow> db \<Rightarrow> ID \<Rightarrow> ID \<Rightarrow> PartyDetail \<Rightarrow> bool" where
  "profile_of lo d t i pd \<longleftrightarrow>
     py_ID (dt_Party pd) = i \<and> py_TenantID (dt_Party pd) = t \<and>
     set (py_Roles (dt_Party pd)) =
       toDomainRole lo ` {r \<in> set (t_party_roles d). prr_tenant_id r = t \<and> prr_party_id r = i} \<and>
     set (dt_Addresses pd) =
       linked_address lo ` {(a, l). a \<in> set (t_addresses d) \<and> l \<in> set (t_party_addresses d) \<and> adr_tenant_id a = t \<and>
         alr_address_id l = adr_id a \<and> alr_tenant_id l = t \<and> alr_owner_id l = i} \<and>
     set (dt_Contacts pd) =
       toDomainContact lo ` {x \<in> set (t_contacts d). ctr_tenant_id x = t \<and> ctr_party_id x = Some i}"

lemmas party_reads = party_repo_GetByID_def party_repo_ListRoles_def contact_repo_ListPartyAddresses_def
  contact_repo_ListPartyContacts_def

lemma GetParty_answers:
  assumes "RequireTenantID c = Ret t" "p \<in> set (t_parties (wdb w))" "pr_id p = i" "pr_tenant_id p = t" "i \<noteq> NilID"
    and "\<And>n. fault_at e n = NoFault"
  obtains pd w' where "GetParty c i e w = (Ret pd, w')" "profile_of (local_off e) (wdb w) t i pd"
proof -
  have t: "t \<noteq> NilID" using assms(1) by (simp add: RequireTenantID_Ret_iff)
  have own: "own_party t i p" using assms t by (simp add: own_party_def pg_eq_def)
  then obtain q where q: "sql_GetPartyByID t i (wdb w) = Ret q"
    using assms(2) by (cases "find (own_party t i) (t_parties (wdb w))")
      (auto simp: sql_GetPartyByID_def select_one_def find_None_iff)
  then have "own_party t i q" using select_one_in by (fastforce simp: sql_GetPartyByID_def)
  then have qi: "pr_id q = i" "pr_tenant_id q = t" by (simp_all add: own_party_def pg_eq_def)
  let ?lo = "local_off e" and ?d = "wdb w"
  let ?pd = "\<lparr>dt_Party = (toDomainParty ?lo q)\<lparr>py_Roles := map (toDomainRole ?lo) (sql_ListRolesByPartyID t i ?d)\<rparr>,
     dt_Addresses = map (linked_address ?lo) (sql_ListPartyAddresses t i ?d),
     dt_Contacts = map (toDomainContact ?lo) (sql_ListPartyContacts t i ?d)\<rparr>"
  have "\<exists>w'. GetParty c i e w = (Ret ?pd, w')"
    by (simp add: GetParty_def party_reads read_with_def proc_eval assms(1,6) q)
  moreover have "profile_of ?lo ?d t i ?pd"
    using t assms(5)
    by (auto simp: profile_of_def toDomainParty_def qi sql_ListRolesByPartyID_def sql_ListPartyAddresses_def linked_addresses_set
        sql_ListPartyContacts_def pg_eq_def intro!: arg_cong [where f = "\<lambda>X. linked_address ?lo ` X"])
  ultimately show thesis using that by blast
qed

section \<open>Growth\<close>

text \<open>Parties keep their identity, addresses and contacts stay, links stay up to the flag and lead to addresses.\<close>

definition party_keys :: "db \<Rightarrow> (ID \<times> ID) set" where
  "party_keys d = set (map (\<lambda>p. (pr_id p, pr_tenant_id p)) (t_parties d))"

definition link_keys :: "db \<Rightarrow> address_link_row set" where
  "link_keys d = set (map (\<lambda>l. l\<lparr>alr_is_primary := True\<rparr>) (t_party_addresses d))"

definition links_ok :: "db \<Rightarrow> bool" where
  "links_ok d \<longleftrightarrow> (\<forall>l \<in> set (t_party_addresses d). alr_address_id l \<in> adr_id ` set (t_addresses d))"

definition party_grows :: "db \<Rightarrow> db \<Rightarrow> bool" where
  "party_grows d d' \<longleftrightarrow> (links_ok d \<longrightarrow> links_ok d') \<and> party_keys d \<subseteq> party_keys d' \<and> set (t_addresses d) \<subseteq> set (t_addresses d') \<and>
     set (t_contacts d) \<subseteq> set (t_contacts d') \<and> link_keys d \<subseteq> link_keys d'"

interpretation party_growth: db_order party_grows
  by unfold_locales (auto simp: party_grows_def)

lemma map_update_rows: "(\<And>x. key (f x) = key x) \<Longrightarrow> map key (update_rows p f rs) = map key rs"
  by (simp add: update_rows_def)

lemma party_statements_grow:
  "sql_CreateParty r1 t d = (Ret x1, d') \<Longrightarrow> party_grows d d'"
  "sql_CreatePartyRole r3 t d = (Ret x3, d') \<Longrightarrow> party_grows d d'"
  "sql_DeletePartyRole tid i t d = (Ret x4, d') \<Longrightarrow> party_grows d d'"
  "sql_CreateAddress r5 t d = (Ret x5, d') \<Longrightarrow> party_grows d d'"
  "sql_CreateContact r7 t d = (Ret x7, d') \<Longrightarrow> party_grows d d'"
  by (auto simp: party_grows_def party_keys_def link_keys_def links_ok_def sql_CreateParty_def sql_CreatePartyRole_def sql_DeletePartyRole_def
      sql_CreateAddress_def sql_CreateContact_def Let_def insert_row_Ret_iff split: prod.splits)

lemma update_party_grows:
  assumes "sql_UpdateParty r t d = (Ret x, d')"
  shows "party_grows d d'"
proof -
  have d': "d' = d\<lparr>t_parties := update_rows (own_party (yp_TenantID r) (yp_ID r)) (party_set r t) (t_parties d)\<rparr>"
    using assms by (auto simp: sql_UpdateParty_def update_returning_Ret_iff split: prod.splits)
  have "party_keys d' = party_keys d" by (simp add: party_keys_def d' map_update_rows party_set_def del: set_map)
  then show ?thesis by (simp add: party_grows_def link_keys_def links_ok_def d')
qed

lemma link_grows:
  assumes "sql_LinkPartyAddress r t d = (Ret x, d')"
  shows "party_grows d d'"
proof -
  have l: "t_party_addresses d' = link_rows r (t_party_addresses d)" and r: "alr_address_id r \<in> adr_id ` set (t_addresses d)"
    and same: "t_parties d' = t_parties d" "t_addresses d' = t_addresses d" "t_contacts d' = t_contacts d"
    using assms by (auto simp: sql_LinkPartyAddress_def has_address_def split: if_splits)
  have "link_keys d \<subseteq> link_keys d'"
    by (auto simp: link_keys_def l link_rows_def map_update_rows simp del: set_map)
  moreover have "links_ok d \<Longrightarrow> links_ok d'"
    using r by (auto simp: links_ok_def same l link_rows_def update_rows_def)
  ultimately show ?thesis by (simp add: party_grows_def party_keys_def same)
qed

lemma party_reads_stay:
  "stays party_grows (party_repo_GetByID c t i)" "stays party_grows fresh_or_nil"
  unfolding party_repo_GetByID_def party_repo_ListRoles_def fresh_or_nil_def by (intro stays_intros)+

lemma add_role_stays: "stays party_grows (party_repo_AddRole c r)"
  unfolding party_repo_AddRole_def by (intro stays_intros party_growth.stays_stmt; erule party_statements_grow)

lemma initial_roles_stay: "stays party_grows (add_initial_roles c t now p rs)"
  by (induction rs arbitrary: p) (auto intro!: stays_intros party_reads_stay add_role_stays)

lemmas party_writes = party_repo_Create_def party_repo_Update_def party_repo_RemoveRole_def contact_repo_CreateAddress_def
  contact_repo_CreateContact_def contact_repo_LinkPartyAddress_def

lemma party_ops_stay:
  "stays party_grows (CreateParty c cmd1)" "stays party_grows (UpdateParty c cmd2)" "stays party_grows (AddRole c cmd3)"
  "stays party_grows (RemoveRole c i)" "stays party_grows (AddAddress c i cmd4)" "stays party_grows (AddContact c i cmd5)"
  unfolding CreateParty_def UpdateParty_def AddRole_def RemoveRole_def AddAddress_def AddContact_def party_writes
  by (intro stays_intros party_reads_stay initial_roles_stay add_role_stays party_growth.stays_stmt;
      erule party_statements_grow update_party_grows link_grows)+

inductive party_run :: "db world \<Rightarrow> db world \<Rightarrow> bool" for w where
  start: "party_run w w"
| create: "party_run w w1 \<Longrightarrow> CreateParty c cmd1 e w1 = (r1, w2) \<Longrightarrow> party_run w w2"
| update: "party_run w w1 \<Longrightarrow> UpdateParty c cmd2 e w1 = (r1, w2) \<Longrightarrow> party_run w w2"
| add_role: "party_run w w1 \<Longrightarrow> AddRole c cmd3 e w1 = (r2, w2) \<Longrightarrow> party_run w w2"
| remove_role: "party_run w w1 \<Longrightarrow> RemoveRole c i e w1 = (r3, w2) \<Longrightarrow> party_run w w2"
| add_address: "party_run w w1 \<Longrightarrow> AddAddress c i cmd4 e w1 = (r4, w2) \<Longrightarrow> party_run w w2"
| add_contact: "party_run w w1 \<Longrightarrow> AddContact c i cmd5 e w1 = (r5, w2) \<Longrightarrow> party_run w w2"
| other: "party_run w w1 \<Longrightarrow> t_parties (wdb w2) = t_parties (wdb w1) \<Longrightarrow> t_addresses (wdb w2) = t_addresses (wdb w1) \<Longrightarrow>
    t_contacts (wdb w2) = t_contacts (wdb w1) \<Longrightarrow> t_party_addresses (wdb w2) = t_party_addresses (wdb w1) \<Longrightarrow> party_run w w2"

lemma party_run_grows: "party_run w w' \<Longrightarrow> party_grows (wdb w) (wdb w')"
proof (induction rule: party_run.induct)
  case start
  show ?case by (rule party_growth.R_refl)
next
  case (other w1 w2)
  then show ?case by (simp add: party_grows_def party_keys_def link_keys_def links_ok_def)
qed (auto dest!: staysD [OF party_ops_stay(1)] staysD [OF party_ops_stay(2)] staysD [OF party_ops_stay(3)]
     staysD [OF party_ops_stay(4)] staysD [OF party_ops_stay(5)] staysD [OF party_ops_stay(6)] intro: party_growth.R_trans)

section \<open>What is added\<close>

lemma GetByID_Ret:
  assumes "party_repo_GetByID c t i e w = (Ret p, w')"
  shows "(i, t) \<in> party_keys (wdb w) \<and> i \<noteq> NilID \<and> wdb w' = wdb w"
  using assms
  by (auto simp: party_repo_GetByID_def party_repo_ListRoles_def bindP_Ret_iff proc_simps read_with_Ret_iff query_Ret_outside
      sql_GetPartyByID_def own_party_def pg_eq_def party_keys_def dest!: select_one_in)

lemma bindP_NewID_Ret:
  "bindP NewID f e w = (Ret x, w') \<Longrightarrow> \<exists>i w1. wdb w1 = wdb w \<and> f i e w1 = (Ret x, w')"
proof -
  assume "bindP NewID f e w = (Ret x, w')"
  then have "\<exists>i. f i e (w\<lparr>tick := Suc (tick w)\<rparr>) = (Ret x, w')" by (auto simp: bindP_Ret_iff proc_simps)
  moreover have "wdb (w\<lparr>tick := Suc (tick w)\<rparr>) = wdb w" by simp
  ultimately show ?thesis by blast
qed

lemma bindP_Now_Ret:
  "bindP Now f e w = (Ret x, w') \<Longrightarrow> \<exists>now w1. wdb w1 = wdb w \<and> f now e w1 = (Ret x, w')"
proof -
  assume "bindP Now f e w = (Ret x, w')"
  then have "\<exists>now. f now e (w\<lparr>tick := Suc (tick w)\<rparr>) = (Ret x, w')" by (auto simp: bindP_Ret_iff proc_simps)
  moreover have "wdb (w\<lparr>tick := Suc (tick w)\<rparr>) = wdb w" by simp
  ultimately show ?thesis by blast
qed

lemma AddContact_Ret:
  assumes "AddContact c i cmd e w = (Ret x, w')" "RequireTenantID c = Ret t"
  obtains row where "row \<in> set (t_contacts (wdb w'))" "x = toDomainContact (local_off e) row" "ctr_tenant_id row = t"
    "ctr_party_id row = Some i" "(i, t) \<in> party_keys (wdb w')" "i \<noteq> NilID"
proof -
  obtain p w1 where g: "party_repo_GetByID c t i e w = (Ret p, w1)"
    and f: "bindP NewID (\<lambda>k. bindP Now (\<lambda>now. contact_repo_CreateContact c (new_contact k t i cmd now))) e w1 = (Ret x, w')"
    using assms by (auto simp: AddContact_def bindP_Ret_iff [of "lift_res r" for r] bindP_Ret_iff [of "party_repo_GetByID c t i"] proc_simps)
  obtain k n w2 where w2: "wdb w2 = wdb w1" and k: "contact_repo_CreateContact c (new_contact k t i cmd n) e w2 = (Ret x, w')"
    using bindP_NewID_Ret [OF f] by (auto dest!: bindP_Now_Ret)
  let ?row = "contact_row_of (new_contact k t i cmd n)"
  have "x = toDomainContact (local_off e) ?row" "t_contacts (wdb w') = t_contacts (wdb w2) @ [?row]" "t_parties (wdb w') = t_parties (wdb w2)"
    using k by (auto simp: contact_repo_CreateContact_def read_with_Ret_iff stmt_Ret_outside sql_CreateContact_def
        insert_row_Ret_iff split: prod.splits)
  moreover have "ctr_tenant_id ?row = t" "ctr_party_id ?row = Some i"
    using GetByID_Ret [OF g] by (simp_all add: contact_row_of_def new_contact_def id_of_ptr_def)
  ultimately show thesis
    using that [of ?row] GetByID_Ret [OF g] w2 by (simp add: party_keys_def)
qed

lemma AddAddress_Ret:
  assumes "AddAddress c i cmd e w = (Ret a, w')" "RequireTenantID c = Ret t" "links_ok (wdb w)"
  obtains row l where "row \<in> set (t_addresses (wdb w'))" "l \<in> set (t_party_addresses (wdb w'))"
    "a = (toDomainAddress (local_off e) row)\<lparr>ad_IsPrimary := aa_IsPrimary cmd\<rparr>" "adr_tenant_id row = t" "alr_address_id l = adr_id row"
    "alr_owner_id l = i" "alr_tenant_id l = t"
proof -
  let ?link = "\<lambda>x. bindP (contact_repo_LinkPartyAddress c t i (ad_ID x) (aa_Type cmd) (aa_IsPrimary cmd))
     (\<lambda>_. ret (x\<lparr>ad_IsPrimary := aa_IsPrimary cmd\<rparr>))"
  obtain p w1 where g: "party_repo_GetByID c t i e w = (Ret p, w1)"
    and f: "bindP NewID (\<lambda>k. bindP Now (\<lambda>now. bindP (contact_repo_CreateAddress c (new_address k t cmd now)) ?link)) e w1 = (Ret a, w')"
    using assms(1,2) by (auto simp: AddAddress_def bindP_Ret_iff [of "lift_res r" for r] bindP_Ret_iff [of "party_repo_GetByID c t i"] proc_simps)
  obtain k n w2 where w2: "wdb w2 = wdb w1"
    and k0: "bindP (contact_repo_CreateAddress c (new_address k t cmd n)) ?link e w2 = (Ret a, w')"
    using bindP_NewID_Ret [OF f] by (auto dest!: bindP_Now_Ret)
  obtain a0 w3 where k: "contact_repo_CreateAddress c (new_address k t cmd n) e w2 = (Ret a0, w3)"
    and l0: "?link a0 e w3 = (Ret a, w')" using k0 [unfolded bindP_Ret_iff [of "contact_repo_CreateAddress c x" for x]] by blast
  have l: "contact_repo_LinkPartyAddress c t i (ad_ID a0) (aa_Type cmd) (aa_IsPrimary cmd) e w3 = (Ret (), w')"
    and a: "a = a0\<lparr>ad_IsPrimary := aa_IsPrimary cmd\<rparr>"
    using l0 by (auto simp: bindP_Ret_iff proc_simps)
  define r0 where "r0 = address_row_of (new_address k t cmd n)"
  define row where "row = r0\<lparr>adr_latitude := map_option (decimal 8) (adr_latitude r0),
    adr_longitude := map_option (decimal 8) (adr_longitude r0)\<rparr>"
  have ids: "adr_tenant_id row = t" "adr_id row = k" by (simp_all add: row_def r0_def address_row_of_def new_address_def Let_def)
  have a0: "a0 = toDomainAddress (local_off e) row" "t_addresses (wdb w3) = t_addresses (wdb w2) @ [row]"
    and fresh0: "k \<notin> adr_id ` set (t_addresses (wdb w2))" and same: "t_party_addresses (wdb w3) = t_party_addresses (wdb w2)"
    using k ids by (auto simp: contact_repo_CreateAddress_def read_with_Ret_iff stmt_Ret_outside sql_CreateAddress_def
        insert_row_Ret_iff list_ex_iff row_def [symmetric] r0_def [symmetric] split: prod.splits)
  have row: "row \<in> set (t_addresses (wdb w3))" "a0 = toDomainAddress (local_off e) row" "adr_tenant_id row = t"
    "adr_id row = ad_ID a0" and fresh: "ad_ID a0 \<notin> adr_id ` set (t_addresses (wdb w2))"
    using a0 ids fresh0 by (simp_all add: toDomainAddress_def)
  let ?l = "\<lambda>m. new_link m t i (ad_ID a0) (aa_Type cmd) (aa_IsPrimary cmd)"
  obtain m where m: "t_party_addresses (wdb w') = link_rows (?l m) (t_party_addresses (wdb w3))"
    and ad: "t_addresses (wdb w') = t_addresses (wdb w3)"
    using l by (auto simp: contact_repo_LinkPartyAddress_def bindP_Ret_iff proc_simps stmt_Ret_outside sql_LinkPartyAddress_def
        split: if_splits)
  have "wdb w2 = wdb w" using GetByID_Ret [OF g] w2 by simp
  then have "\<not> list_ex (same_link (?l m)) (t_party_addresses (wdb w3))"
    using fresh assms(3) by (auto simp: same links_ok_def list_ex_iff same_link_def new_link_def)
  then have "?l m \<in> set (t_party_addresses (wdb w'))" by (simp add: m link_rows_def)
  with row ad a show thesis
    by (intro that [of row "?l m"]) (simp_all add: new_link_def)
qed

lemma party_keys_row: "(i, t) \<in> party_keys d \<Longrightarrow> \<exists>p \<in> set (t_parties d). pr_id p = i \<and> pr_tenant_id p = t"
  by (auto simp: party_keys_def)

lemma link_keys_row: "l \<in> set (t_party_addresses d) \<Longrightarrow> link_keys d \<subseteq> link_keys d' \<Longrightarrow>
    \<exists>b. l\<lparr>alr_is_primary := b\<rparr> \<in> set (t_party_addresses d')"
proof -
  assume "l \<in> set (t_party_addresses d)" "link_keys d \<subseteq> link_keys d'"
  then obtain l' where l': "l' \<in> set (t_party_addresses d')" "l\<lparr>alr_is_primary := True\<rparr> = l'\<lparr>alr_is_primary := True\<rparr>"
    by (auto simp: link_keys_def)
  have "l\<lparr>alr_is_primary := alr_is_primary l'\<rparr> = l'"
    using arg_cong [OF l'(2), of "\<lambda>x. x\<lparr>alr_is_primary := alr_is_primary l'\<rparr>"] by simp
  with l'(1) show ?thesis by metis
qed

section \<open>The property\<close>

text \<open>C21. What was added to a party stays in its profile: after \<open>AddAddress\<close> and \<open>AddContact\<close> returned an
  address and a contact, in every run of the party use cases, with any refusals and lost replies,
  \<open>GetParty\<close> on an answering server returns a profile that shows exactly the roles, addresses and
  contacts stored for that party in that tenant, among them the contact and the address (its flag
  of a primary address aside).\<close>

theorem party_profile:
  assumes "links_ok (wdb w0)" and "party_run w0 w" and "RequireTenantID c = Ret t"
    and "AddAddress c i cmdA e w = (Ret a, w1)" and "party_run w1 w2"
    and "AddContact c i cmdC e w2 = (Ret x, w3)" and "party_run w3 w4"
    and "\<forall>n. fault_at e' n = NoFault" and "local_off e' = local_off e"
  shows "\<exists>pd w5. GetParty c i e' w4 = (Ret pd, w5) \<and> profile_of (local_off e) (wdb w4) t i pd \<and>
     x \<in> set (dt_Contacts pd) \<and> (\<exists>b. a\<lparr>ad_IsPrimary := b\<rparr> \<in> set (dt_Addresses pd))"
proof -
  have lo: "links_ok (wdb w)" using party_run_grows [OF assms(2)] assms(1) by (simp add: party_grows_def)
  obtain ra l where ra: "ra \<in> set (t_addresses (wdb w1))" "l \<in> set (t_party_addresses (wdb w1))"
    "a = (toDomainAddress (local_off e) ra)\<lparr>ad_IsPrimary := aa_IsPrimary cmdA\<rparr>" "adr_tenant_id ra = t" "alr_address_id l = adr_id ra"
    "alr_owner_id l = i" "alr_tenant_id l = t" by (rule AddAddress_Ret [OF assms(4,3) lo])
  obtain rc where rc: "rc \<in> set (t_contacts (wdb w3))" "x = toDomainContact (local_off e) rc" "ctr_tenant_id rc = t"
    "ctr_party_id rc = Some i" "(i, t) \<in> party_keys (wdb w3)" "i \<noteq> NilID" by (rule AddContact_Ret [OF assms(6,3)])
  have g34: "party_grows (wdb w3) (wdb w4)" by (rule party_run_grows [OF assms(7)])
  have g14: "party_grows (wdb w1) (wdb w4)"
    using party_run_grows [OF assms(5)] staysD [OF party_ops_stay(6) assms(6)] g34 party_growth.R_trans by metis
  have "(i, t) \<in> party_keys (wdb w4)" using g34 rc(5) by (auto simp: party_grows_def)
  then obtain p where p: "p \<in> set (t_parties (wdb w4))" "pr_id p = i" "pr_tenant_id p = t" using party_keys_row by blast
  obtain pd w5 where pd: "GetParty c i e' w4 = (Ret pd, w5)" "profile_of (local_off e') (wdb w4) t i pd"
    using GetParty_answers [OF assms(3) p rc(6)] assms(8) by metis
  have "rc \<in> set (t_contacts (wdb w4))" "ra \<in> set (t_addresses (wdb w4))" using g34 g14 rc(1) ra(1) by (auto simp: party_grows_def)
  moreover obtain b where "l\<lparr>alr_is_primary := b\<rparr> \<in> set (t_party_addresses (wdb w4))"
    using link_keys_row [OF ra(2)] g14 unfolding party_grows_def by blast
  ultimately have "x \<in> set (dt_Contacts pd)" "linked_address (local_off e) (ra, l\<lparr>alr_is_primary := b\<rparr>) \<in> set (dt_Addresses pd)"
    using pd(2) rc ra by (auto simp: profile_of_def assms(9))
  moreover have "linked_address (local_off e) (ra, l\<lparr>alr_is_primary := b\<rparr>) = a\<lparr>ad_IsPrimary := b\<rparr>"
    by (simp add: linked_address_def ra(3))
  ultimately show ?thesis using pd unfolding assms(9) by metis
qed

section \<open>A run\<close>

definition py_env :: env where
  "py_env = \<lparr>fault_at = (\<lambda>_. NoFault), newid_at = (\<lambda>n. Some (of_nat (Suc n))), clock_at = (\<lambda>_. 0), dbnow_at = (\<lambda>_. 0),
     local_off = (\<lambda>_. 0), cvt_int64 = (\<lambda>_. 0)\<rparr>"

definition py_ctx :: ctx where "py_ctx = WithTenantID Background 5"

definition py_created :: "db world" where
  "py_created = snd (CreateParty py_ctx
     \<lparr>cy_Type = [], cy_Code = ''ACME'', cy_Name = ''Acme'', cy_LegalName = [], cy_TaxID = [], cy_Metadata = None,
      cy_InitialRoles = [''customer'']\<rparr> py_env \<lparr>wdb = empty_db, wtx = None, tick = 0\<rparr>)"

definition py_address :: AddAddressCommand where
  "py_address = \<lparr>aa_Type = ''office'', aa_Label = [], aa_Line1 = ''Jl. A'', aa_Line2 = [], aa_City = ''Solo'', aa_State = [],
     aa_PostalCode = [], aa_CountryCode = [], aa_IsPrimary = True\<rparr>"

definition py_contact :: AddContactCommand where
  "py_contact = \<lparr>ak_Type = ''phone'', ak_Value = ''021'', ak_Label = [], ak_IsPrimary = True\<rparr>"

definition py_located :: "db world" where "py_located = snd (AddAddress py_ctx 1 py_address py_env py_created)"

lemma py_trim: "TrimSpace ''Acme'' = ''Acme''" "TrimSpace ''ACME'' = ''ACME''" "TrimSpace [] = []" "ToUpper [] = []"
  by code_simp+

lemmas py_eval = py_created_def py_env_def py_ctx_def py_address_def py_contact_def proc_eval CreateParty_def AddAddress_def AddContact_def
  party_reads party_writes party_repo_AddRole_def read_with_def fresh_or_nil_def sql_CreateParty_def sql_CreatePartyRole_def
  sql_GetPartyByID_def sql_ListRolesByPartyID_def sql_CreateAddress_def sql_LinkPartyAddress_def sql_CreateContact_def insert_row_def
  own_party_def has_party_def has_address_def organization_exists_def link_rows_def party_row_of_def role_row_of_role_def
  address_row_of_def contact_row_of_def new_party_def new_role_def new_address_def new_contact_def new_link_def toDomainParty_def
  toDomainRole_def toDomainAddress_def toDomainContact_def RequireTenantID_def GetTenantID_def NilID_def WithTenantID_def Background_def
  pool_ctx_def ts_local_def or_empty_def ptr_of_str_def str_of_ptr_def id_of_ptr_def float_numeric_def empty_db_def select_one_def pg_eq_def
  py_trim

lemma py_address_added: "\<exists>a. AddAddress py_ctx 1 py_address py_env py_created = (Ret a, py_located) \<and> ad_City a = ''Solo''"
  unfolding py_located_def by (simp add: py_eval cong: proc_congs)

lemma py_contact_added: "\<exists>x w. AddContact py_ctx 1 py_contact py_env py_located = (Ret x, w) \<and> co_Value x = ''021''"
  unfolding py_located_def by (simp add: py_eval cong: proc_congs)

theorem party_profile_witness:
  "\<exists>a x w pd w5. AddAddress py_ctx 1 py_address py_env py_created = (Ret a, py_located) \<and> ad_City a = ''Solo'' \<and>
     AddContact py_ctx 1 py_contact py_env py_located = (Ret x, w) \<and> co_Value x = ''021'' \<and>
     GetParty py_ctx 1 py_env w = (Ret pd, w5) \<and> profile_of (\<lambda>_. 0) (wdb w) 5 1 pd \<and>
     x \<in> set (dt_Contacts pd) \<and> (\<exists>b. a\<lparr>ad_IsPrimary := b\<rparr> \<in> set (dt_Addresses pd))"
proof -
  have ok: "links_ok (wdb \<lparr>wdb = empty_db, wtx = None, tick = 0\<rparr>)" by (simp add: links_ok_def empty_db_def)
  have run: "party_run \<lparr>wdb = empty_db, wtx = None, tick = 0\<rparr> py_created"
    unfolding py_created_def by (rule party_run.create [OF party_run.start prod.collapse [symmetric]])
  have c: "RequireTenantID py_ctx = Ret 5"
    by (simp add: py_ctx_def WithTenantID_def Background_def RequireTenantID_def GetTenantID_def NilID_def)
  from py_address_added obtain a where a: "AddAddress py_ctx 1 py_address py_env py_created = (Ret a, py_located)" "ad_City a = ''Solo''"
    by blast
  from py_contact_added obtain x w where x: "AddContact py_ctx 1 py_contact py_env py_located = (Ret x, w)" "co_Value x = ''021''"
    by blast
  have "local_off py_env = (\<lambda>_. 0)" "\<forall>n. fault_at py_env n = NoFault" by (simp_all add: py_env_def)
  then show ?thesis
    using party_profile [OF ok run c a(1) party_run.start x(1) party_run.start, of py_env] a x by metis
qed

end
