(* ===== verification/GoPath.thy ===== *)
theory GoPath
  imports SdkContext GoTime
begin

text \<open>
  What the sources use of \<open>path/filepath\<close> on Unix: \<open>Clean\<close>, \<open>Join\<close>, \<open>Base\<close>, \<open>Ext\<close>, \<open>Dir\<close>, \<open>Abs\<close>. A path is
  looked at as the list of its elements; the lemmas say what \<open>Clean\<close> does to the elements.
\<close>

section \<open>Paths\<close>

definition slash :: char where "slash = CHR ''/''"

fun join_slash :: "string list \<Rightarrow> string" where
  "join_slash [] = []"
| "join_slash [x] = x"
| "join_slash (x # xs) = x @ slash # join_slash xs"

text \<open>One element after the other; \<open>st\<close> holds the elements so far, the last one first.\<close>

fun clean_elems :: "bool \<Rightarrow> string list \<Rightarrow> string list \<Rightarrow> string list" where
  "clean_elems rooted st [] = rev st"
| "clean_elems rooted st (x # xs) =
     (if x = [] \<or> x = ''.'' then clean_elems rooted st xs
      else if x = ''..'' then
        (if st \<noteq> [] \<and> hd st \<noteq> ''..'' then clean_elems rooted (tl st) xs
         else if rooted then clean_elems rooted st xs
         else clean_elems rooted (x # st) xs)
      else clean_elems rooted (x # st) xs)"

definition IsAbs :: "string \<Rightarrow> bool" where
  "IsAbs p \<longleftrightarrow> HasPrefix p ''/''"

definition Clean :: "string \<Rightarrow> string" where
  "Clean p =
     (if p = [] then ''.''
      else let r = (if IsAbs p then ''/'' else []) @ join_slash (clean_elems (IsAbs p) [] (split_on slash p))
           in if r = [] then ''.'' else r)"

text \<open>\<open>Join(a, b)\<close>\<close>

definition Join :: "string \<Rightarrow> string \<Rightarrow> string" where
  "Join a b = (if a \<noteq> [] then Clean (a @ slash # b) else if b \<noteq> [] then Clean b else [])"

definition after_slash :: "string \<Rightarrow> string" where
  "after_slash p = rev (takeWhile (\<lambda>c. c \<noteq> slash) (rev p))"

definition Base :: "string \<Rightarrow> string" where
  "Base p =
     (if p = [] then ''.''
      else let q = after_slash (rev (dropWhile (\<lambda>c. c = slash) (rev p))) in if q = [] then ''/'' else q)"

definition Dir :: "string \<Rightarrow> string" where
  "Dir p = Clean (rev (dropWhile (\<lambda>c. c \<noteq> slash) (rev p)))"

definition Ext :: "string \<Rightarrow> string" where
  "Ext p =
     (let q = after_slash p
      in if CHR ''.'' \<in> set q then CHR ''.'' # rev (takeWhile (\<lambda>c. c \<noteq> CHR ''.'') (rev q)) else [])"

text \<open>\<open>Abs\<close>, with the working directory of the process.\<close>

definition Abs :: "string \<Rightarrow> string \<Rightarrow> string" where
  "Abs wd p = (if IsAbs p then Clean p else Join wd p)"

section \<open>Elements\<close>

definition good_elem :: "string \<Rightarrow> bool" where
  "good_elem x \<longleftrightarrow> x \<noteq> [] \<and> x \<noteq> ''.'' \<and> x \<noteq> ''..'' \<and> slash \<notin> set x"

lemma split_on_join: "xs \<noteq> [] \<Longrightarrow> \<forall>x \<in> set xs. slash \<notin> set x \<Longrightarrow> split_on slash (join_slash xs) = xs"
  by (induction xs rule: join_slash.induct) (auto simp: split_on_none split_on_append)

lemma join_slash_append: "xs \<noteq> [] \<Longrightarrow> ys \<noteq> [] \<Longrightarrow> join_slash (xs @ ys) = join_slash xs @ slash # join_slash ys"
  by (induction xs rule: join_slash.induct) (auto simp: neq_Nil_conv)

lemma join_slash_inj:
  assumes "join_slash xs = join_slash ys" "\<forall>x \<in> set xs. good_elem x" "\<forall>y \<in> set ys. good_elem y"
  shows "xs = ys"
proof -
  have nil: "join_slash zs = [] \<longleftrightarrow> zs = []" if "\<forall>z \<in> set zs. good_elem z" for zs
    using that by (cases zs rule: join_slash.cases) (auto simp: good_elem_def)
  show ?thesis
  proof (cases "xs = [] \<or> ys = []")
    case True
    then show ?thesis using nil [OF assms(2)] nil [OF assms(3)] assms(1) by auto
  next
    case False
    have s: "\<forall>x \<in> set xs. slash \<notin> set x" "\<forall>x \<in> set ys. slash \<notin> set x" using assms by (auto simp: good_elem_def)
    with False show ?thesis using split_on_join [of xs] split_on_join [of ys] assms(1) by metis
  qed
qed

lemma clean_good: "\<forall>x \<in> set xs. good_elem x \<Longrightarrow> clean_elems b st (xs @ ys) = clean_elems b (rev xs @ st) ys"
  by (induction xs arbitrary: st) (simp_all add: good_elem_def)

lemma clean_rooted_elems:
  "\<forall>x \<in> set xs. slash \<notin> set x \<Longrightarrow> \<forall>x \<in> set st. good_elem x \<Longrightarrow> \<forall>x \<in> set (clean_elems True st xs). good_elem x"
proof (induction xs arbitrary: st)
  case (Cons x xs)
  have IH: "\<forall>y \<in> set st'. good_elem y \<Longrightarrow> \<forall>y \<in> set (clean_elems True st' xs). good_elem y" for st'
    using Cons.IH Cons.prems(1) by simp
  let ?st = "if x = [] \<or> x = ''.'' then st else if x = ''..'' then (if st \<noteq> [] \<and> hd st \<noteq> ''..'' then tl st else st) else x # st"
  have "clean_elems True st (x # xs) = clean_elems True ?st xs" by (simp split del: if_split cong: if_cong) (simp add: if_distrib)
  moreover have "\<forall>y \<in> set ?st. good_elem y"
    using Cons.prems by (cases st) (auto simp only: set_simps good_elem_def [of x] list.sel split: if_splits)
  ultimately show ?case using IH [of ?st] by (simp only:)
qed simp

text \<open>An absolute path that is clean.\<close>

definition clean_abs :: "string \<Rightarrow> bool" where
  "clean_abs p \<longleftrightarrow> (\<exists>bs. (\<forall>x \<in> set bs. good_elem x) \<and> p = slash # join_slash bs)"

lemma Clean_abs: "IsAbs p \<Longrightarrow> clean_abs (Clean p)"
proof -
  assume p: "IsAbs p"
  let ?bs = "clean_elems True [] (split_on slash p)"
  have "\<forall>x \<in> set ?bs. good_elem x" by (rule clean_rooted_elems) (auto dest: split_on_elems)
  moreover have "Clean p = slash # join_slash ?bs"
    using p by (auto simp: Clean_def IsAbs_def HasPrefix_def slash_def)
  ultimately show "clean_abs (Clean p)" unfolding clean_abs_def by blast
qed

lemma Abs_clean: "IsAbs wd \<Longrightarrow> clean_abs (Abs wd p)"
  by (cases wd) (auto simp: Abs_def Join_def IsAbs_def HasPrefix_def intro!: Clean_abs)

text \<open>Joining a clean absolute path and a path of good elements appends the elements.\<close>

lemma Join_good:
  assumes "\<forall>x \<in> set bs. good_elem x" "\<forall>x \<in> set ps. good_elem x" "ps \<noteq> []"
  shows "Join (slash # join_slash bs) (join_slash ps) = slash # join_slash (bs @ ps)"
proof -
  have s: "\<forall>x \<in> set bs. slash \<notin> set x" "\<forall>x \<in> set ps. slash \<notin> set x" using assms by (auto simp: good_elem_def)
  let ?q = "(slash # join_slash bs) @ slash # join_slash ps"
  have b: "split_on slash (slash # join_slash bs) = [] # (if bs = [] then [[]] else bs)"
    using split_on_join [of bs] s by auto
  have "split_on slash ?q = ([] # (if bs = [] then [[]] else bs)) @ ps"
    unfolding split_on_append b using split_on_join [of ps] s assms(3) by simp
  then have "clean_elems True [] (split_on slash ?q) = bs @ ps"
    using clean_good [of bs True "[]" ps] clean_good [of ps True "rev bs" "[]"] clean_good [of ps True "[]" "[]"] assms by auto
  then show ?thesis by (auto simp: Join_def Clean_def IsAbs_def HasPrefix_def slash_def)
qed

lemma Clean_good:
  assumes "\<forall>x \<in> set ps. good_elem x" "ps \<noteq> []"
  shows "Clean (join_slash ps) = join_slash ps" "\<not> HasPrefix (join_slash ps) ''/''"
proof -
  have s: "\<forall>x \<in> set ps. slash \<notin> set x" using assms by (auto simp: good_elem_def)
  obtain c cs xs where ps: "ps = (c # cs) # xs" "c \<noteq> slash"
    using assms by (cases ps; cases "hd ps") (auto simp: good_elem_def)
  then have h: "\<exists>cs'. join_slash ps = c # cs'" by (cases xs) auto
  then show np: "\<not> HasPrefix (join_slash ps) ''/''" using ps(2) by (auto simp: HasPrefix_def slash_def)
  have "clean_elems False [] (split_on slash (join_slash ps)) = ps"
    using split_on_join [OF assms(2) s] clean_good [of ps False "[]" "[]"] assms(1) by simp
  then show "Clean (join_slash ps) = join_slash ps" using h np by (auto simp: Clean_def IsAbs_def)
qed

end
