(* ===== verification/Storage.thy ===== *)
theory Storage
  imports Effects GoPath
begin

text \<open>
  The storage driver of \<open>pkg/storage\<close> and its implementation on a local disk
  (\<open>pkg/storage/local/local.go\<close>). A site is a database together with a disk. The disk holds regular
  files and directories by their clean absolute paths; there are no symbolic links. Every system
  call may fail with an error of the device, and a write may stop in the middle. The contract of
  the interface is the locale \<open>storage_contract\<close>; the local driver is an instance of it.
\<close>

section \<open>Disk\<close>

record fs =
  fs_files :: "(string \<times> string) list"
  fs_dirs :: "string list"

record 'd site =
  s_db :: 'd
  s_fs :: fs

definition file_at :: "fs \<Rightarrow> string \<Rightarrow> string option" where
  "file_at x p = map_of (fs_files x) p"

definition del_file :: "string \<Rightarrow> fs \<Rightarrow> fs" where
  "del_file p x = x\<lparr>fs_files := filter (\<lambda>(q, _). q \<noteq> p) (fs_files x)\<rparr>"

definition put_file :: "string \<Rightarrow> string \<Rightarrow> fs \<Rightarrow> fs" where
  "put_file p data x = x\<lparr>fs_files := (p, data) # fs_files (del_file p x)\<rparr>"

definition is_dir :: "fs \<Rightarrow> string \<Rightarrow> bool" where
  "is_dir x p \<longleftrightarrow> p = ''/'' \<or> p \<in> set (fs_dirs x)"

text \<open>What the operating system answers, by the number of the call; the working directory of the process by its
  elements from the root.\<close>

record os =
  os_wd :: "string list"
  io_error :: "nat \<Rightarrow> bool"
  io_partial :: "nat \<Rightarrow> nat"
  tmp_rand :: "nat \<Rightarrow> nat"

definition os_Getwd :: "os \<Rightarrow> string" where "os_Getwd os = slash # join_slash (os_wd os)"

definition os_ErrNotExist :: err where "os_ErrNotExist = Opaque ''file does not exist''"

text \<open>A stream: its bytes, and whether it ends with an error.\<close>

record reader =
  rd_data :: string
  rd_err :: bool

section \<open>System calls\<close>

definition syscall :: "os \<Rightarrow> (nat \<Rightarrow> fs \<Rightarrow> 'a res \<times> fs) \<Rightarrow> ('d site, 'a) proc" where
  "syscall os f = (\<lambda>e w.
     let w1 = w\<lparr>tick := Suc (tick w)\<rparr>
     in if io_error os (tick w) then (Fail (Opaque ''input/output error''), w1)
        else case f (tick w) (s_fs (wdb w)) of (r, x) \<Rightarrow> (r, w1\<lparr>wdb := (wdb w)\<lparr>s_fs := x\<rparr>\<rparr>))"

definition os_Mkdir :: "os \<Rightarrow> string \<Rightarrow> ('d site, unit) proc" where
  "os_Mkdir os p = syscall os (\<lambda>_ x.
     if is_dir x p then (Ret (), x)
     else if file_at x p \<noteq> None then (Fail (Opaque ''not a directory''), x)
     else (Ret (), x\<lparr>fs_dirs := p # fs_dirs x\<rparr>))"

text \<open>The directories on the way to a path, and the path itself.\<close>

definition ancestors :: "string \<Rightarrow> string list" where
  "ancestors p =
     (let xs = filter (\<lambda>x. x \<noteq> []) (split_on slash p) in map (\<lambda>k. slash # join_slash (take (Suc k) xs)) [0 ..< length xs])"

definition os_MkdirAll :: "os \<Rightarrow> string \<Rightarrow> ('d site, unit) proc" where
  "os_MkdirAll os p = bindP (mapP (os_Mkdir os) (ancestors p)) (\<lambda>_. ret ())"

definition temp_name :: "nat \<Rightarrow> string" where
  "temp_name n = ''upload-'' @ dec_string n @ ''.tmp''"

definition in_dir :: "string \<Rightarrow> string \<Rightarrow> string" where
  "in_dir dir x = (if HasSuffix dir ''/'' then dir @ x else dir @ slash # x)"

definition os_CreateTemp :: "os \<Rightarrow> string \<Rightarrow> ('d site, string) proc" where
  "os_CreateTemp os dir = syscall os (\<lambda>n x.
     let p = in_dir dir (temp_name (tmp_rand os n))
     in if \<not> is_dir x dir then (Fail os_ErrNotExist, x)
        else if file_at x p \<noteq> None \<or> is_dir x p then (Fail (Opaque ''file exists''), x)
        else (Ret p, put_file p [] x))"

text \<open>\<open>io.Copy\<close> into an open file: what could be written is in the file, also after an error.\<close>

definition io_Copy :: "os \<Rightarrow> string \<Rightarrow> reader \<Rightarrow> ('d site, int64) proc" where
  "io_Copy os p rd = (\<lambda>e w.
     let bad = io_error os (tick w); data = (if bad then take (io_partial os (tick w)) (rd_data rd) else rd_data rd)
     in (if bad \<or> rd_err rd then Fail (Opaque ''copy'') else Ret (of_nat (length data)),
         w\<lparr>tick := Suc (tick w), wdb := (wdb w)\<lparr>s_fs := put_file p data (s_fs (wdb w))\<rparr>\<rparr>))"

definition os_Close :: "os \<Rightarrow> ('d site, unit) proc" where
  "os_Close os = syscall os (\<lambda>_ x. (Ret (), x))"

definition os_Rename :: "os \<Rightarrow> string \<Rightarrow> string \<Rightarrow> ('d site, unit) proc" where
  "os_Rename os p q = syscall os (\<lambda>_ x.
     case file_at x p of
       None \<Rightarrow> (Fail os_ErrNotExist, x)
     | Some data \<Rightarrow> if is_dir x q then (Fail (Opaque ''file exists''), x) else (Ret (), put_file q data (del_file p x)))"

text \<open>\<open>os.Remove\<close> also removes an empty directory.\<close>

definition os_Remove :: "os \<Rightarrow> string \<Rightarrow> ('d site, unit) proc" where
  "os_Remove os p = syscall os (\<lambda>_ x.
     if file_at x p \<noteq> None then (Ret (), del_file p x)
     else if \<not> is_dir x p then (Fail os_ErrNotExist, x)
     else if list_ex (\<lambda>q. HasPrefix q (in_dir p [])) (map fst (fs_files x) @ fs_dirs x)
       then (Fail (Opaque ''directory not empty''), x)
     else (Ret (), x\<lparr>fs_dirs := removeAll p (fs_dirs x)\<rparr>))"

text \<open>An open directory is a stream whose first read fails.\<close>

definition os_Open :: "os \<Rightarrow> string \<Rightarrow> ('d site, reader) proc" where
  "os_Open os p = syscall os (\<lambda>_ x.
     (case file_at x p of
        Some data \<Rightarrow> Ret \<lparr>rd_data = data, rd_err = False\<rparr>
      | None \<Rightarrow> if is_dir x p then Ret \<lparr>rd_data = [], rd_err = True\<rparr> else Fail os_ErrNotExist, x))"

text \<open>\<open>os.Stat\<close>: whether the path is a directory.\<close>

definition os_Stat :: "os \<Rightarrow> string \<Rightarrow> ('d site, bool) proc" where
  "os_Stat os p = syscall os (\<lambda>_ x.
     (if file_at x p \<noteq> None then Ret False else if is_dir x p then Ret True else Fail os_ErrNotExist, x))"

section \<open>The interface\<close>

text \<open>\<open>Put\<close> also returns the bytes it read from the stream, which a tee reader passes on.\<close>

record 'd Driver =
  drv_Put :: "ctx \<Rightarrow> string \<Rightarrow> reader \<Rightarrow> int64 \<Rightarrow> string \<Rightarrow> ('d site, string) proc"
  drv_Get :: "ctx \<Rightarrow> string \<Rightarrow> ('d site, reader) proc"
  drv_Delete :: "ctx \<Rightarrow> string \<Rightarrow> ('d site, unit) proc"
  drv_Exists :: "ctx \<Rightarrow> string \<Rightarrow> ('d site, bool) proc"
  drv_GetURL :: "ctx \<Rightarrow> string \<Rightarrow> int \<Rightarrow> ('d site, string) proc"

section \<open>The local driver\<close>

definition resolvePath :: "string \<Rightarrow> string \<Rightarrow> string res" where
  "resolvePath baseDir relPath =
     (let c = Clean relPath;
          cleanRel = (if HasPrefix c ''/'' \<or> HasPrefix c [CHR 0x5C] then tl c else c);
          fullPath = Join baseDir cleanRel
      in if \<not> HasPrefix fullPath baseDir then Fail ErrPathTraversal else Ret fullPath)"

text \<open>From the copy to the rename; the temporary file is removed afterwards in any case.\<close>

definition put_body :: "os \<Rightarrow> string \<Rightarrow> string \<Rightarrow> reader \<Rightarrow> int64 \<Rightarrow> ('d site, string) proc" where
  "put_body os tmpName fullPath rd size1 =
     bindP (wrap_err ''failed to write file content'' (io_Copy os tmpName rd)) (\<lambda>written.
     bindP (guard (\<not> (0 < sint size1 \<and> written \<noteq> size1)) (Opaque ''file size mismatch'')) (\<lambda>_.
     bindP (wrap_err ''failed to close temp file'' (os_Close os)) (\<lambda>_.
     bindP (wrap_err ''failed to commit file'' (os_Rename os tmpName fullPath)) (\<lambda>_. ret (rd_data rd)))))"

definition local_Put :: "os \<Rightarrow> string \<Rightarrow> ctx \<Rightarrow> string \<Rightarrow> reader \<Rightarrow> int64 \<Rightarrow> string \<Rightarrow> ('d site, string) proc" where
  "local_Put os baseDir c relPath rd size1 contentType =
     bindP (lift_res (resolvePath baseDir relPath)) (\<lambda>fullPath.
     bindP (wrap_err ''failed to create directory'' (os_MkdirAll os (Dir fullPath))) (\<lambda>_.
     bindP (wrap_err ''failed to create temp file'' (os_CreateTemp os (Dir fullPath))) (\<lambda>tmpName.
     bindP (tryP (put_body os tmpName fullPath rd size1)) (\<lambda>r.
     bindP (tryP (os_Remove os tmpName)) (\<lambda>_. lift_res r)))))"

definition local_Get :: "os \<Rightarrow> string \<Rightarrow> ctx \<Rightarrow> string \<Rightarrow> ('d site, reader) proc" where
  "local_Get os baseDir c relPath =
     bindP (lift_res (resolvePath baseDir relPath)) (\<lambda>fullPath.
     bindP (tryP (os_Open os fullPath)) (\<lambda>r. case r of
       Ret f \<Rightarrow> ret f
     | Fail er \<Rightarrow> fail (if er = os_ErrNotExist then ErrFileNotFound else Wrapped ''failed to open file'' er)
     | Panic p \<Rightarrow> lift_res (Panic p)))"

definition local_Delete :: "os \<Rightarrow> string \<Rightarrow> ctx \<Rightarrow> string \<Rightarrow> ('d site, unit) proc" where
  "local_Delete os baseDir c relPath =
     bindP (lift_res (resolvePath baseDir relPath)) (\<lambda>fullPath.
     bindP (tryP (os_Remove os fullPath)) (\<lambda>r. case r of
       Ret u \<Rightarrow> ret u
     | Fail er \<Rightarrow> if er = os_ErrNotExist then ret () else fail (Wrapped ''failed to delete file'' er)
     | Panic p \<Rightarrow> lift_res (Panic p)))"

definition local_Exists :: "os \<Rightarrow> string \<Rightarrow> ctx \<Rightarrow> string \<Rightarrow> ('d site, bool) proc" where
  "local_Exists os baseDir c relPath =
     bindP (lift_res (resolvePath baseDir relPath)) (\<lambda>fullPath.
     bindP (tryP (os_Stat os fullPath)) (\<lambda>r. case r of
       Ret d \<Rightarrow> ret (\<not> d)
     | Fail er \<Rightarrow> if er = os_ErrNotExist then ret False else fail er
     | Panic p \<Rightarrow> lift_res (Panic p)))"

definition local_GetURL :: "ctx \<Rightarrow> string \<Rightarrow> int \<Rightarrow> ('d site, string) proc" where
  "local_GetURL c relPath expiry = ret (''/api/v1/files/download?path='' @ relPath)"

definition local_driver :: "os \<Rightarrow> string \<Rightarrow> 'd Driver" where
  "local_driver os baseDir =
     \<lparr>drv_Put = local_Put os baseDir, drv_Get = local_Get os baseDir, drv_Delete = local_Delete os baseDir,
      drv_Exists = local_Exists os baseDir, drv_GetURL = local_GetURL\<rparr>"

definition NewDriver :: "os \<Rightarrow> string \<Rightarrow> ('d site, 'd Driver) proc" where
  "NewDriver os baseDir =
     bindP (wrap_err ''failed to create storage base directory'' (os_MkdirAll os (Abs (os_Getwd os) baseDir))) (\<lambda>_.
     ret (local_driver os (Abs (os_Getwd os) baseDir)))"

section \<open>The database of a site\<close>

text \<open>A procedure of a repository that runs on the pool, at a site.\<close>

definition on_db :: "('d, 'a) proc \<Rightarrow> ('d site, 'a) proc" where
  "on_db m = (\<lambda>e w.
     case m e \<lparr>wdb = s_db (wdb w), wtx = None, tick = tick w\<rparr> of
       (r, w1) \<Rightarrow> (r, w\<lparr>wdb := (wdb w)\<lparr>s_db := wdb w1\<rparr>, tick := tick w1\<rparr>))"

end
