(* ===== verification/Attachment.thy ===== *)
theory Attachment
  imports OutboxAudit Storage
begin

text \<open>
  Files and attachments: \<open>internal/core/domain/attachment\<close>, the repository (\<open>attachment_repo.go\<close>,
  \<open>sqlc/files.sql.go\<close>) and the use case (\<open>internal/core/usecase/attachment/attachment_usecase.go\<close>),
  at a site with a database and a storage driver. The digest of a content (SHA-256 as hexadecimal
  text) is the parameter \<open>au_sha256\<close> of the use case.
\<close>

section \<open>Domain\<close>

definition PurposeAttachment :: string where "PurposeAttachment = ''attachment''"
definition DefaultMaxFileSize :: int64 where "DefaultMaxFileSize = 25 * 1024 * 1024"

definition AllowedDefaultMIMETypes :: "string list" where
  "AllowedDefaultMIMETypes =
     [''application/pdf'', ''image/jpeg'', ''image/png'', ''image/webp'', ''image/gif'', ''text/plain'', ''text/csv'',
      ''application/json'', ''application/zip'', ''application/msword'',
      ''application/vnd.openxmlformats-officedocument.wordprocessingml.document'', ''application/vnd.ms-excel'',
      ''application/vnd.openxmlformats-officedocument.spreadsheetml.sheet'']"

record File =
  fi_ID :: ID
  fi_TenantID :: ID
  fi_StorageDriver :: string
  fi_StoragePath :: string
  fi_Filename :: string
  fi_MimeType :: string
  fi_SizeBytes :: int64
  fi_SHA256Hash :: string
  fi_UploadedBy :: "ID option"
  fi_IsPublic :: bool
  fi_Metadata :: gomap
  fi_CreatedAt :: gotime
  fi_UpdatedAt :: gotime

record EntityAttachment =
  ea_ID :: ID
  ea_TenantID :: ID
  ea_FileID :: ID
  ea_EntityType :: string
  ea_EntityID :: ID
  ea_Purpose :: string
  ea_Title :: string
  ea_SortOrder :: int64
  ea_CreatedAt :: gotime

record AttachmentWithFile =
  aw_AttachmentID :: ID
  aw_TenantID :: ID
  aw_FileID :: ID
  aw_EntityType :: string
  aw_EntityID :: ID
  aw_Purpose :: string
  aw_Title :: string
  aw_SortOrder :: int64
  aw_AttachedAt :: gotime
  aw_StorageDriver :: string
  aw_StoragePath :: string
  aw_Filename :: string
  aw_MimeType :: string
  aw_SizeBytes :: int64
  aw_SHA256Hash :: string
  aw_UploadedBy :: "ID option"
  aw_IsPublic :: bool
  aw_FileMetadata :: gomap
  aw_FileCreatedAt :: gotime

definition SanitizeFilename :: "string \<Rightarrow> string" where
  "SanitizeFilename name =
     (let base = TrimSpace (ReplaceAll (ReplaceAll (ReplaceAll (Base name) [CHR 0x5C] ''_'') ''/'' ''_'') ''..'' ''_'')
      in if base = [] \<or> base = ''.'' then ''unnamed-file'' else base)"

definition IsAllowedMIME :: "string \<Rightarrow> bool" where
  "IsAllowedMIME mime =
     (let c = ToLower (TrimSpace mime);
          clean = (case Index c '';'' of None \<Rightarrow> c | Some idx \<Rightarrow> TrimSpace (take idx c))
      in clean \<in> set AllowedDefaultMIMETypes)"

section \<open>Statements\<close>

definition sql_CreateFile :: "file_row \<Rightarrow> int \<Rightarrow> db \<Rightarrow> file_row res \<times> db" where
  "sql_CreateFile r0 t d =
     (let r = r0\<lparr>flr_created_at := t, flr_updated_at := t\<rparr>
      in case insert_row (\<lambda>x y. flr_id x = flr_id y) (flr_id r \<noteq> NilID \<and> flr_tenant_id r \<noteq> NilID) r (t_files d)
         of (x, rs) \<Rightarrow> (x, d\<lparr>t_files := rs\<rparr>))"

definition own_file :: "ID \<Rightarrow> ID \<Rightarrow> file_row \<Rightarrow> bool" where
  "own_file tenantID i r \<longleftrightarrow> pg_eq (flr_tenant_id r) tenantID \<and> pg_eq (flr_id r) i"

definition sql_GetFileByID :: "ID \<Rightarrow> ID \<Rightarrow> db \<Rightarrow> file_row res" where
  "sql_GetFileByID tenantID i d = select_one (own_file tenantID i) (t_files d)"

definition sql_GetFileByHash :: "ID \<Rightarrow> string \<Rightarrow> db \<Rightarrow> file_row res" where
  "sql_GetFileByHash tenantID h d =
     select_one (\<lambda>r. pg_eq (flr_tenant_id r) tenantID \<and> flr_sha256_hash r = h) (sort_key (\<lambda>r. - flr_created_at r) (t_files d))"

definition sql_ListFilesByTenant :: "ID \<Rightarrow> int \<Rightarrow> int \<Rightarrow> db \<Rightarrow> file_row list" where
  "sql_ListFilesByTenant tenantID l k d =
     limit_offset l k (sort_key (\<lambda>r. - flr_created_at r) (filter (\<lambda>r. pg_eq (flr_tenant_id r) tenantID) (t_files d)))"

text \<open>The attachments of a deleted file go with it (\<open>ON DELETE CASCADE\<close>).\<close>

definition sql_DeleteFile :: "ID \<Rightarrow> ID \<Rightarrow> int \<Rightarrow> db \<Rightarrow> unit res \<times> db" where
  "sql_DeleteFile tenantID i t d =
     (let gone = map flr_id (filter (own_file tenantID i) (t_files d))
      in (Ret (), d\<lparr>t_files := filter (\<lambda>r. \<not> own_file tenantID i r) (t_files d),
                    t_entity_attachments := filter (\<lambda>r. atr_file_id r \<notin> set gone) (t_entity_attachments d)\<rparr>))"

definition sql_CreateAttachment :: "attachment_row \<Rightarrow> int \<Rightarrow> db \<Rightarrow> attachment_row res \<times> db" where
  "sql_CreateAttachment r0 t d =
     (let r = r0\<lparr>atr_created_at := t\<rparr>
      in case insert_row (\<lambda>x y. atr_id x = atr_id y)
           (atr_id r \<noteq> NilID \<and> atr_tenant_id r \<noteq> NilID \<and> atr_entity_id r \<noteq> NilID \<and> atr_file_id r \<in> flr_id ` set (t_files d))
           r (t_entity_attachments d)
         of (x, rs) \<Rightarrow> (x, d\<lparr>t_entity_attachments := rs\<rparr>))"

definition own_attachment :: "ID \<Rightarrow> ID \<Rightarrow> attachment_row \<Rightarrow> bool" where
  "own_attachment tenantID i r \<longleftrightarrow> pg_eq (atr_tenant_id r) tenantID \<and> pg_eq (atr_id r) i"

definition sql_GetAttachmentByID :: "ID \<Rightarrow> ID \<Rightarrow> db \<Rightarrow> attachment_row res" where
  "sql_GetAttachmentByID tenantID i d = select_one (own_attachment tenantID i) (t_entity_attachments d)"

text \<open>Attachments joined with their files, by the identifier of the file only.\<close>

definition sql_ListAttachmentsByEntity :: "ID \<Rightarrow> string \<Rightarrow> ID \<Rightarrow> db \<Rightarrow> (attachment_row \<times> file_row) list" where
  "sql_ListAttachmentsByEntity tenantID entityType entityID d =
     sort_key (\<lambda>(a, f). sint (atr_sort_order a)) (sort_key (\<lambda>(a, f). atr_created_at a)
       (concat (map (\<lambda>a. map (\<lambda>f. (a, f)) (filter (\<lambda>f. flr_id f = atr_file_id a) (t_files d)))
         (filter (\<lambda>a. pg_eq (atr_tenant_id a) tenantID \<and> atr_entity_type a = entityType \<and> pg_eq (atr_entity_id a) entityID)
           (t_entity_attachments d)))))"

definition sql_DeleteAttachment :: "ID \<Rightarrow> ID \<Rightarrow> int \<Rightarrow> db \<Rightarrow> unit res \<times> db" where
  "sql_DeleteAttachment tenantID i t d =
     (Ret (), d\<lparr>t_entity_attachments := filter (\<lambda>r. \<not> own_attachment tenantID i r) (t_entity_attachments d)\<rparr>)"

definition sql_CountFileReferences :: "ID \<Rightarrow> ID \<Rightarrow> db \<Rightarrow> int" where
  "sql_CountFileReferences tenantID fileID d =
     int (length (filter (\<lambda>r. pg_eq (atr_tenant_id r) tenantID \<and> pg_eq (atr_file_id r) fileID) (t_entity_attachments d)))"

section \<open>Repository\<close>

definition file_row_of :: "File \<Rightarrow> file_row" where
  "file_row_of f =
     \<lparr>flr_id = fi_ID f, flr_tenant_id = fi_TenantID f, flr_storage_driver = fi_StorageDriver f, flr_storage_path = fi_StoragePath f,
      flr_filename = fi_Filename f, flr_mime_type = fi_MimeType f, flr_size_bytes = fi_SizeBytes f, flr_sha256_hash = fi_SHA256Hash f,
      flr_uploaded_by = id_of_ptr (fi_UploadedBy f), flr_is_public = fi_IsPublic f, flr_metadata = json_of_map (fi_Metadata f),
      flr_created_at = 0, flr_updated_at = 0\<rparr>"

definition toDomainFile :: "(int \<Rightarrow> int) \<Rightarrow> file_row \<Rightarrow> File" where
  "toDomainFile lo row =
     \<lparr>fi_ID = flr_id row, fi_TenantID = flr_tenant_id row, fi_StorageDriver = flr_storage_driver row,
      fi_StoragePath = flr_storage_path row, fi_Filename = flr_filename row, fi_MimeType = flr_mime_type row,
      fi_SizeBytes = flr_size_bytes row, fi_SHA256Hash = flr_sha256_hash row, fi_UploadedBy = flr_uploaded_by row,
      fi_IsPublic = flr_is_public row, fi_Metadata = map_of_json (flr_metadata row),
      fi_CreatedAt = ts_local lo (flr_created_at row), fi_UpdatedAt = ts_local lo (flr_updated_at row)\<rparr>"

definition att_repo_CreateFile :: "ctx \<Rightarrow> File \<Rightarrow> File dbproc" where
  "att_repo_CreateFile c f =
     read_with (\<lambda>lo r. f\<lparr>fi_CreatedAt := ts_local lo (flr_created_at r), fi_UpdatedAt := ts_local lo (flr_updated_at r)\<rparr>)
       (stmt (pool_ctx c) (sql_CreateFile (file_row_of f)))"

definition att_repo_GetFileByID :: "ctx \<Rightarrow> ID \<Rightarrow> ID \<Rightarrow> File dbproc" where
  "att_repo_GetFileByID c tenantID i =
     read_with toDomainFile (norows_notfound (query (pool_ctx c) (sql_GetFileByID tenantID i)))"

definition att_repo_GetFileByHash :: "ctx \<Rightarrow> ID \<Rightarrow> string \<Rightarrow> File dbproc" where
  "att_repo_GetFileByHash c tenantID h =
     read_with toDomainFile (norows_notfound (query (pool_ctx c) (sql_GetFileByHash tenantID h)))"

definition att_repo_ListFilesByTenant :: "ctx \<Rightarrow> ID \<Rightarrow> int32 \<Rightarrow> int32 \<Rightarrow> File list dbproc" where
  "att_repo_ListFilesByTenant c tenantID l k =
     read_with (\<lambda>lo. map (toDomainFile lo)) (query (pool_ctx c) (\<lambda>d. Ret (sql_ListFilesByTenant tenantID (sint l) (sint k) d)))"

definition att_repo_DeleteFile :: "ctx \<Rightarrow> ID \<Rightarrow> ID \<Rightarrow> unit dbproc" where
  "att_repo_DeleteFile c tenantID i = stmt (pool_ctx c) (sql_DeleteFile tenantID i)"

text \<open>\<open>int32(att.SortOrder)\<close> keeps the low 32 bits.\<close>

definition attachment_row_of :: "EntityAttachment \<Rightarrow> attachment_row" where
  "attachment_row_of a =
     \<lparr>atr_id = ea_ID a, atr_tenant_id = ea_TenantID a, atr_file_id = ea_FileID a, atr_entity_type = ea_EntityType a,
      atr_entity_id = ea_EntityID a, atr_purpose = ea_Purpose a, atr_title = ea_Title a, atr_sort_order = ucast (ea_SortOrder a),
      atr_created_at = 0\<rparr>"

definition att_repo_CreateAttachment :: "ctx \<Rightarrow> EntityAttachment \<Rightarrow> EntityAttachment dbproc" where
  "att_repo_CreateAttachment c a =
     read_with (\<lambda>lo r. a\<lparr>ea_CreatedAt := ts_local lo (atr_created_at r)\<rparr>)
       (stmt (pool_ctx c) (sql_CreateAttachment (attachment_row_of a)))"

definition toDomainAttachment :: "(int \<Rightarrow> int) \<Rightarrow> attachment_row \<Rightarrow> EntityAttachment" where
  "toDomainAttachment lo row =
     \<lparr>ea_ID = atr_id row, ea_TenantID = atr_tenant_id row, ea_FileID = atr_file_id row, ea_EntityType = atr_entity_type row,
      ea_EntityID = atr_entity_id row, ea_Purpose = atr_purpose row, ea_Title = atr_title row,
      ea_SortOrder = scast (atr_sort_order row), ea_CreatedAt = ts_local lo (atr_created_at row)\<rparr>"

definition att_repo_GetAttachmentByID :: "ctx \<Rightarrow> ID \<Rightarrow> ID \<Rightarrow> EntityAttachment dbproc" where
  "att_repo_GetAttachmentByID c tenantID i =
     read_with toDomainAttachment (norows_notfound (query (pool_ctx c) (sql_GetAttachmentByID tenantID i)))"

definition attachment_with_file :: "(int \<Rightarrow> int) \<Rightarrow> attachment_row \<times> file_row \<Rightarrow> AttachmentWithFile" where
  "attachment_with_file lo = (\<lambda>(a, f).
     \<lparr>aw_AttachmentID = atr_id a, aw_TenantID = atr_tenant_id a, aw_FileID = atr_file_id a, aw_EntityType = atr_entity_type a,
      aw_EntityID = atr_entity_id a, aw_Purpose = atr_purpose a, aw_Title = atr_title a, aw_SortOrder = scast (atr_sort_order a),
      aw_AttachedAt = ts_local lo (atr_created_at a), aw_StorageDriver = flr_storage_driver f, aw_StoragePath = flr_storage_path f,
      aw_Filename = flr_filename f, aw_MimeType = flr_mime_type f, aw_SizeBytes = flr_size_bytes f, aw_SHA256Hash = flr_sha256_hash f,
      aw_UploadedBy = flr_uploaded_by f, aw_IsPublic = flr_is_public f, aw_FileMetadata = map_of_json (flr_metadata f),
      aw_FileCreatedAt = ts_local lo (flr_created_at f)\<rparr>)"

definition att_repo_ListAttachmentsByEntity :: "ctx \<Rightarrow> ID \<Rightarrow> string \<Rightarrow> ID \<Rightarrow> AttachmentWithFile list dbproc" where
  "att_repo_ListAttachmentsByEntity c tenantID entityType entityID =
     read_with (\<lambda>lo. map (attachment_with_file lo))
       (query (pool_ctx c) (\<lambda>d. Ret (sql_ListAttachmentsByEntity tenantID entityType entityID d)))"

definition att_repo_DeleteAttachment :: "ctx \<Rightarrow> ID \<Rightarrow> ID \<Rightarrow> unit dbproc" where
  "att_repo_DeleteAttachment c tenantID i = stmt (pool_ctx c) (sql_DeleteAttachment tenantID i)"

definition att_repo_CountFileReferences :: "ctx \<Rightarrow> ID \<Rightarrow> ID \<Rightarrow> int dbproc" where
  "att_repo_CountFileReferences c tenantID fileID =
     query (pool_ctx c) (\<lambda>d. Ret (sql_CountFileReferences tenantID fileID d))"

section \<open>Use case\<close>

record UploadFileCommand =
  uf_TenantID :: ID
  uf_Filename :: string
  uf_MimeType :: string
  uf_Reader :: reader
  uf_SizeBytes :: int64
  uf_UploadedBy :: "ID option"
  uf_IsPublic :: bool
  uf_Metadata :: gomap

record AttachFileCommand =
  fa_TenantID :: ID
  fa_FileID :: ID
  fa_EntityType :: string
  fa_EntityID :: ID
  fa_Purpose :: string
  fa_Title :: string
  fa_SortOrder :: int64

record AttachmentUsecase =
  au_driver :: "db Driver"
  au_maxFileSize :: int64
  au_sha256 :: "string \<Rightarrow> string"

definition NewAttachmentUsecase :: "db Driver \<Rightarrow> (string \<Rightarrow> string) \<Rightarrow> int64 list \<Rightarrow> AttachmentUsecase" where
  "NewAttachmentUsecase drv sha maxFileSize =
     \<lparr>au_driver = drv, au_maxFileSize = (case maxFileSize of m # _ \<Rightarrow> if 0 < sint m then m else DefaultMaxFileSize | [] \<Rightarrow> DefaultMaxFileSize),
      au_sha256 = sha\<rparr>"

definition storage_path :: "ID \<Rightarrow> gotime \<Rightarrow> ID \<Rightarrow> string \<Rightarrow> string" where
  "storage_path tenantID now fileID name =
     ''uploads/'' @ ID_String tenantID @ ''/'' @ fmt_0d 4 (Year now) @ ''/'' @ fmt_0d 2 (Month now) @ ''/'' @ ID_String fileID @ Ext name"

definition new_file :: "ID \<Rightarrow> UploadFileCommand \<Rightarrow> string \<Rightarrow> string \<Rightarrow> string \<Rightarrow> string \<Rightarrow> gotime \<Rightarrow> File" where
  "new_file i cmd path name mime hash now =
     \<lparr>fi_ID = i, fi_TenantID = uf_TenantID cmd, fi_StorageDriver = ''local'', fi_StoragePath = path, fi_Filename = name,
      fi_MimeType = mime, fi_SizeBytes = uf_SizeBytes cmd, fi_SHA256Hash = hash, fi_UploadedBy = uf_UploadedBy cmd,
      fi_IsPublic = uf_IsPublic cmd, fi_Metadata = uf_Metadata cmd, fi_CreatedAt = now, fi_UpdatedAt = now\<rparr>"

text \<open>The row is written after the content; when that fails the content is removed again.\<close>

definition record_file :: "AttachmentUsecase \<Rightarrow> ctx \<Rightarrow> File \<Rightarrow> (db site, File) proc" where
  "record_file u c file =
     bindP (tryP (on_db (att_repo_CreateFile c file))) (\<lambda>r. case r of
       Ret f \<Rightarrow> ret f
     | Fail er \<Rightarrow> bindP (tryP (drv_Delete (au_driver u) c (fi_StoragePath file))) (\<lambda>_.
         fail (Wrapped ''failed to record file metadata'' er))
     | Panic p \<Rightarrow> lift_res (Panic p))"

definition UploadFile :: "AttachmentUsecase \<Rightarrow> ctx \<Rightarrow> UploadFileCommand \<Rightarrow> (db site, File) proc" where
  "UploadFile u c cmd =
     (let sanitizedName = SanitizeFilename (uf_Filename cmd); mime = ToLower (TrimSpace (uf_MimeType cmd))
      in bindP (guard (uf_TenantID cmd \<noteq> NilID) ErrTenantRequired) (\<lambda>_.
         bindP (guard (sanitizedName \<noteq> []) (Wrapped ''filename cannot be empty'' ErrInvalidInput)) (\<lambda>_.
         bindP (guard (sint (uf_SizeBytes cmd) \<le> sint (au_maxFileSize u)) (Wrapped ''file size exceeds maximum limit'' ErrInvalidInput)) (\<lambda>_.
         bindP (guard (IsAllowedMIME mime) (Wrapped ''mime type is not allowed'' ErrInvalidInput)) (\<lambda>_.
         bindP NewID (\<lambda>fileID.
         bindP Now (\<lambda>now.
         let path = storage_path (uf_TenantID cmd) now fileID sanitizedName
         in bindP (wrap_err ''failed to save file to storage''
              (drv_Put (au_driver u) c path (uf_Reader cmd) (uf_SizeBytes cmd) mime)) (\<lambda>bs.
            record_file u c (new_file fileID cmd path sanitizedName mime (au_sha256 u bs) now)))))))))"

definition GetFile :: "AttachmentUsecase \<Rightarrow> ctx \<Rightarrow> ID \<Rightarrow> ID \<Rightarrow> (db site, File \<times> reader) proc" where
  "GetFile u c tenantID fileID =
     bindP (on_db (att_repo_GetFileByID c tenantID fileID)) (\<lambda>file.
     bindP (wrap_err ''failed to retrieve file from storage'' (drv_Get (au_driver u) c (fi_StoragePath file))) (\<lambda>rc.
     ret (file, rc)))"

definition GetFileMetadata :: "AttachmentUsecase \<Rightarrow> ctx \<Rightarrow> ID \<Rightarrow> ID \<Rightarrow> (db site, File) proc" where
  "GetFileMetadata u c tenantID fileID = on_db (att_repo_GetFileByID c tenantID fileID)"

definition DeleteFile :: "AttachmentUsecase \<Rightarrow> ctx \<Rightarrow> ID \<Rightarrow> ID \<Rightarrow> (db site, unit) proc" where
  "DeleteFile u c tenantID fileID =
     bindP (on_db (att_repo_GetFileByID c tenantID fileID)) (\<lambda>file.
     bindP (tryP (drv_Delete (au_driver u) c (fi_StoragePath file))) (\<lambda>_.
     on_db (att_repo_DeleteFile c tenantID fileID)))"

definition new_attachment :: "ID \<Rightarrow> AttachFileCommand \<Rightarrow> gotime \<Rightarrow> EntityAttachment" where
  "new_attachment i cmd now =
     (let purpose = TrimSpace (fa_Purpose cmd)
      in \<lparr>ea_ID = i, ea_TenantID = fa_TenantID cmd, ea_FileID = fa_FileID cmd, ea_EntityType = ToLower (fa_EntityType cmd),
          ea_EntityID = fa_EntityID cmd, ea_Purpose = (if purpose = [] then PurposeAttachment else purpose), ea_Title = fa_Title cmd,
          ea_SortOrder = fa_SortOrder cmd, ea_CreatedAt = now\<rparr>)"

definition AttachFile :: "AttachmentUsecase \<Rightarrow> ctx \<Rightarrow> AttachFileCommand \<Rightarrow> (db site, EntityAttachment) proc" where
  "AttachFile u c cmd =
     bindP (guard (fa_TenantID cmd \<noteq> NilID) ErrTenantRequired) (\<lambda>_.
     bindP (guard (fa_FileID cmd \<noteq> NilID) (Wrapped ''file_id is required'' ErrInvalidInput)) (\<lambda>_.
     bindP (guard (fa_EntityType cmd \<noteq> []) (Wrapped ''entity_type is required'' ErrInvalidInput)) (\<lambda>_.
     bindP (guard (fa_EntityID cmd \<noteq> NilID) (Wrapped ''entity_id is required'' ErrInvalidInput)) (\<lambda>_.
     bindP (on_db (att_repo_GetFileByID c (fa_TenantID cmd) (fa_FileID cmd))) (\<lambda>_.
     bindP NewID (\<lambda>attID.
     bindP Now (\<lambda>now.
     on_db (att_repo_CreateAttachment c (new_attachment attID cmd now)))))))))"

definition ListEntityAttachments :: "AttachmentUsecase \<Rightarrow> ctx \<Rightarrow> ID \<Rightarrow> string \<Rightarrow> ID \<Rightarrow> (db site, AttachmentWithFile list) proc" where
  "ListEntityAttachments u c tenantID entityType entityID =
     bindP (guard (tenantID \<noteq> NilID) ErrTenantRequired) (\<lambda>_.
     on_db (att_repo_ListAttachmentsByEntity c tenantID (ToLower entityType) entityID))"

definition DetachFile :: "AttachmentUsecase \<Rightarrow> ctx \<Rightarrow> ID \<Rightarrow> ID \<Rightarrow> (db site, unit) proc" where
  "DetachFile u c tenantID attachmentID =
     bindP (guard (tenantID \<noteq> NilID) ErrTenantRequired) (\<lambda>_. on_db (att_repo_DeleteAttachment c tenantID attachmentID))"

end
