(* ===== verification/StorageProps.thy ===== *)
theory StorageProps
  imports Storage
begin

text \<open>
  The contract of a storage driver and that the local driver keeps it: what \<open>Put\<close> returned for is in the
  store, \<open>Get\<close> reads what is stored, no operation touches another path, and temporary files do
  not get in the way of stored ones.
\<close>

section \<open>The contract\<close>

locale storage_contract =
  fixes drv :: "'d Driver"
    and content :: "fs \<Rightarrow> string \<Rightarrow> string option"
    and ok :: "string \<Rightarrow> bool"
    and live :: "nat \<Rightarrow> bool"
  assumes put_Ret: "ok p \<Longrightarrow> drv_Put drv c p rd sz m e w = (Ret bs, w') \<Longrightarrow>
      bs = rd_data rd \<and> content (s_fs (wdb w')) p = Some bs \<and> (0 < sint sz \<longrightarrow> of_nat (length bs) = sz)"
    and put_frame: "ok p \<Longrightarrow> ok q \<Longrightarrow> q \<noteq> p \<Longrightarrow> drv_Put drv c p rd sz m e w = (r, w') \<Longrightarrow>
      content (s_fs (wdb w')) q = content (s_fs (wdb w)) q"
    and put_db: "drv_Put drv c p rd sz m e w = (r, w') \<Longrightarrow> s_db (wdb w') = s_db (wdb w)"
    and delete_frame: "ok p \<Longrightarrow> ok q \<Longrightarrow> q \<noteq> p \<Longrightarrow> drv_Delete drv c p e w = (r1, w') \<Longrightarrow>
      content (s_fs (wdb w')) q = content (s_fs (wdb w)) q"
    and delete_db: "drv_Delete drv c p e w = (r1, w') \<Longrightarrow> s_db (wdb w') = s_db (wdb w)"
    and delete_no_panic: "drv_Delete drv c p e w \<noteq> (Panic msg, w')"
    and get_keeps: "drv_Get drv c p e w = (r2, w') \<Longrightarrow> wdb w' = wdb w"
    and get_stored: "ok p \<Longrightarrow> content (s_fs (wdb w)) p = Some bs \<Longrightarrow> live (tick w) \<Longrightarrow>
      fst (drv_Get drv c p e w) = Ret \<lparr>rd_data = bs, rd_err = False\<rparr>"

section \<open>Frames\<close>

lemma map_of_filter_key: "map_of (filter (\<lambda>(k, _). k \<noteq> p) kvs) q = (if q = p then None else map_of kvs q)"
  by (induction kvs) auto

lemma file_at_del [simp]: "file_at (del_file p x) q = (if q = p then None else file_at x q)"
  by (simp add: file_at_def del_file_def map_of_filter_key)

lemma file_at_put [simp]: "file_at (put_file p data x) q = (if q = p then Some data else file_at x q)"
  by (simp add: file_at_def put_file_def del_file_def map_of_filter_key)

lemma file_at_dirs [simp]: "file_at (x\<lparr>fs_dirs := ds\<rparr>) q = file_at x q"
  by (simp add: file_at_def)

text \<open>\<open>touches P\<close>: only files at paths in \<open>P\<close> may differ, and the database is the same.\<close>

definition touches :: "(string \<Rightarrow> bool) \<Rightarrow> 'd site \<Rightarrow> 'd site \<Rightarrow> bool" where
  "touches P s s' \<longleftrightarrow> s_db s' = s_db s \<and> (\<forall>p. \<not> P p \<longrightarrow> file_at (s_fs s') p = file_at (s_fs s) p)"

interpretation touch: db_order "touches P" for P
  by unfold_locales (auto simp: touches_def)

lemma syscall_stays:
  assumes "\<And>n x r x' p. f n x = (r, x') \<Longrightarrow> \<not> P p \<Longrightarrow> file_at x' p = file_at x p"
  shows "stays (touches P) (syscall os f)"
  using assms unfolding stays_def syscall_def Let_def
  by (auto simp: touches_def split: if_splits prod.splits option.splits)

lemma quiet_calls_stay [stays_intros]:
  "stays (touches P) (os_Mkdir os p)" "stays (touches P) (os_MkdirAll os p)" "stays (touches P) (os_Close os)"
  "stays (touches P) (os_Open os p)" "stays (touches P) (os_Stat os p)"
  unfolding os_MkdirAll_def
  by (auto simp: os_Mkdir_def os_Close_def os_Open_def os_Stat_def split: if_splits
      intro!: syscall_stays stays_intros)

lemma writing_calls_stay:
  "(\<And>k. P (in_dir dir (temp_name k))) \<Longrightarrow> stays (touches P) (os_CreateTemp os dir)"
  "P p \<Longrightarrow> P q \<Longrightarrow> stays (touches P) (os_Rename os p q)"
  "P p \<Longrightarrow> stays (touches P) (os_Remove os p)"
  unfolding os_CreateTemp_def os_Rename_def os_Remove_def
  by (rule syscall_stays; auto simp: Let_def split: if_splits option.splits)+

lemma io_Copy_stays: "P p \<Longrightarrow> stays (touches P) (io_Copy os p rd)"
  by (auto simp: stays_def io_Copy_def Let_def touches_def split: option.splits)

lemma CreateTemp_Ret:
  "os_CreateTemp os dir e w = (Ret p, w') \<Longrightarrow> \<exists>k. p = in_dir dir (temp_name k)"
  by (auto simp: os_CreateTemp_def syscall_def Let_def split: if_splits)

lemma put_body_stays: "P tmp \<Longrightarrow> P full \<Longrightarrow> stays (touches P) (put_body os tmp full rd sz)"
  unfolding put_body_def by (intro stays_intros io_Copy_stays writing_calls_stay)

lemma local_Put_stays:
  assumes "\<And>full. resolvePath base p = Ret full \<Longrightarrow> P full \<and> (\<forall>k. P (in_dir (Dir full) (temp_name k)))"
  shows "stays (touches P) (local_Put os base c p rd sz m)"
proof -
  have "stays (touches P) (bindP (wrap_err msg (os_CreateTemp os (Dir full))) (\<lambda>tmp.
     bindP (tryP (put_body os tmp full rd sz)) (\<lambda>r. bindP (tryP (os_Remove os tmp)) (\<lambda>_. lift_res r))))"
    if "resolvePath base p = Ret full" for full msg
  proof (rule touch.stays_bind_post)
    show "stays (touches P) (wrap_err msg (os_CreateTemp os (Dir full)))"
      using assms [OF that] by (intro stays_intros writing_calls_stay) auto
    show "stays (touches P) (bindP (tryP (put_body os tmp full rd sz)) (\<lambda>r. bindP (tryP (os_Remove os tmp)) (\<lambda>_. lift_res r)))"
      if "wrap_err msg (os_CreateTemp os (Dir full)) e w = (Ret tmp, w')" for e w tmp w'
      using that assms [OF \<open>resolvePath base p = Ret full\<close>]
      by (intro stays_intros put_body_stays writing_calls_stay) (auto simp: proc_simps dest!: CreateTemp_Ret)
  qed
  then show ?thesis
    unfolding local_Put_def by (intro touch.stays_bind_res) (rule touch.stays_bind, intro stays_intros)
qed

lemma local_Delete_stays:
  assumes "\<And>full. resolvePath base p = Ret full \<Longrightarrow> P full"
  shows "stays (touches P) (local_Delete os base c p)"
  unfolding local_Delete_def using assms
  by (auto intro!: touch.stays_bind_res stays_intros writing_calls_stay split: res.splits)

section \<open>Paths of stored files\<close>

text \<open>Paths below \<open>uploads\<close> whose last element is not named like a temporary file.\<close>

definition upload_path :: "string \<Rightarrow> bool" where
  "upload_path p \<longleftrightarrow> (\<exists>ds x. p = join_slash (''uploads'' # ds @ [x]) \<and> (\<forall>y \<in> set (ds @ [x]). good_elem y) \<and> \<not> HasPrefix x ''upload-'')"

definition under :: "string \<Rightarrow> string list \<Rightarrow> string" where
  "under base ps = slash # join_slash (filter (\<lambda>x. x \<noteq> []) (split_on slash base) @ ps)"

lemma clean_abs_elems:
  assumes "clean_abs base"
  obtains bs where "\<forall>x \<in> set bs. good_elem x" "base = slash # join_slash bs" "\<And>ps. under base ps = slash # join_slash (bs @ ps)"
proof -
  obtain bs where bs: "\<forall>x \<in> set bs. good_elem x" "base = slash # join_slash bs" using assms by (auto simp: clean_abs_def)
  have "split_on slash base = [] # (if bs = [] then [[]] else bs)"
    using split_on_join [of bs] bs by (auto simp: good_elem_def)
  moreover have "filter (\<lambda>x. x \<noteq> []) bs = bs" using bs(1) by (auto simp: good_elem_def)
  ultimately have "under base ps = slash # join_slash (bs @ ps)" for ps by (simp add: under_def)
  with bs that show thesis by blast
qed

lemma resolve_good:
  assumes "clean_abs base" "\<forall>x \<in> set ps. good_elem x" "ps \<noteq> []" "hd (hd ps) \<noteq> CHR 0x5C"
  shows "resolvePath base (join_slash ps) = Ret (under base ps)"
proof -
  obtain bs where bs: "\<forall>x \<in> set bs. good_elem x" "base = slash # join_slash bs" "under base ps = slash # join_slash (bs @ ps)"
    using clean_abs_elems [OF assms(1)] by metis
  obtain c cs xs where "ps = (c # cs) # xs" using assms(2,3) by (cases ps; cases "hd ps") (auto simp: good_elem_def)
  with assms(4) have "\<not> HasPrefix (join_slash ps) [CHR 0x5C]" by (cases xs) (auto simp: HasPrefix_def)
  moreover have "HasPrefix (slash # join_slash (bs @ ps)) base"
    using bs(2) assms(3) by (cases "bs = []") (auto simp: HasPrefix_def join_slash_append)
  ultimately show ?thesis
    using Clean_good [OF assms(2,3)] Join_good [OF bs(1) assms(2,3)] bs(3) by (simp add: resolvePath_def bs(2))
qed

lemma Dir_good:
  assumes "\<forall>x \<in> set xs. good_elem x" "slash \<notin> set x"
  shows "Dir (slash # join_slash (xs @ [x])) = slash # join_slash xs"
proof -
  let ?p = "slash # join_slash (xs @ [x])" and ?d = "if xs = [] then [slash] else slash # join_slash xs @ [slash]"
  have p: "?p = ?d @ x" by (cases "xs = []") (simp_all add: join_slash_append)
  have x: "\<forall>c \<in> set (rev x). c \<noteq> slash" using assms(2) by auto
  have "rev (dropWhile (\<lambda>c. c \<noteq> slash) (rev ?p)) = ?d"
    unfolding p rev_append by (subst dropWhile_append2) (use x in auto)
  moreover have "Clean ?d = slash # join_slash xs"
  proof -
    have "split_on slash ?d = [] # (if xs = [] then [[]] else xs @ [[]])"
      using split_on_join [of xs] split_on_append [of slash "slash # join_slash xs" "[]"] assms(1) by (auto simp: good_elem_def)
    then have "clean_elems True [] (split_on slash ?d) = xs" using clean_good [of xs True "[]" "[[]]"] assms(1) by auto
    then show ?thesis by (auto simp: Clean_def IsAbs_def HasPrefix_def slash_def)
  qed
  ultimately show ?thesis by (simp only: Dir_def)
qed

lemma HasSuffix_slash: "HasSuffix s ''/'' \<longleftrightarrow> s \<noteq> [] \<and> last s = slash"
  by (cases s rule: rev_cases) (auto simp: HasSuffix_def HasPrefix_def slash_def)

lemma in_dir_good:
  assumes "\<forall>x \<in> set xs. good_elem x"
  shows "in_dir (slash # join_slash xs) x = slash # join_slash (xs @ [x])"
proof (cases "xs = []")
  case False
  have "join_slash xs \<noteq> [] \<and> last (join_slash xs) \<noteq> slash"
    using False assms
  proof (induction xs rule: join_slash.induct)
    case (2 x)
    then have "x \<noteq> []" "slash \<notin> set x" by (auto simp: good_elem_def)
    then show ?case using last_in_set by fastforce
  qed auto
  then show ?thesis using False by (auto simp: in_dir_def HasSuffix_slash join_slash_append)
qed (simp add: in_dir_def HasSuffix_slash)

lemma temp_name_good: "good_elem (temp_name k)" "HasPrefix (temp_name k) ''upload-''"
proof -
  have "slash \<notin> set (dec_string k)" using dec_string_digits [of slash k] by (auto simp: slash_def less_eq_char_def)
  then show "good_elem (temp_name k)" "HasPrefix (temp_name k) ''upload-''"
    by (auto simp: temp_name_def good_elem_def slash_def HasPrefix_def)
qed

lemma under_inj:
  assumes "clean_abs base" "\<forall>x \<in> set ps. good_elem x" "\<forall>x \<in> set qs. good_elem x"
  shows "under base ps = under base qs \<longleftrightarrow> ps = qs"
proof -
  obtain bs where bs: "\<forall>x \<in> set bs. good_elem x" "\<And>ps. under base ps = slash # join_slash (bs @ ps)"
    using clean_abs_elems [OF assms(1)] by metis
  then show ?thesis using join_slash_inj [of "bs @ ps" "bs @ qs"] assms by auto
qed

text \<open>Where a path of a stored file leads, and where its temporary files are.\<close>

lemma upload_resolves:
  assumes "clean_abs base" "\<forall>y \<in> set (ds @ [x]). good_elem y"
  shows "resolvePath base (join_slash (''uploads'' # ds @ [x])) = Ret (under base (''uploads'' # ds @ [x]))"
    and "in_dir (Dir (under base (''uploads'' # ds @ [x]))) (temp_name k) = under base (''uploads'' # ds @ [temp_name k])"
proof -
  let ?ps = "''uploads'' # ds @ [x]"
  have up: "good_elem ''uploads''" by (simp add: good_elem_def slash_def)
  then have g: "\<forall>y \<in> set ?ps. good_elem y" using assms(2) by auto
  show "resolvePath base (join_slash ?ps) = Ret (under base ?ps)"
    using resolve_good [OF assms(1) g] by simp
  obtain bs where bs: "\<forall>x \<in> set bs. good_elem x" "\<And>ps. under base ps = slash # join_slash (bs @ ps)"
    using clean_abs_elems [OF assms(1)] by metis
  have xs: "\<forall>y \<in> set (bs @ ''uploads'' # ds). good_elem y" "slash \<notin> set x" using bs(1) up assms(2) by (auto simp: good_elem_def)
  show "in_dir (Dir (under base ?ps)) (temp_name k) = under base (''uploads'' # ds @ [temp_name k])"
    using Dir_good [OF xs] in_dir_good [OF xs(1), of "temp_name k"] by (simp add: bs(2))
qed

section \<open>The local driver keeps the contract\<close>

definition content_at :: "string \<Rightarrow> fs \<Rightarrow> string \<Rightarrow> string option" where
  "content_at base x p = (case resolvePath base p of Ret f \<Rightarrow> file_at x f | _ \<Rightarrow> None)"

definition stored_path :: "string \<Rightarrow> string \<Rightarrow> bool" where
  "stored_path base p \<longleftrightarrow> clean_abs base \<and> upload_path p"

lemma stored_pathE:
  assumes "stored_path base p"
  obtains ds x where "p = join_slash (''uploads'' # ds @ [x])" "\<forall>y \<in> set (ds @ [x]). good_elem y" "\<not> HasPrefix x ''upload-''"
    "clean_abs base" "resolvePath base p = Ret (under base (''uploads'' # ds @ [x]))"
  using assms upload_resolves(1) unfolding stored_path_def upload_path_def by metis

lemma stored_paths_apart:
  assumes "stored_path base p" "stored_path base q" "resolvePath base p = Ret f" "resolvePath base q = Ret g"
  shows "g = f \<Longrightarrow> q = p" "g \<noteq> in_dir (Dir f) (temp_name k)"
proof -
  obtain ds x where p: "p = join_slash (''uploads'' # ds @ [x])" "\<forall>y \<in> set (ds @ [x]). good_elem y" "\<not> HasPrefix x ''upload-''"
    "clean_abs base" "f = under base (''uploads'' # ds @ [x])" by (rule stored_pathE [OF assms(1)]) (use assms(3) in auto)
  obtain ds' y where q: "q = join_slash (''uploads'' # ds' @ [y])" "\<forall>z \<in> set (ds' @ [y]). good_elem z" "\<not> HasPrefix y ''upload-''"
    "g = under base (''uploads'' # ds' @ [y])" by (rule stored_pathE [OF assms(2)]) (use assms(4) in auto)
  have up: "good_elem ''uploads''" by (simp add: good_elem_def slash_def)
  have "y \<noteq> temp_name k" using q(3) temp_name_good(2) by auto
  then have ne: "ds' @ [y] \<noteq> ds @ [temp_name k]" by simp
  have gx: "\<forall>z \<in> set (''uploads'' # ds @ [x]). good_elem z" using p(2) up by simp
  have gy: "\<forall>z \<in> set (''uploads'' # ds' @ [y]). good_elem z" using q(2) up by simp
  have gt: "\<forall>z \<in> set (''uploads'' # ds @ [temp_name k]). good_elem z" using p(2) up temp_name_good(1) by simp
  show "g = f \<Longrightarrow> q = p" unfolding p(5) q(4) under_inj [OF p(4) gy gx] p(1) q(1) by simp
  show "g \<noteq> in_dir (Dir f) (temp_name k)"
    unfolding p(5) q(4) upload_resolves(2) [OF p(4,2)] under_inj [OF p(4) gy gt] using ne by simp
qed

lemma put_body_Ret:
  assumes "put_body os tmp full rd sz e w = (Ret bs, w')" "full \<noteq> tmp"
  shows "bs = rd_data rd" "file_at (s_fs (wdb w')) full = Some bs" "0 < sint sz \<longrightarrow> of_nat (length bs) = sz"
  using assms
  by (auto simp: put_body_def bindP_Ret_iff proc_simps io_Copy_def os_Close_def os_Rename_def syscall_def Let_def
      split: if_splits option.splits prod.splits)

lemma local_Put_Ret:
  assumes "local_Put os base c p rd sz m e w = (Ret bs, w')" "stored_path base p"
  shows "bs = rd_data rd \<and> content_at base (s_fs (wdb w')) p = Some bs \<and> (0 < sint sz \<longrightarrow> of_nat (length bs) = sz)"
proof -
  obtain full tmp w1 w2 where full: "resolvePath base p = Ret full" and t: "os_CreateTemp os (Dir full) e w1 = (Ret tmp, w2)"
    and b: "bindP (tryP (put_body os tmp full rd sz)) (\<lambda>r. bindP (tryP (os_Remove os tmp)) (\<lambda>_. lift_res r)) e w2 = (Ret bs, w')"
    using assms(1) unfolding local_Put_def by (auto simp: bindP_Ret_iff proc_simps)
  obtain k where k: "tmp = in_dir (Dir full) (temp_name k)" using CreateTemp_Ret [OF t] by blast
  have ne: "full \<noteq> tmp" unfolding k by (rule stored_paths_apart(2) [OF assms(2,2) full full])
  obtain w3 r where p: "put_body os tmp full rd sz e w2 = (Ret bs, w3)" and r: "tryP (os_Remove os tmp) e w3 = (Ret r, w')"
    using b by (auto simp: bindP_Ret_iff proc_simps tryP_Ret_iff)
  have "touches (\<lambda>q. q = tmp) (wdb w3) (wdb w')"
    using staysD [OF touch.stays_handlers(3) [OF writing_calls_stay(3)] r] by simp
  then have "file_at (s_fs (wdb w')) full = file_at (s_fs (wdb w3)) full" using ne by (auto simp: touches_def)
  with put_body_Ret [OF p ne] show ?thesis by (simp add: content_at_def full)
qed

lemma content_frame:
  assumes "touches P s s'" "\<And>g. resolvePath base q = Ret g \<Longrightarrow> \<not> P g"
  shows "content_at base (s_fs s') q = content_at base (s_fs s) q"
  using assms by (auto simp: content_at_def touches_def split: res.splits)

interpretation local_store: storage_contract "local_driver os base" "content_at base" "stored_path base" "\<lambda>n. \<not> io_error os n" for os base
proof unfold_locales
  fix p c rd sz m e and w :: "'d site world" and bs w'
  assume "stored_path base p" "drv_Put (local_driver os base) c p rd sz m e w = (Ret bs, w')"
  then show "bs = rd_data rd \<and> content_at base (s_fs (wdb w')) p = Some bs \<and> (0 < sint sz \<longrightarrow> of_nat (length bs) = sz)"
    using local_Put_Ret by (simp add: local_driver_def) 
next
  fix p q c rd sz m e and w :: "'d site world" and r w'
  assume ok: "stored_path base p" "stored_path base q" "q \<noteq> p" and put: "drv_Put (local_driver os base) c p rd sz m e w = (r, w')"
  let ?P = "\<lambda>f. \<exists>full. resolvePath base p = Ret full \<and> (f = full \<or> (\<exists>k. f = in_dir (Dir full) (temp_name k)))"
  have "touches ?P (wdb w) (wdb w')"
    by (rule staysD [OF local_Put_stays]) (use put in \<open>auto simp: local_driver_def\<close>)
  then show "content_at base (s_fs (wdb w')) q = content_at base (s_fs (wdb w)) q"
    by (rule content_frame) (use stored_paths_apart [OF ok(1,2)] ok(3) in blast)
next
  fix p c rd sz m e and w :: "'d site world" and r w'
  assume "drv_Put (local_driver os base) c p rd sz m e w = (r, w')"
  then show "s_db (wdb w') = s_db (wdb w)"
    using staysD [OF local_Put_stays [of base p "\<lambda>_. True"]] by (auto simp: local_driver_def touches_def)
next
  fix p q c e and w :: "'d site world" and r w'
  assume ok: "stored_path base p" "stored_path base q" "q \<noteq> p" and d: "drv_Delete (local_driver os base) c p e w = (r, w')"
  have "touches (\<lambda>f. resolvePath base p = Ret f) (wdb w) (wdb w')"
    by (rule staysD [OF local_Delete_stays]) (use d in \<open>auto simp: local_driver_def\<close>)
  then show "content_at base (s_fs (wdb w')) q = content_at base (s_fs (wdb w)) q"
    by (rule content_frame) (use stored_paths_apart [OF ok(1,2)] ok(3) in blast)
next
  fix p c e and w :: "'d site world" and r w'
  assume "drv_Delete (local_driver os base) c p e w = (r, w')"
  then show "s_db (wdb w') = s_db (wdb w)"
    using staysD [OF local_Delete_stays [of base p "\<lambda>_. True"]] by (auto simp: local_driver_def touches_def)
next
  fix p c e and w :: "'d site world" and msg w'
  show "drv_Delete (local_driver os base) c p e w \<noteq> (Panic msg, w')"
    by (auto simp: local_driver_def local_Delete_def resolvePath_def proc_eval os_Remove_def syscall_def afterP_def split: if_splits)
next
  fix p c e and w :: "'d site world" and r w'
  assume "drv_Get (local_driver os base) c p e w = (r, w')"
  then show "wdb w' = wdb w"
    by (auto simp: local_driver_def local_Get_def bindP_def tryP_def os_Open_def syscall_def Let_def lift_res_def ret_def fail_def
        split: if_splits res.splits option.splits prod.splits)
next
  fix p c e and w :: "'d site world" and bs
  assume "content_at base (s_fs (wdb w)) p = Some bs" "\<not> io_error os (tick w)"
  then show "fst (drv_Get (local_driver os base) c p e w) = Ret \<lparr>rd_data = bs, rd_err = False\<rparr>"
    by (auto simp: local_driver_def local_Get_def content_at_def proc_eval os_Open_def syscall_def split: res.splits)
qed

end
