(* ===== verification/AttachmentProps.thy ===== *)
theory AttachmentProps
  imports Attachment StorageProps
begin

text \<open>
  Runs of the file and attachment use cases over any storage driver that keeps its contract, and over the
  local one: what was uploaded is what a download returns, and an upload touches nothing outside
  the directory of its tenant.
\<close>

section \<open>Identifiers in text\<close>

definition hex_value :: "string \<Rightarrow> nat" where
  "hex_value s = foldl (\<lambda>a c. 16 * a + (if of_char c < (58 :: nat) then of_char c - 48 else of_char c - 87)) 0 s"

lemma hex_value_append:
  "hex_value (s @ [c]) = 16 * hex_value s + (if of_char c < (58 :: nat) then of_char c - 48 else of_char c - 87)"
  by (simp add: hex_value_def)

lemma base_string_16:
  "base_string 16 n = (if n < 16 then [digit_char n] else base_string 16 (n div 16) @ [digit_char (n mod 16)])"
  by (subst base_string.simps) simp

lemma digit_char_16:
  "d < 16 \<Longrightarrow> (if of_char (digit_char d) < (58 :: nat) then of_char (digit_char d) - 48 else of_char (digit_char d) - 87) = d"
  by (auto simp: digit_char_def)

lemma hex_value_base_string: "hex_value (base_string 16 n) = n"
proof (induction n rule: less_induct)
  case (less n)
  show ?case
  proof (cases "n < 16")
    case True
    then show ?thesis using digit_char_16 [OF True] by (subst base_string_16) (simp add: hex_value_def)
  next
    case False
    then have "base_string 16 n = base_string 16 (n div 16) @ [digit_char (n mod 16)]" by (subst base_string_16) simp
    with False less [of "n div 16"] digit_char_16 [of "n mod 16"] show ?thesis by (simp only: hex_value_append) simp
  qed
qed

lemma hex_value_pad: "hex_value (pad_zeros k s) = hex_value s"
proof -
  have "foldl (\<lambda>a c. 16 * a + (if of_char c < (58 :: nat) then of_char c - 48 else of_char c - 87)) (0 :: nat) (replicate m (CHR ''0'')) = 0" for m
    by (induction m) auto
  then show ?thesis by (simp add: hex_value_def pad_zeros_def)
qed

lemma length_base_string_16: "n < 16 ^ Suc k \<Longrightarrow> length (base_string 16 n) \<le> Suc k"
proof (induction k arbitrary: n)
  case 0
  then show ?case by (subst base_string_16) simp
next
  case (Suc k)
  have "n div 16 < 16 ^ Suc k" using Suc.prems by (simp add: less_mult_imp_div_less)
  from Suc.IH [OF this] show ?case by (subst base_string_16) simp
qed

lemma length_hex_id: "length (pad_zeros 32 (base_string 16 (unat (i :: ID)))) = 32"
proof -
  have "unat i < 16 ^ Suc 31" using unsigned_less [of i] by simp
  from length_base_string_16 [OF this] show ?thesis by simp
qed

lemma ID_String_inj: "ID_String i = ID_String j \<longleftrightarrow> i = j"
proof
  assume eq: "ID_String i = ID_String j"
  let ?h = "\<lambda>i :: ID. pad_zeros 32 (base_string 16 (unat i))"
  have d: "?h i = take 8 (ID_String i) @ take 4 (drop 9 (ID_String i)) @ take 4 (drop 14 (ID_String i)) @
      take 4 (drop 19 (ID_String i)) @ drop 24 (ID_String i)" for i
  proof -
    have "?h i = take 8 (?h i) @ take 4 (drop 8 (?h i)) @ take 4 (drop 12 (?h i)) @ take 4 (drop 16 (?h i)) @ drop 20 (?h i)"
    proof -
      have s: "take m (drop n (?h i)) @ drop (m + n) (?h i) = drop n (?h i)" for m n
        by (metis append_take_drop_id drop_drop)
      show ?thesis using s [of 4 16] s [of 4 12] s [of 4 8] s [of 8 0] by simp
    qed
    then show ?thesis using length_hex_id [of i] by (simp add: ID_String_def Let_def)
  qed
  have "?h i = ?h j" using d [of i] d [of j] unfolding eq by (rule trans [OF _ sym])
  then have "unat i = unat j" by (metis hex_value_base_string hex_value_pad)
  then show "i = j" by (simp add: word_unat_eq_iff)
qed simp

lemma ID_String_chars: "c \<in> set (ID_String i) \<Longrightarrow> c = CHR ''-'' \<or> CHR ''0'' \<le> c \<and> c \<le> CHR ''f''"
proof -
  assume c: "c \<in> set (ID_String i)"
  let ?h = "pad_zeros 32 (base_string 16 (unat i))"
  have "CHR ''0'' \<le> x \<and> x \<le> CHR ''f''" if "x \<in> set ?h" for x
    using that base_string_hex [of x "unat i"] by (auto simp: pad_zeros_def less_eq_char_def)
  moreover have "set (ID_String i) \<subseteq> insert (CHR ''-'') (set ?h)"
    by (auto simp: ID_String_def Let_def dest: in_set_takeD in_set_dropD)
  ultimately show ?thesis using c by auto
qed

lemma length_ID_String: "length (ID_String i) = 36"
  using length_hex_id [of i] by (simp add: ID_String_def Let_def)

lemma fmt_0d_chars: "c \<in> set (fmt_0d k v) \<Longrightarrow> c = CHR ''-'' \<or> CHR ''0'' \<le> c \<and> c \<le> CHR ''9''"
  using dec_string_digits by (auto simp: fmt_0d_def pad_zeros_def less_eq_char_def split: if_splits)

section \<open>Paths of uploads\<close>

lemma good_elem_chars: "s \<noteq> [] \<Longrightarrow> CHR ''.'' \<notin> set s \<Longrightarrow> slash \<notin> set s \<Longrightarrow> good_elem s"
  by (auto simp: good_elem_def)

lemma good_elem_long: "2 < length s \<Longrightarrow> slash \<notin> set s \<Longrightarrow> good_elem s"
  by (auto simp: good_elem_def)

lemma ID_String_no: "CHR ''.'' \<notin> set (ID_String i)" "slash \<notin> set (ID_String i)" "CHR ''u'' \<notin> set (ID_String i)"
  using ID_String_chars [of "CHR ''.''" i] ID_String_chars [of slash i] ID_String_chars [of "CHR ''u''" i]
  by (auto simp: slash_def less_eq_char_def)

lemma fmt_0d_good: "good_elem (fmt_0d (Suc k) v)"
proof (rule good_elem_chars)
  have "length (fmt_0d (Suc k) v) \<ge> 1" by (auto simp: fmt_0d_def)
  then show "fmt_0d (Suc k) v \<noteq> []" by auto
  show "CHR ''.'' \<notin> set (fmt_0d (Suc k) v)" "slash \<notin> set (fmt_0d (Suc k) v)"
    using fmt_0d_chars [of "CHR ''.''" "Suc k" v] fmt_0d_chars [of slash "Suc k" v] by (auto simp: slash_def less_eq_char_def)
qed

lemma Ext_no_slash: "slash \<notin> set (Ext s)"
  by (auto simp: Ext_def Let_def after_slash_def slash_def dest!: set_takeWhileD)

definition path_elems :: "ID \<Rightarrow> gotime \<Rightarrow> string list" where
  "path_elems tenantID now = [ID_String tenantID, fmt_0d 4 (Year now), fmt_0d 2 (Month now)]"

lemma storage_path_elems:
  "storage_path t now i name = join_slash (''uploads'' # path_elems t now @ [ID_String i @ Ext name])"
  by (simp add: storage_path_def path_elems_def slash_def)

lemma path_elems_good: "\<forall>y \<in> set (path_elems t now @ [ID_String i @ Ext name]). good_elem y"
proof -
  have "ID_String i \<noteq> []" for i using length_ID_String [of i] by auto
  then have "good_elem (ID_String i)" for i using ID_String_no by (intro good_elem_chars) auto
  moreover have "good_elem (ID_String i @ Ext name)"
  proof -
    have "length (ID_String i @ Ext name) > 2" using length_ID_String [of i] by simp
    moreover have "slash \<notin> set (ID_String i @ Ext name)" using ID_String_no(2) Ext_no_slash by simp
    ultimately show ?thesis by (rule good_elem_long)
  qed
  moreover have "good_elem (fmt_0d 4 v)" "good_elem (fmt_0d 2 v)" for v
    using fmt_0d_good [of 3 v] fmt_0d_good [of 1 v] by (simp_all add: eval_nat_numeral)
  ultimately show ?thesis by (simp add: path_elems_def)
qed

lemma storage_path_upload: "upload_path (storage_path t now i name)"
proof -
  obtain c cs where "ID_String i = c # cs" using length_ID_String [of i] by (cases "ID_String i") auto
  then have "\<not> HasPrefix (ID_String i @ Ext name) ''upload-''" using ID_String_no(3) [of i] by (auto simp: HasPrefix_def)
  then show ?thesis unfolding upload_path_def storage_path_elems using path_elems_good by blast
qed

lemma storage_path_id: "storage_path t now i name = storage_path t' now' i' name' \<Longrightarrow> i = i'"
proof -
  assume "storage_path t now i name = storage_path t' now' i' name'"
  moreover have up: "good_elem ''uploads''" by (simp add: good_elem_def slash_def)
  ultimately have "''uploads'' # path_elems t now @ [ID_String i @ Ext name] = ''uploads'' # path_elems t' now' @ [ID_String i' @ Ext name']"
    unfolding storage_path_elems using path_elems_good by (intro join_slash_inj) auto
  then have "ID_String i @ Ext name = ID_String i' @ Ext name'" by (auto simp: path_elems_def)
  then have "ID_String i = ID_String i'" using length_ID_String [of i] length_ID_String [of i'] by simp
  then show ?thesis by (simp add: ID_String_inj)
qed

section \<open>Integrity\<close>

text \<open>Every recorded file has its own path, made from its identifier, and the content its digest and size tell.\<close>

definition file_intact :: "(fs \<Rightarrow> string \<Rightarrow> string option) \<Rightarrow> (string \<Rightarrow> bool) \<Rightarrow> (string \<Rightarrow> string) \<Rightarrow> fs \<Rightarrow> file_row \<Rightarrow> bool" where
  "file_intact content ok sha x r \<longleftrightarrow>
     ok (flr_storage_path r) \<and> (\<exists>t now name. flr_storage_path r = storage_path t now (flr_id r) name) \<and>
     (\<exists>bs. content x (flr_storage_path r) = Some bs \<and> flr_sha256_hash r = sha bs \<and>
        (0 < sint (flr_size_bytes r) \<longrightarrow> of_nat (length bs) = flr_size_bytes r))"

definition files_ok :: "(fs \<Rightarrow> string \<Rightarrow> string option) \<Rightarrow> (string \<Rightarrow> bool) \<Rightarrow> (string \<Rightarrow> string) \<Rightarrow> db site \<Rightarrow> bool" where
  "files_ok content ok sha s \<longleftrightarrow> distinct (map flr_id (t_files (s_db s))) \<and> (\<forall>r \<in> set (t_files (s_db s)). file_intact content ok sha (s_fs s) r)"

text \<open>A step keeps this, and keeps the rows and contents of the files in \<open>X\<close>.\<close>

definition files_step :: "(fs \<Rightarrow> string \<Rightarrow> string option) \<Rightarrow> (string \<Rightarrow> bool) \<Rightarrow> (string \<Rightarrow> string) \<Rightarrow> ID set \<Rightarrow> db site \<Rightarrow> db site \<Rightarrow> bool" where
  "files_step content ok sha X s s' \<longleftrightarrow>
     (files_ok content ok sha s \<longrightarrow> files_ok content ok sha s' \<and>
        (\<forall>r \<in> set (t_files (s_db s)). flr_id r \<in> X \<longrightarrow>
           r \<in> set (t_files (s_db s')) \<and> content (s_fs s') (flr_storage_path r) = content (s_fs s) (flr_storage_path r)))"

interpretation file_steps: db_order "files_step content ok sha X" for content ok sha X
  by unfold_locales (auto simp: files_step_def)

lemma same_files_step:
  assumes "t_files (s_db s') = t_files (s_db s)"
    and "files_ok content ok sha s \<Longrightarrow> \<forall>r \<in> set (t_files (s_db s)). content (s_fs s') (flr_storage_path r) = content (s_fs s) (flr_storage_path r)"
  shows "files_step content ok sha X s s'"
  using assms by (auto simp: files_step_def files_ok_def file_intact_def)

lemma on_db_cases:
  assumes "on_db m e w = (r, w')"
  obtains w1 where "m e \<lparr>wdb = s_db (wdb w), wtx = None, tick = tick w\<rparr> = (r, w1)" "s_db (wdb w') = wdb w1" "s_fs (wdb w') = s_fs (wdb w)"
    "tick w' = tick w1"
  using assms by (auto simp: on_db_def split: prod.splits)

lemma on_db_keeps: "keeps_db m \<Longrightarrow> on_db m e w = (r, w') \<Longrightarrow> wdb w' = wdb w"
  by (auto simp: on_db_def keeps_db_def split: prod.splits) (metis snd_conv world.select_convs(1) site.surjective site.update_convs(1))

lemma stmt_refused:
  "stmt (pool_ctx c) f e w = (r, w') \<Longrightarrow> fault_at e (tick w) \<noteq> ReplyLost \<Longrightarrow> \<not> is_Ret r \<Longrightarrow> wdb w' = wdb w"
  by (auto simp: stmt_def Let_def split: fault.splits prod.splits res.splits)

lemma CreateFile_cases:
  assumes "on_db (att_repo_CreateFile c f) e w = (r, w')" "\<forall>n. fault_at e n \<noteq> ReplyLost"
  shows "s_fs (wdb w') = s_fs (wdb w)"
    and "\<not> is_Ret r \<Longrightarrow> wdb w' = wdb w"
    and "r = Ret g \<Longrightarrow> \<exists>t. t_files (s_db (wdb w')) = t_files (s_db (wdb w)) @ [(file_row_of f)\<lparr>flr_created_at := t, flr_updated_at := t\<rparr>] \<and>
       fi_ID f \<notin> flr_id ` set (t_files (s_db (wdb w))) \<and> fi_ID f \<noteq> NilID \<and>
       g = f\<lparr>fi_CreatedAt := ts_local (local_off e) t, fi_UpdatedAt := ts_local (local_off e) t\<rparr>"
proof -
  let ?w = "\<lparr>wdb = s_db (wdb w), wtx = None, tick = tick w\<rparr>"
  obtain w1 where m: "att_repo_CreateFile c f e ?w = (r, w1)" and w': "w' = w\<lparr>wdb := (wdb w)\<lparr>s_db := wdb w1\<rparr>, tick := tick w1\<rparr>"
    using assms(1) by (auto simp: on_db_def split: prod.splits)
  show "s_fs (wdb w') = s_fs (wdb w)" using w' by simp
  obtain r1 w2 where s: "stmt (pool_ctx c) (sql_CreateFile (file_row_of f)) e ?w = (r1, w2)" by fastforce
  have "\<not> is_Ret r \<Longrightarrow> \<not> is_Ret r1 \<and> w1 = w2"
    using m s by (cases r1) (auto simp: att_repo_CreateFile_def read_with_def bindP_def ask_env_def ret_def)
  then show "\<not> is_Ret r \<Longrightarrow> wdb w' = wdb w" using stmt_refused [OF s] assms(2) w' by auto
  assume "r = Ret g"
  with m have "\<exists>t. t_files (wdb w1) = t_files (s_db (wdb w)) @ [(file_row_of f)\<lparr>flr_created_at := t, flr_updated_at := t\<rparr>] \<and>
       flr_id (file_row_of f) \<notin> flr_id ` set (t_files (s_db (wdb w))) \<and> flr_id (file_row_of f) \<noteq> NilID \<and>
       g = f\<lparr>fi_CreatedAt := ts_local (local_off e) t, fi_UpdatedAt := ts_local (local_off e) t\<rparr>"
    by (auto simp: att_repo_CreateFile_def read_with_Ret_iff stmt_Ret_outside sql_CreateFile_def Let_def insert_row_Ret_iff list_ex_iff
        split: prod.splits intro!: exI [of _ "dbnow_at e (tick w)"])
  then show "\<exists>t. t_files (s_db (wdb w')) = t_files (s_db (wdb w)) @ [(file_row_of f)\<lparr>flr_created_at := t, flr_updated_at := t\<rparr>] \<and>
       fi_ID f \<notin> flr_id ` set (t_files (s_db (wdb w))) \<and> fi_ID f \<noteq> NilID \<and>
       g = f\<lparr>fi_CreatedAt := ts_local (local_off e) t, fi_UpdatedAt := ts_local (local_off e) t\<rparr>"
    using w' by (simp add: file_row_of_def)
qed

lemma GetFileByID_Ret:
  assumes "on_db (att_repo_GetFileByID c t i) e w = (Ret f, w')"
  obtains row where "row \<in> set (t_files (s_db (wdb w)))" "flr_tenant_id row = t" "flr_id row = i" "f = toDomainFile (local_off e) row"
    "wdb w' = wdb w" "tick w' = Suc (tick w)" "own_file t i row"
proof -
  obtain row where s: "sql_GetFileByID t i (s_db (wdb w)) = Ret row" and r: "f = toDomainFile (local_off e) row"
    "wdb w' = wdb w" "tick w' = Suc (tick w)"
    using assms by (auto simp: on_db_def att_repo_GetFileByID_def read_with_Ret_iff proc_simps query_Ret_outside split: prod.splits)
  have "row \<in> set (t_files (s_db (wdb w))) \<and> own_file t i row"
    using s select_one_in by (fastforce simp: sql_GetFileByID_def)
  with r s show thesis by (intro that) (auto simp: own_file_def pg_eq_def)
qed

lemma GetFileByID_keeps: "keeps_db (att_repo_GetFileByID c t i)"
  unfolding att_repo_GetFileByID_def by (intro keeps_intros)

lemma DeleteFile_answers:
  assumes "on_db (att_repo_DeleteFile c t i) e w = (r, w')" "\<forall>n. fault_at e n = NoFault"
  shows "t_files (s_db (wdb w')) = filter (\<lambda>r. \<not> own_file t i r) (t_files (s_db (wdb w)))" "s_fs (wdb w') = s_fs (wdb w)"
  using assms by (auto simp: on_db_def att_repo_DeleteFile_def stmt_def sql_DeleteFile_def Let_def)

section \<open>The use case over a storage that keeps its contract\<close>

locale attachment_client = storage_contract drv content ok live
  for drv :: "db Driver" and content ok live +
  fixes u :: AttachmentUsecase
  assumes driver: "au_driver u = drv"
    and uploads: "ok (storage_path t now i name)"
begin

lemma apart:
  assumes "files_ok content ok sha s" "r \<in> set (t_files (s_db s))" "i \<noteq> flr_id r"
  shows "ok (flr_storage_path r)" "flr_storage_path r \<noteq> storage_path t now i name"
proof -
  have "file_intact content ok sha (s_fs s) r" using assms(1,2) by (simp add: files_ok_def)
  then obtain t' now' name' where "ok (flr_storage_path r)" "flr_storage_path r = storage_path t' now' (flr_id r) name'"
    unfolding file_intact_def by blast
  then show "ok (flr_storage_path r)" "flr_storage_path r \<noteq> storage_path t now i name" using assms(3) storage_path_id by metis+
qed

lemma put_step:
  assumes "drv_Put drv c (storage_path t now i name) rd sz m e w = (r, w')" "i \<notin> flr_id ` set (t_files (s_db (wdb w)))"
  shows "files_step content ok sha X (wdb w) (wdb w')"
proof (rule same_files_step)
  show "t_files (s_db (wdb w')) = t_files (s_db (wdb w))" using put_db [OF assms(1)] by simp
  assume "files_ok content ok sha (wdb w)"
  then show "\<forall>r \<in> set (t_files (s_db (wdb w))). content (s_fs (wdb w')) (flr_storage_path r) = content (s_fs (wdb w)) (flr_storage_path r)"
    using put_frame [OF uploads _ _ assms(1)] apart assms(2) by (metis image_eqI)
qed

lemma delete_step:
  assumes "drv_Delete drv c (storage_path t now i name) e w = (r, w')" "i \<notin> flr_id ` set (t_files (s_db (wdb w)))"
  shows "files_step content ok sha X (wdb w) (wdb w')"
proof (rule same_files_step)
  show "t_files (s_db (wdb w')) = t_files (s_db (wdb w))" using delete_db [OF assms(1)] by simp
  assume "files_ok content ok sha (wdb w)"
  then show "\<forall>r \<in> set (t_files (s_db (wdb w))). content (s_fs (wdb w')) (flr_storage_path r) = content (s_fs (wdb w)) (flr_storage_path r)"
    using delete_frame [OF uploads _ _ assms(1)] apart assms(2) by (metis image_eqI)
qed

lemma record_step:
  assumes "record_file u c f e w = (r, w')" "\<forall>n. fault_at e n \<noteq> ReplyLost" "fi_StoragePath f = storage_path t now (fi_ID f) name"
    and "content (s_fs (wdb w)) (fi_StoragePath f) = Some bs" "fi_SHA256Hash f = sha bs"
    and "0 < sint (fi_SizeBytes f) \<longrightarrow> of_nat (length bs) = fi_SizeBytes f" "fi_ID f \<notin> flr_id ` set (t_files (s_db (wdb w)))"
  shows "files_step content ok sha X (wdb w) (wdb w')"
proof -
  obtain r1 w1 where m: "on_db (att_repo_CreateFile c f) e w = (r1, w1)" by fastforce
  note cf = CreateFile_cases [OF m assms(2)]
  show ?thesis
  proof (cases r1)
    case (Ret g)
    with assms(1) m have w': "w' = w1" by (simp add: record_file_def bindP_def tryP_def ret_def)
    obtain d where rows: "t_files (s_db (wdb w1)) = t_files (s_db (wdb w)) @ [(file_row_of f)\<lparr>flr_created_at := d, flr_updated_at := d\<rparr>]"
      using cf(3) [OF Ret] by blast
    let ?r = "(file_row_of f)\<lparr>flr_created_at := d, flr_updated_at := d\<rparr>"
    have "file_intact content ok sha (s_fs (wdb w1)) ?r"
      using assms(3-6) uploads [of t now "fi_ID f" name] unfolding file_intact_def cf(1) by (auto simp: file_row_of_def)
    then show ?thesis
      using assms(7) unfolding files_step_def files_ok_def w' rows cf(1) by (auto simp: file_row_of_def)
  next
    case (Fail er)
    obtain r2 where d: "drv_Delete drv c (fi_StoragePath f) e w1 = (r2, w')"
      using assms(1) m Fail by (auto simp: record_file_def bindP_def tryP_def fail_def driver split: prod.splits res.splits)
    have w1: "wdb w1 = wdb w" using cf(2) Fail by simp
    show ?thesis using delete_step [OF d [unfolded assms(3)]] assms(7) unfolding w1 by simp
  next
    case (Panic p)
    then have "wdb w' = wdb w" using assms(1) m cf(2) by (auto simp: record_file_def bindP_def tryP_def)
    then show ?thesis by (simp add: file_steps.R_refl)
  qed
qed

lemma upload_step:
  assumes "UploadFile u c cmd e w = (r, w')" "\<forall>n. fault_at e n \<noteq> ReplyLost"
    and "\<forall>n i. newid_at e n = Some i \<longrightarrow> i \<notin> flr_id ` set (t_files (s_db (wdb w)))"
  shows "files_step content ok (au_sha256 u) X (wdb w) (wdb w')"
proof -
  let ?name = "SanitizeFilename (uf_Filename cmd)" and ?mime = "ToLower (TrimSpace (uf_MimeType cmd))"
  let ?rest = "\<lambda>i now. bindP (wrap_err ''failed to save file to storage''
      (drv_Put (au_driver u) c (storage_path (uf_TenantID cmd) now i ?name) (uf_Reader cmd) (uf_SizeBytes cmd) ?mime))
      (\<lambda>bs. record_file u c (new_file i cmd (storage_path (uf_TenantID cmd) now i ?name) ?name ?mime (au_sha256 u bs) now))"
  have "wdb w' = wdb w \<or> (\<exists>i now w1. newid_at e (tick w) = Some i \<and> wdb w1 = wdb w \<and> ?rest i now e w1 = (r, w'))"
    using assms(1) unfolding UploadFile_def Let_def
    by (auto simp: bindP_eval guard_def ret_def fail_def NewID_def Now_def afterP_def split: if_splits option.splits)
  then show ?thesis
  proof (elim disjE exE conjE)
    assume "wdb w' = wdb w"
    then show ?thesis by (simp add: file_steps.R_refl)
  next
    fix i now w1
    let ?path = "storage_path (uf_TenantID cmd) now i ?name"
    assume i: "newid_at e (tick w) = Some i" and w1: "wdb w1 = wdb w" and rest: "?rest i now e w1 = (r, w')"
    obtain r2 w2 where p: "drv_Put drv c ?path (uf_Reader cmd) (uf_SizeBytes cmd) ?mime e w1 = (r2, w2)" by fastforce
    have fresh: "i \<notin> flr_id ` set (t_files (s_db (wdb w1)))" using assms(3) i w1 by auto
    have s1: "files_step content ok (au_sha256 u) X (wdb w) (wdb w2)" using put_step [OF p fresh] w1 by simp
    show ?thesis
    proof (cases r2)
      case (Ret bs)
      let ?f = "new_file i cmd ?path ?name ?mime (au_sha256 u bs) now"
      have rec: "record_file u c ?f e w2 = (r, w')" using rest p Ret by (simp add: bindP_def wrap_err_def driver)
      note pr = put_Ret [OF uploads p [unfolded Ret]]
      have "files_step content ok (au_sha256 u) X (wdb w2) (wdb w')"
        by (rule record_step [OF rec assms(2), where t = "uf_TenantID cmd" and now = now and name = ?name and bs = bs])
          (use pr fresh put_db [OF p] in \<open>auto simp: new_file_def\<close>)
      with s1 show ?thesis by (rule file_steps.R_trans)
    qed (use rest p s1 in \<open>auto simp: bindP_def wrap_err_def driver\<close>)
  qed
qed

lemma delete_file_step:
  assumes "DeleteFile u c t i e w = (r, w')" "\<forall>n. fault_at e n = NoFault" "i \<notin> X"
  shows "files_step content ok sha X (wdb w) (wdb w')"
proof -
  obtain r1 w1 where g: "on_db (att_repo_GetFileByID c t i) e w = (r1, w1)" by fastforce
  show ?thesis
  proof (cases "\<exists>f. r1 = Ret f")
    case False
    then have "wdb w' = wdb w" using assms(1) g on_db_keeps [OF GetFileByID_keeps g] by (cases r1) (auto simp: DeleteFile_def bindP_def)
    then show ?thesis by (simp add: file_steps.R_refl)
  next
    case True
    then obtain row where row: "row \<in> set (t_files (s_db (wdb w)))" "flr_tenant_id row = t" "flr_id row = i"
      "r1 = Ret (toDomainFile (local_off e) row)" "wdb w1 = wdb w" "own_file t i row" using GetFileByID_Ret [of c t i e w] g by metis
    let ?p = "flr_storage_path row"
    obtain r2 w2 where d: "drv_Delete drv c ?p e w1 = (r2, w2)" by fastforce
    have rest: "on_db (att_repo_DeleteFile c t i) e w2 = (r, w')"
      using assms(1) g row(4) d delete_no_panic by (cases r2) (auto simp: DeleteFile_def bindP_def tryP_def driver toDomainFile_def)
    show ?thesis
    proof (unfold files_step_def, intro impI)
      assume fok: "files_ok content ok sha (wdb w)"
      have frame: "content (s_fs (wdb w2)) (flr_storage_path s) = content (s_fs (wdb w)) (flr_storage_path s)"
        if "s \<in> set (t_files (s_db (wdb w)))" "flr_id s \<noteq> i" for s
      proof -
        have ri: "file_intact content ok sha (s_fs (wdb w)) row" using fok row(1) by (simp add: files_ok_def)
        then obtain t' now' name' where p: "?p = storage_path t' now' i name'" unfolding file_intact_def row(3) by blast
        show ?thesis
          using delete_frame [OF uploads _ _ d [unfolded p]] apart [OF fok that(1)] that(2) row(5) by metis
      qed
      have rows: "t_files (s_db (wdb w')) = filter (\<lambda>r. \<not> own_file t i r) (t_files (s_db (wdb w)))" and same: "s_fs (wdb w') = s_fs (wdb w2)"
        using DeleteFile_answers [OF rest assms(2)] delete_db [OF d] row(5) by simp_all
      have other: "flr_id s \<noteq> i" if "s \<in> set (t_files (s_db (wdb w)))" "\<not> own_file t i s" for s
        using that fok row(1,3,6) distinct_map_inj [of flr_id "t_files (s_db (wdb w))" s row] by (auto simp: files_ok_def)
      show "files_ok content ok sha (wdb w') \<and> (\<forall>s \<in> set (t_files (s_db (wdb w))). flr_id s \<in> X \<longrightarrow>
          s \<in> set (t_files (s_db (wdb w'))) \<and> content (s_fs (wdb w')) (flr_storage_path s) = content (s_fs (wdb w)) (flr_storage_path s))"
      proof -
        have keep: "file_intact content ok sha (s_fs (wdb w2)) s" if "s \<in> set (t_files (s_db (wdb w)))" "\<not> own_file t i s" for s
        proof -
          have "file_intact content ok sha (s_fs (wdb w)) s" using fok that(1) by (simp add: files_ok_def)
          then show ?thesis using frame [OF that(1) other [OF that]] by (simp add: file_intact_def)
        qed
        have stay: "\<not> own_file t i s" "content (s_fs (wdb w2)) (flr_storage_path s) = content (s_fs (wdb w)) (flr_storage_path s)"
          if "s \<in> set (t_files (s_db (wdb w)))" "flr_id s \<in> X" for s
          using that assms(3) frame [OF that(1)] by (auto simp: own_file_def pg_eq_def)
        have "distinct (map flr_id (t_files (s_db (wdb w))))" using fok by (simp add: files_ok_def)
        then show ?thesis unfolding rows same files_ok_def using keep stay by (simp add: distinct_map_filter)
      qed
    qed
  qed
qed

lemma upload_Ret:
  assumes "UploadFile u c cmd e w = (Ret f, w')" "\<forall>n. fault_at e n \<noteq> ReplyLost"
  obtains row where "row \<in> set (t_files (s_db (wdb w')))" "flr_tenant_id row = uf_TenantID cmd" "flr_id row = fi_ID f"
    "content (s_fs (wdb w')) (flr_storage_path row) = Some (rd_data (uf_Reader cmd))" "fi_ID f \<noteq> NilID" "uf_TenantID cmd \<noteq> NilID"
    "toDomainFile (local_off e) row =
       f\<lparr>fi_Metadata := map_of_json (json_of_map (uf_Metadata cmd)), fi_UploadedBy := id_of_ptr (uf_UploadedBy cmd)\<rparr>"
    "fi_SHA256Hash f = au_sha256 u (rd_data (uf_Reader cmd))"
proof -
  let ?name = "SanitizeFilename (uf_Filename cmd)" and ?mime = "ToLower (TrimSpace (uf_MimeType cmd))"
  obtain i now bs w1 w2 where t: "uf_TenantID cmd \<noteq> NilID"
    and p: "drv_Put drv c (storage_path (uf_TenantID cmd) now i ?name) (uf_Reader cmd) (uf_SizeBytes cmd) ?mime e w1 = (Ret bs, w2)"
    and rec: "record_file u c (new_file i cmd (storage_path (uf_TenantID cmd) now i ?name) ?name ?mime (au_sha256 u bs) now) e w2 = (Ret f, w')"
    using assms(1) unfolding UploadFile_def Let_def driver by (auto simp: bindP_Ret_iff proc_simps)
  let ?path = "storage_path (uf_TenantID cmd) now i ?name"
  let ?f = "new_file i cmd ?path ?name ?mime (au_sha256 u bs) now"
  obtain r3 w3 where o3: "on_db (att_repo_CreateFile c ?f) e w2 = (r3, w3)" by fastforce
  then have m: "on_db (att_repo_CreateFile c ?f) e w2 = (Ret f, w')"
    using rec by (cases r3) (auto simp: record_file_def bindP_def tryP_def ret_def fail_def split: prod.splits res.splits)
  obtain d where rows: "t_files (s_db (wdb w')) = t_files (s_db (wdb w2)) @ [(file_row_of ?f)\<lparr>flr_created_at := d, flr_updated_at := d\<rparr>]"
    and i: "fi_ID ?f \<noteq> NilID" and f: "f = ?f\<lparr>fi_CreatedAt := ts_local (local_off e) d, fi_UpdatedAt := ts_local (local_off e) d\<rparr>"
    using CreateFile_cases(3) [OF m assms(2) refl] by blast
  have fs: "s_fs (wdb w') = s_fs (wdb w2)" by (rule CreateFile_cases(1) [OF m assms(2)])
  have pr: "bs = rd_data (uf_Reader cmd)" "content (s_fs (wdb w2)) ?path = Some bs" using put_Ret [OF uploads p] by auto
  show thesis
    by (rule that [of "(file_row_of ?f)\<lparr>flr_created_at := d, flr_updated_at := d\<rparr>"])
      (use pr fs rows i f t in \<open>auto simp: file_row_of_def toDomainFile_def new_file_def\<close>)
qed

lemma get_stored_file:
  assumes "files_ok content ok sha (wdb w)" "row \<in> set (t_files (s_db (wdb w)))" "flr_tenant_id row = t" "flr_id row = i"
    and "content (s_fs (wdb w)) (flr_storage_path row) = Some bs" "t \<noteq> NilID" "i \<noteq> NilID" "\<forall>n. fault_at e n = NoFault" "live (Suc (tick w))"
  shows "fst (GetFile u c t i e w) = Ret (toDomainFile (local_off e) row, \<lparr>rd_data = bs, rd_err = False\<rparr>)"
proof -
  have own: "own_file t i = (\<lambda>r. flr_id r = flr_id row \<and> flr_tenant_id r = flr_tenant_id row)"
    using assms(3,4,6,7) by (auto simp: own_file_def pg_eq_def fun_eq_iff)
  have "find (own_file t i) (t_files (s_db (wdb w))) = Some row"
  proof (cases "find (own_file t i) (t_files (s_db (wdb w)))")
    case None
    then show ?thesis using assms(2) unfolding own by (auto simp: find_None_iff)
  next
    case (Some r)
    then have "r \<in> set (t_files (s_db (wdb w)))" "flr_id r = flr_id row" unfolding own by (auto dest: find_in_set)
    then show ?thesis using Some assms(1,2) distinct_map_inj [of flr_id] by (auto simp: files_ok_def)
  qed
  then have q: "sql_GetFileByID t i (s_db (wdb w)) = Ret row" by (simp add: sql_GetFileByID_def select_one_def)
  let ?w1 = "w\<lparr>wdb := (wdb w)\<lparr>s_db := s_db (wdb w)\<rparr>, tick := Suc (tick w)\<rparr>"
  have g: "on_db (att_repo_GetFileByID c t i) e w = (Ret (toDomainFile (local_off e) row), ?w1)"
    using q by (simp add: query_answers [OF assms(8)] on_db_def att_repo_GetFileByID_def read_with_def bindP_def norows_notfound_def ask_env_def ret_def)
  have ok: "ok (flr_storage_path row)" using assms(1,2) by (simp add: files_ok_def file_intact_def)
  have "fst (drv_Get drv c (flr_storage_path row) e ?w1) = Ret \<lparr>rd_data = bs, rd_err = False\<rparr>"
    by (rule get_stored [OF ok]) (use assms(5,9) in simp_all)
  then obtain w2 where "drv_Get drv c (flr_storage_path row) e ?w1 = (Ret \<lparr>rd_data = bs, rd_err = False\<rparr>, w2)"
    by (metis prod.collapse)
  then show ?thesis by (simp add: GetFile_def bindP_def g wrap_err_def driver toDomainFile_def ret_def)
qed

end

section \<open>Runs\<close>

text \<open>Runs that delete no file in \<open>X\<close>. Uploads draw identifiers no recorded file has and their insertion is not left
  in doubt (it is done or refused); deletions have an answering server. The disk may fail anywhere.
  Attaching, detaching and everything that leaves files alone may meet any failure.\<close>

definition fresh_ids :: "env \<Rightarrow> db site world \<Rightarrow> bool" where
  "fresh_ids e w \<longleftrightarrow> (\<forall>n i. newid_at e n = Some i \<longrightarrow> i \<notin> flr_id ` set (t_files (s_db (wdb w))))"

inductive attachment_run :: "AttachmentUsecase \<Rightarrow> ID set \<Rightarrow> db site world \<Rightarrow> db site world \<Rightarrow> bool" for u X w where
  start: "attachment_run u X w w"
| upload: "attachment_run u X w w1 \<Longrightarrow> UploadFile u c cmd1 e w1 = (r1, w2) \<Longrightarrow> \<forall>n. fault_at e n \<noteq> ReplyLost \<Longrightarrow> fresh_ids e w1 \<Longrightarrow>
    attachment_run u X w w2"
| delete: "attachment_run u X w w1 \<Longrightarrow> DeleteFile u c t i e w1 = (r2, w2) \<Longrightarrow> \<forall>n. fault_at e n = NoFault \<Longrightarrow> i \<notin> X \<Longrightarrow>
    attachment_run u X w w2"
| attach: "attachment_run u X w w1 \<Longrightarrow> AttachFile u c cmd3 e w1 = (r3, w2) \<Longrightarrow> attachment_run u X w w2"
| detach: "attachment_run u X w w1 \<Longrightarrow> DetachFile u c t i e w1 = (r4, w2) \<Longrightarrow> attachment_run u X w w2"
| other: "attachment_run u X w w1 \<Longrightarrow> t_files (s_db (wdb w2)) = t_files (s_db (wdb w1)) \<Longrightarrow> s_fs (wdb w2) = s_fs (wdb w1) \<Longrightarrow>
    attachment_run u X w w2"

definition same_files :: "db site \<Rightarrow> db site \<Rightarrow> bool" where
  "same_files s s' \<longleftrightarrow> t_files (s_db s') = t_files (s_db s) \<and> s_fs s' = s_fs s"

interpretation same_files: db_order same_files
  by unfold_locales (auto simp: same_files_def)

definition same_rows :: "db \<Rightarrow> db \<Rightarrow> bool" where
  "same_rows d d' \<longleftrightarrow> t_files d' = t_files d"

interpretation same_rows: db_order same_rows
  by unfold_locales (auto simp: same_rows_def)

lemma on_db_same: "stays same_rows m \<Longrightarrow> stays same_files (on_db m)"
  unfolding stays_def on_db_def by (fastforce simp: same_files_def same_rows_def split: prod.splits option.splits)

lemma attach_stays: "stays same_files (AttachFile u c cmd)" "stays same_files (DetachFile u c t i)"
proof -
  have create: "stays same_rows (att_repo_CreateAttachment c a)" for a
    unfolding att_repo_CreateAttachment_def
    by (intro stays_intros same_rows.stays_stmt)
      (auto simp: same_rows_def sql_CreateAttachment_def Let_def insert_row_Ret_iff split: prod.splits)
  have get: "stays same_rows (att_repo_GetFileByID c t i)" for t i
    unfolding att_repo_GetFileByID_def by (intro stays_intros)
  have delete: "stays same_rows (att_repo_DeleteAttachment c t i)" for t i
    unfolding att_repo_DeleteAttachment_def by (intro same_rows.stays_stmt) (auto simp: same_rows_def sql_DeleteAttachment_def)
  show "stays same_files (AttachFile u c cmd)" "stays same_files (DetachFile u c t i)"
    unfolding AttachFile_def DetachFile_def by (intro stays_intros on_db_same create get delete)+
qed

context attachment_client
begin

lemma run_step: "attachment_run u X w w' \<Longrightarrow> files_step content ok (au_sha256 u) X (wdb w) (wdb w')"
proof (induction rule: attachment_run.induct)
  case start
  show ?case by (rule file_steps.R_refl)
next
  case (upload w1 c cmd1 e r1 w2)
  then show ?case using upload_step file_steps.R_trans unfolding fresh_ids_def by metis
next
  case (delete w1 c t i e r2 w2)
  then show ?case using delete_file_step file_steps.R_trans by metis
next
  case (attach w1 c cmd3 e r3 w2)
  then have "same_files (wdb w1) (wdb w2)" by (intro staysD [OF attach_stays(1)])
  then have "files_step content ok (au_sha256 u) X (wdb w1) (wdb w2)" by (auto simp: same_files_def intro: same_files_step)
  with attach.IH show ?case by (rule file_steps.R_trans)
next
  case (detach w1 c t i e r4 w2)
  then have "same_files (wdb w1) (wdb w2)" by (intro staysD [OF attach_stays(2)])
  then have "files_step content ok (au_sha256 u) X (wdb w1) (wdb w2)" by (auto simp: same_files_def intro: same_files_step)
  with detach.IH show ?case by (rule file_steps.R_trans)
next
  case (other w1 w2)
  then have "files_step content ok (au_sha256 u) X (wdb w1) (wdb w2)" by (auto intro: same_files_step)
  with other.IH show ?case by (rule file_steps.R_trans)
qed

lemma uploaded_is_downloaded:
  assumes "t_files (s_db (wdb w0)) = []" "attachment_run u {} w0 w"
    and "UploadFile u c cmd e w = (Ret f, w1)" "\<forall>n. fault_at e n \<noteq> ReplyLost" "fresh_ids e w"
    and "attachment_run u {fi_ID f} w1 w2" "\<forall>n. fault_at e' n = NoFault" "live (Suc (tick w2))" "local_off e' = local_off e"
  shows "fst (GetFile u c' (uf_TenantID cmd) (fi_ID f) e' w2) =
      Ret (f\<lparr>fi_Metadata := map_of_json (json_of_map (uf_Metadata cmd)), fi_UploadedBy := id_of_ptr (uf_UploadedBy cmd)\<rparr>,
           \<lparr>rd_data = rd_data (uf_Reader cmd), rd_err = False\<rparr>)"
    and "fi_SHA256Hash f = au_sha256 u (rd_data (uf_Reader cmd))"
proof -
  have "files_ok content ok (au_sha256 u) (wdb w0)" using assms(1) by (simp add: files_ok_def)
  then have "files_ok content ok (au_sha256 u) (wdb w)" using run_step [OF assms(2)] by (simp add: files_step_def)
  then have ok1: "files_ok content ok (au_sha256 u) (wdb w1)"
    using upload_step [OF assms(3,4), of UNIV] assms(5) by (simp add: files_step_def fresh_ids_def)
  from upload_Ret [OF assms(3,4)]
  obtain row where row: "row \<in> set (t_files (s_db (wdb w1)))" "flr_tenant_id row = uf_TenantID cmd" "flr_id row = fi_ID f"
    "content (s_fs (wdb w1)) (flr_storage_path row) = Some (rd_data (uf_Reader cmd))" "fi_ID f \<noteq> NilID" "uf_TenantID cmd \<noteq> NilID"
    and dom: "toDomainFile (local_off e) row =
       f\<lparr>fi_Metadata := map_of_json (json_of_map (uf_Metadata cmd)), fi_UploadedBy := id_of_ptr (uf_UploadedBy cmd)\<rparr>"
    and sha: "fi_SHA256Hash f = au_sha256 u (rd_data (uf_Reader cmd))" by blast
  from run_step [OF assms(6)] ok1 row(1,3) have ok2: "files_ok content ok (au_sha256 u) (wdb w2)"
    and there: "row \<in> set (t_files (s_db (wdb w2)))"
      "content (s_fs (wdb w2)) (flr_storage_path row) = content (s_fs (wdb w1)) (flr_storage_path row)"
    by (auto simp: files_step_def)
  show "fst (GetFile u c' (uf_TenantID cmd) (fi_ID f) e' w2) =
      Ret (f\<lparr>fi_Metadata := map_of_json (json_of_map (uf_Metadata cmd)), fi_UploadedBy := id_of_ptr (uf_UploadedBy cmd)\<rparr>,
           \<lparr>rd_data = rd_data (uf_Reader cmd), rd_err = False\<rparr>)"
    using get_stored_file [OF ok2 there(1) row(2,3) _ row(6,5) assms(7,8)] there(2) row(4) dom assms(9) by simp
  show "fi_SHA256Hash f = au_sha256 u (rd_data (uf_Reader cmd))" by (rule sha)
qed

end

section \<open>The local driver\<close>

text \<open>The use case as it is put together at the start of the program, with a local driver at a directory.\<close>

definition local_usecase :: "os \<Rightarrow> string \<Rightarrow> (string \<Rightarrow> string) \<Rightarrow> int64 list \<Rightarrow> AttachmentUsecase" where
  "local_usecase os dir sha limits = NewAttachmentUsecase (local_driver os (Abs (os_Getwd os) dir)) sha limits"

lemma local_usecase_simps [simp]:
  "au_sha256 (local_usecase os dir sha limits) = sha"
  "au_driver (local_usecase os dir sha limits) = local_driver os (Abs (os_Getwd os) dir)"
  by (simp_all add: local_usecase_def NewAttachmentUsecase_def)

lemma base_clean: "clean_abs (Abs (os_Getwd os) dir)"
  by (rule Abs_clean) (simp add: os_Getwd_def IsAbs_def HasPrefix_def slash_def)

interpretation local_files: attachment_client "local_driver os (Abs (os_Getwd os) dir)" "content_at (Abs (os_Getwd os) dir)"
    "stored_path (Abs (os_Getwd os) dir)" "\<lambda>n. \<not> io_error os n" "local_usecase os dir sha limits" for os dir sha limits
  by unfold_locales (simp_all add: stored_path_def base_clean storage_path_upload)

text \<open>C18. What was uploaded is what is downloaded. After \<open>UploadFile\<close> returned a file, in every run of the file and
  attachment use cases that does not delete it, whatever the disk refuses on the way, \<open>GetFile\<close>
  for its tenant, with a server and a disk that answer, returns the metadata of the file
  and exactly the bytes of the uploaded stream; the recorded digest is the digest of these bytes.\<close>

theorem upload_download:
  assumes "t_files (s_db (wdb w0)) = []" and "u = local_usecase os dir sha limits" and "attachment_run u {} w0 w"
    and "UploadFile u c cmd e w = (Ret f, w1)" and "\<forall>n. fault_at e n \<noteq> ReplyLost" and "fresh_ids e w"
    and "attachment_run u {fi_ID f} w1 w2" and "\<forall>n. fault_at e' n = NoFault" and "\<not> io_error os (Suc (tick w2))"
    and "local_off e' = local_off e"
  shows "fst (GetFile u c' (uf_TenantID cmd) (fi_ID f) e' w2) =
      Ret (f\<lparr>fi_Metadata := map_of_json (json_of_map (uf_Metadata cmd)), fi_UploadedBy := id_of_ptr (uf_UploadedBy cmd)\<rparr>,
           \<lparr>rd_data = rd_data (uf_Reader cmd), rd_err = False\<rparr>) \<and>
    fi_SHA256Hash f = sha (rd_data (uf_Reader cmd))"
proof -
  note down = local_files.uploaded_is_downloaded [OF assms(1) assms(3,4) [unfolded assms(2)] assms(5,6) assms(7) [unfolded assms(2)] assms(8-10)]
  show ?thesis unfolding assms(2) using down(1) [of c'] down(2) by simp
qed

section \<open>Confinement\<close>

definition confined :: "(string \<Rightarrow> bool) \<Rightarrow> 'd site \<Rightarrow> 'd site \<Rightarrow> bool" where
  "confined P s s' \<longleftrightarrow> (\<forall>p. \<not> P p \<longrightarrow> file_at (s_fs s') p = file_at (s_fs s) p)"

interpretation confined: db_order "confined P" for P
  by unfold_locales (auto simp: confined_def)

lemma stays_mono:
  assumes "stays R m" "\<And>d d'. R d d' \<Longrightarrow> R' d d'"
  shows "stays R' m"
  unfolding stays_def
proof (intro allI impI)
  fix e w r w'
  assume "m e w = (r, w')"
  with assms(1) have "R (wdb w) (wdb w') \<and> (case wtx w of None \<Rightarrow> wtx w' = None
      | Some (d, b) \<Rightarrow> \<exists>d' b'. wtx w' = Some (d', b') \<and> R d d')" unfolding stays_def by blast
  then show "R' (wdb w) (wdb w') \<and> (case wtx w of None \<Rightarrow> wtx w' = None
      | Some (d, b) \<Rightarrow> \<exists>d' b'. wtx w' = Some (d', b') \<and> R' d d')"
    using assms(2) by (cases "wtx w") auto
qed

lemma touches_confined: "stays (touches P) m \<Longrightarrow> stays (confined P) m"
  by (erule stays_mono) (auto simp: touches_def confined_def)

lemma on_db_confined: "stays (confined P) (on_db m)"
  unfolding stays_def on_db_def by (auto simp: confined_def split: prod.splits option.splits)

definition tenant_dir :: "string \<Rightarrow> ID \<Rightarrow> string" where
  "tenant_dir base tenantID = under base [''uploads'', ID_String tenantID] @ ''/''"

lemma under_tenant_dir:
  assumes "clean_abs base" "zs \<noteq> []"
  shows "HasPrefix (under base (''uploads'' # ID_String t # zs)) (tenant_dir base t)"
proof -
  obtain bs where bs: "\<And>ps. under base ps = slash # join_slash (bs @ ps)" using clean_abs_elems [OF assms(1)] by metis
  have "join_slash (bs @ ''uploads'' # ID_String t # zs) = join_slash (bs @ [''uploads'', ID_String t]) @ slash # join_slash zs"
    using join_slash_append [of "bs @ [''uploads'', ID_String t]" zs] assms(2) by simp
  then show ?thesis by (simp add: tenant_dir_def bs HasPrefix_def slash_def)
qed

lemma upload_paths_in_tenant_dir:
  assumes "clean_abs base" "resolvePath base (storage_path t now i name) = Ret full"
  shows "HasPrefix full (tenant_dir base t)" "HasPrefix (in_dir (Dir full) (temp_name k)) (tenant_dir base t)"
proof -
  have full: "full = under base (''uploads'' # path_elems t now @ [ID_String i @ Ext name])"
    using assms(2) upload_resolves(1) [OF assms(1) path_elems_good] by (simp add: storage_path_elems)
  show "HasPrefix full (tenant_dir base t)" unfolding full by (simp add: path_elems_def under_tenant_dir [OF assms(1)])
  show "HasPrefix (in_dir (Dir full) (temp_name k)) (tenant_dir base t)"
    unfolding full upload_resolves(2) [OF assms(1) path_elems_good] by (simp add: path_elems_def under_tenant_dir [OF assms(1)])
qed

lemma UploadFile_confined:
  assumes "au_driver u = local_driver os base" "clean_abs base"
  shows "stays (confined (\<lambda>p. HasPrefix p (tenant_dir base (uf_TenantID cmd)))) (UploadFile u c cmd)"
proof -
  let ?P = "\<lambda>p. HasPrefix p (tenant_dir base (uf_TenantID cmd))"
  let ?path = "\<lambda>now i. storage_path (uf_TenantID cmd) now i (SanitizeFilename (uf_Filename cmd))"
  have put: "stays (confined ?P) (drv_Put (au_driver u) c (?path now i) rd sz m)" for now i rd sz m
    unfolding assms(1) local_driver_def Driver.simps
    by (intro touches_confined local_Put_stays conjI allI) (erule upload_paths_in_tenant_dir [OF assms(2)])+
  have del: "stays (confined ?P) (drv_Delete (au_driver u) c (?path now i))" for now i
    unfolding assms(1) local_driver_def Driver.simps
    by (intro touches_confined local_Delete_stays) (erule upload_paths_in_tenant_dir [OF assms(2)])
  have rec: "stays (confined ?P) (record_file u c (new_file i cmd (?path now i) name mime h now))" for i now name mime h
    unfolding record_file_def using del
    by (auto simp: new_file_def intro!: stays_intros on_db_confined split: res.splits)
  show ?thesis unfolding UploadFile_def Let_def by (intro stays_intros put rec)
qed

text \<open>C19. An upload stays inside the directory of its tenant. Whatever the name, type, stream and size of an upload, and
  whatever the server and the disk answer, \<open>UploadFile\<close> with the local driver changes, creates and
  removes no file outside \<open>uploads/<tenant>/\<close> below the base directory, temporary files included.\<close>

theorem upload_confined:
  assumes "UploadFile (local_usecase os dir sha limits) c cmd e w = (r, w')"
    and "\<not> HasPrefix p (tenant_dir (Abs (os_Getwd os) dir) (uf_TenantID cmd))"
  shows "file_at (s_fs (wdb w')) p = file_at (s_fs (wdb w)) p"
  using staysD [OF UploadFile_confined [OF local_usecase_simps(2) base_clean] assms(1)] assms(2) by (auto simp: confined_def)

section \<open>An upload\<close>

definition at_os :: os where
  "at_os = \<lparr>os_wd = [''srv''], io_error = (\<lambda>_. False), io_partial = (\<lambda>_. 0), tmp_rand = (\<lambda>_. 7)\<rparr>"

definition at_env :: env where
  "at_env = \<lparr>fault_at = (\<lambda>_. NoFault), newid_at = (\<lambda>_. Some 6), clock_at = (\<lambda>_. 0), dbnow_at = (\<lambda>_. 0), local_off = (\<lambda>_. 0),
     cvt_int64 = (\<lambda>_. 0)\<rparr>"

definition at_world :: "db site world" where
  "at_world = \<lparr>wdb = \<lparr>s_db = empty_db, s_fs = \<lparr>fs_files = [], fs_dirs = [''/data'']\<rparr>\<rparr>, wtx = None, tick = 0\<rparr>"

definition at_cmd :: UploadFileCommand where
  "at_cmd = \<lparr>uf_TenantID = 5, uf_Filename = ''../a.txt'', uf_MimeType = ''text/plain'', uf_Reader = \<lparr>rd_data = ''hello'', rd_err = False\<rparr>,
     uf_SizeBytes = 5, uf_UploadedBy = None, uf_IsPublic = False, uf_Metadata = None\<rparr>"

definition at_usecase :: AttachmentUsecase where "at_usecase = local_usecase at_os ''/data'' rev []"

lemma at_names: "SanitizeFilename ''../a.txt'' = ''a.txt''" "Ext ''a.txt'' = ''.txt''" "ToLower (TrimSpace ''text/plain'') = ''text/plain''"
  "IsAllowedMIME ''text/plain''"
  by code_simp+

lemma at_base: "Abs wd ''/data'' = ''/data''"
proof -
  have "IsAbs ''/data''" "Clean ''/data'' = ''/data''" by code_simp+
  then show ?thesis by (simp add: Abs_def)
qed

lemma at_digits: "digit_char 0 = CHR ''0''" "digit_char 1 = CHR ''1''" "digit_char 5 = CHR ''5''" "digit_char 6 = CHR ''6''"
  "digit_char 7 = CHR ''7''" "digit_char 9 = CHR ''9''"
  by code_simp+

lemma at_hex: "base_string 16 5 = ''5''" "base_string 16 6 = ''6''"
  by (subst base_string.simps, simp add: at_digits)+

lemma at_zeros: "replicate 4 x = [x, x, x, x]" "replicate 8 x = [x, x, x, x, x, x, x, x]" "replicate 11 x = [x, x, x, x, x, x, x, x, x, x, x]"
  by (simp_all add: eval_nat_numeral)

lemma at_ids: "ID_String 5 = ''00000000-0000-0000-0000-000000000005''" "ID_String 6 = ''00000000-0000-0000-0000-000000000006''"
  by (simp_all add: ID_String_def Let_def pad_zeros_def at_hex at_zeros)

lemma at_year: "Year (utc_of_ns 0) = 1970" "Month (utc_of_ns 0) = 1"
  by code_simp+

lemma at_dec: "dec_string 1970 = ''1970''" "dec_string 1 = ''1''" "dec_string 7 = ''7''"
  by (simp_all add: dec_string_rec [of 1970] dec_string_rec [of 197] dec_string_rec [of 19] dec_string_rec [of 1] dec_string_rec [of "Suc 0"]
      dec_string_rec [of 7] at_digits [simplified])

lemma at_time: "fmt_0d 4 (Year (utc_of_ns 0)) = ''1970''" "fmt_0d 2 (Month (utc_of_ns 0)) = ''01''"
  by (simp_all add: at_year fmt_0d_def pad_zeros_def at_dec at_dec [simplified])

lemma at_path: "storage_path 5 (utc_of_ns 0) 6 ''a.txt'' =
    ''uploads/00000000-0000-0000-0000-000000000005/1970/01/00000000-0000-0000-0000-000000000006.txt''"
  by (simp add: storage_path_def at_ids at_time at_names)

lemma at_resolve: "resolvePath ''/data'' ''uploads/00000000-0000-0000-0000-000000000005/1970/01/00000000-0000-0000-0000-000000000006.txt'' =
    Ret ''/data/uploads/00000000-0000-0000-0000-000000000005/1970/01/00000000-0000-0000-0000-000000000006.txt''"
  "Dir ''/data/uploads/00000000-0000-0000-0000-000000000005/1970/01/00000000-0000-0000-0000-000000000006.txt'' =
    ''/data/uploads/00000000-0000-0000-0000-000000000005/1970/01''"
  by code_simp+

lemma at_dirs: "ancestors ''/data/uploads/00000000-0000-0000-0000-000000000005/1970/01'' =
    [''/data'', ''/data/uploads'', ''/data/uploads/00000000-0000-0000-0000-000000000005'',
     ''/data/uploads/00000000-0000-0000-0000-000000000005/1970'', ''/data/uploads/00000000-0000-0000-0000-000000000005/1970/01'']"
  "in_dir ''/data/uploads/00000000-0000-0000-0000-000000000005/1970/01'' (temp_name 7) =
    ''/data/uploads/00000000-0000-0000-0000-000000000005/1970/01/upload-7.tmp''"
  unfolding temp_name_def at_dec by code_simp+

definition at_dir :: string where "at_dir = ''/data/uploads/00000000-0000-0000-0000-000000000005/1970/01''"

definition at_file :: string where "at_file = at_dir @ ''/00000000-0000-0000-0000-000000000006.txt''"

definition at_temp :: string where "at_temp = at_dir @ ''/upload-7.tmp''"

lemma at_file_facts: "at_file \<noteq> at_temp" "at_temp \<noteq> at_dir" "at_file \<noteq> at_dir" "at_dir \<noteq> ''/''" "at_temp \<noteq> ''/''" "at_file \<noteq> ''/''"
  "at_temp \<notin> set (ancestors at_dir)" "at_file \<notin> set (ancestors at_dir)" "at_dir \<in> set (ancestors at_dir)"
  unfolding at_dir_def at_file_def at_temp_def at_dirs by simp_all

lemma at_os_simps: "io_error at_os n \<longleftrightarrow> False" "tmp_rand at_os n = 7"
  by (simp_all add: at_os_def)

lemma mkdir_all_empty:
  assumes "fs_files (s_fs (wdb w)) = []"
  shows "\<exists>w'. mapP (os_Mkdir at_os) ps e w = (Ret (map (\<lambda>_. ()) ps), w') \<and> fs_files (s_fs (wdb w')) = [] \<and>
    set (fs_dirs (s_fs (wdb w'))) \<subseteq> set ps \<union> set (fs_dirs (s_fs (wdb w))) \<and>
    (\<forall>p \<in> set ps. is_dir (s_fs (wdb w')) p) \<and> s_db (wdb w') = s_db (wdb w) \<and> set (fs_dirs (s_fs (wdb w))) \<subseteq> set (fs_dirs (s_fs (wdb w')))"
  using assms
proof (induction ps arbitrary: w)
  case Nil
  then show ?case by (simp add: ret_def)
next
  case (Cons p ps)
  obtain w1 where w1: "os_Mkdir at_os p e w = (Ret (), w1)" "fs_files (s_fs (wdb w1)) = []" "is_dir (s_fs (wdb w1)) p"
    "s_db (wdb w1) = s_db (wdb w)" "set (fs_dirs (s_fs (wdb w1))) \<subseteq> insert p (set (fs_dirs (s_fs (wdb w))))"
    "set (fs_dirs (s_fs (wdb w))) \<subseteq> set (fs_dirs (s_fs (wdb w1)))"
    using Cons.prems by (cases "is_dir (s_fs (wdb w)) p") (auto simp: os_Mkdir_def syscall_def at_os_def Let_def file_at_def is_dir_def)
  from Cons.IH [OF w1(2)] obtain w2 where "mapP (os_Mkdir at_os) ps e w1 = (Ret (map (\<lambda>_. ()) ps), w2)" "fs_files (s_fs (wdb w2)) = []"
    "set (fs_dirs (s_fs (wdb w2))) \<subseteq> set ps \<union> set (fs_dirs (s_fs (wdb w1)))" "\<forall>p \<in> set ps. is_dir (s_fs (wdb w2)) p"
    "s_db (wdb w2) = s_db (wdb w1)" "set (fs_dirs (s_fs (wdb w1))) \<subseteq> set (fs_dirs (s_fs (wdb w2)))" by blast
  with w1 show ?case by (auto simp: bindP_def ret_def is_dir_def)
qed

lemma at_put:
  assumes "fs_files (s_fs (wdb w)) = []" "fs_dirs (s_fs (wdb w)) = [''/data'']"
  shows "\<exists>w'. local_Put at_os ''/data'' c (storage_path 5 (utc_of_ns 0) 6 ''a.txt'') \<lparr>rd_data = ''hello'', rd_err = False\<rparr> 5 m e w = (Ret ''hello'', w') \<and>
     s_db (wdb w') = s_db (wdb w)"
proof -
  from mkdir_all_empty [OF assms(1), of "ancestors at_dir" e] obtain w1
    where w1: "mapP (os_Mkdir at_os) (ancestors at_dir) e w = (Ret (map (\<lambda>_. ()) (ancestors at_dir)), w1)" "fs_files (s_fs (wdb w1)) = []"
    "set (fs_dirs (s_fs (wdb w1))) \<subseteq> set (ancestors at_dir) \<union> {''/data''}" "\<forall>p \<in> set (ancestors at_dir). is_dir (s_fs (wdb w1)) p"
    "s_db (wdb w1) = s_db (wdb w)" unfolding assms(2) by auto
  have d: "is_dir (s_fs (wdb w1)) at_dir" using w1(4) at_file_facts(9) by blast
  have "''/data'' \<in> set (ancestors at_dir)" unfolding at_dir_def at_dirs by simp
  then have n: "\<not> is_dir (s_fs (wdb w1)) at_temp" "\<not> is_dir (s_fs (wdb w1)) at_file"
    using w1(3) at_file_facts by (auto simp: is_dir_def)
  have res: "resolvePath ''/data'' (storage_path 5 (utc_of_ns 0) 6 ''a.txt'') = Ret at_file" "Dir at_file = at_dir"
    "in_dir at_dir (temp_name 7) = at_temp"
    using at_resolve at_dirs by (simp_all add: at_path at_file_def at_dir_def at_temp_def)
  have ne: "at_temp \<noteq> at_file" using at_file_facts(1) by simp
  show ?thesis
    using w1 d n ne res
    by (simp add: local_Put_def put_body_def os_MkdirAll_def os_CreateTemp_def io_Copy_def os_Close_def os_Rename_def os_Remove_def syscall_def
        proc_eval at_os_simps file_at_def put_file_def del_file_def is_dir_def cong: proc_congs)
qed

lemma at_uploaded: "\<exists>f w'. UploadFile at_usecase Background at_cmd at_env at_world = (Ret f, w') \<and> fi_ID f = 6 \<and> fi_Filename f = ''a.txt''"
proof -
  let ?w = "at_world\<lparr>tick := Suc (Suc 0)\<rparr>"
  have "fs_files (s_fs (wdb ?w)) = []" "fs_dirs (s_fs (wdb ?w)) = [''/data'']" by (simp_all add: at_world_def)
  from at_put [OF this, of Background "''text/plain''" at_env] obtain w'
    where p: "local_Put at_os ''/data'' Background (storage_path 5 (utc_of_ns 0) 6 ''a.txt'') \<lparr>rd_data = ''hello'', rd_err = False\<rparr> 5
      ''text/plain'' at_env ?w = (Ret ''hello'', w')" "s_db (wdb w') = empty_db" by (auto simp: at_world_def)
  have "clock_at at_env n = 0" "newid_at at_env n = Some 6" "fault_at at_env n = NoFault" for n by (simp_all add: at_env_def)
  then show ?thesis
    using p
    by (simp add: UploadFile_def at_usecase_def at_base local_driver_def at_cmd_def at_names proc_eval NilID_def local_usecase_def
        NewAttachmentUsecase_def DefaultMaxFileSize_def at_world_def record_file_def on_db_def att_repo_CreateFile_def read_with_def
        sql_CreateFile_def insert_row_def file_row_of_def new_file_def empty_db_def cong: proc_congs)
qed

theorem upload_download_witness:
  "\<exists>f w'. UploadFile at_usecase Background at_cmd at_env at_world = (Ret f, w') \<and> fi_Filename f = ''a.txt'' \<and>
     fst (GetFile at_usecase Background 5 6 at_env w') =
       Ret (f\<lparr>fi_Metadata := map_of_json (json_of_map None), fi_UploadedBy := id_of_ptr None\<rparr>, \<lparr>rd_data = ''hello'', rd_err = False\<rparr>) \<and>
     fi_SHA256Hash f = ''olleh''"
proof -
  from at_uploaded obtain f w' where up: "UploadFile at_usecase Background at_cmd at_env at_world = (Ret f, w')" "fi_ID f = 6" "fi_Filename f = ''a.txt''"
    by blast
  have "t_files (s_db (wdb at_world)) = []" "fresh_ids at_env at_world" by (simp_all add: at_world_def empty_db_def fresh_ids_def)
  moreover have "\<forall>n. fault_at at_env n \<noteq> ReplyLost" "\<forall>n. fault_at at_env n = NoFault" "\<not> io_error at_os n" for n
    by (simp_all add: at_env_def at_os_def)
  ultimately show ?thesis
    using upload_download [OF _ at_usecase_def attachment_run.start up(1) _ _ attachment_run.start, of at_env Background] up
    by (simp add: at_cmd_def)
qed

theorem upload_confined_witness:
  "\<exists>r w'. UploadFile at_usecase Background at_cmd at_env at_world = (r, w') \<and>
     file_at (s_fs (wdb w')) ''/data/a.txt'' = None \<and> file_at (s_fs (wdb w')) ''/a.txt'' = None"
proof -
  obtain r w' where up: "UploadFile (local_usecase at_os ''/data'' rev []) Background at_cmd at_env at_world = (r, w')" by fastforce
  have d: "tenant_dir ''/data'' (uf_TenantID at_cmd) = ''/data/uploads/00000000-0000-0000-0000-000000000005/''"
    unfolding tenant_dir_def at_cmd_def UploadFileCommand.simps at_ids by code_simp
  have "\<not> HasPrefix ''/data/a.txt'' (tenant_dir (Abs (os_Getwd at_os) ''/data'') (uf_TenantID at_cmd))"
    "\<not> HasPrefix ''/a.txt'' (tenant_dir (Abs (os_Getwd at_os) ''/data'') (uf_TenantID at_cmd))"
    unfolding at_base d by code_simp+
  from this [THEN upload_confined [OF up]] up show ?thesis
    by (auto simp: at_usecase_def at_world_def file_at_def)
qed

text \<open>The check of the prefix in \<open>resolvePath\<close> compares texts, not elements: a directory whose name only starts like the
  base directory is reached by a relative path.\<close>

lemma storage_sibling_escape: "resolvePath ''/data'' ''../data-private/x'' = Ret ''/data-private/x''"
  by code_simp

end
