(* ===== verification/Http.thy ===== *)
theory Http
  imports HttpAuth Sequence
begin

text \<open>
  What the handlers of \<open>internal/core/delivery/http/v1\<close> share: the state of the server with the tables a
  handler works on, the call of a use case, and the reading of path, query and body. A body is read
  by an argument of the handler that stands for \<open>json.Decoder\<close> at the type of the request; \<open>None\<close> is a
  decoding error. The parser of identifiers is an argument too.
\<close>

section \<open>State\<close>

record 'b server = hstate +
  sv_db :: 'b

type_synonym ('d, 'b) api = "hreq \<Rightarrow> ctx \<Rightarrow> env \<Rightarrow> 'b server \<Rightarrow> 'd response \<times> 'b server"

text \<open>The use case runs on the tables with no transaction open; its steps follow those of the middleware. A panic is
  answered by the recovery middleware of the router.\<close>

definition serve :: "('b, 'a) proc \<Rightarrow> ('a \<Rightarrow> 'd response) \<Rightarrow> (err \<Rightarrow> 'd response) \<Rightarrow> env \<Rightarrow> 'b server \<Rightarrow> 'd response \<times> 'b server" where
  "serve m ok bad e s =
     (case m e \<lparr>wdb = sv_db s, wtx = None, tick = tick (hs_world s)\<rparr> of (r, w) \<Rightarrow>
       (case r of Ret x \<Rightarrow> ok x | Fail er \<Rightarrow> bad er | Panic p \<Rightarrow> Err 500 [],
        s\<lparr>hs_world := (hs_world s)\<lparr>tick := tick w\<rparr>, sv_db := wdb w\<rparr>))"

text \<open>The usual end of a handler: the data with a status, or the answer to the error.\<close>

definition respond :: "int \<Rightarrow> ('b, 'a) proc \<Rightarrow> env \<Rightarrow> 'b server \<Rightarrow> 'a response \<times> 'b server" where
  "respond status m = serve m (JSON status) FromDomainError"

definition confirm :: "int \<Rightarrow> string \<Rightarrow> string \<Rightarrow> ('b, unit) proc \<Rightarrow> env \<Rightarrow> 'b server \<Rightarrow> (string \<times> string) response \<times> 'b server" where
  "confirm status k v m = serve m (\<lambda>_. JSON status (k, v)) FromDomainError"

section \<open>Reading a request\<close>

definition with_tenant :: "ctx \<Rightarrow> (ID \<Rightarrow> env \<Rightarrow> 's \<Rightarrow> 'd response \<times> 's) \<Rightarrow> env \<Rightarrow> 's \<Rightarrow> 'd response \<times> 's" where
  "with_tenant c k e s =
     (case RequireTenantID c of Ret t \<Rightarrow> k t e s | Fail er \<Rightarrow> (FromDomainError er, s) | Panic p \<Rightarrow> (Err 500 [], s))"

definition with_id :: "(string \<Rightarrow> ID option) \<Rightarrow> string \<Rightarrow> string \<Rightarrow> (ID \<Rightarrow> env \<Rightarrow> 's \<Rightarrow> 'd response \<times> 's) \<Rightarrow> env \<Rightarrow> 's \<Rightarrow> 'd response \<times> 's" where
  "with_id up raw code k e s = (case ParseID up raw of Ret i \<Rightarrow> k i e s | _ \<Rightarrow> (Err 400 code, s))"

definition with_body :: "'q option \<Rightarrow> string \<Rightarrow> ('q \<Rightarrow> env \<Rightarrow> 's \<Rightarrow> 'd response \<times> 's) \<Rightarrow> env \<Rightarrow> 's \<Rightarrow> 'd response \<times> 's" where
  "with_body q code k e s = (case q of None \<Rightarrow> (Err 400 code, s) | Some x \<Rightarrow> k x e s)"

definition refuse :: "int \<Rightarrow> string \<Rightarrow> env \<Rightarrow> 's \<Rightarrow> 'd response \<times> 's" where
  "refuse status code e s = (Err status code, s)"

lemmas request_defs = with_tenant_def with_id_def with_body_def refuse_def

text \<open>\<open>strconv.Atoi\<close> on a whole text: an optional sign, then decimal digits, in the range of \<open>int64\<close>.\<close>

definition digits :: "string \<Rightarrow> bool" where
  "digits s \<longleftrightarrow> s \<noteq> [] \<and> list_all (\<lambda>c. c \<in> set ''0123456789'') s"

definition strconv_Atoi :: "string \<Rightarrow> int option" where
  "strconv_Atoi s =
     (let (neg, ds) = (case s of [] \<Rightarrow> (False, []) | ch # cs \<Rightarrow> if ch = CHR ''-'' then (True, cs) else if ch = CHR ''+'' then (False, cs) else (False, s));
          n = int (dec_value ds)
      in if \<not> digits ds then None
         else if neg then (if n \<le> 2 ^ 63 then Some (- n) else None)
         else if n < 2 ^ 63 then Some n else None)"

text \<open>\<open>page, _ := strconv.Atoi(q)\<close>: on a range error the nearest value of the type is kept, on a syntax error zero.\<close>

definition Atoi_value :: "string \<Rightarrow> int" where
  "Atoi_value s =
     (case strconv_Atoi s of Some n \<Rightarrow> n
      | None \<Rightarrow> (if digits s \<or> HasPrefix s ''+'' \<and> digits (tl s) then 2 ^ 63 - 1
                 else if HasPrefix s ''-'' \<and> digits (tl s) then - (2 ^ 63) else 0))"

text \<open>\<open>int32(n)\<close> keeps the low 32 bits.\<close>

definition positive_or :: "int32 \<Rightarrow> string \<Rightarrow> int32" where
  "positive_or d q = (case strconv_Atoi q of Some n \<Rightarrow> if 0 < n then of_int n else d | None \<Rightarrow> d)"

definition ParseBool_true :: "string \<Rightarrow> bool" where
  "ParseBool_true s \<longleftrightarrow> s \<in> {''1'', ''t'', ''T'', ''TRUE'', ''true'', ''True''}"

definition opt_str :: "string \<Rightarrow> string option" where
  "opt_str s = (if s = [] then None else Some s)"

definition opt_id :: "(string \<Rightarrow> ID option) \<Rightarrow> string \<Rightarrow> ID option" where
  "opt_id up s = (if s = [] then None else case ParseID up s of Ret i \<Rightarrow> Some i | _ \<Rightarrow> None)"

section \<open>What a handler may change\<close>

text \<open>The changes of the tables stay within \<open>R\<close>, and the accounts and the rest of the state are left alone.\<close>

definition api_stays :: "('b \<Rightarrow> 'b \<Rightarrow> bool) \<Rightarrow> (env \<Rightarrow> 'b server \<Rightarrow> 'd response \<times> 'b server) \<Rightarrow> bool" where
  "api_stays R h \<longleftrightarrow> (\<forall>e s r s'. h e s = (r, s') \<longrightarrow> R (sv_db s) (sv_db s') \<and> wdb (hs_world s') = wdb (hs_world s))"

lemma api_staysD: "api_stays R (h :: env \<Rightarrow> 'b server \<Rightarrow> 'd response \<times> 'b server) \<Longrightarrow> h e s = (r, s') \<Longrightarrow> R (sv_db s) (sv_db s')"
  "api_stays R h \<Longrightarrow> h e s = (r, s') \<Longrightarrow> wdb (hs_world s') = wdb (hs_world s)"
  by (auto simp: api_stays_def)

named_theorems api_intros "handlers that stay within a relation"

locale api_order = db_order R for R :: "'b \<Rightarrow> 'b \<Rightarrow> bool"
begin

lemma api_serve [api_intros]: "stays R m \<Longrightarrow> api_stays R (serve m ok bad)"
  unfolding api_stays_def serve_def stays_def by (fastforce split: prod.splits)

lemma api_respond [api_intros]: "stays R m \<Longrightarrow> api_stays R (respond n m)" "stays R u \<Longrightarrow> api_stays R (confirm n k v u)"
  unfolding respond_def confirm_def by (auto intro: api_serve)

lemma api_refuse [api_intros]: "api_stays R (refuse n code)"
  by (simp add: api_stays_def refuse_def R_refl)

lemma api_with [api_intros]:
  "(\<And>t. RequireTenantID c = Ret t \<Longrightarrow> api_stays R (k t)) \<Longrightarrow> api_stays R (with_tenant c k)"
  "(\<And>i. api_stays R (k i)) \<Longrightarrow> api_stays R (with_id up raw code k)"
  "(\<And>x. q = Some x \<Longrightarrow> api_stays R (b x)) \<Longrightarrow> api_stays R (with_body q code b)"
  by (auto simp: api_stays_def with_tenant_def with_id_def with_body_def R_refl split: res.splits option.splits)

end

lemma same_more: "hstate.more s1 = hstate.more s \<Longrightarrow> sv_db s1 = sv_db s"
  for s s1 :: "'b server"
  by (cases s; cases s1) simp

text \<open>A handler behind the chain of a business route: the chain answers and nothing changes, or the handler runs.\<close>

lemma business_api:
  fixes h :: "('d, 'b) api"
  assumes "business_route a up perm h req Background e s = (resp, s')"
  obtains (refused) "rs_status resp \<in> {400, 401, 403, 429, 500}" "sv_db s' = sv_db s" "wdb (hs_world s') = wdb (hs_world s)"
  | (ran) c t s1 where "admitted_to a up perm req e (wdb (hs_world s)) c t" "h req c e s1 = (resp, s')"
      "sv_db s1 = sv_db s" "wdb (hs_world s1) = wdb (hs_world s)"
proof -
  note gate = business_gate [of a up perm req e s, where 'd = 'd]
  show thesis
  proof (cases "refuses (business_route a up perm :: ('d, ('b, unit) server_ext) handler \<Rightarrow> _) {400, 401, 403, 429, 500} req Background e s")
    case True
    then obtain r0 s0 where a0: "business_route a up perm h req Background e s = (r0, s0)" "rs_status r0 \<in> {400, 401, 403, 429, 500}" "untouched s s0"
      unfolding refuses_def by blast
    then have "resp = r0" "s' = s0" using assms by simp_all
    with a0(2,3) same_more [of s0 s] show thesis by (intro refused) (simp_all add: untouched_def)
  next
    case False
    with gate obtain c t where "admitted_to a up perm req e (wdb (hs_world s)) c t"
      and "passes (business_route a up perm :: ('d, ('b, unit) server_ext) handler \<Rightarrow> _) req Background e s c" by blast
    moreover from this(2) obtain s1 where "business_route a up perm h req Background e s = h req c e s1" "untouched s s1"
      unfolding passes_def by blast
    ultimately show thesis using assms same_more [of s1 s] by (intro ran [of c t s1]) (simp_all add: untouched_def)
  qed
qed

lemma admitted_tenant: "admitted_to a up perm req e d c t \<Longrightarrow> RequireTenantID c = Ret t"
  by (auto simp: admitted_to_def)

lemma respond_cases:
  assumes "respond n m e s = (resp, s')"
  obtains r w where "m e \<lparr>wdb = sv_db s, wtx = None, tick = tick (hs_world s)\<rparr> = (r, w)" "sv_db s' = wdb w"
    "wdb (hs_world s') = wdb (hs_world s)" "\<And>x. r = Ret x \<Longrightarrow> resp = JSON n x" "\<And>er. r = Fail er \<Longrightarrow> resp = FromDomainError er"
    "\<And>p. r = Panic p \<Longrightarrow> resp = Err 500 []"
proof -
  obtain r w where "m e \<lparr>wdb = sv_db s, wtx = None, tick = tick (hs_world s)\<rparr> = (r, w)" by fastforce
  with assms show thesis by (intro that [of r w]) (auto simp: respond_def serve_def)
qed

lemma error_not_201: "rs_status (FromDomainError er) \<noteq> 200" "rs_status (FromDomainError er) \<noteq> 201"
  by (simp_all add: FromDomainError_def Err_def)

end
