(* ===== verification/Communication.thy ===== *)
theory Communication
  imports Attachment
begin

text \<open>
  Comments, notifications and the activity timeline: \<open>internal/core/domain/communication\<close>, the
  repository (\<open>communication_repo.go\<close>, \<open>sqlc/communication.sql.go\<close>) and the use case
  (\<open>internal/core/usecase/communication/communication_usecase.go\<close>). The users (name and address by
  identifier) are an argument: comments and notifications refer to them and the listing joins
  them, and these use cases do not change them. The order in which a \<open>range\<close> visits the map of
  mentions, the parser of identifiers and the order \<open>sort.Slice\<close> gives items of the same time
  are arguments too.
\<close>

section \<open>Domain\<close>

definition CommentTypeGeneral :: string where "CommentTypeGeneral = ''comment''"
definition CommentTypeInternalNote :: string where "CommentTypeInternalNote = ''internal_note''"
definition NotificationTypeMention :: string where "NotificationTypeMention = ''mention''"

record Comment =
  cm_ID :: ID
  cm_TenantID :: ID
  cm_EntityType :: string
  cm_EntityID :: ID
  cm_AuthorID :: ID
  cm_Type :: string
  cm_Content :: string
  cm_Mentions :: "ID list"
  cm_ParentID :: "ID option"
  cm_IsPinned :: bool
  cm_Metadata :: gomap
  cm_CreatedAt :: gotime
  cm_UpdatedAt :: gotime

record CommentWithAuthor = Comment +
  cm_AuthorName :: string
  cm_AuthorEmail :: string

record Notification =
  no_ID :: ID
  no_TenantID :: ID
  no_UserID :: ID
  no_ActorID :: "ID option"
  no_Type :: string
  no_Title :: string
  no_Message :: string
  no_EntityType :: string
  no_EntityID :: "ID option"
  no_IsRead :: bool
  no_ReadAt :: "gotime option"
  no_Metadata :: gomap
  no_CreatedAt :: gotime

record ActivityItem =
  ai_ID :: ID
  ai_Timestamp :: gotime
  ai_ActivityType :: string
  ai_ActorID :: "ID option"
  ai_ActorName :: string
  ai_Title :: string
  ai_Description :: string
  ai_Payload :: gomap

text \<open>The regular expression \<open>@([a-zA-Z0-9_\.\-]+)\<close>: every longest run of such bytes after an at sign, from the left.\<close>

definition between :: "char \<Rightarrow> char \<Rightarrow> char \<Rightarrow> bool" where
  "between lo hi c \<longleftrightarrow> lo \<le> c \<and> c \<le> hi"

definition mention_char :: "char \<Rightarrow> bool" where
  "mention_char c \<longleftrightarrow>
     list_ex (\<lambda>(lo, hi). between lo hi c) [(CHR ''0'', CHR ''9''), (CHR ''A'', CHR ''Z''), (CHR ''a'', CHR ''z'')] \<or> c \<in> set ''_.-''"

function mention_matches :: "string \<Rightarrow> string list" where
  "mention_matches [] = []"
| "mention_matches (c # cs) =
     (if c = CHR ''@'' \<and> takeWhile mention_char cs \<noteq> []
      then takeWhile mention_char cs # mention_matches (dropWhile mention_char cs)
      else mention_matches cs)"
  by pat_completeness auto
termination
  by (relation "measure length") (auto simp: le_imp_less_Suc length_dropWhile_le)

fun unique_mentions :: "string list \<Rightarrow> string list \<Rightarrow> string list" where
  "unique_mentions seen [] = []"
| "unique_mentions seen (m # ms) =
     (let val = TrimSpace m
      in if val \<noteq> [] \<and> val \<notin> set seen then val # unique_mentions (val # seen) ms else unique_mentions seen ms)"

definition ExtractMentionStrings :: "string \<Rightarrow> string list" where
  "ExtractMentionStrings content = unique_mentions [] (mention_matches content)"

section \<open>Statements\<close>

type_synonym users = "ID \<Rightarrow> (string \<times> string) option"

definition sql_CreateComment :: "users \<Rightarrow> comment_row \<Rightarrow> int \<Rightarrow> db \<Rightarrow> comment_row res \<times> db" where
  "sql_CreateComment us r0 t d =
     (let r = r0\<lparr>cor_created_at := t, cor_updated_at := t\<rparr>
      in case insert_row (\<lambda>x y. cor_id x = cor_id y)
           (cor_id r \<noteq> NilID \<and> cor_tenant_id r \<noteq> NilID \<and> cor_entity_id r \<noteq> NilID \<and> cor_author_id r \<noteq> NilID \<and>
            us (cor_author_id r) \<noteq> None \<and>
            (case cor_parent_id r of None \<Rightarrow> True | Some p \<Rightarrow> p \<in> cor_id ` set (t_comments d)))
           r (t_comments d) of (x, rs) \<Rightarrow> (x, d\<lparr>t_comments := rs\<rparr>))"

definition own_comment :: "ID \<Rightarrow> ID \<Rightarrow> comment_row \<Rightarrow> bool" where
  "own_comment tenantID i r \<longleftrightarrow> pg_eq (cor_tenant_id r) tenantID \<and> pg_eq (cor_id r) i"

definition sql_GetCommentByID :: "ID \<Rightarrow> ID \<Rightarrow> db \<Rightarrow> comment_row res" where
  "sql_GetCommentByID tenantID i d = select_one (own_comment tenantID i) (t_comments d)"

definition sql_ListCommentsByEntity :: "users \<Rightarrow> ID \<Rightarrow> string \<Rightarrow> ID \<Rightarrow> db \<Rightarrow> (comment_row \<times> string \<times> string) list" where
  "sql_ListCommentsByEntity us tenantID entityType entityID d =
     sort_key (\<lambda>(r, _). \<not> cor_is_pinned r) (sort_key (\<lambda>(r, _). cor_created_at r)
       (concat (map (\<lambda>r. case us (cor_author_id r) of None \<Rightarrow> [] | Some u \<Rightarrow> [(r, u)])
         (filter (\<lambda>r. pg_eq (cor_tenant_id r) tenantID \<and> cor_entity_type r = entityType \<and> pg_eq (cor_entity_id r) entityID)
           (t_comments d)))))"

text \<open>\<open>ON DELETE CASCADE\<close> on the parent: the replies of deleted comments are deleted, as often as there are rows.\<close>

fun deleted_thread :: "nat \<Rightarrow> comment_row list \<Rightarrow> ID list \<Rightarrow> ID list" where
  "deleted_thread 0 rs gone = gone"
| "deleted_thread (Suc n) rs gone =
     deleted_thread n rs
       (gone @ map cor_id (filter (\<lambda>r. cor_id r \<notin> set gone \<and> (case cor_parent_id r of None \<Rightarrow> False | Some p \<Rightarrow> p \<in> set gone)) rs))"

definition sql_DeleteComment :: "ID \<Rightarrow> ID \<Rightarrow> int \<Rightarrow> db \<Rightarrow> unit res \<times> db" where
  "sql_DeleteComment tenantID i t d =
     (let rs = t_comments d; gone = deleted_thread (length rs) rs (map cor_id (filter (own_comment tenantID i) rs))
      in (Ret (), d\<lparr>t_comments := filter (\<lambda>r. cor_id r \<notin> set gone) rs\<rparr>))"

definition sql_CreateNotification :: "users \<Rightarrow> notification_row \<Rightarrow> int \<Rightarrow> db \<Rightarrow> notification_row res \<times> db" where
  "sql_CreateNotification us r0 t d =
     (let r = r0\<lparr>ntr_created_at := t\<rparr>
      in case insert_row (\<lambda>x y. ntr_id x = ntr_id y)
           (ntr_id r \<noteq> NilID \<and> ntr_tenant_id r \<noteq> NilID \<and> ntr_user_id r \<noteq> NilID \<and> us (ntr_user_id r) \<noteq> None \<and>
            (case ntr_actor_id r of None \<Rightarrow> True | Some a \<Rightarrow> us a \<noteq> None))
           r (t_notifications d) of (x, rs) \<Rightarrow> (x, d\<lparr>t_notifications := rs\<rparr>))"

definition sql_GetNotificationByID :: "ID \<Rightarrow> ID \<Rightarrow> db \<Rightarrow> notification_row res" where
  "sql_GetNotificationByID tenantID i d = select_one (\<lambda>r. pg_eq (ntr_tenant_id r) tenantID \<and> pg_eq (ntr_id r) i) (t_notifications d)"

definition notifications_of :: "ID \<Rightarrow> ID \<Rightarrow> notification_row \<Rightarrow> bool" where
  "notifications_of tenantID userID r \<longleftrightarrow> pg_eq (ntr_tenant_id r) tenantID \<and> pg_eq (ntr_user_id r) userID"

definition sql_ListNotificationsByUser :: "ID \<Rightarrow> ID \<Rightarrow> bool \<Rightarrow> int \<Rightarrow> int \<Rightarrow> db \<Rightarrow> notification_row list" where
  "sql_ListNotificationsByUser tenantID userID unreadOnly l k d =
     limit_offset l k (sort_key (\<lambda>r. - ntr_created_at r)
       (filter (\<lambda>r. notifications_of tenantID userID r \<and> (unreadOnly \<longrightarrow> \<not> ntr_is_read r)) (t_notifications d)))"

definition read_at :: "int \<Rightarrow> notification_row \<Rightarrow> notification_row" where
  "read_at t r = r\<lparr>ntr_is_read := True, ntr_read_at := Some t\<rparr>"

definition sql_MarkNotificationRead :: "ID \<Rightarrow> ID \<Rightarrow> ID \<Rightarrow> int \<Rightarrow> db \<Rightarrow> unit res \<times> db" where
  "sql_MarkNotificationRead tenantID userID i t d =
     (Ret (), d\<lparr>t_notifications :=
        update_rows (\<lambda>r. notifications_of tenantID userID r \<and> pg_eq (ntr_id r) i) (read_at t) (t_notifications d)\<rparr>)"

definition sql_MarkAllNotificationsRead :: "ID \<Rightarrow> ID \<Rightarrow> int \<Rightarrow> db \<Rightarrow> unit res \<times> db" where
  "sql_MarkAllNotificationsRead tenantID userID t d =
     (Ret (), d\<lparr>t_notifications :=
        update_rows (\<lambda>r. notifications_of tenantID userID r \<and> \<not> ntr_is_read r) (read_at t) (t_notifications d)\<rparr>)"

definition sql_CountUnreadNotifications :: "ID \<Rightarrow> ID \<Rightarrow> db \<Rightarrow> int" where
  "sql_CountUnreadNotifications tenantID userID d =
     int (length (filter (\<lambda>r. notifications_of tenantID userID r \<and> \<not> ntr_is_read r) (t_notifications d)))"

section \<open>Repository\<close>

text \<open>Identifiers are JSON texts. Only \<open>CreateComment\<close> writes the column, so a value that is no array of texts is read
  as far as it can be.\<close>

definition json_of_ids :: "ID list \<Rightarrow> json" where
  "json_of_ids is = JArr (map (\<lambda>i. JStr (ID_String i)) is)"

fun decode_ids :: "(string \<Rightarrow> ID option) \<Rightarrow> json list \<Rightarrow> ID list" where
  "decode_ids uuid_parse [] = []"
| "decode_ids uuid_parse (JStr s # js) = (case uuid_parse s of None \<Rightarrow> [NilID] | Some i \<Rightarrow> i # decode_ids uuid_parse js)"
| "decode_ids uuid_parse (j # js) = []"

definition ids_of_json :: "(string \<Rightarrow> ID option) \<Rightarrow> json \<Rightarrow> ID list" where
  "ids_of_json uuid_parse j = (case j of JArr js \<Rightarrow> decode_ids uuid_parse js | _ \<Rightarrow> [])"

definition comment_row_of :: "Comment \<Rightarrow> comment_row" where
  "comment_row_of c =
     \<lparr>cor_id = cm_ID c, cor_tenant_id = cm_TenantID c, cor_entity_type = cm_EntityType c, cor_entity_id = cm_EntityID c,
      cor_author_id = cm_AuthorID c, cor_type = cm_Type c, cor_content = cm_Content c, cor_mentions = json_of_ids (cm_Mentions c),
      cor_parent_id = id_of_ptr (cm_ParentID c), cor_is_pinned = cm_IsPinned c, cor_metadata = json_of_map (cm_Metadata c),
      cor_created_at = 0, cor_updated_at = 0\<rparr>"

definition comment_of_row :: "(string \<Rightarrow> ID option) \<Rightarrow> (int \<Rightarrow> int) \<Rightarrow> comment_row \<Rightarrow> Comment" where
  "comment_of_row uuid_parse lo r =
     \<lparr>cm_ID = cor_id r, cm_TenantID = cor_tenant_id r, cm_EntityType = cor_entity_type r, cm_EntityID = cor_entity_id r,
      cm_AuthorID = cor_author_id r, cm_Type = cor_type r, cm_Content = cor_content r, cm_Mentions = ids_of_json uuid_parse (cor_mentions r),
      cm_ParentID = cor_parent_id r, cm_IsPinned = cor_is_pinned r, cm_Metadata = map_of_json (cor_metadata r),
      cm_CreatedAt = ts_local lo (cor_created_at r), cm_UpdatedAt = ts_local lo (cor_updated_at r)\<rparr>"

definition comm_repo_CreateComment :: "users \<Rightarrow> ctx \<Rightarrow> Comment \<Rightarrow> Comment dbproc" where
  "comm_repo_CreateComment us c cm =
     read_with (\<lambda>lo r. cm\<lparr>cm_CreatedAt := ts_local lo (cor_created_at r), cm_UpdatedAt := ts_local lo (cor_updated_at r)\<rparr>)
       (stmt c (sql_CreateComment us (comment_row_of cm)))"

definition comm_repo_GetCommentByID :: "(string \<Rightarrow> ID option) \<Rightarrow> ctx \<Rightarrow> ID \<Rightarrow> ID \<Rightarrow> Comment dbproc" where
  "comm_repo_GetCommentByID uuid_parse c tenantID i =
     read_with (comment_of_row uuid_parse) (norows_notfound (query c (sql_GetCommentByID tenantID i)))"

definition with_author :: "(string \<Rightarrow> ID option) \<Rightarrow> (int \<Rightarrow> int) \<Rightarrow> comment_row \<times> string \<times> string \<Rightarrow> CommentWithAuthor" where
  "with_author uuid_parse lo = (\<lambda>(r, name, email). Comment.extend (comment_of_row uuid_parse lo r) (CommentWithAuthor.fields name email))"

definition comm_repo_ListCommentsByEntity ::
    "users \<Rightarrow> (string \<Rightarrow> ID option) \<Rightarrow> ctx \<Rightarrow> ID \<Rightarrow> string \<Rightarrow> ID \<Rightarrow> CommentWithAuthor list dbproc" where
  "comm_repo_ListCommentsByEntity us uuid_parse c tenantID entityType entityID =
     read_with (\<lambda>lo. map (with_author uuid_parse lo))
       (query c (\<lambda>d. Ret (sql_ListCommentsByEntity us tenantID entityType entityID d)))"

definition comm_repo_DeleteComment :: "ctx \<Rightarrow> ID \<Rightarrow> ID \<Rightarrow> unit dbproc" where
  "comm_repo_DeleteComment c tenantID i = stmt c (sql_DeleteComment tenantID i)"

definition notification_row_of :: "Notification \<Rightarrow> notification_row" where
  "notification_row_of n =
     \<lparr>ntr_id = no_ID n, ntr_tenant_id = no_TenantID n, ntr_user_id = no_UserID n, ntr_actor_id = id_of_ptr (no_ActorID n),
      ntr_type = no_Type n, ntr_title = no_Title n, ntr_message = no_Message n, ntr_entity_type = no_EntityType n,
      ntr_entity_id = id_of_ptr (no_EntityID n), ntr_is_read = no_IsRead n, ntr_read_at = None,
      ntr_metadata = json_of_map (no_Metadata n), ntr_created_at = 0\<rparr>"

definition notification_of_row :: "(int \<Rightarrow> int) \<Rightarrow> notification_row \<Rightarrow> Notification" where
  "notification_of_row lo r =
     \<lparr>no_ID = ntr_id r, no_TenantID = ntr_tenant_id r, no_UserID = ntr_user_id r, no_ActorID = ntr_actor_id r, no_Type = ntr_type r,
      no_Title = ntr_title r, no_Message = ntr_message r, no_EntityType = ntr_entity_type r, no_EntityID = ntr_entity_id r,
      no_IsRead = ntr_is_read r, no_ReadAt = map_option (ts_local lo) (ntr_read_at r), no_Metadata = map_of_json (ntr_metadata r),
      no_CreatedAt = ts_local lo (ntr_created_at r)\<rparr>"

definition comm_repo_CreateNotification :: "users \<Rightarrow> ctx \<Rightarrow> Notification \<Rightarrow> Notification dbproc" where
  "comm_repo_CreateNotification us c n =
     read_with (\<lambda>lo r. n\<lparr>no_CreatedAt := ts_local lo (ntr_created_at r)\<rparr>) (stmt c (sql_CreateNotification us (notification_row_of n)))"

definition comm_repo_GetNotificationByID :: "ctx \<Rightarrow> ID \<Rightarrow> ID \<Rightarrow> Notification dbproc" where
  "comm_repo_GetNotificationByID c tenantID i =
     read_with notification_of_row (norows_notfound (query c (sql_GetNotificationByID tenantID i)))"

definition comm_repo_ListNotificationsByUser :: "ctx \<Rightarrow> ID \<Rightarrow> ID \<Rightarrow> bool \<Rightarrow> int32 \<Rightarrow> int32 \<Rightarrow> Notification list dbproc" where
  "comm_repo_ListNotificationsByUser c tenantID userID unreadOnly l k =
     read_with (\<lambda>lo. map (notification_of_row lo))
       (query c (\<lambda>d. Ret (sql_ListNotificationsByUser tenantID userID unreadOnly (sint l) (sint k) d)))"

definition comm_repo_MarkNotificationRead :: "ctx \<Rightarrow> ID \<Rightarrow> ID \<Rightarrow> ID \<Rightarrow> unit dbproc" where
  "comm_repo_MarkNotificationRead c tenantID userID i = stmt c (sql_MarkNotificationRead tenantID userID i)"

definition comm_repo_MarkAllNotificationsRead :: "ctx \<Rightarrow> ID \<Rightarrow> ID \<Rightarrow> unit dbproc" where
  "comm_repo_MarkAllNotificationsRead c tenantID userID = stmt c (sql_MarkAllNotificationsRead tenantID userID)"

definition comm_repo_CountUnreadNotifications :: "ctx \<Rightarrow> ID \<Rightarrow> ID \<Rightarrow> int dbproc" where
  "comm_repo_CountUnreadNotifications c tenantID userID = query c (\<lambda>d. Ret (sql_CountUnreadNotifications tenantID userID d))"

section \<open>Use case\<close>

record CreateCommentCommand =
  cc_TenantID :: ID
  cc_EntityType :: string
  cc_EntityID :: ID
  cc_AuthorID :: ID
  cc_Type :: string
  cc_Content :: string
  cc_Mentions :: "ID list"
  cc_ParentID :: "ID option"
  cc_IsPinned :: bool
  cc_Metadata :: gomap

text \<open>The repositories that are present, and the arguments named above.\<close>

record CommunicationUsecase =
  cu_outbox :: bool
  cu_audit :: bool
  cu_attachments :: bool
  cu_users :: users
  cu_parse :: "string \<Rightarrow> ID option"
  cu_range :: "ID list \<Rightarrow> ID list"
  cu_sort :: "ActivityItem list \<Rightarrow> ActivityItem list"

text \<open>The keys of the map of mentions.\<close>

definition add_key :: "'k \<Rightarrow> 'k list \<Rightarrow> 'k list" where
  "add_key k ks = (if k \<in> set ks then ks else ks @ [k])"

fun add_mentions :: "ID list \<Rightarrow> ID list \<Rightarrow> ID list" where
  "add_mentions ks [] = ks"
| "add_mentions ks (m # ms) = add_mentions (if m \<noteq> NilID then add_key m ks else ks) ms"

fun add_parsed :: "(string \<Rightarrow> ID option) \<Rightarrow> ID list \<Rightarrow> string list \<Rightarrow> ID list" where
  "add_parsed uuid_parse ks [] = ks"
| "add_parsed uuid_parse ks (s # ss) =
     add_parsed uuid_parse (case ParseID uuid_parse s of Ret i \<Rightarrow> if i \<noteq> NilID then add_key i ks else ks | _ \<Rightarrow> ks) ss"

definition mention_keys :: "(string \<Rightarrow> ID option) \<Rightarrow> ID list \<Rightarrow> string \<Rightarrow> ID list" where
  "mention_keys uuid_parse ms content = add_parsed uuid_parse (add_mentions [] ms) (ExtractMentionStrings content)"

definition comment_type :: "string \<Rightarrow> string" where
  "comment_type t = (let ct = ToLower (TrimSpace t) in if ct = [] then CommentTypeGeneral else ct)"

definition new_comment :: "ID \<Rightarrow> CreateCommentCommand \<Rightarrow> ID list \<Rightarrow> gotime \<Rightarrow> Comment" where
  "new_comment i cmd mentions now =
     \<lparr>cm_ID = i, cm_TenantID = cc_TenantID cmd, cm_EntityType = ToLower (cc_EntityType cmd), cm_EntityID = cc_EntityID cmd,
      cm_AuthorID = cc_AuthorID cmd, cm_Type = comment_type (cc_Type cmd), cm_Content = TrimSpace (cc_Content cmd),
      cm_Mentions = mentions, cm_ParentID = cc_ParentID cmd, cm_IsPinned = cc_IsPinned cmd, cm_Metadata = cc_Metadata cmd,
      cm_CreatedAt = now, cm_UpdatedAt = now\<rparr>"

definition mention_notification :: "ID \<Rightarrow> CreateCommentCommand \<Rightarrow> ID \<Rightarrow> gotime \<Rightarrow> Notification" where
  "mention_notification i cmd userID now =
     \<lparr>no_ID = i, no_TenantID = cc_TenantID cmd, no_UserID = userID, no_ActorID = Some (cc_AuthorID cmd),
      no_Type = NotificationTypeMention, no_Title = ''Mentioned in '' @ cc_EntityType cmd, no_Message = TrimSpace (cc_Content cmd),
      no_EntityType = cc_EntityType cmd, no_EntityID = Some (cc_EntityID cmd), no_IsRead = False, no_ReadAt = None,
      no_Metadata = None, no_CreatedAt = now\<rparr>"

fun notify_mentioned :: "users \<Rightarrow> ctx \<Rightarrow> CreateCommentCommand \<Rightarrow> gotime \<Rightarrow> ID list \<Rightarrow> unit dbproc" where
  "notify_mentioned us tc cmd now [] = ret ()"
| "notify_mentioned us tc cmd now (m # ms) =
     (if m = cc_AuthorID cmd then notify_mentioned us tc cmd now ms
      else bindP NewID (\<lambda>notifID.
           bindP (wrap_err ''create notification''
             (comm_repo_CreateNotification us tc (mention_notification notifID cmd m now))) (\<lambda>_.
           notify_mentioned us tc cmd now ms)))"

definition comment_event :: "ID \<Rightarrow> CreateCommentCommand \<Rightarrow> Comment \<Rightarrow> gotime \<Rightarrow> OutboxEvent" where
  "comment_event i cmd cm now =
     \<lparr>oe_ID = i, oe_TenantID = cc_TenantID cmd, oe_EventType = ''comment.created'', oe_AggregateType = cc_EntityType cmd,
      oe_AggregateID = cc_EntityID cmd,
      oe_Payload = Some [(''comment_id'', JStr (ID_String (cm_ID cm))), (''author_id'', JStr (ID_String (cm_AuthorID cm))),
        (''type'', JStr (cm_Type cm)), (''mentions'', json_of_ids (cm_Mentions cm))],
      oe_Status = OutboxStatusPending, oe_RetryCount = 0, oe_ErrorMessage = [], oe_CreatedAt = now, oe_PublishedAt = None\<rparr>"

definition comment_audit :: "ID \<Rightarrow> CreateCommentCommand \<Rightarrow> Comment \<Rightarrow> gotime \<Rightarrow> AuditLog" where
  "comment_audit i cmd cm now =
     \<lparr>al_ID = i, al_TenantID = cc_TenantID cmd, al_ActorID = Some (cc_AuthorID cmd), al_ActorType = ActorTypeUser_str,
      al_Action = ActionCreate, al_EntityType = ''comment'', al_EntityID = cm_ID cm,
      al_Changes = Some [(''content'', JStr (cm_Content cm)), (''entity_type'', JStr (cm_EntityType cm)),
        (''entity_id'', JStr (ID_String (cm_EntityID cm)))],
      al_Metadata = None, al_CreatedAt = now\<rparr>"

text \<open>The body of the transaction.\<close>

definition comment_body :: "CommunicationUsecase \<Rightarrow> CreateCommentCommand \<Rightarrow> Comment \<Rightarrow> gotime \<Rightarrow> ctx \<Rightarrow> Comment dbproc" where
  "comment_body u cmd cm now tc =
     bindP (comm_repo_CreateComment (cu_users u) tc cm) (\<lambda>cm1.
     bindP (notify_mentioned (cu_users u) tc cmd now (cm_Mentions cm)) (\<lambda>_.
     bindP (if cu_outbox u
            then bindP NewID (\<lambda>evtID. bindP (wrap_err ''outbox write'' (outbox_Create tc (comment_event evtID cmd cm now))) (\<lambda>_. ret ()))
            else ret ()) (\<lambda>_.
     bindP (if cu_audit u
            then bindP NewID (\<lambda>auditID. bindP (wrap_err ''audit write'' (audit_Create tc (comment_audit auditID cmd cm now))) (\<lambda>_. ret ()))
            else ret ()) (\<lambda>_.
     ret cm1))))"

definition CreateComment :: "CommunicationUsecase \<Rightarrow> ctx \<Rightarrow> CreateCommentCommand \<Rightarrow> Comment dbproc" where
  "CreateComment u c cmd =
     bindP (guard (cc_TenantID cmd \<noteq> NilID) ErrTenantRequired) (\<lambda>_.
     bindP (guard (cc_EntityType cmd \<noteq> []) (Wrapped ''entity_type is required'' ErrInvalidInput)) (\<lambda>_.
     bindP (guard (cc_EntityID cmd \<noteq> NilID) (Wrapped ''entity_id is required'' ErrInvalidInput)) (\<lambda>_.
     bindP (guard (cc_AuthorID cmd \<noteq> NilID) (Wrapped ''author_id is required'' ErrInvalidInput)) (\<lambda>_.
     bindP (guard (TrimSpace (cc_Content cmd) \<noteq> []) (Wrapped ''comment content cannot be empty'' ErrInvalidInput)) (\<lambda>_.
     bindP (guard (comment_type (cc_Type cmd) \<in> {CommentTypeGeneral, CommentTypeInternalNote})
       (Wrapped ''invalid comment type'' ErrInvalidInput)) (\<lambda>_.
     bindP NewID (\<lambda>commentID.
     bindP Now (\<lambda>now.
     let mentions = cu_range u (mention_keys (cu_parse u) (cc_Mentions cmd) (TrimSpace (cc_Content cmd)));
         cm = new_comment commentID cmd mentions now
     in WithTx c (comment_body u cmd cm now)))))))))"

definition ListEntityComments :: "CommunicationUsecase \<Rightarrow> ctx \<Rightarrow> ID \<Rightarrow> string \<Rightarrow> ID \<Rightarrow> CommentWithAuthor list dbproc" where
  "ListEntityComments u c tenantID entityType entityID =
     bindP (guard (tenantID \<noteq> NilID) ErrTenantRequired) (\<lambda>_.
     comm_repo_ListCommentsByEntity (cu_users u) (cu_parse u) c tenantID (ToLower entityType) entityID)"

definition DeleteComment :: "CommunicationUsecase \<Rightarrow> ctx \<Rightarrow> ID \<Rightarrow> ID \<Rightarrow> ID \<Rightarrow> unit dbproc" where
  "DeleteComment u c tenantID commentID actorID =
     bindP (guard (tenantID \<noteq> NilID) ErrTenantRequired) (\<lambda>_.
     bindP (comm_repo_GetCommentByID (cu_parse u) c tenantID commentID) (\<lambda>cm.
     bindP (guard (\<not> (actorID \<noteq> NilID \<and> cm_AuthorID cm \<noteq> actorID)) ErrForbidden) (\<lambda>_.
     comm_repo_DeleteComment c tenantID commentID)))"

definition ListNotifications :: "ctx \<Rightarrow> ID \<Rightarrow> ID \<Rightarrow> bool \<Rightarrow> int32 \<Rightarrow> int32 \<Rightarrow> (Notification list \<times> int) dbproc" where
  "ListNotifications c tenantID userID unreadOnly limit0 k =
     (let limit1 = (if limit0 \<le>s 0 then 20 else limit0); l = (if 100 <s limit1 then 100 else limit1)
      in bindP (guard (tenantID \<noteq> NilID) ErrTenantRequired) (\<lambda>_.
         bindP (comm_repo_ListNotificationsByUser c tenantID userID unreadOnly l k) (\<lambda>items.
         bindP (comm_repo_CountUnreadNotifications c tenantID userID) (\<lambda>n. ret (items, n)))))"

definition MarkNotificationRead :: "ctx \<Rightarrow> ID \<Rightarrow> ID \<Rightarrow> ID \<Rightarrow> unit dbproc" where
  "MarkNotificationRead c tenantID userID notificationID =
     bindP (guard (tenantID \<noteq> NilID) ErrTenantRequired) (\<lambda>_. comm_repo_MarkNotificationRead c tenantID userID notificationID)"

definition MarkAllNotificationsRead :: "ctx \<Rightarrow> ID \<Rightarrow> ID \<Rightarrow> unit dbproc" where
  "MarkAllNotificationsRead c tenantID userID =
     bindP (guard (tenantID \<noteq> NilID) ErrTenantRequired) (\<lambda>_. comm_repo_MarkAllNotificationsRead c tenantID userID)"

section \<open>Timeline\<close>

definition comment_item :: "CommentWithAuthor \<Rightarrow> ActivityItem" where
  "comment_item c =
     \<lparr>ai_ID = cm_ID c, ai_Timestamp = cm_CreatedAt c, ai_ActivityType = ''comment'', ai_ActorID = Some (cm_AuthorID c),
      ai_ActorName = cm_AuthorName c,
      ai_Title = (if cm_Type c = CommentTypeInternalNote then ''Added an internal note'' else ''Added a comment''),
      ai_Description = cm_Content c,
      ai_Payload = Some [(''comment_type'', JStr (cm_Type c)), (''is_pinned'', JBool (cm_IsPinned c)),
        (''mentions'', json_of_ids (cm_Mentions c))]\<rparr>"

definition audit_item :: "AuditLog \<Rightarrow> ActivityItem" where
  "audit_item l =
     (let desc = ''Action: '' @ al_Action l;
          reason = (case al_Changes l of None \<Rightarrow> [] | Some kvs \<Rightarrow> (case map_of kvs ''reason'' of Some (JStr s) \<Rightarrow> s | _ \<Rightarrow> []))
      in \<lparr>ai_ID = al_ID l, ai_Timestamp = al_CreatedAt l, ai_ActivityType = ''audit'', ai_ActorID = al_ActorID l, ai_ActorName = [],
          ai_Title = ''Status / Operation: '' @ al_Action l,
          ai_Description = (if reason \<noteq> [] then desc @ '' (Reason: '' @ reason @ '')'' else desc), ai_Payload = al_Changes l\<rparr>)"

definition attachment_item :: "AttachmentWithFile \<Rightarrow> ActivityItem" where
  "attachment_item a =
     \<lparr>ai_ID = aw_AttachmentID a, ai_Timestamp = aw_AttachedAt a, ai_ActivityType = ''attachment'', ai_ActorID = aw_UploadedBy a,
      ai_ActorName = [], ai_Title = ''Attached file ('' @ aw_Purpose a @ '')'',
      ai_Description = aw_Filename a @ '' ('' @ fmt_d (sint (aw_SizeBytes a)) @ '' bytes)'',
      ai_Payload = Some [(''file_id'', JStr (ID_String (aw_FileID a))), (''filename'', JStr (aw_Filename a)), (''purpose'', JStr (aw_Purpose a)),
        (''mime_type'', JStr (aw_MimeType a)), (''size_bytes'', JInt (sint (aw_SizeBytes a))), (''sha256_hash'', JStr (aw_SHA256Hash a))]\<rparr>"

text \<open>\<open>if err == nil { append }\<close>: a source that fails is left out.\<close>

definition or_none :: "'a list dbproc \<Rightarrow> 'a list dbproc" where
  "or_none m = bindP (tryP m) (\<lambda>r. ret (case r of Ret xs \<Rightarrow> xs | _ \<Rightarrow> []))"

definition timeline_filter :: "string \<Rightarrow> ID \<Rightarrow> AuditFilter" where
  "timeline_filter entityType entityID =
     \<lparr>af_EntityType = Some entityType, af_EntityID = Some entityID, af_ActorID = None, af_Action = None, af_Limit = 100, af_Offset = 0\<rparr>"

definition GetUnifiedTimeline :: "CommunicationUsecase \<Rightarrow> ctx \<Rightarrow> ID \<Rightarrow> string \<Rightarrow> ID \<Rightarrow> ActivityItem list dbproc" where
  "GetUnifiedTimeline u c tenantID entityType entityID =
     bindP (guard (tenantID \<noteq> NilID) ErrTenantRequired) (\<lambda>_.
     bindP (or_none (comm_repo_ListCommentsByEntity (cu_users u) (cu_parse u) c tenantID entityType entityID)) (\<lambda>comments.
     bindP (if cu_audit u then or_none (bindP (audit_List c tenantID (timeline_filter entityType entityID)) (\<lambda>(logs, _). ret logs)) else ret [])
       (\<lambda>logs.
     bindP (if cu_attachments u then or_none (att_repo_ListAttachmentsByEntity c tenantID entityType entityID) else ret []) (\<lambda>atts.
     ret (cu_sort u (map comment_item comments @ map audit_item logs @ map attachment_item atts))))))"

end
