(* ===== verification/CommunicationProps.thy ===== *)
theory CommunicationProps
  imports Communication
begin

text \<open>
  A comment, its notifications, its event and its audit record are stored together or not at all; threads
  stay whole when comments are deleted.
\<close>

section \<open>Mentions\<close>

lemma add_key_set [simp]: "set (add_key k ks) = insert k (set ks)" "distinct (add_key k ks) \<longleftrightarrow> distinct ks"
  by (auto simp: add_key_def)

lemma add_mentions_set: "set (add_mentions ks ms) = set ks \<union> {m \<in> set ms. m \<noteq> NilID}" "distinct ks \<Longrightarrow> distinct (add_mentions ks ms)"
  by (induction ms arbitrary: ks) auto

lemma add_parsed_set:
  "set (add_parsed f ks ss) = set ks \<union> {i. i \<noteq> NilID \<and> (\<exists>s \<in> set ss. f s = Some i)}"
  "distinct ks \<Longrightarrow> distinct (add_parsed f ks ss)"
  by (induction ss arbitrary: ks) (auto simp: ParseID_def split: option.splits)

definition mentioned :: "CommunicationUsecase \<Rightarrow> CreateCommentCommand \<Rightarrow> ID set" where
  "mentioned u cmd = {m \<in> set (cc_Mentions cmd). m \<noteq> NilID} \<union>
     {i. i \<noteq> NilID \<and> (\<exists>s \<in> set (ExtractMentionStrings (TrimSpace (cc_Content cmd))). cu_parse u s = Some i)}"

lemma mention_keys_set:
  "set (mention_keys (cu_parse u) (cc_Mentions cmd) (TrimSpace (cc_Content cmd))) = mentioned u cmd"
  "distinct (mention_keys f ms content)"
  by (auto simp: mention_keys_def mentioned_def add_parsed_set add_mentions_set)

text \<open>A \<open>range\<close> over a map visits every key once.\<close>

definition visits_once :: "('k list \<Rightarrow> 'k list) \<Rightarrow> bool" where
  "visits_once f \<longleftrightarrow> (\<forall>ks. distinct ks \<longrightarrow> distinct (f ks) \<and> set (f ks) = set ks)"

section \<open>The transaction\<close>

definition comment_effect ::
    "CommunicationUsecase \<Rightarrow> CreateCommentCommand \<Rightarrow> Comment \<Rightarrow> gotime \<Rightarrow> int \<Rightarrow> notification_row list \<Rightarrow> ID \<Rightarrow> ID \<Rightarrow> db \<Rightarrow> db" where
  "comment_effect u cmd cm now t nts evtID auditID d =
     d\<lparr>t_comments := t_comments d @ [(comment_row_of cm)\<lparr>cor_created_at := t, cor_updated_at := t\<rparr>],
       t_notifications := t_notifications d @ nts,
       t_outbox_events := t_outbox_events d @ (if cu_outbox u then [outbox_row_of (comment_event evtID cmd cm now)] else []),
       t_audit_logs := t_audit_logs d @ (if cu_audit u then [audit_row_of (comment_audit auditID cmd cm now)] else [])\<rparr>"

definition notices :: "CreateCommentCommand \<Rightarrow> gotime \<Rightarrow> notification_row list \<Rightarrow> ID list \<Rightarrow> bool" where
  "notices cmd now nts ms \<longleftrightarrow>
     list_all2 (\<lambda>n m. \<exists>i t. n = (notification_row_of (mention_notification i cmd m now))\<lparr>ntr_created_at := t\<rparr>) nts ms"

lemma comm_creates_keep [keeps_intros]:
  "ctx_tx c \<Longrightarrow> keeps_db (comm_repo_CreateComment us c cm)" "ctx_tx c \<Longrightarrow> keeps_db (comm_repo_CreateNotification us c n)"
  "ctx_tx c \<Longrightarrow> keeps_db (outbox_Create c ev)" "ctx_tx c \<Longrightarrow> keeps_db (audit_Create c al)"
  unfolding comm_repo_CreateComment_def comm_repo_CreateNotification_def outbox_Create_def audit_Create_def
  by (intro keeps_intros; assumption)+

lemma notify_keeps [keeps_intros]: "ctx_tx c \<Longrightarrow> keeps_db (notify_mentioned us c cmd now ms)"
  by (induction ms) (auto intro!: keeps_intros)

lemma body_keeps: "ctx_tx c \<Longrightarrow> keeps_db (comment_body u cmd cm now c)"
  unfolding comment_body_def by (auto intro!: keeps_intros)

lemma CreateComment_inside:
  assumes "comm_repo_CreateComment us c cm e w = (Ret x, w')" "ctx_tx c" "wtx w = Some (d, False)"
  obtains t where "wtx w' = Some (d\<lparr>t_comments := t_comments d @ [(comment_row_of cm)\<lparr>cor_created_at := t, cor_updated_at := t\<rparr>]\<rparr>, False)"
    "x = cm\<lparr>cm_CreatedAt := ts_local (local_off e) t, cm_UpdatedAt := ts_local (local_off e) t\<rparr>"
proof -
  let ?t = "dbnow_at e (tick w)"
  have "wtx w' = Some (d\<lparr>t_comments := t_comments d @ [(comment_row_of cm)\<lparr>cor_created_at := ?t, cor_updated_at := ?t\<rparr>]\<rparr>, False)"
    "x = cm\<lparr>cm_CreatedAt := ts_local (local_off e) ?t, cm_UpdatedAt := ts_local (local_off e) ?t\<rparr>"
    using assms by (auto simp: comm_repo_CreateComment_def read_with_Ret_iff stmt_Ret_inside sql_CreateComment_def Let_def insert_row_Ret_iff
        split: prod.splits)
  then show thesis by (rule that)
qed

lemma CreateNotification_inside:
  assumes "comm_repo_CreateNotification us c n e w = (Ret x, w')" "ctx_tx c" "wtx w = Some (d, False)"
  obtains t where "wtx w' = Some (d\<lparr>t_notifications := t_notifications d @ [(notification_row_of n)\<lparr>ntr_created_at := t\<rparr>]\<rparr>, False)"
proof -
  have "wtx w' = Some (d\<lparr>t_notifications := t_notifications d @ [(notification_row_of n)\<lparr>ntr_created_at := dbnow_at e (tick w)\<rparr>]\<rparr>, False)"
    using assms by (auto simp: comm_repo_CreateNotification_def read_with_Ret_iff stmt_Ret_inside sql_CreateNotification_def Let_def
        insert_row_Ret_iff split: prod.splits)
  then show thesis by (rule that)
qed

lemma notify_inside:
  assumes "notify_mentioned us c cmd now ms e w = (Ret x, w')" "ctx_tx c" "wtx w = Some (d, False)"
  shows "\<exists>nts. wtx w' = Some (d\<lparr>t_notifications := t_notifications d @ nts\<rparr>, False) \<and> notices cmd now nts (filter (\<lambda>m. m \<noteq> cc_AuthorID cmd) ms)"
  using assms
proof (induction ms arbitrary: w d)
  case Nil
  then show ?case by (auto simp: ret_def notices_def intro!: exI [of _ "[]"])
next
  case (Cons m ms)
  show ?case
  proof (cases "m = cc_AuthorID cmd")
    case True
    with Cons show ?thesis by simp
  next
    case False
    obtain i w1 y w2 where w1: "wtx w1 = Some (d, False)"
      and n: "comm_repo_CreateNotification us c (mention_notification i cmd m now) e w1 = (Ret y, w2)"
      and rest: "notify_mentioned us c cmd now ms e w2 = (Ret x, w')"
    proof -
      obtain i where i: "newid_at e (tick w) = Some i" and b: "bindP (wrap_err ''create notification''
          (comm_repo_CreateNotification us c (mention_notification i cmd m now))) (\<lambda>_. notify_mentioned us c cmd now ms) e (w\<lparr>tick := Suc (tick w)\<rparr>) = (Ret x, w')"
        using Cons.prems(1) False by (auto simp: bindP_Ret_iff [of NewID] proc_simps)
      obtain y w2 where "comm_repo_CreateNotification us c (mention_notification i cmd m now) e (w\<lparr>tick := Suc (tick w)\<rparr>) = (Ret y, w2)"
        "notify_mentioned us c cmd now ms e w2 = (Ret x, w')" using b by (auto simp: bindP_Ret_iff proc_simps)
      with Cons.prems(3) show thesis by (intro that [of "w\<lparr>tick := Suc (tick w)\<rparr>"]) auto
    qed
    obtain t where t: "wtx w2 = Some (d\<lparr>t_notifications := t_notifications d @ [(notification_row_of (mention_notification i cmd m now))\<lparr>ntr_created_at := t\<rparr>]\<rparr>, False)"
      by (rule CreateNotification_inside [OF n Cons.prems(2) w1])
    from Cons.IH [OF rest Cons.prems(2) t] obtain nts where nts: "notices cmd now nts (filter (\<lambda>m. m \<noteq> cc_AuthorID cmd) ms)"
      "wtx w' = Some (d\<lparr>t_notifications := t_notifications d @ (notification_row_of (mention_notification i cmd m now))\<lparr>ntr_created_at := t\<rparr> # nts\<rparr>, False)"
      by auto
    then have "notices cmd now ((notification_row_of (mention_notification i cmd m now))\<lparr>ntr_created_at := t\<rparr> # nts) (filter (\<lambda>m. m \<noteq> cc_AuthorID cmd) (m # ms))"
      using False by (auto simp: notices_def)
    with nts(2) show ?thesis by blast
  qed
qed

lemma outbox_inside:
  assumes "(if b then bindP NewID (\<lambda>i. bindP (wrap_err s (outbox_Create c (ev i))) (\<lambda>_. ret ())) else ret ()) e w = (Ret x, w')"
    and "ctx_tx c" "wtx w = Some (d, False)"
  shows "\<exists>i. wtx w' = Some (d\<lparr>t_outbox_events := t_outbox_events d @ (if b then [outbox_row_of (ev i)] else [])\<rparr>, False)"
  using assms by (auto simp: outbox_Create_def bindP_Ret_iff proc_simps stmt_Ret_inside sql_CreateOutboxEvent_Ret_iff split: if_splits)

lemma audit_inside:
  assumes "(if b then bindP NewID (\<lambda>i. bindP (wrap_err s (audit_Create c (al i))) (\<lambda>_. ret ())) else ret ()) e w = (Ret x, w')"
    and "ctx_tx c" "wtx w = Some (d, False)"
  shows "\<exists>i. wtx w' = Some (d\<lparr>t_audit_logs := t_audit_logs d @ (if b then [audit_row_of (al i)] else [])\<rparr>, False)"
  using assms by (auto simp: audit_Create_def bindP_Ret_iff proc_simps stmt_Ret_inside sql_CreateAuditLog_Ret_iff split: if_splits)

lemma body_inside:
  assumes "comment_body u cmd cm now c e w = (Ret x, w')" "ctx_tx c" "wtx w = Some (d, False)"
  obtains t nts oid aid where "wtx w' = Some (comment_effect u cmd cm now t nts oid aid d, False)"
    "notices cmd now nts (filter (\<lambda>m. m \<noteq> cc_AuthorID cmd) (cm_Mentions cm))"
    "x = cm\<lparr>cm_CreatedAt := ts_local (local_off e) t, cm_UpdatedAt := ts_local (local_off e) t\<rparr>"
proof -
  let ?ob = "if cu_outbox u then bindP NewID (\<lambda>i. bindP (wrap_err ''outbox write'' (outbox_Create c (comment_event i cmd cm now))) (\<lambda>_. ret ())) else ret ()"
  let ?al = "if cu_audit u then bindP NewID (\<lambda>i. bindP (wrap_err ''audit write'' (audit_Create c (comment_audit i cmd cm now))) (\<lambda>_. ret ())) else ret ()"
  obtain cm1 w1 y2 w2 y3 w3 y4 w4 where m1: "comm_repo_CreateComment (cu_users u) c cm e w = (Ret cm1, w1)"
    and m2: "notify_mentioned (cu_users u) c cmd now (cm_Mentions cm) e w1 = (Ret y2, w2)"
    and m3: "?ob e w2 = (Ret y3, w3)" and m4: "?al e w3 = (Ret y4, w4)" and x: "x = cm1" "w' = w4"
    using assms(1) unfolding comment_body_def bindP_Ret_iff ret_Ret_iff by blast
  obtain t where t: "wtx w1 = Some (d\<lparr>t_comments := t_comments d @ [(comment_row_of cm)\<lparr>cor_created_at := t, cor_updated_at := t\<rparr>]\<rparr>, False)"
    "cm1 = cm\<lparr>cm_CreatedAt := ts_local (local_off e) t, cm_UpdatedAt := ts_local (local_off e) t\<rparr>"
    by (rule CreateComment_inside [OF m1 assms(2,3)])
  obtain nts where nts: "notices cmd now nts (filter (\<lambda>m. m \<noteq> cc_AuthorID cmd) (cm_Mentions cm))" and w2: "wtx w2 = Some
      (d\<lparr>t_comments := t_comments d @ [(comment_row_of cm)\<lparr>cor_created_at := t, cor_updated_at := t\<rparr>], t_notifications := t_notifications d @ nts\<rparr>, False)"
    using notify_inside [OF m2 assms(2) t(1)] by auto
  obtain oid where w3: "wtx w3 = Some (d\<lparr>t_comments := t_comments d @ [(comment_row_of cm)\<lparr>cor_created_at := t, cor_updated_at := t\<rparr>],
       t_notifications := t_notifications d @ nts,
       t_outbox_events := t_outbox_events d @ (if cu_outbox u then [outbox_row_of (comment_event oid cmd cm now)] else [])\<rparr>, False)"
    using outbox_inside [OF m3 assms(2) w2] by auto
  obtain aid where "wtx w4 = Some (comment_effect u cmd cm now t nts oid aid d, False)"
    using audit_inside [OF m4 assms(2) w3] unfolding comment_effect_def by auto
  with x t(2) nts show thesis by (intro that) auto
qed

lemma two_keys: "distinct xs \<Longrightarrow> set xs = {a, b} \<Longrightarrow> a \<noteq> b \<Longrightarrow> xs = [a, b] \<or> xs = [b, a]"
proof -
  assume xs: "distinct xs" "set xs = {a, b}" "a \<noteq> b"
  then have "length xs = 2" using distinct_card [of xs] by simp
  then obtain x y where "xs = [x, y]" by (auto simp: numeral_2_eq_2 length_Suc_conv)
  with xs show ?thesis by (auto simp: doubleton_eq_iff)
qed

text \<open>C20. A comment is all or nothing. Whatever the server refuses and whichever reply is lost, \<open>CreateComment\<close>
  either leaves every table as it was and returns an error, or has stored together the comment,
  one notification for each mentioned user other than the author (listed in the command or named
  in the text, each once), the event in the outbox and the audit record; then it returns the
  comment, or an error when only the reply to the commit was lost.\<close>

theorem comment_atomic:
  assumes "visits_once (cu_range u)"
  shows "\<exists>r w'. CreateComment u (pool_ctx c) cmd e w = (r, w') \<and>
     (wdb w' = wdb w \<and> \<not> is_Ret r \<or>
      (\<exists>cm now t nts evtID auditID.
         wdb w' = comment_effect u cmd cm now t nts evtID auditID (wdb w) \<and>
         distinct (cm_Mentions cm) \<and> set (cm_Mentions cm) = mentioned u cmd \<and>
         notices cmd now nts (filter (\<lambda>m. m \<noteq> cc_AuthorID cmd) (cm_Mentions cm)) \<and>
         ((\<exists>t1. r = Ret (cm\<lparr>cm_CreatedAt := t1, cm_UpdatedAt := t1\<rparr>)) \<or> r = Fail (Opaque ''database''))))"
proof -
  obtain r w' where run: "CreateComment u (pool_ctx c) cmd e w = (r, w')" by fastforce
  let ?keys = "cu_range u (mention_keys (cu_parse u) (cc_Mentions cmd) (TrimSpace (cc_Content cmd)))"
  let ?body = "\<lambda>i now. comment_body u cmd (new_comment i cmd ?keys now) now ((pool_ctx c)\<lparr>ctx_tx := True\<rparr>)"
  have "wdb w' = wdb w \<and> \<not> is_Ret r \<or> (\<exists>i now w1. wdb w1 = wdb w \<and> run_tx (?body i now) e w1 = (r, w'))"
    using run unfolding CreateComment_def Let_def WithTx_def
    by (auto simp: bindP_eval guard_def ret_def fail_def NewID_def Now_def afterP_def split: if_splits option.splits)
  then show ?thesis
  proof (elim disjE exE conjE)
    assume "wdb w' = wdb w" "\<not> is_Ret r"
    with run show ?thesis by blast
  next
    fix i now w1
    assume w1: "wdb w1 = wdb w" and tx: "run_tx (?body i now) e w1 = (r, w')"
    have k: "keeps_db (?body i now)" by (rule body_keeps) simp
    show ?thesis
    proof (cases rule: run_tx_cases [OF tx k])
      case 1
      with run w1 show ?thesis by auto
    next
      case (2 x w2 d)
      let ?cm = "new_comment i cmd ?keys now"
      obtain t nts oid aid where d: "d = comment_effect u cmd ?cm now t nts oid aid (wdb w)"
        and n: "notices cmd now nts (filter (\<lambda>m. m \<noteq> cc_AuthorID cmd) (cm_Mentions ?cm))"
        and x: "x = ?cm\<lparr>cm_CreatedAt := ts_local (local_off e) t, cm_UpdatedAt := ts_local (local_off e) t\<rparr>"
        by (rule body_inside [OF 2(1), of "wdb w1"]) (use 2(2) w1 in auto)
      have "cm_Mentions ?cm = ?keys" by (simp add: new_comment_def)
      then have "distinct (cm_Mentions ?cm)" "set (cm_Mentions ?cm) = mentioned u cmd"
        using assms mention_keys_set unfolding visits_once_def by metis+
      with 2(3,4) d n x run show ?thesis by blast
    qed
  qed
qed

text \<open>A user mentions herself and a colleague, who gets the only notification.\<close>

definition cx_usecase :: CommunicationUsecase where
  "cx_usecase = \<lparr>cu_outbox = True, cu_audit = True, cu_attachments = False, cu_users = (\<lambda>i. Some (''Ann'', ''ann'')), cu_parse = (\<lambda>_. None),
     cu_range = rev, cu_sort = (\<lambda>xs. xs)\<rparr>"

definition cx_cmd :: CreateCommentCommand where
  "cx_cmd = \<lparr>cc_TenantID = 5, cc_EntityType = ''party'', cc_EntityID = 7, cc_AuthorID = 1, cc_Type = [], cc_Content = '' hi '', cc_Mentions = [1, 2, 1],
     cc_ParentID = None, cc_IsPinned = False, cc_Metadata = None\<rparr>"

definition cx_env :: env where
  "cx_env = \<lparr>fault_at = (\<lambda>_. NoFault), newid_at = (\<lambda>n. Some (of_nat (Suc n))), clock_at = (\<lambda>_. 0), dbnow_at = (\<lambda>_. 0),
     local_off = (\<lambda>_. 0), cvt_int64 = (\<lambda>_. 0)\<rparr>"

lemma cx_texts: "TrimSpace '' hi '' = ''hi''" "comment_type [] = ''comment''" "ExtractMentionStrings ''hi'' = []" "ToLower ''party'' = ''party''"
  by code_simp+

lemma cx_created: "\<exists>x w'. CreateComment cx_usecase (pool_ctx Background) cx_cmd cx_env \<lparr>wdb = empty_db, wtx = None, tick = 0\<rparr> = (Ret x, w')"
  by (simp add: CreateComment_def cx_cmd_def cx_usecase_def cx_env_def cx_texts CommentTypeGeneral_def NilID_def mention_keys_def add_key_def
      new_comment_def comment_body_def comm_repo_CreateComment_def comm_repo_CreateNotification_def outbox_Create_def audit_Create_def
      sql_CreateComment_def sql_CreateNotification_def sql_CreateOutboxEvent_def sql_CreateAuditLog_def read_with_def insert_row_def
      comment_row_of_def notification_row_of_def mention_notification_def comment_event_def comment_audit_def outbox_row_of_def
      audit_row_of_def empty_db_def id_of_ptr_def pool_ctx_def Background_def proc_eval cong: proc_congs)

theorem comment_atomic_witness:
  "\<exists>x w'. CreateComment cx_usecase (pool_ctx Background) cx_cmd cx_env \<lparr>wdb = empty_db, wtx = None, tick = 0\<rparr> = (Ret x, w') \<and>
     map ntr_user_id (t_notifications (wdb w')) = [2] \<and> length (t_comments (wdb w')) = 1 \<and>
     length (t_outbox_events (wdb w')) = 1 \<and> length (t_audit_logs (wdb w')) = 1"
proof -
  have v: "visits_once (cu_range cx_usecase)" by (simp add: visits_once_def cx_usecase_def)
  have m: "mentioned cx_usecase cx_cmd = {1, 2}"
    by (auto simp: mentioned_def cx_cmd_def cx_usecase_def NilID_def)
  from cx_created obtain x w' where run: "CreateComment cx_usecase (pool_ctx Background) cx_cmd cx_env \<lparr>wdb = empty_db, wtx = None, tick = 0\<rparr> = (Ret x, w')"
    by blast
  obtain cm now t nts i j where eff: "wdb w' = comment_effect cx_usecase cx_cmd cm now t nts i j empty_db"
    and ms: "distinct (cm_Mentions cm)" "set (cm_Mentions cm) = {1, 2}"
    and nts: "notices cx_cmd now nts (filter (\<lambda>m. m \<noteq> cc_AuthorID cx_cmd) (cm_Mentions cm))"
    using comment_atomic [OF v, of Background cx_cmd cx_env "\<lparr>wdb = empty_db, wtx = None, tick = 0\<rparr>"] run unfolding m by auto
  have "cm_Mentions cm = [1, 2] \<or> cm_Mentions cm = [2, 1]"
    using ms by (intro two_keys) auto
  then have "filter (\<lambda>m. m \<noteq> cc_AuthorID cx_cmd) (cm_Mentions cm) = [2]" by (auto simp: cx_cmd_def)
  with nts have "map ntr_user_id nts = [2]"
    by (auto simp: notices_def list_all2_Cons2 notification_row_of_def mention_notification_def)
  with run eff show ?thesis by (auto simp: comment_effect_def empty_db_def cx_usecase_def)
qed

section \<open>Threads\<close>

text \<open>A set of identifiers that contains every reply to its comments.\<close>

definition reply_to :: "ID set \<Rightarrow> comment_row \<Rightarrow> bool" where
  "reply_to gone r \<longleftrightarrow> (\<exists>p \<in> gone. cor_parent_id r = Some p)"

definition thread_closed :: "comment_row list \<Rightarrow> ID set \<Rightarrow> bool" where
  "thread_closed rs gone \<longleftrightarrow> (\<forall>r \<in> set rs. reply_to gone r \<longrightarrow> cor_id r \<in> gone)"

lemma deleted_thread_Suc:
  "deleted_thread (Suc n) rs gone =
     deleted_thread n rs (gone @ map cor_id (filter (\<lambda>r. cor_id r \<notin> set gone \<and> reply_to (set gone) r) rs))"
proof -
  have "(case cor_parent_id r of None \<Rightarrow> False | Some p \<Rightarrow> p \<in> set gone) \<longleftrightarrow> reply_to (set gone) r" for r
    by (auto simp: reply_to_def split: option.splits)
  then show ?thesis by simp
qed

lemma deleted_thread_fix: "thread_closed rs (set gone) \<Longrightarrow> deleted_thread n rs gone = gone"
proof (induction n)
  case (Suc n)
  then have "filter (\<lambda>r. cor_id r \<notin> set gone \<and> reply_to (set gone) r) rs = []" by (auto simp: thread_closed_def filter_empty_conv)
  with Suc show ?case unfolding deleted_thread_Suc by simp
qed simp

lemma filter_shorter:
  assumes "\<And>x. Q x \<Longrightarrow> P x" "x \<in> set xs" "P x" "\<not> Q x"
  shows "length (filter Q xs) < length (filter P xs)"
proof -
  have "filter Q xs = filter Q (filter P xs)" using assms(1) by (auto intro: filter_cong)
  also have "length \<dots> < length (filter P xs)" using assms by (intro length_filter_less [of x]) auto
  finally show ?thesis .
qed

text \<open>As many rounds as there are rows reach every reply.\<close>

lemma deleted_thread_closed:
  "length (filter (\<lambda>r. cor_id r \<notin> set gone) rs) \<le> n \<Longrightarrow> thread_closed rs (set (deleted_thread n rs gone))"
proof (induction n arbitrary: gone)
  case 0
  then show ?case by (auto simp: thread_closed_def filter_empty_conv)
next
  case (Suc n)
  show ?case
  proof (cases "thread_closed rs (set gone)")
    case True
    then show ?thesis by (simp only: deleted_thread_fix)
  next
    case False
    then obtain r where r: "r \<in> set rs" "reply_to (set gone) r" "cor_id r \<notin> set gone" by (auto simp: thread_closed_def)
    let ?new = "gone @ map cor_id (filter (\<lambda>r. cor_id r \<notin> set gone \<and> reply_to (set gone) r) rs)"
    have "length (filter (\<lambda>r. cor_id r \<notin> set ?new) rs) < length (filter (\<lambda>r. cor_id r \<notin> set gone) rs)"
      by (rule filter_shorter [of _ _ r]) (use r in auto)
    then show ?thesis unfolding deleted_thread_Suc using Suc by (intro Suc.IH) simp
  qed
qed

definition threads_whole :: "db \<Rightarrow> bool" where
  "threads_whole d \<longleftrightarrow> (\<forall>r \<in> set (t_comments d). \<forall>p. cor_parent_id r = Some p \<longrightarrow> p \<in> cor_id ` set (t_comments d))"

text \<open>Every reply has its parent after a comment was created or deleted: deleting removes the whole thread below it.\<close>

lemma threads_after_delete: "threads_whole d \<Longrightarrow> threads_whole (snd (sql_DeleteComment tenantID i t d))"
proof -
  assume d: "threads_whole d"
  let ?rs = "t_comments d"
  let ?gone = "set (deleted_thread (length ?rs) ?rs (map cor_id (filter (own_comment tenantID i) ?rs)))"
  have "thread_closed ?rs ?gone" by (rule deleted_thread_closed) (rule length_filter_le)
  then have "p \<notin> ?gone" if "r \<in> set ?rs" "cor_id r \<notin> ?gone" "cor_parent_id r = Some p" for r p
    using that by (auto simp: thread_closed_def reply_to_def)
  moreover have "t_comments (snd (sql_DeleteComment tenantID i t d)) = filter (\<lambda>r. cor_id r \<notin> ?gone) ?rs"
    by (simp add: sql_DeleteComment_def Let_def)
  ultimately show ?thesis using d unfolding threads_whole_def set_filter image_iff by simp blast
qed

lemma threads_after_create: "threads_whole d \<Longrightarrow> threads_whole (snd (sql_CreateComment us r t d))"
  by (auto simp: threads_whole_def sql_CreateComment_def insert_row_def Let_def split: option.splits if_splits prod.splits)

definition keeps_threads :: "db \<Rightarrow> db \<Rightarrow> bool" where
  "keeps_threads d d' \<longleftrightarrow> (threads_whole d \<longrightarrow> threads_whole d')"

interpretation threads: db_order keeps_threads
  by unfold_locales (auto simp: keeps_threads_def)

lemma same_comments_keep: "t_comments d' = t_comments d \<Longrightarrow> keeps_threads d d'"
  by (simp add: keeps_threads_def threads_whole_def)

lemma comm_threads [stays_intros]:
  "stays keeps_threads (comm_repo_DeleteComment c tenantID i)" "stays keeps_threads (comm_repo_CreateComment us c cm)"
  "stays keeps_threads (comm_repo_GetCommentByID f c tenantID i)"
  unfolding comm_repo_DeleteComment_def comm_repo_CreateComment_def comm_repo_GetCommentByID_def
  by (intro stays_intros threads.stays_stmt; use threads_after_delete threads_after_create in \<open>metis keeps_threads_def snd_conv\<close>)+

lemma side_threads [stays_intros]:
  "stays keeps_threads (comm_repo_CreateNotification us c n)" "stays keeps_threads (outbox_Create c ev)" "stays keeps_threads (audit_Create c al)"
  unfolding comm_repo_CreateNotification_def outbox_Create_def audit_Create_def
  by (intro stays_intros threads.stays_stmt same_comments_keep; auto simp: sql_CreateNotification_def sql_CreateOutboxEvent_Ret_iff
        sql_CreateAuditLog_Ret_iff Let_def split: prod.splits)+

lemma notify_threads [stays_intros]: "stays keeps_threads (notify_mentioned us c cmd now ms)"
  by (induction ms) (auto intro!: stays_intros)

text \<open>No use case leaves a reply without the comment it answers.\<close>

lemma threads_stay_whole:
  "stays keeps_threads (CreateComment u c cmd)" "stays keeps_threads (DeleteComment u c tenantID commentID actorID)"
  unfolding CreateComment_def DeleteComment_def comment_body_def Let_def by (auto intro!: stays_intros)

section \<open>Reading notifications\<close>

text \<open>After all notifications of a user are marked, none is unread; those of other users are as before.\<close>

lemma mark_all_read:
  assumes "sql_MarkAllNotificationsRead tenantID userID t d = (r, d')"
  shows "sql_CountUnreadNotifications tenantID userID d' = 0"
    and "userID2 \<noteq> userID \<Longrightarrow> sql_CountUnreadNotifications tenantID userID2 d' = sql_CountUnreadNotifications tenantID userID2 d"
proof -
  have d': "t_notifications d' = map (\<lambda>r. if notifications_of tenantID userID r \<and> \<not> ntr_is_read r then read_at t r else r) (t_notifications d)"
    using assms by (auto simp: sql_MarkAllNotificationsRead_def update_rows_def)
  have at: "ntr_is_read (read_at t r)" "notifications_of T U (read_at t r) = notifications_of T U r" for T U and r :: notification_row
    by (simp_all add: read_at_def notifications_of_def)
  show "sql_CountUnreadNotifications tenantID userID d' = 0"
    by (auto simp: sql_CountUnreadNotifications_def d' filter_empty_conv at)
  assume "userID2 \<noteq> userID"
  then have "\<not> (notifications_of tenantID userID r \<and> notifications_of tenantID userID2 r)" for r
    by (auto simp: notifications_of_def pg_eq_def)
  then show "sql_CountUnreadNotifications tenantID userID2 d' = sql_CountUnreadNotifications tenantID userID2 d"
    unfolding sql_CountUnreadNotifications_def d' by (induction "t_notifications d") (auto simp: filter_map o_def at intro!: arg_cong [where f = length] filter_cong)
qed

end
