(* ===== verification/CommunicationHttp.thy ===== *)
theory CommunicationHttp
  imports Http CommunicationProps Webhook
begin

text \<open>
  The handlers of comments, notifications and the timeline, of webhooks, and of files and attachments
  (\<open>internal/core/delivery/http/v1/communication_handler.go\<close>, \<open>webhook_handler.go\<close>, \<open>attachment_handler.go\<close>). A
  multipart body is read by an argument; so is the type of a content without a declared one.
\<close>

section \<open>Comments and notifications\<close>

text \<open>The author of the body, or the user of the claims when the body names none.\<close>

definition comment_author :: "ctx \<Rightarrow> ID \<Rightarrow> ID" where
  "comment_author c given =
     (if given = NilID then (case GetAuthClaims c of Some claims \<Rightarrow> ac_UserID claims | None \<Rightarrow> given) else given)"

definition CommunicationHandler_CreateComment ::
    "CommunicationUsecase \<Rightarrow> (string \<Rightarrow> CreateCommentCommand option) \<Rightarrow> (Comment, db) api" where
  "CommunicationHandler_CreateComment u dec req c =
     with_tenant c (\<lambda>tenantID.
     with_body (dec (hq_body req)) ''INVALID_BODY'' (\<lambda>cmd0.
     let cmd = cmd0\<lparr>cc_TenantID := tenantID, cc_AuthorID := comment_author c (cc_AuthorID cmd0)\<rparr>
     in if cc_AuthorID cmd = NilID then refuse 400 ''AUTHOR_REQUIRED'' else respond 201 (CreateComment u c cmd)))"

definition CommunicationHandler_ListEntityComments ::
    "CommunicationUsecase \<Rightarrow> (string \<Rightarrow> ID option) \<Rightarrow> (CommentWithAuthor list, db) api" where
  "CommunicationHandler_ListEntityComments u pid req c =
     with_tenant c (\<lambda>tenantID.
     let entityType = TrimSpace (hq_param req ''entityType'')
     in with_id pid (hq_param req ''entityId'') ''INVALID_ENTITY_ID'' (\<lambda>entityID.
        respond 200 (ListEntityComments u c tenantID entityType entityID)))"

definition actor_of :: "ctx \<Rightarrow> ID" where
  "actor_of c = (case GetAuthClaims c of Some claims \<Rightarrow> ac_UserID claims | None \<Rightarrow> NilID)"

definition CommunicationHandler_DeleteComment :: "CommunicationUsecase \<Rightarrow> (string \<Rightarrow> ID option) \<Rightarrow> (string \<times> string, db) api" where
  "CommunicationHandler_DeleteComment u pid req c =
     with_tenant c (\<lambda>tenantID.
     with_id pid (hq_param req ''id'') ''INVALID_ID'' (\<lambda>i.
     confirm 200 ''status'' ''comment deleted successfully'' (DeleteComment u c tenantID i (actor_of c))))"

definition notified_user :: "(string \<Rightarrow> ID option) \<Rightarrow> hreq \<Rightarrow> ctx \<Rightarrow> ID" where
  "notified_user pid req c =
     (case GetAuthClaims c of Some claims \<Rightarrow> ac_UserID claims
      | None \<Rightarrow> (case opt_id pid (hq_query req ''user_id'') of Some i \<Rightarrow> i | None \<Rightarrow> NilID))"

definition CommunicationHandler_ListNotifications :: "(string \<Rightarrow> ID option) \<Rightarrow> (Notification list \<times> int, db) api" where
  "CommunicationHandler_ListNotifications pid req c =
     with_tenant c (\<lambda>tenantID.
     let userID = notified_user pid req c
     in if userID = NilID then refuse 400 ''USER_REQUIRED''
        else let unreadOnly = ParseBool_true (hq_query req ''unread_only'');
                 l = positive_or 20 (hq_query req ''limit'');
                 k = (case strconv_Atoi (hq_query req ''offset'') of Some n \<Rightarrow> if 0 \<le> n then of_int n else 0 | None \<Rightarrow> 0)
             in respond 200 (ListNotifications c tenantID userID unreadOnly l k))"

definition CommunicationHandler_MarkRead :: "(string \<Rightarrow> ID option) \<Rightarrow> (string \<times> string, db) api" where
  "CommunicationHandler_MarkRead pid req c =
     with_tenant c (\<lambda>tenantID.
     with_id pid (hq_param req ''id'') ''INVALID_ID'' (\<lambda>i.
     confirm 200 ''status'' ''notification marked as read'' (MarkNotificationRead c tenantID (notified_user pid req c) i)))"

definition CommunicationHandler_MarkAllRead :: "(string \<Rightarrow> ID option) \<Rightarrow> (string \<times> string, db) api" where
  "CommunicationHandler_MarkAllRead pid req c =
     with_tenant c (\<lambda>tenantID.
     confirm 200 ''status'' ''all notifications marked as read'' (MarkAllNotificationsRead c tenantID (notified_user pid req c)))"

definition CommunicationHandler_GetActivityTimeline ::
    "CommunicationUsecase \<Rightarrow> (string \<Rightarrow> ID option) \<Rightarrow> (ActivityItem list, db) api" where
  "CommunicationHandler_GetActivityTimeline u pid req c =
     with_tenant c (\<lambda>tenantID.
     let entityType = TrimSpace (hq_param req ''entityType'')
     in with_id pid (hq_param req ''entityId'') ''INVALID_ENTITY_ID'' (\<lambda>entityID.
        respond 200 (GetUnifiedTimeline u c tenantID entityType entityID)))"

section \<open>Webhooks\<close>

text \<open>These handlers answer errors by themselves.\<close>

definition webhook_tenant :: "ctx \<Rightarrow> (ID \<Rightarrow> env \<Rightarrow> 's \<Rightarrow> 'd response \<times> 's) \<Rightarrow> env \<Rightarrow> 's \<Rightarrow> 'd response \<times> 's" where
  "webhook_tenant c k e s = (case RequireTenantID c of Ret t \<Rightarrow> k t e s | _ \<Rightarrow> (Err 400 ''TENANT_REQUIRED'', s))"

record registerEndpointRequest =
  rr_Name :: string
  rr_URL :: string
  rr_Secret :: string

definition register_error :: "err \<Rightarrow> 'd response" where
  "register_error er =
     (if errors_Is er ErrInvalidURL then Err 400 ''INVALID_URL''
      else if errors_Is er ErrSecretTooShort then Err 400 ''SECRET_TOO_SHORT''
      else Err 500 ''INTERNAL_ERROR'')"

definition WebhookHandler_RegisterEndpoint :: "url_parser \<Rightarrow> (string \<Rightarrow> registerEndpointRequest option) \<Rightarrow> (Endpoint, db) api" where
  "WebhookHandler_RegisterEndpoint parse dec req c =
     webhook_tenant c (\<lambda>tenantID.
     with_body (dec (hq_body req)) ''INVALID_JSON'' (\<lambda>rq.
     serve (RegisterEndpoint parse c \<lparr>ri_TenantID = tenantID, ri_Name = rr_Name rq, ri_URL = rr_URL rq, ri_Secret = rr_Secret rq\<rparr>)
       (JSON 201) register_error))"

definition WebhookHandler_ListEndpoints :: "(Endpoint list, db) api" where
  "WebhookHandler_ListEndpoints req c =
     webhook_tenant c (\<lambda>tenantID. serve (ListEndpoints c tenantID) (JSON 200) (\<lambda>_. Err 500 ''INTERNAL_ERROR''))"

definition endpoint_error :: "err \<Rightarrow> 'd response" where
  "endpoint_error er = (if errors_Is er ErrEndpointNotFound then Err 404 ''NOT_FOUND'' else Err 500 ''INTERNAL_ERROR'')"

definition WebhookHandler_DeleteEndpoint :: "(string \<Rightarrow> ID option) \<Rightarrow> (string \<times> string, db) api" where
  "WebhookHandler_DeleteEndpoint pid req c =
     webhook_tenant c (\<lambda>tenantID.
     with_id pid (hq_param req ''id'') ''INVALID_ID'' (\<lambda>i.
     serve (DeleteEndpoint c tenantID i) (\<lambda>_. JSON 200 (''status'', ''deleted'')) endpoint_error))"

definition setActive :: "bool \<Rightarrow> (string \<Rightarrow> ID option) \<Rightarrow> (string \<times> string, db) api" where
  "setActive active pid req c =
     webhook_tenant c (\<lambda>tenantID.
     with_id pid (hq_param req ''id'') ''INVALID_ID'' (\<lambda>i.
     serve (if active then EnableEndpoint c tenantID i else DisableEndpoint c tenantID i)
       (\<lambda>_. JSON 200 (''status'', if active then ''enabled'' else ''disabled'')) endpoint_error))"

definition WebhookHandler_EnableEndpoint where "WebhookHandler_EnableEndpoint = setActive True"
definition WebhookHandler_DisableEndpoint where "WebhookHandler_DisableEndpoint = setActive False"

definition WebhookHandler_ListDeliveries :: "(string \<Rightarrow> ID option) \<Rightarrow> (Delivery list, db) api" where
  "WebhookHandler_ListDeliveries pid req c =
     webhook_tenant c (\<lambda>tenantID.
     with_id pid (hq_param req ''id'') ''INVALID_ID'' (\<lambda>endpointID.
     let limit = (case strconv_Atoi (hq_query req ''limit'') of Some n \<Rightarrow> if 0 < n then n else 50 | None \<Rightarrow> 50)
     in serve (ListDeliveries c tenantID endpointID limit) (JSON 200) (\<lambda>_. Err 500 ''INTERNAL_ERROR'')))"

text \<open>The routes: reading needs one of two permissions, writing the first of them.\<close>

definition webhooks_read :: "auth_deps \<Rightarrow> (string \<Rightarrow> ID option) \<Rightarrow> ('d, 'z) HttpAuth.handler \<Rightarrow> ('d, 'z) HttpAuth.handler" where
  "webhooks_read a pid h =
     AuthRequired a (RateLimit (TenantRequired pid (RequireAnyPermission [''webhook:manage'', ''webhook:view''] h)))"

definition webhooks_manage :: "auth_deps \<Rightarrow> (string \<Rightarrow> ID option) \<Rightarrow> ('d, 'z) HttpAuth.handler \<Rightarrow> ('d, 'z) HttpAuth.handler" where
  "webhooks_manage a pid h = webhooks_read a pid (RequirePermission ''webhook:manage'' h)"

section \<open>Files and attachments\<close>

record upload_form =
  fm_filename :: string
  fm_type :: string
  fm_content :: reader
  fm_size :: int64
  fm_is_public :: string

text \<open>The form: \<open>None\<close> when it cannot be parsed, \<open>Some None\<close> when it has no file.\<close>

definition AttachmentHandler_Upload ::
    "AttachmentUsecase \<Rightarrow> (string \<Rightarrow> upload_form option option) \<Rightarrow> (string \<Rightarrow> string) \<Rightarrow> (File, db site) api" where
  "AttachmentHandler_Upload u form detect req c =
     with_tenant c (\<lambda>tenantID.
     with_body (form (hq_body req)) ''INVALID_MULTIPART'' (\<lambda>f.
     with_body f ''FILE_REQUIRED'' (\<lambda>file.
     let mimeType = (if fm_type file = [] \<or> fm_type file = ''application/octet-stream''
                     then detect (take 512 (rd_data (fm_content file))) else fm_type file);
         isPublic = ParseBool_true (fm_is_public file);
         uploaderID = map_option ac_UserID (GetAuthClaims c)
     in respond 201 (UploadFile u c
          \<lparr>uf_TenantID = tenantID, uf_Filename = fm_filename file, uf_MimeType = mimeType, uf_Reader = fm_content file,
           uf_SizeBytes = fm_size file, uf_UploadedBy = uploaderID, uf_IsPublic = isPublic, uf_Metadata = None\<rparr>))))"

definition AttachmentHandler_GetMetadata :: "AttachmentUsecase \<Rightarrow> (string \<Rightarrow> ID option) \<Rightarrow> (File, db site) api" where
  "AttachmentHandler_GetMetadata u pid req c =
     with_tenant c (\<lambda>tenantID. with_id pid (hq_param req ''id'') ''INVALID_ID'' (\<lambda>i. respond 200 (GetFileMetadata u c tenantID i)))"

text \<open>A download sets the headers and copies the content to the answer.\<close>

definition download_headers :: "hreq \<Rightarrow> File \<Rightarrow> (string \<times> string) list" where
  "download_headers req f =
     [(''Content-Type'', fi_MimeType f), (''Content-Length'', fmt_d (sint (fi_SizeBytes f))),
      (''Content-Disposition'', (if hq_query req ''disposition'' = ''attachment'' then ''attachment'' else ''inline'') @
         ''; filename='' @ [CHR 0x22] @ fi_Filename f @ [CHR 0x22])]"

definition AttachmentHandler_Download :: "AttachmentUsecase \<Rightarrow> (string \<Rightarrow> ID option) \<Rightarrow> (string, db site) api" where
  "AttachmentHandler_Download u pid req c =
     with_tenant c (\<lambda>tenantID.
     with_id pid (hq_param req ''id'') ''INVALID_ID'' (\<lambda>i e s.
     case respond 200 (GetFile u c tenantID i) e s of (resp, s1) \<Rightarrow>
       (case rs_data resp of
          None \<Rightarrow> (Err (rs_status resp) (rs_code resp), s1)
        | Some (file, rc) \<Rightarrow> (JSON 200 (rd_data rc), s1\<lparr>hs_headers := hs_headers s1 @ download_headers req file\<rparr>))))"

definition AttachmentHandler_DeleteFile :: "AttachmentUsecase \<Rightarrow> (string \<Rightarrow> ID option) \<Rightarrow> (string \<times> string, db site) api" where
  "AttachmentHandler_DeleteFile u pid req c =
     with_tenant c (\<lambda>tenantID. with_id pid (hq_param req ''id'') ''INVALID_ID'' (\<lambda>i.
     confirm 200 ''status'' ''file deleted successfully'' (DeleteFile u c tenantID i)))"

definition AttachmentHandler_Attach :: "AttachmentUsecase \<Rightarrow> (string \<Rightarrow> AttachFileCommand option) \<Rightarrow> (EntityAttachment, db site) api" where
  "AttachmentHandler_Attach u dec req c =
     with_tenant c (\<lambda>tenantID.
     with_body (dec (hq_body req)) ''INVALID_BODY'' (\<lambda>cmd. respond 201 (AttachFile u c (cmd\<lparr>fa_TenantID := tenantID\<rparr>))))"

definition AttachmentHandler_ListByEntity :: "AttachmentUsecase \<Rightarrow> (string \<Rightarrow> ID option) \<Rightarrow> (AttachmentWithFile list, db site) api" where
  "AttachmentHandler_ListByEntity u pid req c =
     with_tenant c (\<lambda>tenantID.
     let entityType = TrimSpace (hq_param req ''entityType'')
     in with_id pid (hq_param req ''entityId'') ''INVALID_ENTITY_ID'' (\<lambda>entityID.
        respond 200 (ListEntityAttachments u c tenantID entityType entityID)))"

definition AttachmentHandler_Detach :: "AttachmentUsecase \<Rightarrow> (string \<Rightarrow> ID option) \<Rightarrow> (string \<times> string, db site) api" where
  "AttachmentHandler_Detach u pid req c =
     with_tenant c (\<lambda>tenantID. with_id pid (hq_param req ''id'') ''INVALID_ID'' (\<lambda>i.
     confirm 200 ''status'' ''attachment unlinked successfully'' (DetachFile u c tenantID i)))"

section \<open>What requests leave whole\<close>

interpretation threads_api: api_order keeps_threads
  by unfold_locales

text \<open>No request to the comments leaves a reply without the comment it answers.\<close>

lemma comment_requests_keep_threads:
  "api_stays keeps_threads (CommunicationHandler_CreateComment u dec req c)"
  "api_stays keeps_threads (CommunicationHandler_DeleteComment u pid req c)"
  unfolding CommunicationHandler_CreateComment_def CommunicationHandler_DeleteComment_def Let_def
  by (auto intro!: api_intros threads_stay_whole)

end
