(* ===== verification/CatalogHttp.thy ===== *)
theory CatalogHttp
  imports Http Organization Product Party CustomField
begin

text \<open>
  The handlers of organizations, parties, units and products, and custom fields
  (\<open>internal/core/delivery/http/v1/organization_handler.go\<close>, \<open>party_handler.go\<close>, \<open>product_handler.go\<close>,
  \<open>custom_field_handler.go\<close>).
\<close>

section \<open>Organizations\<close>

definition OrganizationHandler_Create :: "(string \<Rightarrow> CreateCommand option) \<Rightarrow> (Organization, db) api" where
  "OrganizationHandler_Create dec req c = with_body (dec (hq_body req)) ''INVALID_BODY'' (\<lambda>cmd. respond 201 (org_Create c cmd))"

definition OrganizationHandler_List :: "(Organization list, db) api" where
  "OrganizationHandler_List req c = respond 200 (org_List c)"

definition OrganizationHandler_GetTree :: "(OrgTree list, db) api" where
  "OrganizationHandler_GetTree req c = respond 200 (org_GetTree c)"

definition OrganizationHandler_GetByID :: "(string \<Rightarrow> ID option) \<Rightarrow> (Organization, db) api" where
  "OrganizationHandler_GetByID pid req c = with_id pid (hq_param req ''id'') ''INVALID_ID'' (\<lambda>i. respond 200 (org_GetByID c i))"

definition OrganizationHandler_Update :: "(string \<Rightarrow> ID option) \<Rightarrow> (string \<Rightarrow> UpdateCommand option) \<Rightarrow> (Organization, db) api" where
  "OrganizationHandler_Update pid dec req c =
     with_id pid (hq_param req ''id'') ''INVALID_ID'' (\<lambda>i.
     with_body (dec (hq_body req)) ''INVALID_BODY'' (\<lambda>cmd. respond 200 (org_Update c (cmd\<lparr>uc_ID := i\<rparr>))))"

section \<open>Parties\<close>

definition PartyHandler_Create :: "(string \<Rightarrow> CreatePartyCommand option) \<Rightarrow> (Party, db) api" where
  "PartyHandler_Create dec req c = with_body (dec (hq_body req)) ''INVALID_BODY'' (\<lambda>cmd. respond 201 (CreateParty c cmd))"

definition PartyHandler_GetByID :: "(string \<Rightarrow> ID option) \<Rightarrow> (PartyDetail, db) api" where
  "PartyHandler_GetByID pid req c = with_id pid (hq_param req ''id'') ''INVALID_ID'' (\<lambda>i. respond 200 (GetParty c i))"

text \<open>The data and the meta part of the answer together.\<close>

definition PartyHandler_List :: "(Party list_result, db) api" where
  "PartyHandler_List req c =
     respond 200 (ListParties c (of_int (Atoi_value (hq_query req ''page''))) (of_int (Atoi_value (hq_query req ''page_size'')))
       (opt_str (hq_query req ''type'')) (opt_str (hq_query req ''role'')))"

definition PartyHandler_Update :: "(string \<Rightarrow> ID option) \<Rightarrow> (string \<Rightarrow> UpdatePartyCommand option) \<Rightarrow> (Party, db) api" where
  "PartyHandler_Update pid dec req c =
     with_id pid (hq_param req ''id'') ''INVALID_ID'' (\<lambda>i.
     with_body (dec (hq_body req)) ''INVALID_BODY'' (\<lambda>cmd. respond 200 (UpdateParty c (cmd\<lparr>uy_ID := i\<rparr>))))"

definition PartyHandler_AddRole :: "(string \<Rightarrow> ID option) \<Rightarrow> (string \<Rightarrow> AddRoleCommand option) \<Rightarrow> (PartyRole, db) api" where
  "PartyHandler_AddRole pid dec req c =
     with_id pid (hq_param req ''id'') ''INVALID_ID'' (\<lambda>partyID.
     with_body (dec (hq_body req)) ''INVALID_BODY'' (\<lambda>cmd. respond 201 (AddRole c (cmd\<lparr>ar_PartyID := partyID\<rparr>))))"

definition PartyHandler_RemoveRole :: "(string \<Rightarrow> ID option) \<Rightarrow> (string \<times> string, db) api" where
  "PartyHandler_RemoveRole pid req c =
     with_id pid (hq_param req ''roleId'') ''INVALID_ID'' (\<lambda>roleID.
     confirm 200 ''message'' ''role removed successfully'' (RemoveRole c roleID))"

definition PartyHandler_AddAddress :: "(string \<Rightarrow> ID option) \<Rightarrow> (string \<Rightarrow> AddAddressCommand option) \<Rightarrow> (Address, db) api" where
  "PartyHandler_AddAddress pid dec req c =
     with_id pid (hq_param req ''id'') ''INVALID_ID'' (\<lambda>partyID.
     with_body (dec (hq_body req)) ''INVALID_BODY'' (\<lambda>cmd. respond 201 (AddAddress c partyID cmd)))"

definition PartyHandler_AddContact :: "(string \<Rightarrow> ID option) \<Rightarrow> (string \<Rightarrow> AddContactCommand option) \<Rightarrow> (Contact, db) api" where
  "PartyHandler_AddContact pid dec req c =
     with_id pid (hq_param req ''id'') ''INVALID_ID'' (\<lambda>partyID.
     with_body (dec (hq_body req)) ''INVALID_BODY'' (\<lambda>cmd. respond 201 (AddContact c partyID cmd)))"

section \<open>Units and products\<close>

definition ProductHandler_CreateUnit :: "(string \<Rightarrow> CreateUnitCommand option) \<Rightarrow> (Unit, db) api" where
  "ProductHandler_CreateUnit dec req c = with_body (dec (hq_body req)) ''INVALID_BODY'' (\<lambda>cmd. respond 201 (CreateUnit c cmd))"

definition ProductHandler_ListUnits :: "(Unit list, db) api" where
  "ProductHandler_ListUnits req c = respond 200 (ListUnits c)"

definition ProductHandler_GetUnitByID :: "(string \<Rightarrow> ID option) \<Rightarrow> (Unit, db) api" where
  "ProductHandler_GetUnitByID pid req c = with_id pid (hq_param req ''id'') ''INVALID_ID'' (\<lambda>i. respond 200 (GetUnitByID c i))"

definition ProductHandler_CreateConversion :: "(string \<Rightarrow> CreateConversionCommand option) \<Rightarrow> (UnitConversion, db) api" where
  "ProductHandler_CreateConversion dec req c =
     with_body (dec (hq_body req)) ''INVALID_BODY'' (\<lambda>cmd. respond 201 (CreateConversion c cmd))"

record ConvertQuantityCommand =
  cq_Amount :: float64
  cq_FromUnitID :: ID
  cq_ToUnitID :: ID

definition ProductHandler_ConvertQuantity :: "(string \<Rightarrow> ConvertQuantityCommand option) \<Rightarrow> (float64 \<times> ID \<times> ID \<times> float64, db) api" where
  "ProductHandler_ConvertQuantity dec req c =
     with_body (dec (hq_body req)) ''INVALID_BODY'' (\<lambda>cmd.
     serve (ConvertQuantity c (cq_Amount cmd) (cq_FromUnitID cmd) (cq_ToUnitID cmd))
       (\<lambda>converted. JSON 200 (cq_Amount cmd, cq_FromUnitID cmd, cq_ToUnitID cmd, converted)) FromDomainError)"

definition ProductHandler_CreateProduct :: "(string \<Rightarrow> CreateProductCommand option) \<Rightarrow> (Product, db) api" where
  "ProductHandler_CreateProduct dec req c = with_body (dec (hq_body req)) ''INVALID_BODY'' (\<lambda>cmd. respond 201 (CreateProduct c cmd))"

definition ProductHandler_ListProducts :: "(Product list_result, db) api" where
  "ProductHandler_ListProducts req c =
     respond 200 (ListProducts c (positive_or 1 (hq_query req ''page'')) (positive_or 20 (hq_query req ''page_size''))
       (opt_str (hq_query req ''type'')) (opt_str (hq_query req ''status'')))"

definition ProductHandler_GetProductByID :: "(string \<Rightarrow> ID option) \<Rightarrow> (Product, db) api" where
  "ProductHandler_GetProductByID pid req c =
     with_id pid (hq_param req ''id'') ''INVALID_ID'' (\<lambda>i. respond 200 (GetProductByID c i))"

definition ProductHandler_UpdateProduct :: "(string \<Rightarrow> ID option) \<Rightarrow> (string \<Rightarrow> UpdateProductCommand option) \<Rightarrow> (Product, db) api" where
  "ProductHandler_UpdateProduct pid dec req c =
     with_id pid (hq_param req ''id'') ''INVALID_ID'' (\<lambda>i.
     with_body (dec (hq_body req)) ''INVALID_BODY'' (\<lambda>cmd. respond 200 (UpdateProduct c (cmd\<lparr>upc_ID := i\<rparr>))))"

definition ProductHandler_CreateVariant :: "(string \<Rightarrow> ID option) \<Rightarrow> (string \<Rightarrow> CreateVariantCommand option) \<Rightarrow> (ProductVariant, db) api" where
  "ProductHandler_CreateVariant pid dec req c =
     with_id pid (hq_param req ''id'') ''INVALID_ID'' (\<lambda>productID.
     with_body (dec (hq_body req)) ''INVALID_BODY'' (\<lambda>cmd. respond 201 (CreateVariant c (cmd\<lparr>cvr_ProductID := productID\<rparr>))))"

definition ProductHandler_ListVariants :: "(string \<Rightarrow> ID option) \<Rightarrow> (ProductVariant list, db) api" where
  "ProductHandler_ListVariants pid req c =
     with_id pid (hq_param req ''id'') ''INVALID_ID'' (\<lambda>productID. respond 200 (ListVariants c productID))"

definition ProductHandler_DeleteVariant :: "(string \<Rightarrow> ID option) \<Rightarrow> (string \<times> string, db) api" where
  "ProductHandler_DeleteVariant pid req c =
     with_id pid (hq_param req ''variant_id'') ''INVALID_ID'' (\<lambda>variantID.
     confirm 200 ''message'' ''variant deleted successfully'' (DeleteVariant c variantID))"

section \<open>Custom fields\<close>

definition CustomFieldHandler_CreateDefinition :: "(string \<Rightarrow> CreateDefinitionCommand option) \<Rightarrow> (Definition, field_db) api" where
  "CustomFieldHandler_CreateDefinition dec req c =
     with_tenant c (\<lambda>tenantID.
     with_body (dec (hq_body req)) ''INVALID_BODY'' (\<lambda>cmd. respond 201 (CreateDefinition c (cmd\<lparr>cd_TenantID := tenantID\<rparr>))))"

definition CustomFieldHandler_GetDefinition :: "(string \<Rightarrow> ID option) \<Rightarrow> (Definition, field_db) api" where
  "CustomFieldHandler_GetDefinition pid req c =
     with_tenant c (\<lambda>tenantID. with_id pid (hq_param req ''id'') ''INVALID_ID'' (\<lambda>i. respond 200 (GetDefinition c tenantID i)))"

definition CustomFieldHandler_ListDefinitions :: "(Definition list, field_db) api" where
  "CustomFieldHandler_ListDefinitions req c =
     with_tenant c (\<lambda>tenantID.
     let entityType = hq_query req ''entity_type''
     in if entityType = [] then refuse 400 ''MISSING_ENTITY_TYPE'' else respond 200 (ListDefinitions c tenantID entityType))"

definition CustomFieldHandler_UpdateDefinition ::
    "(string \<Rightarrow> ID option) \<Rightarrow> (string \<Rightarrow> UpdateDefinitionCommand option) \<Rightarrow> (Definition, field_db) api" where
  "CustomFieldHandler_UpdateDefinition pid dec req c =
     with_tenant c (\<lambda>tenantID.
     with_id pid (hq_param req ''id'') ''INVALID_ID'' (\<lambda>i.
     with_body (dec (hq_body req)) ''INVALID_BODY'' (\<lambda>cmd.
     respond 200 (UpdateDefinition c (cmd\<lparr>ud_TenantID := tenantID, ud_ID := i\<rparr>)))))"

definition CustomFieldHandler_DeleteDefinition :: "(string \<Rightarrow> ID option) \<Rightarrow> (string \<times> string, field_db) api" where
  "CustomFieldHandler_DeleteDefinition pid req c =
     with_tenant c (\<lambda>tenantID. with_id pid (hq_param req ''id'') ''INVALID_ID'' (\<lambda>i.
     confirm 200 ''status'' ''definition deleted successfully'' (DeleteDefinition c tenantID i)))"

definition CustomFieldHandler_GetEntityValues :: "(string \<Rightarrow> ID option) \<Rightarrow> (EntityCustomFields, field_db) api" where
  "CustomFieldHandler_GetEntityValues pid req c =
     with_tenant c (\<lambda>tenantID.
     with_id pid (hq_param req ''entityId'') ''INVALID_ID'' (\<lambda>entityID.
     respond 200 (GetEntityValues c tenantID (hq_param req ''entityType'') entityID)))"

definition CustomFieldHandler_SetEntityValues ::
    "(string \<Rightarrow> string \<Rightarrow> bool option) \<Rightarrow> (string \<Rightarrow> ID option) \<Rightarrow> (string \<Rightarrow> anymap option option) \<Rightarrow> (EntityCustomFields, field_db) api" where
  "CustomFieldHandler_SetEntityValues rx pid dec req c =
     with_tenant c (\<lambda>tenantID.
     with_id pid (hq_param req ''entityId'') ''INVALID_ID'' (\<lambda>entityID.
     with_body (dec (hq_body req)) ''INVALID_BODY'' (\<lambda>vals.
     respond 200 (SetEntityValues rx c
       \<lparr>sv_TenantID = tenantID, sv_EntityType = hq_param req ''entityType'', sv_EntityID = entityID, sv_Values = vals\<rparr>))))"

end
