(* ===== verification/DocumentHttp.thy ===== *)
theory DocumentHttp
  imports Http DocumentRuns
begin

text \<open>
  The handlers of documents, sequences and the audit log
  (\<open>internal/core/delivery/http/v1/document_handler.go\<close>, \<open>sequence_handler.go\<close>, \<open>audit_handler.go\<close>) with their
  routes, and what a request to them may do to the tables, from the credentials to the commit.
\<close>

section \<open>Documents\<close>

definition DocumentHandler_Create :: "(string \<Rightarrow> CreateDocumentCommand option) \<Rightarrow> doc_usecase \<Rightarrow> (Document, db) api" where
  "DocumentHandler_Create dec u req c =
     with_body (dec (hq_body req)) ''INVALID_BODY'' (\<lambda>cmd. respond 201 (CreateDocument u c cmd))"

definition DocumentHandler_List :: "(string \<Rightarrow> ID option) \<Rightarrow> (Document list_result, db) api" where
  "DocumentHandler_List up req c =
     respond 200 (ListDocuments c (positive_or 1 (hq_query req ''page'')) (positive_or 20 (hq_query req ''page_size''))
       (opt_id up (hq_query req ''organization_id'')) (opt_str (hq_query req ''type'')) (opt_str (hq_query req ''status'')))"

definition DocumentHandler_GetByID :: "(string \<Rightarrow> ID option) \<Rightarrow> (Document, db) api" where
  "DocumentHandler_GetByID up req c = with_id up (hq_param req ''id'') ''INVALID_ID'' (\<lambda>i. respond 200 (GetDocumentByID c i))"

record transitionRequest =
  rq_TargetStatus :: Status
  rq_Reason :: string
  rq_ActorID :: "ID option"

definition DocumentHandler_Transition :: "(string \<Rightarrow> ID option) \<Rightarrow> (string \<Rightarrow> transitionRequest option) \<Rightarrow> doc_usecase \<Rightarrow> (Document, db) api" where
  "DocumentHandler_Transition up dec u req c =
     with_id up (hq_param req ''id'') ''INVALID_ID'' (\<lambda>i.
     with_body (dec (hq_body req)) ''INVALID_BODY'' (\<lambda>rq.
     respond 200 (TransitionDocument u c
       \<lparr>td_DocumentID = i, td_TargetStatus = rq_TargetStatus rq, td_Reason = rq_Reason rq, td_ActorID = rq_ActorID rq\<rparr>)))"

text \<open>\<open>RegisterRoutes\<close>: every route with its permission, behind the chain of \<open>NewRouter\<close>.\<close>

definition documents_create where
  "documents_create a up dec u = business_route a up ''document:create'' (DocumentHandler_Create dec u)"

definition documents_transition where
  "documents_transition a up dec u = business_route a up ''document:transition'' (DocumentHandler_Transition up dec u)"

definition documents_list where
  "documents_list a up = business_route a up ''document:read'' (DocumentHandler_List up)"

definition documents_get where
  "documents_get a up = business_route a up ''document:read'' (DocumentHandler_GetByID up)"

section \<open>Sequences\<close>

definition SequenceHandler_Create :: "(string \<Rightarrow> CreateSequenceCommand option) \<Rightarrow> (Sequence, db) api" where
  "SequenceHandler_Create dec req c =
     with_tenant c (\<lambda>tenantID.
     with_body (dec (hq_body req)) ''INVALID_BODY'' (\<lambda>cmd.
     respond 201 (CreateSequence c (cmd\<lparr>cs_TenantID := tenantID\<rparr>))))"

definition SequenceHandler_GetByID :: "(string \<Rightarrow> ID option) \<Rightarrow> (Sequence, db) api" where
  "SequenceHandler_GetByID up req c =
     with_tenant c (\<lambda>tenantID. with_id up (hq_param req ''id'') ''INVALID_ID'' (\<lambda>i. respond 200 (GetSequence c tenantID i)))"

definition SequenceHandler_List :: "(Sequence list, db) api" where
  "SequenceHandler_List req c = with_tenant c (\<lambda>tenantID. respond 200 (ListSequences c tenantID))"

definition SequenceHandler_Update :: "(string \<Rightarrow> ID option) \<Rightarrow> (string \<Rightarrow> UpdateSequenceCommand option) \<Rightarrow> (Sequence, db) api" where
  "SequenceHandler_Update up dec req c =
     with_tenant c (\<lambda>tenantID.
     with_id up (hq_param req ''id'') ''INVALID_ID'' (\<lambda>i.
     with_body (dec (hq_body req)) ''INVALID_BODY'' (\<lambda>cmd.
     respond 200 (UpdateSequence c (cmd\<lparr>us_TenantID := tenantID, us_ID := i\<rparr>)))))"

definition SequenceHandler_Delete :: "(string \<Rightarrow> ID option) \<Rightarrow> (string \<times> string, db) api" where
  "SequenceHandler_Delete up req c =
     with_tenant c (\<lambda>tenantID. with_id up (hq_param req ''id'') ''INVALID_ID'' (\<lambda>i.
     confirm 200 ''status'' ''sequence deleted successfully'' (DeleteSequence c tenantID i)))"

record acquireNextReq =
  nq_EntityType :: string
  nq_SubType :: string
  nq_ExtraTokens :: "(string \<times> string) list"

definition next_command :: "ID \<Rightarrow> acquireNextReq \<Rightarrow> AcquireNextCommand" where
  "next_command tenantID rq =
     \<lparr>an_TenantID = tenantID, an_EntityType = nq_EntityType rq, an_SubType = nq_SubType rq, an_ExtraTokens = nq_ExtraTokens rq\<rparr>"

definition SequenceHandler_AcquireNext :: "(string \<Rightarrow> acquireNextReq option) \<Rightarrow> (string \<times> string, db) api" where
  "SequenceHandler_AcquireNext dec req c =
     with_tenant c (\<lambda>tenantID.
     with_body (dec (hq_body req)) ''INVALID_BODY'' (\<lambda>rq.
     serve (AcquireNextNumber c (next_command tenantID rq)) (\<lambda>number. JSON 200 (''number'', number)) FromDomainError))"

definition SequenceHandler_Preview :: "(string \<Rightarrow> acquireNextReq option) \<Rightarrow> (string \<times> string, db) api" where
  "SequenceHandler_Preview dec req c =
     with_tenant c (\<lambda>tenantID.
     with_body (dec (hq_body req)) ''INVALID_BODY'' (\<lambda>rq.
     serve (PreviewNextNumber c (next_command tenantID rq)) (\<lambda>preview. JSON 200 (''preview'', preview)) FromDomainError))"

section \<open>Audit log\<close>

definition AuditHandler_List :: "(string \<Rightarrow> ID option) \<Rightarrow> (AuditLog list_result, db) api" where
  "AuditHandler_List up req c =
     respond 200 (audit_usecase_List c (positive_or 1 (hq_query req ''page'')) (positive_or 20 (hq_query req ''page_size''))
       (opt_str (hq_query req ''entity_type'')) (opt_id up (hq_query req ''entity_id'')) (opt_id up (hq_query req ''actor_id''))
       (opt_str (hq_query req ''action'')))"

section \<open>What a request may do\<close>

text \<open>Behind every route that writes, the rows of other tenants stay as they are.\<close>

interpretation tenant_api: api_order "tenant_frame t" for t
  by unfold_locales

lemma documents_confined:
  assumes "RequireTenantID c = Ret t"
  shows "api_stays (tenant_frame t) (DocumentHandler_Create dec u req c)"
    and "api_stays (tenant_frame t) (DocumentHandler_Transition up tdec u req c)"
  unfolding DocumentHandler_Create_def DocumentHandler_Transition_def
  by (intro api_intros tenant_rows.stays_CreateDocument tenant_rows.stays_TransitionDocument; use assms in simp)+

lemma seq_reads_stay: "stays (tenant_frame t) (seq_GetByCode c tid code)" "stays (tenant_frame t) (seq_GetByEntity c tid et st)"
  unfolding seq_GetByCode_def seq_GetByEntity_def seq_get_def by (intro stays_intros)+

lemma sequences_confined:
  assumes t: "RequireTenantID c = Ret t"
  shows "api_stays (tenant_frame t) (SequenceHandler_Create cdec req c)"
    and "api_stays (tenant_frame t) (SequenceHandler_Delete up req c)"
    and "api_stays (tenant_frame t) (SequenceHandler_AcquireNext ndec req c)"
    and "api_stays (tenant_frame t) (SequenceHandler_Preview ndec req c)"
proof -
  have del: "stays (tenant_frame t) (seq_Delete c t i)" for i
    unfolding seq_Delete_def using tenant_rows.w_sequence_delete [of t t]
    by (intro stays_intros tenant_rows.stays_stmt) (metis snd_conv)
  have create: "stays (tenant_frame t) (seq_Create c sq)" if "sq_TenantID sq = t" for sq
    unfolding seq_Create_def
    by (intro stays_intros tenant_rows.stays_stmt) (use that in \<open>force intro: tenant_rows.w_sequence_create simp: sequence_row_of_def\<close>)
  show "api_stays (tenant_frame t) (SequenceHandler_Create cdec req c)"
    unfolding SequenceHandler_Create_def CreateSequence_def Let_def
    by (intro api_intros stays_intros create seq_reads_stay) (use t in simp_all)
  show "api_stays (tenant_frame t) (SequenceHandler_Delete up req c)"
    unfolding SequenceHandler_Delete_def DeleteSequence_def by (intro api_intros stays_intros) (use t del in simp_all)
  show "api_stays (tenant_frame t) (SequenceHandler_AcquireNext ndec req c)"
    unfolding SequenceHandler_AcquireNext_def
    by (intro api_intros tenant_rows.stays_AcquireNextNumber) (use t in \<open>simp_all add: next_command_def\<close>)
  show "api_stays (tenant_frame t) (SequenceHandler_Preview ndec req c)"
    unfolding SequenceHandler_Preview_def PreviewNextNumber_def Let_def case_prod_beta
    by (intro api_intros stays_intros seq_reads_stay)
qed


end
