(* ===== verification/IamHttp.thy ===== *)
theory IamHttp
  imports Http IdentityProps
begin

text \<open>
  The handlers of tenants, login, members and roles, and service accounts
  (\<open>internal/core/delivery/http/v1/tenant_handler.go\<close>, \<open>auth_handler.go\<close>, \<open>identity_handler.go\<close>,
  \<open>service_account_handler.go\<close>) with their routes. They work on the same tables as the authentication.
\<close>

definition iam_respond :: "int \<Rightarrow> 'd iamproc \<Rightarrow> env \<Rightarrow> 'z hstate_scheme \<Rightarrow> 'd response \<times> 'z hstate_scheme" where
  "iam_respond status m e s = call m e s (\<lambda>x s1. (JSON status x, s1)) FromDomainError"

definition iam_confirm :: "string \<Rightarrow> string \<Rightarrow> unit iamproc \<Rightarrow> env \<Rightarrow> 'z hstate_scheme \<Rightarrow> (string \<times> string) response \<times> 'z hstate_scheme" where
  "iam_confirm k v m e s = call m e s (\<lambda>_ s1. (JSON 200 (k, v), s1)) FromDomainError"

section \<open>Tenants\<close>

definition TenantHandler_Create :: "(string \<Rightarrow> CreateTenantCommand option) \<Rightarrow> (Tenant, 'z) handler" where
  "TenantHandler_Create dec req c = with_body (dec (hq_body req)) ''INVALID_BODY'' (\<lambda>cmd. iam_respond 201 (CreateTenant c cmd))"

definition TenantHandler_GetByID :: "(string \<Rightarrow> ID option) \<Rightarrow> (Tenant, 'z) handler" where
  "TenantHandler_GetByID pid req c = with_id pid (hq_param req ''id'') ''INVALID_ID'' (\<lambda>i. iam_respond 200 (GetTenant c i))"

definition TenantHandler_GetByCode :: "(Tenant, 'z) handler" where
  "TenantHandler_GetByCode req c = iam_respond 200 (GetTenantByCode c (hq_param req ''code''))"

definition TenantHandler_List :: "(Tenant list_result, 'z) handler" where
  "TenantHandler_List req c =
     iam_respond 200 (ListTenants c (of_int (Atoi_value (hq_query req ''page''))) (of_int (Atoi_value (hq_query req ''page_size''))))"

definition TenantHandler_Update :: "(string \<Rightarrow> ID option) \<Rightarrow> (string \<Rightarrow> UpdateTenantCommand option) \<Rightarrow> (Tenant, 'z) handler" where
  "TenantHandler_Update pid dec req c =
     with_id pid (hq_param req ''id'') ''INVALID_ID'' (\<lambda>i.
     with_body (dec (hq_body req)) ''INVALID_BODY'' (\<lambda>cmd. iam_respond 200 (UpdateTenant c (cmd\<lparr>utc_ID := i\<rparr>))))"

definition tenants_write :: "auth_deps \<Rightarrow> ('d, 'z) handler \<Rightarrow> ('d, 'z) handler" where
  "tenants_write a h = AuthRequired a (RateLimit (RequirePermission ''tenant:manage'' h))"

definition tenants_read :: "auth_deps \<Rightarrow> ('d, 'z) handler \<Rightarrow> ('d, 'z) handler" where
  "tenants_read a h = AuthRequired a (RateLimit h)"

section \<open>Login\<close>

definition AuthHandler_Register :: "id_usecase \<Rightarrow> (string \<Rightarrow> RegisterCommand option) \<Rightarrow> (User, 'z) handler" where
  "AuthHandler_Register u dec req c = with_body (dec (hq_body req)) ''INVALID_BODY'' (\<lambda>cmd. iam_respond 201 (user_Register u c cmd))"

definition AuthHandler_Login :: "id_usecase \<Rightarrow> (string \<Rightarrow> LoginCommand option) \<Rightarrow> (LoginResult, 'z) handler" where
  "AuthHandler_Login u dec req c = with_body (dec (hq_body req)) ''INVALID_BODY'' (\<lambda>cmd. iam_respond 200 (Login u c cmd))"

definition AuthHandler_SwitchTenant :: "id_usecase \<Rightarrow> (string \<Rightarrow> ID option) \<Rightarrow> (LoginResult, 'z) handler" where
  "AuthHandler_SwitchTenant u dec req c =
     (case GetAuthClaims c of
        None \<Rightarrow> refuse 401 ''UNAUTHORIZED''
      | Some claims \<Rightarrow>
          with_body (dec (hq_body req)) ''INVALID_BODY'' (\<lambda>tenantID. iam_respond 200 (SwitchTenant u c (ac_UserID claims) tenantID)))"

definition AuthHandler_Me :: "((User \<times> TenantMembership list) \<times> AuthClaims, 'z) handler" where
  "AuthHandler_Me req c =
     (case GetAuthClaims c of
        None \<Rightarrow> refuse 401 ''UNAUTHORIZED''
      | Some claims \<Rightarrow> (\<lambda>e s. call (GetProfile c (ac_UserID claims)) e s (\<lambda>profile s1. (JSON 200 (profile, claims), s1)) FromDomainError))"

text \<open>The protected part of \<open>/auth\<close> accepts tokens only.\<close>

definition auth_protected :: "auth_deps \<Rightarrow> ('d, 'z) handler \<Rightarrow> ('d, 'z) handler" where
  "auth_protected a h = AuthRequired (a\<lparr>ad_keys := None\<rparr>) h"

section \<open>Members and roles\<close>

definition IdentityHandler_ListMembers :: "(TenantUserItem list, 'z) handler" where
  "IdentityHandler_ListMembers req c = with_tenant c (\<lambda>tenantID. iam_respond 200 (ListMembers c tenantID))"

record addMemberReq =
  mq_UserID :: ID
  mq_RoleIDs :: "ID list"

definition IdentityHandler_AddMember :: "(string \<Rightarrow> addMemberReq option) \<Rightarrow> (TenantUser, 'z) handler" where
  "IdentityHandler_AddMember dec req c =
     with_tenant c (\<lambda>tenantID.
     with_body (dec (hq_body req)) ''INVALID_BODY'' (\<lambda>rq. iam_respond 201 (AddMember c tenantID (mq_UserID rq) (mq_RoleIDs rq))))"

definition IdentityHandler_AssignMemberRoles ::
    "(string \<Rightarrow> ID option) \<Rightarrow> (string \<Rightarrow> ID list option) \<Rightarrow> (string \<times> string, 'z) handler" where
  "IdentityHandler_AssignMemberRoles pid dec req c =
     with_tenant c (\<lambda>tenantID.
     with_id pid (hq_param req ''id'') ''INVALID_ID'' (\<lambda>userID.
     with_body (dec (hq_body req)) ''INVALID_BODY'' (\<lambda>roleIDs.
     iam_confirm ''status'' ''roles assigned successfully'' (AssignMemberRoles c tenantID userID roleIDs))))"

definition IdentityHandler_RemoveMemberRole :: "(string \<Rightarrow> ID option) \<Rightarrow> (string \<times> string, 'z) handler" where
  "IdentityHandler_RemoveMemberRole pid req c =
     with_tenant c (\<lambda>tenantID.
     with_id pid (hq_param req ''id'') ''INVALID_ID'' (\<lambda>userID.
     with_id pid (hq_param req ''roleId'') ''INVALID_ID'' (\<lambda>roleID.
     iam_confirm ''status'' ''role removed successfully'' (RemoveMemberRole c tenantID userID roleID))))"

definition IdentityHandler_ListRoles :: "(Role list, 'z) handler" where
  "IdentityHandler_ListRoles req c = with_tenant c (\<lambda>tenantID. iam_respond 200 (ListRoles c tenantID))"

record createRoleReq =
  oq_Code :: string
  oq_Name :: string
  oq_Description :: string
  oq_PermissionIDs :: "ID list"

definition IdentityHandler_CreateRole :: "(string \<Rightarrow> createRoleReq option) \<Rightarrow> (Role, 'z) handler" where
  "IdentityHandler_CreateRole dec req c =
     with_tenant c (\<lambda>tenantID.
     with_body (dec (hq_body req)) ''INVALID_BODY'' (\<lambda>rq.
     iam_respond 201 (CreateRole c
       \<lparr>cr_TenantID = tenantID, cr_Code = oq_Code rq, cr_Name = oq_Name rq, cr_Description = oq_Description rq,
        cr_PermissionIDs = oq_PermissionIDs rq\<rparr>)))"

definition IdentityHandler_GetRole :: "(string \<Rightarrow> ID option) \<Rightarrow> (Role, 'z) handler" where
  "IdentityHandler_GetRole pid req c =
     with_tenant c (\<lambda>tenantID. with_id pid (hq_param req ''id'') ''INVALID_ID'' (\<lambda>roleID. iam_respond 200 (GetRole c tenantID roleID)))"

definition IdentityHandler_AssignRolePermissions ::
    "(string \<Rightarrow> ID option) \<Rightarrow> (string \<Rightarrow> ID list option) \<Rightarrow> (string \<times> string, 'z) handler" where
  "IdentityHandler_AssignRolePermissions pid dec req c =
     with_tenant c (\<lambda>tenantID.
     with_id pid (hq_param req ''id'') ''INVALID_ID'' (\<lambda>roleID.
     with_body (dec (hq_body req)) ''INVALID_BODY'' (\<lambda>permissionIDs.
     iam_confirm ''status'' ''permissions assigned successfully'' (AssignRolePermissions c tenantID roleID permissionIDs))))"

definition IdentityHandler_ListPermissions :: "(Permission list, 'z) handler" where
  "IdentityHandler_ListPermissions req c = iam_respond 200 (ListPermissions c)"

definition iam_route :: "auth_deps \<Rightarrow> string list \<Rightarrow> ('d, 'z) handler \<Rightarrow> ('d, 'z) handler" where
  "iam_route a ps h = AuthRequired a (RateLimit (AuthRequired (a\<lparr>ad_keys := None\<rparr>) (RequireAnyPermission ps h)))"

definition members_route where "members_route a = iam_route a [''iam:manage'', ''user:manage'', ''*'']"
definition roles_route where "roles_route a = iam_route a [''iam:manage'', ''role:manage'', ''*'']"

section \<open>Service accounts\<close>

definition ServiceAccountHandler_CreateServiceAccount :: "(string \<Rightarrow> CreateServiceAccountInput option) \<Rightarrow> (ServiceAccount, 'z) handler" where
  "ServiceAccountHandler_CreateServiceAccount dec req c =
     with_body (dec (hq_body req)) ''INVALID_BODY'' (\<lambda>inp. iam_respond 201 (CreateServiceAccount c inp))"

definition ServiceAccountHandler_GetServiceAccount :: "(string \<Rightarrow> ID option) \<Rightarrow> (ServiceAccount, 'z) handler" where
  "ServiceAccountHandler_GetServiceAccount pid req c =
     with_id pid (hq_param req ''id'') ''INVALID_ID'' (\<lambda>i. iam_respond 200 (GetServiceAccount c i))"

definition ServiceAccountHandler_ListServiceAccounts :: "(ServiceAccount list, 'z) handler" where
  "ServiceAccountHandler_ListServiceAccounts req c = iam_respond 200 (ListServiceAccounts c)"

definition ServiceAccountHandler_UpdateServiceAccount ::
    "(string \<Rightarrow> ID option) \<Rightarrow> (string \<Rightarrow> UpdateServiceAccountInput option) \<Rightarrow> (ServiceAccount, 'z) handler" where
  "ServiceAccountHandler_UpdateServiceAccount pid dec req c =
     with_id pid (hq_param req ''id'') ''INVALID_ID'' (\<lambda>i.
     with_body (dec (hq_body req)) ''INVALID_BODY'' (\<lambda>inp. iam_respond 200 (UpdateServiceAccount c i inp)))"

definition ServiceAccountHandler_DeleteServiceAccount :: "(string \<Rightarrow> ID option) \<Rightarrow> (string \<times> string, 'z) handler" where
  "ServiceAccountHandler_DeleteServiceAccount pid req c =
     with_id pid (hq_param req ''id'') ''INVALID_ID'' (\<lambda>i.
     iam_confirm ''message'' ''Service account deleted successfully'' (DeleteServiceAccount c i))"

definition ServiceAccountHandler_CreateAPIKey ::
    "sa_deps \<Rightarrow> (string \<Rightarrow> ID option) \<Rightarrow> (string \<Rightarrow> CreateAPIKeyInput option) \<Rightarrow> (APIKey \<times> string, 'z) handler" where
  "ServiceAccountHandler_CreateAPIKey dp pid dec req c =
     with_id pid (hq_param req ''id'') ''INVALID_ID'' (\<lambda>accountID.
     with_body (dec (hq_body req)) ''INVALID_BODY'' (\<lambda>inp. iam_respond 201 (CreateAPIKey dp c accountID inp)))"

definition ServiceAccountHandler_ListAPIKeys :: "(string \<Rightarrow> ID option) \<Rightarrow> (APIKey list, 'z) handler" where
  "ServiceAccountHandler_ListAPIKeys pid req c =
     with_id pid (hq_param req ''id'') ''INVALID_ID'' (\<lambda>accountID. iam_respond 200 (ListAPIKeys c accountID))"

definition ServiceAccountHandler_RevokeAPIKey :: "(string \<Rightarrow> ID option) \<Rightarrow> (string \<times> string, 'z) handler" where
  "ServiceAccountHandler_RevokeAPIKey pid req c =
     with_id pid (hq_param req ''id'') ''INVALID_ID'' (\<lambda>accountID.
     with_id pid (hq_param req ''keyId'') ''INVALID_ID'' (\<lambda>keyID.
     iam_confirm ''message'' ''API key revoked successfully'' (RevokeAPIKey c accountID keyID)))"

text \<open>The routes of \<open>/service-accounts\<close> authenticate, a second time, and require no permission.\<close>

definition service_accounts_route :: "auth_deps \<Rightarrow> ('d, 'z) handler \<Rightarrow> ('d, 'z) handler" where
  "service_accounts_route a h = AuthRequired a (RateLimit (AuthRequired a h))"

section \<open>Keys without permissions\<close>

text \<open>Ann, whose roles give \<open>document:read\<close>, and an account of her tenant.\<close>

definition kx_deps :: auth_deps where
  "kx_deps = \<lparr>ad_crypto = ex_crypto, ad_tokens = NewTokenManager ''k'' [], ad_keys = Some ex_sa_deps\<rparr>"

definition kx_state :: hstate where
  "kx_state = \<lparr>hs_world = ex_id_world\<lparr>wdb := (wdb ex_id_world)\<lparr>t_service_accounts :=
       [\<lparr>sv_id = 3, sv_tenant_id = 5, sv_name = ''bot'', sv_description = None, sv_role_id = None, sv_status = ''active'', sv_created_at = 0,
         sv_updated_at = 0\<rparr>]\<rparr>\<rparr>,
     hs_limiter = NewInMemory \<lparr>RequestsPerWindow = 10, Window = 60 * Second\<rparr>, hs_headers = [], hs_started = []\<rparr>"

definition kx_input :: CreateAPIKeyInput where
  "kx_input = \<lparr>cki_Name = [], cki_Scopes = [''*''], cki_IPAllowlist = None, cki_ExpiresAt = None\<rparr>"

definition kx_key_request :: hreq where
  "kx_key_request = \<lparr>hq_header = (\<lambda>k. if k = ''X-API-Key'' then ex_secret else []), hq_remote = ''10.0.0.1:80'',
     hq_param = (\<lambda>_. []), hq_query = (\<lambda>_. []), hq_body = []\<rparr>"

definition kx_created where
  "kx_created = service_accounts_route kx_deps (ServiceAccountHandler_CreateAPIKey ex_sa_deps (\<lambda>_. Some 3) (\<lambda>_. Some kx_input))
     ex_auth_request Background ex_id_env kx_state"

lemma kx_bearer:
  fixes h :: "('d, 'z) handler"
  shows "AuthRequired kx_deps h ex_auth_request c ex_id_env s =
     h ex_auth_request (with_claims c (user_claims ex_token_claims)) ex_id_env (s\<lparr>hs_world := (hs_world s)\<lparr>tick := Suc (tick (hs_world s))\<rparr>\<rparr>)"
  by (rule AuthRequired_bearer)
     (simp_all add: kx_deps_def ex_auth_request_def ex_texts ex_crypto_def ex_id_env_def NewTokenManager_def Second_def HasPrefix_def APIKeyPrefix_def)

definition kx_ctx :: ctx where
  "kx_ctx = \<lparr>ctx_tenant = Some 5, ctx_claims = Some (user_claims ex_token_claims), ctx_tx = False\<rparr>"

lemma kx_claims: "with_claims Background (user_claims ex_token_claims) = kx_ctx" "with_claims kx_ctx (user_claims ex_token_claims) = kx_ctx"
  "GetAuthClaims kx_ctx = Some (user_claims ex_token_claims)" "GetTenantID kx_ctx = Some 5"
  by (simp_all add: with_claims_def user_claims_def ex_token_claims_def WithAuthClaims_def WithTenantID_def Background_def NilID_def kx_ctx_def
      GetAuthClaims_def GetTenantID_def)

lemma kx_rate_key: "rateLimitKey ex_auth_request kx_ctx = ''rl:tenant:'' @ ID_String 5"
  by (simp add: rateLimitKey_def kx_claims user_claims_def ex_token_claims_def NilID_def)

lemma kx_times: "clock_at ex_id_env n = 0" "hs_headers kx_state = []" "tick (hs_world kx_state) = 0"
  by (simp_all add: ex_id_env_def kx_state_def ex_id_world_def)

text \<open>The state behind the middleware: three readings of the clock, and one request of the tenant counted.\<close>

definition kx_limiter :: inMemoryLimiter where
  "kx_limiter = \<lparr>lcfg = \<lparr>RequestsPerWindow = 10, Window = 60 * Second\<rparr>, buckets = [(''rl:tenant:'' @ ID_String 5, 0)],
     store = [[utc_of_ns 0]], stopped = False\<rparr>"

lemmas kx_limit = RateLimit_def Allow_def LoadOrStore_def allow_at_def allow_locked_def NewInMemory_def Let_def

lemma kx_reached:
  obtains s1 where "\<forall>h :: (APIKey \<times> string, unit) handler. service_accounts_route kx_deps h ex_auth_request Background ex_id_env kx_state = h ex_auth_request kx_ctx ex_id_env s1"
    "wdb (hs_world s1) = wdb (hs_world kx_state)" "wtx (hs_world s1) = None" "tick (hs_world s1) = 3" "hs_limiter s1 = kx_limiter" "hs_started s1 = []"
proof -
  have lim: "hs_limiter kx_state = \<lparr>lcfg = \<lparr>RequestsPerWindow = 10, Window = 60 * Second\<rparr>, buckets = [], store = [], stopped = False\<rparr>"
    by (simp add: kx_state_def NewInMemory_def Second_def)
  let ?s = "kx_state\<lparr>hs_limiter := kx_limiter, hs_headers := setRateLimitHeaders
      \<lparr>Allowed = True, Remaining = 9, Limit = 10, ResetAt = Time_Add (utc_of_ns 0) (60 * Second)\<rparr> [], hs_world := (hs_world kx_state)\<lparr>tick := 3\<rparr>\<rparr>"
  have "service_accounts_route kx_deps h ex_auth_request Background ex_id_env kx_state = h ex_auth_request kx_ctx ex_id_env ?s" for h :: "(APIKey \<times> string, unit) handler"
    unfolding service_accounts_route_def kx_bearer kx_claims
    by (simp add: kx_limit kx_bearer kx_claims kx_rate_key kx_times lim kx_limiter_def eval_nat_numeral)
  then show thesis by (intro that [of ?s] allI) (simp_all add: kx_state_def ex_id_world_def)
qed

lemma kx_world: "wdb (hs_world kx_state) = (wdb ex_id_world)\<lparr>t_service_accounts :=
       [\<lparr>sv_id = 3, sv_tenant_id = 5, sv_name = ''bot'', sv_description = None, sv_role_id = None, sv_status = ''active'', sv_created_at = 0,
         sv_updated_at = 0\<rparr>]\<rparr>"
  by (simp add: kx_state_def)

text \<open>Ann gets a key with every permission.\<close>

lemma kx_secret: "TrimSpace [] = []" "TrimSpace ex_secret = ex_secret" "HasPrefix ex_secret APIKeyPrefix" "ex_secret \<noteq> []"
  unfolding ex_secret_def by code_simp+

lemma kx_created_result:
  "\<exists>k s1 r. kx_created = (JSON 201 (k, ex_secret), s1) \<and> wdb (hs_world s1) = (wdb (hs_world kx_state))\<lparr>t_api_keys := [r]\<rparr> \<and>
     ky_key_hash r = HashAPIKey ex_sa_deps ex_secret \<and> ky_service_account_id r = 3 \<and> ky_scopes r = json_of_strs [''*''] \<and> ky_status r = ''active'' \<and>
     ky_expires_at r = None \<and> ky_ip_allowlist r = None \<and> hs_limiter s1 = kx_limiter \<and> wtx (hs_world s1) = None"
proof -
  obtain s1 where s1: "\<forall>h :: (APIKey \<times> string, unit) handler. service_accounts_route kx_deps h ex_auth_request Background ex_id_env kx_state = h ex_auth_request kx_ctx ex_id_env s1"
    "wdb (hs_world s1) = wdb (hs_world kx_state)" "wtx (hs_world s1) = None" "tick (hs_world s1) = 3" "hs_limiter s1 = kx_limiter" "hs_started s1 = []"
    by (rule kx_reached)
  then have "hs_world s1 = \<lparr>wdb = wdb (hs_world kx_state), wtx = None, tick = 3\<rparr>" by (cases "hs_world s1") simp
  then show ?thesis
    unfolding kx_created_def using s1(1,5)
    by (simp add: ServiceAccountHandler_CreateAPIKey_def with_id_def with_body_def iam_respond_def call_def ParseID_def kx_input_def ex_sa_eval
        kx_world ex_id_world_def ex_id_env_def kx_ctx_def kx_secret JSON_def cong: proc_congs)
qed

definition kx_key_claims :: "api_key_row \<Rightarrow> AuthClaims" where
  "kx_key_claims r = \<lparr>ac_UserID = 3, ac_TenantID = 5, ac_Email = ''bot@serviceaccount.mergiate.local'', ac_Name = ''bot'', ac_Roles = [],
     ac_Permissions = [''*''], ac_ActorType = ActorTypeAPIKey, ac_ServiceAccountID = Some 3, ac_APIKeyID = Some (ky_id r)\<rparr>"

lemma kx_validated:
  assumes "wdb w = (wdb (hs_world kx_state))\<lparr>t_api_keys := [r]\<rparr>" "wtx w = None"
    and "ky_key_hash r = HashAPIKey ex_sa_deps ex_secret" "ky_service_account_id r = 3" "ky_scopes r = json_of_strs [''*'']" "ky_status r = ''active''"
      "ky_expires_at r = None" "ky_ip_allowlist r = None"
  shows "\<exists>u w'. ValidateAPIKey ex_sa_deps Background ex_secret ip ex_id_env w = (Ret (kx_key_claims r, u), w') \<and> wdb w' = wdb w"
proof -
  have "strs_of_json (json_of_strs [''*'']) = Some [''*'']" by code_simp
  then show ?thesis
    using assms
    by (simp add: ValidateAPIKey_def Let_def kx_secret repo_GetAPIKeyByHash_def sql_select_key_by_hash_def kx_world ex_id_world_def ex_id_env_def proc_eval
        read_with_def lookup_err_def pool_ctx_def Background_def key_of_row_def account_of_row_def effective_permissions_def APIKey_IsActive_def
        APIKeyStatusActive_def APIKey_expired_def ServiceAccount_IsActive_def ServiceAccountStatusActive_def ValidateIP_def key_claims_def
        kx_key_claims_def cong: proc_congs)
qed

lemma kx_no_tenant_header: "hq_header kx_key_request HeaderTenantID = []" "hq_header ex_auth_request HeaderTenantID = []"
  by (simp_all add: kx_key_request_def ex_auth_request_def HeaderTenantID_def)

text \<open>Her own token does not open the route \<dots>\<close>

lemma kx_token_refused: "rs_status (fst (business_route kx_deps pid ''document:create'' h ex_auth_request Background ex_id_env kx_state)) = 403"
proof -
  have lim: "hs_limiter kx_state = \<lparr>lcfg = \<lparr>RequestsPerWindow = 10, Window = 60 * Second\<rparr>, buckets = [], store = [], stopped = False\<rparr>"
    by (simp add: kx_state_def NewInMemory_def Second_def)
  have "\<not> HasPermission kx_ctx ''document:create''"
    by (simp add: HasPermission_iff kx_claims user_claims_def ex_token_claims_def)
  then show ?thesis
    unfolding business_route_def kx_bearer kx_claims
    by (simp add: kx_limit kx_claims kx_rate_key kx_times lim TenantRequired_def kx_no_tenant_header RequirePermission_def Err_def)
qed

text \<open>\<dots> and the key does.\<close>

lemma kx_key_passes:
  assumes "wdb (hs_world s) = (wdb (hs_world kx_state))\<lparr>t_api_keys := [r]\<rparr>" "wtx (hs_world s) = None" "hs_limiter s = kx_limiter"
    and "ky_key_hash r = HashAPIKey ex_sa_deps ex_secret" "ky_service_account_id r = 3" "ky_scopes r = json_of_strs [''*'']" "ky_status r = ''active''"
      "ky_expires_at r = None" "ky_ip_allowlist r = None"
  shows "\<exists>c s2. \<forall>h :: ('d, 'z) handler. business_route kx_deps pid perm h kx_key_request Background ex_id_env s = h kx_key_request c ex_id_env s2"
proof -
  let ?c = "with_claims Background (kx_key_claims r)"
  obtain u w' where v: "ValidateAPIKey ex_sa_deps Background ex_secret (hq_remote kx_key_request) ex_id_env (hs_world s) = (Ret (kx_key_claims r, u), w')"
    using kx_validated [OF assms(1,2,4-9)] by blast
  have c: "GetTenantID ?c = Some 5" "GetAuthClaims ?c = Some (kx_key_claims r)"
    by (simp_all add: with_claims_def kx_key_claims_def WithAuthClaims_def WithTenantID_def Background_def NilID_def GetTenantID_def GetAuthClaims_def)
  have p: "HasPermission ?c perm" unfolding HasPermission_iff c by (simp add: kx_key_claims_def)
  have k: "rateLimitKey kx_key_request ?c = ''rl:sa:'' @ ID_String 3"
    unfolding rateLimitKey_def c by (simp add: kx_key_claims_def)
  have a: "AuthRequired kx_deps g kx_key_request Background ex_id_env s =
      g kx_key_request ?c ex_id_env (s\<lparr>hs_world := w', hs_started := hs_started s @ [u]\<rparr>)" for g :: "('d, 'z) handler"
    using v kx_secret(4) by (simp add: AuthRequired_def kx_key_request_def kx_deps_def Let_def serve_key_def call_def)
  show ?thesis
    unfolding business_route_def a
    by (intro exI allI) (simp add: kx_limit k kx_times kx_limiter_def assms(3) TenantRequired_def c kx_no_tenant_header RequirePermission_def p)
qed


end
