(* ===== verification/RpcService.thy ===== *)
theory RpcService
  imports HttpAuth PartyProps
begin

text \<open>
  The RPC services (\<open>internal/core/delivery/rpc/party_service.go\<close>, \<open>ping_service.go\<close>): the translation between
  messages and the party use cases, shared by the Connect and the gRPC server, and the codes given to
  errors. The messages are the records below, with the fields of the generated types that the services
  read or set.
\<close>

section \<open>Messages\<close>

text \<open>\<open>Format(time.RFC3339)\<close>\<close>

definition clock_seconds :: "gotime \<Rightarrow> int" where
  "clock_seconds t = ((ns t + off t * Second) div Second) mod 86400"

definition zone_text :: "int \<Rightarrow> string" where
  "zone_text z =
     (let m = \<bar>z\<bar> div 60
      in if z = 0 then ''Z'' else (if z < 0 \<and> 0 < m then ''-'' else ''+'') @ fmt_0d 2 (m div 60) @ '':'' @ fmt_0d 2 (m mod 60))"

definition Format_RFC3339 :: "gotime \<Rightarrow> string" where
  "Format_RFC3339 t =
     Format_2006 t @ ''-'' @ Format_01 t @ ''-'' @ Format_02 t @ ''T'' @
     fmt_0d 2 (clock_seconds t div 3600) @ '':'' @ fmt_0d 2 (clock_seconds t div 60 mod 60) @ '':'' @ fmt_0d 2 (clock_seconds t mod 60) @
     zone_text (off t)"

record pb_PartyRole =
  prb_Id :: string
  prb_TenantId :: string
  prb_PartyId :: string
  prb_OrganizationId :: string
  prb_RoleType :: string
  prb_Status :: string
  prb_CreatedAt :: string
  prb_UpdatedAt :: string

record pb_Party =
  ppb_Id :: string
  ppb_TenantId :: string
  ppb_Type :: string
  ppb_Code :: string
  ppb_Name :: string
  ppb_LegalName :: string
  ppb_TaxId :: string
  ppb_Status :: string
  ppb_Roles :: "pb_PartyRole list"
  ppb_CreatedAt :: string
  ppb_UpdatedAt :: string

record pb_ContactAddress =
  cab_Id :: string
  cab_Type :: string
  cab_Label :: string
  cab_Line1 :: string
  cab_Line2 :: string
  cab_City :: string
  cab_State :: string
  cab_PostalCode :: string
  cab_CountryCode :: string
  cab_IsPrimary :: bool

record pb_ContactItem =
  cib_Id :: string
  cib_Type :: string
  cib_Value :: string
  cib_Label :: string
  cib_IsPrimary :: bool

record pb_GetPartyResponse =
  gpr_Party :: pb_Party
  gpr_Addresses :: "pb_ContactAddress list"
  gpr_Contacts :: "pb_ContactItem list"

record pb_CreatePartyRequest =
  cpq_Type :: string
  cpq_Code :: string
  cpq_Name :: string
  cpq_LegalName :: string
  cpq_TaxId :: string
  cpq_InitialRoles :: "string list"

record pb_ListPartiesRequest =
  lpq_Page :: int32
  lpq_PageSize :: int32
  lpq_PartyType :: string
  lpq_RoleType :: string

record pb_ListPartiesResponse =
  lpr_Items :: "pb_Party list"
  lpr_Total :: int
  lpr_Page :: int32
  lpr_PageSize :: int32

section \<open>Translation\<close>

definition role_to_proto :: "PartyRole \<Rightarrow> pb_PartyRole" where
  "role_to_proto r =
     \<lparr>prb_Id = ID_String (rl_ID r), prb_TenantId = ID_String (rl_TenantID r), prb_PartyId = ID_String (rl_PartyID r),
      prb_OrganizationId = (case rl_OrganizationID r of None \<Rightarrow> [] | Some i \<Rightarrow> ID_String i), prb_RoleType = rl_RoleType r,
      prb_Status = rl_Status r, prb_CreatedAt = Format_RFC3339 (rl_CreatedAt r), prb_UpdatedAt = Format_RFC3339 (rl_UpdatedAt r)\<rparr>"

definition mapDomainPartyToProto :: "Party \<Rightarrow> pb_Party" where
  "mapDomainPartyToProto p =
     \<lparr>ppb_Id = ID_String (py_ID p), ppb_TenantId = ID_String (py_TenantID p), ppb_Type = py_Type p, ppb_Code = py_Code p, ppb_Name = py_Name p,
      ppb_LegalName = py_LegalName p, ppb_TaxId = py_TaxID p, ppb_Status = py_Status p, ppb_Roles = map role_to_proto (py_Roles p),
      ppb_CreatedAt = Format_RFC3339 (py_CreatedAt p), ppb_UpdatedAt = Format_RFC3339 (py_UpdatedAt p)\<rparr>"

definition address_to_proto :: "Address \<Rightarrow> pb_ContactAddress" where
  "address_to_proto a =
     \<lparr>cab_Id = ID_String (ad_ID a), cab_Type = ad_Type a, cab_Label = ad_Label a, cab_Line1 = ad_Line1 a, cab_Line2 = ad_Line2 a,
      cab_City = ad_City a, cab_State = ad_State a, cab_PostalCode = ad_PostalCode a, cab_CountryCode = ad_CountryCode a,
      cab_IsPrimary = ad_IsPrimary a\<rparr>"

definition contact_to_proto :: "Contact \<Rightarrow> pb_ContactItem" where
  "contact_to_proto c =
     \<lparr>cib_Id = ID_String (co_ID c), cib_Type = co_Type c, cib_Value = co_Value c, cib_Label = co_Label c, cib_IsPrimary = co_IsPrimary c\<rparr>"

definition InvalidPartyID :: err where
  "InvalidPartyID = Opaque ''invalid party id''"

definition getPartyCore :: "(string \<Rightarrow> ID option) \<Rightarrow> ctx \<Rightarrow> string \<Rightarrow> pb_GetPartyResponse dbproc" where
  "getPartyCore pid c rawID =
     (case ParseID pid rawID of
        Ret i \<Rightarrow>
          bindP (GetParty c i) (\<lambda>detail.
          ret \<lparr>gpr_Party = mapDomainPartyToProto (dt_Party detail), gpr_Addresses = map address_to_proto (dt_Addresses detail),
               gpr_Contacts = map contact_to_proto (dt_Contacts detail)\<rparr>)
      | _ \<Rightarrow> fail InvalidPartyID)"

definition createPartyCore :: "ctx \<Rightarrow> pb_CreatePartyRequest \<Rightarrow> pb_Party dbproc" where
  "createPartyCore c rq =
     bindP (CreateParty c
       \<lparr>cy_Type = cpq_Type rq, cy_Code = cpq_Code rq, cy_Name = cpq_Name rq, cy_LegalName = cpq_LegalName rq, cy_TaxID = cpq_TaxId rq,
        cy_Metadata = None, cy_InitialRoles = cpq_InitialRoles rq\<rparr>)
       (\<lambda>p. ret (mapDomainPartyToProto p))"

definition listPartiesCore :: "ctx \<Rightarrow> pb_ListPartiesRequest \<Rightarrow> pb_ListPartiesResponse dbproc" where
  "listPartiesCore c rq =
     (let page = (if lpq_Page rq \<le>s 0 then 1 else lpq_Page rq); pageSize = (if lpq_PageSize rq \<le>s 0 then 20 else lpq_PageSize rq);
          partyType = (if lpq_PartyType rq = [] then None else Some (lpq_PartyType rq));
          roleType = (if lpq_RoleType rq = [] then None else Some (lpq_RoleType rq))
      in bindP (ListParties c page pageSize partyType roleType) (\<lambda>res.
         ret \<lparr>lpr_Items = map mapDomainPartyToProto (lres_Items res), lpr_Total = lres_Total res, lpr_Page = lres_Page res,
              lpr_PageSize = lres_PageSize res\<rparr>))"

section \<open>Errors\<close>

datatype code = CodeNotFound | CodeAlreadyExists | CodePermissionDenied | CodeUnauthenticated | CodeInvalidArgument | CodeInternal

definition toConnectError :: "err \<Rightarrow> code" where
  "toConnectError er =
     (if errors_Is er ErrNotFound then CodeNotFound
      else if errors_Is er ErrAlreadyExists then CodeAlreadyExists
      else if errors_Is er ErrForbidden \<or> errors_Is er ErrTenantSuspended then CodePermissionDenied
      else if errors_Is er ErrUnauthorized then CodeUnauthenticated
      else if errors_Is er ErrInvalidInput \<or> errors_Is er ErrTenantRequired then CodeInvalidArgument
      else CodeInternal)"

definition toGRPCError :: "err \<Rightarrow> code" where
  "toGRPCError er =
     (if errors_Is er ErrNotFound then CodeNotFound
      else if errors_Is er ErrAlreadyExists then CodeAlreadyExists
      else if errors_Is er ErrForbidden \<or> errors_Is er ErrTenantSuspended then CodePermissionDenied
      else if errors_Is er ErrUnauthorized then CodeUnauthenticated
      else if errors_Is er ErrInvalidInput \<or> errors_Is er ErrTenantRequired then CodeInvalidArgument
      else CodeInternal)"

text \<open>An answer is a message or a code; a panic ends the call with the internal code.\<close>

definition rpc :: "(err \<Rightarrow> code) \<Rightarrow> 'a dbproc \<Rightarrow> env \<Rightarrow> db world \<Rightarrow> (code + 'a) \<times> db world" where
  "rpc conv m e w =
     (case m e w of (Ret x, w') \<Rightarrow> (Inr x, w') | (Fail er, w') \<Rightarrow> (Inl (conv er), w') | (Panic p, w') \<Rightarrow> (Inl CodeInternal, w'))"

definition Connect_GetParty where "Connect_GetParty pid c rq = rpc toConnectError (getPartyCore pid c rq)"
definition Connect_CreateParty where "Connect_CreateParty c rq = rpc toConnectError (createPartyCore c rq)"
definition Connect_ListParties where "Connect_ListParties c rq = rpc toConnectError (listPartiesCore c rq)"
definition GRPC_GetParty where "GRPC_GetParty pid c rq = rpc toGRPCError (getPartyCore pid c rq)"
definition GRPC_CreateParty where "GRPC_CreateParty c rq = rpc toGRPCError (createPartyCore c rq)"
definition GRPC_ListParties where "GRPC_ListParties c rq = rpc toGRPCError (listPartiesCore c rq)"

section \<open>Ping\<close>

record pb_PingResponse =
  png_Message :: string
  png_Version :: string
  png_Timestamp :: int

definition NewPingServiceServer :: "string \<Rightarrow> string" where
  "NewPingServiceServer version = (if version = [] then ''1.0.0'' else version)"

definition Ping :: "string \<Rightarrow> string \<Rightarrow> ('db, pb_PingResponse) proc" where
  "Ping version msg =
     bindP Now (\<lambda>now. ret \<lparr>png_Message = (if msg = [] then ''pong'' else msg), png_Version = version, png_Timestamp = ns now div Second\<rparr>)"

section \<open>Lemmas\<close>

text \<open>Both servers answer alike.\<close>

lemma servers_agree:
  "GRPC_GetParty = Connect_GetParty" "GRPC_CreateParty = Connect_CreateParty" "GRPC_ListParties = Connect_ListParties"
proof -
  have "toGRPCError = toConnectError" by (rule ext) (simp add: toGRPCError_def toConnectError_def)
  then show "GRPC_GetParty = Connect_GetParty" "GRPC_CreateParty = Connect_CreateParty" "GRPC_ListParties = Connect_ListParties"
    by (auto intro!: ext simp: GRPC_GetParty_def Connect_GetParty_def GRPC_CreateParty_def Connect_CreateParty_def GRPC_ListParties_def Connect_ListParties_def)
qed

text \<open>A malformed identifier is answered as an internal error, although the service marks it as an invalid argument.\<close>

lemma bad_party_id_internal:
  assumes "pid rawID = None"
  shows "Connect_GetParty pid c rawID e w = (Inl CodeInternal, w)"
  using assms by (simp add: Connect_GetParty_def rpc_def getPartyCore_def ParseID_def fail_def InvalidPartyID_def toConnectError_def)

text \<open>What a party looks like over RPC is what \<open>GetParty\<close> returns.\<close>

lemma rpc_profile:
  assumes "Connect_GetParty pid c rawID e w = (Inr m, w')"
  obtains i detail where "pid rawID = Some i" "GetParty c i e w = (Ret detail, w')"
    "gpr_Party m = mapDomainPartyToProto (dt_Party detail)" "map cab_City (gpr_Addresses m) = map ad_City (dt_Addresses detail)"
    "map cib_Value (gpr_Contacts m) = map co_Value (dt_Contacts detail)"
proof -
  obtain i where i: "pid rawID = Some i"
    using assms bad_party_id_internal [of pid rawID c e w] by (cases "pid rawID") auto
  with assms obtain detail where "GetParty c i e w = (Ret detail, w')" "m = \<lparr>gpr_Party = mapDomainPartyToProto (dt_Party detail),
      gpr_Addresses = map address_to_proto (dt_Addresses detail), gpr_Contacts = map contact_to_proto (dt_Contacts detail)\<rparr>"
    by (auto simp: Connect_GetParty_def rpc_def getPartyCore_def ParseID_def bindP_def ret_def split: prod.splits res.splits)
  with i show thesis by (intro that) (auto simp: address_to_proto_def contact_to_proto_def)
qed

end
