(* ===== verification/Platform.thy ===== *)
theory Platform
  imports Http OutboxAudit
begin

text \<open>
  Configuration (\<open>pkg/config/config.go\<close>), the services a module gets from its host (\<open>pkg/module/host.go\<close>) and
  the parts of the router outside the API (\<open>internal/core/delivery/http/router.go\<close>). The environment variables
  are a function from names to texts, empty when unset; \<open>time.ParseDuration\<close> and the ping of the database
  are arguments.
\<close>

section \<open>Configuration\<close>

definition insecureJWTSecretFallback :: string where
  "insecureJWTSecretFallback = ''mergiate-insecure-secret-key-change-in-production''"

record Config =
  cfg_AppEnv :: string
  cfg_AppPort :: string
  cfg_AppName :: string
  cfg_DatabaseURL :: string
  cfg_DBMaxConns :: int32
  cfg_DBMinConns :: int32
  cfg_DBMaxConnIdle :: duration
  cfg_DBMaxConnLife :: duration
  cfg_DBPgBouncer :: bool
  cfg_JWTSecret :: string
  cfg_JWTExpiry :: duration
  cfg_CORSAllowedOrigins :: "string list"
  cfg_StoragePath :: string
  cfg_HTTP2Enabled :: bool
  cfg_RateLimitEnabled :: bool
  cfg_RateLimitPerMinute :: int
  cfg_RateLimitBurst :: int
  cfg_GRPCEnabled :: bool
  cfg_GRPCPort :: string

definition IsProduction :: "Config \<Rightarrow> bool" where
  "IsProduction cfg \<longleftrightarrow> cfg_AppEnv cfg = ''production'' \<or> cfg_AppEnv cfg = ''prod''"

definition ValidateJWTSecret :: "Config \<Rightarrow> unit res" where
  "ValidateJWTSecret cfg =
     (if cfg_JWTSecret cfg = [] \<or> cfg_JWTSecret cfg = insecureJWTSecretFallback
      then (if IsProduction cfg then Fail (Opaque ''JWT_SECRET must be set to a strong secret in production'') else Ret ())
      else Ret ())"

definition IsInsecureJWTSecret :: "string \<Rightarrow> bool" where
  "IsInsecureJWTSecret secret \<longleftrightarrow> secret = [] \<or> secret = insecureJWTSecretFallback"

definition getEnv :: "(string \<Rightarrow> string) \<Rightarrow> string \<Rightarrow> string \<Rightarrow> string" where
  "getEnv vars key fallback = (if vars key \<noteq> [] then vars key else fallback)"

definition getEnvAsInt32 :: "(string \<Rightarrow> string) \<Rightarrow> string \<Rightarrow> int32 \<Rightarrow> int32" where
  "getEnvAsInt32 vars key fallback =
     (if vars key = [] then fallback
      else case strconv_Atoi (vars key) of
          Some n \<Rightarrow> if - (2 ^ 31) \<le> n \<and> n < 2 ^ 31 then of_int n else fallback
        | None \<Rightarrow> fallback)"

definition getEnvAsDuration :: "(string \<Rightarrow> duration option) \<Rightarrow> (string \<Rightarrow> string) \<Rightarrow> string \<Rightarrow> duration \<Rightarrow> duration" where
  "getEnvAsDuration dur vars key fallback =
     (if vars key = [] then fallback else case dur (vars key) of Some d \<Rightarrow> d | None \<Rightarrow> fallback)"

definition cors_origins :: "string \<Rightarrow> string list" where
  "cors_origins raw = (if raw = [] then [] else filter (\<lambda>x. x \<noteq> []) (map TrimSpace (split_on (CHR '','') raw)))"

definition database_url :: "(string \<Rightarrow> string) \<Rightarrow> string" where
  "database_url vars =
     (if vars ''DATABASE_URL'' \<noteq> [] then vars ''DATABASE_URL''
      else ''postgres://'' @ getEnv vars ''DB_USER'' ''mergiate'' @ '':'' @ getEnv vars ''DB_PASSWORD'' ''mergiate_password'' @ ''@'' @
           getEnv vars ''DB_HOST'' ''localhost'' @ '':'' @ getEnv vars ''DB_PORT'' ''5434'' @ ''/'' @
           getEnv vars ''DB_NAME'' ''mergiate_core'' @ ''?sslmode='' @ getEnv vars ''DB_SSLMODE'' ''disable'')"

definition Minute :: duration where "Minute = 60 * Second"

definition Load :: "(string \<Rightarrow> duration option) \<Rightarrow> (string \<Rightarrow> string) \<Rightarrow> Config" where
  "Load dur vars =
     \<lparr>cfg_AppEnv = getEnv vars ''APP_ENV'' ''development'', cfg_AppPort = getEnv vars ''APP_PORT'' ''8080'',
      cfg_AppName = getEnv vars ''APP_NAME'' ''mergiate-core'', cfg_DatabaseURL = database_url vars,
      cfg_DBMaxConns = getEnvAsInt32 vars ''DB_MAX_CONNS'' 15, cfg_DBMinConns = getEnvAsInt32 vars ''DB_MIN_CONNS'' 3,
      cfg_DBMaxConnIdle = getEnvAsDuration dur vars ''DB_MAX_CONN_IDLE'' (15 * Minute),
      cfg_DBMaxConnLife = getEnvAsDuration dur vars ''DB_MAX_CONN_LIFE'' (60 * Minute),
      cfg_DBPgBouncer = (getEnv vars ''DB_PGBOUNCER'' ''false'' = ''true''),
      cfg_JWTSecret = getEnv vars ''JWT_SECRET'' insecureJWTSecretFallback,
      cfg_JWTExpiry = (case dur (getEnv vars ''JWT_EXPIRY'' ''24h'') of Some d \<Rightarrow> d | None \<Rightarrow> 24 * 60 * Minute),
      cfg_CORSAllowedOrigins = cors_origins (getEnv vars ''CORS_ALLOWED_ORIGINS'' []),
      cfg_StoragePath = getEnv vars ''STORAGE_PATH'' ''./storage/uploads'',
      cfg_HTTP2Enabled = (getEnv vars ''HTTP2_ENABLED'' ''true'' = ''true''),
      cfg_RateLimitEnabled = (getEnv vars ''RATE_LIMIT_ENABLED'' ''false'' = ''true''),
      cfg_RateLimitPerMinute = sint (getEnvAsInt32 vars ''RATE_LIMIT_PER_MINUTE'' 300),
      cfg_RateLimitBurst = sint (getEnvAsInt32 vars ''RATE_LIMIT_BURST'' 50),
      cfg_GRPCEnabled = (getEnv vars ''GRPC_ENABLED'' ''true'' = ''true''), cfg_GRPCPort = getEnv vars ''GRPC_PORT'' ''50051''\<rparr>"

text \<open>In production a configuration passes the check only with a secret of its own.\<close>

lemma production_secret:
  "IsProduction (Load dur vars) \<Longrightarrow> ValidateJWTSecret (Load dur vars) = Ret () \<Longrightarrow>
     cfg_JWTSecret (Load dur vars) = vars ''JWT_SECRET'' \<and> \<not> IsInsecureJWTSecret (vars ''JWT_SECRET'')"
  by (auto simp: ValidateJWTSecret_def IsInsecureJWTSecret_def Load_def getEnv_def split: if_splits)

text \<open>The environment is compared as it is: another spelling of \<open>production\<close> accepts the published secret.\<close>

lemma production_spelling:
  "ValidateJWTSecret (Load dur (\<lambda>k. if k = ''APP_ENV'' then ''Production'' else [])) = Ret ()"
  by (simp add: ValidateJWTSecret_def IsProduction_def Load_def getEnv_def)

section \<open>Router\<close>

definition filterWildcardOrigins :: "string list \<Rightarrow> string list" where
  "filterWildcardOrigins origins = filter (\<lambda>x. TrimSpace x \<noteq> ''*'') origins"

record cors_options =
  co_AllowedOrigins :: "string list"
  co_AllowCredentials :: bool

definition cors_policy :: "string list \<Rightarrow> cors_options" where
  "cors_policy origins =
     (let safe = filterWildcardOrigins origins
      in if length safe > 0 then \<lparr>co_AllowedOrigins = safe, co_AllowCredentials = True\<rparr>
         else \<lparr>co_AllowedOrigins = [], co_AllowCredentials = False\<rparr>)"

text \<open>Credentials are never allowed together with the origin \<open>*\<close>.\<close>

lemma cors_no_wildcard: "co_AllowCredentials (cors_policy origins) \<Longrightarrow> ''*'' \<notin> set (co_AllowedOrigins (cors_policy origins))"
proof -
  have "TrimSpace ''*'' = ''*''" by code_simp
  then show "''*'' \<notin> set (co_AllowedOrigins (cors_policy origins))"
    by (auto simp: cors_policy_def filterWildcardOrigins_def Let_def)
qed

definition healthz :: "(string \<times> string) list response" where
  "healthz = JSON 200 [(''status'', ''ok'')]"

definition readyz :: "bool \<Rightarrow> (string \<times> string) list response" where
  "readyz ping_ok =
     (if \<not> ping_ok then Err 503 ''DB_UNAVAILABLE'' else JSON 200 [(''status'', ''ready''), (''database'', ''connected'')])"

section \<open>Host\<close>

definition module_event :: "ID \<Rightarrow> ID \<Rightarrow> string \<Rightarrow> string \<Rightarrow> ID \<Rightarrow> gomap \<Rightarrow> gotime \<Rightarrow> OutboxEvent" where
  "module_event evtID tenantID eventType aggregateType aggregateID payload now =
     \<lparr>oe_ID = evtID, oe_TenantID = tenantID, oe_EventType = eventType, oe_AggregateType = aggregateType,
      oe_AggregateID = aggregateID, oe_Payload = payload, oe_Status = OutboxStatusPending, oe_RetryCount = 0,
      oe_ErrorMessage = [], oe_CreatedAt = now, oe_PublishedAt = None\<rparr>"

definition RecordOutbox :: "bool \<Rightarrow> ctx \<Rightarrow> ID \<Rightarrow> string \<Rightarrow> string \<Rightarrow> ID \<Rightarrow> gomap \<Rightarrow> unit dbproc" where
  "RecordOutbox has_repo c tenantID eventType aggregateType aggregateID payload =
     (if \<not> has_repo then ret ()
      else bindP NewID (\<lambda>evtID.
           bindP Now (\<lambda>now.
           bindP (outbox_Create c (module_event evtID tenantID eventType aggregateType aggregateID payload now)) (\<lambda>_.
           ret ()))))"

text \<open>In a transaction of the module, a recorded event is pending and goes the way of the transaction.\<close>

lemma RecordOutbox_inside:
  assumes "RecordOutbox True c tenantID ty aty aid payload e w = (Ret (), w')" "ctx_tx c" "wtx w = Some (d, False)"
  shows "\<exists>i now. wtx w' = Some (d\<lparr>t_outbox_events := t_outbox_events d @ [outbox_row_of (module_event i tenantID ty aty aid payload now)]\<rparr>, False)"
proof -
  obtain i now x w1 w2 where "outbox_Create c (module_event i tenantID ty aty aid payload now) e w1 = (Ret x, w2)" "wtx w1 = wtx w" "w' = w2"
    using assms(1) by (auto simp: RecordOutbox_def bindP_Ret_iff ret_def NewID_def Now_def split: option.splits)
  with assms(2,3) have "wtx w' = Some (d\<lparr>t_outbox_events := t_outbox_events d @ [outbox_row_of (module_event i tenantID ty aty aid payload now)]\<rparr>, False)"
    by (auto simp: outbox_Create_def bindP_Ret_iff proc_simps stmt_Ret_inside sql_CreateOutboxEvent_Ret_iff)
  then show ?thesis by blast
qed

end
