(* ===== verification/Bootstrap.thy ===== *)
theory Bootstrap
  imports Identity Organization "HOL-Library.Sublist"
begin

text \<open>
  Seeding of an installation (\<open>pkg/bootstrap/bootstrap.go\<close>): the tenant, its organization, the owner, the
  membership, the system roles with their permissions, and the role of the owner. Every step looks
  first whether its row is there. The steps run on the pool, without a transaction, so a run that
  fails leaves what it had created. The identifier \<open>gen_random_uuid()\<close> draws is an argument.
\<close>

section \<open>The two groups of tables\<close>

record boot_db =
  bd_iam :: iam_db
  bd_core :: db

definition on_iam :: "'a iamproc \<Rightarrow> (boot_db, 'a) proc" where
  "on_iam m = (\<lambda>e w. case m e \<lparr>wdb = bd_iam (wdb w), wtx = None, tick = tick w\<rparr> of
     (r, w1) \<Rightarrow> (r, w\<lparr>wdb := (wdb w)\<lparr>bd_iam := wdb w1\<rparr>, tick := tick w1\<rparr>))"

definition on_core :: "'a dbproc \<Rightarrow> (boot_db, 'a) proc" where
  "on_core m = (\<lambda>e w. case m e \<lparr>wdb = bd_core (wdb w), wtx = None, tick = tick w\<rparr> of
     (r, w1) \<Rightarrow> (r, w\<lparr>wdb := (wdb w)\<lparr>bd_core := wdb w1\<rparr>, tick := tick w1\<rparr>))"

section \<open>Configuration and result\<close>

record Config =
  bc_Email :: string
  bc_Password :: string
  bc_Name :: string
  bc_TenantCode :: string
  bc_TenantName :: string
  bc_OrgCode :: string
  bc_OrgName :: string

record Result =
  br_TenantCreated :: bool
  br_TenantID :: ID
  br_OrgCreated :: bool
  br_OrgID :: ID
  br_UserCreated :: bool
  br_UserID :: ID
  br_MemberCreated :: bool
  br_RolesCreated :: nat
  br_RolesSkipped :: nat
  br_UserRoleCreated :: bool

definition rule_line :: string where
  "rule_line = replicate 50 CHR ''='' @ [CHR 0x0A]"

definition created_line :: "string \<Rightarrow> bool \<Rightarrow> ID \<Rightarrow> string" where
  "created_line label created i =
     label @ (if created then ''CREATED (ID: '' else ''SKIPPED (already exists: '') @ ID_String i @ '')'' @ [CHR 0x0A]"

definition Summary :: "Result \<Rightarrow> string" where
  "Summary r =
     rule_line @ ''Mergiate Core Bootstrap Summary'' @ [CHR 0x0A] @ rule_line @
     created_line ''Tenant:       '' (br_TenantCreated r) (br_TenantID r) @
     created_line ''Organization: '' (br_OrgCreated r) (br_OrgID r) @
     created_line ''Owner User:   '' (br_UserCreated r) (br_UserID r) @
     (if br_MemberCreated r then ''Membership:   CREATED'' else ''Membership:   SKIPPED (already member)'') @ [CHR 0x0A] @
     ''System Roles: '' @ fmt_d (int (br_RolesCreated r)) @ '' created, '' @ fmt_d (int (br_RolesSkipped r)) @ '' existing'' @ [CHR 0x0A] @
     (if br_UserRoleCreated r then ''Owner Role:   ASSIGNED to owner user'' else ''Owner Role:   SKIPPED (already assigned)'') @ [CHR 0x0A] @
     rule_line"

text \<open>The defaults of empty fields.\<close>

definition or_default :: "string \<Rightarrow> string \<Rightarrow> string" where
  "or_default s v = (if s = [] then v else s)"

definition with_defaults :: "Config \<Rightarrow> Config" where
  "with_defaults cfg =
     cfg\<lparr>bc_TenantCode := or_default (bc_TenantCode cfg) ''akordium'',
         bc_TenantName := or_default (bc_TenantName cfg) ''Akordium Lab'',
         bc_OrgCode := or_default (bc_OrgCode cfg) ''main'',
         bc_OrgName := or_default (bc_OrgName cfg) ''Akordium Main Org'',
         bc_Name := or_default (bc_Name cfg) ''Owner Administrator''\<rparr>"

section \<open>Steps\<close>

text \<open>\<open>INSERT \<dots> ON CONFLICT (code) DO NOTHING\<close>\<close>

definition sql_EnsureWildcard :: "ID \<Rightarrow> int \<Rightarrow> iam_db \<Rightarrow> unit res \<times> iam_db" where
  "sql_EnsureWildcard i t d =
     (if list_ex (\<lambda>p. pm_code p = ''*'') (t_permissions d) then (Ret (), d)
      else if list_ex (\<lambda>p. pm_id p = i) (t_permissions d) then (Fail (Opaque ''unique constraint''), d)
      else (Ret (), d\<lparr>t_permissions := t_permissions d @
             [\<lparr>pm_id = i, pm_code = ''*'', pm_name = ''Superuser Wildcard'', pm_category = ''system'',
               pm_description = Some ''Wildcard permission granting full system access''\<rparr>]\<rparr>))"

text \<open>\<open>x, err := get(); if err != nil && err != ErrNotFound { return err }\<close>; \<open>x\<close> is nil when nothing was found.\<close>

definition look_up :: "string \<Rightarrow> ('db, 'a) proc \<Rightarrow> ('db, 'a option) proc" where
  "look_up msg m =
     bindP (tryP m) (\<lambda>r. case r of
       Ret x \<Rightarrow> ret (Some x)
     | Fail er \<Rightarrow> if er = ErrNotFound then ret None else fail (Wrapped msg er)
     | Panic p \<Rightarrow> lift_res (Panic p))"

text \<open>The row that is there, or the one created now; the flag tells which.\<close>

definition ensure :: "string \<Rightarrow> ('db, 'a) proc \<Rightarrow> ('db, 'a) proc \<Rightarrow> ('db, 'a \<times> bool) proc" where
  "ensure msg get create =
     bindP (look_up msg get) (\<lambda>x. case x of
       Some y \<Rightarrow> ret (y, False)
     | None \<Rightarrow> bindP create (\<lambda>y. ret (y, True)))"

definition ensure_tenant :: "ctx \<Rightarrow> Config \<Rightarrow> (Tenant \<times> bool) iamproc" where
  "ensure_tenant c cfg =
     ensure ''check tenant'' (tenant_repo_GetByCode c (bc_TenantCode cfg))
       (bindP NewID (\<lambda>tID. bindP Now (\<lambda>now1. bindP Now (\<lambda>now2.
        wrap_err ''create tenant'' (tenant_repo_Create c
          \<lparr>te_ID = tID, te_Code = bc_TenantCode cfg, te_Name = bc_TenantName cfg, te_Status = TenantStatusActive,
           te_Settings = Some [(''locale'', JStr ''id_ID''), (''currency'', JStr ''IDR'')],
           te_CreatedAt = now1, te_UpdatedAt = now2\<rparr>)))))"

definition ensure_org :: "ctx \<Rightarrow> Config \<Rightarrow> ID \<Rightarrow> (Organization \<times> bool) dbproc" where
  "ensure_org c cfg tenantID =
     ensure ''check org'' (org_repo_GetByCode c tenantID (bc_OrgCode cfg))
       (bindP NewID (\<lambda>oID. bindP Now (\<lambda>now1. bindP Now (\<lambda>now2.
        wrap_err ''create organization'' (org_repo_Create c
          \<lparr>og_ID = oID, og_TenantID = tenantID, og_ParentID = None, og_Code = bc_OrgCode cfg, og_Name = bc_OrgName cfg,
           og_LegalName = [], og_Type = TypeCompany, og_Status = StatusActive_org, og_Settings = Some [],
           og_CreatedAt = now1, og_UpdatedAt = now2\<rparr>)))))"

definition ensure_user :: "crypto \<Rightarrow> ctx \<Rightarrow> Config \<Rightarrow> (User \<times> bool) iamproc" where
  "ensure_user k c cfg =
     ensure ''check user'' (repo_GetUserByEmail c (ToLower (bc_Email cfg)))
       (bindP (wrap_err ''hash password'' (HashPassword k (bc_Password cfg))) (\<lambda>hashed.
        bindP NewID (\<lambda>uID. bindP Now (\<lambda>now1. bindP Now (\<lambda>now2.
        wrap_err ''create user'' (repo_CreateUser c
          \<lparr>u_ID = uID, u_Email = ToLower (bc_Email cfg), u_PasswordHash = hashed, u_Name = bc_Name cfg,
           u_Status = UserStatusActive, u_CreatedAt = now1, u_UpdatedAt = now2\<rparr>))))))"

definition ensure_member :: "ctx \<Rightarrow> ID \<Rightarrow> ID \<Rightarrow> (TenantUser \<times> bool) iamproc" where
  "ensure_member c tenantID userID =
     ensure ''check membership'' (repo_GetTenantMember c tenantID userID)
       (bindP NewID (\<lambda>mID. bindP Now (\<lambda>now.
        wrap_err ''add tenant member'' (repo_AddTenantMember c
          \<lparr>mb_ID = mID, mb_TenantID = tenantID, mb_UserID = userID, mb_Status = MembershipStatusActive, mb_JoinedAt = now\<rparr>))))"

section \<open>System roles\<close>

text \<open>\<open>permMap\<close> is built from the listed permissions; a later entry replaces an earlier one of the same code.\<close>

definition perm_map :: "Permission list \<Rightarrow> string \<Rightarrow> ID option" where
  "perm_map ps = map_of (rev (map (\<lambda>p. (per_Code p, per_ID p)) ps))"

definition resolveCodes :: "string list \<Rightarrow> (string \<Rightarrow> ID option) \<Rightarrow> ID list" where
  "resolveCodes codes pm = List.map_filter pm codes"

record roleDef =
  rd_code :: string
  rd_name :: string
  rd_description :: string
  rd_getPermIDs :: "Permission list \<Rightarrow> ID list"

definition finance_codes :: "string list" where
  "finance_codes =
     [''document:create'', ''document:read'', ''document:update'', ''document:transition'', ''document:delete'',
      ''audit:read'', ''sequence:manage'',
      ''file:read'', ''file:upload'', ''file:delete'', ''attachment:manage'',
      ''comment:create'', ''comment:read'', ''comment:delete'', ''notification:read'']"

definition sales_codes :: "string list" where
  "sales_codes =
     [''party:create'', ''party:read'', ''party:update'', ''party:delete'',
      ''product:read'',
      ''document:create'', ''document:read'',
      ''attachment:manage'', ''file:read'', ''file:upload'',
      ''comment:create'', ''comment:read'', ''notification:read'']"

definition project_manager_codes :: "string list" where
  "project_manager_codes =
     [''document:create'', ''document:read'', ''document:update'', ''document:transition'', ''document:delete'',
      ''party:read'', ''audit:read'',
      ''comment:create'', ''comment:read'', ''comment:delete'',
      ''attachment:manage'', ''file:read'', ''file:upload'', ''file:delete'',
      ''notification:read'']"

definition staff_codes :: "string list" where
  "staff_codes =
     [''document:read'', ''party:read'', ''product:read'', ''organization:read'',
      ''audit:read'', ''file:read'', ''comment:read'', ''notification:read'']"

definition allPermIDs :: "Permission list \<Rightarrow> ID list" where
  "allPermIDs ps = map per_ID ps"

definition nonTenantManagePermIDs :: "Permission list \<Rightarrow> ID list" where
  "nonTenantManagePermIDs ps = map per_ID (filter (\<lambda>p. per_Code p \<noteq> ''tenant:manage'' \<and> per_Code p \<noteq> ''*'') ps)"

definition rolesToSeed :: "roleDef list" where
  "rolesToSeed =
     [\<lparr>rd_code = ''owner'', rd_name = ''Owner'',
       rd_description = ''Tenant owner with full system privileges (* wildcard and all permissions)'', rd_getPermIDs = allPermIDs\<rparr>,
      \<lparr>rd_code = ''admin'', rd_name = ''Administrator'',
       rd_description = ''Tenant administrator with full operational privileges (except tenant:manage)'',
       rd_getPermIDs = nonTenantManagePermIDs\<rparr>,
      \<lparr>rd_code = ''finance'', rd_name = ''Finance Manager'',
       rd_description = ''Finance management: document lifecycle, audit logs, sequences, and comments'',
       rd_getPermIDs = (\<lambda>ps. resolveCodes finance_codes (perm_map ps))\<rparr>,
      \<lparr>rd_code = ''sales'', rd_name = ''Sales Representative'',
       rd_description = ''Sales management: parties, products, document creation, comments, and attachments'',
       rd_getPermIDs = (\<lambda>ps. resolveCodes sales_codes (perm_map ps))\<rparr>,
      \<lparr>rd_code = ''project_manager'', rd_name = ''Project Manager'',
       rd_description = ''Project manager: documents, parties, audit logs, comments, and attachments'',
       rd_getPermIDs = (\<lambda>ps. resolveCodes project_manager_codes (perm_map ps))\<rparr>,
      \<lparr>rd_code = ''staff'', rd_name = ''Staff Member'',
       rd_description = ''Staff read-only privileges across business domains'',
       rd_getPermIDs = (\<lambda>ps. resolveCodes staff_codes (perm_map ps))\<rparr>]"

text \<open>One round of the loop: the role with its permissions, or the permissions of a role that has none.\<close>

definition system_role :: "ctx \<Rightarrow> ID \<Rightarrow> roleDef \<Rightarrow> Role iamproc" where
  "system_role c tenantID rd =
     bindP NewID (\<lambda>rID. bindP Now (\<lambda>now1. bindP Now (\<lambda>now2.
     wrap_err ''create role'' (repo_CreateRole c
       \<lparr>rol_ID = rID, rol_TenantID = tenantID, rol_Code = rd_code rd, rol_Name = rd_name rd,
        rol_Description = rd_description rd, rol_IsSystem = True, rol_Permissions = [], rol_CreatedAt = now1, rol_UpdatedAt = now2\<rparr>))))"

definition seed_role :: "ctx \<Rightarrow> ID \<Rightarrow> Permission list \<Rightarrow> roleDef \<Rightarrow> (ID \<times> bool) iamproc" where
  "seed_role c tenantID ps rd =
     bindP (look_up ''check role'' (repo_GetRoleByCode c tenantID (rd_code rd))) (\<lambda>x. case x of
       None \<Rightarrow>
         bindP (system_role c tenantID rd) (\<lambda>role.
         bindP (wrap_err ''assign permissions'' (repo_AssignPermissionsToRole c (rol_ID role) (rd_getPermIDs rd ps))) (\<lambda>_.
         ret (rol_ID role, True)))
     | Some role \<Rightarrow>
         bindP (if rol_Permissions role = [] then or_else (repo_AssignPermissionsToRole c (rol_ID role) (rd_getPermIDs rd ps)) () else ret ()) (\<lambda>_.
         ret (rol_ID role, False)))"

definition seed_roles :: "ctx \<Rightarrow> ID \<Rightarrow> (ID \<times> bool) list iamproc" where
  "seed_roles c tenantID =
     bindP (wrap_err ''list permissions'' (repo_ListPermissions c)) (\<lambda>ps. mapP (seed_role c tenantID ps) rolesToSeed)"

text \<open>\<open>ownerRoleID\<close>: the identifier of the last role with code \<open>owner\<close> in the list.\<close>

definition owner_role_id :: "(ID \<times> bool) list \<Rightarrow> ID" where
  "owner_role_id seeded =
     foldl (\<lambda>acc (rd, i, _). if rd_code rd = ''owner'' then i else acc) NilID (zip rolesToSeed seeded)"

definition ensure_owner :: "ctx \<Rightarrow> ID \<Rightarrow> ID \<Rightarrow> ID \<Rightarrow> bool iamproc" where
  "ensure_owner c tenantID userID ownerRoleID =
     bindP (wrap_err ''list user roles'' (repo_ListUserRolesInTenant c tenantID userID)) (\<lambda>userRoles.
     if \<not> list_ex (\<lambda>ur. rol_Code ur = ''owner'') userRoles \<and> ownerRoleID \<noteq> NilID
     then bindP (wrap_err ''assign owner role to user'' (repo_AssignUserRole c tenantID userID ownerRoleID)) (\<lambda>_. ret True)
     else ret False)"

section \<open>The whole run\<close>

definition seed :: "crypto \<Rightarrow> ID \<Rightarrow> ctx \<Rightarrow> Config \<Rightarrow> (boot_db, Result) proc" where
  "seed k wildID c cfg =
     bindP (on_iam (or_else (stmt (pool_ctx c) (sql_EnsureWildcard wildID)) ())) (\<lambda>_.
     bindP (on_iam (ensure_tenant c cfg)) (\<lambda>(tenant, tnew).
     bindP (on_core (ensure_org c cfg (te_ID tenant))) (\<lambda>(org, onew).
     bindP (on_iam (ensure_user k c cfg)) (\<lambda>(user, unew).
     bindP (on_iam (ensure_member c (te_ID tenant) (u_ID user))) (\<lambda>(member, mnew).
     bindP (on_iam (seed_roles c (te_ID tenant))) (\<lambda>seeded.
     bindP (on_iam (ensure_owner c (te_ID tenant) (u_ID user) (owner_role_id seeded))) (\<lambda>rnew.
     ret \<lparr>br_TenantCreated = tnew, br_TenantID = te_ID tenant, br_OrgCreated = onew, br_OrgID = og_ID org,
          br_UserCreated = unew, br_UserID = u_ID user, br_MemberCreated = mnew,
          br_RolesCreated = length (filter snd seeded), br_RolesSkipped = length (filter (\<lambda>s. \<not> snd s) seeded),
          br_UserRoleCreated = rnew\<rparr>)))))))"

definition Run :: "crypto \<Rightarrow> ID \<Rightarrow> ctx \<Rightarrow> Config \<Rightarrow> (boot_db, Result) proc" where
  "Run k wildID c cfg =
     bindP (guard (bc_Email cfg \<noteq> []) (Opaque ''email is required'')) (\<lambda>_.
     bindP (guard (bc_Password cfg \<noteq> []) (Opaque ''password is required'')) (\<lambda>_.
     seed k wildID c (with_defaults cfg)))"


section \<open>Reading what is there\<close>

lemma on_iam_eq_iff:
  "on_iam m e w = (r, w') \<longleftrightarrow> (\<exists>w1. m e \<lparr>wdb = bd_iam (wdb w), wtx = None, tick = tick w\<rparr> = (r, w1) \<and>
     w' = w\<lparr>wdb := (wdb w)\<lparr>bd_iam := wdb w1\<rparr>, tick := tick w1\<rparr>)"
  by (auto simp: on_iam_def split: prod.splits)

lemma on_core_eq_iff:
  "on_core m e w = (r, w') \<longleftrightarrow> (\<exists>w1. m e \<lparr>wdb = bd_core (wdb w), wtx = None, tick = tick w\<rparr> = (r, w1) \<and>
     w' = w\<lparr>wdb := (wdb w)\<lparr>bd_core := wdb w1\<rparr>, tick := tick w1\<rparr>)"
  by (auto simp: on_core_def split: prod.splits)

abbreviation row_of :: "((int \<Rightarrow> int) \<Rightarrow> 'r \<Rightarrow> 'a) \<Rightarrow> ctx \<Rightarrow> ('db \<Rightarrow> 'r res) \<Rightarrow> ('db, 'a) proc" where
  "row_of conv c g \<equiv> read_with conv (norows_notfound (query (pool_ctx c) g))"

lemma read_org_row: "read_org (query (pool_ctx c) g) = row_of toDomainOrganization c g"
  by (simp add: read_org_def read_with_def)

lemma look_up_Ret_iff:
  "look_up msg m e w = (Ret x, w') \<longleftrightarrow>
     (case x of Some y \<Rightarrow> m e w = (Ret y, w') | None \<Rightarrow> m e w = (Fail ErrNotFound, w'))"
proof (cases "m e w")
  case (Pair r w1)
  then show ?thesis
    by (cases r) (auto simp: look_up_def bindP_def tryP_def ret_def fail_def split: option.splits)
qed

lemma norows_query_cases:
  assumes "norows_notfound (query (pool_ctx c) g) e w = (r, w')"
  shows "wdb w' = wdb w" "r = Ret row \<Longrightarrow> g (wdb w) = Ret row" "r = Fail ErrNotFound \<Longrightarrow> \<exists>er. g (wdb w) = Fail er"
    "g (wdb w) = Ret row \<Longrightarrow> r = Ret row \<or> r = Fail (Opaque ''database'')"
  using assms
  by (auto simp: norows_notfound_def query_def stmt_def Let_def split: prod.splits res.splits fault.splits if_splits)

text \<open>A row that is there is found, or the step fails; a row that was missing has been created.\<close>

lemma ensure_found:
  assumes "ensure msg (row_of conv c g) create e w = (r, w')" and g: "g (wdb w) = Ret row"
  shows "wdb w' = wdb w" "r = Ret (conv (local_off e) row, False) \<or> \<not> is_Ret r"
proof -
  obtain r1 w1 where q: "norows_notfound (query (pool_ctx c) g) e w = (r1, w1)" by fastforce
  note n = norows_query_cases [OF q]
  have "w' = w1 \<and> (r = Ret (conv (local_off e) row, False) \<or> \<not> is_Ret r)"
    using n(4) [OF g] assms(1) q
    by (auto simp: ensure_def look_up_def bindP_def tryP_def read_with_def ask_env_def ret_def fail_def)
  with n(1) show "wdb w' = wdb w" "r = Ret (conv (local_off e) row, False) \<or> \<not> is_Ret r" by auto
qed

lemma ensure_Ret:
  assumes "ensure msg (row_of conv c g) create e w = (Ret (x, b), w')"
  obtains (found) row where "g (wdb w) = Ret row" "x = conv (local_off e) row" "\<not> b" "wdb w' = wdb w"
  | (created) er w1 where "g (wdb w) = Fail er" "wdb w1 = wdb w" "create e w1 = (Ret x, w')" b
proof -
  from assms obtain y w1 where y: "look_up msg (row_of conv c g) e w = (Ret y, w1)"
    and k: "(case y of Some y \<Rightarrow> ret (y, False) | None \<Rightarrow> bindP create (\<lambda>y. ret (y, True))) e w1 = (Ret (x, b), w')"
    unfolding ensure_def bindP_Ret_iff by blast
  obtain r2 w2 where q: "norows_notfound (query (pool_ctx c) g) e w = (r2, w2)" by fastforce
  note n = norows_query_cases [OF q]
  show thesis
  proof (cases y)
    case None
    with y q have "r2 = Fail ErrNotFound" "w2 = w1"
      by (auto simp: look_up_Ret_iff read_with_def bindP_def ask_env_def ret_def split: res.splits)
    with n(1,3) k None show thesis by (auto simp: bindP_Ret_iff proc_simps intro: created)
  next
    case (Some z)
    with y q obtain row where "r2 = Ret row" "w2 = w1" "z = conv (local_off e) row"
      by (auto simp: look_up_Ret_iff read_with_Ret_iff)
    with n(1,2) k Some show thesis by (auto simp: proc_simps intro: found)
  qed
qed

section \<open>A completed run\<close>

text \<open>Rows are only added to the tables a run looks into.\<close>

definition iam_grows :: "iam_db \<Rightarrow> iam_db \<Rightarrow> bool" where
  "iam_grows d d' \<longleftrightarrow> prefix (t_tenants d) (t_tenants d') \<and> prefix (t_users d) (t_users d') \<and>
     prefix (t_tenant_users d) (t_tenant_users d') \<and> prefix (t_roles d) (t_roles d') \<and> prefix (t_user_roles d) (t_user_roles d') \<and>
     t_permissions d' = t_permissions d"

lemma iam_grows_order: "iam_grows d d" "iam_grows d1 d2 \<Longrightarrow> iam_grows d2 d3 \<Longrightarrow> iam_grows d1 d3"
  by (auto simp: iam_grows_def intro: prefix_order.trans)

lemma find_prefix: "prefix xs ys \<Longrightarrow> find P xs = Some r \<Longrightarrow> find P ys = Some r"
  by (auto simp: prefix_def find_append)

lemma select_one_grows: "select_one P xs = Ret r \<Longrightarrow> prefix xs ys \<Longrightarrow> select_one P ys = Ret r"
  by (auto simp: select_one_Ret_iff intro: find_prefix)

lemma select_one_appended: "select_one P rs = Fail er \<Longrightarrow> P r \<Longrightarrow> select_one P (rs @ [r]) = Ret r"
  by (auto simp: select_one_def find_append split: option.splits)

lemma create_Ret_iff:
  "sql_CreateTenant tr t d = (Ret x1, d') \<longleftrightarrow>
     tn_id tr \<noteq> NilID \<and> \<not> list_ex (tenant_clash tr) (t_tenants d) \<and> x1 = tr \<and> d' = d\<lparr>t_tenants := t_tenants d @ [tr]\<rparr>"
  "sql_CreateUser ur t d = (Ret x2, d') \<longleftrightarrow>
     us_id ur \<noteq> NilID \<and> \<not> list_ex (user_clash ur) (t_users d) \<and> x2 = ur \<and> d' = d\<lparr>t_users := t_users d @ [ur]\<rparr>"
  "sql_AddTenantMember mr t d = (Ret x3, d') \<longleftrightarrow>
     tu_id mr \<noteq> NilID \<and> has_tenant d (tu_tenant_id mr) \<and> has_user d (tu_user_id mr) \<and> \<not> list_ex (member_clash mr) (t_tenant_users d) \<and>
     x3 = mr \<and> d' = d\<lparr>t_tenant_users := t_tenant_users d @ [mr]\<rparr>"
  "sql_CreateRole rr t d = (Ret x4, d') \<longleftrightarrow>
     ro_id rr \<noteq> NilID \<and> has_tenant d (ro_tenant_id rr) \<and> \<not> list_ex (role_clash rr) (t_roles d) \<and>
     x4 = rr \<and> d' = d\<lparr>t_roles := t_roles d @ [rr]\<rparr>"
  "sql_CreateOrganization gr t cd = (Ret x5, cd') \<longleftrightarrow>
     or_id gr \<noteq> NilID \<and> or_tenant_id gr \<noteq> NilID \<and> parent_exists (t_organizations cd) (or_id gr) (or_parent_id gr) \<and>
     \<not> list_ex (organization_clash gr) (t_organizations cd) \<and> x5 = gr \<and> cd' = cd\<lparr>t_organizations := t_organizations cd @ [gr]\<rparr>"
  by (auto simp: sql_CreateTenant_def sql_CreateUser_def sql_AddTenantMember_def sql_CreateRole_def sql_CreateOrganization_def insert_row_def)

lemmas step_Ret = bindP_Ret_iff read_with_Ret_iff stmt_Ret_outside create_Ret_iff proc_simps

lemma ensure_tenant_Ret:
  assumes "ensure_tenant c cfg e w = (Ret (t, b), w')"
  shows "iam_grows (wdb w) (wdb w')" "\<exists>row. sql_GetTenantByCode (bc_TenantCode cfg) (wdb w') = Ret row \<and> tn_id row = te_ID t"
proof -
  from assms have "iam_grows (wdb w) (wdb w') \<and> (\<exists>row. sql_GetTenantByCode (bc_TenantCode cfg) (wdb w') = Ret row \<and> tn_id row = te_ID t)"
    unfolding ensure_tenant_def tenant_repo_GetByCode_def
  proof (cases rule: ensure_Ret)
    case (created er w1)
    then show ?thesis
      by (auto simp: step_Ret tenant_repo_Create_def sql_GetTenantByCode_def iam_grows_def tenant_row_of_def toDomainTenant_def
          select_one_appended)
  qed (auto simp: iam_grows_order toDomainTenant_def)
  then show "iam_grows (wdb w) (wdb w')" "\<exists>row. sql_GetTenantByCode (bc_TenantCode cfg) (wdb w') = Ret row \<and> tn_id row = te_ID t" by auto
qed

lemma ensure_org_Ret:
  assumes "ensure_org c cfg tid e w = (Ret (g, b), w')"
  shows "\<exists>row. sql_GetOrganizationByCode tid (bc_OrgCode cfg) (wdb w') = Ret row \<and> or_id row = og_ID g"
  using assms unfolding ensure_org_def org_repo_GetByCode_def read_org_row
proof (cases rule: ensure_Ret)
  case (created er w1)
  then show ?thesis
    by (auto simp: step_Ret org_repo_Create_def sql_GetOrganizationByCode_def organization_row_of_def
        toDomainOrganization_def pg_eq_def id_of_ptr_def select_one_appended)
qed (auto simp: toDomainOrganization_def)

lemma ensure_user_Ret:
  assumes "ensure_user k c cfg e w = (Ret (u, b), w')"
  shows "iam_grows (wdb w) (wdb w')" "\<exists>row. sql_GetUserByEmail (ToLower (bc_Email cfg)) (wdb w') = Ret row \<and> us_id row = u_ID u"
proof -
  from assms have "iam_grows (wdb w) (wdb w') \<and> (\<exists>row. sql_GetUserByEmail (ToLower (bc_Email cfg)) (wdb w') = Ret row \<and> us_id row = u_ID u)"
    unfolding ensure_user_def repo_GetUserByEmail_def
  proof (cases rule: ensure_Ret)
    case (created er w1)
    then show ?thesis
      by (auto simp: step_Ret HashPassword_def repo_CreateUser_def sql_GetUserByEmail_def iam_grows_def user_row_of_def
          select_one_appended)
  qed (auto simp: iam_grows_order user_of_row_def)
  then show "iam_grows (wdb w) (wdb w')" "\<exists>row. sql_GetUserByEmail (ToLower (bc_Email cfg)) (wdb w') = Ret row \<and> us_id row = u_ID u" by auto
qed

lemma ensure_member_Ret:
  assumes "ensure_member c tid uid e w = (Ret (m, b), w')"
  shows "iam_grows (wdb w) (wdb w')" "\<exists>row. sql_GetTenantMember tid uid (wdb w') = Ret row"
proof -
  from assms have "iam_grows (wdb w) (wdb w') \<and> (\<exists>row. sql_GetTenantMember tid uid (wdb w') = Ret row)"
    unfolding ensure_member_def repo_GetTenantMember_def
  proof (cases rule: ensure_Ret)
    case (created er w1)
    then show ?thesis
      by (auto simp: step_Ret repo_AddTenantMember_def sql_GetTenantMember_def iam_grows_def member_row_of_def
          has_tenant_def has_user_def pg_eq_def select_one_appended)
  qed (auto simp: iam_grows_order)
  then show "iam_grows (wdb w) (wdb w')" "\<exists>row. sql_GetTenantMember tid uid (wdb w') = Ret row" by auto
qed

text \<open>Giving permissions to a role touches no other table, however far it comes.\<close>

definition rights_only :: "iam_db \<Rightarrow> iam_db \<Rightarrow> bool" where
  "rights_only d d' \<longleftrightarrow> (\<exists>rps. d' = d\<lparr>t_role_permissions := rps\<rparr>)"

lemma rights_only_refl: "rights_only d d"
  unfolding rights_only_def by (rule exI [of _ "t_role_permissions d"]) simp

interpretation rights: db_order rights_only
  by unfold_locales (rule rights_only_refl, auto simp: rights_only_def)

lemma rights_assign: "stays rights_only (repo_AssignPermissionsToRole c i ps)"
  unfolding repo_AssignPermissionsToRole_def
  by (intro rights.stays_bind rights.stays_handlers rights.stays_mapP rights.stays_pure rights.stays_stmt)
     (auto simp: sql_ClearRolePermissions_def sql_AssignPermissionToRole_def rights_only_refl intro: rights_only_refl split: if_splits,
      auto simp: rights_only_def)

lemma rights_or_else: "stays rights_only m \<Longrightarrow> stays rights_only (or_else m z)"
  unfolding or_else_def by (intro rights.stays_bind rights.stays_handlers rights.stays_pure)

lemma rights_grow: "rights_only d d' \<Longrightarrow> iam_grows d d'"
  by (auto simp: rights_only_def iam_grows_def)

lemma role_with_permissions_cases:
  assumes "role_with_permissions c row e w = (r, w')"
  shows "wdb w' = wdb w \<and> (\<exists>ps. r = Ret (role_of_row ps (local_off e) row))"
proof -
  obtain x w1 where q: "query (pool_ctx c) (\<lambda>d. Ret (sql_ListRolePermissions (ro_id row) d)) e w = (x, w1)" by fastforce
  then have "wdb w1 = wdb w" "\<forall>p. x \<noteq> Panic p" by (auto simp: query_def stmt_def Let_def split: fault.splits)
  then show ?thesis
    using assms q by (cases x; auto simp: role_with_permissions_def or_else_def repo_ListRolePermissions_def bindP_def tryP_def ret_def ask_env_def)
qed

lemma get_role_found:
  assumes "repo_GetRoleByCode c tid code e w = (r, w')" and g: "sql_GetRoleByCode tid code (wdb w) = Ret row"
  shows "wdb w' = wdb w" "(\<exists>ps. r = Ret (role_of_row ps (local_off e) row)) \<or> r = Fail (Opaque ''database'')"
proof -
  obtain r1 w1 where q: "norows_notfound (query (pool_ctx c) (sql_GetRoleByCode tid code)) e w = (r1, w1)" by fastforce
  note n = norows_query_cases [OF q]
  show "wdb w' = wdb w" "(\<exists>ps. r = Ret (role_of_row ps (local_off e) row)) \<or> r = Fail (Opaque ''database'')"
    using n(1) n(4) [OF g] assms(1) q
    by (auto simp: repo_GetRoleByCode_def bindP_def dest!: role_with_permissions_cases)
qed

lemma get_role_cases:
  assumes "repo_GetRoleByCode c tid code e w = (r, w')"
  shows "wdb w' = wdb w" "r = Ret role \<Longrightarrow> \<exists>row. sql_GetRoleByCode tid code (wdb w) = Ret row \<and> ro_id row = rol_ID role"
    "r = Fail ErrNotFound \<Longrightarrow> \<exists>er. sql_GetRoleByCode tid code (wdb w) = Fail er"
proof -
  obtain r1 w1 where q: "norows_notfound (query (pool_ctx c) (sql_GetRoleByCode tid code)) e w = (r1, w1)" by fastforce
  note n = norows_query_cases [OF q]
  show "wdb w' = wdb w" "r = Ret role \<Longrightarrow> \<exists>row. sql_GetRoleByCode tid code (wdb w) = Ret row \<and> ro_id row = rol_ID role"
    "r = Fail ErrNotFound \<Longrightarrow> \<exists>er. sql_GetRoleByCode tid code (wdb w) = Fail er"
    using n(1-3) assms(1) q
    by (cases r1; auto simp: repo_GetRoleByCode_def bindP_def role_of_row_def dest!: role_with_permissions_cases)+
qed

definition role_at :: "ID \<Rightarrow> string \<Rightarrow> ID \<Rightarrow> iam_db \<Rightarrow> bool" where
  "role_at tid code i d \<longleftrightarrow> (\<exists>row. sql_GetRoleByCode tid code d = Ret row \<and> ro_id row = i)"

lemma role_at_grows: "role_at tid code i d \<Longrightarrow> iam_grows d d' \<Longrightarrow> role_at tid code i d'"
  by (auto simp: role_at_def sql_GetRoleByCode_def iam_grows_def intro: select_one_grows)

lemma sync_rights: "stays rights_only (if b then or_else (repo_AssignPermissionsToRole c i ps) () else ret ())"
  by (simp add: rights_or_else rights_assign rights.stays_pure)

lemma system_role_Ret:
  assumes "system_role c tid rd e w = (Ret role, w')" and "sql_GetRoleByCode tid (rd_code rd) (wdb w) = Fail er"
  shows "iam_grows (wdb w) (wdb w') \<and> role_at tid (rd_code rd) (rol_ID role) (wdb w')"
  using assms
  by (auto simp: system_role_def step_Ret repo_CreateRole_def role_row_of_def iam_grows_def role_at_def sql_GetRoleByCode_def has_tenant_def pg_eq_def
      select_one_appended)

lemma seed_role_Ret:
  assumes "seed_role c tid ps rd e w = (Ret (i, b), w')"
  shows "iam_grows (wdb w) (wdb w') \<and> role_at tid (rd_code rd) i (wdb w')"
proof -
  from assms obtain x w1 where x: "look_up ''check role'' (repo_GetRoleByCode c tid (rd_code rd)) e w = (Ret x, w1)"
    and k: "(case x of None \<Rightarrow> bindP (system_role c tid rd) (\<lambda>role.
         bindP (wrap_err ''assign permissions'' (repo_AssignPermissionsToRole c (rol_ID role) (rd_getPermIDs rd ps))) (\<lambda>_. ret (rol_ID role, True)))
       | Some role \<Rightarrow> bindP (if rol_Permissions role = [] then or_else (repo_AssignPermissionsToRole c (rol_ID role) (rd_getPermIDs rd ps)) () else ret ())
           (\<lambda>_. ret (rol_ID role, False))) e w1 = (Ret (i, b), w')"
    unfolding seed_role_def bindP_Ret_iff by blast
  show ?thesis
  proof (cases x)
    case None
    with x have nf: "repo_GetRoleByCode c tid (rd_code rd) e w = (Fail ErrNotFound, w1)" by (simp add: look_up_Ret_iff)
    from k None obtain role w2 where n: "system_role c tid rd e w1 = (Ret role, w2)" and i: "i = rol_ID role"
      and a: "repo_AssignPermissionsToRole c i (rd_getPermIDs rd ps) e w2 = (Ret (), w')" by (auto simp: bindP_Ret_iff proc_simps)
    from get_role_cases(1,3) [OF nf] system_role_Ret [OF n] staysD [OF rights_assign a, THEN rights_grow] i show ?thesis
      by (metis role_at_grows iam_grows_order(2))
  next
    case (Some role)
    with x have f: "repo_GetRoleByCode c tid (rd_code rd) e w = (Ret role, w1)" by (simp add: look_up_Ret_iff)
    from k Some obtain u where i: "i = rol_ID role"
      and a: "(if rol_Permissions role = [] then or_else (repo_AssignPermissionsToRole c i (rd_getPermIDs rd ps)) () else ret ()) e w1 = (Ret u, w')"
      by (auto simp: bindP_Ret_iff proc_simps simp del: if_split_asm)
    from get_role_cases(1) [OF f] get_role_cases(2) [OF f refl] staysD [OF sync_rights a, THEN rights_grow] i show ?thesis
      by (metis role_at_def role_at_grows)
  qed
qed

lemma seed_all_Ret:
  "mapP (seed_role c tid ps) rds e w = (Ret xs, w') \<Longrightarrow> iam_grows (wdb w) (wdb w') \<and>
     list_all2 (\<lambda>rd x. role_at tid (rd_code rd) (fst x) (wdb w')) rds xs"
proof (induction rds arbitrary: xs w)
  case (Cons rd rds)
  then obtain i b w1 ys where s: "seed_role c tid ps rd e w = (Ret (i, b), w1)" and m: "mapP (seed_role c tid ps) rds e w1 = (Ret ys, w')"
    and xs: "xs = (i, b) # ys" by (auto simp: bindP_Ret_iff proc_simps)
  from seed_role_Ret [OF s] Cons.IH [OF m] show ?case
    by (auto simp: xs intro: role_at_grows iam_grows_order)
qed (simp add: proc_simps iam_grows_order)

lemma owner_first:
  assumes "list_all2 Q rolesToSeed xs"
  obtains rd x where "Q rd x" "rd_code rd = ''owner''" "rd_getPermIDs rd = allPermIDs" "owner_role_id xs = fst x"
  using assms that by (auto simp: rolesToSeed_def list_all2_Cons1 owner_role_id_def)

lemma owner_seeded: "list_all2 (\<lambda>rd x. Q (rd_code rd) (fst x)) rolesToSeed xs \<Longrightarrow> Q ''owner'' (owner_role_id xs)"
  by (erule owner_first) auto

definition owner_in :: "ID \<Rightarrow> ID \<Rightarrow> iam_db \<Rightarrow> bool" where
  "owner_in tid uid d \<longleftrightarrow> list_ex (\<lambda>r. ro_code r = ''owner'') (roles_of_user tid uid d)"

lemma owner_in_iff: "owner_in tid uid d \<longleftrightarrow>
    (\<exists>ur \<in> set (t_user_roles d). pg_eq (ux_tenant_id ur) tid \<and> pg_eq (ux_user_id ur) uid \<and>
       (\<exists>r \<in> set (t_roles d). ro_id r = ux_role_id ur \<and> ro_code r = ''owner''))"
  by (auto simp: owner_in_def roles_of_user_def list_ex_iff)

lemma owner_listed: "list_ex (\<lambda>ur. rol_Code ur = ''owner'') (map (user_role_of_row tid) (sql_ListUserRolesInTenant tid uid d)) \<longleftrightarrow> owner_in tid uid d"
  by (simp add: owner_in_def list_ex_iff sql_ListUserRolesInTenant_def user_role_of_row_def)

lemma assign_owner:
  assumes "sql_AssignUserRole \<lparr>ux_tenant_id = tid, ux_user_id = uid, ux_role_id = oid\<rparr> t d = (Ret (), d')" and "role_at tid ''owner'' oid d"
  shows "iam_grows d d'" "owner_in tid uid d'"
proof -
  from assms(2) obtain row where "row \<in> set (t_roles d)" "ro_code row = ''owner''" "ro_id row = oid"
    by (auto simp: role_at_def sql_GetRoleByCode_def dest: select_one_in)
  moreover from assms(1) have "iam_grows d d'" "tid \<noteq> NilID" "uid \<noteq> NilID" "t_roles d' = t_roles d"
    "\<lparr>ux_tenant_id = tid, ux_user_id = uid, ux_role_id = oid\<rparr> \<in> set (t_user_roles d')"
    by (auto simp: sql_AssignUserRole_def iam_grows_def split: if_splits)
  ultimately show "iam_grows d d'" "owner_in tid uid d'" unfolding owner_in_iff pg_eq_def by force+
qed

lemma bind_wrap_Ret: "m e w = (Ret x, w1) \<Longrightarrow> bindP (wrap_err msg m) k e w = k x e w1"
  by (simp add: bindP_def wrap_err_def)

lemma bind_wrap_Fail: "m e w = (Fail er, w1) \<Longrightarrow> bindP (wrap_err msg m) k e w = (Fail (Wrapped msg er), w1)"
  by (simp add: bindP_def wrap_err_def)

lemma list_roles_cases:
  obtains w1 where "wdb w1 = wdb w" "repo_ListUserRolesInTenant c tid uid e w = (Ret (map (user_role_of_row tid) (sql_ListUserRolesInTenant tid uid (wdb w))), w1)"
  | w1 er where "wdb w1 = wdb w" "repo_ListUserRolesInTenant c tid uid e w = (Fail er, w1)"
  by (cases "fault_at e (tick w)")
     (force simp: repo_ListUserRolesInTenant_def bindP_def query_def stmt_def Let_def ret_def)+

lemma ensure_owner_Ret:
  assumes "ensure_owner c tid uid oid e w = (Ret b, w')" and g: "role_at tid ''owner'' oid (wdb w)"
  shows "iam_grows (wdb w) (wdb w') \<and> (oid = NilID \<or> owner_in tid uid (wdb w'))"
proof (cases rule: list_roles_cases [of w c tid uid e])
  case (1 w1)
  from assms(1) have "wdb w' = wdb w \<and> (oid = NilID \<or> owner_in tid uid (wdb w)) \<or>
      (\<exists>t. sql_AssignUserRole \<lparr>ux_tenant_id = tid, ux_user_id = uid, ux_role_id = oid\<rparr> t (wdb w) = (Ret (), wdb w'))"
    unfolding ensure_owner_def bind_wrap_Ret [of "repo_ListUserRolesInTenant c tid uid", OF 1(2)] owner_listed
    by (auto simp: 1(1) repo_AssignUserRole_def bindP_Ret_iff proc_simps stmt_Ret_outside split: if_splits)
  then show ?thesis using assign_owner [OF _ g] iam_grows_order(1) by auto
next
  case (2 w1 er)
  from assms(1) show ?thesis unfolding ensure_owner_def bind_wrap_Fail [of "repo_ListUserRolesInTenant c tid uid", OF 2(2)] by simp
qed

lemma ensure_owner_again:
  assumes m: "ensure_owner c tid uid oid e w = (r, w')" and ow: "oid = NilID \<or> owner_in tid uid (wdb w)"
  shows "wdb w' = wdb w \<and> (r = Ret False \<or> \<not> is_Ret r)"
proof (cases rule: list_roles_cases [of w c tid uid e])
  case (1 w1)
  let ?roles = "map (user_role_of_row tid) (sql_ListUserRolesInTenant tid uid (wdb w))"
  have skip: "\<not> (\<not> list_ex (\<lambda>ur. rol_Code ur = ''owner'') ?roles \<and> oid \<noteq> NilID)"
    using ow unfolding owner_listed by blast
  have "ensure_owner c tid uid oid e w = ret False e w1"
    unfolding ensure_owner_def by (subst bind_wrap_Ret [of "repo_ListUserRolesInTenant c tid uid", OF 1(2)], subst if_not_P [OF skip]) (rule refl)
  with m 1(1) show ?thesis by (auto simp: ret_def)
next
  case (2 w1 er)
  from m have "r = Fail (Wrapped ''list user roles'' er)" "w' = w1"
    unfolding ensure_owner_def bind_wrap_Fail [of "repo_ListUserRolesInTenant c tid uid", OF 2(2)] by auto
  with 2(1) show ?thesis by simp
qed

text \<open>What a completed run leaves: everything it looks for is there.\<close>

definition settled :: "Config \<Rightarrow> Result \<Rightarrow> boot_db \<Rightarrow> bool" where
  "settled cfg r d \<longleftrightarrow>
     (\<exists>row. sql_GetTenantByCode (bc_TenantCode cfg) (bd_iam d) = Ret row \<and> tn_id row = br_TenantID r) \<and>
     (\<exists>row. sql_GetOrganizationByCode (br_TenantID r) (bc_OrgCode cfg) (bd_core d) = Ret row \<and> or_id row = br_OrgID r) \<and>
     (\<exists>row. sql_GetUserByEmail (ToLower (bc_Email cfg)) (bd_iam d) = Ret row \<and> us_id row = br_UserID r) \<and>
     (\<exists>row. sql_GetTenantMember (br_TenantID r) (br_UserID r) (bd_iam d) = Ret row) \<and>
     (\<forall>rd \<in> set rolesToSeed. \<exists>i. role_at (br_TenantID r) (rd_code rd) i (bd_iam d)) \<and>
     (role_at (br_TenantID r) ''owner'' NilID (bd_iam d) \<or> owner_in (br_TenantID r) (br_UserID r) (bd_iam d))"

lemma get_grows:
  assumes "iam_grows d d'"
  shows "sql_GetTenantByCode code d = Ret tr \<Longrightarrow> sql_GetTenantByCode code d' = Ret tr"
    "sql_GetUserByEmail email d = Ret ur \<Longrightarrow> sql_GetUserByEmail email d' = Ret ur"
    "sql_GetTenantMember tid uid d = Ret mr \<Longrightarrow> sql_GetTenantMember tid uid d' = Ret mr"
  using assms by (auto simp: sql_GetTenantByCode_def sql_GetUserByEmail_def sql_GetTenantMember_def iam_grows_def intro: select_one_grows)

lemma seed_Ret:
  assumes "seed k wid c cfg e w = (Ret r, w')"
  obtains w0 tn tb w2 g gb w3 w4 u ub m mb w5 xs w6 rb w7 w8 where
    "or_else (stmt (pool_ctx c) (sql_EnsureWildcard wid)) () e \<lparr>wdb = bd_iam (wdb w), wtx = None, tick = tick w\<rparr> = (Ret (), w0)"
    "ensure_tenant c cfg e \<lparr>wdb = wdb w0, wtx = None, tick = tick w0\<rparr> = (Ret (tn, tb), w2)"
    "ensure_org c cfg (te_ID tn) e w3 = (Ret (g, gb), w4)"
    "ensure_user k c cfg e \<lparr>wdb = wdb w2, wtx = None, tick = tick w4\<rparr> = (Ret (u, ub), w5)"
    "ensure_member c (te_ID tn) (u_ID u) e \<lparr>wdb = wdb w5, wtx = None, tick = tick w5\<rparr> = (Ret (m, mb), w6)"
    "seed_roles c (te_ID tn) e \<lparr>wdb = wdb w6, wtx = None, tick = tick w6\<rparr> = (Ret xs, w7)"
    "ensure_owner c (te_ID tn) (u_ID u) (owner_role_id xs) e \<lparr>wdb = wdb w7, wtx = None, tick = tick w7\<rparr> = (Ret rb, w8)"
    "wdb w' = \<lparr>bd_iam = wdb w8, bd_core = wdb w4\<rparr>"
    "r = \<lparr>br_TenantCreated = tb, br_TenantID = te_ID tn, br_OrgCreated = gb, br_OrgID = og_ID g, br_UserCreated = ub, br_UserID = u_ID u,
       br_MemberCreated = mb, br_RolesCreated = length (filter snd xs), br_RolesSkipped = length (filter (\<lambda>s. \<not> snd s) xs), br_UserRoleCreated = rb\<rparr>"
  using assms by (auto simp: seed_def bindP_Ret_iff proc_simps on_iam_eq_iff on_core_eq_iff)

lemma seed_roles_Ret:
  assumes "seed_roles c tid e w = (Ret xs, w')"
  obtains w1 where "mapP (seed_role c tid (map permission_of_row (sql_ListPermissions (wdb w)))) rolesToSeed e w1 = (Ret xs, w')" "wdb w1 = wdb w"
  using assms by (auto simp: seed_roles_def repo_ListPermissions_def bindP_Ret_iff proc_simps query_Ret_outside)

lemma seed_settles:
  assumes "seed k wid c cfg e w = (Ret r, w')"
  shows "settled cfg r (wdb w')"
  using assms
proof (cases rule: seed_Ret)
  case (1 w0 tn tb w2 g gb w3 w4 u ub m mb w5 xs w6 rb w7 w8)
  note t = 1(2) and g = 1(3) and u = 1(4) and m = 1(5) and s = 1(6) and ow = 1(7) and r = 1(8,9)
  from s have s': "iam_grows (wdb w6) (wdb w7) \<and> list_all2 (\<lambda>rd x. role_at (te_ID tn) (rd_code rd) (fst x) (wdb w7)) rolesToSeed xs"
    by (elim seed_roles_Ret) (auto dest!: seed_all_Ret)
  note oid = owner_seeded [where Q = "\<lambda>code i. role_at (te_ID tn) code i (wdb w7)", OF s' [THEN conjunct2]]
  have o': "iam_grows (wdb w7) (wdb w8)" "owner_role_id xs = NilID \<or> owner_in (te_ID tn) (u_ID u) (wdb w8)"
    using ensure_owner_Ret [OF ow] oid by auto
  have grow: "iam_grows (wdb w2) (wdb w8)" "iam_grows (wdb w5) (wdb w8)" "iam_grows (wdb w6) (wdb w8)"
    using ensure_user_Ret(1) [OF u] ensure_member_Ret(1) [OF m] s' o'(1) by (auto intro: iam_grows_order)
  have "\<exists>i. role_at (te_ID tn) (rd_code rd) i (wdb w8)" if "rd \<in> set rolesToSeed" for rd
    using s' that o'(1) by (auto simp: list_all2_conv_all_nth in_set_conv_nth) (blast intro: role_at_grows)
  moreover have "role_at (te_ID tn) ''owner'' NilID (wdb w8) \<or> owner_in (te_ID tn) (u_ID u) (wdb w8)"
    using o' oid by (auto dest: role_at_grows)
  ultimately show ?thesis
    using ensure_tenant_Ret(2) [OF t] ensure_org_Ret [OF g] ensure_user_Ret(2) [OF u] ensure_member_Ret(2) [OF m] get_grows [OF grow(1)]
      get_grows [OF grow(2)] get_grows [OF grow(3)]
    unfolding settled_def r by (auto simp: r)
qed

section \<open>A second run\<close>

lemma look_up_done:
  assumes "m e w = (r, w')"
  shows "look_up msg m e w = (case r of Ret x \<Rightarrow> Ret (Some x) | Fail er \<Rightarrow> if er = ErrNotFound then Ret None else Fail (Wrapped msg er) | Panic p \<Rightarrow> Panic p, w')"
  using assms by (cases r) (auto simp: look_up_def bindP_def tryP_def ret_def fail_def lift_res_def)

lemma seed_role_again:
  assumes "seed_role c tid ps rd e w = (r, w')" and at: "role_at tid (rd_code rd) i (wdb w)"
  shows "rights_only (wdb w) (wdb w') \<and> (r = Ret (i, False) \<or> \<not> is_Ret r)"
proof -
  from at obtain row where row: "sql_GetRoleByCode tid (rd_code rd) (wdb w) = Ret row" "ro_id row = i" by (auto simp: role_at_def)
  obtain x w1 where g: "repo_GetRoleByCode c tid (rd_code rd) e w = (x, w1)" by fastforce
  note f = get_role_found [OF g row(1)]
  from f(2) show ?thesis
  proof
    assume "\<exists>rps. x = Ret (role_of_row rps (local_off e) row)"
    then obtain rps where x: "x = Ret (role_of_row rps (local_off e) row)" by blast
    let ?sync = "if rps = [] then or_else (repo_AssignPermissionsToRole c i (rd_getPermIDs rd ps)) () else ret ()"
    obtain r2 w2 where a: "?sync e w1 = (r2, w2)" by fastforce
    with assms(1) look_up_done [of "repo_GetRoleByCode c tid (rd_code rd)", OF g] x row(2) have "w' = w2 \<and> (r = Ret (i, False) \<or> \<not> is_Ret r)"
      by (cases r2; cases rps) (auto simp: seed_role_def bindP_def role_of_row_def ret_def)
    with staysD [OF sync_rights a] f(1) show ?thesis by simp
  qed (use assms(1) look_up_done [of "repo_GetRoleByCode c tid (rd_code rd)", OF g] f(1) in \<open>auto simp: seed_role_def bindP_def rights_only_refl\<close>)
qed

lemma role_at_rights: "role_at tid code i d \<Longrightarrow> rights_only d d' \<Longrightarrow> role_at tid code i d'"
  by (blast intro: role_at_grows rights_grow)

lemma seed_all_again:
  "mapP (seed_role c tid ps) rds e w = (r, w') \<Longrightarrow> list_all2 (\<lambda>rd i. role_at tid (rd_code rd) i (wdb w)) rds is \<Longrightarrow>
     rights_only (wdb w) (wdb w') \<and> (r = Ret (map (\<lambda>i. (i, False)) is) \<or> \<not> is_Ret r)"
proof (induction rds arbitrary: "is" w r w')
  case (Cons rd rds)
  then obtain i js where js: "is = i # js" "role_at tid (rd_code rd) i (wdb w)" "list_all2 (\<lambda>rd i. role_at tid (rd_code rd) i (wdb w)) rds js"
    by (auto simp: list_all2_Cons1)
  obtain r1 w1 where s: "seed_role c tid ps rd e w = (r1, w1)" by fastforce
  note a = seed_role_again [OF s js(2)]
  show ?case
  proof (cases r1)
    case (Ret x)
    obtain r2 w2 where m: "mapP (seed_role c tid ps) rds e w1 = (r2, w2)" by fastforce
    have "list_all2 (\<lambda>rd i. role_at tid (rd_code rd) i (wdb w1)) rds js"
      using js(3) by (rule list_all2_mono) (use a in \<open>blast intro: role_at_rights\<close>)
    from Cons.IH [OF m this] Cons.prems(1) a s m Ret js(1) show ?thesis
      by (cases r2) (auto simp: bindP_def ret_def dest: rights.R_trans)
  qed (use Cons.prems(1) a s in \<open>auto simp: bindP_def\<close>)
qed (auto simp: ret_def rights_only_refl)

text \<open>\<open>repeats T m P\<close>: from tables in \<open>T\<close> the procedure stays in \<open>T\<close>, whatever fails, and a value it returns is in \<open>P\<close>.\<close>

definition repeats :: "('db \<Rightarrow> bool) \<Rightarrow> ('db, 'a) proc \<Rightarrow> ('a \<Rightarrow> bool) \<Rightarrow> bool" where
  "repeats T m P \<longleftrightarrow> (\<forall>e w r w'. T (wdb w) \<longrightarrow> m e w = (r, w') \<longrightarrow> T (wdb w') \<and> (\<forall>x. r = Ret x \<longrightarrow> P x))"

lemma repeatsI: "(\<And>e w r w'. T (wdb w) \<Longrightarrow> m e w = (r, w') \<Longrightarrow> T (wdb w') \<and> (\<forall>x. r = Ret x \<longrightarrow> P x)) \<Longrightarrow> repeats T m P"
  by (auto simp: repeats_def)

lemma repeatsD: "repeats T m P \<Longrightarrow> m e w = (r, w') \<Longrightarrow> T (wdb w) \<Longrightarrow> T (wdb w') \<and> (\<forall>x. r = Ret x \<longrightarrow> P x)"
  by (auto simp: repeats_def)

lemma repeats_bind:
  assumes m: "repeats T m P" and k: "\<And>x. P x \<Longrightarrow> repeats T (k x) Q"
  shows "repeats T (bindP m k) Q"
proof (rule repeatsI)
  fix e w r w'
  assume t: "T (wdb w)" and b: "bindP m k e w = (r, w')"
  obtain r1 w1 where m1: "m e w = (r1, w1)" by fastforce
  note q = repeatsD [OF m m1 t]
  show "T (wdb w') \<and> (\<forall>x. r = Ret x \<longrightarrow> Q x)"
  proof (cases r1)
    case (Ret x)
    with b m1 have "k x e w1 = (r, w')" by (simp add: bindP_def)
    with repeatsD [OF k] q Ret show ?thesis by blast
  qed (use b m1 q in \<open>auto simp: bindP_def\<close>)
qed

lemma repeats_ret: "P x \<Longrightarrow> repeats T (ret x) P"
  by (auto simp: repeats_def ret_def)

lemma repeats_on_iam:
  assumes "repeats T m P"
  shows "repeats (\<lambda>d. T (bd_iam d) \<and> bd_core d = core) (on_iam m) P"
proof (rule repeatsI)
  fix e w r w'
  assume t: "T (bd_iam (wdb w)) \<and> bd_core (wdb w) = core" and "on_iam m e w = (r, w')"
  then obtain w1 where "m e \<lparr>wdb = bd_iam (wdb w), wtx = None, tick = tick w\<rparr> = (r, w1)"
    "w' = w\<lparr>wdb := (wdb w)\<lparr>bd_iam := wdb w1\<rparr>, tick := tick w1\<rparr>" by (auto simp: on_iam_eq_iff)
  with repeatsD [OF assms this(1)] t show "(T (bd_iam (wdb w')) \<and> bd_core (wdb w') = core) \<and> (\<forall>x. r = Ret x \<longrightarrow> P x)" by simp
qed

lemma repeats_on_core:
  assumes "repeats (\<lambda>d. d = core) m P"
  shows "repeats (\<lambda>d. T (bd_iam d) \<and> bd_core d = core) (on_core m) P"
proof (rule repeatsI)
  fix e w r w'
  assume t: "T (bd_iam (wdb w)) \<and> bd_core (wdb w) = core" and "on_core m e w = (r, w')"
  then obtain w1 where "m e \<lparr>wdb = bd_core (wdb w), wtx = None, tick = tick w\<rparr> = (r, w1)"
    "w' = w\<lparr>wdb := (wdb w)\<lparr>bd_core := wdb w1\<rparr>, tick := tick w1\<rparr>" by (auto simp: on_core_eq_iff)
  with repeatsD [OF assms this(1)] t show "(T (bd_iam (wdb w')) \<and> bd_core (wdb w') = core) \<and> (\<forall>x. r = Ret x \<longrightarrow> P x)" by simp
qed

lemma repeats_ensure:
  assumes "\<And>d. T d \<Longrightarrow> g d = Ret row" and "\<And>lo. P (conv lo row, False)"
  shows "repeats T (ensure msg (row_of conv c g) create) P"
proof (rule repeatsI)
  fix e w r w'
  assume t: "T (wdb w)" and m: "ensure msg (row_of conv c g) create e w = (r, w')"
  from ensure_found [OF m assms(1) [OF t]] t assms(2) show "T (wdb w') \<and> (\<forall>x. r = Ret x \<longrightarrow> P x)" by auto
qed

text \<open>The tables of a settled installation, up to the permissions.\<close>

definition same_iam :: "iam_db \<Rightarrow> iam_db \<Rightarrow> bool" where
  "same_iam d0 d \<longleftrightarrow> t_tenants d = t_tenants d0 \<and> t_users d = t_users d0 \<and> t_tenant_users d = t_tenant_users d0 \<and> t_roles d = t_roles d0 \<and>
     t_user_roles d = t_user_roles d0 \<and> t_service_accounts d = t_service_accounts d0 \<and> t_api_keys d = t_api_keys d0"

lemma same_iam_rights: "same_iam d0 d \<Longrightarrow> rights_only d d' \<Longrightarrow> same_iam d0 d'"
  by (auto simp: same_iam_def rights_only_def)

lemma same_iam_refl: "same_iam d d"
  by (simp add: same_iam_def)

lemma same_iam_reads:
  assumes "same_iam d0 d"
  shows "sql_GetTenantByCode code d = sql_GetTenantByCode code d0" "sql_GetUserByEmail email d = sql_GetUserByEmail email d0"
    "sql_GetTenantMember tid uid d = sql_GetTenantMember tid uid d0" "role_at tid code i d = role_at tid code i d0" "owner_in tid uid d = owner_in tid uid d0"
  using assms
  by (simp_all add: same_iam_def sql_GetTenantByCode_def sql_GetUserByEmail_def sql_GetTenantMember_def role_at_def sql_GetRoleByCode_def owner_in_iff)

lemma wildcard_same: "sql_EnsureWildcard i t d = (r, d') \<Longrightarrow> same_iam d0 d \<Longrightarrow> same_iam d0 d'"
  by (auto simp: sql_EnsureWildcard_def same_iam_def split: if_splits)

lemma repeats_wildcard: "repeats (same_iam d0) (or_else (stmt (pool_ctx c) (sql_EnsureWildcard i)) z) (\<lambda>_. True)"
proof (rule repeatsI)
  fix e w r w'
  assume t: "same_iam d0 (wdb w)" and m: "or_else (stmt (pool_ctx c) (sql_EnsureWildcard i)) z e w = (r, w')"
  obtain r1 w1 where s: "stmt (pool_ctx c) (sql_EnsureWildcard i) e w = (r1, w1)" by fastforce
  have "w' = w1" using m s by (cases r1) (auto simp: or_else_def bindP_def tryP_def ret_def)
  with stmt_pool_cases [OF s] t show "same_iam d0 (wdb w') \<and> (\<forall>x. r = Ret x \<longrightarrow> True)"
    by (auto dest: wildcard_same)
qed

lemma repeats_roles:
  assumes "list_all2 (\<lambda>rd i. role_at tid (rd_code rd) i d0) rolesToSeed is"
  shows "repeats (same_iam d0) (seed_roles c tid) (\<lambda>xs. xs = map (\<lambda>i. (i, False)) is)"
  unfolding seed_roles_def
proof (rule repeats_bind)
  show "repeats (same_iam d0) (wrap_err ''list permissions'' (repo_ListPermissions c)) (\<lambda>_. True)"
    unfolding repo_ListPermissions_def by (rule repeatsI) (auto dest!: keepsD [rotated] intro!: keeps_intros)
  show "repeats (same_iam d0) (mapP (seed_role c tid ps) rolesToSeed) (\<lambda>xs. xs = map (\<lambda>i. (i, False)) is)" for ps
  proof (rule repeatsI)
    fix e w r w'
    assume t: "same_iam d0 (wdb w)" and m: "mapP (seed_role c tid ps) rolesToSeed e w = (r, w')"
    have "list_all2 (\<lambda>rd i. role_at tid (rd_code rd) i (wdb w)) rolesToSeed is"
      using assms by (simp add: same_iam_reads(4) [OF t])
    from seed_all_again [OF m this] t show "same_iam d0 (wdb w') \<and> (\<forall>x. r = Ret x \<longrightarrow> x = map (\<lambda>i. (i, False)) is)"
      by (auto intro: same_iam_rights)
  qed
qed

lemma repeats_owner:
  assumes "oid = NilID \<or> owner_in tid uid d0"
  shows "repeats (same_iam d0) (ensure_owner c tid uid oid) (\<lambda>b. \<not> b)"
proof (rule repeatsI)
  fix e w r w'
  assume t: "same_iam d0 (wdb w)" and m: "ensure_owner c tid uid oid e w = (r, w')"
  from ensure_owner_again [OF m] assms t show "same_iam d0 (wdb w') \<and> (\<forall>x. r = Ret x \<longrightarrow> \<not> x)"
    by (auto simp: same_iam_reads(5) [OF t])
qed

lemma seed_again:
  assumes "settled cfg r d0"
  shows "repeats (\<lambda>d. same_iam (bd_iam d0) (bd_iam d) \<and> bd_core d = bd_core d0) (seed k wid c cfg)
    (\<lambda>x. x = r\<lparr>br_TenantCreated := False, br_OrgCreated := False, br_UserCreated := False, br_MemberCreated := False,
       br_RolesCreated := 0, br_RolesSkipped := 6, br_UserRoleCreated := False\<rparr>)"
proof -
  let ?t = "br_TenantID r" and ?u = "br_UserID r"
  from assms obtain tr gr ur mr where rows: "sql_GetTenantByCode (bc_TenantCode cfg) (bd_iam d0) = Ret tr" "tn_id tr = ?t"
    "sql_GetOrganizationByCode ?t (bc_OrgCode cfg) (bd_core d0) = Ret gr" "or_id gr = br_OrgID r"
    "sql_GetUserByEmail (ToLower (bc_Email cfg)) (bd_iam d0) = Ret ur" "us_id ur = ?u" "sql_GetTenantMember ?t ?u (bd_iam d0) = Ret mr"
    by (auto simp: settled_def)
  from assms have "\<forall>rd \<in> set rolesToSeed. \<exists>i. role_at ?t (rd_code rd) i (bd_iam d0)" by (simp add: settled_def)
  then obtain f where f: "\<forall>rd \<in> set rolesToSeed. role_at ?t (rd_code rd) (f rd) (bd_iam d0)" by metis
  let ?is = "map f rolesToSeed"
  have roles: "list_all2 (\<lambda>rd i. role_at ?t (rd_code rd) i (bd_iam d0)) rolesToSeed ?is" using f by (simp add: list_all2_map2 list_all2_same)
  have own: "owner_role_id (map (\<lambda>i. (i, False)) ?is) = NilID \<or> owner_in ?t ?u (bd_iam d0)"
    using assms owner_seeded [of "\<lambda>code i. role_at ?t code i (bd_iam d0)" "map (\<lambda>i. (i, False)) ?is"] roles
    by (auto simp: settled_def role_at_def list_all2_map2)
  have tn: "repeats (same_iam (bd_iam d0)) (ensure_tenant c cfg) (\<lambda>(t, b). te_ID t = ?t \<and> \<not> b)"
    unfolding ensure_tenant_def tenant_repo_GetByCode_def
    by (rule repeats_ensure [where row = tr]) (simp_all add: same_iam_reads rows toDomainTenant_def)
  have gn: "repeats (\<lambda>d. d = bd_core d0) (ensure_org c cfg ?t) (\<lambda>(g, b). og_ID g = br_OrgID r \<and> \<not> b)"
    unfolding ensure_org_def org_repo_GetByCode_def read_org_row
    by (rule repeats_ensure [where row = gr]) (simp_all add: rows toDomainOrganization_def)
  have un: "repeats (same_iam (bd_iam d0)) (ensure_user k c cfg) (\<lambda>(u, b). u_ID u = ?u \<and> \<not> b)"
    unfolding ensure_user_def repo_GetUserByEmail_def
    by (rule repeats_ensure [where row = ur]) (simp_all add: same_iam_reads rows user_of_row_def)
  have mn: "repeats (same_iam (bd_iam d0)) (ensure_member c ?t ?u) (\<lambda>(m, b). \<not> b)"
    unfolding ensure_member_def repo_GetTenantMember_def
    by (rule repeats_ensure [where row = mr]) (simp_all add: same_iam_reads rows)
  show ?thesis
    unfolding seed_def
    by (intro repeats_bind [OF repeats_on_iam [OF repeats_wildcard]] repeats_bind [OF repeats_on_iam [OF tn]] repeats_bind [OF repeats_on_core [OF gn]])
       (auto intro!: repeats_bind [OF repeats_on_core [OF gn]] repeats_bind [OF repeats_on_iam [OF un]] repeats_bind [OF repeats_on_iam [OF mn]]
        repeats_bind [OF repeats_on_iam [OF repeats_roles [OF roles]]] repeats_bind [OF repeats_on_iam [OF repeats_owner [OF own]]] repeats_ret
        simp: rolesToSeed_def filter_map comp_def)
qed

text \<open>C16. Seeding is idempotent. After a run that returned, however many of its ignored statements failed, a second run
  with the same configuration creates nothing, also when statements of it are refused or lose their
  reply: the organizations and all other tables of the core are as they were, and so are tenants,
  users, members, roles, role assignments, service accounts and keys (only permissions of roles may
  be completed). If it returns, it reports the same identifiers, no creation, and six roles found.\<close>

theorem bootstrap_idempotent:
  assumes "Run k wid c cfg e w = (Ret r, w1)" and "wdb w2 = wdb w1" and "Run k' wid' c' cfg e' w2 = (x, w3)"
  shows "bd_core (wdb w3) = bd_core (wdb w1) \<and> same_iam (bd_iam (wdb w1)) (bd_iam (wdb w3)) \<and>
    (is_Ret x \<longrightarrow> x = Ret (r\<lparr>br_TenantCreated := False, br_OrgCreated := False, br_UserCreated := False, br_MemberCreated := False,
       br_RolesCreated := 0, br_RolesSkipped := 6, br_UserRoleCreated := False\<rparr>))"
proof -
  from assms(1) have cfg: "bc_Email cfg \<noteq> []" "bc_Password cfg \<noteq> []" and s: "seed k wid c (with_defaults cfg) e w = (Ret r, w1)"
    by (auto simp: Run_def bindP_Ret_iff proc_simps)
  from assms(3) cfg have a: "seed k' wid' c' (with_defaults cfg) e' w2 = (x, w3)" by (simp add: Run_def guard_def)
  from repeatsD [OF seed_again [OF seed_settles [OF s]] a] assms(2) show ?thesis
    by (cases x) (auto simp: same_iam_refl)
qed

section \<open>The rights of the owner\<close>

lemma assign_all_Ret:
  "mapP (\<lambda>p. stmt (pool_ctx c) (sql_AssignPermissionToRole \<lparr>rp_role_id = i, rp_permission_id = p\<rparr>)) pids e w = (Ret us, w') \<Longrightarrow>
     set (t_role_permissions (wdb w')) = set (t_role_permissions (wdb w)) \<union> (\<lambda>p. \<lparr>rp_role_id = i, rp_permission_id = p\<rparr>) ` set pids"
proof (induction pids arbitrary: us w)
  case (Cons p pids)
  then obtain w1 vs where s: "stmt (pool_ctx c) (sql_AssignPermissionToRole \<lparr>rp_role_id = i, rp_permission_id = p\<rparr>) e w = (Ret (), w1)"
    and m: "mapP (\<lambda>p. stmt (pool_ctx c) (sql_AssignPermissionToRole \<lparr>rp_role_id = i, rp_permission_id = p\<rparr>)) pids e w1 = (Ret vs, w')"
    by (auto simp: bindP_Ret_iff proc_simps)
  from s have "set (t_role_permissions (wdb w1)) = insert \<lparr>rp_role_id = i, rp_permission_id = p\<rparr> (set (t_role_permissions (wdb w)))"
    by (auto simp: stmt_Ret_outside sql_AssignPermissionToRole_def split: if_splits)
  with Cons.IH [OF m] show ?case by auto
qed (simp add: proc_simps)

text \<open>The new role has its permissions; those of the other roles stay.\<close>

lemma assign_rights_Ret:
  assumes "repo_AssignPermissionsToRole c i pids e w = (Ret u, w')"
  shows "\<forall>p \<in> set pids. \<lparr>rp_role_id = i, rp_permission_id = p\<rparr> \<in> set (t_role_permissions (wdb w'))"
    "\<forall>x \<in> set (t_role_permissions (wdb w)). rp_role_id x \<noteq> i \<longrightarrow> x \<in> set (t_role_permissions (wdb w'))"
proof -
  from assms obtain x w1 us where t: "stmt (pool_ctx c) (sql_ClearRolePermissions i) e w = (x, w1)"
    and m: "mapP (\<lambda>p. stmt (pool_ctx c) (sql_AssignPermissionToRole \<lparr>rp_role_id = i, rp_permission_id = p\<rparr>)) pids e w1 = (Ret us, w')"
    by (auto simp: repo_AssignPermissionsToRole_def bindP_Ret_iff tryP_Ret_iff proc_simps)
  from stmt_pool_cases [OF t] have "wdb w1 = wdb w \<or> wdb w1 = (wdb w)\<lparr>t_role_permissions := filter (\<lambda>r. \<not> pg_eq (rp_role_id r) i) (t_role_permissions (wdb w))\<rparr>"
    by (auto simp: sql_ClearRolePermissions_def)
  then show "\<forall>p \<in> set pids. \<lparr>rp_role_id = i, rp_permission_id = p\<rparr> \<in> set (t_role_permissions (wdb w'))"
    "\<forall>x \<in> set (t_role_permissions (wdb w)). rp_role_id x \<noteq> i \<longrightarrow> x \<in> set (t_role_permissions (wdb w'))"
    by (auto simp: assign_all_Ret [OF m] pg_eq_def)
qed

definition role_ids :: "iam_db \<Rightarrow> ID set" where
  "role_ids d = ro_id ` set (t_roles d)"

definition keeps_rights :: "iam_db \<Rightarrow> iam_db \<Rightarrow> bool" where
  "keeps_rights d d' \<longleftrightarrow> t_permissions d' = t_permissions d \<and> role_ids d \<subseteq> role_ids d' \<and>
     (\<forall>x \<in> set (t_role_permissions d). rp_role_id x \<in> role_ids d \<longrightarrow> x \<in> set (t_role_permissions d'))"

lemma keeps_rights_order: "keeps_rights d d" "keeps_rights d1 d2 \<Longrightarrow> keeps_rights d2 d3 \<Longrightarrow> keeps_rights d1 d3"
  by (auto simp: keeps_rights_def)

lemma seed_role_created:
  assumes "seed_role c tid ps rd e w = (Ret (i, True), w')"
  shows "keeps_rights (wdb w) (wdb w') \<and> i \<in> role_ids (wdb w') \<and>
    (\<forall>p \<in> set (rd_getPermIDs rd ps). \<lparr>rp_role_id = i, rp_permission_id = p\<rparr> \<in> set (t_role_permissions (wdb w')))"
proof -
  from assms obtain w1 w2 role where l: "repo_GetRoleByCode c tid (rd_code rd) e w = (Fail ErrNotFound, w1)"
    and n: "system_role c tid rd e w1 = (Ret role, w2)" and a: "repo_AssignPermissionsToRole c i (rd_getPermIDs rd ps) e w2 = (Ret (), w')"
    and i: "i = rol_ID role"
    by (auto simp: seed_role_def bindP_Ret_iff proc_simps look_up_Ret_iff split: option.splits)
  from n obtain row t where "sql_CreateRole row t (wdb w1) = (Ret row, wdb w2)" "ro_id row = i"
    by (force simp: system_role_def bindP_Ret_iff read_with_Ret_iff stmt_Ret_outside proc_simps repo_CreateRole_def role_row_of_def i create_Ret_iff)
  then have row: "wdb w2 = (wdb w1)\<lparr>t_roles := t_roles (wdb w1) @ [row]\<rparr>" "ro_id row = i" "i \<notin> role_ids (wdb w1)"
    by (auto simp: create_Ret_iff role_ids_def role_clash_def list_ex_iff)
  from staysD [OF rights_assign a] have "t_roles (wdb w') = t_roles (wdb w2)" "t_permissions (wdb w') = t_permissions (wdb w2)"
    by (auto simp: rights_only_def)
  with assign_rights_Ret [OF a] row get_role_cases(1) [OF l] show ?thesis
    by (auto simp: keeps_rights_def role_ids_def)
qed

lemma seed_all_created:
  "mapP (seed_role c tid ps) rds e w = (Ret xs, w') \<Longrightarrow> \<forall>x \<in> set xs. snd x \<Longrightarrow> keeps_rights (wdb w) (wdb w') \<and>
     list_all2 (\<lambda>rd x. \<forall>p \<in> set (rd_getPermIDs rd ps). \<lparr>rp_role_id = fst x, rp_permission_id = p\<rparr> \<in> set (t_role_permissions (wdb w'))) rds xs"
proof (induction rds arbitrary: xs w)
  case (Cons rd rds)
  then obtain i w1 ys where s: "seed_role c tid ps rd e w = (Ret (i, True), w1)" and m: "mapP (seed_role c tid ps) rds e w1 = (Ret ys, w')"
    and xs: "xs = (i, True) # ys" and ys: "\<forall>x \<in> set ys. snd x" by (auto simp: bindP_Ret_iff proc_simps)
  from seed_role_created [OF s] Cons.IH [OF m ys] show ?case
    by (auto simp: xs keeps_rights_def)
qed (simp add: proc_simps keeps_rights_order)

lemma assign_user_role_Ret:
  "sql_AssignUserRole x t d = (Ret u, d') \<Longrightarrow> x \<in> set (t_user_roles d') \<and> ux_tenant_id x \<noteq> NilID \<and> ux_user_id x \<noteq> NilID \<and>
     t_roles d' = t_roles d \<and> t_permissions d' = t_permissions d \<and> t_role_permissions d' = t_role_permissions d"
  by (auto simp: sql_AssignUserRole_def split: if_splits)

lemma ensure_owner_created:
  assumes "ensure_owner c tid uid oid e w = (Ret True, w')"
  shows "\<lparr>ux_tenant_id = tid, ux_user_id = uid, ux_role_id = oid\<rparr> \<in> set (t_user_roles (wdb w'))" "tid \<noteq> NilID" "uid \<noteq> NilID"
    "t_roles (wdb w') = t_roles (wdb w)" "t_permissions (wdb w') = t_permissions (wdb w)" "t_role_permissions (wdb w') = t_role_permissions (wdb w)"
proof -
  from assms obtain t where "sql_AssignUserRole \<lparr>ux_tenant_id = tid, ux_user_id = uid, ux_role_id = oid\<rparr> t (wdb w) = (Ret (), wdb w')"
    by (auto simp: ensure_owner_def repo_ListUserRolesInTenant_def repo_AssignUserRole_def bindP_Ret_iff proc_simps query_Ret_outside stmt_Ret_outside
        split: if_splits)
  from assign_user_role_Ret [OF this] show "\<lparr>ux_tenant_id = tid, ux_user_id = uid, ux_role_id = oid\<rparr> \<in> set (t_user_roles (wdb w'))" "tid \<noteq> NilID"
    "uid \<noteq> NilID" "t_roles (wdb w') = t_roles (wdb w)" "t_permissions (wdb w') = t_permissions (wdb w)"
    "t_role_permissions (wdb w') = t_role_permissions (wdb w)" by simp_all
qed

lemma user_has_permission:
  assumes "\<lparr>ux_tenant_id = tid, ux_user_id = uid, ux_role_id = i\<rparr> \<in> set (t_user_roles d)" "tid \<noteq> NilID" "uid \<noteq> NilID" "i \<in> role_ids d"
    and "\<lparr>rp_role_id = i, rp_permission_id = pm_id p\<rparr> \<in> set (t_role_permissions d)" "p \<in> set (t_permissions d)"
  shows "pm_code p \<in> set (sql_ListUserPermissionsInTenant tid uid d)"
proof -
  from assms(4) obtain r where "r \<in> set (t_roles d)" "ro_id r = i" by (auto simp: role_ids_def)
  with assms(1-3) have r: "r \<in> set (roles_of_user tid uid d)" by (force simp: roles_of_user_def pg_eq_def)
  have "p \<in> set (permissions_of_role (ro_id r) d)" using assms(5,6) \<open>ro_id r = i\<close> by (force simp: permissions_of_role_def)
  with r show ?thesis by (auto simp: sql_ListUserPermissionsInTenant_def)
qed

lemma filter_all: "length (filter P xs) = length xs \<Longrightarrow> \<forall>x \<in> set xs. P x"
  by (metis length_filter_less less_irrefl)

lemma seed_owner_rights:
  assumes "seed k wid c cfg e w = (Ret r, w')" and "br_RolesCreated r = 6" "br_UserRoleCreated r" and p: "p \<in> set (t_permissions (bd_iam (wdb w')))"
  shows "pm_code p \<in> set (sql_ListUserPermissionsInTenant (br_TenantID r) (br_UserID r) (bd_iam (wdb w')))"
  using assms(1)
proof (cases rule: seed_Ret)
  case (1 w0 tn tb w2 g gb w3 w4 u ub m mb w5 xs w6 rb w7 w8)
  have ow: "ensure_owner c (te_ID tn) (u_ID u) (owner_role_id xs) e \<lparr>wdb = wdb w7, wtx = None, tick = tick w7\<rparr> = (Ret True, w8)"
    using 1(7,9) assms(3) by simp
  let ?ps = "map permission_of_row (sql_ListPermissions (wdb w6))"
  from seed_roles_Ret [OF 1(6)] obtain w9 where s: "mapP (seed_role c (te_ID tn) ?ps) rolesToSeed e w9 = (Ret xs, w7)" and w9: "wdb w9 = wdb w6"
    by auto
  note at = seed_all_Ret [OF s]
  have "length xs = 6" using at by (auto simp: rolesToSeed_def dest: list_all2_lengthD)
  then have "\<forall>x \<in> set xs. snd x" using 1(9) assms(2) by (intro filter_all) simp
  note made = seed_all_created [OF s this]
  from owner_first [OF made [THEN conjunct2]]
  have rights: "\<forall>p \<in> set (allPermIDs ?ps). \<lparr>rp_role_id = owner_role_id xs, rp_permission_id = p\<rparr> \<in> set (t_role_permissions (wdb w7))" by metis
  have "role_at (te_ID tn) ''owner'' (owner_role_id xs) (wdb w7)"
    using owner_seeded [of "\<lambda>code i. role_at (te_ID tn) code i (wdb w7)"] at by simp
  then have "owner_role_id xs \<in> role_ids (wdb w7)"
    by (auto simp: role_at_def role_ids_def sql_GetRoleByCode_def dest!: select_one_in intro: rev_image_eqI)
  moreover have "t_permissions (wdb w7) = t_permissions (wdb w6)" using made w9 by (simp add: keeps_rights_def)
  moreover note o = ensure_owner_created [OF ow, simplified]
  ultimately have "pm_code p \<in> set (sql_ListUserPermissionsInTenant (te_ID tn) (u_ID u) (wdb w8))"
    using rights p 1(8) by (intro user_has_permission [OF o(1)]) (auto simp: o allPermIDs_def permission_of_row_def sql_ListPermissions_def role_ids_def)
  then show ?thesis using 1(8,9) by simp
qed

lemma wildcard_listed:
  assumes "or_else (stmt (pool_ctx c) (sql_EnsureWildcard i)) () e w = (Ret (), w')" "fault_at e (tick w) = NoFault" "i \<notin> pm_id ` set (t_permissions (wdb w))"
  shows "\<exists>p \<in> set (t_permissions (wdb w')). pm_code p = ''*''"
  using assms
  by (auto simp: or_else_def bindP_Ret_iff tryP_Ret_iff proc_simps stmt_def Let_def sql_EnsureWildcard_def list_ex_iff split: if_splits)

lemma seed_keeps_permissions:
  assumes "seed k wid c cfg e w = (Ret r, w')" "fault_at e (tick w) = NoFault" "wid \<notin> pm_id ` set (t_permissions (bd_iam (wdb w)))"
  shows "\<exists>p \<in> set (t_permissions (bd_iam (wdb w'))). pm_code p = ''*''"
  using assms(1)
proof (cases rule: seed_Ret)
  case (1 w0 tn tb w2 g gb w3 w4 u ub m mb w5 xs w6 rb w7 w8)
  have "\<exists>p \<in> set (t_permissions (wdb w0)). pm_code p = ''*''" using wildcard_listed [OF 1(1)] assms(2,3) by simp
  moreover obtain w9 where "mapP (seed_role c (te_ID tn) (map permission_of_row (sql_ListPermissions (wdb w6)))) rolesToSeed e w9 = (Ret xs, w7)"
    and "wdb w9 = wdb w6" by (rule seed_roles_Ret [OF 1(6)]) simp
  then have s: "iam_grows (wdb w6) (wdb w7)" "list_all2 (\<lambda>rd x. role_at (te_ID tn) (rd_code rd) (fst x) (wdb w7)) rolesToSeed xs"
    using seed_all_Ret by metis+
  moreover from ensure_owner_Ret [OF 1(7)] owner_seeded [of "\<lambda>code i. role_at (te_ID tn) code i (wdb w7)"] s have "iam_grows (wdb w7) (wdb w8)" by auto
  ultimately show ?thesis
    using ensure_tenant_Ret(1) [OF 1(2)] ensure_user_Ret(1) [OF 1(4)] ensure_member_Ret(1) [OF 1(5)] 1(8) by (simp add: iam_grows_def)
qed


section \<open>An example\<close>

definition bx_crypto :: crypto where
  "bx_crypto = \<lparr>jwt_sign = \<lambda>_ _. Ret [], jwt_method = \<lambda>_. None, jwt_verify = \<lambda>_ _ _. Fail ErrInvalidToken, bcrypt_hash = \<lambda>_ pw. Ret pw,
     bcrypt_compare = \<lambda>h pw. h = pw\<rparr>"

definition bx_env :: env where
  "bx_env = \<lparr>fault_at = \<lambda>_. NoFault, newid_at = \<lambda>n. Some (of_nat (Suc n)), clock_at = \<lambda>_. 0, dbnow_at = \<lambda>_. 0, local_off = \<lambda>_. 0,
     cvt_int64 = \<lambda>_. 0\<rparr>"

definition bx_cfg :: Config where
  "bx_cfg = \<lparr>bc_Email = ''Ann@b.c'', bc_Password = ''s'', bc_Name = [], bc_TenantCode = [], bc_TenantName = [], bc_OrgCode = [], bc_OrgName = []\<rparr>"

definition bx_world :: "boot_db world" where
  "bx_world = \<lparr>wdb = \<lparr>bd_iam = empty_iam, bd_core = empty_db\<rparr>, wtx = None, tick = 0\<rparr>"

definition bx_run :: "Result res \<times> boot_db world" where
  "bx_run = Run bx_crypto 77 Background bx_cfg bx_env bx_world"

lemma bx_first: "case fst bx_run of Ret r \<Rightarrow> br_TenantCreated r \<and> br_RolesCreated r = 6 \<and> br_UserRoleCreated r | _ \<Rightarrow> False"
  by code_simp

lemma bx_returns:
  obtains r w1 where "Run bx_crypto 77 Background bx_cfg bx_env bx_world = (Ret r, w1)" "br_RolesCreated r = 6" "br_UserRoleCreated r"
  using bx_first unfolding bx_run_def by (cases "Run bx_crypto 77 Background bx_cfg bx_env bx_world") (auto split: res.splits)

theorem bootstrap_idempotent_witness:
  "\<exists>r w1 x w3. Run bx_crypto 77 Background bx_cfg bx_env bx_world = (Ret r, w1) \<and> Run bx_crypto 77 Background bx_cfg bx_env w1 = (x, w3) \<and>
     bd_core (wdb w3) = bd_core (wdb w1) \<and> same_iam (bd_iam (wdb w1)) (bd_iam (wdb w3))"
proof -
  obtain r w1 where a: "Run bx_crypto 77 Background bx_cfg bx_env bx_world = (Ret r, w1)" by (rule bx_returns)
  obtain x w3 where b: "Run bx_crypto 77 Background bx_cfg bx_env w1 = (x, w3)" by fastforce
  from bootstrap_idempotent [OF a refl b] a b show ?thesis by blast
qed


end
