(* ===== verification/ValueJson.thy ===== *)
theory ValueJson
  imports Money Quantity Tables
begin

text \<open>
  The JSON and text forms of the value objects (\<open>pkg/sdk/money.go\<close>, \<open>pkg/sdk/quantity.go\<close>). JSON is
  taken as a value: the bytes, the notation of a number and the sign of a zero are not kept.
\<close>

section \<open>Decoding a struct\<close>

text \<open>Keys are matched to fields without regard to case, a later key wins, \<open>null\<close> and unknown keys change
  nothing, and a value of another type makes the call fail.\<close>

fun decode_fields :: "(string \<Rightarrow> json \<Rightarrow> 'a \<Rightarrow> 'a option) \<Rightarrow> (string \<times> json) list \<Rightarrow> 'a \<Rightarrow> 'a option" where
  "decode_fields put [] p = Some p"
| "decode_fields put ((k, v) # kvs) p = (case put k v p of None \<Rightarrow> None | Some q \<Rightarrow> decode_fields put kvs q)"

definition decode_struct :: "(string \<Rightarrow> json \<Rightarrow> 'a \<Rightarrow> 'a option) \<Rightarrow> json \<Rightarrow> 'a \<Rightarrow> 'a res" where
  "decode_struct put j zero =
     (case j of
        JNull \<Rightarrow> Ret zero
      | JObj kvs \<Rightarrow> (case decode_fields put kvs zero of None \<Rightarrow> Fail (Opaque ''json: cannot unmarshal'') | Some p \<Rightarrow> Ret p)
      | _ \<Rightarrow> Fail (Opaque ''json: cannot unmarshal''))"

definition decode_int64 :: "json \<Rightarrow> int64 \<Rightarrow> int64 option" where
  "decode_int64 j old =
     (case j of
        JNull \<Rightarrow> Some old
      | JNum x \<Rightarrow> if x = of_int \<lfloor>x\<rfloor> \<and> - (2 ^ 63) \<le> \<lfloor>x\<rfloor> \<and> \<lfloor>x\<rfloor> < 2 ^ 63 then Some (word_of_int \<lfloor>x\<rfloor>) else None
      | _ \<Rightarrow> None)"

definition decode_string :: "json \<Rightarrow> string \<Rightarrow> string option" where
  "decode_string j old = (case j of JNull \<Rightarrow> Some old | JStr s \<Rightarrow> Some s | _ \<Rightarrow> None)"

definition decode_float64 :: "json \<Rightarrow> float64 \<Rightarrow> float64 option" where
  "decode_float64 j old =
     (case j of
        JNull \<Rightarrow> Some old
      | JNum x \<Rightarrow> if is_finite (round64 False x) then Some (round64 False x) else None
      | _ \<Rightarrow> None)"

section \<open>Money\<close>

definition Money_MarshalJSON :: "Money \<Rightarrow> json" where
  "Money_MarshalJSON m = JObj [(''amount'', JInt (sint (amount m))), (''currency'', JStr (currency m))]"

record money_payload =
  mp_Amount :: int64
  mp_Currency :: string

definition set_money_field :: "string \<Rightarrow> json \<Rightarrow> money_payload \<Rightarrow> money_payload option" where
  "set_money_field k v p =
     (if EqualFold k ''amount'' then map_option (\<lambda>x. p\<lparr>mp_Amount := x\<rparr>) (decode_int64 v (mp_Amount p))
      else if EqualFold k ''currency'' then map_option (\<lambda>x. p\<lparr>mp_Currency := x\<rparr>) (decode_string v (mp_Currency p))
      else Some p)"

text \<open>The value stored through the pointer; on an error the pointer is not written.\<close>

definition Money_UnmarshalJSON :: "json \<Rightarrow> Money res" where
  "Money_UnmarshalJSON j =
     bind_res (decode_struct set_money_field j \<lparr>mp_Amount = 0, mp_Currency = []\<rparr>) (\<lambda>payload.
     NewMoney (mp_Amount payload) (mp_Currency payload))"

section \<open>Quantity\<close>

text \<open>\<open>%.2f\<close>: the exact value rounded to two decimals, ties to even.\<close>

definition hundredths :: "float64 \<Rightarrow> nat" where
  "hundredths f = nat (round_half_even (\<bar>fval f\<bar> * 100))"

definition fmt_2f :: "float64 \<Rightarrow> string" where
  "fmt_2f f =
     (case f of
        NaN \<Rightarrow> ''NaN'' | PInf \<Rightarrow> ''+Inf'' | NInf \<Rightarrow> ''-Inf''
      | _ \<Rightarrow> (if fneg_bit f then ''-'' else []) @ fmt_d (int (hundredths f div 100)) @ ''.'' @ fmt_0d 2 (int (hundredths f mod 100)))"

definition Quantity_String :: "Quantity \<Rightarrow> string" where
  "Quantity_String q = fmt_2f (qvalue q) @ '' '' @ unitCode q"

definition Quantity_MarshalJSON :: "Quantity \<Rightarrow> json res" where
  "Quantity_MarshalJSON q =
     (if is_finite (qvalue q) then Ret (JObj [(''unit_code'', JStr (unitCode q)), (''value'', JNum (fval (qvalue q)))])
      else Fail (Opaque ''json: unsupported value''))"

record quantity_payload =
  qp_Value :: float64
  qp_UnitCode :: string

definition set_quantity_field :: "string \<Rightarrow> json \<Rightarrow> quantity_payload \<Rightarrow> quantity_payload option" where
  "set_quantity_field k v p =
     (if EqualFold k ''value'' then map_option (\<lambda>x. p\<lparr>qp_Value := x\<rparr>) (decode_float64 v (qp_Value p))
      else if EqualFold k ''unit_code'' then map_option (\<lambda>x. p\<lparr>qp_UnitCode := x\<rparr>) (decode_string v (qp_UnitCode p))
      else Some p)"

definition Quantity_UnmarshalJSON :: "json \<Rightarrow> Quantity res" where
  "Quantity_UnmarshalJSON j =
     bind_res (decode_struct set_quantity_field j \<lparr>qp_Value = Fin 0, qp_UnitCode = []\<rparr>) (\<lambda>payload.
     NewQuantity (qp_Value payload) (qp_UnitCode payload))"

section \<open>Round trips\<close>

lemma key_folds:
  "EqualFold ''amount'' ''amount''" "\<not> EqualFold ''currency'' ''amount''" "EqualFold ''currency'' ''currency''"
  "\<not> EqualFold ''unit_code'' ''value''" "EqualFold ''unit_code'' ''unit_code''" "EqualFold ''value'' ''value''"
  by code_simp+

lemma decode_int64_JInt: "- (2 ^ 63) \<le> n \<Longrightarrow> n < 2 ^ 63 \<Longrightarrow> decode_int64 (JInt n) old = Some (word_of_int n)"
  by (simp add: decode_int64_def JInt_def)

lemma decode_int64_sint: "decode_int64 (JInt (sint a)) old = Some a"
proof -
  have "- (2 ^ 63) \<le> sint a" "sint a < 2 ^ 63" using sint_ge [of a] sint_lt [of a] by simp_all
  from decode_int64_JInt [OF this] show ?thesis by simp
qed

text \<open>What \<open>NewMoney\<close> can return survives the round trip, and nothing else is ever decoded.\<close>

lemma money_json_roundtrip: "money_wf m \<Longrightarrow> Money_UnmarshalJSON (Money_MarshalJSON m) = Ret m"
  by (simp add: Money_UnmarshalJSON_def Money_MarshalJSON_def decode_struct_def set_money_field_def key_folds decode_int64_sint decode_string_def
      NewMoney_of_wf)

lemma money_json_wf: "Money_UnmarshalJSON j = Ret m \<Longrightarrow> money_wf m"
  by (cases "decode_struct set_money_field j \<lparr>mp_Amount = 0, mp_Currency = []\<rparr>") (auto simp: Money_UnmarshalJSON_def intro: NewMoney_wf)

lemma money_json_null: "Money_UnmarshalJSON JNull = Fail (Wrapped ''currency must be a 3-letter ISO code'' ErrInvalidCurrency)"
  by code_simp

lemma quantity_json_roundtrip:
  assumes "qvalue q = Fin x" "round64 False x = Fin x" "unitCode q \<noteq> []" "TrimSpace (ToUpper (unitCode q)) = unitCode q"
  shows "bind_res (Quantity_MarshalJSON q) Quantity_UnmarshalJSON = Ret q"
  using assms
  by (simp add: Quantity_UnmarshalJSON_def Quantity_MarshalJSON_def decode_struct_def set_quantity_field_def key_folds decode_float64_def decode_string_def
      NewQuantity_def Let_def)

text \<open>The printed amount is within half a hundredth of the value.\<close>

lemma quantity_text_near: "\<bar>of_nat (hundredths f) / 100 - \<bar>fval f\<bar>\<bar> \<le> 1 / 200"
proof -
  have "0 \<le> round_half_even (\<bar>fval f\<bar> * 100)" using round_half_even_mono [of 0 "\<bar>fval f\<bar> * 100"] round_half_even_of_int [of 0] by simp
  then have "(of_nat (hundredths f) :: rat) = of_int (round_half_even (\<bar>fval f\<bar> * 100))" by (simp add: hundredths_def)
  with round_half_even_error [of "\<bar>fval f\<bar> * 100"] show ?thesis by (simp add: abs_le_iff field_simps)
qed

end
